(* ===== verification/Prelude.thy ===== *)
theory Prelude
  imports Main "HOL-Library.Word"
begin

text \<open>
  The vocabulary shared by every component: machine integers and byte slices of Go, the
  outcome of a Go call (a value, an error or a run-time panic), the big-endian accessors of
  package encoding/binary, the error values with \<^verbatim>\<open>errors.Is\<close> and \<^verbatim>\<open>errors.Join\<close>, and the
  generic lemmas on lists and maps that the component proofs are carried by. Two locales
  state contracts several components share: \<open>codec\<close> (an encoder and the decoder that
  accepts exactly its image) and \<open>fixed_codec\<close> (the same with a constant width, so that
  encodings can be laid side by side and cut apart again).
\<close>

unbundle bit_operations_syntax

section \<open>Machine integers and bytes\<close>

type_synonym byte = "8 word"
type_synonym u16 = "16 word"
type_synonym u32 = "32 word"
type_synonym u64 = "64 word"

text \<open>A Go string is an immutable byte sequence; so is the content of a \<^verbatim>\<open>[]byte\<close>.\<close>

type_synonym bytes = "byte list"

text \<open>\<^verbatim>\<open>int\<close> is 32 or 64 bits wide, depending on the architecture the host is compiled for.\<close>

datatype goarch = Arch32 | Arch64

fun int_of_u32 :: "goarch \<Rightarrow> u32 \<Rightarrow> int" where
  "int_of_u32 Arch64 w = uint w"
| "int_of_u32 Arch32 w = sint w"

named_theorems outcome_simps \<open>how the outcome combinators compute\<close>
named_theorems wire_simps \<open>lengths and layouts of wire encodings\<close>

section \<open>Go errors\<close>

text \<open>
  The sentinel errors the code compares against, system error numbers, the typed data plane
  error, formatted errors with the errors they wrap (\<^verbatim>\<open>%w\<close>), and joined errors. The arguments
  of a format string other than the wrapped error only change the printed text and are not kept.
\<close>

datatype goerror =
    ErrInvalid | ErrPending | ErrWouldBlock
  | NetErrClosed | IoEOF | IoErrShortWrite | IoErrShortBuffer
  | ContextCanceled | ContextDeadlineExceeded | OsErrDeadlineExceeded
  | Errno int
  | DataPlaneError u16 bytes
  | Errorf string "goerror list"
  | JoinError "goerror list"

fun errors_Is :: "goerror \<Rightarrow> goerror \<Rightarrow> bool" where
  "errors_Is (Errorf s es) t = (Errorf s es = t \<or> list_ex (\<lambda>e. errors_Is e t) es)"
| "errors_Is (JoinError es) t = (JoinError es = t \<or> list_ex (\<lambda>e. errors_Is e t) es)"
| "errors_Is e t = (e = t)"

text \<open>\<^verbatim>\<open>errors.As(err, &dataPlaneErr)\<close>: the first data plane error of the tree, depth first.\<close>

fun errors_As_dataplane :: "goerror \<Rightarrow> (u16 \<times> bytes) option" and
    first_dataplane :: "goerror list \<Rightarrow> (u16 \<times> bytes) option" where
  "errors_As_dataplane (DataPlaneError k m) = Some (k, m)"
| "errors_As_dataplane (Errorf s es) = first_dataplane es"
| "errors_As_dataplane (JoinError es) = first_dataplane es"
| "errors_As_dataplane ErrInvalid = None"
| "errors_As_dataplane ErrPending = None"
| "errors_As_dataplane ErrWouldBlock = None"
| "errors_As_dataplane NetErrClosed = None"
| "errors_As_dataplane IoEOF = None"
| "errors_As_dataplane IoErrShortWrite = None"
| "errors_As_dataplane IoErrShortBuffer = None"
| "errors_As_dataplane ContextCanceled = None"
| "errors_As_dataplane ContextDeadlineExceeded = None"
| "errors_As_dataplane OsErrDeadlineExceeded = None"
| "errors_As_dataplane (Errno n) = None"
| "first_dataplane [] = None"
| "first_dataplane (e # es) =
     (case errors_As_dataplane e of Some d \<Rightarrow> Some d | None \<Rightarrow> first_dataplane es)"

text \<open>\<^verbatim>\<open>errors.Join\<close> drops nil errors and is nil when nothing is left.\<close>

definition errors_Join :: "goerror option list \<Rightarrow> goerror option" where
  "errors_Join es =
     (case List.map_filter id es of [] \<Rightarrow> None | x # xs \<Rightarrow> Some (JoinError (x # xs)))"

lemma errors_Is_refl [simp]: "errors_Is e e"
  by (cases e) auto

lemma errors_Join_None_iff [simp]: "errors_Join es = None \<longleftrightarrow> (\<forall>e \<in> set es. e = None)"
proof -
  have "List.map_filter id es = [] \<longleftrightarrow> (\<forall>e \<in> set es. e = None)"
    by (auto simp: List.map_filter_def filter_empty_conv)
  then show ?thesis by (cases "List.map_filter id es") (auto simp: errors_Join_def)
qed

section \<open>Outcomes\<close>

text \<open>
  A call returns a value, returns an error, or panics. A panic models an index or slice
  expression out of range, which in the host aborts the process.
\<close>

datatype 'a outcome = Ok 'a | Err goerror | Panic

fun obind :: "'a outcome \<Rightarrow> ('a \<Rightarrow> 'b outcome) \<Rightarrow> 'b outcome" where
  "obind (Ok x) f = f x"
| "obind (Err e) f = Err e"
| "obind Panic f = Panic"

text \<open>An error check that replaces the error: \<^verbatim>\<open>if err != nil { return ..., e }\<close>.\<close>

fun oelse :: "'a outcome \<Rightarrow> goerror \<Rightarrow> 'a outcome" where
  "oelse (Ok x) e = Ok x"
| "oelse (Err _) e = Err e"
| "oelse Panic e = Panic"

definition guard_err :: "bool \<Rightarrow> goerror \<Rightarrow> unit outcome" where
  "guard_err ok e = (if ok then Ok () else Err e)"

lemma obind_Ok_iff [simp]: "obind m f = Ok y \<longleftrightarrow> (\<exists>x. m = Ok x \<and> f x = Ok y)"
  by (cases m) auto

lemma obind_Panic_iff [simp]: "obind m f = Panic \<longleftrightarrow> m = Panic \<or> (\<exists>x. m = Ok x \<and> f x = Panic)"
  by (cases m) auto

lemma oelse_Ok_iff [simp]: "oelse m e = Ok y \<longleftrightarrow> m = Ok y"
  by (cases m) auto

lemma oelse_Panic_iff [simp]: "oelse m e = Panic \<longleftrightarrow> m = Panic"
  by (cases m) auto

lemma guard_err_Ok_iff [simp]: "guard_err b e = Ok u \<longleftrightarrow> b"
  by (simp add: guard_err_def)

lemma guard_err_not_Panic [simp]: "guard_err b e \<noteq> Panic"
  by (simp add: guard_err_def)

lemma obind_assoc [outcome_simps]: "obind (obind m f) g = obind m (\<lambda>x. obind (f x) g)"
  by (cases m) auto

section \<open>Slices\<close>

text \<open>
  \<^verbatim>\<open>xs[lo:hi]\<close> and \<^verbatim>\<open>xs[i]\<close>. A slice bound beyond the length panics here; the language allows
  a bound up to the capacity, and the decoders below never use that.
\<close>

definition slice :: "'a list \<Rightarrow> int \<Rightarrow> int \<Rightarrow> 'a list outcome" where
  "slice xs lo hi =
     (if 0 \<le> lo \<and> lo \<le> hi \<and> hi \<le> int (length xs)
      then Ok (take (nat (hi - lo)) (drop (nat lo) xs)) else Panic)"

definition slice_from :: "'a list \<Rightarrow> int \<Rightarrow> 'a list outcome" where
  "slice_from xs lo = slice xs lo (int (length xs))"

definition index :: "'a list \<Rightarrow> int \<Rightarrow> 'a outcome" where
  "index xs i = (if 0 \<le> i \<and> i < int (length xs) then Ok (xs ! nat i) else Panic)"

lemma slice_Ok [outcome_simps]:
  "0 \<le> lo \<Longrightarrow> lo \<le> hi \<Longrightarrow> hi \<le> int (length xs) \<Longrightarrow>
   slice xs lo hi = Ok (take (nat (hi - lo)) (drop (nat lo) xs))"
  by (simp add: slice_def)

lemma slice_from_Ok [outcome_simps]:
  "0 \<le> lo \<Longrightarrow> lo \<le> int (length xs) \<Longrightarrow> slice_from xs lo = Ok (drop (nat lo) xs)"
  by (simp add: slice_from_def slice_def)

lemma index_Ok [outcome_simps]:
  "0 \<le> i \<Longrightarrow> i < int (length xs) \<Longrightarrow> index xs i = Ok (xs ! nat i)"
  by (simp add: index_def)

lemma slice_Ok_length: "slice xs lo hi = Ok ys \<Longrightarrow> int (length ys) = hi - lo"
  by (auto simp: slice_def split: if_splits)

lemma replicate_numeral: "replicate (numeral k) x = x # replicate (pred_numeral k) x"
  by (simp add: numeral_eq_Suc)

definition allZero :: "bytes \<Rightarrow> bool" where
  "allZero values = list_all (\<lambda>value. value = 0) values"

lemma allZero_iff_replicate: "allZero xs \<longleftrightarrow> xs = replicate (length xs) 0"
  by (induction xs) (auto simp: allZero_def)

lemma allZero_replicate [simp]: "allZero (replicate n 0)"
  by (induction n) (auto simp: allZero_def)

lemma allZero_simps [simp]:
  "allZero []" "allZero (x # xs) \<longleftrightarrow> x = 0 \<and> allZero xs"
  "allZero (xs @ ys) \<longleftrightarrow> allZero xs \<and> allZero ys"
  by (auto simp: allZero_def)

section \<open>Big-endian integers (encoding/binary)\<close>

definition PutUint16 :: "u16 \<Rightarrow> bytes" where
  "PutUint16 v = [ucast (drop_bit 8 v), ucast v]"

definition PutUint32 :: "u32 \<Rightarrow> bytes" where
  "PutUint32 v = [ucast (drop_bit 24 v), ucast (drop_bit 16 v), ucast (drop_bit 8 v), ucast v]"

definition PutUint64 :: "u64 \<Rightarrow> bytes" where
  "PutUint64 v =
     [ucast (drop_bit 56 v), ucast (drop_bit 48 v), ucast (drop_bit 40 v), ucast (drop_bit 32 v),
      ucast (drop_bit 24 v), ucast (drop_bit 16 v), ucast (drop_bit 8 v), ucast v]"

fun Uint16 :: "bytes \<Rightarrow> u16 outcome" where
  "Uint16 (a # b # _) = Ok (ucast b OR push_bit 8 (ucast a))"
| "Uint16 _ = Panic"

fun Uint32 :: "bytes \<Rightarrow> u32 outcome" where
  "Uint32 (a # b # c # d # _) =
     Ok (ucast d OR push_bit 8 (ucast c) OR push_bit 16 (ucast b) OR push_bit 24 (ucast a))"
| "Uint32 _ = Panic"

fun Uint64 :: "bytes \<Rightarrow> u64 outcome" where
  "Uint64 (a # b # c # d # e # f # g # h # _) =
     Ok (ucast h OR push_bit 8 (ucast g) OR push_bit 16 (ucast f) OR push_bit 24 (ucast e) OR
         push_bit 32 (ucast d) OR push_bit 40 (ucast c) OR push_bit 48 (ucast b) OR
         push_bit 56 (ucast a))"
| "Uint64 _ = Panic"

lemma byte_bit_ge [simp]: "8 \<le> n \<Longrightarrow> \<not> bit (b :: byte) n"
  using bit_imp_le_length [of b n] by auto

lemma diff_less_numeral: "(n :: nat) - numeral k < numeral c \<longleftrightarrow> n < numeral k + numeral c"
  using zero_less_numeral [of c, where 'a = nat] by linarith

lemma length_PutUint [simp, wire_simps]:
  "length (PutUint16 a) = 2" "length (PutUint32 b) = 4" "length (PutUint64 c) = 8"
  by (simp_all add: PutUint16_def PutUint32_def PutUint64_def)

lemma Uint16_PutUint16 [simp]: "Uint16 (PutUint16 v @ xs) = Ok v"
proof -
  have "ucast (ucast v :: byte) OR push_bit 8 (ucast (ucast (drop_bit 8 v) :: byte)) = v"
    (is "?l = v")
  proof (rule bit_word_eqI)
    fix n assume "n < LENGTH(16)"
    then have "n < 8 \<or> 8 \<le> n \<and> n < 16" by auto
    then show "bit ?l n = bit v n" by (elim disjE conjE) (simp_all add: bit_simps diff_less_numeral)
  qed
  then show ?thesis by (simp add: PutUint16_def)
qed

lemma Uint32_PutUint32 [simp]: "Uint32 (PutUint32 v @ xs) = Ok v"
proof -
  have "ucast (ucast v :: byte) OR push_bit 8 (ucast (ucast (drop_bit 8 v) :: byte)) OR
        push_bit 16 (ucast (ucast (drop_bit 16 v) :: byte)) OR
        push_bit 24 (ucast (ucast (drop_bit 24 v) :: byte)) = v" (is "?l = v")
  proof (rule bit_word_eqI)
    fix n assume "n < LENGTH(32)"
    then have "n < 8 \<or> 8 \<le> n \<and> n < 16 \<or> 16 \<le> n \<and> n < 24 \<or> 24 \<le> n \<and> n < 32" by auto
    then show "bit ?l n = bit v n" by (elim disjE conjE) (simp_all add: bit_simps diff_less_numeral)
  qed
  then show ?thesis by (simp add: PutUint32_def)
qed

lemma Uint64_PutUint64 [simp]: "Uint64 (PutUint64 v @ xs) = Ok v"
proof -
  have "ucast (ucast v :: byte) OR push_bit 8 (ucast (ucast (drop_bit 8 v) :: byte)) OR
        push_bit 16 (ucast (ucast (drop_bit 16 v) :: byte)) OR
        push_bit 24 (ucast (ucast (drop_bit 24 v) :: byte)) OR
        push_bit 32 (ucast (ucast (drop_bit 32 v) :: byte)) OR
        push_bit 40 (ucast (ucast (drop_bit 40 v) :: byte)) OR
        push_bit 48 (ucast (ucast (drop_bit 48 v) :: byte)) OR
        push_bit 56 (ucast (ucast (drop_bit 56 v) :: byte)) = v" (is "?l = v")
  proof (rule bit_word_eqI)
    fix n assume "n < LENGTH(64)"
    then have "n < 8 \<or> 8 \<le> n \<and> n < 16 \<or> 16 \<le> n \<and> n < 24 \<or> 24 \<le> n \<and> n < 32 \<or>
      32 \<le> n \<and> n < 40 \<or> 40 \<le> n \<and> n < 48 \<or> 48 \<le> n \<and> n < 56 \<or> 56 \<le> n \<and> n < 64" by auto
    then show "bit ?l n = bit v n" by (elim disjE conjE) (simp_all add: bit_simps diff_less_numeral)
  qed
  then show ?thesis by (simp add: PutUint64_def)
qed

lemma Uint16_PutUint16_Nil [simp]: "Uint16 (PutUint16 v) = Ok v"
  using Uint16_PutUint16 [of v "[]"] by simp

lemma Uint32_PutUint32_Nil [simp]: "Uint32 (PutUint32 v) = Ok v"
  using Uint32_PutUint32 [of v "[]"] by simp

lemma Uint64_PutUint64_Nil [simp]: "Uint64 (PutUint64 v) = Ok v"
  using Uint64_PutUint64 [of v "[]"] by simp

lemma PutUint16_bytes [simp]: "PutUint16 (ucast b OR push_bit 8 (ucast (a :: byte))) = [a, (b :: byte)]"
  unfolding PutUint16_def list.inject
  by (intro conjI bit_word_eqI) (simp_all add: bit_simps)

lemma PutUint32_bytes [simp]:
  "PutUint32 (ucast d OR push_bit 8 (ucast (c :: byte)) OR push_bit 16 (ucast (b :: byte)) OR
     push_bit 24 (ucast (a :: byte))) = [a, b, c, (d :: byte)]"
  unfolding PutUint32_def list.inject
  by (intro conjI bit_word_eqI) (simp_all add: bit_simps)

lemma PutUint64_bytes [simp]:
  "PutUint64 (ucast h OR push_bit 8 (ucast (g :: byte)) OR push_bit 16 (ucast (f :: byte)) OR
     push_bit 24 (ucast (e :: byte)) OR push_bit 32 (ucast (d :: byte)) OR
     push_bit 40 (ucast (c :: byte)) OR push_bit 48 (ucast (b :: byte)) OR
     push_bit 56 (ucast (a :: byte))) = [a, b, c, d, e, f, g, (h :: byte)]"
  unfolding PutUint64_def list.inject
  by (intro conjI bit_word_eqI) (simp_all add: bit_simps)

lemma PutUint_inj [simp]:
  "PutUint16 a = PutUint16 b \<longleftrightarrow> a = b" "PutUint32 c = PutUint32 d \<longleftrightarrow> c = d"
  "PutUint64 e = PutUint64 f \<longleftrightarrow> e = f"
  by (metis Uint16_PutUint16_Nil outcome.inject(1), metis Uint32_PutUint32_Nil outcome.inject(1),
      metis Uint64_PutUint64_Nil outcome.inject(1))

lemma allZero_PutUint32 [simp]: "allZero (PutUint32 v) \<longleftrightarrow> v = 0"
proof -
  have "allZero (PutUint32 v) \<longleftrightarrow> PutUint32 v = PutUint32 0"
    by (auto simp: PutUint32_def)
  then show ?thesis by simp
qed

lemma PutUint32_0: "PutUint32 0 = replicate 4 0"
  by (simp add: PutUint32_def numeral_eq_Suc)

text \<open>Reading never panics on enough bytes, and what was read is what writing it back gives.\<close>

lemma Uint16_total: "2 \<le> length xs \<Longrightarrow> \<exists>v. Uint16 xs = Ok v \<and> take 2 xs = PutUint16 v"
  by (cases xs rule: Uint16.cases) simp_all

lemma Uint32_total: "4 \<le> length xs \<Longrightarrow> \<exists>v. Uint32 xs = Ok v \<and> take 4 xs = PutUint32 v"
  by (cases xs rule: Uint32.cases) simp_all

lemma Uint64_total: "8 \<le> length xs \<Longrightarrow> \<exists>v. Uint64 xs = Ok v \<and> take 8 xs = PutUint64 v"
  by (cases xs rule: Uint64.cases) simp_all

section \<open>Maps, lists and function updates\<close>

lemma ran_delete_inj: "inj_on m (dom m) \<Longrightarrow> m i = Some v \<Longrightarrow> ran (m(i := None)) = ran m - {v}"
  by (auto simp: ran_def inj_on_def dom_def) (metis option.inject)

lemma inj_on_map_delete: "inj_on m (dom m) \<Longrightarrow> inj_on (m(i := None)) (dom (m(i := None)))"
  by (auto simp: inj_on_def)

lemma inj_on_map_insert:
  "inj_on m (dom m) \<Longrightarrow> v \<notin> ran m \<Longrightarrow> inj_on (m(i \<mapsto> v)) (dom (m(i \<mapsto> v)))"
  by (auto simp: inj_on_def ran_def)

lemma distinct_map_remove1:
  "distinct (map f xs) \<Longrightarrow> x \<in> set xs \<Longrightarrow>
     distinct (map f (remove1 x xs)) \<and> f ` set (remove1 x xs) = f ` set xs - {f x}"
  by (induction xs) (auto dest: notin_set_remove1)

lemma comp_upd_triv [simp]: "f (g s) = v \<Longrightarrow> (f \<circ> g)(s := v) = f \<circ> g"
  by auto

end
