(* ===== verification/GoNet.thy ===== *)
theory GoNet
  imports Prelude
begin

text \<open>
  What the sources use of the packages net, net/netip and unicode/utf8: IP addresses as byte
  slices and as values, socket addresses, the interface table of the operating system (a
  parameter of the definitions that look a scope up in it), UTF-8 validity, and \<^verbatim>\<open>copy\<close> into a
  fixed array.
\<close>

section \<open>Package net\<close>

text \<open>\<^verbatim>\<open>net.UDPAddr\<close> and \<^verbatim>\<open>net.TCPAddr\<close> have the same three fields; a \<^verbatim>\<open>net.Addr\<close> is one of
  them or an address of another kind.\<close>

record sockaddr =
  IP :: bytes
  Port :: int
  Zone :: bytes

type_synonym UDPAddr = sockaddr
type_synonym TCPAddr = sockaddr

datatype net_addr = NetTCPAddr TCPAddr | NetUDPAddr UDPAddr | OtherAddr

definition v4InV6Prefix :: bytes where
  "v4InV6Prefix = replicate 10 0 @ [0xff, 0xff]"

text \<open>\<^verbatim>\<open>net.IPv4(a, b, c, d)\<close>.\<close>

definition net_IPv4 :: "byte \<Rightarrow> byte \<Rightarrow> byte \<Rightarrow> byte \<Rightarrow> bytes" where
  "net_IPv4 a b c d = v4InV6Prefix @ [a, b, c, d]"

definition To4 :: "bytes \<Rightarrow> bytes option" where
  "To4 ip =
     (if length ip = 4 then Some ip
      else if length ip = 16 \<and> take 12 ip = v4InV6Prefix then Some (drop 12 ip)
      else None)"

definition To16 :: "bytes \<Rightarrow> bytes option" where
  "To16 ip =
     (if length ip = 4 then Some (v4InV6Prefix @ ip)
      else if length ip = 16 then Some ip else None)"

text \<open>The interface table: index and name of every interface of the host.\<close>

type_synonym iface_table = "(int \<times> bytes) list"

definition InterfaceByName :: "iface_table \<Rightarrow> bytes \<Rightarrow> (int \<times> bytes) outcome" where
  "InterfaceByName ift name =
     (if name = [] then Err (Errorf ''invalid network interface name'' [])
      else case find (\<lambda>ifi. snd ifi = name) ift of
             Some ifi \<Rightarrow> Ok ifi
           | None \<Rightarrow> Err (Errorf ''no such network interface'' []))"

definition InterfaceByIndex :: "iface_table \<Rightarrow> int \<Rightarrow> (int \<times> bytes) outcome" where
  "InterfaceByIndex ift idx =
     (if idx \<le> 0 then Err (Errorf ''invalid network interface index'' [])
      else case find (\<lambda>ifi. fst ifi = idx) ift of
             Some ifi \<Rightarrow> Ok ifi
           | None \<Rightarrow> Err (Errorf ''no such network interface'' []))"

text \<open>What an operating system guarantees of its table: positive 31-bit indices, none used
  twice, and names that are neither empty nor used twice.\<close>

definition iface_table_ok :: "iface_table \<Rightarrow> bool" where
  "iface_table_ok ift \<longleftrightarrow>
     distinct (map fst ift) \<and> distinct (map snd ift) \<and>
     (\<forall>(idx, name) \<in> set ift. 0 < idx \<and> idx < 2 ^ 31 \<and> name \<noteq> [])"

lemma length_v4InV6Prefix [simp, wire_simps]: "length v4InV6Prefix = 12"
  by (simp add: v4InV6Prefix_def)

lemma length_net_IPv4 [simp, wire_simps]: "length (net_IPv4 a b c d) = 16"
  by (simp add: net_IPv4_def)

lemma To4_length: "To4 ip = Some v \<Longrightarrow> length v = 4"
  by (auto simp: To4_def split: if_splits)

lemma To16_length: "To16 ip = Some v \<Longrightarrow> length v = 16"
  by (auto simp: To16_def split: if_splits)

lemma To4_net_IPv4 [simp]: "To4 (net_IPv4 a b c d) = Some [a, b, c, d]"
  by (simp add: To4_def net_IPv4_def)

lemma To4_To16: "To4 ip = Some v \<Longrightarrow> To16 ip = Some (v4InV6Prefix @ v)"
  by (auto simp: To4_def To16_def split: if_splits) (metis append_take_drop_id)

lemma To4_of_To16: "To16 ip = Some v \<Longrightarrow> To4 v = To4 ip"
  by (auto simp: To4_def To16_def split: if_splits)

lemma To16_of_To16: "To16 ip = Some v \<Longrightarrow> To16 v = Some v"
  by (auto simp: To16_def split: if_splits)

lemma find_distinct_Some:
  "distinct (map f xs) \<Longrightarrow> find (\<lambda>x. f x = k) xs = Some x \<longleftrightarrow> x \<in> set xs \<and> f x = k"
  by (induction xs) (auto simp: image_iff)

lemma InterfaceByName_Index:
  assumes "iface_table_ok ift" and "InterfaceByName ift name = Ok ifi"
  shows "InterfaceByIndex ift (fst ifi) = Ok ifi" "snd ifi = name" "0 < fst ifi" "fst ifi < 2 ^ 31"
proof -
  from assms have ifi: "ifi \<in> set ift" "snd ifi = name"
    by (auto simp: InterfaceByName_def iface_table_ok_def find_distinct_Some
        split: if_splits option.splits)
  moreover from assms(1) ifi(1) have "0 < fst ifi" "fst ifi < 2 ^ 31"
    by (auto simp: iface_table_ok_def)
  moreover from assms(1) ifi(1) have "find (\<lambda>i. fst i = fst ifi) ift = Some ifi"
    by (simp add: iface_table_ok_def find_distinct_Some)
  ultimately show "InterfaceByIndex ift (fst ifi) = Ok ifi" "snd ifi = name"
      "0 < fst ifi" "fst ifi < 2 ^ 31"
    by (auto simp: InterfaceByIndex_def)
qed

lemma InterfaceByIndex_Name:
  assumes "iface_table_ok ift" and "InterfaceByIndex ift idx = Ok ifi"
  shows "InterfaceByName ift (snd ifi) = Ok ifi" "fst ifi = idx" "snd ifi \<noteq> []"
proof -
  from assms have ifi: "ifi \<in> set ift" "fst ifi = idx"
    by (auto simp: InterfaceByIndex_def iface_table_ok_def find_distinct_Some
        split: if_splits option.splits)
  moreover from assms(1) ifi(1) have "snd ifi \<noteq> []"
    by (auto simp: iface_table_ok_def)
  moreover from assms(1) ifi(1) have "find (\<lambda>i. snd i = snd ifi) ift = Some ifi"
    by (simp add: iface_table_ok_def find_distinct_Some)
  ultimately show "InterfaceByName ift (snd ifi) = Ok ifi" "fst ifi = idx" "snd ifi \<noteq> []"
    by (auto simp: InterfaceByName_def)
qed

lemma Interface_not_Panic [simp]:
  "InterfaceByIndex ift idx \<noteq> Panic" "InterfaceByName ift name \<noteq> Panic"
  by (auto simp: InterfaceByIndex_def InterfaceByName_def split: option.splits)

section \<open>Package net/netip\<close>

text \<open>\<^verbatim>\<open>netip.Addr\<close>: the zero value is invalid; an IPv6 address keeps its 128 bits as two words
  and its zone.\<close>

datatype netip_addr = AddrInvalid | Addr4 u32 | Addr6 u64 u64 bytes

datatype addr_port = AddrPort (ap_addr: netip_addr) (ap_port: u16)

fun Is4 :: "netip_addr \<Rightarrow> bool" where
  "Is4 (Addr4 _) = True"
| "Is4 _ = False"

fun Is6 :: "netip_addr \<Rightarrow> bool" where
  "Is6 (Addr6 _ _ _) = True"
| "Is6 _ = False"

fun Is4In6 :: "netip_addr \<Rightarrow> bool" where
  "Is4In6 (Addr6 hi lo _) = (hi = 0 \<and> drop_bit 32 lo = 0xffff)"
| "Is4In6 _ = False"

definition addr_IsValid :: "netip_addr \<Rightarrow> bool" where
  "addr_IsValid a = (a \<noteq> AddrInvalid)"

fun Unmap :: "netip_addr \<Rightarrow> netip_addr" where
  "Unmap (Addr6 hi lo z) = (if Is4In6 (Addr6 hi lo z) then Addr4 (ucast lo) else Addr6 hi lo z)"
| "Unmap a = a"

fun As4 :: "netip_addr \<Rightarrow> bytes outcome" where
  "As4 (Addr4 v) = Ok (PutUint32 v)"
| "As4 (Addr6 hi lo z) = (if Is4In6 (Addr6 hi lo z) then Ok (PutUint32 (ucast lo)) else Panic)"
| "As4 AddrInvalid = Panic"

fun As16 :: "netip_addr \<Rightarrow> bytes" where
  "As16 (Addr4 v) = v4InV6Prefix @ PutUint32 v"
| "As16 (Addr6 hi lo _) = PutUint64 hi @ PutUint64 lo"
| "As16 AddrInvalid = replicate 16 0"

lemma length_As16 [simp, wire_simps]: "length (As16 a) = 16"
  by (cases a) auto

section \<open>Package unicode/utf8\<close>

definition utf8_cont :: "byte \<Rightarrow> bool" where
  "utf8_cont c = (0x80 \<le> c \<and> c \<le> 0xbf)"

fun utf8_valid :: "bytes \<Rightarrow> bool" where
  "utf8_valid [] = True"
| "utf8_valid (b # bs) =
     (if b < 0x80 then utf8_valid bs
      else if 0xc2 \<le> b \<and> b \<le> 0xdf then
        (case bs of c # cs \<Rightarrow> utf8_cont c \<and> utf8_valid cs | _ \<Rightarrow> False)
      else if 0xe0 \<le> b \<and> b \<le> 0xef then
        (case bs of c # d # cs \<Rightarrow>
            (if b = 0xe0 then 0xa0 \<le> c \<and> c \<le> 0xbf
             else if b = 0xed then 0x80 \<le> c \<and> c \<le> 0x9f else utf8_cont c) \<and>
            utf8_cont d \<and> utf8_valid cs
         | _ \<Rightarrow> False)
      else if 0xf0 \<le> b \<and> b \<le> 0xf4 then
        (case bs of c # d # e # cs \<Rightarrow>
            (if b = 0xf0 then 0x90 \<le> c \<and> c \<le> 0xbf
             else if b = 0xf4 then 0x80 \<le> c \<and> c \<le> 0x8f else utf8_cont c) \<and>
            utf8_cont d \<and> utf8_cont e \<and> utf8_valid cs
         | _ \<Rightarrow> False)
      else False)"

lemma utf8_valid_ascii: "list_all (\<lambda>b. b < 0x80) bs \<Longrightarrow> utf8_valid bs"
  by (induction bs) auto

section \<open>copy into a fixed array\<close>

text \<open>\<^verbatim>\<open>copy(dst[lo:hi], src)\<close> overwrites as many bytes as both have room for.\<close>

definition copy_into :: "bytes \<Rightarrow> nat \<Rightarrow> nat \<Rightarrow> bytes \<Rightarrow> bytes" where
  "copy_into dst lo hi src =
     (let n = min (hi - lo) (length src) in take lo dst @ take n src @ drop (lo + n) dst)"

lemma length_copy_into [simp, wire_simps]:
  "lo \<le> hi \<Longrightarrow> hi \<le> length dst \<Longrightarrow> length (copy_into dst lo hi src) = length dst"
  by (auto simp: copy_into_def Let_def min_def)

text \<open>The two codec contracts.\<close>

locale codec =
  fixes enc :: "'a \<Rightarrow> bytes"
    and dec :: "bytes \<Rightarrow> 'a outcome"
    and valid :: "'a \<Rightarrow> bool"
  assumes dec_enc: "valid x \<Longrightarrow> dec (enc x) = Ok x"
    and dec_sound: "dec bs = Ok x \<Longrightarrow> valid x \<and> bs = enc x"
begin

lemma dec_iff: "dec bs = Ok x \<longleftrightarrow> valid x \<and> bs = enc x"
  using dec_enc dec_sound by blast

lemma enc_inj: "valid x \<Longrightarrow> valid y \<Longrightarrow> enc x = enc y \<Longrightarrow> x = y"
  by (metis dec_enc outcome.inject(1))

lemma dec_inj: "dec bs = Ok x \<Longrightarrow> dec bs' = Ok x \<Longrightarrow> bs = bs'"
  by (simp add: dec_iff)

lemma accepted_iff: "(\<exists>x. dec bs = Ok x) \<longleftrightarrow> bs \<in> enc ` {x. valid x}"
  by (auto simp: dec_iff)

end

locale fixed_codec = codec +
  fixes width :: nat
  assumes enc_width: "valid x \<Longrightarrow> length (enc x) = width"
begin

lemma dec_width: "dec bs = Ok x \<Longrightarrow> length bs = width"
  by (simp add: dec_iff enc_width)

lemma prefix_free:
  "valid x \<Longrightarrow> valid y \<Longrightarrow> enc x @ as = enc y @ bs \<Longrightarrow> x = y \<and> as = bs"
  using enc_inj enc_width by (metis append_eq_append_conv)

text \<open>A concatenation of encodings is cut apart at multiples of the width.\<close>

lemma concat_enc_take:
  "list_all valid xs \<Longrightarrow> length (concat (map enc xs)) = width * length xs"
  by (induction xs) (auto simp: enc_width)

lemma concat_enc_inj:
  assumes "0 < width" "list_all valid xs" "list_all valid ys"
    and "concat (map enc xs) = concat (map enc ys)"
  shows "xs = ys"
  using assms(2-4)
proof (induction xs arbitrary: ys)
  case Nil
  then have "length (concat (map enc ys)) = 0" by simp
  with concat_enc_take [OF Nil.prems(2)] have "width * length ys = 0" by simp
  with assms(1) show ?case by simp
next
  case (Cons x xs)
  from Cons.prems concat_enc_take [of ys] concat_enc_take [of "x # xs"]
  have "width * length ys = width * length (x # xs)" by metis
  with assms(1) obtain y zs where ys: "ys = y # zs" by (cases ys) auto
  with Cons.prems have "enc x @ concat (map enc xs) = enc y @ concat (map enc zs)"
    and "valid x" "valid y" by auto
  then have "x = y" "concat (map enc xs) = concat (map enc zs)"
    using prefix_free by blast+
  with Cons ys show ?case by auto
qed

end

end
