(* ===== verification/Platform.thy ===== *)
theory Platform
  imports GoNet
begin

text \<open>
  The data types of package platform (socket.go, dns.go, environment.go), and the policy
  checks the standard implementation in platform/netstd makes before it opens a socket.
\<close>

datatype TCPConnectPurpose =
    TCPConnectDirect | TCPConnectFake | TCPConnectHolePunch | TCPConnectManual
  | TCPConnectProxyNAT | TCPConnectSTUNProbe | TCPConnectSocks5 | TCPConnectPortForward
  | TCPConnectDataPlane

datatype UDPBindPurpose =
    UDPBindHolePunchControl | UDPBindHolePunchCandidate | UDPBindDirect
  | UDPBindPortBoundListener | UDPBindProxyNAT | UDPBindSTUNProbe | UDPBindSocks5
  | UDPBindPortForward | UDPBindPortLease

datatype TCPListenPurpose =
    TCPListenDirect | TCPListenHolePunch | TCPListenManual | TCPListenProxyNAT
  | TCPListenSocks5 | TCPListenPortForward | TCPListenPortLease

datatype IPVersion = IPVersionV4 | IPVersionV6 | IPVersionBoth

record SocketContext =
  sc_IPVersion :: IPVersion
  sc_SocketMark :: "u32 option"
  sc_NetNS :: "bytes option"

record TCPBindOptions =
  tb_Context :: SocketContext
  tb_LocalAddr :: "TCPAddr option"
  tb_BindDevice :: "bytes option"
  tb_ReuseAddr :: "bool option"
  tb_ReusePort :: bool
  tb_OnlyV6 :: bool

record TCPConnectOptions =
  tc_RemoteAddr :: TCPAddr
  tc_Bind :: TCPBindOptions
  tc_Purpose :: TCPConnectPurpose

record UDPBindOptions =
  ub_Context :: SocketContext
  ub_LocalAddr :: "UDPAddr option"
  ub_BindDevice :: "bytes option"
  ub_ReuseAddr :: bool
  ub_ReusePort :: bool
  ub_OnlyV6 :: bool
  ub_Purpose :: UDPBindPurpose

record TCPListenOptions =
  tl_Bind :: TCPBindOptions
  tl_Purpose :: TCPListenPurpose

record DNSQuery =
  dq_Host :: bytes
  dq_IPVersion :: byte
  dq_SocketMark :: "u32 option"
  dq_NetNS :: "bytes option"

text \<open>\<^verbatim>\<open>net.SRV\<close>.\<close>

record SRV =
  srv_Target :: bytes
  srv_Port :: u16
  srv_Priority :: u16
  srv_Weight :: u16

section \<open>Policy checks of platform/netstd\<close>

datatype udp_network = Udp | Udp4 | Udp6

definition udpNetwork :: "UDPBindOptions \<Rightarrow> udp_network" where
  "udpNetwork options =
     (if (case ub_LocalAddr options of Some a \<Rightarrow> To4 (IP a) \<noteq> None | None \<Rightarrow> False) then Udp4
      else if ub_OnlyV6 options then Udp6
      else if (case ub_LocalAddr options of Some a \<Rightarrow> length (IP a) \<noteq> 0 | None \<Rightarrow> False) then Udp
      else if sc_IPVersion (ub_Context options) = IPVersionV4 then Udp4
      else Udp)"

definition validateTCPBindOptions :: "TCPBindOptions \<Rightarrow> goerror option" where
  "validateTCPBindOptions options =
     (if sc_SocketMark (tb_Context options) \<noteq> None \<or> sc_NetNS (tb_Context options) \<noteq> None \<or>
         tb_BindDevice options \<noteq> None
      then Some (Errorf ''non-default TCP bind policy is not supported by netstd'' [])
      else None)"

text \<open>
  \<^verbatim>\<open>SocketFactory.BindUDP\<close>: the policy check and the network that is passed on to
  \<^verbatim>\<open>net.ListenUDP\<close>, which is the parameter \<open>listenUDP\<close>.
\<close>

definition BindUDP :: "(udp_network \<Rightarrow> UDPAddr option \<Rightarrow> 'c outcome) \<Rightarrow> UDPBindOptions \<Rightarrow> 'c outcome" where
  "BindUDP listenUDP options =
     (if sc_SocketMark (ub_Context options) \<noteq> None \<or> sc_NetNS (ub_Context options) \<noteq> None \<or>
         ub_BindDevice options \<noteq> None \<or> ub_ReuseAddr options \<or> ub_ReusePort options
      then Err (Errorf ''non-default UDP bind policy is not supported by netstd'' [])
      else listenUDP (udpNetwork options) (ub_LocalAddr options))"

end
