(* ===== verification/HostWire.thy ===== *)
theory HostWire
  imports Platform
begin

text \<open>
  The wire formats between the guest and the host (internal/hostabi: udp_wire.go,
  socket_wire.go, dns_wire.go). Everything that is decoded here was written by the guest, so
  the lemmas show that no input makes a decoder panic (on 64-bit hosts), that exactly the
  canonical encodings are accepted, and that what the host encodes decodes to what was meant.
  The interface table \<open>ift\<close> and the width of \<^verbatim>\<open>int\<close> are parameters.
\<close>

abbreviation errs :: "string \<Rightarrow> goerror" where
  "errs s \<equiv> Errorf s []"

section \<open>udp\_wire.go\<close>

definition udpMetadataLen :: nat where "udpMetadataLen = 48"

definition encodeUDPMetadata ::
  "iface_table \<Rightarrow> UDPAddr option \<Rightarrow> bytes option \<Rightarrow> u32 \<Rightarrow> bytes outcome" where
  "encodeUDPMetadata ift peer optionalIP optionalIfindex =
     (let metadata = replicate udpMetadataLen 0 in
      case peer of
        None \<Rightarrow> Err (errs ''nil UDP peer'')
      | Some p \<Rightarrow>
          obind
            (case To4 (IP p) of
               Some ipv4 \<Rightarrow> Ok (copy_into (metadata[0 := 4]) 1 5 ipv4)
             | None \<Rightarrow>
                 (case To16 (IP p) of
                    Some ipv6 \<Rightarrow>
                      (let metadata = copy_into (metadata[0 := 6]) 1 17 ipv6 in
                       if Zone p \<noteq> [] then
                         obind (InterfaceByName ift (Zone p)) (\<lambda>iface.
                           Ok (copy_into metadata 23 27 (PutUint32 (of_int (fst iface)))))
                       else Ok metadata)
                  | None \<Rightarrow> Err (errs ''invalid UDP peer IP''))) (\<lambda>metadata.
          if Port p < 0 \<or> Port p > 65535 then Err (errs ''invalid UDP peer port'')
          else
            (let metadata = copy_into metadata 17 19 (PutUint16 (of_int (Port p))) in
             case optionalIP of
               None \<Rightarrow>
                 if optionalIfindex \<noteq> 0
                 then Err (errs ''optional UDP interface index requires an IP'')
                 else Ok metadata
             | Some ip \<Rightarrow>
                 (case To4 ip of
                    Some ipv4 \<Rightarrow>
                      if optionalIfindex \<noteq> 0
                      then Err (errs ''optional IPv4 cannot carry an interface index'')
                      else Ok (copy_into (metadata[27 := 4]) 28 32 ipv4)
                  | None \<Rightarrow>
                      (case To16 ip of
                         Some ipv6 \<Rightarrow>
                           Ok (copy_into (copy_into (metadata[27 := 6]) 28 44 ipv6)
                                 44 48 (PutUint32 optionalIfindex))
                       | None \<Rightarrow> Err (errs ''invalid optional UDP IP''))))))"

definition decodeUDPMetadata ::
  "goarch \<Rightarrow> iface_table \<Rightarrow> bytes \<Rightarrow> (UDPAddr \<times> bytes option \<times> u32 \<times> u32) outcome" where
  "decodeUDPMetadata arch ift metadata =
     (if length metadata \<noteq> udpMetadataLen then Err (errs ''invalid UDP metadata length'')
      else
        obind (index metadata 0) (\<lambda>family.
        obind
          (if family = 4 then
             obind (slice metadata 5 17) (\<lambda>pad.
             obind (slice metadata 19 27) (\<lambda>rest.
             if \<not> allZero pad \<or> \<not> allZero rest
             then Err (errs ''noncanonical IPv4 peer metadata'')
             else
               obind (index metadata 1) (\<lambda>a. obind (index metadata 2) (\<lambda>b.
               obind (index metadata 3) (\<lambda>c. obind (index metadata 4) (\<lambda>d.
               Ok (net_IPv4 a b c d)))))))
           else if family = 6 then slice metadata 1 17
           else Err (errs ''invalid UDP peer family'')) (\<lambda>peerIP.
        obind (obind (slice metadata 19 23) Uint32) (\<lambda>flowinfo.
        obind (obind (slice metadata 23 27) Uint32) (\<lambda>scopeID.
        obind
          (if scopeID \<noteq> 0
           then obind (InterfaceByIndex ift (int_of_u32 arch scopeID)) (\<lambda>iface. Ok (snd iface))
           else Ok []) (\<lambda>zone.
        obind (obind (slice metadata 17 19) Uint16) (\<lambda>port.
        obind (index metadata 27) (\<lambda>optFamily.
        obind
          (if optFamily = 0 then
             obind (slice metadata 28 48) (\<lambda>pad.
             if \<not> allZero pad then Err (errs ''noncanonical absent optional IP'') else Ok None)
           else if optFamily = 4 then
             obind (slice metadata 32 48) (\<lambda>pad.
             if \<not> allZero pad then Err (errs ''noncanonical optional IPv4'')
             else
               obind (index metadata 28) (\<lambda>a. obind (index metadata 29) (\<lambda>b.
               obind (index metadata 30) (\<lambda>c. obind (index metadata 31) (\<lambda>d.
               Ok (Some (net_IPv4 a b c d)))))))
           else if optFamily = 6 then obind (slice metadata 28 44) (\<lambda>ip. Ok (Some ip))
           else Err (errs ''invalid optional UDP IP family'')) (\<lambda>optionalIP.
        obind (obind (slice metadata 44 48) Uint32) (\<lambda>ifindex.
        Ok (\<lparr>IP = peerIP, Port = uint port, Zone = zone\<rparr>, optionalIP, flowinfo, ifindex)))))))))))"

section \<open>socket\_wire.go\<close>

definition socketAddressLen :: nat where "socketAddressLen = 27"
definition tcpSocketResultLen :: nat where "tcpSocketResultLen = 62"
definition boundSocketResultLen :: nat where "boundSocketResultLen = 35"
definition maxFactoryOptionsSize :: nat where "maxFactoryOptionsSize = 4096"

definition decodeIPVersion :: "byte \<Rightarrow> IPVersion outcome" where
  "decodeIPVersion encoded =
     (if encoded = 0 then Ok IPVersionV4
      else if encoded = 1 then Ok IPVersionV6
      else if encoded = 2 then Ok IPVersionBoth
      else Err (errs ''invalid IP version''))"

definition decodeSocketMark :: "byte \<Rightarrow> bytes \<Rightarrow> u32 option outcome" where
  "decodeSocketMark present encoded =
     (if present > 1 \<or> length encoded \<noteq> 4 then Err (errs ''invalid socket mark encoding'')
      else
        obind (Uint32 encoded) (\<lambda>mark.
        if present = 0 \<and> mark \<noteq> 0 then Err (errs ''invalid socket mark encoding'')
        else if present = 0 then Ok None
        else Ok (Some mark)))"

definition decodeWireBool :: "string \<Rightarrow> byte \<Rightarrow> bool outcome" where
  "decodeWireBool name encoded =
     (if encoded > 1 then Err (errs (''invalid '' @ name)) else Ok (encoded = 1))"

definition decodeBindDevice :: "goarch \<Rightarrow> bytes \<Rightarrow> bytes option outcome" where
  "decodeBindDevice arch encoded =
     (if length encoded < 5 then Err (errs ''invalid bind device encoding'')
      else
        obind (index encoded 0) (\<lambda>present.
        if present > 1 then Err (errs ''invalid bind device encoding'')
        else
          obind (obind (slice encoded 1 5) Uint32) (\<lambda>wire.
          let len = int_of_u32 arch wire in
          if int (length encoded) \<noteq> 5 + len \<or> (present = 0 \<and> len \<noteq> 0)
          then Err (errs ''invalid bind device length'')
          else if present = 0 then Ok None
          else obind (slice_from encoded 5) (\<lambda>device. Ok (Some device)))))"

definition decodeSocketContext :: "goarch \<Rightarrow> bytes \<Rightarrow> (SocketContext \<times> bytes) outcome" where
  "decodeSocketContext arch encoded =
     (if length encoded < 11 then Err (errs ''truncated socket context'')
      else
        obind (obind (index encoded 0) decodeIPVersion) (\<lambda>ipVersion.
        obind (index encoded 1) (\<lambda>present.
        obind (obind (slice encoded 2 6) (decodeSocketMark present)) (\<lambda>mark.
        obind (index encoded 6) (\<lambda>nsPresent.
        if nsPresent > 1 then Err (errs ''invalid netns presence'')
        else
          obind (obind (slice encoded 7 11) Uint32) (\<lambda>wire.
          let len = int_of_u32 arch wire in
          if len > int (length encoded) - 11 \<or> (nsPresent = 0 \<and> len \<noteq> 0)
          then Err (errs ''invalid netns length'')
          else
            obind
              (if nsPresent = 1 then
                 obind (slice encoded 11 (11 + len)) (\<lambda>token.
                 if \<not> utf8_valid token then Err (errs ''netns token is not UTF-8'')
                 else Ok (Some token))
               else Ok None) (\<lambda>netns.
            obind (slice_from encoded (11 + len)) (\<lambda>remainder.
            Ok (\<lparr>sc_IPVersion = ipVersion, sc_SocketMark = mark, sc_NetNS = netns\<rparr>,
                remainder)))))))))"

definition decodeTCPBindPolicy ::
  "goarch \<Rightarrow> TCPAddr option \<Rightarrow> SocketContext \<Rightarrow> byte \<Rightarrow> byte \<Rightarrow> byte \<Rightarrow> bytes
    \<Rightarrow> TCPBindOptions outcome" where
  "decodeTCPBindPolicy arch localAddr socketContext reuseMode reusePortByte onlyV6Byte deviceBytes =
     obind
       (if reuseMode = 0 then Ok None
        else if reuseMode = 1 then Ok (Some False)
        else if reuseMode = 2 then Ok (Some True)
        else Err (errs ''invalid TCP reuse_addr'')) (\<lambda>reuseAddr.
     obind (decodeWireBool ''TCP reuse_port'' reusePortByte) (\<lambda>reusePort.
     obind (decodeWireBool ''TCP only_v6'' onlyV6Byte) (\<lambda>onlyV6.
     obind (decodeBindDevice arch deviceBytes) (\<lambda>device.
     Ok \<lparr>tb_Context = socketContext, tb_LocalAddr = localAddr, tb_BindDevice = device,
         tb_ReuseAddr = reuseAddr, tb_ReusePort = reusePort, tb_OnlyV6 = onlyV6\<rparr>))))"

definition decodeSocketAddress ::
  "goarch \<Rightarrow> iface_table \<Rightarrow> bytes \<Rightarrow> bool \<Rightarrow> UDPAddr option outcome" where
  "decodeSocketAddress arch ift encoded isOptional =
     (if length encoded \<noteq> socketAddressLen then Err (errs ''invalid socket address length'')
      else
        obind (index encoded 0) (\<lambda>family.
        if isOptional \<and> family = 0 then
          obind (slice_from encoded 1) (\<lambda>rest.
          if \<not> allZero rest then Err (errs ''noncanonical absent socket address'') else Ok None)
        else
          let metadata = copy_into (replicate udpMetadataLen 0) 0 udpMetadataLen encoded in
          obind (decodeUDPMetadata arch ift metadata) (\<lambda>(address, _, flowinfo, _).
          if flowinfo \<noteq> 0 then Err (errs ''IPv6 flowinfo is not supported'')
          else Ok (Some address))))"

definition udpToTCPAddr :: "UDPAddr option \<Rightarrow> TCPAddr option" where
  "udpToTCPAddr address =
     (case address of None \<Rightarrow> None
      | Some a \<Rightarrow> Some \<lparr>IP = IP a, Port = Port a, Zone = Zone a\<rparr>)"

definition decodeTCPConnectPurpose :: "byte \<Rightarrow> TCPConnectPurpose outcome" where
  "decodeTCPConnectPurpose encoded =
     (if encoded = 0 then Ok TCPConnectDirect
      else if encoded = 1 then Ok TCPConnectFake
      else if encoded = 2 then Ok TCPConnectHolePunch
      else if encoded = 3 then Ok TCPConnectManual
      else if encoded = 4 then Ok TCPConnectProxyNAT
      else if encoded = 5 then Ok TCPConnectSTUNProbe
      else if encoded = 6 then Ok TCPConnectSocks5
      else if encoded = 7 then Ok TCPConnectPortForward
      else if encoded = 8 then Ok TCPConnectDataPlane
      else Err (errs ''invalid TCP connect purpose''))"

definition decodeUDPBindPurpose :: "byte \<Rightarrow> UDPBindPurpose outcome" where
  "decodeUDPBindPurpose encoded =
     (if encoded = 0 then Ok UDPBindHolePunchControl
      else if encoded = 1 then Ok UDPBindHolePunchCandidate
      else if encoded = 2 then Ok UDPBindDirect
      else if encoded = 3 then Ok UDPBindPortBoundListener
      else if encoded = 4 then Ok UDPBindProxyNAT
      else if encoded = 5 then Ok UDPBindSTUNProbe
      else if encoded = 6 then Ok UDPBindSocks5
      else if encoded = 7 then Ok UDPBindPortForward
      else if encoded = 8 then Ok UDPBindPortLease
      else Err (errs ''invalid UDP bind purpose''))"

definition decodeTCPListenPurpose :: "byte \<Rightarrow> TCPListenPurpose outcome" where
  "decodeTCPListenPurpose encoded =
     (if encoded = 0 then Ok TCPListenDirect
      else if encoded = 1 then Ok TCPListenHolePunch
      else if encoded = 2 then Ok TCPListenManual
      else if encoded = 3 then Ok TCPListenProxyNAT
      else if encoded = 4 then Ok TCPListenSocks5
      else if encoded = 5 then Ok TCPListenPortForward
      else if encoded = 6 then Ok TCPListenPortLease
      else Err (errs ''invalid TCP listen purpose''))"

definition decodeTCPConnectOptions ::
  "goarch \<Rightarrow> iface_table \<Rightarrow> bytes \<Rightarrow> TCPConnectOptions outcome" where
  "decodeTCPConnectOptions arch ift encoded =
     (if length encoded < 75 then Err (errs ''invalid TCP connect options'')
      else
        obind (index encoded 0) (\<lambda>version.
        if version \<noteq> 2 then Err (errs ''invalid TCP connect options'')
        else
          obind (oelse (obind (slice encoded 1 28) (\<lambda>w. decodeSocketAddress arch ift w False))
                   (errs ''invalid TCP remote address'')) (\<lambda>remote.
          case remote of
            None \<Rightarrow> Err (errs ''invalid TCP remote address'')
          | Some remote \<Rightarrow>
          obind (obind (slice encoded 28 55) (\<lambda>w. decodeSocketAddress arch ift w True)) (\<lambda>local.
          obind (oelse (obind (slice_from encoded 55) (decodeSocketContext arch))
                   (errs ''invalid TCP socket context'')) (\<lambda>(socketContext, remainder).
          if length remainder < 9 then Err (errs ''truncated TCP bind policy'')
          else
            obind (index remainder 0) (\<lambda>r0. obind (index remainder 1) (\<lambda>r1.
            obind (index remainder 2) (\<lambda>r2. obind (slice_from remainder 4) (\<lambda>device.
            obind (decodeTCPBindPolicy arch (udpToTCPAddr local) socketContext r0 r1 r2 device)
              (\<lambda>bind.
            obind (obind (index remainder 3) decodeTCPConnectPurpose) (\<lambda>purpose.
            Ok \<lparr>tc_RemoteAddr = \<lparr>IP = IP remote, Port = Port remote, Zone = Zone remote\<rparr>,
                tc_Bind = bind, tc_Purpose = purpose\<rparr>)))))))))))"

definition decodeUDPBindOptions ::
  "goarch \<Rightarrow> iface_table \<Rightarrow> bytes \<Rightarrow> UDPBindOptions outcome" where
  "decodeUDPBindOptions arch ift encoded =
     (if length encoded < 48 then Err (errs ''invalid UDP bind options'')
      else
        obind (index encoded 0) (\<lambda>version.
        if version \<noteq> 2 then Err (errs ''invalid UDP bind options'')
        else
          obind (obind (slice encoded 1 28) (\<lambda>w. decodeSocketAddress arch ift w True)) (\<lambda>local.
          obind (oelse (obind (slice_from encoded 28) (decodeSocketContext arch))
                   (errs ''invalid UDP socket context'')) (\<lambda>(socketContext, remainder).
          if length remainder < 9 then Err (errs ''truncated UDP bind policy'')
          else
            obind (obind (index remainder 0) (decodeWireBool ''UDP reuse_addr'')) (\<lambda>reuseAddr.
            obind (obind (index remainder 1) (decodeWireBool ''UDP reuse_port'')) (\<lambda>reusePort.
            obind (obind (index remainder 2) (decodeWireBool ''UDP only_v6'')) (\<lambda>onlyV6.
            obind (obind (index remainder 3) decodeUDPBindPurpose) (\<lambda>purpose.
            obind (obind (slice_from remainder 4) (decodeBindDevice arch)) (\<lambda>device.
            Ok \<lparr>ub_Context = socketContext, ub_LocalAddr = local, ub_BindDevice = device,
                ub_ReuseAddr = reuseAddr, ub_ReusePort = reusePort, ub_OnlyV6 = onlyV6,
                ub_Purpose = purpose\<rparr>)))))))))"

definition decodeTCPListenOptions ::
  "goarch \<Rightarrow> iface_table \<Rightarrow> bytes \<Rightarrow> TCPListenOptions outcome" where
  "decodeTCPListenOptions arch ift encoded =
     (if length encoded < 48 then Err (errs ''invalid TCP listen options'')
      else
        obind (index encoded 0) (\<lambda>version.
        if version \<noteq> 2 then Err (errs ''invalid TCP listen options'')
        else
          obind (oelse (obind (slice encoded 1 28) (\<lambda>w. decodeSocketAddress arch ift w False))
                   (errs ''invalid TCP listen address'')) (\<lambda>local.
          case local of
            None \<Rightarrow> Err (errs ''invalid TCP listen address'')
          | Some local \<Rightarrow>
          obind (oelse (obind (slice_from encoded 28) (decodeSocketContext arch))
                   (errs ''invalid TCP listen context'')) (\<lambda>(socketContext, remainder).
          if length remainder < 9 then Err (errs ''truncated TCP listen bind policy'')
          else
            obind (index remainder 0) (\<lambda>r0. obind (index remainder 1) (\<lambda>r1.
            obind (index remainder 2) (\<lambda>r2. obind (slice_from remainder 4) (\<lambda>device.
            obind (decodeTCPBindPolicy arch
                     (Some \<lparr>IP = IP local, Port = Port local, Zone = Zone local\<rparr>)
                     socketContext r0 r1 r2 device) (\<lambda>bind.
            obind (obind (index remainder 3) decodeTCPListenPurpose) (\<lambda>purpose.
            Ok \<lparr>tl_Bind = bind, tl_Purpose = purpose\<rparr>))))))))))"

definition encodeNetAddr :: "iface_table \<Rightarrow> net_addr \<Rightarrow> bytes outcome" where
  "encodeNetAddr ift address =
     (let encoded = replicate socketAddressLen 0;
          encode = (\<lambda>udpAddr.
            obind (encodeUDPMetadata ift (Some udpAddr) None 0) (\<lambda>metadata.
            obind (slice metadata 0 (int socketAddressLen)) (\<lambda>prefix.
            Ok (copy_into encoded 0 socketAddressLen prefix))))
      in case address of
           NetTCPAddr a \<Rightarrow> encode \<lparr>IP = IP a, Port = Port a, Zone = Zone a\<rparr>
         | NetUDPAddr a \<Rightarrow> encode a
         | OtherAddr \<Rightarrow> Err (errs ''unsupported socket address''))"

definition encodeTCPSocketResult ::
  "iface_table \<Rightarrow> u64 \<Rightarrow> net_addr \<Rightarrow> net_addr \<Rightarrow> bytes outcome" where
  "encodeTCPSocketResult ift handle localAddr peerAddr =
     (let encoded = copy_into (replicate tcpSocketResultLen 0) 0 8 (PutUint64 handle) in
      obind (encodeNetAddr ift localAddr) (\<lambda>local.
      obind (encodeNetAddr ift peerAddr) (\<lambda>peer.
      Ok (copy_into (copy_into encoded 8 35 local) 35 tcpSocketResultLen peer))))"

definition encodeBoundSocketResult :: "iface_table \<Rightarrow> u64 \<Rightarrow> net_addr \<Rightarrow> bytes outcome" where
  "encodeBoundSocketResult ift handle localAddr =
     (let encoded = copy_into (replicate boundSocketResultLen 0) 0 8 (PutUint64 handle) in
      obind (encodeNetAddr ift localAddr) (\<lambda>local.
      Ok (copy_into encoded 8 boundSocketResultLen local)))"

section \<open>dns\_wire.go\<close>

definition maxDNSResultLen :: nat where "maxDNSResultLen = 1024 * 1024"

definition decodeDNSQuery :: "bytes \<Rightarrow> DNSQuery outcome" where
  "decodeDNSQuery encoded =
     (if length encoded < 16 then Err (errs ''invalid DNS query header'')
      else
        obind (index encoded 0) (\<lambda>version.
        if version \<noteq> 1 then Err (errs ''invalid DNS query header'')
        else
          obind (index encoded 1) (\<lambda>ipVersion.
          if ipVersion \<noteq> 0 \<and> ipVersion \<noteq> 4 \<and> ipVersion \<noteq> 6
          then Err (errs ''invalid DNS IP version'')
          else
            obind (index encoded 2) (\<lambda>markPresent.
            if markPresent > 1 then Err (errs ''invalid DNS socket mark presence'')
            else
              obind (obind (slice encoded 3 7) Uint32) (\<lambda>mark.
              obind
                (if markPresent = 1 then Ok (Some mark)
                 else if mark \<noteq> 0 then Err (errs ''DNS socket mark value without presence'')
                 else Ok None) (\<lambda>socketMark.
              obind (index encoded 7) (\<lambda>nsPresent.
              if nsPresent > 1 then Err (errs ''invalid DNS netns presence'')
              else
                obind (obind (slice encoded 8 12) Uint32) (\<lambda>netnsLengthWire.
                if uint netnsLengthWire > int (length encoded) - 12
                then Err (errs ''truncated DNS netns token'')
                else
                  let netnsLength = uint netnsLengthWire in
                  if nsPresent = 0 \<and> netnsLength \<noteq> 0
                  then Err (errs ''DNS netns length without presence'')
                  else
                    obind
                      (if nsPresent = 1 then
                         obind (slice encoded 12 (12 + netnsLength)) (\<lambda>netnsBytes.
                         if \<not> utf8_valid netnsBytes
                         then Err (errs ''DNS netns token is not UTF-8'')
                         else Ok (Some netnsBytes))
                       else Ok None) (\<lambda>netns.
                    let offset = 12 + netnsLength in
                    if int (length encoded) - offset < 4
                    then Err (errs ''missing DNS host length'')
                    else
                      obind (obind (slice encoded offset (offset + 4)) Uint32)
                        (\<lambda>hostLengthWire.
                      let offset = offset + 4 in
                      if hostLengthWire = 0 \<or>
                         uint hostLengthWire \<noteq> int (length encoded) - offset
                      then Err (errs ''invalid DNS host length'')
                      else
                        obind (slice_from encoded offset) (\<lambda>host.
                        if \<not> utf8_valid host then Err (errs ''DNS host is not UTF-8'')
                        else Ok \<lparr>dq_Host = host, dq_IPVersion = ipVersion,
                                 dq_SocketMark = socketMark, dq_NetNS = netns\<rparr>)))))))))))"

definition boundedDNSResult :: "bytes \<Rightarrow> bytes outcome" where
  "boundedDNSResult result =
     (if length result = 0 \<or> length result > maxDNSResultLen
      then Err (errs ''DNS result exceeds bridge limit'') else Ok result)"

fun appendDNSAddresses :: "bytes \<Rightarrow> netip_addr list \<Rightarrow> bytes outcome" where
  "appendDNSAddresses result [] = Ok result"
| "appendDNSAddresses result (address # addresses) =
     (if Is4 address then
        obind (As4 address) (\<lambda>ipv4. appendDNSAddresses (result @ [4] @ ipv4) addresses)
      else if \<not> Is6 address then Err (errs ''invalid DNS address'')
      else appendDNSAddresses (result @ [6] @ As16 address) addresses)"

definition encodeDNSAddresses :: "netip_addr list \<Rightarrow> bytes outcome" where
  "encodeDNSAddresses addresses =
     obind (appendDNSAddresses (PutUint32 (of_nat (length addresses))) addresses) boundedDNSResult"

definition encodeDNSTXT :: "bytes \<Rightarrow> bytes outcome" where
  "encodeDNSTXT text =
     (if \<not> utf8_valid text then Err (errs ''normalized DNS TXT value is not UTF-8'')
      else boundedDNSResult (PutUint32 (of_nat (length text)) @ text))"

fun appendDNSSRV :: "bytes \<Rightarrow> SRV option list \<Rightarrow> bytes outcome" where
  "appendDNSSRV result [] = Ok result"
| "appendDNSSRV result (None # records) = Err (errs ''nil DNS SRV record'')"
| "appendDNSSRV result (Some record # records) =
     (let target = srv_Target record in
      appendDNSSRV
        (result @ PutUint16 (srv_Priority record) @ PutUint16 (srv_Weight record) @
         PutUint16 (srv_Port record) @ PutUint32 (of_nat (length target)) @ target) records)"

definition encodeDNSSRV :: "SRV option list \<Rightarrow> bytes outcome" where
  "encodeDNSSRV records =
     obind (appendDNSSRV (PutUint32 (of_nat (length records))) records) boundedDNSResult"

end
