(* ===== verification/HostWireSpec.thy ===== *)
theory HostWireSpec
  imports HostWire
begin

text \<open>
  The grammars of the host wire formats, and that the code of \<open>HostWire\<close> implements them:
  the 48-byte UDP metadata block, the socket context, the bind device, the DNS query.
\<close>

section \<open>UDP metadata\<close>

text \<open>The block is family, address, port, flow label, scope, and an optional second address
  with an interface index.\<close>

definition udpMetadataWire ::
  "byte \<Rightarrow> bytes \<Rightarrow> u16 \<Rightarrow> u32 \<Rightarrow> u32 \<Rightarrow> byte \<Rightarrow> bytes \<Rightarrow> u32 \<Rightarrow> bytes" where
  "udpMetadataWire fam ip port flow scope ofam oip idx =
     fam # ip @ PutUint16 port @ PutUint32 flow @ PutUint32 scope @ ofam # oip @ PutUint32 idx"

definition peerIPSpec :: "byte \<Rightarrow> bytes \<Rightarrow> u32 \<Rightarrow> u32 \<Rightarrow> bytes outcome" where
  "peerIPSpec fam ip flow scope =
     (if fam = 4 then
        if allZero (drop 4 ip) \<and> flow = 0 \<and> scope = 0 then Ok (v4InV6Prefix @ take 4 ip)
        else Err (errs ''noncanonical IPv4 peer metadata'')
      else if fam = 6 then Ok ip else Err (errs ''invalid UDP peer family''))"

definition zoneSpec :: "goarch \<Rightarrow> iface_table \<Rightarrow> u32 \<Rightarrow> bytes outcome" where
  "zoneSpec arch ift scope =
     (if scope = 0 then Ok []
      else obind (InterfaceByIndex ift (int_of_u32 arch scope)) (\<lambda>iface. Ok (snd iface)))"

definition optionalIPSpec :: "byte \<Rightarrow> bytes \<Rightarrow> u32 \<Rightarrow> bytes option outcome" where
  "optionalIPSpec ofam oip idx =
     (if ofam = 0 then
        if allZero oip \<and> idx = 0 then Ok None else Err (errs ''noncanonical absent optional IP'')
      else if ofam = 4 then
        if allZero (drop 4 oip) \<and> idx = 0 then Ok (Some (v4InV6Prefix @ take 4 oip))
        else Err (errs ''noncanonical optional IPv4'')
      else if ofam = 6 then Ok (Some oip) else Err (errs ''invalid optional UDP IP family''))"

lemma take_4_nth: "4 \<le> length (xs :: bytes) \<Longrightarrow> take 4 xs = [xs ! 0, xs ! 1, xs ! 2, xs ! 3]"
  by (cases xs rule: Uint32.cases) auto

lemma udpMetadata_layout:
  assumes "length m = 48"
  obtains fam ip port flow scope ofam oip idx
  where "m = udpMetadataWire fam ip port flow scope ofam oip idx" "length ip = 16" "length oip = 16"
proof -
  obtain fam r0 where m: "m = fam # r0" "length r0 = 47"
    using assms by (cases m) auto
  obtain port where port: "take 2 (drop 16 r0) = PutUint16 port"
    using Uint16_total [of "drop 16 r0"] m by auto
  obtain flow where flow: "take 4 (drop 18 r0) = PutUint32 flow"
    using Uint32_total [of "drop 18 r0"] m by auto
  obtain scope where scope: "take 4 (drop 22 r0) = PutUint32 scope"
    using Uint32_total [of "drop 22 r0"] m by auto
  obtain ofam r1 where ofam: "drop 26 r0 = ofam # r1" "length r1 = 20"
    using m by (cases "drop 26 r0") (auto dest: arg_cong [where f = length])
  obtain idx where idx: "drop 16 r1 = PutUint32 idx"
    using Uint32_total [of "drop 16 r1"] ofam by auto
  have split: "drop k r0 = take n (drop k r0) @ drop (k + n) r0" for k n
    by (metis add.commute append_take_drop_id drop_drop)
  have "drop 16 r0 = PutUint16 port @ PutUint32 flow @ PutUint32 scope @ drop 26 r0"
    using split [of 16 2] split [of 18 4] split [of 22 4] port flow scope by simp
  then have "r0 = take 16 r0 @ PutUint16 port @ PutUint32 flow @ PutUint32 scope @ drop 26 r0"
    by (metis append_take_drop_id)
  moreover have "r1 = take 16 r1 @ PutUint32 idx"
    using idx by (metis append_take_drop_id)
  ultimately have "m = udpMetadataWire fam (take 16 r0) port flow scope ofam (take 16 r1) idx"
    using m ofam by (simp add: udpMetadataWire_def)
  moreover have "length (take 16 r0) = 16" "length (take 16 r1) = 16" using m ofam by auto
  ultimately show thesis using that by blast
qed

lemma decodeUDPMetadata_wire:
  assumes "length ip = 16" "length oip = 16"
  shows "decodeUDPMetadata arch ift (udpMetadataWire fam ip port flow scope ofam oip idx) =
    obind (peerIPSpec fam ip flow scope) (\<lambda>peerIP.
    obind (zoneSpec arch ift scope) (\<lambda>zone.
    obind (optionalIPSpec ofam oip idx) (\<lambda>opt.
    Ok (\<lparr>IP = peerIP, Port = uint port, Zone = zone\<rparr>, opt, flow, idx))))"
  using assms take_4_nth [of ip] take_4_nth [of oip]
  by (simp add: decodeUDPMetadata_def udpMetadataLen_def udpMetadataWire_def slice_def index_def
      peerIPSpec_def zoneSpec_def optionalIPSpec_def net_IPv4_def nth_append)

definition peerWire :: "iface_table \<Rightarrow> UDPAddr \<Rightarrow> (byte \<times> bytes \<times> u32) outcome" where
  "peerWire ift p =
     (case To4 (IP p) of
        Some ipv4 \<Rightarrow> Ok (4, ipv4 @ replicate 12 0, 0)
      | None \<Rightarrow>
          (case To16 (IP p) of
             Some ipv6 \<Rightarrow>
               if Zone p = [] then Ok (6, ipv6, 0)
               else obind (InterfaceByName ift (Zone p)) (\<lambda>iface. Ok (6, ipv6, of_int (fst iface)))
           | None \<Rightarrow> Err (errs ''invalid UDP peer IP'')))"

definition optionalWire :: "bytes option \<Rightarrow> u32 \<Rightarrow> (byte \<times> bytes) outcome" where
  "optionalWire opt idx =
     (case opt of
        None \<Rightarrow> if idx = 0 then Ok (0, replicate 16 0)
                else Err (errs ''optional UDP interface index requires an IP'')
      | Some ip \<Rightarrow>
          (case To4 ip of
             Some ipv4 \<Rightarrow> if idx = 0 then Ok (4, ipv4 @ replicate 12 0)
                          else Err (errs ''optional IPv4 cannot carry an interface index'')
           | None \<Rightarrow>
               (case To16 ip of
                  Some ipv6 \<Rightarrow> Ok (6, ipv6)
                | None \<Rightarrow> Err (errs ''invalid optional UDP IP''))))"

text \<open>The block as a list of fields, and what the writes of \<open>encodeUDPMetadata\<close> do to them.\<close>

definition metaFields ::
  "byte \<Rightarrow> bytes \<Rightarrow> bytes \<Rightarrow> bytes \<Rightarrow> bytes \<Rightarrow> byte \<Rightarrow> bytes \<Rightarrow> bytes \<Rightarrow> bytes" where
  "metaFields f a p fl sc g b ix = f # a @ p @ fl @ sc @ g # b @ ix"

lemma metaFields_zero:
  "replicate 48 0 = metaFields 0 (replicate 16 0) (replicate 2 0) (replicate 4 0) (replicate 4 0)
     0 (replicate 16 0) (replicate 4 0)"
  by (simp add: metaFields_def numeral_eq_Suc)

lemma metaFields_writes [simp]:
  assumes "length a = 16" "length p = 2" "length fl = 4" "length sc = 4" "length b = 16"
    "length ix = 4"
  shows
    "(metaFields f a p fl sc g b ix)[0 := x] = metaFields x a p fl sc g b ix"
    "(metaFields f a p fl sc g b ix)[27 := x] = metaFields f a p fl sc x b ix"
    "length v = 4 \<Longrightarrow> copy_into (metaFields f a p fl sc g b ix) (Suc 0) 5 v =
       metaFields f (v @ drop 4 a) p fl sc g b ix"
    "length v = 16 \<Longrightarrow> copy_into (metaFields f a p fl sc g b ix) (Suc 0) 17 v =
       metaFields f v p fl sc g b ix"
    "length v = 4 \<Longrightarrow> copy_into (metaFields f a p fl sc g b ix) 23 27 v =
       metaFields f a p fl v g b ix"
    "length v = 2 \<Longrightarrow> copy_into (metaFields f a p fl sc g b ix) 17 19 v =
       metaFields f a v fl sc g b ix"
    "length v = 4 \<Longrightarrow> copy_into (metaFields f a p fl sc g b ix) 28 32 v =
       metaFields f a p fl sc g (v @ drop 4 b) ix"
    "length v = 16 \<Longrightarrow> copy_into (metaFields f a p fl sc g b ix) 28 44 v =
       metaFields f a p fl sc g v ix"
    "length v = 4 \<Longrightarrow> copy_into (metaFields f a p fl sc g b ix) 44 48 v =
       metaFields f a p fl sc g b v"
  using assms
  by (simp_all add: metaFields_def copy_into_def list_update_append)

lemma encodeUDPMetadata_wire:
  "encodeUDPMetadata ift (Some p) opt idx =
    obind (peerWire ift p) (\<lambda>(fam, ip, scope).
    if Port p < 0 \<or> Port p > 65535 then Err (errs ''invalid UDP peer port'')
    else obind (optionalWire opt idx) (\<lambda>(ofam, oip).
      Ok (udpMetadataWire fam ip (of_int (Port p)) 0 scope ofam oip idx)))"
proof -
  have wire: "udpMetadataWire fam ip port flow scope ofam oip i =
      metaFields fam ip (PutUint16 port) (PutUint32 flow) (PutUint32 scope) ofam oip (PutUint32 i)"
    for fam ip port flow scope ofam oip i
    by (simp add: udpMetadataWire_def metaFields_def)
  have lens: "\<And>v. To4 (IP p) = Some v \<Longrightarrow> length v = 4" "\<And>v. To16 (IP p) = Some v \<Longrightarrow> length v = 16"
    by (auto dest: To4_length To16_length)
  show ?thesis
    by (cases "InterfaceByName ift (Zone p)")
       (simp_all add: encodeUDPMetadata_def peerWire_def optionalWire_def wire udpMetadataLen_def
        metaFields_zero PutUint32_0 outcome_simps lens To4_length To16_length split: option.split)
qed

lemma peerWire_length: "peerWire ift p = Ok (fam, ip, scope) \<Longrightarrow> length ip = 16"
  by (auto simp: peerWire_def dest: To4_length To16_length split: option.splits if_splits)

lemma optionalWire_length: "optionalWire opt idx = Ok (ofam, oip) \<Longrightarrow> length oip = 16"
  by (auto simp: optionalWire_def dest: To4_length To16_length split: option.splits if_splits)

lemma int_of_u32_of_int:
  assumes "0 < i" "i < 2 ^ 31"
  shows "int_of_u32 arch (of_int i) = i"
  using assms
  by (cases arch) (simp_all add: unsigned_of_int signed_of_int take_bit_int_eq_self
      signed_take_bit_int_eq_self)

lemma of_int_int_of_u32 [simp]: "of_int (int_of_u32 arch w) = w"
  by (cases arch) simp_all

lemma int_of_u32_eq_0: "int_of_u32 arch w = 0 \<longleftrightarrow> w = 0"
proof
  assume "int_of_u32 arch w = 0"
  then show "w = 0" using of_int_int_of_u32 [of arch w] by simp
qed (cases arch, simp_all)

lemma int_of_u32_0 [simp]: "int_of_u32 arch 0 = 0"
  by (simp add: int_of_u32_eq_0)

lemma of_int_u32_eq_0: "0 < i \<Longrightarrow> i < 2 ^ 31 \<Longrightarrow> (of_int i :: u32) \<noteq> 0"
  using int_of_u32_of_int [of i Arch64] by auto

text \<open>What a decoded peer address looks like: the 16-byte form of the address, and no zone for IPv4.\<close>

definition canonicalPeer :: "UDPAddr \<Rightarrow> UDPAddr" where
  "canonicalPeer p =
     \<lparr>IP = (case To16 (IP p) of Some ip \<Rightarrow> ip | None \<Rightarrow> []), Port = Port p,
      Zone = (if To4 (IP p) = None then Zone p else [])\<rparr>"

lemma peerWire_decodes:
  assumes "iface_table_ok ift" "peerWire ift p = Ok (fam, ip, scope)"
  shows "peerIPSpec fam ip 0 scope = Ok (IP (canonicalPeer p))"
    "zoneSpec arch ift scope = Ok (Zone (canonicalPeer p))"
proof -
  have "peerIPSpec fam ip 0 scope = Ok (IP (canonicalPeer p)) \<and>
        zoneSpec arch ift scope = Ok (Zone (canonicalPeer p))"
  proof (cases "To4 (IP p)")
    case (Some v)
    with assms(2) To4_To16 [OF Some] To4_length [OF Some] show ?thesis
      by (auto simp: peerWire_def peerIPSpec_def zoneSpec_def canonicalPeer_def)
  next
    case None
    show ?thesis
    proof (cases "Zone p = []")
      case True
      with None assms(2) show ?thesis
        by (auto simp: peerWire_def peerIPSpec_def zoneSpec_def canonicalPeer_def
            split: option.splits)
    next
      case False
      with None assms(2) obtain iface where i: "InterfaceByName ift (Zone p) = Ok iface"
        "To16 (IP p) = Some ip" "fam = 6" "scope = of_int (fst iface)"
        by (auto simp: peerWire_def split: option.splits)
      from InterfaceByName_Index [OF assms(1) i(1)] i None show ?thesis
        by (auto simp: peerIPSpec_def zoneSpec_def canonicalPeer_def int_of_u32_of_int
            of_int_u32_eq_0)
    qed
  qed
  then show "peerIPSpec fam ip 0 scope = Ok (IP (canonicalPeer p))"
    "zoneSpec arch ift scope = Ok (Zone (canonicalPeer p))" by auto
qed

lemma optionalWire_decodes:
  assumes "optionalWire opt idx = Ok (ofam, oip)"
  shows "optionalIPSpec ofam oip idx = Ok (Option.bind opt To16)"
proof (cases opt)
  case None
  with assms show ?thesis by (auto simp: optionalWire_def optionalIPSpec_def split: if_splits)
next
  case (Some ip)
  show ?thesis
  proof (cases "To4 ip")
    case None
    with assms Some show ?thesis
      by (auto simp: optionalWire_def optionalIPSpec_def split: option.splits)
  next
    case (Some v)
    with assms \<open>opt = Some ip\<close> To4_To16 [OF Some] To4_length [OF Some] show ?thesis
      by (auto simp: optionalWire_def optionalIPSpec_def split: if_splits)
  qed
qed

text \<open>
  C16: what the host encodes as UDP metadata decodes to the address that was meant. Every
  address the encoder accepts comes back in its 16-byte form with the same port, an IPv6 zone
  comes back by way of the interface table, the flow label is zero and the optional address
  and interface index are kept.
\<close>

theorem udp_metadata_roundtrip:
  assumes "iface_table_ok ift"
    and "encodeUDPMetadata ift (Some p) opt idx = Ok m"
  shows "decodeUDPMetadata arch ift m = Ok (canonicalPeer p, Option.bind opt To16, 0, idx)"
proof -
  from assms(2) obtain fam ip scope ofam oip where
    w: "peerWire ift p = Ok (fam, ip, scope)" "optionalWire opt idx = Ok (ofam, oip)"
    and port: "0 \<le> Port p" "Port p \<le> 65535"
    and m: "m = udpMetadataWire fam ip (of_int (Port p)) 0 scope ofam oip idx"
    by (auto simp: encodeUDPMetadata_wire split: if_splits)
  have "uint (of_int (Port p) :: u16) = Port p"
    using port by (simp add: unsigned_of_int take_bit_int_eq_self)
  then show ?thesis
    using peerWire_decodes [OF assms(1) w(1)] optionalWire_decodes [OF w(2)]
      peerWire_length [OF w(1)] optionalWire_length [OF w(2)]
    by (simp add: m decodeUDPMetadata_wire) (simp add: canonicalPeer_def)
qed

theorem udp_metadata_roundtrip_witness:
  "decodeUDPMetadata Arch64 [(7, [101, 116, 104])]
     (udpMetadataWire 6 (254 # 128 # replicate 14 0) 53 0 7 0 (replicate 16 0) 0) =
   Ok (\<lparr>IP = 254 # 128 # replicate 14 0, Port = 53, Zone = [101, 116, 104]\<rparr>, None, 0, 0)"
proof -
  let ?p = "\<lparr>IP = 254 # 128 # replicate 14 0, Port = 53, Zone = [101, 116, 104]\<rparr> :: sockaddr"
  have ok: "iface_table_ok [(7, [101, 116, 104])]" by (simp add: iface_table_ok_def)
  have ip: "To4 (IP ?p) = None" "To16 (IP ?p) = Some (IP ?p)"
    by (simp_all add: To4_def To16_def v4InV6Prefix_def replicate_numeral)
  have "encodeUDPMetadata [(7, [101, 116, 104])] (Some ?p) None 0 =
      Ok (udpMetadataWire 6 (254 # 128 # replicate 14 0) 53 0 7 0 (replicate 16 0) 0)"
    using ip by (simp add: encodeUDPMetadata_wire peerWire_def optionalWire_def InterfaceByName_def)
  from udp_metadata_roundtrip [OF ok this, of Arch64] ip show ?thesis
    by (simp add: canonicalPeer_def)
qed

lemma padded_address:
  assumes "length ip = 16" "allZero (drop 4 ip)"
  shows "take 4 ip @ replicate 12 0 = ip"
proof -
  have "drop 4 ip = replicate 12 0"
    using assms allZero_iff_replicate [of "drop 4 ip"] by simp
  then show ?thesis by (metis append_take_drop_id)
qed

lemma peerIPSpec_encodes:
  assumes "iface_table_ok ift" "length ip = 16"
    and "peerIPSpec fam ip 0 scope = Ok peerIP" "zoneSpec arch ift scope = Ok zone"
    and "fam = 6 \<Longrightarrow> To4 peerIP = None"
  shows "peerWire ift \<lparr>IP = peerIP, Port = port, Zone = zone\<rparr> = Ok (fam, ip, scope)"
proof (cases "fam = 4")
  case True
  with assms(3) have "allZero (drop 4 ip)" "scope = 0" "peerIP = v4InV6Prefix @ take 4 ip"
    by (auto simp: peerIPSpec_def split: if_splits)
  with True assms(2) show ?thesis by (simp add: peerWire_def To4_def padded_address)
next
  case False
  with assms(3,5) have ip: "fam = 6" "peerIP = ip" "To4 ip = None" "To16 ip = Some ip"
    using assms(2) by (auto simp: peerIPSpec_def To16_def split: if_splits)
  show ?thesis
  proof (cases "scope = 0")
    case True
    with ip assms(4) show ?thesis by (simp add: peerWire_def zoneSpec_def)
  next
    case False
    with assms(4) obtain iface where i: "InterfaceByIndex ift (int_of_u32 arch scope) = Ok iface"
      "zone = snd iface" by (auto simp: zoneSpec_def)
    from InterfaceByIndex_Name [OF assms(1) i(1)] ip i(2) show ?thesis
      by (simp add: peerWire_def)
  qed
qed

lemma optionalIPSpec_encodes:
  assumes "length oip = 16" "optionalIPSpec ofam oip idx = Ok opt"
    and "\<And>ip. ofam = 6 \<Longrightarrow> opt = Some ip \<Longrightarrow> To4 ip = None"
  shows "optionalWire opt idx = Ok (ofam, oip)"
proof (cases "ofam = 6")
  case True
  with assms show ?thesis
    by (auto simp: optionalIPSpec_def optionalWire_def To16_def split: option.splits)
next
  case False
  show ?thesis
  proof (cases "ofam = 4")
    case True
    with assms(1,2) show ?thesis
      by (auto simp: optionalIPSpec_def optionalWire_def To4_def padded_address split: if_splits)
  next
    case False
    with \<open>ofam \<noteq> 6\<close> assms(2) have "ofam = 0" "opt = None" "idx = 0" "allZero oip"
      by (auto simp: optionalIPSpec_def split: if_splits)
    with assms(1) allZero_iff_replicate [of oip] show ?thesis by (simp add: optionalWire_def)
  qed
qed

text \<open>Blocks that are the encoding of what they decode to.\<close>

lemma decoded_block_encodes:
  assumes "iface_table_ok ift"
    and "decodeUDPMetadata arch ift m = Ok (p, opt, 0, idx)"
    and "m ! 0 = 6 \<Longrightarrow> To4 (IP p) = None"
    and "\<And>ip. m ! 27 = 6 \<Longrightarrow> opt = Some ip \<Longrightarrow> To4 ip = None"
  shows "encodeUDPMetadata ift (Some p) opt idx = Ok m"
proof -
  have "length m = 48"
    using assms(2) by (auto simp: decodeUDPMetadata_def udpMetadataLen_def split: if_splits)
  then obtain fam ip port flow scope ofam oip idx' where
    m: "m = udpMetadataWire fam ip port flow scope ofam oip idx'" "length ip = 16" "length oip = 16"
    using udpMetadata_layout by metis
  then have nth: "m ! 0 = fam" "m ! 27 = ofam" by (simp_all add: udpMetadataWire_def nth_append)
  from assms(2) m obtain peerIP zone where
    d: "peerIPSpec fam ip 0 scope = Ok peerIP" "zoneSpec arch ift scope = Ok zone"
      "optionalIPSpec ofam oip idx = Ok opt" "flow = 0" "idx' = idx"
      "p = \<lparr>IP = peerIP, Port = uint port, Zone = zone\<rparr>"
    by (auto simp: decodeUDPMetadata_wire)
  have "peerWire ift p = Ok (fam, ip, scope)"
    unfolding d(6) using assms(1,3) m d nth by (intro peerIPSpec_encodes) auto
  moreover have "optionalWire opt idx = Ok (ofam, oip)"
    using assms(4) m d nth by (intro optionalIPSpec_encodes) auto
  moreover have "0 \<le> Port p" "Port p \<le> 65535" "of_int (Port p) = port"
    using d(6) uint_bounded [of port] by (simp_all add: uint_lt2p)
  ultimately show ?thesis using m d by (simp add: encodeUDPMetadata_wire)
qed

lemma encoded_block_canonical:
  assumes "encodeUDPMetadata ift (Some p) opt idx = Ok m" "decodeUDPMetadata arch ift m = Ok (p', opt', flow, idx')"
  shows "flow = 0" "m ! 0 = 6 \<Longrightarrow> To4 (IP p) = None" "m ! 27 = 6 \<Longrightarrow> opt = Some ip \<Longrightarrow> To4 ip = None"
proof -
  from assms(1) obtain fam ip16 scope ofam oip where
    w: "peerWire ift p = Ok (fam, ip16, scope)" "optionalWire opt idx = Ok (ofam, oip)"
    and m: "m = udpMetadataWire fam ip16 (of_int (Port p)) 0 scope ofam oip idx"
    by (auto simp: encodeUDPMetadata_wire split: if_splits)
  note l = peerWire_length [OF w(1)] optionalWire_length [OF w(2)]
  then show "flow = 0" using assms(2) by (auto simp: m decodeUDPMetadata_wire)
  have "m ! 0 = fam" "m ! 27 = ofam" using l by (simp_all add: m udpMetadataWire_def nth_append)
  then show "m ! 0 = 6 \<Longrightarrow> To4 (IP p) = None" "m ! 27 = 6 \<Longrightarrow> opt = Some ip \<Longrightarrow> To4 ip = None"
    using w by (auto simp: peerWire_def optionalWire_def split: option.splits if_splits)
qed

text \<open>
  C17: which blocks the decoder accepts beside canonical ones. A block that decodes is the encoding of what it decodes to
  exactly when its flow label is zero and neither address is an IPv4-mapped one under the IPv6 family. So there are two
  ways, and no other, to write the same addresses differently, and among the remaining blocks no two mean the same.
\<close>

theorem udp_metadata_canonical:
  assumes "iface_table_ok ift" "decodeUDPMetadata arch ift m = Ok (p, opt, flow, idx)"
  shows "encodeUDPMetadata ift (Some p) opt idx = Ok m \<longleftrightarrow>
    flow = 0 \<and> \<not> (m ! 0 = 6 \<and> To4 (IP p) \<noteq> None) \<and> \<not> (m ! 27 = 6 \<and> Option.bind opt To4 \<noteq> None)"
proof
  assume e: "encodeUDPMetadata ift (Some p) opt idx = Ok m"
  from encoded_block_canonical [OF e assms(2)]
  show "flow = 0 \<and> \<not> (m ! 0 = 6 \<and> To4 (IP p) \<noteq> None) \<and> \<not> (m ! 27 = 6 \<and> Option.bind opt To4 \<noteq> None)"
    by (cases opt) auto
next
  assume "flow = 0 \<and> \<not> (m ! 0 = 6 \<and> To4 (IP p) \<noteq> None) \<and> \<not> (m ! 27 = 6 \<and> Option.bind opt To4 \<noteq> None)"
  then show "encodeUDPMetadata ift (Some p) opt idx = Ok m"
    using assms by (intro decoded_block_encodes [OF assms(1), of arch]) auto
qed

text \<open>One block of either sort, for the same address.\<close>

theorem udp_metadata_canonical_witness:
  "encodeUDPMetadata [] (Some \<lparr>IP = v4InV6Prefix @ [10, 0, 0, 1], Port = 80, Zone = []\<rparr>) None 0 =
     Ok (udpMetadataWire 4 ([10, 0, 0, 1] @ replicate 12 0) 80 0 0 0 (replicate 16 0) 0) \<and>
   encodeUDPMetadata [] (Some \<lparr>IP = v4InV6Prefix @ [10, 0, 0, 1], Port = 80, Zone = []\<rparr>) None 0 \<noteq>
     Ok (udpMetadataWire 6 (v4InV6Prefix @ [10, 0, 0, 1]) 80 0 0 0 (replicate 16 0) 0)"
proof -
  let ?m = "udpMetadataWire 4 ([10, 0, 0, 1] @ replicate 12 0) 80 0 0 0 (replicate 16 0) 0"
  let ?m6 = "udpMetadataWire 6 (v4InV6Prefix @ [10, 0, 0, 1]) 80 0 0 0 (replicate 16 0) 0"
  let ?p = "\<lparr>IP = v4InV6Prefix @ [10, 0, 0, 1], Port = 80, Zone = []\<rparr> :: sockaddr"
  have ok: "iface_table_ok []" by (simp add: iface_table_ok_def)
  have l: "length (v4InV6Prefix @ [10, 0, 0, 1]) = 16" by (simp add: v4InV6Prefix_def)
  have d: "decodeUDPMetadata Arch64 [] ?m = Ok (?p, None, 0, 0)"
    by (simp add: decodeUDPMetadata_wire peerIPSpec_def zoneSpec_def optionalIPSpec_def)
  have d6: "decodeUDPMetadata Arch64 [] ?m6 = Ok (?p, None, 0, 0)"
    using l by (simp add: decodeUDPMetadata_wire peerIPSpec_def zoneSpec_def optionalIPSpec_def)
  have "?m ! 0 = 4" "?m6 ! 0 = 6" "To4 (IP ?p) \<noteq> None" by (simp_all add: udpMetadataWire_def nth_append To4_def v4InV6Prefix_def)
  then show ?thesis using udp_metadata_canonical [OF ok d] udp_metadata_canonical [OF ok d6] by simp
qed

section \<open>Presence-flagged fields\<close>

text \<open>An optional word is a flag and four bytes, an optional string a flag, a length and the
  bytes; when absent everything is zero.\<close>

definition presentU32 :: "u32 option \<Rightarrow> bytes" where
  "presentU32 v = (case v of None \<Rightarrow> 0 # PutUint32 0 | Some x \<Rightarrow> 1 # PutUint32 x)"

definition presentBytes :: "bytes option \<Rightarrow> bytes" where
  "presentBytes v =
     (case v of None \<Rightarrow> 0 # PutUint32 0 | Some s \<Rightarrow> 1 # PutUint32 (of_nat (length s)) @ s)"

definition bytesFit :: "bytes option \<Rightarrow> bool" where
  "bytesFit v = (case v of None \<Rightarrow> True | Some s \<Rightarrow> length s < 2 ^ 32)"

definition tokenOk :: "bytes option \<Rightarrow> bool" where
  "tokenOk v = (case v of None \<Rightarrow> True | Some s \<Rightarrow> length s < 2 ^ 32 \<and> utf8_valid s)"

lemma byte_gt_1_iff [simp]: "(1 :: byte) < b \<longleftrightarrow> b \<noteq> 0 \<and> b \<noteq> 1"
  unfolding word_less_nat_alt word_unat_eq_iff by auto

lemma uint_of_nat_u32: "n < 2 ^ 32 \<Longrightarrow> uint (of_nat n :: u32) = int n"
  by (simp add: unsigned_of_nat take_bit_nat_eq_self)

lemma of_nat_u32_eq_0: "n < 2 ^ 32 \<Longrightarrow> (of_nat n :: u32) = 0 \<longleftrightarrow> n = 0"
  by (simp add: word_unat_eq_iff unsigned_of_nat take_bit_nat_eq_self)

lemma u32_of_uint: "uint w = int n \<Longrightarrow> of_nat n = (w :: u32) \<and> n < 2 ^ 32"
proof -
  assume "uint w = int n"
  then have "n = unat w" by (simp add: unat_eq_nat_uint)
  then show ?thesis using unsigned_less [of w] by simp
qed

lemma u32_as_nat: "\<exists>n. uint (w :: u32) = int n \<and> of_nat n = w \<and> n < 2 ^ 32"
proof (intro exI conjI)
  show "uint w = int (unat w)" by simp
  show "unat w < 2 ^ 32" using unsigned_less [of w] by simp
qed simp

lemma PutUint32_prefix:
  assumes "4 \<le> length xs"
  obtains v ys where "xs = PutUint32 v @ ys"
  using Uint32_total [OF assms] by (metis append_take_drop_id)

section \<open>The bind device\<close>

lemma decodeBindDevice_fields:
  "decodeBindDevice arch (present # PutUint32 wire @ device) =
     (if present \<noteq> 0 \<and> present \<noteq> 1 then Err (errs ''invalid bind device encoding'')
      else if int (length device) \<noteq> int_of_u32 arch wire \<or> (present = 0 \<and> wire \<noteq> 0)
      then Err (errs ''invalid bind device length'')
      else Ok (if present = 0 then None else Some device))"
proof -
  show ?thesis
    by (auto simp: int_of_u32_eq_0 decodeBindDevice_def slice_def slice_from_def index_def)
qed

interpretation bindDevice: codec presentBytes "decodeBindDevice Arch64" bytesFit
proof
  fix v assume "bytesFit v"
  then show "decodeBindDevice Arch64 (presentBytes v) = Ok v"
    using decodeBindDevice_fields [of Arch64 0 0 "[]"]
    by (auto simp: presentBytes_def bytesFit_def decodeBindDevice_fields uint_of_nat_u32
        split: option.splits)
next
  fix bs v assume dec: "decodeBindDevice Arch64 bs = Ok v"
  then have "5 \<le> length bs" by (auto simp: decodeBindDevice_def split: if_splits)
  then obtain present r where bs: "bs = present # r" "4 \<le> length r" by (cases bs) auto
  then obtain wire device where r: "r = PutUint32 wire @ device" using PutUint32_prefix by blast
  have d: "int (length device) = uint wire" "present = 0 \<and> wire = 0 \<and> v = None \<or> present = 1 \<and> v = Some device"
    using dec bs r by (auto simp: decodeBindDevice_fields split: if_splits)
  from u32_of_uint [OF d(1) [symmetric]] d(2) d(1) show "bytesFit v \<and> bs = presentBytes v"
    unfolding bs r by (auto simp: presentBytes_def bytesFit_def)
qed

section \<open>The socket context\<close>

fun ipVersionByte :: "IPVersion \<Rightarrow> byte" where
  "ipVersionByte IPVersionV4 = 0"
| "ipVersionByte IPVersionV6 = 1"
| "ipVersionByte IPVersionBoth = 2"

definition socketContextWire :: "SocketContext \<Rightarrow> bytes" where
  "socketContextWire c =
     ipVersionByte (sc_IPVersion c) # presentU32 (sc_SocketMark c) @ presentBytes (sc_NetNS c)"

lemma decodeIPVersion_iff: "decodeIPVersion b = Ok v \<longleftrightarrow> b = ipVersionByte v"
  by (cases v) (auto simp: decodeIPVersion_def)

lemma decodeIPVersion_not_Panic [simp]: "decodeIPVersion b \<noteq> Panic"
  by (simp add: decodeIPVersion_def)

lemma decodeSocketMark_PutUint32:
  "decodeSocketMark present (PutUint32 w) = Ok v \<longleftrightarrow> presentU32 v = present # PutUint32 w"
  by (auto simp: decodeSocketMark_def presentU32_def split: option.splits)

lemma decodeSocketMark_not_Panic [simp]: "decodeSocketMark present (PutUint32 w) \<noteq> Panic"
  by (simp add: decodeSocketMark_def)

lemma socketContext_fields:
  assumes "11 \<le> length enc"
  obtains v mp mark np wire rest
  where "enc = v # mp # PutUint32 mark @ np # PutUint32 wire @ rest"
proof -
  obtain v mp r1 where 1: "enc = v # mp # r1" "9 \<le> length r1"
    using assms by (cases enc; cases "tl enc") auto
  then obtain mark r2 where 2: "r1 = PutUint32 mark @ r2"
    using PutUint32_prefix [of r1] by auto
  with 1 have "5 \<le> length r2" by simp
  then obtain np r3 where 3: "r2 = np # r3" "4 \<le> length r3" by (cases r2) auto
  then obtain wire rest where "r3 = PutUint32 wire @ rest" using PutUint32_prefix by blast
  with 1 2 3 that show thesis by simp
qed

lemma decodeSocketContext_fields:
  "decodeSocketContext arch (v # mp # PutUint32 mark @ np # PutUint32 wire @ rest) =
     obind (decodeIPVersion v) (\<lambda>ipVersion.
     obind (decodeSocketMark mp (PutUint32 mark)) (\<lambda>socketMark.
     if np \<noteq> 0 \<and> np \<noteq> 1 then Err (errs ''invalid netns presence'')
     else if int_of_u32 arch wire > int (length rest) \<or> (np = 0 \<and> wire \<noteq> 0)
     then Err (errs ''invalid netns length'')
     else if np = 0
     then Ok (\<lparr>sc_IPVersion = ipVersion, sc_SocketMark = socketMark, sc_NetNS = None\<rparr>, rest)
     else if int_of_u32 arch wire < 0 then Panic
     else if \<not> utf8_valid (take (nat (int_of_u32 arch wire)) rest)
     then Err (errs ''netns token is not UTF-8'')
     else Ok (\<lparr>sc_IPVersion = ipVersion, sc_SocketMark = socketMark,
               sc_NetNS = Some (take (nat (int_of_u32 arch wire)) rest)\<rparr>,
              drop (nat (int_of_u32 arch wire)) rest)))"
proof -
  have nat: "nat (11 + i) = 11 + nat i" if "0 \<le> i" for i :: int using that by simp
  have hdr: "drop (11 + k) (v # mp # PutUint32 mark @ np # PutUint32 wire @ rest) = drop k rest"
    for k np wire
    using drop_drop [of k 11 "v # mp # PutUint32 mark @ np # PutUint32 wire @ rest"]
    by (simp add: add.commute)
  show ?thesis
    by (cases "decodeIPVersion v"; cases "decodeSocketMark mp (PutUint32 mark)")
       (auto simp: decodeSocketContext_def slice_def slice_from_def index_def int_of_u32_eq_0
        nth_append nat hdr Let_def)
qed

text \<open>
  C15: the socket context decoder implements the wire grammar, on a 64-bit host. It accepts an
  encoding exactly when that is the encoding of a context (IP version, optional mark, optional
  UTF-8 network namespace), and hands back exactly the bytes that follow it.
\<close>

theorem socket_context_grammar:
  "decodeSocketContext Arch64 enc = Ok (c, rest) \<longleftrightarrow>
     tokenOk (sc_NetNS c) \<and> enc = socketContextWire c @ rest"
proof
  assume "tokenOk (sc_NetNS c) \<and> enc = socketContextWire c @ rest"
  then show "decodeSocketContext Arch64 enc = Ok (c, rest)"
    using decodeSocketContext_fields [of Arch64]
    by (cases c; cases "sc_SocketMark c"; cases "sc_NetNS c")
       (auto simp: socketContextWire_def presentU32_def presentBytes_def tokenOk_def
        decodeSocketMark_def uint_of_nat_u32 decodeIPVersion_iff [THEN iffD2])
next
  assume dec: "decodeSocketContext Arch64 enc = Ok (c, rest)"
  then have "11 \<le> length enc" by (auto simp: decodeSocketContext_def split: if_splits)
  then obtain v mp mark np wire r where enc: "enc = v # mp # PutUint32 mark @ np # PutUint32 wire @ r"
    using socketContext_fields by blast
  obtain n where n: "uint wire = int n" "of_nat n = wire" "n < 2 ^ 32"
    using u32_as_nat by blast
  have "\<exists>x xa. v = ipVersionByte x \<and> presentU32 xa = mp # PutUint32 mark \<and>
    (np = 0 \<and> wire = 0 \<and> rest = r \<and>
       c = \<lparr>sc_IPVersion = x, sc_SocketMark = xa, sc_NetNS = None\<rparr> \<or>
     np = 1 \<and> n \<le> length r \<and> utf8_valid (take n r) \<and> rest = drop n r \<and>
       c = \<lparr>sc_IPVersion = x, sc_SocketMark = xa, sc_NetNS = Some (take n r)\<rparr>)"
    using dec n(1) unfolding enc
    by (auto simp: decodeSocketContext_fields decodeSocketMark_PutUint32 decodeIPVersion_iff
        split: if_splits)
  then show "tokenOk (sc_NetNS c) \<and> enc = socketContextWire c @ rest"
    using n(2,3) unfolding enc
    by (elim exE disjE conjE) (simp_all add: socketContextWire_def presentBytes_def tokenOk_def)
qed

section \<open>The DNS query\<close>

definition dnsQueryWire :: "DNSQuery \<Rightarrow> bytes" where
  "dnsQueryWire q =
     1 # dq_IPVersion q # presentU32 (dq_SocketMark q) @ presentBytes (dq_NetNS q) @
     PutUint32 (of_nat (length (dq_Host q))) @ dq_Host q"

definition dnsQueryOk :: "DNSQuery \<Rightarrow> bool" where
  "dnsQueryOk q \<longleftrightarrow>
     dq_IPVersion q \<in> {0, 4, 6} \<and> tokenOk (dq_NetNS q) \<and>
     dq_Host q \<noteq> [] \<and> length (dq_Host q) < 2 ^ 32 \<and> utf8_valid (dq_Host q)"

text \<open>The part of the decoder behind the fixed header: the host name after a namespace token of
  \<open>n\<close> bytes.\<close>

definition dnsHostSpec ::
  "byte \<Rightarrow> u32 option \<Rightarrow> bytes option \<Rightarrow> bytes \<Rightarrow> DNSQuery outcome" where
  "dnsHostSpec ipVersion socketMark netns rest =
     (if length rest < 4 then Err (errs ''missing DNS host length'')
      else
        obind (Uint32 rest) (\<lambda>hostLength.
        if hostLength = 0 \<or> uint hostLength \<noteq> int (length rest - 4)
        then Err (errs ''invalid DNS host length'')
        else if \<not> utf8_valid (drop 4 rest) then Err (errs ''DNS host is not UTF-8'')
        else Ok \<lparr>dq_Host = drop 4 rest, dq_IPVersion = ipVersion, dq_SocketMark = socketMark,
                 dq_NetNS = netns\<rparr>))"

lemma Uint32_take: "Uint32 (take 4 xs) = Uint32 xs"
  by (cases xs rule: Uint32.cases) simp_all

lemma slice_append_header:
  "length h = k \<Longrightarrow> int k \<le> lo \<Longrightarrow> slice (h @ r) lo hi = slice r (lo - int k) (hi - int k)"
  by (auto simp: slice_def nat_diff_distrib')

lemma slice_from_append_header:
  "length h = k \<Longrightarrow> int k \<le> lo \<Longrightarrow> slice_from (h @ r) lo = slice_from r (lo - int k)"
  by (simp add: slice_from_def slice_append_header)

lemma slice_append_left:
  "length h = k \<Longrightarrow> slice (h @ r) 0 (int k) = Ok h"
  by (simp add: slice_def)

definition dnsHdr :: "byte \<Rightarrow> byte \<Rightarrow> byte \<Rightarrow> u32 \<Rightarrow> byte \<Rightarrow> u32 \<Rightarrow> bytes" where
  "dnsHdr ver ipv mp mark np wire = ver # ipv # mp # PutUint32 mark @ np # PutUint32 wire"

lemma dnsHdr_simps:
  "length (dnsHdr ver ipv mp mark np wire) = 12"
  "index (dnsHdr ver ipv mp mark np wire @ rest) 0 = Ok ver"
  "index (dnsHdr ver ipv mp mark np wire @ rest) 1 = Ok ipv"
  "index (dnsHdr ver ipv mp mark np wire @ rest) 2 = Ok mp"
  "index (dnsHdr ver ipv mp mark np wire @ rest) 7 = Ok np"
  "slice (dnsHdr ver ipv mp mark np wire @ rest) 3 7 = Ok (PutUint32 mark)"
  "slice (dnsHdr ver ipv mp mark np wire @ rest) 8 12 = Ok (PutUint32 wire)"
  by (simp_all add: dnsHdr_def index_def slice_def nth_append)

lemma decodeDNSQuery_hdr:
  assumes "4 \<le> length rest"
  shows "decodeDNSQuery (dnsHdr ver ipv mp mark np wire @ rest) = Ok q \<longleftrightarrow>
     ver = 1 \<and> ipv \<in> {0, 4, 6} \<and> (mp = 1 \<or> mp = 0 \<and> mark = 0) \<and> (np = 1 \<or> np = 0 \<and> wire = 0) \<and>
     uint wire \<le> int (length rest) \<and> (np = 1 \<longrightarrow> utf8_valid (take (unat wire) rest)) \<and>
     dnsHostSpec ipv (if mp = 1 then Some mark else None)
             (if np = 1 then Some (take (unat wire) rest) else None) (drop (unat wire) rest) = Ok q"
proof -
  obtain n where n: "uint wire = int n" "of_nat n = wire" "n < 2 ^ 32" "unat wire = n"
    using u32_as_nat [of wire] by (metis nat_int unat_eq_nat_uint)
  have z: "wire = 0 \<longleftrightarrow> n = 0" using n(4) by (simp add: unat_eq_zero [symmetric] unat_eq_0)
  have b: "x > 1 \<longleftrightarrow> x \<noteq> 0 \<and> x \<noteq> 1" for x :: byte
    by simp
  have l: "Uint32 (slc) = Uint32 slc" for slc by simp
  show ?thesis
  proof (cases "n \<le> length rest")
    case False
    then show ?thesis using n assms by (auto simp: decodeDNSQuery_def dnsHdr_simps Let_def split: if_splits)
  next
    case True
    then obtain pre tail where rest: "rest = pre @ tail" and pre: "length pre = n"
      by (metis append_take_drop_id length_take min.absorb2)
    define enc where "enc = dnsHdr ver ipv mp mark np wire @ rest"
    have enc: "enc = (dnsHdr ver ipv mp mark np wire @ pre) @ tail" by (simp add: enc_def rest)
    have hd: "length enc = 12 + (n + length tail)" "index enc 0 = Ok ver" "index enc 1 = Ok ipv"
       "index enc 2 = Ok mp" "index enc 7 = Ok np" "slice enc 3 7 = Ok (PutUint32 mark)"
       "slice enc 8 12 = Ok (PutUint32 wire)"
       "slice enc 12 (12 + int n) = Ok pre"
      using dnsHdr_simps pre
      by (simp_all add: enc_def rest slice_append_header [OF dnsHdr_simps(1)] slice_def)
    have tl: "slice enc (12 + int n) (12 + int n + 4) = slice tail 0 4"
       "slice_from enc (12 + int n + 4) = slice_from tail 4"
      unfolding enc using pre
      by (subst slice_append_header slice_from_append_header, simp add: dnsHdr_simps, simp, simp)+
    have "decodeDNSQuery enc = Ok q \<longleftrightarrow> ver = 1 \<and> ipv \<in> {0, 4, 6} \<and> (mp = 1 \<or> mp = 0 \<and> mark = 0) \<and> (np = 1 \<or> np = 0 \<and> n = 0) \<and>
       (np = 1 \<longrightarrow> utf8_valid pre) \<and>
     dnsHostSpec ipv (if mp = 1 then Some mark else None) (if np = 1 then Some pre else None) tail = Ok q"
    proof (cases "length tail < 4")
      case True
      then show ?thesis using assms rest pre
        by (auto simp: decodeDNSQuery_def hd tl n(1) Let_def dnsHostSpec_def)
    next
      case False
      then obtain hl host where t: "tail = PutUint32 hl @ host"
        using PutUint32_prefix [of tail] by auto
      have tl': "slice tail 0 4 = Ok (PutUint32 hl)" "slice_from tail 4 = Ok host" "length tail = 4 + length host"
        by (simp_all add: slice_def slice_from_def t)
      have spec: "dnsHostSpec i m ns tail = Ok q \<longleftrightarrow> uint hl = int (length host) \<and> hl \<noteq> 0 \<and> utf8_valid host \<and>
         \<lparr>dq_Host = host, dq_IPVersion = i, dq_SocketMark = m, dq_NetNS = ns\<rparr> = q" for i m ns
        by (auto simp: dnsHostSpec_def t)
      have o: "slice enc (12 + int n) (16 + int n) = Ok (PutUint32 hl)" "slice_from enc (16 + int n) = Ok host"
        "n = 0 \<Longrightarrow> slice enc 12 16 = Ok (PutUint32 hl)" "n = 0 \<Longrightarrow> slice_from enc 16 = Ok host"
        using tl tl' by simp_all
      show ?thesis
        by (cases "mp = 0"; cases "mp = 1"; cases "np = 0"; cases "np = 1")
           (simp_all add: decodeDNSQuery_def hd o tl' n(1) spec Let_def)
    qed
    then show ?thesis using n z True pre by (simp add: enc_def rest)
  qed
qed

interpretation dnsQuery: codec dnsQueryWire decodeDNSQuery dnsQueryOk
proof
  fix enc q assume dec: "decodeDNSQuery enc = Ok q"
  then have len: "16 \<le> length enc" by (auto simp: decodeDNSQuery_def split: if_splits)
  then obtain ver r where enc: "enc = ver # r" "15 \<le> length r" by (cases enc) auto
  then have "11 \<le> length r" by simp
  then obtain ipv mp mark np wire rest where r: "r = ipv # mp # PutUint32 mark @ np # PutUint32 wire @ rest"
    using socketContext_fields by blast
  have h: "enc = dnsHdr ver ipv mp mark np wire @ rest" "4 \<le> length rest"
    using len by (simp_all add: enc r dnsHdr_def)
  obtain n where n: "uint wire = int n" "of_nat n = wire" "n < 2 ^ 32" "unat wire = n"
    using u32_as_nat [of wire] by (metis nat_int unat_eq_nat_uint)
  define tail where "tail = drop n rest"
  from dec [unfolded h(1) decodeDNSQuery_hdr [OF h(2)] n(4)] n
  have d: "ver = 1" "ipv \<in> {0, 4, 6}" "mp = 1 \<or> mp = 0 \<and> mark = 0" "np = 1 \<or> np = 0 \<and> wire = 0"
    "n \<le> length rest" "np = 1 \<longrightarrow> utf8_valid (take n rest)"
    "dnsHostSpec ipv (if mp = 1 then Some mark else None) (if np = 1 then Some (take n rest) else None) tail = Ok q"
    by (simp_all add: tail_def)
  from d(7) have "4 \<le> length tail" by (auto simp: dnsHostSpec_def split: if_splits)
  then obtain hl host where t: "tail = PutUint32 hl @ host" using PutUint32_prefix by blast
  have q: "uint hl = int (length host)" "host \<noteq> []" "utf8_valid host"
     "q = \<lparr>dq_Host = host, dq_IPVersion = ipv, dq_SocketMark = (if mp = 1 then Some mark else None),
       dq_NetNS = (if np = 1 then Some (take n rest) else None)\<rparr>"
    using d(7) by (auto simp: dnsHostSpec_def t uint_0_iff split: if_splits)
  have rest: "rest = take n rest @ PutUint32 hl @ host" using t tail_def by (metis append_take_drop_id)
  from u32_of_uint [OF q(1)] d(1-6) n q(2-4) show "dnsQueryOk q \<and> enc = dnsQueryWire q"
    unfolding h(1) by (subst rest) (auto simp: dnsHdr_def dnsQueryOk_def dnsQueryWire_def presentU32_def presentBytes_def tokenOk_def)
next
  fix q assume ok: "dnsQueryOk q"
  obtain host ipv mark ns where q: "q = \<lparr>dq_Host = host, dq_IPVersion = ipv, dq_SocketMark = mark, dq_NetNS = ns\<rparr>"
    by (cases q)
  define tail where "tail = PutUint32 (of_nat (length host)) @ host"
  define wire :: u32 where "wire = (case ns of None \<Rightarrow> 0 | Some s \<Rightarrow> of_nat (length s))"
  have wire: "unat wire = (case ns of None \<Rightarrow> 0 | Some s \<Rightarrow> length s)"
    using ok by (auto simp: q dnsQueryOk_def tokenOk_def wire_def unsigned_of_nat take_bit_nat_eq_self split: option.splits)
  have wire_le: "uint wire \<le> int (length ((case ns of None \<Rightarrow> [] | Some s \<Rightarrow> s) @ tail))"
    using wire by (auto simp: uint_nat split: option.splits)
  have enc: "dnsQueryWire q = dnsHdr 1 ipv (case mark of None \<Rightarrow> 0 | Some _ \<Rightarrow> 1) (case mark of None \<Rightarrow> 0 | Some m \<Rightarrow> m)
      (case ns of None \<Rightarrow> 0 | Some _ \<Rightarrow> 1) wire @ (case ns of None \<Rightarrow> [] | Some s \<Rightarrow> s) @ tail"
    by (simp add: q dnsQueryWire_def dnsHdr_def presentU32_def presentBytes_def tail_def wire_def split: option.splits)
  have "dnsHostSpec ipv mark ns tail = Ok q"
    using ok by (auto simp: q dnsQueryOk_def dnsHostSpec_def tail_def uint_of_nat_u32 of_nat_u32_eq_0)
  then show "decodeDNSQuery (dnsQueryWire q) = Ok q"
    unfolding enc using ok wire wire_le
    by (subst decodeDNSQuery_hdr)
       (auto simp: q tail_def dnsQueryOk_def tokenOk_def wire_def split: option.splits)
qed

text \<open>
  C14: the DNS query decoder implements the wire grammar. It accepts an encoding exactly when that
  is the version 1 encoding of a query with a known IP version, an optional mark, an optional
  UTF-8 namespace and a non-empty UTF-8 host that takes up the rest of the message.
\<close>

theorem dns_query_grammar:
  "decodeDNSQuery enc = Ok q \<longleftrightarrow> dnsQueryOk q \<and> enc = dnsQueryWire q"
  by (rule dnsQuery.dec_iff)

end
