(* ===== verification/HostWireSafe.thy ===== *)
theory HostWireSafe
  imports HostWireSpec
begin

text \<open>
  Panic freedom of the decoders that read bytes a guest controls (hostabi): on a 64-bit host every
  input is a value or an error, and on a 32-bit host the conversion of a length to \<^verbatim>\<open>int\<close> breaks that.
\<close>

section \<open>No guest input panics the host\<close>

lemma Uint32_slice_Ok: "k + 4 \<le> length xs \<Longrightarrow> \<exists>w. Uint32 (take 4 (drop k xs)) = Ok w"
  using Uint32_total [of "take 4 (drop k xs)"] by auto

lemma InterfaceByIndex_not_Panic [simp]: "InterfaceByIndex ift i \<noteq> Panic"
  by (simp add: InterfaceByIndex_def split: option.splits)

lemma decodeUDPMetadata_not_Panic [simp]: "decodeUDPMetadata arch ift metadata \<noteq> Panic"
proof (cases "length metadata = 48")
  case True
  obtain a b c where u: "Uint32 (take 4 (drop 19 metadata)) = Ok a"
     "Uint32 (take 4 (drop 23 metadata)) = Ok b" "Uint32 (drop 44 metadata) = Ok c"
    using Uint32_slice_Ok [of 19 metadata] Uint32_slice_Ok [of 23 metadata]
      Uint32_slice_Ok [of 44 metadata] True by (auto simp: Uint32_take)
  obtain d where d: "Uint16 (take 2 (drop 17 metadata)) = Ok d"
    using Uint16_total [of "take 2 (drop 17 metadata)"] True by auto
  show ?thesis using True
    by (simp add: decodeUDPMetadata_def index_def slice_def u d)
qed (simp add: decodeUDPMetadata_def udpMetadataLen_def)

lemma decodeSocketAddress_not_Panic [simp]: "decodeSocketAddress arch ift w opt \<noteq> Panic"
  by (auto simp: decodeSocketAddress_def socketAddressLen_def index_def slice_def slice_from_def
      Let_def split: if_splits)

lemma decodeSocketContext64_not_Panic [simp]: "decodeSocketContext Arch64 enc \<noteq> Panic"
proof (cases "11 \<le> length enc")
  case True
  then obtain v mp mark np wire rest where "enc = v # mp # PutUint32 mark @ np # PutUint32 wire @ rest"
    using socketContext_fields by blast
  then show ?thesis by (auto simp: decodeSocketContext_fields)
qed (simp add: decodeSocketContext_def)

lemma decodeBindDevice_not_Panic [simp]: "decodeBindDevice arch enc \<noteq> Panic"
proof (cases "5 \<le> length enc")
  case True
  then obtain w where "Uint32 (take 4 (drop 1 enc)) = Ok w" using Uint32_slice_Ok [of 1 enc] by auto
  with True show ?thesis by (auto simp: decodeBindDevice_def index_def slice_def slice_from_def Let_def)
qed (simp add: decodeBindDevice_def)

lemma decodePurpose_not_Panic [simp]:
  "decodeTCPConnectPurpose b \<noteq> Panic" "decodeUDPBindPurpose b \<noteq> Panic"
  "decodeTCPListenPurpose b \<noteq> Panic" "decodeWireBool name b \<noteq> Panic"
  by (simp_all add: decodeTCPConnectPurpose_def decodeUDPBindPurpose_def decodeTCPListenPurpose_def
      decodeWireBool_def)

lemma decodeTCPBindPolicy_not_Panic [simp]: "decodeTCPBindPolicy arch a c r0 r1 r2 d \<noteq> Panic"
  by (simp add: decodeTCPBindPolicy_def)

lemma decodeTCPConnectOptions_not_Panic: "decodeTCPConnectOptions Arch64 ift enc \<noteq> Panic"
  by (auto simp: decodeTCPConnectOptions_def index_def slice_def slice_from_def split: option.splits)

lemma decodeUDPBindOptions_not_Panic: "decodeUDPBindOptions Arch64 ift enc \<noteq> Panic"
  by (auto simp: decodeUDPBindOptions_def index_def slice_def slice_from_def split: option.splits)

lemma decodeTCPListenOptions_not_Panic: "decodeTCPListenOptions Arch64 ift enc \<noteq> Panic"
  by (auto simp: decodeTCPListenOptions_def index_def slice_def slice_from_def split: option.splits)

lemma dnsHostSpec_not_Panic: "dnsHostSpec a b c rest \<noteq> Panic"
  using Uint32_total [of rest] by (auto simp: dnsHostSpec_def)

lemma slice_Panic_iff: "slice xs lo hi = Panic \<longleftrightarrow> \<not> (0 \<le> lo \<and> lo \<le> hi \<and> hi \<le> int (length xs))"
  by (simp add: slice_def)

lemma slice_Uint32_PanicD: "Uint32 x = Panic \<Longrightarrow> slice xs lo hi = Ok x \<Longrightarrow> hi - lo < 4"
  using Uint32_total [of x] slice_Ok_length [of xs lo hi x] by fastforce

lemma obind_PanicE:
  assumes "obind m f = Panic"
  obtains "m = Panic" | x where "m = Ok x" "f x = Panic"
  using assms by auto

lemma decodeDNSQuery_not_Panic: "decodeDNSQuery enc \<noteq> Panic"
proof (cases "16 \<le> length enc")
  case True
  have idx: "index enc 0 \<noteq> Panic" "index enc 1 \<noteq> Panic" "index enc 2 \<noteq> Panic" "index enc 7 \<noteq> Panic"
    using True by (auto simp: index_def)
  show ?thesis using True
    by (auto simp: decodeDNSQuery_def slice_from_def idx slice_Panic_iff Let_def
        simp del: obind_Panic_iff obind_Ok_iff split: if_splits elim!: obind_PanicE) (drule (1) slice_Uint32_PanicD, simp)+
qed (simp add: decodeDNSQuery_def)

text \<open>
  C13: on a 64-bit host no bytes a guest can hand over panic the host in a decoder: each of the
  option, metadata and query decoders returns a value or an error on every input.
\<close>

theorem decoders_never_panic:
  "decodeUDPMetadata Arch64 ift enc \<noteq> Panic \<and> decodeTCPConnectOptions Arch64 ift enc \<noteq> Panic \<and>
   decodeUDPBindOptions Arch64 ift enc \<noteq> Panic \<and> decodeTCPListenOptions Arch64 ift enc \<noteq> Panic \<and>
   decodeDNSQuery enc \<noteq> Panic"
  by (intro conjI decodeUDPMetadata_not_Panic decodeTCPConnectOptions_not_Panic
      decodeUDPBindOptions_not_Panic decodeTCPListenOptions_not_Panic decodeDNSQuery_not_Panic)

text \<open>
  C18: on a 32-bit host a guest can panic the host. The namespace length is converted to
  \<^verbatim>\<open>int\<close> before it is compared, a length of $2^{31}$ or more is negative there, passes the comparison
  and reaches the slice expression.
\<close>

theorem socket_context_panics_on_32_bit:
  assumes "2 ^ 31 \<le> uint wire" and "decodeIPVersion v = Ok ip"
  shows "decodeSocketContext Arch32 (v # 0 # PutUint32 0 @ 1 # PutUint32 wire @ rest) = Panic"
proof -
  have "uint wire div 2147483648 = 1" using assms(1) uint_lt2p [of wire] by simp
  then have "bit wire 31" using bit_uint_iff [of wire 31] by (simp add: bit_iff_odd [of "uint wire"])
  then have "sint wire < 0" using bit_last_iff [of wire] by simp
  then show ?thesis using assms(2)
    by (simp add: decodeSocketContext_fields decodeSocketMark_def)
qed

lemma numeral_bytes: "(32768 :: byte) = 0" "(8388608 :: byte) = 0" "(2147483648 :: byte) = 0"
  by simp_all

theorem socket_context_panics_on_32_bit_witness:
  "decodeSocketContext Arch32 [0, 0, 0, 0, 0, 0, 1, 0x80, 0, 0, 0] = Panic"
  using socket_context_panics_on_32_bit [of "0x80000000" 0 IPVersionV4 "[]"]
    numeral_bytes by (simp add: decodeIPVersion_def PutUint32_def)

end
