(* ===== verification/ReactorState.thy ===== *)
theory ReactorState
  imports Platform
begin

text \<open>
  The state of the host reactor (internal/reactor): the objects the Go code shares by pointer, the
  reactor record with its tables, and the helpers every operation uses.

  Objects that are mutated through a pointer held in several places (stream, write request,
  datagram socket, listener, packet sink) live in an explicit store, a function from references
  to records; \<open>nextRef\<close> is the allocator. Objects that only a table holds are records in that table; an
  identity field stands for the pointer where the code compares pointers.

  Everything the code does under \<^verbatim>\<open>reactor.mu\<close> is one atomic function on the state. A
  goroutine is an entry in one of the \<open>...Tasks\<close> lists, one list per place in which a goroutine
  can be while it does not hold the lock; the blocking call it is in returns with a result the
  environment chooses. \<open>workers\<close> is the counter of the wait group, changed where the code calls
  \<^verbatim>\<open>Add\<close> and \<^verbatim>\<open>Done\<close>. The completion channel has capacity one and carries no
  value, so it is a boolean; a signal that the code sends after unlocking is part of the same
  atomic function. Four ghost fields record what the code did to the outside: the resources it was given and
  those it closed, the contexts it derived and those it cancelled.
\<close>

type_synonym ref = nat

section \<open>Objects\<close>

text \<open>A connection, packet connection or listener of package net: its identity and addresses.\<close>

record ioResource =
  res_id :: nat
  res_LocalAddr :: net_addr
  res_RemoteAddr :: net_addr

datatype operationKind =
    operationRead | operationWrite | operationUDPRead | operationUDPWrite | operationCreate
  | operationAccept | operationDNS | operationEnvironment | operationPacketWrite
  | operationManagement

text \<open>A read operation is never changed once it is made, so that a copy of it is as good as the
  pointer; \<open>ro_ref\<close> is its identity.\<close>

record readOperation =
  ro_ref :: ref
  ro_capacity :: u32
  ro_stream :: ref

record writeOperation =
  wo_operation :: u64
  wo_stream :: ref
  wo_data :: bytes
  wo_done :: bool
  wo_err :: "goerror option"

record streamState =
  ss_connection :: ioResource
  ss_closed :: bool
  ss_readQueue :: "readOperation list"
  ss_readRunning :: bool
  ss_readReady :: bool
  ss_readData :: bytes
  ss_readErr :: "goerror option"
  ss_writeQueue :: "ref list"
  ss_writeRunning :: bool
  ss_writeActive :: "ref option"

record Datagram =
  dg_Data :: bytes
  dg_Peer :: UDPAddr

record udpSend =
  us_data :: bytes
  us_peer :: UDPAddr

text \<open>The send queue is a channel of capacity 64: its content and whether it is closed.\<close>

record datagramState =
  ds_connection :: ioResource
  ds_received :: "Datagram list"
  ds_receiveRunning :: bool
  ds_receiveErr :: "goerror option"
  ds_sendQueue :: "udpSend list"
  ds_sendClosed :: bool
  ds_sendErr :: "goerror option"

record listenerState =
  ls_listener :: ioResource
  ls_accepted :: "ioResource list"
  ls_acceptRunning :: bool
  ls_acceptErr :: "goerror option"

text \<open>\<^verbatim>\<open>udpReadWaiter\<close>, \<^verbatim>\<open>udpWriteWaiter\<close>, \<^verbatim>\<open>acceptWaiter\<close> and \<^verbatim>\<open>packetWriteWaiter\<close> have the same
  two fields.\<close>

record waiter =
  w_handle :: u64
  w_ready :: bool

record packetSink =
  ps_capacity :: int
  ps_packets :: "bytes list"
  ps_available :: bool
  ps_closed :: bool

datatype createKind = createTCPConnect | createUDPBind | createTCPListen

text \<open>The call of the socket factory a goroutine is in.\<close>

datatype createRequest =
    ConnectTCP TCPConnectOptions
  | BindUDPSocket UDPBindOptions
  | ListenTCP TCPListenOptions

record createOperation =
  co_ref :: ref
  co_kind :: createKind
  co_done :: bool
  co_connection :: "ioResource option"
  co_datagram :: "ioResource option"
  co_listener :: "ioResource option"
  co_localAddr :: "net_addr option"
  co_peerAddr :: "net_addr option"
  co_err :: "goerror option"

text \<open>The kind is a byte that an adapter passes through; values above 2 are possible.\<close>

datatype DNSKind = DNSAddress | DNSTXT | DNSSRV | DNSOther byte

record DNSResult =
  dr_Kind :: DNSKind
  dr_Addresses :: "netip_addr list"
  dr_Text :: bytes
  dr_Records :: "SRV option list"

record dnsOperation =
  do_ref :: ref
  do_kind :: DNSKind
  do_done :: bool
  do_result :: DNSResult
  do_err :: "goerror option"

record environmentOperation =
  eo_ref :: ref
  eo_done :: bool
  eo_result :: "net_addr option"
  eo_err :: "goerror option"

record managementOperation =
  mo_ref :: ref
  mo_done :: bool
  mo_result :: bytes

record StreamResult =
  sr_Handle :: u64
  sr_Local :: "net_addr option"
  sr_Peer :: "net_addr option"

record BoundResult =
  br_Handle :: u64
  br_Local :: "net_addr option"

section \<open>The reactor\<close>

text \<open>
  What a caller of \<^verbatim>\<open>CloseHandle\<close> has still to do after it has left the lock: close a connection, close the channel of
  a datagram socket, close a listener with the connections it accepted.
\<close>

datatype closeAction = CloseConnection ioResource | CloseChannel ref | CloseListener ref

record reactor =
  ctxDone :: bool
  closed :: bool
  closeDone :: bool
  completion :: bool
  workers :: nat
  nextHandle :: u64
  hasSockets :: bool
  hasDNS :: bool
  hasEnvironment :: bool
  hasManagement :: bool
  operations :: "u64 \<rightharpoonup> operationKind"
  streams :: "u64 \<rightharpoonup> ref"
  datagrams :: "u64 \<rightharpoonup> ref"
  drainingDatagrams :: "ref set"
  listeners :: "u64 \<rightharpoonup> ref"
  reads :: "u64 \<rightharpoonup> readOperation"
  writes :: "u64 \<rightharpoonup> ref"
  udpReads :: "u64 \<rightharpoonup> waiter"
  udpWrites :: "u64 \<rightharpoonup> waiter"
  accepts :: "u64 \<rightharpoonup> waiter"
  creates :: "u64 \<rightharpoonup> createOperation"
  dns :: "u64 \<rightharpoonup> dnsOperation"
  environments :: "u64 \<rightharpoonup> environmentOperation"
  eventSinks :: "u64 \<rightharpoonup> ref"
  packetSinks :: "u64 \<rightharpoonup> ref"
  packetWrites :: "u64 \<rightharpoonup> waiter"
  management :: "u64 \<rightharpoonup> managementOperation"
  nextRef :: ref
  streamAt :: "ref \<Rightarrow> streamState"
  writeAt :: "ref \<Rightarrow> writeOperation"
  datagramAt :: "ref \<Rightarrow> datagramState"
  listenerAt :: "ref \<Rightarrow> listenerState"
  sinkAt :: "ref \<Rightarrow> packetSink"
  readTasks :: "(u32 \<times> ref) list"
  writeTasks :: "ref list"
  writingTasks :: "(ref \<times> ref \<times> bytes) list"
  acceptTasks :: "(u64 \<times> ref) list"
  receiveTasks :: "(u64 \<times> ref) list"
  sendTasks :: "(u64 \<times> ref) list"
  dequeuedTasks :: "(u64 \<times> ref \<times> udpSend) list"
  sendingTasks :: "(u64 \<times> ref \<times> udpSend) list"
  createTasks :: "(u64 \<times> ref \<times> createRequest) list"
  dnsTasks :: "(u64 \<times> ref \<times> DNSKind \<times> DNSQuery) list"
  environmentTasks :: "(u64 \<times> ref \<times> UDPAddr \<times> SocketContext) list"
  managementTasks :: "(u64 \<times> ref \<times> bytes) list"
  closings :: "closeAction list"
  obtained :: "nat set"
  closedResources :: "nat set"
  derivedContexts :: "ref set"
  cancelledContexts :: "ref set"

text \<open>The number of goroutines the reactor has started and that have not ended.\<close>

definition liveTasks :: "reactor \<Rightarrow> nat" where
  "liveTasks r =
     length (readTasks r) + length (writeTasks r) + length (writingTasks r) +
     length (acceptTasks r) + length (receiveTasks r) + length (sendTasks r) +
     length (dequeuedTasks r) + length (sendingTasks r) + length (createTasks r) +
     length (dnsTasks r) + length (environmentTasks r) + length (managementTasks r)"

section \<open>Helpers of reactor.go\<close>

definition signalCompletion :: "reactor \<Rightarrow> reactor" where
  "signalCompletion r = r\<lparr>completion := True\<rparr>"

definition signalIf :: "bool \<Rightarrow> reactor \<Rightarrow> reactor" where
  "signalIf b r = (if b then signalCompletion r else r)"

definition claimOperationLocked :: "u64 \<Rightarrow> operationKind \<Rightarrow> reactor \<Rightarrow> reactor outcome" where
  "claimOperationLocked opId kind r =
     (if closed r then Err ErrInvalid
      else if operations r opId \<noteq> None then Err ErrInvalid
      else Ok (r\<lparr>operations := (operations r)(opId \<mapsto> kind)\<rparr>))"

definition releaseOperationLocked :: "u64 \<Rightarrow> operationKind \<Rightarrow> reactor \<Rightarrow> bool \<times> reactor" where
  "releaseOperationLocked opId kind r =
     (if operations r opId \<noteq> Some kind then (False, r)
      else (True, r\<lparr>operations := (operations r)(opId := None)\<rparr>))"

definition allocateHandleLocked :: "reactor \<Rightarrow> u64 \<times> reactor" where
  "allocateHandleLocked r = (let h = nextHandle r + 1 in (h, r\<lparr>nextHandle := h\<rparr>))"

text \<open>\<^verbatim>\<open>Close\<close> on a resource, and the cancel function of a derived context.\<close>

definition closeResource :: "ioResource \<Rightarrow> reactor \<Rightarrow> reactor" where
  "closeResource c r = r\<lparr>closedResources := insert (res_id c) (closedResources r)\<rparr>"

definition closeIfAny :: "ioResource option \<Rightarrow> reactor \<Rightarrow> reactor" where
  "closeIfAny c r = (case c of None \<Rightarrow> r | Some c \<Rightarrow> closeResource c r)"

definition cancelContext :: "ref \<Rightarrow> reactor \<Rightarrow> reactor" where
  "cancelContext x r = r\<lparr>cancelledContexts := insert x (cancelledContexts r)\<rparr>"

text \<open>A resource handed over by the platform.\<close>

definition receiveResource :: "ioResource option \<Rightarrow> reactor \<Rightarrow> reactor" where
  "receiveResource c r =
     (case c of None \<Rightarrow> r | Some c \<Rightarrow> r\<lparr>obtained := insert (res_id c) (obtained r)\<rparr>)"

text \<open>The loops over a table of waiters: mark those of one handle ready, and whether there is one.\<close>

definition markReady :: "u64 \<Rightarrow> (u64 \<rightharpoonup> waiter) \<Rightarrow> (u64 \<rightharpoonup> waiter)" where
  "markReady handle m =
     (\<lambda>i. map_option (\<lambda>w. if w_handle w = handle then w\<lparr>w_ready := True\<rparr> else w) (m i))"

definition hasWaiter :: "u64 \<Rightarrow> (u64 \<rightharpoonup> waiter) \<Rightarrow> bool" where
  "hasWaiter handle m \<longleftrightarrow> (\<exists>i \<in> dom m. w_handle (the (m i)) = handle)"

section \<open>New\<close>

definition newStreamState :: "ioResource \<Rightarrow> streamState" where
  "newStreamState connection =
     \<lparr>ss_connection = connection, ss_closed = False, ss_readQueue = [], ss_readRunning = False,
      ss_readReady = False, ss_readData = [], ss_readErr = None, ss_writeQueue = [],
      ss_writeRunning = False, ss_writeActive = None\<rparr>"

definition newDatagramState :: "ioResource \<Rightarrow> datagramState" where
  "newDatagramState connection =
     \<lparr>ds_connection = connection, ds_received = [], ds_receiveRunning = False,
      ds_receiveErr = None, ds_sendQueue = [], ds_sendClosed = False, ds_sendErr = None\<rparr>"

definition newListenerState :: "ioResource \<Rightarrow> listenerState" where
  "newListenerState listener =
     \<lparr>ls_listener = listener, ls_accepted = [], ls_acceptRunning = False, ls_acceptErr = None\<rparr>"

text \<open>Store a new stream under a handle; store a new datagram socket and start its sender.\<close>

definition addStream :: "u64 \<Rightarrow> ioResource \<Rightarrow> reactor \<Rightarrow> reactor" where
  "addStream handle connection r =
     r\<lparr>streams := (streams r)(handle \<mapsto> nextRef r),
       streamAt := (streamAt r)(nextRef r := newStreamState connection),
       nextRef := Suc (nextRef r)\<rparr>"

definition addDatagram :: "u64 \<Rightarrow> ioResource \<Rightarrow> reactor \<Rightarrow> reactor" where
  "addDatagram handle connection r =
     r\<lparr>datagrams := (datagrams r)(handle \<mapsto> nextRef r),
       datagramAt := (datagramAt r)(nextRef r := newDatagramState connection),
       workers := Suc (workers r),
       sendTasks := (handle, nextRef r) # sendTasks r,
       nextRef := Suc (nextRef r)\<rparr>"

definition addListener :: "u64 \<Rightarrow> ioResource \<Rightarrow> reactor \<Rightarrow> reactor" where
  "addListener handle listener r =
     r\<lparr>listeners := (listeners r)(handle \<mapsto> nextRef r),
       listenerAt := (listenerAt r)(nextRef r := newListenerState listener),
       nextRef := Suc (nextRef r)\<rparr>"

text \<open>What the caller of \<^verbatim>\<open>New\<close> passes; the initial tables in the order they are ranged over.\<close>

record Options =
  op_Sockets :: bool
  op_DNS :: bool
  op_Environment :: bool
  op_Management :: bool
  op_InitialStreams :: "(u64 \<times> ioResource) list"
  op_InitialDatagrams :: "(u64 \<times> ioResource) list"

definition noResource :: ioResource where
  "noResource = \<lparr>res_id = 0, res_LocalAddr = OtherAddr, res_RemoteAddr = OtherAddr\<rparr>"

definition emptyReactor :: "Options \<Rightarrow> reactor" where
  "emptyReactor options =
     \<lparr>ctxDone = False, closed = False, closeDone = False, completion = False, workers = 0,
      nextHandle = 2 ^ 48,
      hasSockets = op_Sockets options, hasDNS = op_DNS options,
      hasEnvironment = op_Environment options, hasManagement = op_Management options,
      operations = Map.empty, streams = Map.empty, datagrams = Map.empty,
      drainingDatagrams = {}, listeners = Map.empty, reads = Map.empty, writes = Map.empty,
      udpReads = Map.empty, udpWrites = Map.empty, accepts = Map.empty, creates = Map.empty,
      dns = Map.empty, environments = Map.empty, eventSinks = Map.empty,
      packetSinks = Map.empty, packetWrites = Map.empty, management = Map.empty,
      nextRef = 0,
      streamAt = (\<lambda>_. newStreamState noResource),
      writeAt = (\<lambda>_. \<lparr>wo_operation = 0, wo_stream = 0, wo_data = [], wo_done = False, wo_err = None\<rparr>),
      datagramAt = (\<lambda>_. newDatagramState noResource),
      listenerAt = (\<lambda>_. newListenerState noResource),
      sinkAt = (\<lambda>_. \<lparr>ps_capacity = 0, ps_packets = [], ps_available = False, ps_closed = False\<rparr>),
      readTasks = [], writeTasks = [], writingTasks = [], acceptTasks = [], receiveTasks = [],
      sendTasks = [], dequeuedTasks = [], sendingTasks = [], createTasks = [], dnsTasks = [],
      environmentTasks = [], managementTasks = [],
      closings = [], obtained = {}, closedResources = {}, derivedContexts = {}, cancelledContexts = {}\<rparr>"

definition New :: "Options \<Rightarrow> reactor" where
  "New options =
     fold (\<lambda>(handle, connection) r. addDatagram handle connection (receiveResource (Some connection) r))
       (op_InitialDatagrams options)
       (fold (\<lambda>(handle, connection) r. addStream handle connection (receiveResource (Some connection) r))
          (op_InitialStreams options) (emptyReactor options))"

end
