(* ===== verification/ReactorStream.thy ===== *)
theory ReactorStream
  imports ReactorState
begin

text \<open>
  Streams of the reactor (internal/reactor/stream.go): reads are served one at a time in the order
  they were started, by a goroutine that reads ahead at most one chunk; writes are sent in order by a
  writer goroutine that lives as long as there is something to send.
\<close>

section \<open>Reads\<close>

definition updStream :: "ref \<Rightarrow> (streamState \<Rightarrow> streamState) \<Rightarrow> reactor \<Rightarrow> reactor" where
  "updStream s f r = r\<lparr>streamAt := (streamAt r)(s := f (streamAt r s))\<rparr>"

definition readAvailableLocked :: "streamState \<Rightarrow> bool" where
  "readAvailableLocked stream \<longleftrightarrow> ss_readReady stream \<or> ss_closed stream \<and> \<not> ss_readRunning stream"

text \<open>The task it returns is launched by every caller after unlocking, so the model starts the
  goroutine here. A zero task is not launched.\<close>

definition prepareStreamReadLocked :: "ref \<Rightarrow> reactor \<Rightarrow> reactor" where
  "prepareStreamReadLocked s r =
     (let stream = streamAt r s in
      case ss_readQueue stream of
        [] \<Rightarrow> r
      | first # _ \<Rightarrow>
          if closed r \<or> ss_closed stream \<or> ss_readRunning stream \<or> ss_readReady stream then r
          else
            (updStream s (\<lambda>st. st\<lparr>ss_readRunning := True\<rparr>) r)
              \<lparr>workers := Suc (workers r), readTasks := (ro_capacity first, s) # readTasks r\<rparr>)"

definition StartRead :: "u64 \<Rightarrow> u64 \<Rightarrow> u32 \<Rightarrow> reactor \<Rightarrow> goerror option \<times> reactor" where
  "StartRead handle operation capacity r =
     (case streams r handle of
        None \<Rightarrow> (Some ErrInvalid, r)
      | Some s \<Rightarrow>
          if capacity = 0 then (Some ErrInvalid, r)
          else
            case claimOperationLocked operation operationRead r of
              Ok r \<Rightarrow>
                let w = \<lparr>ro_ref = nextRef r, ro_capacity = capacity, ro_stream = s\<rparr>;
                    r = r\<lparr>nextRef := Suc (nextRef r), reads := (reads r)(operation \<mapsto> w)\<rparr>;
                    r = updStream s (\<lambda>st. st\<lparr>ss_readQueue := ss_readQueue st @ [w]\<rparr>) r;
                    ready = readAvailableLocked (streamAt r s)
                in (None, signalIf ready (prepareStreamReadLocked s r))
            | Err e \<Rightarrow> (Some e, r)
            | Panic \<Rightarrow> (None, r))"

text \<open>
  The goroutine's \<^verbatim>\<open>Read\<close> has returned \<open>n\<close> bytes, the prefix \<open>chunk\<close> of its buffer, and
  perhaps an error; the rest of the function runs under the lock.
\<close>

definition runStreamRead ::
  "u32 \<Rightarrow> ref \<Rightarrow> bytes \<Rightarrow> goerror option \<Rightarrow> reactor \<Rightarrow> reactor" where
  "runStreamRead capacity s chunk err r =
     (let r = updStream s (\<lambda>st. st\<lparr>ss_readRunning := False, ss_readData := chunk,
                ss_readErr := err, ss_readReady := True\<rparr>) r;
          ready = ss_readQueue (streamAt r s) \<noteq> []
      in (signalIf ready r)
           \<lparr>workers := workers r - 1, readTasks := remove1 (capacity, s) (readTasks r)\<rparr>)"

definition removeReadOperation :: "readOperation list \<Rightarrow> readOperation \<Rightarrow> readOperation list" where
  "removeReadOperation queue operation = remove1 operation queue"

text \<open>
  The code converts the capacity to \<^verbatim>\<open>int\<close>. The reactor is modelled with an \<^verbatim>\<open>int\<close> of 64 bits, where this is the number
  itself; with 32 bits a capacity of \<open>2 ^ 31\<close> or more would be negative.
\<close>

definition TakeRead :: "u64 \<Rightarrow> reactor \<Rightarrow> (bytes \<times> goerror option) \<times> reactor" where
  "TakeRead operation r =
     (case reads r operation of
        None \<Rightarrow> (([], Some ErrInvalid), r)
      | Some w \<Rightarrow>
          if operations r operation \<noteq> Some operationRead then (([], Some ErrInvalid), r)
          else
            let s = ro_stream w; stream = streamAt r s in
            case ss_readQueue stream of
              [] \<Rightarrow> (([], Some ErrPending), r)
            | first # queue \<Rightarrow>
                if first \<noteq> w then (([], Some ErrPending), r)
                else if \<not> readAvailableLocked stream then (([], Some ErrPending), r)
                else
                  let available = ss_readData stream;
                      take_len = min (length available) (unat (ro_capacity w));
                      (data, err, stream) =
                        (if ss_readReady stream then
                           if take_len = length available
                           then (take take_len available, ss_readErr stream,
                                 stream\<lparr>ss_readData := [], ss_readErr := None, ss_readReady := False\<rparr>)
                           else (take take_len available, None,
                                 stream\<lparr>ss_readData := drop take_len available\<rparr>)
                         else ([], Some NetErrClosed, stream));
                      stream = stream\<lparr>ss_readQueue := queue\<rparr>;
                      r = r\<lparr>streamAt := (streamAt r)(s := stream),
                            reads := (reads r)(operation := None)\<rparr>;
                      r = snd (releaseOperationLocked operation operationRead r);
                      ready = (queue \<noteq> [] \<and> readAvailableLocked stream);
                      err = (case err of None \<Rightarrow> None
                             | Some e \<Rightarrow> if errors_Is e IoEOF then None else Some e)
                  in ((data, err), signalIf ready (prepareStreamReadLocked s r)))"

definition cancelStreamReadLocked :: "u64 \<Rightarrow> reactor \<Rightarrow> bool \<times> reactor" where
  "cancelStreamReadLocked operation r =
     (case reads r operation of
        None \<Rightarrow> (False, r)
      | Some w \<Rightarrow>
          let r = r\<lparr>reads := (reads r)(operation := None)\<rparr>;
              s = ro_stream w;
              queue = ss_readQueue (streamAt r s);
              wasFirst = (queue \<noteq> [] \<and> hd queue = w);
              queue = removeReadOperation queue w;
              r = updStream s (\<lambda>st. st\<lparr>ss_readQueue := queue\<rparr>) r;
              ready = (wasFirst \<and> queue \<noteq> [] \<and> readAvailableLocked (streamAt r s))
          in (ready, prepareStreamReadLocked s r))"

section \<open>Writes\<close>

definition StartWrite :: "u64 \<Rightarrow> u64 \<Rightarrow> bytes \<Rightarrow> reactor \<Rightarrow> goerror option \<times> reactor" where
  "StartWrite handle operation data r =
     (case streams r handle of
        None \<Rightarrow> (Some ErrInvalid, r)
      | Some s \<Rightarrow>
          case claimOperationLocked operation operationWrite r of
            Ok r \<Rightarrow>
              let q = nextRef r;
                  r = r\<lparr>nextRef := Suc q,
                        writeAt := (writeAt r)(q := \<lparr>wo_operation = operation, wo_stream = s,
                                     wo_data = data, wo_done = False, wo_err = None\<rparr>),
                        writes := (writes r)(operation \<mapsto> q)\<rparr>;
                  r = updStream s (\<lambda>st. st\<lparr>ss_writeQueue := ss_writeQueue st @ [q]\<rparr>) r;
                  startWorker = (\<not> ss_writeRunning (streamAt r s))
              in (None,
                  if startWorker
                  then (updStream s (\<lambda>st. st\<lparr>ss_writeRunning := True\<rparr>) r)
                         \<lparr>workers := Suc (workers r), writeTasks := s # writeTasks r\<rparr>
                  else r)
          | Err e \<Rightarrow> (Some e, r)
          | Panic \<Rightarrow> (None, r))"

text \<open>\<^verbatim>\<open>runStreamWrites\<close>, the locked section at the head of its loop.\<close>

definition runStreamWrites_head :: "ref \<Rightarrow> reactor \<Rightarrow> reactor" where
  "runStreamWrites_head s r =
     (case (if closed r then [] else ss_writeQueue (streamAt r s)) of
        [] \<Rightarrow>
          (updStream s (\<lambda>st. st\<lparr>ss_writeQueue := [], ss_writeRunning := False\<rparr>) r)
            \<lparr>workers := workers r - 1, writeTasks := remove1 s (writeTasks r)\<rparr>
      | request # queue \<Rightarrow>
          (updStream s (\<lambda>st. st\<lparr>ss_writeQueue := queue, ss_writeActive := Some request\<rparr>) r)
            \<lparr>writeTasks := remove1 s (writeTasks r),
              writingTasks := (s, request, wo_data (writeAt r request)) # writingTasks r\<rparr>)"

text \<open>
  The loop that writes the whole request. \<open>answers\<close> is what the successive calls of
  \<^verbatim>\<open>Write\<close> return (a number of bytes and an error); the result is the number of bytes
  written, the error and whether the loop has ended: it has not when the answers run out.
\<close>

fun writeLoop ::
  "bytes \<Rightarrow> nat \<Rightarrow> (nat \<times> goerror option) list \<Rightarrow> (nat \<times> goerror option) option" where
  "writeLoop data written [] = (if written < length data then None else Some (written, None))"
| "writeLoop data written ((n, err) # answers) =
     (if written < length data then
        (case err of
           Some e \<Rightarrow> Some (written + n, Some e)
         | None \<Rightarrow> if n = 0 then Some (written + n, Some IoErrShortWrite)
                   else writeLoop data (written + n) answers)
      else Some (written, None))"

text \<open>\<^verbatim>\<open>runStreamWrites\<close>, the locked section after the loop, with the loop's error.\<close>

definition runStreamWrites_done ::
  "ref \<Rightarrow> ref \<Rightarrow> bytes \<Rightarrow> goerror option \<Rightarrow> reactor \<Rightarrow> reactor" where
  "runStreamWrites_done s request data writeErr r =
     (let r = updStream s (\<lambda>st. st\<lparr>ss_writeActive := None\<rparr>) r;
          q = (writeAt r request)\<lparr>wo_data := []\<rparr>;
          ready = (writes r (wo_operation q) = Some request \<and>
                   operations r (wo_operation q) = Some operationWrite);
          q = (if ready then q\<lparr>wo_err := writeErr, wo_done := True\<rparr> else q)
      in (signalIf ready r)
           \<lparr>writeAt := (writeAt r)(request := q),
             writingTasks := remove1 (s, request, data) (writingTasks r),
             writeTasks := s # writeTasks r\<rparr>)"

definition TakeWrite :: "u64 \<Rightarrow> reactor \<Rightarrow> goerror option \<times> reactor" where
  "TakeWrite operation r =
     (case writes r operation of
        None \<Rightarrow> (Some ErrInvalid, r)
      | Some q \<Rightarrow>
          if operations r operation \<noteq> Some operationWrite then (Some ErrInvalid, r)
          else if \<not> wo_done (writeAt r q) then (Some ErrPending, r)
          else
            (wo_err (writeAt r q),
             snd (releaseOperationLocked operation operationWrite
                    (r\<lparr>writes := (writes r)(operation := None)\<rparr>))))"

definition removeWriteOperation :: "ref list \<Rightarrow> ref \<Rightarrow> ref list" where
  "removeWriteOperation queue operation = remove1 operation queue"

definition cancelStreamWriteLocked :: "u64 \<Rightarrow> reactor \<Rightarrow> reactor" where
  "cancelStreamWriteLocked operation r =
     (case writes r operation of
        None \<Rightarrow> r
      | Some q \<Rightarrow>
          let r = r\<lparr>writes := (writes r)(operation := None)\<rparr>;
              s = wo_stream (writeAt r q)
          in if ss_writeActive (streamAt r s) = Some q then r
             else
               (updStream s (\<lambda>st. st\<lparr>ss_writeQueue := removeWriteOperation (ss_writeQueue st) q\<rparr>) r)
                 \<lparr>writeAt := (writeAt r)(q := (writeAt r q)\<lparr>wo_data := []\<rparr>)\<rparr>)"

section \<open>Closing\<close>

text \<open>The loop of \<^verbatim>\<open>closeStreamLocked\<close> over the queued requests.\<close>

fun failQueuedWrites :: "ref list \<Rightarrow> bool \<Rightarrow> reactor \<Rightarrow> bool \<times> reactor" where
  "failQueuedWrites [] ready r = (ready, r)"
| "failQueuedWrites (request # queue) ready r =
     (let q = (writeAt r request)\<lparr>wo_data := []\<rparr> in
      if writes r (wo_operation q) \<noteq> Some request
      then failQueuedWrites queue ready (r\<lparr>writeAt := (writeAt r)(request := q)\<rparr>)
      else failQueuedWrites queue True
             (r\<lparr>writeAt := (writeAt r)(request := q\<lparr>wo_err := Some NetErrClosed, wo_done := True\<rparr>)\<rparr>))"

definition closeStreamLocked :: "ref \<Rightarrow> reactor \<Rightarrow> bool \<times> reactor" where
  "closeStreamLocked s r =
     (let r = updStream s (\<lambda>st. st\<lparr>ss_closed := True\<rparr>) r;
          stream = streamAt r s;
          ready = (ss_readQueue stream \<noteq> [] \<and> readAvailableLocked stream);
          (ready, r) = failQueuedWrites (ss_writeQueue stream) ready r
      in (ready, updStream s (\<lambda>st. st\<lparr>ss_writeQueue := []\<rparr>) r))"

definition shutdownLocked :: "streamState \<Rightarrow> streamState" where
  "shutdownLocked stream = stream\<lparr>ss_closed := True, ss_readQueue := [], ss_writeQueue := []\<rparr>"

end
