(* ===== verification/ReactorUdp.thy ===== *)
theory ReactorUdp
  imports ReactorState
begin

text \<open>
  Datagram sockets of the reactor (internal/reactor/udp.go): a receiver goroutine that fills a queue of at
  most 64 datagrams while somebody waits, and a sender goroutine that drains a channel of capacity 64
  until that is closed. The buffer the receiver reads into is reused between calls and copied out of
  at once; it is not part of the state.
\<close>

definition udpReceiveQueueCapacity :: nat where "udpReceiveQueueCapacity = 64"
definition udpSendQueueCapacity :: nat where "udpSendQueueCapacity = 64"

definition updDatagram :: "ref \<Rightarrow> (datagramState \<Rightarrow> datagramState) \<Rightarrow> reactor \<Rightarrow> reactor" where
  "updDatagram d f r = r\<lparr>datagramAt := (datagramAt r)(d := f (datagramAt r d))\<rparr>"

text \<open>Closing the channel happens once; \<^verbatim>\<open>sync.Once\<close> makes the second call do nothing.\<close>

definition closeAfterQueuedSends :: "ref \<Rightarrow> reactor \<Rightarrow> reactor" where
  "closeAfterQueuedSends d r = updDatagram d (\<lambda>st. st\<lparr>ds_sendClosed := True\<rparr>) r"

definition closeNow :: "ref \<Rightarrow> reactor \<Rightarrow> reactor" where
  "closeNow d r =
     closeResource (ds_connection (datagramAt r d))
       (updDatagram d (\<lambda>st. st\<lparr>ds_sendClosed := True\<rparr>) r)"

section \<open>The sender\<close>

text \<open>
  \<^verbatim>\<open>for request := range state.sendQueue\<close>: take the next request from the channel, block while it is
  empty and open (the state is unchanged), or leave the loop once it is empty and closed. Leaving
  runs the deferred calls: close the connection, \<^verbatim>\<open>finishUDPSends\<close>, \<^verbatim>\<open>workers.Done\<close>.
\<close>

definition finishUDPSends :: "ref \<Rightarrow> reactor \<Rightarrow> reactor" where
  "finishUDPSends d r = r\<lparr>drainingDatagrams := drainingDatagrams r - {d}\<rparr>"

definition runUDPSends_range :: "u64 \<Rightarrow> ref \<Rightarrow> reactor \<Rightarrow> reactor" where
  "runUDPSends_range handle d r =
     (case ds_sendQueue (datagramAt r d) of
        request # queue \<Rightarrow>
          (updDatagram d (\<lambda>st. st\<lparr>ds_sendQueue := queue\<rparr>) r)
            \<lparr>sendTasks := remove1 (handle, d) (sendTasks r),
              dequeuedTasks := (handle, d, request) # dequeuedTasks r\<rparr>
      | [] \<Rightarrow>
          if \<not> ds_sendClosed (datagramAt r d) then r
          else
            (finishUDPSends d (closeResource (ds_connection (datagramAt r d)) r))
              \<lparr>workers := workers r - 1, sendTasks := remove1 (handle, d) (sendTasks r)\<rparr>)"

text \<open>The locked section behind the head of the loop: there is room again.\<close>

definition runUDPSends_mark :: "u64 \<Rightarrow> ref \<Rightarrow> udpSend \<Rightarrow> reactor \<Rightarrow> reactor" where
  "runUDPSends_mark handle d request r =
     (signalIf (hasWaiter handle (udpWrites r)) r)
       \<lparr>udpWrites := markReady handle (udpWrites r),
         dequeuedTasks := remove1 (handle, d, request) (dequeuedTasks r),
         sendingTasks := (handle, d, request) # sendingTasks r\<rparr>"

text \<open>\<^verbatim>\<open>WriteTo\<close> has returned \<open>n\<close> and perhaps an error.\<close>

definition runUDPSends_done ::
  "u64 \<Rightarrow> ref \<Rightarrow> udpSend \<Rightarrow> nat \<Rightarrow> goerror option \<Rightarrow> reactor \<Rightarrow> reactor" where
  "runUDPSends_done handle d request n err r =
     (let err = (if err = None \<and> n \<noteq> length (us_data request)
                 then Some (Errorf ''short UDP write'' []) else err);
          r = r\<lparr>sendingTasks := remove1 (handle, d, request) (sendingTasks r),
                sendTasks := (handle, d) # sendTasks r\<rparr>
      in if err \<noteq> None \<and> datagrams r handle = Some d
         then
           (signalIf (hasWaiter handle (udpWrites r)) (updDatagram d (\<lambda>st. st\<lparr>ds_sendErr := err\<rparr>) r))
             \<lparr>udpWrites := markReady handle (udpWrites r)\<rparr>
         else r)"

section \<open>Receiving\<close>

definition startUDPReceiver :: "bool \<Rightarrow> u64 \<Rightarrow> ref \<Rightarrow> reactor \<Rightarrow> reactor" where
  "startUDPReceiver startWorker handle d r =
     (if startWorker
      then (updDatagram d (\<lambda>st. st\<lparr>ds_receiveRunning := True\<rparr>) r)
             \<lparr>workers := Suc (workers r), receiveTasks := (handle, d) # receiveTasks r\<rparr>
      else r)"

definition StartUDPReceive :: "u64 \<Rightarrow> u64 \<Rightarrow> reactor \<Rightarrow> goerror option \<times> reactor" where
  "StartUDPReceive handle operation r =
     (case datagrams r handle of
        None \<Rightarrow> (Some ErrInvalid, r)
      | Some d \<Rightarrow>
          case claimOperationLocked operation operationUDPRead r of
            Ok r \<Rightarrow>
              let state = datagramAt r d;
                  ready = (ds_received state \<noteq> [] \<or> ds_receiveErr state \<noteq> None);
                  r = r\<lparr>udpReads := (udpReads r)(operation \<mapsto>
                         \<lparr>w_handle = handle, w_ready = ready\<rparr>)\<rparr>;
                  startWorker =
                    (ds_receiveErr state = None \<and>
                     length (ds_received state) < udpReceiveQueueCapacity \<and>
                     \<not> ds_receiveRunning state)
              in (None, signalIf ready (startUDPReceiver startWorker handle d r))
          | Err e \<Rightarrow> (Some e, r)
          | Panic \<Rightarrow> (None, r))"

text \<open>
  One turn of \<^verbatim>\<open>runUDPReceive\<close>: \<^verbatim>\<open>ReadFrom\<close> has returned an error, or a datagram from a
  peer. A peer that is no UDP address is an error.
\<close>

definition runUDPReceive ::
  "u64 \<Rightarrow> ref \<Rightarrow> goerror option \<Rightarrow> bytes \<Rightarrow> net_addr \<Rightarrow> reactor \<Rightarrow> reactor" where
  "runUDPReceive handle d err data peer r =
     (let (err, datagram) =
            (case err of
               Some e \<Rightarrow> (Some e, [])
             | None \<Rightarrow>
                 (case peer of
                    NetUDPAddr udpPeer \<Rightarrow> (None, [\<lparr>dg_Data = data, dg_Peer = udpPeer\<rparr>])
                  | _ \<Rightarrow> (Some (Errorf ''unsupported UDP peer address'' []), [])))
      in if datagrams r handle \<noteq> Some d
         then r\<lparr>workers := workers r - 1, receiveTasks := remove1 (handle, d) (receiveTasks r)\<rparr>
         else
           let r = updDatagram d (\<lambda>st.
                     case err of
                       Some e \<Rightarrow> st\<lparr>ds_receiveErr := err\<rparr>
                     | None \<Rightarrow> st\<lparr>ds_received := ds_received st @ datagram\<rparr>) r;
               ready = hasWaiter handle (udpReads r);
               r = signalIf ready (r\<lparr>udpReads := markReady handle (udpReads r)\<rparr>);
               continueReceiving =
                 (err = None \<and> ready \<and>
                  length (ds_received (datagramAt r d)) < udpReceiveQueueCapacity)
           in if continueReceiving then r
              else
                (updDatagram d (\<lambda>st. st\<lparr>ds_receiveRunning := False\<rparr>) r)
                  \<lparr>workers := workers r - 1, receiveTasks := remove1 (handle, d) (receiveTasks r)\<rparr>)"

definition hasUDPReadWaiterLocked :: "u64 \<Rightarrow> reactor \<Rightarrow> bool" where
  "hasUDPReadWaiterLocked handle r = hasWaiter handle (udpReads r)"

definition TakeUDPReceive :: "u64 \<Rightarrow> u32 \<Rightarrow> reactor \<Rightarrow> Datagram outcome \<times> reactor" where
  "TakeUDPReceive operation capacity r =
     (case udpReads r operation of
        None \<Rightarrow> (Err ErrInvalid, r)
      | Some w \<Rightarrow>
          if operations r operation \<noteq> Some operationUDPRead then (Err ErrInvalid, r)
          else
            let release = (\<lambda>r. snd (releaseOperationLocked operation operationUDPRead
                                      (r\<lparr>udpReads := (udpReads r)(operation := None)\<rparr>)))
            in case datagrams r (w_handle w) of
                 None \<Rightarrow> (Err ErrInvalid, release r)
               | Some d \<Rightarrow>
                   let state = datagramAt r d in
                   case ds_received state of
                     [] \<Rightarrow>
                       (case ds_receiveErr state of
                          None \<Rightarrow> (Err ErrPending, r)
                        | Some err \<Rightarrow>
                            let r = release (updDatagram d (\<lambda>st. st\<lparr>ds_receiveErr := None\<rparr>) r);
                                startWorker =
                                  (length (ds_received state) < udpReceiveQueueCapacity \<and>
                                   \<not> ds_receiveRunning state \<and> hasUDPReadWaiterLocked (w_handle w) r)
                            in (Err err, startUDPReceiver startWorker (w_handle w) d r))
                   | datagram # received \<Rightarrow>
                       let r = release (updDatagram d (\<lambda>st. st\<lparr>ds_received := received\<rparr>) r);
                           startWorker =
                             (length received < udpReceiveQueueCapacity \<and>
                              \<not> ds_receiveRunning state \<and> hasUDPReadWaiterLocked (w_handle w) r)
                       in (Ok (if (of_nat (length (dg_Data datagram)) :: u32) > capacity
                               then datagram\<lparr>dg_Data := take (unat capacity) (dg_Data datagram)\<rparr>
                               else datagram),
                           startUDPReceiver startWorker (w_handle w) d r))"

section \<open>Sending\<close>

definition TryUDPSend ::
  "u64 \<Rightarrow> bytes \<Rightarrow> UDPAddr option \<Rightarrow> reactor \<Rightarrow> goerror option \<times> reactor" where
  "TryUDPSend handle data peer r =
     (case peer of
        None \<Rightarrow> (Some ErrInvalid, r)
      | Some peer \<Rightarrow>
          if length data > 65535 then (Some ErrInvalid, r)
          else
            case datagrams r handle of
              None \<Rightarrow> (Some ErrInvalid, r)
            | Some d \<Rightarrow>
                let state = datagramAt r d in
                if ds_sendErr state \<noteq> None then (ds_sendErr state, r)
                else if length (ds_sendQueue state) \<ge> udpSendQueueCapacity
                then (Some ErrWouldBlock, r)
                else (None, updDatagram d (\<lambda>st. st\<lparr>ds_sendQueue :=
                         ds_sendQueue st @ [\<lparr>us_data = data, us_peer = peer\<rparr>]\<rparr>) r))"

definition StartUDPSendReady :: "u64 \<Rightarrow> u64 \<Rightarrow> reactor \<Rightarrow> goerror option \<times> reactor" where
  "StartUDPSendReady handle operation r =
     (case datagrams r handle of
        None \<Rightarrow> (Some ErrInvalid, r)
      | Some d \<Rightarrow>
          case claimOperationLocked operation operationUDPWrite r of
            Ok r \<Rightarrow>
              let state = datagramAt r d;
                  ready = (length (ds_sendQueue state) < udpSendQueueCapacity \<or> ds_sendErr state \<noteq> None)
              in (None,
                  signalIf ready (r\<lparr>udpWrites := (udpWrites r)(operation \<mapsto>
                                     \<lparr>w_handle = handle, w_ready = ready\<rparr>)\<rparr>))
          | Err e \<Rightarrow> (Some e, r)
          | Panic \<Rightarrow> (None, r))"

definition TakeUDPSendReady :: "u64 \<Rightarrow> reactor \<Rightarrow> goerror option \<times> reactor" where
  "TakeUDPSendReady operation r =
     (case udpWrites r operation of
        None \<Rightarrow> (Some ErrInvalid, r)
      | Some w \<Rightarrow>
          if operations r operation \<noteq> Some operationUDPWrite then (Some ErrInvalid, r)
          else if \<not> w_ready w then (Some ErrPending, r)
          else
            let r = snd (releaseOperationLocked operation operationUDPWrite
                           (r\<lparr>udpWrites := (udpWrites r)(operation := None)\<rparr>))
            in case datagrams r (w_handle w) of
                 None \<Rightarrow> (Some ErrInvalid, r)
               | Some d \<Rightarrow> (ds_sendErr (datagramAt r d), r))"

end
