(* ===== verification/ReactorListener.thy ===== *)
theory ReactorListener
  imports ReactorState
begin

text \<open>
  Listeners of the reactor (internal/reactor/listener.go): one goroutine per listener accepts one connection
  at a time, and only while somebody waits for one.
\<close>

definition updListener :: "ref \<Rightarrow> (listenerState \<Rightarrow> listenerState) \<Rightarrow> reactor \<Rightarrow> reactor" where
  "updListener l f r = r\<lparr>listenerAt := (listenerAt r)(l := f (listenerAt r l))\<rparr>"

definition startAcceptor :: "bool \<Rightarrow> u64 \<Rightarrow> ref \<Rightarrow> reactor \<Rightarrow> reactor" where
  "startAcceptor startWorker handle l r =
     (if startWorker
      then (updListener l (\<lambda>st. st\<lparr>ls_acceptRunning := True\<rparr>) r)
             \<lparr>workers := Suc (workers r), acceptTasks := (handle, l) # acceptTasks r\<rparr>
      else r)"

definition StartTCPAccept :: "u64 \<Rightarrow> u64 \<Rightarrow> reactor \<Rightarrow> goerror option \<times> reactor" where
  "StartTCPAccept handle operation r =
     (case listeners r handle of
        None \<Rightarrow> (Some ErrInvalid, r)
      | Some l \<Rightarrow>
          case claimOperationLocked operation operationAccept r of
            Ok r \<Rightarrow>
              let state = listenerAt r l;
                  ready = (ls_accepted state \<noteq> [] \<or> ls_acceptErr state \<noteq> None);
                  r = r\<lparr>accepts := (accepts r)(operation \<mapsto> \<lparr>w_handle = handle, w_ready = ready\<rparr>)\<rparr>;
                  startWorker = (\<not> ready \<and> \<not> ls_acceptRunning state)
              in (None, signalIf ready (startAcceptor startWorker handle l r))
          | Err e \<Rightarrow> (Some e, r)
          | Panic \<Rightarrow> (None, r))"

text \<open>\<^verbatim>\<open>Accept\<close> has returned an error or a connection.\<close>

definition runTCPAccept :: "u64 \<Rightarrow> ref \<Rightarrow> goerror + ioResource \<Rightarrow> reactor \<Rightarrow> reactor" where
  "runTCPAccept handle l result r =
     (let connection = (case result of Inl _ \<Rightarrow> None | Inr c \<Rightarrow> Some c);
          r = receiveResource connection
                (r\<lparr>workers := workers r - 1, acceptTasks := remove1 (handle, l) (acceptTasks r)\<rparr>)
      in if listeners r handle \<noteq> Some l then closeIfAny connection r
         else
           signalCompletion
             ((updListener l (\<lambda>st.
                 case result of
                   Inl err \<Rightarrow> st\<lparr>ls_acceptRunning := False, ls_acceptErr := Some err\<rparr>
                 | Inr c \<Rightarrow> st\<lparr>ls_acceptRunning := False, ls_accepted := ls_accepted st @ [c]\<rparr>) r)
              \<lparr>accepts := markReady handle (accepts r)\<rparr>))"

definition hasAcceptWaiterLocked :: "u64 \<Rightarrow> reactor \<Rightarrow> bool" where
  "hasAcceptWaiterLocked handle r = hasWaiter handle (accepts r)"

definition TakeTCPAccept :: "u64 \<Rightarrow> reactor \<Rightarrow> StreamResult outcome \<times> reactor" where
  "TakeTCPAccept operation r =
     (case accepts r operation of
        None \<Rightarrow> (Err ErrInvalid, r)
      | Some w \<Rightarrow>
          if operations r operation \<noteq> Some operationAccept then (Err ErrInvalid, r)
          else
            let release = (\<lambda>r. snd (releaseOperationLocked operation operationAccept
                                      (r\<lparr>accepts := (accepts r)(operation := None)\<rparr>)))
            in case listeners r (w_handle w) of
                 None \<Rightarrow> (Err ErrInvalid, release r)
               | Some l \<Rightarrow>
                   let state = listenerAt r l in
                   case ls_accepted state of
                     [] \<Rightarrow>
                       (case ls_acceptErr state of
                          None \<Rightarrow> (Err ErrPending, r)
                        | Some err \<Rightarrow>
                            let r = release (updListener l (\<lambda>st. st\<lparr>ls_acceptErr := None\<rparr>) r);
                                startWorker =
                                  (\<not> ls_acceptRunning state \<and> hasAcceptWaiterLocked (w_handle w) r)
                            in (Err err, startAcceptor startWorker (w_handle w) l r))
                   | connection # accepted \<Rightarrow>
                       let r = release (updListener l (\<lambda>st. st\<lparr>ls_accepted := accepted\<rparr>) r);
                           (handle, r) = allocateHandleLocked r;
                           r = addStream handle connection r;
                           startWorker =
                             (accepted = [] \<and> \<not> ls_acceptRunning state \<and>
                              hasAcceptWaiterLocked (w_handle w) r)
                       in (Ok \<lparr>sr_Handle = handle, sr_Local = Some (res_LocalAddr connection),
                               sr_Peer = Some (res_RemoteAddr connection)\<rparr>,
                           startAcceptor startWorker (w_handle w) l r))"

end
