(* ===== verification/ReactorPacket.thy ===== *)
theory ReactorPacket
  imports ReactorState
begin

text \<open>
  Packet sinks (internal/reactor/packet.go), bounded queues of packets between the guest and
  the engine, and event sinks (internal/reactor/event.go).
\<close>

section \<open>Packet sinks\<close>

definition updSink :: "ref \<Rightarrow> (packetSink \<Rightarrow> packetSink) \<Rightarrow> reactor \<Rightarrow> reactor" where
  "updSink k f r = r\<lparr>sinkAt := (sinkAt r)(k := f (sinkAt r k))\<rparr>"

definition RegisterPacketSink :: "int \<Rightarrow> reactor \<Rightarrow> u64 outcome \<times> reactor" where
  "RegisterPacketSink capacity r =
     (if capacity \<le> 0 then (Err (Errorf ''packet sink capacity must be positive'' []), r)
      else if closed r then (Err ErrInvalid, r)
      else
        let (handle, r) = allocateHandleLocked r
        in (Ok handle,
            r\<lparr>packetSinks := (packetSinks r)(handle \<mapsto> nextRef r),
              sinkAt := (sinkAt r)(nextRef r := \<lparr>ps_capacity = capacity, ps_packets = [],
                          ps_available = False, ps_closed = False\<rparr>),
              nextRef := Suc (nextRef r)\<rparr>))"

text \<open>Deleting the waiters of the sink releases their operations, where the identifier is still a
  packet write operation.\<close>

definition UnregisterPacketSink :: "u64 \<Rightarrow> reactor \<Rightarrow> reactor" where
  "UnregisterPacketSink handle r =
     (case packetSinks r handle of
        None \<Rightarrow> r
      | Some k \<Rightarrow>
          let mine = (\<lambda>i. case packetWrites r i of None \<Rightarrow> False | Some w \<Rightarrow> w_handle w = handle)
          in (updSink k (\<lambda>st. st\<lparr>ps_closed := True\<rparr>) r)
               \<lparr>packetSinks := (packetSinks r)(handle := None),
                 packetWrites := (\<lambda>i. if mine i then None else packetWrites r i),
                 operations := (\<lambda>i. if mine i \<and> operations r i = Some operationPacketWrite then None
                                     else operations r i)\<rparr>)"

definition TryPacketWrite :: "u64 \<Rightarrow> bytes \<Rightarrow> reactor \<Rightarrow> goerror option \<times> reactor" where
  "TryPacketWrite handle packet r =
     (case packetSinks r handle of
        None \<Rightarrow> (Some ErrInvalid, r)
      | Some k \<Rightarrow>
          if int (length (ps_packets (sinkAt r k))) \<ge> ps_capacity (sinkAt r k)
          then (Some ErrWouldBlock, r)
          else (None, updSink k (\<lambda>st. st\<lparr>ps_packets := ps_packets st @ [packet], ps_available := True\<rparr>) r))"

definition StartPacketWriteReady :: "u64 \<Rightarrow> u64 \<Rightarrow> reactor \<Rightarrow> goerror option \<times> reactor" where
  "StartPacketWriteReady handle operation r =
     (case packetSinks r handle of
        None \<Rightarrow> (Some ErrInvalid, r)
      | Some k \<Rightarrow>
          case claimOperationLocked operation operationPacketWrite r of
            Ok r \<Rightarrow>
              let ready = (int (length (ps_packets (sinkAt r k))) < ps_capacity (sinkAt r k))
              in (None,
                  signalIf ready (r\<lparr>packetWrites := (packetWrites r)(operation \<mapsto>
                                     \<lparr>w_handle = handle, w_ready = ready\<rparr>)\<rparr>))
          | Err e \<Rightarrow> (Some e, r)
          | Panic \<Rightarrow> (None, r))"

definition TakePacketWriteReady :: "u64 \<Rightarrow> reactor \<Rightarrow> goerror option \<times> reactor" where
  "TakePacketWriteReady operation r =
     (case packetWrites r operation of
        None \<Rightarrow> (Some ErrInvalid, r)
      | Some w \<Rightarrow>
          if operations r operation \<noteq> Some operationPacketWrite then (Some ErrInvalid, r)
          else if \<not> w_ready w then (Some ErrPending, r)
          else
            (None,
             snd (releaseOperationLocked operation operationPacketWrite
                    (r\<lparr>packetWrites := (packetWrites r)(operation := None)\<rparr>))))"

text \<open>
  \<^verbatim>\<open>ReceivePacket\<close> is a loop: a locked attempt that returns or finds the sink empty, and then a wait
  on four channels. \<open>receiveAttempt\<close> is the attempt; \<open>RetryOn k\<close> says that the caller now waits on sink
  \<open>k\<close>. \<open>receiveWake\<close> is what the wait does when a channel is ready: it consumes the token
  and tries again, or ends with an error.
\<close>

datatype receiveState = Received "bytes outcome" | RetryOn ref

definition receiveAttempt :: "u64 \<Rightarrow> reactor \<Rightarrow> receiveState \<times> reactor" where
  "receiveAttempt handle r =
     (case packetSinks r handle of
        None \<Rightarrow> (Received (Err (Errorf ''receive packet'' [NetErrClosed])), r)
      | Some k \<Rightarrow>
          case ps_packets (sinkAt r k) of
            packet # packets \<Rightarrow>
              (Received (Ok packet),
               (signalIf (hasWaiter handle (packetWrites r))
                  (updSink k (\<lambda>st. st\<lparr>ps_packets := packets\<rparr>) r))
                 \<lparr>packetWrites := markReady handle (packetWrites r)\<rparr>)
          | [] \<Rightarrow> (RetryOn k, r))"

datatype wakeup = OnAvailable | OnClosed | OnLifetime | OnCallerDone goerror

fun receiveWake :: "wakeup \<Rightarrow> ref \<Rightarrow> u64 \<Rightarrow> reactor \<Rightarrow> (receiveState \<times> reactor) option" where
  "receiveWake OnAvailable k handle r =
     (if ps_available (sinkAt r k)
      then Some (receiveAttempt handle (updSink k (\<lambda>st. st\<lparr>ps_available := False\<rparr>) r)) else None)"
| "receiveWake OnClosed k handle r =
     (if ps_closed (sinkAt r k)
      then Some (Received (Err (Errorf ''receive packet'' [NetErrClosed])), r) else None)"
| "receiveWake OnLifetime k handle r =
     (if ctxDone r
      then Some (Received (Err (Errorf ''receive packet'' [ContextCanceled])), r) else None)"
| "receiveWake (OnCallerDone e) k handle r = Some (Received (Err e), r)"

section \<open>Event sinks\<close>

text \<open>A sink is a function of its owner; the table keeps its identity and \<open>deliver\<close> is that function.\<close>

definition RegisterEventSink :: "ref option \<Rightarrow> reactor \<Rightarrow> u64 outcome \<times> reactor" where
  "RegisterEventSink deliver r =
     (case deliver of
        None \<Rightarrow> (Err (Errorf ''event sink delivery function must not be nil'' []), r)
      | Some sink \<Rightarrow>
          if closed r then (Err ErrInvalid, r)
          else
            let (handle, r) = allocateHandleLocked r
            in (Ok handle, r\<lparr>eventSinks := (eventSinks r)(handle \<mapsto> sink)\<rparr>))"

definition UnregisterEventSink :: "u64 \<Rightarrow> reactor \<Rightarrow> reactor" where
  "UnregisterEventSink handle r = r\<lparr>eventSinks := (eventSinks r)(handle := None)\<rparr>"

definition TryEventWrite ::
  "(ref \<Rightarrow> bytes \<Rightarrow> bytes \<Rightarrow> bool) \<Rightarrow> u64 \<Rightarrow> bytes \<Rightarrow> bytes \<Rightarrow> reactor \<Rightarrow> goerror option" where
  "TryEventWrite deliver handle kind message r =
     (case eventSinks r handle of
        None \<Rightarrow> Some ErrInvalid
      | Some sink \<Rightarrow> if \<not> deliver sink kind message then Some ErrWouldBlock else None)"

end
