(* ===== verification/ReactorFactory.thy ===== *)
theory ReactorFactory
  imports ReactorState
begin

text \<open>
  Socket creation (internal/reactor/factory.go): a goroutine per operation calls the platform's socket
  factory and stores what it returns, unless the operation was cancelled in the meantime.
\<close>

definition resource :: "createOperation \<Rightarrow> ioResource option" where
  "resource operation =
     (case co_connection operation of
        Some c \<Rightarrow> Some c
      | None \<Rightarrow>
          (case co_datagram operation of
             Some d \<Rightarrow> Some d
           | None \<Rightarrow> co_listener operation))"

text \<open>The reference of the new operation also names the context derived for it. Every caller starts
  its goroutine right after a successful call; the model starts it here.\<close>

definition beginCreate :: "u64 \<Rightarrow> createKind \<Rightarrow> createRequest \<Rightarrow> reactor \<Rightarrow> goerror option \<times> reactor" where
  "beginCreate operation kind request r =
     (let c = nextRef r;
          r = r\<lparr>nextRef := Suc c, derivedContexts := insert c (derivedContexts r)\<rparr>
      in case claimOperationLocked operation operationCreate r of
           Ok r \<Rightarrow>
             (None,
              r\<lparr>creates := (creates r)(operation \<mapsto>
                   \<lparr>co_ref = c, co_kind = kind, co_done = False, co_connection = None,
                    co_datagram = None, co_listener = None, co_localAddr = None,
                    co_peerAddr = None, co_err = None\<rparr>),
                workers := Suc (workers r),
                createTasks := (operation, c, request) # createTasks r\<rparr>)
         | Err e \<Rightarrow> (Some e, cancelContext c r)
         | Panic \<Rightarrow> (None, r))"

text \<open>
  The goroutine after the factory has returned. \<open>store\<close> puts the resource into the field of its kind and
  reads its addresses; the three goroutines of the source differ in nothing else.
\<close>

definition finishCreate ::
  "(createOperation \<Rightarrow> createOperation) \<Rightarrow> u64 \<Rightarrow> ref \<Rightarrow> createRequest \<Rightarrow> ioResource option \<Rightarrow> goerror option
    \<Rightarrow> reactor \<Rightarrow> reactor" where
  "finishCreate store operation c request connection err r =
     (let r = receiveResource connection
                (r\<lparr>workers := workers r - 1, createTasks := remove1 (operation, c, request) (createTasks r)\<rparr>)
      in case creates r operation of
           Some create \<Rightarrow>
             if co_ref create = c
             then signalCompletion
                    (r\<lparr>creates := (creates r)(operation \<mapsto>
                         (store create)\<lparr>co_err := err, co_done := True\<rparr>)\<rparr>)
             else closeIfAny connection r
         | None \<Rightarrow> closeIfAny connection r)"

section \<open>TCP connect\<close>

definition StartTCPConnect :: "u64 \<Rightarrow> TCPConnectOptions \<Rightarrow> reactor \<Rightarrow> goerror option \<times> reactor" where
  "StartTCPConnect operation options r =
     (if \<not> hasSockets r then (Some (Errorf ''TCP connect: no socket factory configured'' []), r)
      else beginCreate operation createTCPConnect (ConnectTCP options) r)"

definition runTCPConnect ::
  "u64 \<Rightarrow> ref \<Rightarrow> TCPConnectOptions \<Rightarrow> ioResource option \<Rightarrow> goerror option \<Rightarrow> reactor \<Rightarrow> reactor" where
  "runTCPConnect operation c options connection err r =
     finishCreate (\<lambda>create.
       create\<lparr>co_connection := connection,
              co_localAddr := (case connection of Some x \<Rightarrow> Some (res_LocalAddr x)
                               | None \<Rightarrow> co_localAddr create),
              co_peerAddr := (case connection of Some x \<Rightarrow> Some (res_RemoteAddr x)
                              | None \<Rightarrow> co_peerAddr create)\<rparr>) operation c (ConnectTCP options) connection err r"

text \<open>The part the three \<^verbatim>\<open>Take\<close> functions share: the checks, and giving the operation up.\<close>

definition takeCreate ::
  "u64 \<Rightarrow> createKind \<Rightarrow> reactor \<Rightarrow> createOperation outcome \<times> reactor" where
  "takeCreate operation kind r =
     (case creates r operation of
        None \<Rightarrow> (Err ErrInvalid, r)
      | Some create \<Rightarrow>
          if co_kind create \<noteq> kind \<or> operations r operation \<noteq> Some operationCreate
          then (Err ErrInvalid, r)
          else if \<not> co_done create then (Err ErrPending, r)
          else
            (Ok create,
             cancelContext (co_ref create)
               (snd (releaseOperationLocked operation operationCreate
                       (r\<lparr>creates := (creates r)(operation := None)\<rparr>)))))"

definition createError :: "createOperation \<Rightarrow> string \<Rightarrow> goerror" where
  "createError create message =
     (case co_err create of Some e \<Rightarrow> e | None \<Rightarrow> Errorf message [])"

definition TakeTCPConnect :: "u64 \<Rightarrow> reactor \<Rightarrow> StreamResult outcome \<times> reactor" where
  "TakeTCPConnect operation r =
     (case takeCreate operation createTCPConnect r of
        (Ok create, r) \<Rightarrow>
          (case (co_err create, co_connection create) of
             (None, Some connection) \<Rightarrow>
               let (handle, r) = allocateHandleLocked r
               in (Ok \<lparr>sr_Handle = handle, sr_Local = co_localAddr create,
                       sr_Peer = co_peerAddr create\<rparr>,
                   addStream handle connection r)
           | _ \<Rightarrow>
               (Err (createError create ''socket factory returned no TCP connection''),
                closeIfAny (co_connection create) r))
      | (Err e, r) \<Rightarrow> (Err e, r)
      | (Panic, r) \<Rightarrow> (Panic, r))"

section \<open>UDP bind\<close>

definition StartUDPBind :: "u64 \<Rightarrow> UDPBindOptions \<Rightarrow> reactor \<Rightarrow> goerror option \<times> reactor" where
  "StartUDPBind operation options r =
     (if \<not> hasSockets r then (Some (Errorf ''UDP bind: no socket factory configured'' []), r)
      else beginCreate operation createUDPBind (BindUDPSocket options) r)"

definition runUDPBind ::
  "u64 \<Rightarrow> ref \<Rightarrow> UDPBindOptions \<Rightarrow> ioResource option \<Rightarrow> goerror option \<Rightarrow> reactor \<Rightarrow> reactor" where
  "runUDPBind operation c options connection err r =
     finishCreate (\<lambda>create.
       create\<lparr>co_datagram := connection,
              co_localAddr := (case connection of Some x \<Rightarrow> Some (res_LocalAddr x)
                               | None \<Rightarrow> co_localAddr create)\<rparr>) operation c (BindUDPSocket options) connection err r"

definition TakeUDPBind :: "u64 \<Rightarrow> reactor \<Rightarrow> BoundResult outcome \<times> reactor" where
  "TakeUDPBind operation r =
     (case takeCreate operation createUDPBind r of
        (Ok create, r) \<Rightarrow>
          (case (co_err create, co_datagram create) of
             (None, Some connection) \<Rightarrow>
               let (handle, r) = allocateHandleLocked r
               in (Ok \<lparr>br_Handle = handle, br_Local = co_localAddr create\<rparr>,
                   addDatagram handle connection r)
           | _ \<Rightarrow>
               (Err (createError create ''socket factory returned no UDP socket''),
                closeIfAny (co_datagram create) r))
      | (Err e, r) \<Rightarrow> (Err e, r)
      | (Panic, r) \<Rightarrow> (Panic, r))"

section \<open>TCP listen\<close>

definition StartTCPListen :: "u64 \<Rightarrow> TCPListenOptions \<Rightarrow> reactor \<Rightarrow> goerror option \<times> reactor" where
  "StartTCPListen operation options r =
     (if \<not> hasSockets r then (Some (Errorf ''TCP listen: no socket factory configured'' []), r)
      else beginCreate operation createTCPListen (ListenTCP options) r)"

definition runTCPListen ::
  "u64 \<Rightarrow> ref \<Rightarrow> TCPListenOptions \<Rightarrow> ioResource option \<Rightarrow> goerror option \<Rightarrow> reactor \<Rightarrow> reactor" where
  "runTCPListen operation c options listener err r =
     finishCreate (\<lambda>create.
       create\<lparr>co_listener := listener,
              co_localAddr := (case listener of Some x \<Rightarrow> Some (res_LocalAddr x)
                               | None \<Rightarrow> co_localAddr create)\<rparr>) operation c (ListenTCP options) listener err r"

definition TakeTCPListen :: "u64 \<Rightarrow> reactor \<Rightarrow> BoundResult outcome \<times> reactor" where
  "TakeTCPListen operation r =
     (case takeCreate operation createTCPListen r of
        (Ok create, r) \<Rightarrow>
          (case (co_err create, co_listener create) of
             (None, Some listener) \<Rightarrow>
               let (handle, r) = allocateHandleLocked r
               in (Ok \<lparr>br_Handle = handle, br_Local = co_localAddr create\<rparr>,
                   addListener handle listener r)
           | _ \<Rightarrow>
               (Err (createError create ''socket factory returned no TCP listener''),
                closeIfAny (co_listener create) r))
      | (Err e, r) \<Rightarrow> (Err e, r)
      | (Panic, r) \<Rightarrow> (Panic, r))"

end
