(* ===== verification/ReactorQuery.thy ===== *)
theory ReactorQuery
  imports ReactorState
begin

text \<open>
  The operations that ask the host a question (internal/reactor/dns.go, environment.go and
  management.go). Each runs the platform's function in a goroutine and keeps its answer until it is taken;
  DNS and management answers stay in the table until they are finished explicitly.
\<close>

section \<open>DNS\<close>

definition emptyDNSResult :: DNSResult where
  "emptyDNSResult = \<lparr>dr_Kind = DNSAddress, dr_Addresses = [], dr_Text = [], dr_Records = []\<rparr>"

definition StartDNS :: "u64 \<Rightarrow> DNSKind \<Rightarrow> DNSQuery \<Rightarrow> reactor \<Rightarrow> goerror option \<times> reactor" where
  "StartDNS operation kind query r =
     (if \<not> hasDNS r then (Some (Errorf ''DNS operation: no resolver configured'' []), r)
      else
        let c = nextRef r;
            r = r\<lparr>nextRef := Suc c, derivedContexts := insert c (derivedContexts r)\<rparr>
        in case claimOperationLocked operation operationDNS r of
             Ok r \<Rightarrow>
               (None,
                r\<lparr>dns := (dns r)(operation \<mapsto>
                     \<lparr>do_ref = c, do_kind = kind, do_done = False, do_result = emptyDNSResult,
                      do_err = None\<rparr>),
                  workers := Suc (workers r),
                  dnsTasks := (operation, c, kind, query) # dnsTasks r\<rparr>)
           | Err e \<Rightarrow> (Some e, cancelContext c r)
           | Panic \<Rightarrow> (None, r))"

text \<open>
  What the resolver call of the goroutine gives: the three lookups are the environment's, and a kind
  that is none of them is an error.
\<close>

definition resolveDNS ::
  "DNSKind \<Rightarrow> netip_addr list \<times> goerror option \<Rightarrow> bytes \<times> goerror option
    \<Rightarrow> SRV option list \<times> goerror option \<Rightarrow> DNSResult \<times> goerror option" where
  "resolveDNS kind lookupIP lookupTXT lookupSRV =
     (case kind of
        DNSAddress \<Rightarrow> (emptyDNSResult\<lparr>dr_Addresses := fst lookupIP\<rparr>, snd lookupIP)
      | DNSTXT \<Rightarrow> (emptyDNSResult\<lparr>dr_Text := fst lookupTXT\<rparr>, snd lookupTXT)
      | DNSSRV \<Rightarrow> (emptyDNSResult\<lparr>dr_Records := fst lookupSRV\<rparr>, snd lookupSRV)
      | DNSOther _ \<Rightarrow> (emptyDNSResult, Some (Errorf ''unsupported DNS query kind'' [])))"

definition runDNS ::
  "u64 \<Rightarrow> ref \<Rightarrow> DNSKind \<Rightarrow> DNSQuery \<Rightarrow> DNSResult \<times> goerror option \<Rightarrow> reactor \<Rightarrow> reactor" where
  "runDNS operation c kind query answer r =
     (let r = r\<lparr>workers := workers r - 1,
                dnsTasks := remove1 (operation, c, kind, query) (dnsTasks r)\<rparr>
      in case dns r operation of
           Some result \<Rightarrow>
             if do_ref result = c
             then signalCompletion
                    (r\<lparr>dns := (dns r)(operation \<mapsto>
                         result\<lparr>do_done := True, do_result := fst answer, do_err := snd answer\<rparr>)\<rparr>)
             else r
         | None \<Rightarrow> r)"

definition DNSResult_op :: "u64 \<Rightarrow> reactor \<Rightarrow> DNSResult outcome \<times> reactor" where
  "DNSResult_op operation r =
     (case dns r operation of
        None \<Rightarrow> (Err ErrInvalid, r)
      | Some result \<Rightarrow>
          if operations r operation \<noteq> Some operationDNS then (Err ErrInvalid, r)
          else if \<not> do_done result then (Err ErrPending, r)
          else
            case do_err result of
              Some err \<Rightarrow>
                (Err err,
                 cancelContext (do_ref result)
                   (snd (releaseOperationLocked operation operationDNS
                           (r\<lparr>dns := (dns r)(operation := None)\<rparr>))))
            | None \<Rightarrow>
                (Ok \<lparr>dr_Kind = do_kind result, dr_Addresses = dr_Addresses (do_result result),
                     dr_Text = dr_Text (do_result result),
                     dr_Records = dr_Records (do_result result)\<rparr>, r))"

definition FinishDNS :: "u64 \<Rightarrow> reactor \<Rightarrow> goerror option \<times> reactor" where
  "FinishDNS operation r =
     (case dns r operation of
        None \<Rightarrow> (Some ErrInvalid, r)
      | Some result \<Rightarrow>
          if \<not> do_done result \<or> operations r operation \<noteq> Some operationDNS
          then (Some ErrInvalid, r)
          else
            (None,
             cancelContext (do_ref result)
               (snd (releaseOperationLocked operation operationDNS
                       (r\<lparr>dns := (dns r)(operation := None)\<rparr>)))))"

section \<open>Local address of a route\<close>

definition StartLocalAddrForRemote ::
  "u64 \<Rightarrow> UDPAddr \<Rightarrow> SocketContext \<Rightarrow> reactor \<Rightarrow> goerror option \<times> reactor" where
  "StartLocalAddrForRemote operation remote socketContext r =
     (if \<not> hasEnvironment r
      then (Some (Errorf ''environment operation: no connector environment configured'' []), r)
      else
        let c = nextRef r;
            r = r\<lparr>nextRef := Suc c, derivedContexts := insert c (derivedContexts r)\<rparr>
        in case claimOperationLocked operation operationEnvironment r of
             Ok r \<Rightarrow>
               (None,
                r\<lparr>environments := (environments r)(operation \<mapsto>
                     \<lparr>eo_ref = c, eo_done = False, eo_result = None, eo_err = None\<rparr>),
                  workers := Suc (workers r),
                  environmentTasks := (operation, c, remote, socketContext) # environmentTasks r\<rparr>)
           | Err e \<Rightarrow> (Some e, cancelContext c r)
           | Panic \<Rightarrow> (None, r))"

definition runLocalAddrForRemote ::
  "u64 \<Rightarrow> ref \<Rightarrow> UDPAddr \<Rightarrow> SocketContext \<Rightarrow> net_addr option \<Rightarrow> goerror option \<Rightarrow> reactor \<Rightarrow> reactor" where
  "runLocalAddrForRemote operation c remote socketContext address err r =
     (let r = r\<lparr>workers := workers r - 1,
                environmentTasks := remove1 (operation, c, remote, socketContext) (environmentTasks r)\<rparr>
      in case environments r operation of
           Some result \<Rightarrow>
             if eo_ref result = c
             then signalCompletion
                    (r\<lparr>environments := (environments r)(operation \<mapsto>
                         result\<lparr>eo_result := address, eo_err := err, eo_done := True\<rparr>)\<rparr>)
             else r
         | None \<Rightarrow> r)"

definition TakeLocalAddrForRemote ::
  "u64 \<Rightarrow> reactor \<Rightarrow> (net_addr option \<times> goerror option) \<times> reactor" where
  "TakeLocalAddrForRemote operation r =
     (case environments r operation of
        None \<Rightarrow> ((None, Some ErrInvalid), r)
      | Some result \<Rightarrow>
          if operations r operation \<noteq> Some operationEnvironment then ((None, Some ErrInvalid), r)
          else if \<not> eo_done result then ((None, Some ErrPending), r)
          else
            ((eo_result result,
              if eo_err result = None \<and> eo_result result = None
              then Some (Errorf ''connector environment returned no address'' [])
              else eo_err result),
             cancelContext (eo_ref result)
               (snd (releaseOperationLocked operation operationEnvironment
                       (r\<lparr>environments := (environments r)(operation := None)\<rparr>)))))"

section \<open>Management\<close>

definition StartManagement :: "u64 \<Rightarrow> bytes \<Rightarrow> reactor \<Rightarrow> goerror option \<times> reactor" where
  "StartManagement operation request r =
     (if \<not> hasManagement r then (Some (Errorf ''management operation: no handler configured'' []), r)
      else
        let c = nextRef r;
            r = r\<lparr>nextRef := Suc c, derivedContexts := insert c (derivedContexts r)\<rparr>
        in case claimOperationLocked operation operationManagement r of
             Ok r \<Rightarrow>
               (None,
                r\<lparr>management := (management r)(operation \<mapsto>
                     \<lparr>mo_ref = c, mo_done = False, mo_result = []\<rparr>),
                  workers := Suc (workers r),
                  managementTasks := (operation, c, request) # managementTasks r\<rparr>)
           | Err e \<Rightarrow> (Some e, cancelContext c r)
           | Panic \<Rightarrow> (None, r))"

definition runManagement :: "u64 \<Rightarrow> ref \<Rightarrow> bytes \<Rightarrow> bytes \<Rightarrow> reactor \<Rightarrow> reactor" where
  "runManagement operation c request answer r =
     (let r = r\<lparr>workers := workers r - 1,
                managementTasks := remove1 (operation, c, request) (managementTasks r)\<rparr>
      in case management r operation of
           Some state \<Rightarrow>
             if mo_ref state = c
             then signalCompletion
                    (r\<lparr>management := (management r)(operation \<mapsto>
                         state\<lparr>mo_done := True, mo_result := answer\<rparr>)\<rparr>)
             else r
         | None \<Rightarrow> r)"

definition ManagementResult :: "u64 \<Rightarrow> reactor \<Rightarrow> bytes outcome" where
  "ManagementResult operation r =
     (case management r operation of
        None \<Rightarrow> Err ErrInvalid
      | Some state \<Rightarrow>
          if operations r operation \<noteq> Some operationManagement then Err ErrInvalid
          else if \<not> mo_done state then Err ErrPending
          else Ok (mo_result state))"

definition FinishManagement :: "u64 \<Rightarrow> reactor \<Rightarrow> goerror option \<times> reactor" where
  "FinishManagement operation r =
     (case management r operation of
        None \<Rightarrow> (Some ErrInvalid, r)
      | Some state \<Rightarrow>
          if \<not> mo_done state then (Some ErrInvalid, r)
          else
            case releaseOperationLocked operation operationManagement r of
              (False, r) \<Rightarrow> (Some ErrInvalid, r)
            | (True, r) \<Rightarrow>
                (None, cancelContext (mo_ref state)
                         (r\<lparr>management := (management r)(operation := None)\<rparr>)))"

end
