(* ===== verification/Reactor.thy ===== *)
theory Reactor
  imports ReactorStream ReactorUdp ReactorListener ReactorPacket ReactorFactory ReactorQuery
begin

text \<open>
  The operations of internal/reactor/reactor.go that reach into every table, and the reactor as a
  state machine: one transition per call of its interface and per locked section of its goroutines,
  in any order, with every result the environment can give.
\<close>

section \<open>Cancelling an operation\<close>

definition CancelOperation :: "u64 \<Rightarrow> reactor \<Rightarrow> reactor" where
  "CancelOperation opId r =
     (case operations r opId of
        None \<Rightarrow> r
      | Some kind \<Rightarrow>
          let r = r\<lparr>operations := (operations r)(opId := None)\<rparr> in
          case kind of
            operationRead \<Rightarrow> (let (ready, r) = cancelStreamReadLocked opId r in signalIf ready r)
          | operationWrite \<Rightarrow> cancelStreamWriteLocked opId r
          | operationUDPRead \<Rightarrow> r\<lparr>udpReads := (udpReads r)(opId := None)\<rparr>
          | operationUDPWrite \<Rightarrow> r\<lparr>udpWrites := (udpWrites r)(opId := None)\<rparr>
          | operationAccept \<Rightarrow> r\<lparr>accepts := (accepts r)(opId := None)\<rparr>
          | operationCreate \<Rightarrow>
              (case creates r opId of
                 None \<Rightarrow> r
               | Some create \<Rightarrow>
                   closeIfAny (resource create)
                     (cancelContext (co_ref create) (r\<lparr>creates := (creates r)(opId := None)\<rparr>)))
          | operationDNS \<Rightarrow>
              (case dns r opId of
                 None \<Rightarrow> r
               | Some operation \<Rightarrow>
                   cancelContext (do_ref operation) (r\<lparr>dns := (dns r)(opId := None)\<rparr>))
          | operationEnvironment \<Rightarrow>
              (case environments r opId of
                 None \<Rightarrow> r
               | Some operation \<Rightarrow>
                   cancelContext (eo_ref operation)
                     (r\<lparr>environments := (environments r)(opId := None)\<rparr>))
          | operationPacketWrite \<Rightarrow> r\<lparr>packetWrites := (packetWrites r)(opId := None)\<rparr>
          | operationManagement \<Rightarrow>
              (case management r opId of
                 None \<Rightarrow> r
               | Some operation \<Rightarrow>
                   cancelContext (mo_ref operation)
                     (r\<lparr>management := (management r)(opId := None)\<rparr>)))"

section \<open>Closing a handle\<close>

text \<open>
  \<^verbatim>\<open>CloseHandle\<close> looks the handle up in three tables under the lock and takes what it finds out of them; connections,
  channels and listeners are closed after the lock, while other callers and goroutines may run. So the function has two
  parts: \<open>CloseHandle_locked\<close>, which says what is left to do, and one \<open>runCloseAction\<close> for each of these actions.
  \<open>closeErr\<close> is what \<^verbatim>\<open>Close\<close> of a resource returns.
\<close>

definition closeStreamHandle :: "u64 \<Rightarrow> reactor \<Rightarrow> closeAction list \<times> reactor" where
  "closeStreamHandle handle r =
     (case streams r handle of
        None \<Rightarrow> ([], r)
      | Some s \<Rightarrow>
          let (ready, r) = closeStreamLocked s (r\<lparr>streams := (streams r)(handle := None)\<rparr>)
          in ([CloseConnection (ss_connection (streamAt r s))], signalIf ready r))"

definition closeDatagramHandle :: "u64 \<Rightarrow> reactor \<Rightarrow> closeAction list \<times> reactor" where
  "closeDatagramHandle handle r =
     (case datagrams r handle of
        None \<Rightarrow> ([], r)
      | Some d \<Rightarrow>
          ([CloseChannel d],
           r\<lparr>datagrams := (datagrams r)(handle := None),
             drainingDatagrams := insert d (drainingDatagrams r)\<rparr>))"

definition closeListenerHandle :: "u64 \<Rightarrow> reactor \<Rightarrow> closeAction list \<times> reactor" where
  "closeListenerHandle handle r =
     (case listeners r handle of
        None \<Rightarrow> ([], r)
      | Some l \<Rightarrow> ([CloseListener l], r\<lparr>listeners := (listeners r)(handle := None)\<rparr>))"

definition CloseHandle_locked :: "u64 \<Rightarrow> reactor \<Rightarrow> closeAction list \<times> reactor" where
  "CloseHandle_locked handle r =
     (let (stream, r) = closeStreamHandle handle r;
          (datagram, r) = closeDatagramHandle handle r;
          (listener, r) = closeListenerHandle handle r
      in (stream @ datagram @ listener, r))"

fun runCloseAction :: "closeAction \<Rightarrow> reactor \<Rightarrow> reactor" where
  "runCloseAction (CloseConnection connection) r = closeResource connection r"
| "runCloseAction (CloseChannel d) r = closeAfterQueuedSends d r"
| "runCloseAction (CloseListener l) r =
     fold closeResource (ls_accepted (listenerAt r l)) (closeResource (ls_listener (listenerAt r l)) r)"

text \<open>A resource that was closed before is no error.\<close>

definition reportClose :: "goerror option \<Rightarrow> goerror option" where
  "reportClose err =
     (case err of None \<Rightarrow> None | Some e \<Rightarrow> if errors_Is e NetErrClosed then None else Some e)"

fun closeActionErr :: "(ioResource \<Rightarrow> goerror option) \<Rightarrow> reactor \<Rightarrow> closeAction \<Rightarrow> goerror option" where
  "closeActionErr closeErr r (CloseConnection connection) = reportClose (closeErr connection)"
| "closeActionErr closeErr r (CloseChannel d) = None"
| "closeActionErr closeErr r (CloseListener l) = reportClose (closeErr (ls_listener (listenerAt r l)))"

text \<open>The whole call, when nothing runs between its parts.\<close>

definition CloseHandle ::
  "(ioResource \<Rightarrow> goerror option) \<Rightarrow> u64 \<Rightarrow> reactor \<Rightarrow> goerror option \<times> reactor" where
  "CloseHandle closeErr handle r =
     (let (actions, r) = CloseHandle_locked handle r
      in (errors_Join (map (closeActionErr closeErr r) actions), fold runCloseAction actions r))"

text \<open>The parts as steps: a caller leaves the lock with actions to do, and does one of them later.\<close>

definition CloseHandle_begin :: "u64 \<Rightarrow> reactor \<Rightarrow> reactor" where
  "CloseHandle_begin handle r =
     (let (actions, r) = CloseHandle_locked handle r in r\<lparr>closings := actions @ closings r\<rparr>)"

definition CloseHandle_continue :: "closeAction \<Rightarrow> reactor \<Rightarrow> reactor" where
  "CloseHandle_continue action r = runCloseAction action (r\<lparr>closings := remove1 action (closings r)\<rparr>)"

section \<open>Closing the reactor\<close>

text \<open>
  \<^verbatim>\<open>Close\<close> up to its wait for the goroutines: everything is dropped from the tables
  under the lock; connections, listeners and contexts that were in them are closed after it. The
  datagram sockets close their channel too, so that their senders end.
\<close>

definition resourcesOf :: "reactor \<Rightarrow> ioResource set" where
  "resourcesOf r =
     {ss_connection (streamAt r s) | s. s \<in> ran (streams r)} \<union>
     {ds_connection (datagramAt r d) | d. d \<in> ran (datagrams r) \<union> drainingDatagrams r} \<union>
     {ls_listener (listenerAt r l) | l. l \<in> ran (listeners r)} \<union>
     {c. \<exists>l \<in> ran (listeners r). c \<in> set (ls_accepted (listenerAt r l))} \<union>
     {c. \<exists>create \<in> ran (creates r). resource create = Some c}"

definition contextsOf :: "reactor \<Rightarrow> ref set" where
  "contextsOf r =
     co_ref ` ran (creates r) \<union> do_ref ` ran (dns r) \<union> eo_ref ` ran (environments r) \<union>
     mo_ref ` ran (management r)"

definition CloseBegin :: "reactor \<Rightarrow> reactor" where
  "CloseBegin r =
     (if closed r then r
      else
        r\<lparr>closed := True, ctxDone := True,
          streamAt := (\<lambda>s. if s \<in> ran (streams r) then shutdownLocked (streamAt r s) else streamAt r s),
          datagramAt := (\<lambda>d. if d \<in> ran (datagrams r) \<union> drainingDatagrams r
                              then (datagramAt r d)\<lparr>ds_sendClosed := True\<rparr> else datagramAt r d),
          closedResources := closedResources r \<union> res_id ` resourcesOf r,
          cancelledContexts := cancelledContexts r \<union> contextsOf r,
          operations := Map.empty, streams := Map.empty, datagrams := Map.empty,
          drainingDatagrams := {}, listeners := Map.empty, reads := Map.empty,
          writes := Map.empty, udpReads := Map.empty, udpWrites := Map.empty,
          accepts := Map.empty, creates := Map.empty, dns := Map.empty,
          environments := Map.empty, eventSinks := Map.empty, packetSinks := Map.empty,
          packetWrites := Map.empty, management := Map.empty\<rparr>)"

text \<open>The wait group has reached zero: \<^verbatim>\<open>Close\<close> returns, and so does every other caller of it.\<close>

definition CloseFinish :: "reactor \<Rightarrow> reactor" where
  "CloseFinish r = r\<lparr>closeDone := True\<rparr>"

text \<open>The engine takes the token from the channel \<^verbatim>\<open>Completions\<close> returns.\<close>

definition takeCompletion :: "reactor \<Rightarrow> reactor" where
  "takeCompletion r = r\<lparr>completion := False\<rparr>"

end
