(* ===== verification/ReactorStep.thy ===== *)
theory ReactorStep
  imports Reactor
begin

text \<open>
  The reactor as a state machine. A transition is a call of the reactor's interface, or one locked
  section of a goroutine after the blocking call before it has returned with any result the
  environment may give. \<^verbatim>\<open>CloseHandle\<close> is a transition for its locked section and one for each thing it closes after
  it. Callers and goroutines interleave freely: any enabled transition may be next.
\<close>

section \<open>Transitions\<close>

text \<open>A connection or listener that the platform hands over is a new one.\<close>

fun freshResource :: "ioResource option \<Rightarrow> reactor \<Rightarrow> bool" where
  "freshResource None r = True"
| "freshResource (Some c) r = (res_id c \<notin> obtained r \<and> res_id c \<notin> closedResources r)"

text \<open>The calls of the interface that change the state.\<close>

inductive call :: "reactor \<Rightarrow> reactor \<Rightarrow> bool" where
  call_StartRead: "call r (snd (StartRead handle operation capacity r))"
| call_TakeRead: "call r (snd (TakeRead operation r))"
| call_StartWrite: "call r (snd (StartWrite handle operation data r))"
| call_TakeWrite: "call r (snd (TakeWrite operation r))"
| call_StartUDPReceive: "call r (snd (StartUDPReceive handle operation r))"
| call_TakeUDPReceive: "call r (snd (TakeUDPReceive operation capacity r))"
| call_TryUDPSend: "call r (snd (TryUDPSend handle data peer r))"
| call_StartUDPSendReady: "call r (snd (StartUDPSendReady handle operation r))"
| call_TakeUDPSendReady: "call r (snd (TakeUDPSendReady operation r))"
| call_StartTCPAccept: "call r (snd (StartTCPAccept handle operation r))"
| call_TakeTCPAccept: "call r (snd (TakeTCPAccept operation r))"
| call_RegisterPacketSink: "call r (snd (RegisterPacketSink cap r))"
| call_UnregisterPacketSink: "call r (UnregisterPacketSink handle r)"
| call_TryPacketWrite: "call r (snd (TryPacketWrite handle packet r))"
| call_StartPacketWriteReady: "call r (snd (StartPacketWriteReady handle operation r))"
| call_TakePacketWriteReady: "call r (snd (TakePacketWriteReady operation r))"
| call_receiveAttempt: "call r (snd (receiveAttempt handle r))"
| call_receiveWake: "receiveWake wake sink handle r = Some (result, r') \<Longrightarrow> call r r'"
| call_RegisterEventSink: "call r (snd (RegisterEventSink deliver r))"
| call_UnregisterEventSink: "call r (UnregisterEventSink handle r)"
| call_StartTCPConnect: "call r (snd (StartTCPConnect operation connectOptions r))"
| call_TakeTCPConnect: "call r (snd (TakeTCPConnect operation r))"
| call_StartUDPBind: "call r (snd (StartUDPBind operation bindOptions r))"
| call_TakeUDPBind: "call r (snd (TakeUDPBind operation r))"
| call_StartTCPListen: "call r (snd (StartTCPListen operation listenOptions r))"
| call_TakeTCPListen: "call r (snd (TakeTCPListen operation r))"
| call_StartDNS: "call r (snd (StartDNS operation kind query r))"
| call_DNSResult: "call r (snd (DNSResult_op operation r))"
| call_FinishDNS: "call r (snd (FinishDNS operation r))"
| call_StartLocalAddrForRemote: "call r (snd (StartLocalAddrForRemote operation remote context r))"
| call_TakeLocalAddrForRemote: "call r (snd (TakeLocalAddrForRemote operation r))"
| call_StartManagement: "call r (snd (StartManagement operation request r))"
| call_FinishManagement: "call r (snd (FinishManagement operation r))"
| call_CancelOperation: "call r (CancelOperation operation r)"
| call_CloseHandle: "call r (CloseHandle_begin handle r)"
| call_CloseAction: "action \<in> set (closings r) \<Longrightarrow> call r (CloseHandle_continue action r)"
| call_CloseBegin: "call r (CloseBegin r)"
| call_CloseFinish: "closed r \<Longrightarrow> workers r = 0 \<Longrightarrow> call r (CloseFinish r)"
| call_takeCompletion: "call r (takeCompletion r)"

text \<open>The locked sections of the goroutines.\<close>

inductive work :: "reactor \<Rightarrow> reactor \<Rightarrow> bool" where
  work_read:
    "(capacity, s) \<in> set (readTasks r) \<Longrightarrow> length chunk \<le> unat capacity \<Longrightarrow>
     work r (runStreamRead capacity s chunk err r)"
| work_writes: "s \<in> set (writeTasks r) \<Longrightarrow> work r (runStreamWrites_head s r)"
| work_written:
    "(s, q, data) \<in> set (writingTasks r) \<Longrightarrow> writeLoop data 0 answers = Some (n, err) \<Longrightarrow>
     work r (runStreamWrites_done s q data err r)"
| work_accept:
    "(handle, l) \<in> set (acceptTasks r) \<Longrightarrow>
     freshResource (case result of Inl _ \<Rightarrow> None | Inr c \<Rightarrow> Some c) r \<Longrightarrow>
     work r (runTCPAccept handle l result r)"
| work_receive:
    "(handle, d) \<in> set (receiveTasks r) \<Longrightarrow> work r (runUDPReceive handle d err data peer r)"
| work_range:
    "(handle, d) \<in> set (sendTasks r) \<Longrightarrow>
     ds_sendQueue (datagramAt r d) \<noteq> [] \<or> ds_sendClosed (datagramAt r d) \<Longrightarrow>
     work r (runUDPSends_range handle d r)"
| work_mark:
    "(handle, d, request) \<in> set (dequeuedTasks r) \<Longrightarrow> work r (runUDPSends_mark handle d request r)"
| work_sent:
    "(handle, d, request) \<in> set (sendingTasks r) \<Longrightarrow>
     work r (runUDPSends_done handle d request n err r)"
| work_connect:
    "(operation, c, ConnectTCP connectOptions) \<in> set (createTasks r) \<Longrightarrow> freshResource connection r \<Longrightarrow>
     work r (runTCPConnect operation c connectOptions connection err r)"
| work_bind:
    "(operation, c, BindUDPSocket bindOptions) \<in> set (createTasks r) \<Longrightarrow> freshResource connection r \<Longrightarrow>
     work r (runUDPBind operation c bindOptions connection err r)"
| work_listen:
    "(operation, c, ListenTCP listenOptions) \<in> set (createTasks r) \<Longrightarrow> freshResource listener r \<Longrightarrow>
     work r (runTCPListen operation c listenOptions listener err r)"
| work_dns:
    "(operation, c, kind, query) \<in> set (dnsTasks r) \<Longrightarrow>
     answer = resolveDNS kind lookupIP lookupTXT lookupSRV \<Longrightarrow>
     work r (runDNS operation c kind query answer r)"
| work_environment:
    "(operation, c, remote, context) \<in> set (environmentTasks r) \<Longrightarrow>
     work r (runLocalAddrForRemote operation c remote context address err r)"
| work_management:
    "(operation, c, request) \<in> set (managementTasks r) \<Longrightarrow>
     work r (runManagement operation c request reply r)"

definition step :: "reactor \<Rightarrow> reactor \<Rightarrow> bool" where
  "step r r' \<longleftrightarrow> call r r' \<or> work r r'"

text \<open>
  Reachable states. The handle counter has 64 bits and starts at \<open>2 ^ 48\<close>; the runs considered are those in
  which it does not wrap around. The tables the reactor is created with must be finite maps from handles
  below the counter to distinct resources.
\<close>

definition handlesLeft :: "reactor \<Rightarrow> bool" where
  "handlesLeft r \<longleftrightarrow> nextHandle r \<noteq> - 1"

definition initialOk :: "Options \<Rightarrow> bool" where
  "initialOk options \<longleftrightarrow>
     distinct (map fst (op_InitialStreams options @ op_InitialDatagrams options)) \<and>
     distinct (map (res_id \<circ> snd) (op_InitialStreams options @ op_InitialDatagrams options)) \<and>
     list_all (\<lambda>(handle, _). handle \<le> 2 ^ 48)
       (op_InitialStreams options @ op_InitialDatagrams options)"

inductive reachable :: "Options \<Rightarrow> reactor \<Rightarrow> bool" for options where
  reachable_New: "initialOk options \<Longrightarrow> reachable options (New options)"
| reachable_step:
    "reachable options r \<Longrightarrow> handlesLeft r \<Longrightarrow> step r r' \<Longrightarrow> reachable options r'"

text \<open>A property of \<^const>\<open>New\<close> that every transition keeps holds in every reachable state.\<close>

lemma reachable_invariant:
  assumes "reachable options r"
    and "initialOk options \<Longrightarrow> P (New options)"
    and "\<And>r r'. reachable options r \<Longrightarrow> P r \<Longrightarrow> handlesLeft r \<Longrightarrow> call r r' \<Longrightarrow> P r'"
    and "\<And>r r'. reachable options r \<Longrightarrow> P r \<Longrightarrow> handlesLeft r \<Longrightarrow> work r r' \<Longrightarrow> P r'"
  shows "P r"
  using assms(1)
proof induction
  case reachable_New
  then show ?case by (rule assms(2))
next
  case (reachable_step r r')
  then show ?case unfolding step_def by (elim disjE) (blast intro: assms(3), blast intro: assms(4))
qed

section \<open>A concrete run\<close>

text \<open>A reactor with one stream under handle 7 and one datagram socket under handle 8, both used by
  the witnesses.\<close>

definition demoResource :: "nat \<Rightarrow> ioResource" where
  "demoResource n = \<lparr>res_id = n, res_LocalAddr = OtherAddr, res_RemoteAddr = OtherAddr\<rparr>"

definition demoOptions :: Options where
  "demoOptions =
     \<lparr>op_Sockets = True, op_DNS = True, op_Environment = True, op_Management = True,
      op_InitialStreams = [(7, demoResource 1)], op_InitialDatagrams = [(8, demoResource 2)]\<rparr>"

lemma demo_initialOk: "initialOk demoOptions"
  by (simp add: initialOk_def demoOptions_def demoResource_def)

lemma demo_New: "reachable demoOptions (New demoOptions)"
  by (rule reachable_New [OF demo_initialOk])

lemma New_handlesLeft: "nextHandle (New demoOptions) = 2 ^ 48"
  by (simp add: New_def demoOptions_def emptyReactor_def addStream_def addDatagram_def receiveResource_def)

lemma demo_read: "reachable demoOptions (snd (StartRead 7 1 16 (New demoOptions)))"
  by (rule reachable_step [OF demo_New])
     (simp_all add: handlesLeft_def New_handlesLeft step_def call_StartRead)

end
