(* ===== verification/ReactorFrame.thy ===== *)
theory ReactorFrame
  imports ReactorStep
begin

text \<open>
  What each operation leaves alone. The state of a component of the reactor is its view: the tables, stores
  and goroutines only that component touches. The invariant of a component is stated over its view,
  so that one lemma per group of operations carries it across all other components' operations.
\<close>

section \<open>The definitions of each component\<close>

lemmas helper_defs =
  signalCompletion_def signalIf_def claimOperationLocked_def releaseOperationLocked_def
  allocateHandleLocked_def closeResource_def closeIfAny_def cancelContext_def receiveResource_def
  addStream_def addDatagram_def addListener_def

lemmas stream_defs =
  StartRead_def TakeRead_def StartWrite_def TakeWrite_def runStreamRead_def
  runStreamWrites_head_def runStreamWrites_done_def prepareStreamReadLocked_def updStream_def

lemmas udp_defs =
  StartUDPReceive_def TakeUDPReceive_def TryUDPSend_def StartUDPSendReady_def
  TakeUDPSendReady_def runUDPReceive_def runUDPSends_range_def runUDPSends_mark_def
  runUDPSends_done_def startUDPReceiver_def updDatagram_def finishUDPSends_def

lemmas listener_defs =
  StartTCPAccept_def runTCPAccept_def startAcceptor_def updListener_def

lemmas accept_defs =
  TakeTCPAccept_def startAcceptor_def updListener_def

lemmas packet_defs =
  RegisterPacketSink_def UnregisterPacketSink_def TryPacketWrite_def StartPacketWriteReady_def
  TakePacketWriteReady_def receiveAttempt_def RegisterEventSink_def UnregisterEventSink_def
  updSink_def

lemmas create_defs =
  StartTCPConnect_def StartUDPBind_def StartTCPListen_def beginCreate_def finishCreate_def
  runTCPConnect_def runUDPBind_def runTCPListen_def

lemmas connect_defs =
  TakeTCPConnect_def takeCreate_def

lemmas bind_defs =
  TakeUDPBind_def takeCreate_def

lemmas listen_defs =
  TakeTCPListen_def takeCreate_def

lemmas query_defs =
  StartDNS_def DNSResult_op_def FinishDNS_def runDNS_def StartLocalAddrForRemote_def
  TakeLocalAddrForRemote_def runLocalAddrForRemote_def StartManagement_def FinishManagement_def
  runManagement_def

lemmas engine_defs =
  CloseFinish_def takeCompletion_def

lemmas closeDatagram_defs =
  closeDatagramHandle_def

section \<open>Views\<close>

definition streamView where
  "streamView (r :: reactor) =
     (closed r, streams r, reads r, writes r, streamAt r, writeAt r, readTasks r,
      writeTasks r, writingTasks r)"

definition udpView where
  "udpView (r :: reactor) =
     (closed r, datagrams r, drainingDatagrams r, udpReads r, udpWrites r, datagramAt r,
      receiveTasks r, sendTasks r, dequeuedTasks r, sendingTasks r, closings r)"

definition listenerView where
  "listenerView (r :: reactor) =
     (closed r, listeners r, accepts r, listenerAt r, acceptTasks r)"

definition packetView where
  "packetView (r :: reactor) =
     (closed r, packetSinks r, packetWrites r, sinkAt r)"

definition createView where
  "createView (r :: reactor) =
     (closed r, creates r, createTasks r)"

definition queryView where
  "queryView (r :: reactor) =
     (closed r, dns r, dnsTasks r, environments r, environmentTasks r, management r,
      managementTasks r)"

section \<open>Handles are closed in three parts\<close>

lemma snd_CloseHandle:
  "snd (CloseHandle_locked handle r) =
     snd (closeListenerHandle handle
       (snd (closeDatagramHandle handle (snd (closeStreamHandle handle r)))))"
  by (simp add: CloseHandle_locked_def Let_def split: prod.splits)

lemma fold_closeResource:
  "fold closeResource cs r = r\<lparr>closedResources := closedResources r \<union> res_id ` set cs\<rparr>"
  by (induction cs arbitrary: r) (auto simp: closeResource_def insert_commute)

lemmas closeListener_defs = closeListenerHandle_def

text \<open>The locked section leaves actions behind; an action closes resources, or the channel of one datagram socket.\<close>

lemma CloseHandle_begin_eq:
  "CloseHandle_begin handle r = (snd (CloseHandle_locked handle r))
     \<lparr>closings := fst (CloseHandle_locked handle r) @ closings (snd (CloseHandle_locked handle r))\<rparr>"
  by (simp add: CloseHandle_begin_def case_prod_beta)

lemma runCloseAction_eq:
  "\<exists>c. runCloseAction action r = r\<lparr>closedResources := c,
     datagramAt := (\<lambda>d. if action = CloseChannel d then (datagramAt r d)\<lparr>ds_sendClosed := True\<rparr> else datagramAt r d)\<rparr>"
proof (cases action)
  case (CloseChannel d)
  then show ?thesis
    by (intro exI [of _ "closedResources r"]) (simp add: closeAfterQueuedSends_def updDatagram_def fun_upd_def eq_commute cong: if_cong)
qed (auto simp: closeResource_def fold_closeResource)

lemma CloseHandle_continue_eq:
  obtains c where "CloseHandle_continue action r = r\<lparr>closings := remove1 action (closings r), closedResources := c,
     datagramAt := (\<lambda>d. if action = CloseChannel d then (datagramAt r d)\<lparr>ds_sendClosed := True\<rparr> else datagramAt r d)\<rparr>"
proof -
  let ?r = "r\<lparr>closings := remove1 action (closings r)\<rparr>"
  obtain c where "runCloseAction action ?r = ?r\<lparr>closedResources := c, datagramAt := (\<lambda>d. if action = CloseChannel d
      then (datagramAt ?r d)\<lparr>ds_sendClosed := True\<rparr> else datagramAt ?r d)\<rparr>"
    using runCloseAction_eq by blast
  then show thesis by (intro that) (simp add: CloseHandle_continue_def cong: if_cong)
qed

lemma failQueuedWrites_frame:
  "\<exists>W. snd (failQueuedWrites queue ready r) = r\<lparr>writeAt := W\<rparr>"
proof (induction queue ready r rule: failQueuedWrites.induct)
  case (1 ready r)
  show ?case by (intro exI [of _ "writeAt r"]) simp
next
  case (2 request queue ready r)
  then show ?case by (fastforce simp: Let_def)
qed

lemma closeStreamLocked_frame:
  "\<exists>W. snd (closeStreamLocked s r) =
     r\<lparr>streamAt := (streamAt r)(s := (streamAt r s)\<lparr>ss_closed := True, ss_writeQueue := []\<rparr>), writeAt := W\<rparr>"
proof -
  let ?r = "updStream s (\<lambda>st. st\<lparr>ss_closed := True\<rparr>) r"
  obtain W where "\<And>b. snd (failQueuedWrites (ss_writeQueue (streamAt ?r s))
      (ss_readQueue (streamAt ?r s) \<noteq> [] \<and> readAvailableLocked (streamAt ?r s)) ?r) = ?r\<lparr>writeAt := W\<rparr>"
    using failQueuedWrites_frame by blast
  then show ?thesis
    by (intro exI [of _ W]) (simp add: closeStreamLocked_def Let_def updStream_def case_prod_beta)
qed

lemma closeStreamHandle_frame:
  "snd (closeStreamHandle handle r) = r \<or>
   (\<exists>s b W. streams r handle = Some s \<and> snd (closeStreamHandle handle r) =
     signalIf b (r\<lparr>streams := (streams r)(handle := None),
       streamAt := (streamAt r)(s := (streamAt r s)\<lparr>ss_closed := True, ss_writeQueue := []\<rparr>), writeAt := W\<rparr>))"
proof (cases "streams r handle")
  case (Some s)
  obtain W where "snd (closeStreamLocked s (r\<lparr>streams := (streams r)(handle := None)\<rparr>)) =
      r\<lparr>streams := (streams r)(handle := None),
        streamAt := (streamAt r)(s := (streamAt r s)\<lparr>ss_closed := True, ss_writeQueue := []\<rparr>), writeAt := W\<rparr>"
    using closeStreamLocked_frame [of s "r\<lparr>streams := (streams r)(handle := None)\<rparr>"] by auto
  with Some show ?thesis
    by (intro disjI2 exI conjI) (auto simp: closeStreamHandle_def Let_def case_prod_beta)
qed (simp add: closeStreamHandle_def)

section \<open>Frames\<close>

lemma views_CloseHandle_begin [simp]:
  "streamView (CloseHandle_begin handle r) = streamView (snd (CloseHandle_locked handle r))"
  "listenerView (CloseHandle_begin handle r) = listenerView (snd (CloseHandle_locked handle r))"
  "packetView (CloseHandle_begin handle r) = packetView (snd (CloseHandle_locked handle r))"
  "createView (CloseHandle_begin handle r) = createView (snd (CloseHandle_locked handle r))"
  "queryView (CloseHandle_begin handle r) = queryView (snd (CloseHandle_locked handle r))"
  "nextRef (CloseHandle_begin handle r) = nextRef (snd (CloseHandle_locked handle r))"
  by (simp_all add: CloseHandle_begin_eq streamView_def listenerView_def packetView_def createView_def queryView_def)

lemma views_CloseHandle_continue [simp]:
  "streamView (CloseHandle_continue action r) = streamView r" "listenerView (CloseHandle_continue action r) = listenerView r"
  "packetView (CloseHandle_continue action r) = packetView r" "createView (CloseHandle_continue action r) = createView r"
  "queryView (CloseHandle_continue action r) = queryView r" "nextRef (CloseHandle_continue action r) = nextRef r"
  by (rule CloseHandle_continue_eq [of action r];
      simp add: streamView_def listenerView_def packetView_def createView_def queryView_def)+

lemma streamView_udp [simp]:
  "streamView (snd (StartUDPReceive handle operation r)) = streamView r"
  "streamView (snd (TakeUDPReceive operation capacity r)) = streamView r"
  "streamView (snd (TryUDPSend handle data peer r)) = streamView r"
  "streamView (snd (StartUDPSendReady handle operation r)) = streamView r"
  "streamView (snd (TakeUDPSendReady operation r)) = streamView r"
  "streamView (runUDPReceive handle d err data paddr r) = streamView r"
  "streamView (runUDPSends_range handle d r) = streamView r"
  "streamView (runUDPSends_mark handle d request r) = streamView r"
  "streamView (runUDPSends_done handle d request n err r) = streamView r"
  by (auto simp: streamView_def helper_defs udp_defs Let_def
      split: option.splits list.splits prod.splits outcome.splits sum.splits net_addr.splits)

lemma streamView_listener [simp]:
  "streamView (snd (StartTCPAccept handle operation r)) = streamView r"
  "streamView (runTCPAccept handle l result r) = streamView r"
  by (auto simp: streamView_def helper_defs listener_defs Let_def
      split: option.splits list.splits prod.splits outcome.splits sum.splits net_addr.splits)

lemma streamView_packet [simp]:
  "streamView (snd (RegisterPacketSink cap r)) = streamView r"
  "streamView (UnregisterPacketSink handle r) = streamView r"
  "streamView (snd (TryPacketWrite handle packet r)) = streamView r"
  "streamView (snd (StartPacketWriteReady handle operation r)) = streamView r"
  "streamView (snd (TakePacketWriteReady operation r)) = streamView r"
  "streamView (snd (receiveAttempt handle r)) = streamView r"
  "streamView (snd (RegisterEventSink deliver r)) = streamView r"
  "streamView (UnregisterEventSink handle r) = streamView r"
  by (auto simp: streamView_def helper_defs packet_defs Let_def
      split: option.splits list.splits prod.splits outcome.splits sum.splits net_addr.splits)

lemma streamView_create [simp]:
  "streamView (snd (StartTCPConnect operation connectOptions r)) = streamView r"
  "streamView (snd (StartUDPBind operation bindOptions r)) = streamView r"
  "streamView (snd (StartTCPListen operation listenOptions r)) = streamView r"
  "streamView (runTCPConnect operation c connectOptions connection err r) = streamView r"
  "streamView (runUDPBind operation c bindOptions connection err r) = streamView r"
  "streamView (runTCPListen operation c listenOptions connection err r) = streamView r"
  by (auto simp: streamView_def helper_defs create_defs Let_def
      split: option.splits list.splits prod.splits outcome.splits sum.splits net_addr.splits)

lemma streamView_bind [simp]:
  "streamView (snd (TakeUDPBind operation r)) = streamView r"
  by (auto simp: streamView_def helper_defs bind_defs Let_def
      split: option.splits list.splits prod.splits outcome.splits sum.splits net_addr.splits)

lemma streamView_listen [simp]:
  "streamView (snd (TakeTCPListen operation r)) = streamView r"
  by (auto simp: streamView_def helper_defs listen_defs Let_def
      split: option.splits list.splits prod.splits outcome.splits sum.splits net_addr.splits)

lemma streamView_query [simp]:
  "streamView (snd (StartDNS operation kind query r)) = streamView r"
  "streamView (snd (DNSResult_op operation r)) = streamView r"
  "streamView (snd (FinishDNS operation r)) = streamView r"
  "streamView (runDNS operation c kind query answer r) = streamView r"
  "streamView (snd (StartLocalAddrForRemote operation remote context r)) = streamView r"
  "streamView (snd (TakeLocalAddrForRemote operation r)) = streamView r"
  "streamView (runLocalAddrForRemote operation c remote context address err r) = streamView r"
  "streamView (snd (StartManagement operation request_bytes r)) = streamView r"
  "streamView (snd (FinishManagement operation r)) = streamView r"
  "streamView (runManagement operation c request_bytes reply r) = streamView r"
  by (auto simp: streamView_def helper_defs query_defs Let_def
      split: option.splits list.splits prod.splits outcome.splits sum.splits net_addr.splits)

lemma streamView_engine [simp]:
  "streamView (CloseFinish r) = streamView r"
  "streamView (takeCompletion r) = streamView r"
  by (auto simp: streamView_def helper_defs engine_defs Let_def
      split: option.splits list.splits prod.splits outcome.splits sum.splits net_addr.splits)

lemma streamView_closeDatagram [simp]:
  "streamView (snd (closeDatagramHandle handle r)) = streamView r"
  by (auto simp: streamView_def helper_defs closeDatagram_defs Let_def
      split: option.splits list.splits prod.splits outcome.splits sum.splits net_addr.splits)

lemma streamView_closeListener [simp]:
  "streamView (snd (closeListenerHandle handle r)) = streamView r"
  by (auto simp: streamView_def helper_defs closeListener_defs Let_def
      split: option.splits list.splits prod.splits outcome.splits sum.splits net_addr.splits)

lemma udpView_stream [simp]:
  "udpView (snd (StartRead handle operation capacity r)) = udpView r"
  "udpView (snd (TakeRead operation r)) = udpView r"
  "udpView (snd (StartWrite handle operation data r)) = udpView r"
  "udpView (snd (TakeWrite operation r)) = udpView r"
  "udpView (runStreamRead capacity s chunk err r) = udpView r"
  "udpView (runStreamWrites_head s r) = udpView r"
  "udpView (runStreamWrites_done s q data err r) = udpView r"
  by (auto simp: udpView_def helper_defs stream_defs Let_def
      split: option.splits list.splits prod.splits outcome.splits sum.splits net_addr.splits)

lemma udpView_listener [simp]:
  "udpView (snd (StartTCPAccept handle operation r)) = udpView r"
  "udpView (runTCPAccept handle l result r) = udpView r"
  by (auto simp: udpView_def helper_defs listener_defs Let_def
      split: option.splits list.splits prod.splits outcome.splits sum.splits net_addr.splits)

lemma udpView_accept [simp]:
  "udpView (snd (TakeTCPAccept operation r)) = udpView r"
  by (auto simp: udpView_def helper_defs accept_defs Let_def
      split: option.splits list.splits prod.splits outcome.splits sum.splits net_addr.splits)

lemma udpView_packet [simp]:
  "udpView (snd (RegisterPacketSink cap r)) = udpView r"
  "udpView (UnregisterPacketSink handle r) = udpView r"
  "udpView (snd (TryPacketWrite handle packet r)) = udpView r"
  "udpView (snd (StartPacketWriteReady handle operation r)) = udpView r"
  "udpView (snd (TakePacketWriteReady operation r)) = udpView r"
  "udpView (snd (receiveAttempt handle r)) = udpView r"
  "udpView (snd (RegisterEventSink deliver r)) = udpView r"
  "udpView (UnregisterEventSink handle r) = udpView r"
  by (auto simp: udpView_def helper_defs packet_defs Let_def
      split: option.splits list.splits prod.splits outcome.splits sum.splits net_addr.splits)

lemma udpView_create [simp]:
  "udpView (snd (StartTCPConnect operation connectOptions r)) = udpView r"
  "udpView (snd (StartUDPBind operation bindOptions r)) = udpView r"
  "udpView (snd (StartTCPListen operation listenOptions r)) = udpView r"
  "udpView (runTCPConnect operation c connectOptions connection err r) = udpView r"
  "udpView (runUDPBind operation c bindOptions connection err r) = udpView r"
  "udpView (runTCPListen operation c listenOptions connection err r) = udpView r"
  by (auto simp: udpView_def helper_defs create_defs Let_def
      split: option.splits list.splits prod.splits outcome.splits sum.splits net_addr.splits)

lemma udpView_connect [simp]:
  "udpView (snd (TakeTCPConnect operation r)) = udpView r"
  by (auto simp: udpView_def helper_defs connect_defs Let_def
      split: option.splits list.splits prod.splits outcome.splits sum.splits net_addr.splits)

lemma udpView_listen [simp]:
  "udpView (snd (TakeTCPListen operation r)) = udpView r"
  by (auto simp: udpView_def helper_defs listen_defs Let_def
      split: option.splits list.splits prod.splits outcome.splits sum.splits net_addr.splits)

lemma udpView_query [simp]:
  "udpView (snd (StartDNS operation kind query r)) = udpView r"
  "udpView (snd (DNSResult_op operation r)) = udpView r"
  "udpView (snd (FinishDNS operation r)) = udpView r"
  "udpView (runDNS operation c kind query answer r) = udpView r"
  "udpView (snd (StartLocalAddrForRemote operation remote context r)) = udpView r"
  "udpView (snd (TakeLocalAddrForRemote operation r)) = udpView r"
  "udpView (runLocalAddrForRemote operation c remote context address err r) = udpView r"
  "udpView (snd (StartManagement operation request_bytes r)) = udpView r"
  "udpView (snd (FinishManagement operation r)) = udpView r"
  "udpView (runManagement operation c request_bytes reply r) = udpView r"
  by (auto simp: udpView_def helper_defs query_defs Let_def
      split: option.splits list.splits prod.splits outcome.splits sum.splits net_addr.splits)

lemma udpView_engine [simp]:
  "udpView (CloseFinish r) = udpView r"
  "udpView (takeCompletion r) = udpView r"
  by (auto simp: udpView_def helper_defs engine_defs Let_def
      split: option.splits list.splits prod.splits outcome.splits sum.splits net_addr.splits)

lemma udpView_closeStream [simp]:
  "udpView (snd (closeStreamHandle handle r)) = udpView r"
  using closeStreamHandle_frame [of handle r] 
  by (elim disjE exE conjE) (simp_all add: udpView_def helper_defs)

lemma udpView_closeListener [simp]:
  "udpView (snd (closeListenerHandle handle r)) = udpView r"
  by (auto simp: udpView_def helper_defs closeListener_defs Let_def
      split: option.splits list.splits prod.splits outcome.splits sum.splits net_addr.splits)

lemma listenerView_stream [simp]:
  "listenerView (snd (StartRead handle operation capacity r)) = listenerView r"
  "listenerView (snd (TakeRead operation r)) = listenerView r"
  "listenerView (snd (StartWrite handle operation data r)) = listenerView r"
  "listenerView (snd (TakeWrite operation r)) = listenerView r"
  "listenerView (runStreamRead capacity s chunk err r) = listenerView r"
  "listenerView (runStreamWrites_head s r) = listenerView r"
  "listenerView (runStreamWrites_done s q data err r) = listenerView r"
  by (auto simp: listenerView_def helper_defs stream_defs Let_def
      split: option.splits list.splits prod.splits outcome.splits sum.splits net_addr.splits)

lemma listenerView_udp [simp]:
  "listenerView (snd (StartUDPReceive handle operation r)) = listenerView r"
  "listenerView (snd (TakeUDPReceive operation capacity r)) = listenerView r"
  "listenerView (snd (TryUDPSend handle data peer r)) = listenerView r"
  "listenerView (snd (StartUDPSendReady handle operation r)) = listenerView r"
  "listenerView (snd (TakeUDPSendReady operation r)) = listenerView r"
  "listenerView (runUDPReceive handle d err data paddr r) = listenerView r"
  "listenerView (runUDPSends_range handle d r) = listenerView r"
  "listenerView (runUDPSends_mark handle d request r) = listenerView r"
  "listenerView (runUDPSends_done handle d request n err r) = listenerView r"
  by (auto simp: listenerView_def helper_defs udp_defs Let_def
      split: option.splits list.splits prod.splits outcome.splits sum.splits net_addr.splits)

lemma listenerView_packet [simp]:
  "listenerView (snd (RegisterPacketSink cap r)) = listenerView r"
  "listenerView (UnregisterPacketSink handle r) = listenerView r"
  "listenerView (snd (TryPacketWrite handle packet r)) = listenerView r"
  "listenerView (snd (StartPacketWriteReady handle operation r)) = listenerView r"
  "listenerView (snd (TakePacketWriteReady operation r)) = listenerView r"
  "listenerView (snd (receiveAttempt handle r)) = listenerView r"
  "listenerView (snd (RegisterEventSink deliver r)) = listenerView r"
  "listenerView (UnregisterEventSink handle r) = listenerView r"
  by (auto simp: listenerView_def helper_defs packet_defs Let_def
      split: option.splits list.splits prod.splits outcome.splits sum.splits net_addr.splits)

lemma listenerView_create [simp]:
  "listenerView (snd (StartTCPConnect operation connectOptions r)) = listenerView r"
  "listenerView (snd (StartUDPBind operation bindOptions r)) = listenerView r"
  "listenerView (snd (StartTCPListen operation listenOptions r)) = listenerView r"
  "listenerView (runTCPConnect operation c connectOptions connection err r) = listenerView r"
  "listenerView (runUDPBind operation c bindOptions connection err r) = listenerView r"
  "listenerView (runTCPListen operation c listenOptions connection err r) = listenerView r"
  by (auto simp: listenerView_def helper_defs create_defs Let_def
      split: option.splits list.splits prod.splits outcome.splits sum.splits net_addr.splits)

lemma listenerView_connect [simp]:
  "listenerView (snd (TakeTCPConnect operation r)) = listenerView r"
  by (auto simp: listenerView_def helper_defs connect_defs Let_def
      split: option.splits list.splits prod.splits outcome.splits sum.splits net_addr.splits)

lemma listenerView_bind [simp]:
  "listenerView (snd (TakeUDPBind operation r)) = listenerView r"
  by (auto simp: listenerView_def helper_defs bind_defs Let_def
      split: option.splits list.splits prod.splits outcome.splits sum.splits net_addr.splits)

lemma listenerView_query [simp]:
  "listenerView (snd (StartDNS operation kind query r)) = listenerView r"
  "listenerView (snd (DNSResult_op operation r)) = listenerView r"
  "listenerView (snd (FinishDNS operation r)) = listenerView r"
  "listenerView (runDNS operation c kind query answer r) = listenerView r"
  "listenerView (snd (StartLocalAddrForRemote operation remote context r)) = listenerView r"
  "listenerView (snd (TakeLocalAddrForRemote operation r)) = listenerView r"
  "listenerView (runLocalAddrForRemote operation c remote context address err r) = listenerView r"
  "listenerView (snd (StartManagement operation request_bytes r)) = listenerView r"
  "listenerView (snd (FinishManagement operation r)) = listenerView r"
  "listenerView (runManagement operation c request_bytes reply r) = listenerView r"
  by (auto simp: listenerView_def helper_defs query_defs Let_def
      split: option.splits list.splits prod.splits outcome.splits sum.splits net_addr.splits)

lemma listenerView_engine [simp]:
  "listenerView (CloseFinish r) = listenerView r"
  "listenerView (takeCompletion r) = listenerView r"
  by (auto simp: listenerView_def helper_defs engine_defs Let_def
      split: option.splits list.splits prod.splits outcome.splits sum.splits net_addr.splits)

lemma listenerView_closeStream [simp]:
  "listenerView (snd (closeStreamHandle handle r)) = listenerView r"
  using closeStreamHandle_frame [of handle r] 
  by (elim disjE exE conjE) (simp_all add: listenerView_def helper_defs)

lemma listenerView_closeDatagram [simp]:
  "listenerView (snd (closeDatagramHandle handle r)) = listenerView r"
  by (auto simp: listenerView_def helper_defs closeDatagram_defs Let_def
      split: option.splits list.splits prod.splits outcome.splits sum.splits net_addr.splits)

lemma packetView_stream [simp]:
  "packetView (snd (StartRead handle operation capacity r)) = packetView r"
  "packetView (snd (TakeRead operation r)) = packetView r"
  "packetView (snd (StartWrite handle operation data r)) = packetView r"
  "packetView (snd (TakeWrite operation r)) = packetView r"
  "packetView (runStreamRead capacity s chunk err r) = packetView r"
  "packetView (runStreamWrites_head s r) = packetView r"
  "packetView (runStreamWrites_done s q data err r) = packetView r"
  by (auto simp: packetView_def helper_defs stream_defs Let_def
      split: option.splits list.splits prod.splits outcome.splits sum.splits net_addr.splits)

lemma packetView_udp [simp]:
  "packetView (snd (StartUDPReceive handle operation r)) = packetView r"
  "packetView (snd (TakeUDPReceive operation capacity r)) = packetView r"
  "packetView (snd (TryUDPSend handle data peer r)) = packetView r"
  "packetView (snd (StartUDPSendReady handle operation r)) = packetView r"
  "packetView (snd (TakeUDPSendReady operation r)) = packetView r"
  "packetView (runUDPReceive handle d err data paddr r) = packetView r"
  "packetView (runUDPSends_range handle d r) = packetView r"
  "packetView (runUDPSends_mark handle d request r) = packetView r"
  "packetView (runUDPSends_done handle d request n err r) = packetView r"
  by (auto simp: packetView_def helper_defs udp_defs Let_def
      split: option.splits list.splits prod.splits outcome.splits sum.splits net_addr.splits)

lemma packetView_listener [simp]:
  "packetView (snd (StartTCPAccept handle operation r)) = packetView r"
  "packetView (runTCPAccept handle l result r) = packetView r"
  by (auto simp: packetView_def helper_defs listener_defs Let_def
      split: option.splits list.splits prod.splits outcome.splits sum.splits net_addr.splits)

lemma packetView_accept [simp]:
  "packetView (snd (TakeTCPAccept operation r)) = packetView r"
  by (auto simp: packetView_def helper_defs accept_defs Let_def
      split: option.splits list.splits prod.splits outcome.splits sum.splits net_addr.splits)

lemma packetView_create [simp]:
  "packetView (snd (StartTCPConnect operation connectOptions r)) = packetView r"
  "packetView (snd (StartUDPBind operation bindOptions r)) = packetView r"
  "packetView (snd (StartTCPListen operation listenOptions r)) = packetView r"
  "packetView (runTCPConnect operation c connectOptions connection err r) = packetView r"
  "packetView (runUDPBind operation c bindOptions connection err r) = packetView r"
  "packetView (runTCPListen operation c listenOptions connection err r) = packetView r"
  by (auto simp: packetView_def helper_defs create_defs Let_def
      split: option.splits list.splits prod.splits outcome.splits sum.splits net_addr.splits)

lemma packetView_connect [simp]:
  "packetView (snd (TakeTCPConnect operation r)) = packetView r"
  by (auto simp: packetView_def helper_defs connect_defs Let_def
      split: option.splits list.splits prod.splits outcome.splits sum.splits net_addr.splits)

lemma packetView_bind [simp]:
  "packetView (snd (TakeUDPBind operation r)) = packetView r"
  by (auto simp: packetView_def helper_defs bind_defs Let_def
      split: option.splits list.splits prod.splits outcome.splits sum.splits net_addr.splits)

lemma packetView_listen [simp]:
  "packetView (snd (TakeTCPListen operation r)) = packetView r"
  by (auto simp: packetView_def helper_defs listen_defs Let_def
      split: option.splits list.splits prod.splits outcome.splits sum.splits net_addr.splits)

lemma packetView_query [simp]:
  "packetView (snd (StartDNS operation kind query r)) = packetView r"
  "packetView (snd (DNSResult_op operation r)) = packetView r"
  "packetView (snd (FinishDNS operation r)) = packetView r"
  "packetView (runDNS operation c kind query answer r) = packetView r"
  "packetView (snd (StartLocalAddrForRemote operation remote context r)) = packetView r"
  "packetView (snd (TakeLocalAddrForRemote operation r)) = packetView r"
  "packetView (runLocalAddrForRemote operation c remote context address err r) = packetView r"
  "packetView (snd (StartManagement operation request_bytes r)) = packetView r"
  "packetView (snd (FinishManagement operation r)) = packetView r"
  "packetView (runManagement operation c request_bytes reply r) = packetView r"
  by (auto simp: packetView_def helper_defs query_defs Let_def
      split: option.splits list.splits prod.splits outcome.splits sum.splits net_addr.splits)

lemma packetView_engine [simp]:
  "packetView (CloseFinish r) = packetView r"
  "packetView (takeCompletion r) = packetView r"
  by (auto simp: packetView_def helper_defs engine_defs Let_def
      split: option.splits list.splits prod.splits outcome.splits sum.splits net_addr.splits)

lemma packetView_closeStream [simp]:
  "packetView (snd (closeStreamHandle handle r)) = packetView r"
  using closeStreamHandle_frame [of handle r] 
  by (elim disjE exE conjE) (simp_all add: packetView_def helper_defs)

lemma packetView_closeDatagram [simp]:
  "packetView (snd (closeDatagramHandle handle r)) = packetView r"
  by (auto simp: packetView_def helper_defs closeDatagram_defs Let_def
      split: option.splits list.splits prod.splits outcome.splits sum.splits net_addr.splits)

lemma packetView_closeListener [simp]:
  "packetView (snd (closeListenerHandle handle r)) = packetView r"
  by (auto simp: packetView_def helper_defs closeListener_defs Let_def
      split: option.splits list.splits prod.splits outcome.splits sum.splits net_addr.splits)

lemma createView_stream [simp]:
  "createView (snd (StartRead handle operation capacity r)) = createView r"
  "createView (snd (TakeRead operation r)) = createView r"
  "createView (snd (StartWrite handle operation data r)) = createView r"
  "createView (snd (TakeWrite operation r)) = createView r"
  "createView (runStreamRead capacity s chunk err r) = createView r"
  "createView (runStreamWrites_head s r) = createView r"
  "createView (runStreamWrites_done s q data err r) = createView r"
  by (auto simp: createView_def helper_defs stream_defs Let_def
      split: option.splits list.splits prod.splits outcome.splits sum.splits net_addr.splits)

lemma createView_udp [simp]:
  "createView (snd (StartUDPReceive handle operation r)) = createView r"
  "createView (snd (TakeUDPReceive operation capacity r)) = createView r"
  "createView (snd (TryUDPSend handle data peer r)) = createView r"
  "createView (snd (StartUDPSendReady handle operation r)) = createView r"
  "createView (snd (TakeUDPSendReady operation r)) = createView r"
  "createView (runUDPReceive handle d err data paddr r) = createView r"
  "createView (runUDPSends_range handle d r) = createView r"
  "createView (runUDPSends_mark handle d request r) = createView r"
  "createView (runUDPSends_done handle d request n err r) = createView r"
  by (auto simp: createView_def helper_defs udp_defs Let_def
      split: option.splits list.splits prod.splits outcome.splits sum.splits net_addr.splits)

lemma createView_listener [simp]:
  "createView (snd (StartTCPAccept handle operation r)) = createView r"
  "createView (runTCPAccept handle l result r) = createView r"
  by (auto simp: createView_def helper_defs listener_defs Let_def
      split: option.splits list.splits prod.splits outcome.splits sum.splits net_addr.splits)

lemma createView_accept [simp]:
  "createView (snd (TakeTCPAccept operation r)) = createView r"
  by (auto simp: createView_def helper_defs accept_defs Let_def
      split: option.splits list.splits prod.splits outcome.splits sum.splits net_addr.splits)

lemma createView_packet [simp]:
  "createView (snd (RegisterPacketSink cap r)) = createView r"
  "createView (UnregisterPacketSink handle r) = createView r"
  "createView (snd (TryPacketWrite handle packet r)) = createView r"
  "createView (snd (StartPacketWriteReady handle operation r)) = createView r"
  "createView (snd (TakePacketWriteReady operation r)) = createView r"
  "createView (snd (receiveAttempt handle r)) = createView r"
  "createView (snd (RegisterEventSink deliver r)) = createView r"
  "createView (UnregisterEventSink handle r) = createView r"
  by (auto simp: createView_def helper_defs packet_defs Let_def
      split: option.splits list.splits prod.splits outcome.splits sum.splits net_addr.splits)

lemma createView_query [simp]:
  "createView (snd (StartDNS operation kind query r)) = createView r"
  "createView (snd (DNSResult_op operation r)) = createView r"
  "createView (snd (FinishDNS operation r)) = createView r"
  "createView (runDNS operation c kind query answer r) = createView r"
  "createView (snd (StartLocalAddrForRemote operation remote context r)) = createView r"
  "createView (snd (TakeLocalAddrForRemote operation r)) = createView r"
  "createView (runLocalAddrForRemote operation c remote context address err r) = createView r"
  "createView (snd (StartManagement operation request_bytes r)) = createView r"
  "createView (snd (FinishManagement operation r)) = createView r"
  "createView (runManagement operation c request_bytes reply r) = createView r"
  by (auto simp: createView_def helper_defs query_defs Let_def
      split: option.splits list.splits prod.splits outcome.splits sum.splits net_addr.splits)

lemma createView_engine [simp]:
  "createView (CloseFinish r) = createView r"
  "createView (takeCompletion r) = createView r"
  by (auto simp: createView_def helper_defs engine_defs Let_def
      split: option.splits list.splits prod.splits outcome.splits sum.splits net_addr.splits)

lemma createView_closeStream [simp]:
  "createView (snd (closeStreamHandle handle r)) = createView r"
  using closeStreamHandle_frame [of handle r] 
  by (elim disjE exE conjE) (simp_all add: createView_def helper_defs)

lemma createView_closeDatagram [simp]:
  "createView (snd (closeDatagramHandle handle r)) = createView r"
  by (auto simp: createView_def helper_defs closeDatagram_defs Let_def
      split: option.splits list.splits prod.splits outcome.splits sum.splits net_addr.splits)

lemma createView_closeListener [simp]:
  "createView (snd (closeListenerHandle handle r)) = createView r"
  by (auto simp: createView_def helper_defs closeListener_defs Let_def
      split: option.splits list.splits prod.splits outcome.splits sum.splits net_addr.splits)

lemma queryView_stream [simp]:
  "queryView (snd (StartRead handle operation capacity r)) = queryView r"
  "queryView (snd (TakeRead operation r)) = queryView r"
  "queryView (snd (StartWrite handle operation data r)) = queryView r"
  "queryView (snd (TakeWrite operation r)) = queryView r"
  "queryView (runStreamRead capacity s chunk err r) = queryView r"
  "queryView (runStreamWrites_head s r) = queryView r"
  "queryView (runStreamWrites_done s q data err r) = queryView r"
  by (auto simp: queryView_def helper_defs stream_defs Let_def
      split: option.splits list.splits prod.splits outcome.splits sum.splits net_addr.splits)

lemma queryView_udp [simp]:
  "queryView (snd (StartUDPReceive handle operation r)) = queryView r"
  "queryView (snd (TakeUDPReceive operation capacity r)) = queryView r"
  "queryView (snd (TryUDPSend handle data peer r)) = queryView r"
  "queryView (snd (StartUDPSendReady handle operation r)) = queryView r"
  "queryView (snd (TakeUDPSendReady operation r)) = queryView r"
  "queryView (runUDPReceive handle d err data paddr r) = queryView r"
  "queryView (runUDPSends_range handle d r) = queryView r"
  "queryView (runUDPSends_mark handle d request r) = queryView r"
  "queryView (runUDPSends_done handle d request n err r) = queryView r"
  by (auto simp: queryView_def helper_defs udp_defs Let_def
      split: option.splits list.splits prod.splits outcome.splits sum.splits net_addr.splits)

lemma queryView_listener [simp]:
  "queryView (snd (StartTCPAccept handle operation r)) = queryView r"
  "queryView (runTCPAccept handle l result r) = queryView r"
  by (auto simp: queryView_def helper_defs listener_defs Let_def
      split: option.splits list.splits prod.splits outcome.splits sum.splits net_addr.splits)

lemma queryView_accept [simp]:
  "queryView (snd (TakeTCPAccept operation r)) = queryView r"
  by (auto simp: queryView_def helper_defs accept_defs Let_def
      split: option.splits list.splits prod.splits outcome.splits sum.splits net_addr.splits)

lemma queryView_packet [simp]:
  "queryView (snd (RegisterPacketSink cap r)) = queryView r"
  "queryView (UnregisterPacketSink handle r) = queryView r"
  "queryView (snd (TryPacketWrite handle packet r)) = queryView r"
  "queryView (snd (StartPacketWriteReady handle operation r)) = queryView r"
  "queryView (snd (TakePacketWriteReady operation r)) = queryView r"
  "queryView (snd (receiveAttempt handle r)) = queryView r"
  "queryView (snd (RegisterEventSink deliver r)) = queryView r"
  "queryView (UnregisterEventSink handle r) = queryView r"
  by (auto simp: queryView_def helper_defs packet_defs Let_def
      split: option.splits list.splits prod.splits outcome.splits sum.splits net_addr.splits)

lemma queryView_create [simp]:
  "queryView (snd (StartTCPConnect operation connectOptions r)) = queryView r"
  "queryView (snd (StartUDPBind operation bindOptions r)) = queryView r"
  "queryView (snd (StartTCPListen operation listenOptions r)) = queryView r"
  "queryView (runTCPConnect operation c connectOptions connection err r) = queryView r"
  "queryView (runUDPBind operation c bindOptions connection err r) = queryView r"
  "queryView (runTCPListen operation c listenOptions connection err r) = queryView r"
  by (auto simp: queryView_def helper_defs create_defs Let_def
      split: option.splits list.splits prod.splits outcome.splits sum.splits net_addr.splits)

lemma queryView_connect [simp]:
  "queryView (snd (TakeTCPConnect operation r)) = queryView r"
  by (auto simp: queryView_def helper_defs connect_defs Let_def
      split: option.splits list.splits prod.splits outcome.splits sum.splits net_addr.splits)

lemma queryView_bind [simp]:
  "queryView (snd (TakeUDPBind operation r)) = queryView r"
  by (auto simp: queryView_def helper_defs bind_defs Let_def
      split: option.splits list.splits prod.splits outcome.splits sum.splits net_addr.splits)

lemma queryView_listen [simp]:
  "queryView (snd (TakeTCPListen operation r)) = queryView r"
  by (auto simp: queryView_def helper_defs listen_defs Let_def
      split: option.splits list.splits prod.splits outcome.splits sum.splits net_addr.splits)

lemma queryView_engine [simp]:
  "queryView (CloseFinish r) = queryView r"
  "queryView (takeCompletion r) = queryView r"
  by (auto simp: queryView_def helper_defs engine_defs Let_def
      split: option.splits list.splits prod.splits outcome.splits sum.splits net_addr.splits)

lemma queryView_closeStream [simp]:
  "queryView (snd (closeStreamHandle handle r)) = queryView r"
  using closeStreamHandle_frame [of handle r] 
  by (elim disjE exE conjE) (simp_all add: queryView_def helper_defs)

lemma queryView_closeDatagram [simp]:
  "queryView (snd (closeDatagramHandle handle r)) = queryView r"
  by (auto simp: queryView_def helper_defs closeDatagram_defs Let_def
      split: option.splits list.splits prod.splits outcome.splits sum.splits net_addr.splits)

lemma queryView_closeListener [simp]:
  "queryView (snd (closeListenerHandle handle r)) = queryView r"
  by (auto simp: queryView_def helper_defs closeListener_defs Let_def
      split: option.splits list.splits prod.splits outcome.splits sum.splits net_addr.splits)

section \<open>Allocation, and the operations that reach into several components\<close>


lemma nextRef_stream [simp]:
  "nextRef r \<le> nextRef (snd (StartRead handle operation capacity r))"
  "nextRef r \<le> nextRef (snd (TakeRead operation r))"
  "nextRef r \<le> nextRef (snd (StartWrite handle operation data r))"
  "nextRef r \<le> nextRef (snd (TakeWrite operation r))"
  "nextRef r \<le> nextRef (runStreamRead capacity s chunk err r)"
  "nextRef r \<le> nextRef (runStreamWrites_head s r)"
  "nextRef r \<le> nextRef (runStreamWrites_done s q data err r)"
  by (auto simp: helper_defs stream_defs Let_def
      split: option.splits list.splits prod.splits outcome.splits sum.splits net_addr.splits)

lemma nextRef_udp [simp]:
  "nextRef r \<le> nextRef (snd (StartUDPReceive handle operation r))"
  "nextRef r \<le> nextRef (snd (TakeUDPReceive operation capacity r))"
  "nextRef r \<le> nextRef (snd (TryUDPSend handle data peer r))"
  "nextRef r \<le> nextRef (snd (StartUDPSendReady handle operation r))"
  "nextRef r \<le> nextRef (snd (TakeUDPSendReady operation r))"
  "nextRef r \<le> nextRef (runUDPReceive handle d err data paddr r)"
  "nextRef r \<le> nextRef (runUDPSends_range handle d r)"
  "nextRef r \<le> nextRef (runUDPSends_mark handle d request r)"
  "nextRef r \<le> nextRef (runUDPSends_done handle d request n err r)"
  by (auto simp: helper_defs udp_defs Let_def
      split: option.splits list.splits prod.splits outcome.splits sum.splits net_addr.splits)

lemma nextRef_listener [simp]:
  "nextRef r \<le> nextRef (snd (StartTCPAccept handle operation r))"
  "nextRef r \<le> nextRef (runTCPAccept handle l result r)"
  by (auto simp: helper_defs listener_defs Let_def
      split: option.splits list.splits prod.splits outcome.splits sum.splits net_addr.splits)

lemma nextRef_accept [simp]:
  "nextRef r \<le> nextRef (snd (TakeTCPAccept operation r))"
  by (auto simp: helper_defs accept_defs Let_def
      split: option.splits list.splits prod.splits outcome.splits sum.splits net_addr.splits)

lemma nextRef_packet [simp]:
  "nextRef r \<le> nextRef (snd (RegisterPacketSink cap r))"
  "nextRef r \<le> nextRef (UnregisterPacketSink handle r)"
  "nextRef r \<le> nextRef (snd (TryPacketWrite handle packet r))"
  "nextRef r \<le> nextRef (snd (StartPacketWriteReady handle operation r))"
  "nextRef r \<le> nextRef (snd (TakePacketWriteReady operation r))"
  "nextRef r \<le> nextRef (snd (receiveAttempt handle r))"
  "nextRef r \<le> nextRef (snd (RegisterEventSink deliver r))"
  "nextRef r \<le> nextRef (UnregisterEventSink handle r)"
  by (auto simp: helper_defs packet_defs Let_def
      split: option.splits list.splits prod.splits outcome.splits sum.splits net_addr.splits)

lemma nextRef_create [simp]:
  "nextRef r \<le> nextRef (snd (StartTCPConnect operation connectOptions r))"
  "nextRef r \<le> nextRef (snd (StartUDPBind operation bindOptions r))"
  "nextRef r \<le> nextRef (snd (StartTCPListen operation listenOptions r))"
  "nextRef r \<le> nextRef (runTCPConnect operation c connectOptions connection err r)"
  "nextRef r \<le> nextRef (runUDPBind operation c bindOptions connection err r)"
  "nextRef r \<le> nextRef (runTCPListen operation c listenOptions connection err r)"
  by (auto simp: helper_defs create_defs Let_def
      split: option.splits list.splits prod.splits outcome.splits sum.splits net_addr.splits)

lemma nextRef_connect [simp]:
  "nextRef r \<le> nextRef (snd (TakeTCPConnect operation r))"
  by (auto simp: helper_defs connect_defs Let_def
      split: option.splits list.splits prod.splits outcome.splits sum.splits net_addr.splits)

lemma nextRef_bind [simp]:
  "nextRef r \<le> nextRef (snd (TakeUDPBind operation r))"
  by (auto simp: helper_defs bind_defs Let_def
      split: option.splits list.splits prod.splits outcome.splits sum.splits net_addr.splits)

lemma nextRef_listen [simp]:
  "nextRef r \<le> nextRef (snd (TakeTCPListen operation r))"
  by (auto simp: helper_defs listen_defs Let_def
      split: option.splits list.splits prod.splits outcome.splits sum.splits net_addr.splits)

lemma nextRef_query [simp]:
  "nextRef r \<le> nextRef (snd (StartDNS operation kind query r))"
  "nextRef r \<le> nextRef (snd (DNSResult_op operation r))"
  "nextRef r \<le> nextRef (snd (FinishDNS operation r))"
  "nextRef r \<le> nextRef (runDNS operation c kind query answer r)"
  "nextRef r \<le> nextRef (snd (StartLocalAddrForRemote operation remote context r))"
  "nextRef r \<le> nextRef (snd (TakeLocalAddrForRemote operation r))"
  "nextRef r \<le> nextRef (runLocalAddrForRemote operation c remote context address err r)"
  "nextRef r \<le> nextRef (snd (StartManagement operation request_bytes r))"
  "nextRef r \<le> nextRef (snd (FinishManagement operation r))"
  "nextRef r \<le> nextRef (runManagement operation c request_bytes reply r)"
  by (auto simp: helper_defs query_defs Let_def
      split: option.splits list.splits prod.splits outcome.splits sum.splits net_addr.splits)

lemma nextRef_engine [simp]:
  "nextRef r \<le> nextRef (CloseFinish r)"
  "nextRef r \<le> nextRef (takeCompletion r)"
  by (auto simp: helper_defs engine_defs Let_def
      split: option.splits list.splits prod.splits outcome.splits sum.splits net_addr.splits)



lemma nextRef_prepare [simp]: "nextRef (prepareStreamReadLocked s r) = nextRef r"
  by (simp add: prepareStreamReadLocked_def updStream_def Let_def split: list.splits)

lemma nextRef_failQueuedWrites [simp]: "nextRef (snd (failQueuedWrites q b r)) = nextRef r"
  using failQueuedWrites_frame [of q b r] by auto

lemma nextRef_CancelOperation [simp]: "nextRef (CancelOperation operation r) = nextRef r"
proof (cases "operations r operation")
  case (Some kind)
  then show ?thesis
    by (cases kind) (auto simp: CancelOperation_def cancelStreamReadLocked_def cancelStreamWriteLocked_def
      helper_defs updStream_def Let_def split: option.splits)
qed (simp add: CancelOperation_def)

lemma nextRef_CloseHandle [simp]: "nextRef (snd (CloseHandle_locked handle r)) = nextRef r"
proof -
  have "nextRef (snd (closeStreamHandle handle r)) = nextRef r" for r
    using closeStreamHandle_frame [of handle r] by (auto simp: helper_defs)
  moreover have "nextRef (snd (closeDatagramHandle handle r)) = nextRef r" for r
    by (simp add: closeDatagram_defs split: option.splits)
  moreover have "nextRef (snd (closeListenerHandle handle r)) = nextRef r" for r
    by (simp add: closeListener_defs helper_defs Let_def split: option.splits)
  ultimately show ?thesis by (simp add: snd_CloseHandle)
qed

lemma nextRef_CloseBegin [simp]: "nextRef (CloseBegin r) = nextRef r"
  by (simp add: CloseBegin_def)

lemma receiveWake_view:
  assumes "receiveWake wake sink handle r = Some (result, r')"
  shows "streamView r' = streamView r" "udpView r' = udpView r" "listenerView r' = listenerView r"
    "createView r' = createView r" "queryView r' = queryView r" "nextRef r' = nextRef r"
  using assms
  by (cases wake; auto simp: updSink_def receiveAttempt_def helper_defs streamView_def udpView_def listenerView_def
      createView_def queryView_def split: if_splits option.splits list.splits)+

lemma TakeTCPAccept_stream:
  "streamView (snd (TakeTCPAccept operation r)) = streamView r \<and> nextRef (snd (TakeTCPAccept operation r)) = nextRef r \<or>
   (\<exists>handle connection. streamView (snd (TakeTCPAccept operation r)) = streamView (addStream handle connection r) \<and>
      nextRef (snd (TakeTCPAccept operation r)) = nextRef (addStream handle connection r))"
  by (auto simp: streamView_def accept_defs helper_defs Let_def split: option.splits list.splits)

lemma TakeTCPConnect_stream:
  "streamView (snd (TakeTCPConnect operation r)) = streamView r \<and> nextRef (snd (TakeTCPConnect operation r)) = nextRef r \<or>
   (\<exists>handle connection. streamView (snd (TakeTCPConnect operation r)) = streamView (addStream handle connection r) \<and>
      nextRef (snd (TakeTCPConnect operation r)) = nextRef (addStream handle connection r))"
  by (auto simp: streamView_def connect_defs helper_defs Let_def split: option.splits)

lemma TakeUDPBind_udp:
  "udpView (snd (TakeUDPBind operation r)) = udpView r \<and> nextRef (snd (TakeUDPBind operation r)) = nextRef r \<or>
   (\<exists>connection. udpView (snd (TakeUDPBind operation r)) = udpView (addDatagram (nextHandle r + 1) connection r) \<and>
      nextRef (snd (TakeUDPBind operation r)) = nextRef (addDatagram (nextHandle r + 1) connection r))"
  by (auto simp: udpView_def bind_defs helper_defs Let_def split: option.splits)

lemma TakeTCPListen_listener:
  "listenerView (snd (TakeTCPListen operation r)) = listenerView r \<and> nextRef (snd (TakeTCPListen operation r)) = nextRef r \<or>
   (\<exists>connection. listenerView (snd (TakeTCPListen operation r)) = listenerView (addListener (nextHandle r + 1) connection r) \<and>
      nextRef (snd (TakeTCPListen operation r)) = nextRef (addListener (nextHandle r + 1) connection r))"
  by (auto simp: listenerView_def listen_defs helper_defs Let_def split: option.splits)

lemma CancelOperation_streamView:
  fixes operation r
  defines "r1 \<equiv> r\<lparr>operations := (operations r)(operation := None)\<rparr>"
  shows "streamView (CancelOperation operation r) =
     streamView (case operations r operation of
         Some operationRead \<Rightarrow> snd (cancelStreamReadLocked operation r1)
       | Some operationWrite \<Rightarrow> cancelStreamWriteLocked operation r1 | _ \<Rightarrow> r)"
proof (cases "operations r operation")
  case (Some kind)
  then show ?thesis
    by (cases kind) (auto simp: CancelOperation_def r1_def case_prod_beta Let_def streamView_def helper_defs split: option.splits)
qed (simp add: CancelOperation_def)

lemma CancelOperation_udpView:
  "udpView (CancelOperation operation r) =
     udpView (case operations r operation of
         Some operationUDPRead \<Rightarrow> r\<lparr>udpReads := (udpReads r)(operation := None)\<rparr>
       | Some operationUDPWrite \<Rightarrow> r\<lparr>udpWrites := (udpWrites r)(operation := None)\<rparr> | _ \<Rightarrow> r)"
proof (cases "operations r operation")
  case (Some kind)
  then show ?thesis
    by (cases kind) (auto simp: CancelOperation_def cancelStreamReadLocked_def cancelStreamWriteLocked_def
      prepareStreamReadLocked_def helper_defs updStream_def Let_def udpView_def split: option.splits list.splits)
qed (simp add: CancelOperation_def)

lemma CancelOperation_listenerView:
  "listenerView (CancelOperation operation r) =
     listenerView (case operations r operation of
         Some operationAccept \<Rightarrow> r\<lparr>accepts := (accepts r)(operation := None)\<rparr> | _ \<Rightarrow> r)"
proof (cases "operations r operation")
  case (Some kind)
  then show ?thesis
    by (cases kind) (auto simp: CancelOperation_def cancelStreamReadLocked_def cancelStreamWriteLocked_def
      prepareStreamReadLocked_def helper_defs updStream_def Let_def listenerView_def split: option.splits list.splits)
qed (simp add: CancelOperation_def)

lemma CancelOperation_packetView:
  "packetView (CancelOperation operation r) =
     packetView (case operations r operation of
         Some operationPacketWrite \<Rightarrow> r\<lparr>packetWrites := (packetWrites r)(operation := None)\<rparr> | _ \<Rightarrow> r)"
proof (cases "operations r operation")
  case (Some kind)
  then show ?thesis
    by (cases kind) (auto simp: CancelOperation_def cancelStreamReadLocked_def cancelStreamWriteLocked_def
      prepareStreamReadLocked_def helper_defs updStream_def Let_def packetView_def split: option.splits list.splits)
qed (simp add: CancelOperation_def)

lemma CancelOperation_createView:
  "createView (CancelOperation operation r) =
     createView (case operations r operation of
         Some operationCreate \<Rightarrow> r\<lparr>creates := (creates r)(operation := None)\<rparr> | _ \<Rightarrow> r)"
proof (cases "operations r operation")
  case (Some kind)
  then show ?thesis
    by (cases kind) (auto simp: CancelOperation_def cancelStreamReadLocked_def cancelStreamWriteLocked_def
      prepareStreamReadLocked_def helper_defs updStream_def Let_def createView_def split: option.splits list.splits)
qed (simp add: CancelOperation_def)

end
