(* ===== verification/ReactorTables.thy ===== *)
theory ReactorTables
  imports ReactorFrame
begin

text \<open>
  The table of operations is exact: an identifier is claimed for a kind of operation if and only if the
  table of that kind has an entry for it. So at any time an identifier belongs to at most one pending
  operation, no entry is left behind by a cancelled or finished operation, and no operation is lost from its
  table while it is claimed.
\<close>

fun tableHas :: "operationKind \<Rightarrow> reactor \<Rightarrow> u64 \<Rightarrow> bool" where
  "tableHas operationRead r i = (reads r i \<noteq> None)"
| "tableHas operationWrite r i = (writes r i \<noteq> None)"
| "tableHas operationUDPRead r i = (udpReads r i \<noteq> None)"
| "tableHas operationUDPWrite r i = (udpWrites r i \<noteq> None)"
| "tableHas operationCreate r i = (creates r i \<noteq> None)"
| "tableHas operationAccept r i = (accepts r i \<noteq> None)"
| "tableHas operationDNS r i = (dns r i \<noteq> None)"
| "tableHas operationEnvironment r i = (environments r i \<noteq> None)"
| "tableHas operationPacketWrite r i = (packetWrites r i \<noteq> None)"
| "tableHas operationManagement r i = (management r i \<noteq> None)"

definition tablesOk :: "reactor \<Rightarrow> bool" where
  "tablesOk r \<longleftrightarrow> (\<forall>k i. tableHas k r i \<longleftrightarrow> operations r i = Some k)"

lemma tablesOkI:
  assumes "\<And>i. reads r i = None \<longleftrightarrow> operations r i \<noteq> Some operationRead"
    "\<And>i. writes r i = None \<longleftrightarrow> operations r i \<noteq> Some operationWrite"
    "\<And>i. udpReads r i = None \<longleftrightarrow> operations r i \<noteq> Some operationUDPRead"
    "\<And>i. udpWrites r i = None \<longleftrightarrow> operations r i \<noteq> Some operationUDPWrite"
    "\<And>i. creates r i = None \<longleftrightarrow> operations r i \<noteq> Some operationCreate"
    "\<And>i. accepts r i = None \<longleftrightarrow> operations r i \<noteq> Some operationAccept"
    "\<And>i. dns r i = None \<longleftrightarrow> operations r i \<noteq> Some operationDNS"
    "\<And>i. environments r i = None \<longleftrightarrow> operations r i \<noteq> Some operationEnvironment"
    "\<And>i. packetWrites r i = None \<longleftrightarrow> operations r i \<noteq> Some operationPacketWrite"
    "\<And>i. management r i = None \<longleftrightarrow> operations r i \<noteq> Some operationManagement"
  shows "tablesOk r"
  unfolding tablesOk_def
proof (intro allI)
  fix k i show "tableHas k r i = (operations r i = Some k)" using assms by (cases k) simp_all
qed

lemma tablesOk_None:
  assumes "tablesOk r"
  shows "reads r i = None \<longleftrightarrow> operations r i \<noteq> Some operationRead"
    "writes r i = None \<longleftrightarrow> operations r i \<noteq> Some operationWrite"
    "udpReads r i = None \<longleftrightarrow> operations r i \<noteq> Some operationUDPRead"
    "udpWrites r i = None \<longleftrightarrow> operations r i \<noteq> Some operationUDPWrite"
    "creates r i = None \<longleftrightarrow> operations r i \<noteq> Some operationCreate"
    "accepts r i = None \<longleftrightarrow> operations r i \<noteq> Some operationAccept"
    "dns r i = None \<longleftrightarrow> operations r i \<noteq> Some operationDNS"
    "environments r i = None \<longleftrightarrow> operations r i \<noteq> Some operationEnvironment"
    "packetWrites r i = None \<longleftrightarrow> operations r i \<noteq> Some operationPacketWrite"
    "management r i = None \<longleftrightarrow> operations r i \<noteq> Some operationManagement"
  using assms unfolding tablesOk_def by (metis tableHas.simps)+

lemma tablesOk_Some:
  assumes "tablesOk r"
  shows "reads r i = Some x0 \<Longrightarrow> operations r i = Some operationRead"
    "writes r i = Some x1 \<Longrightarrow> operations r i = Some operationWrite"
    "udpReads r i = Some x2 \<Longrightarrow> operations r i = Some operationUDPRead"
    "udpWrites r i = Some x3 \<Longrightarrow> operations r i = Some operationUDPWrite"
    "creates r i = Some x4 \<Longrightarrow> operations r i = Some operationCreate"
    "accepts r i = Some x5 \<Longrightarrow> operations r i = Some operationAccept"
    "dns r i = Some x6 \<Longrightarrow> operations r i = Some operationDNS"
    "environments r i = Some x7 \<Longrightarrow> operations r i = Some operationEnvironment"
    "packetWrites r i = Some x8 \<Longrightarrow> operations r i = Some operationPacketWrite"
    "management r i = Some x9 \<Longrightarrow> operations r i = Some operationManagement"
  using tablesOk_None [OF assms, of i] by (metis option.distinct(1))+


definition tablesView where
  "tablesView (r :: reactor) =
     (operations r, reads r, writes r, udpReads r, udpWrites r, creates r, accepts r, dns r,
      environments r, packetWrites r, management r)"

lemma tablesOk_view: "tablesView r' = tablesView r \<Longrightarrow> tablesOk r' = tablesOk r"
  unfolding tablesOk_def tablesView_def
  by (intro iff_allI, rename_tac k i, case_tac k) simp_all

lemma tablesOk_helpers [simp]:
  "tablesOk (signalIf b r) = tablesOk r" "tablesOk (updStream s f r) = tablesOk r"
  "tablesOk (prepareStreamReadLocked s r) = tablesOk r"
  "tablesOk (updDatagram d g r) = tablesOk r" "tablesOk (updListener l h r) = tablesOk r"
  "tablesOk (startUDPReceiver b handle d r) = tablesOk r"
  "tablesOk (startAcceptor b handle d r) = tablesOk r"
  "tablesOk (addStream handle connection r) = tablesOk r"
  "tablesOk (snd (allocateHandleLocked r)) = tablesOk r"
  "tablesOk (r\<lparr>nextHandle := n\<rparr>) = tablesOk r"
  "tablesOk (closeResource c r) = tablesOk r"
  "tablesOk (cancelContext x r) = tablesOk r"
  by (rule tablesOk_view, simp add: tablesView_def helper_defs stream_defs udp_defs listener_defs Let_def
      split: list.splits)+

lemma tablesOk_release:
  "tablesOk r \<Longrightarrow> tablesOk (snd (releaseOperationLocked i operationRead (r\<lparr>streamAt := m, reads := (reads r)(i := None)\<rparr>)))"
  "tablesOk r \<Longrightarrow>
     tablesOk (snd (releaseOperationLocked i operationUDPRead (r\<lparr>udpReads := (udpReads r)(i := None)\<rparr>)))"
  "tablesOk r \<Longrightarrow>
     tablesOk (snd (releaseOperationLocked i operationAccept (r\<lparr>accepts := (accepts r)(i := None)\<rparr>)))"
  by (rule tablesOkI; simp add: releaseOperationLocked_def tablesOk_None)+

lemma tablesOk_TakeUDPReceive: "tablesOk r \<Longrightarrow> tablesOk (snd (TakeUDPReceive operation capacity r))"
  using tablesOk_release(2)
  by (auto simp: TakeUDPReceive_def Let_def split: option.splits list.splits)

lemma tablesOk_TakeTCPAccept: "tablesOk r \<Longrightarrow> tablesOk (snd (TakeTCPAccept operation r))"
  using tablesOk_release(3)
  by (auto simp: TakeTCPAccept_def allocateHandleLocked_def Let_def split: option.splits list.splits)

lemma tablesOk_TakeRead: "tablesOk r \<Longrightarrow> tablesOk (snd (TakeRead operation r))"
  using tablesOk_release(1)
  by (auto simp: TakeRead_def Let_def split: option.splits list.splits prod.splits)

lemma tablesOk_StartRead: "tablesOk r \<Longrightarrow> tablesOk (snd (StartRead handle operation capacity r))"
  by (rule tablesOkI; simp add: helper_defs stream_defs Let_def tablesOk_None tablesOk_Some(1) [of r operation] markReady_def
      split: option.splits list.splits prod.splits outcome.splits sum.splits net_addr.splits)
lemma tablesOk_StartWrite: "tablesOk r \<Longrightarrow> tablesOk (snd (StartWrite handle operation data r))"
  by (rule tablesOkI; simp add: helper_defs stream_defs Let_def tablesOk_None tablesOk_Some(2) [of r operation] markReady_def
      split: option.splits list.splits prod.splits outcome.splits sum.splits net_addr.splits)
lemma tablesOk_TakeWrite: "tablesOk r \<Longrightarrow> tablesOk (snd (TakeWrite operation r))"
  by (rule tablesOkI; simp add: helper_defs stream_defs Let_def tablesOk_None tablesOk_Some(2) [of r operation] markReady_def
      split: option.splits list.splits prod.splits outcome.splits sum.splits net_addr.splits)
lemma tablesOk_runStreamRead: "tablesOk r \<Longrightarrow> tablesOk (runStreamRead capacity s chunk err r)"
  by (rule tablesOkI; simp add: helper_defs stream_defs Let_def tablesOk_None markReady_def
      split: option.splits list.splits prod.splits outcome.splits sum.splits net_addr.splits)
lemma tablesOk_runStreamWrites_head: "tablesOk r \<Longrightarrow> tablesOk (runStreamWrites_head s r)"
  by (rule tablesOkI; simp add: helper_defs stream_defs Let_def tablesOk_None markReady_def
      split: option.splits list.splits prod.splits outcome.splits sum.splits net_addr.splits)
lemma tablesOk_runStreamWrites_done: "tablesOk r \<Longrightarrow> tablesOk (runStreamWrites_done s q data err r)"
  by (rule tablesOkI; simp add: helper_defs stream_defs Let_def tablesOk_None markReady_def
      split: option.splits list.splits prod.splits outcome.splits sum.splits net_addr.splits)
lemma tablesOk_StartUDPReceive: "tablesOk r \<Longrightarrow> tablesOk (snd (StartUDPReceive handle operation r))"
  by (rule tablesOkI; simp add: helper_defs udp_defs Let_def tablesOk_None tablesOk_Some(3) [of r operation] markReady_def
      split: option.splits list.splits prod.splits outcome.splits sum.splits net_addr.splits)
lemma tablesOk_TryUDPSend: "tablesOk r \<Longrightarrow> tablesOk (snd (TryUDPSend handle data peer r))"
  by (rule tablesOkI; simp add: helper_defs udp_defs Let_def tablesOk_None markReady_def
      split: option.splits list.splits prod.splits outcome.splits sum.splits net_addr.splits)
lemma tablesOk_StartUDPSendReady: "tablesOk r \<Longrightarrow> tablesOk (snd (StartUDPSendReady handle operation r))"
  by (rule tablesOkI; simp add: helper_defs udp_defs Let_def tablesOk_None tablesOk_Some(4) [of r operation] markReady_def
      split: option.splits list.splits prod.splits outcome.splits sum.splits net_addr.splits)
lemma tablesOk_TakeUDPSendReady: "tablesOk r \<Longrightarrow> tablesOk (snd (TakeUDPSendReady operation r))"
  by (rule tablesOkI; simp add: helper_defs udp_defs Let_def tablesOk_None tablesOk_Some(4) [of r operation] markReady_def
      split: option.splits list.splits prod.splits outcome.splits sum.splits net_addr.splits)
lemma tablesOk_runUDPReceive: "tablesOk r \<Longrightarrow> tablesOk (runUDPReceive handle d err data paddr r)"
  by (rule tablesOkI; simp add: helper_defs udp_defs Let_def tablesOk_None markReady_def
      split: option.splits list.splits prod.splits outcome.splits sum.splits net_addr.splits)
lemma tablesOk_runUDPSends_range: "tablesOk r \<Longrightarrow> tablesOk (runUDPSends_range handle d r)"
  by (rule tablesOkI; simp add: helper_defs udp_defs Let_def tablesOk_None markReady_def
      split: option.splits list.splits prod.splits outcome.splits sum.splits net_addr.splits)
lemma tablesOk_runUDPSends_mark: "tablesOk r \<Longrightarrow> tablesOk (runUDPSends_mark handle d request r)"
  by (rule tablesOkI; simp add: helper_defs udp_defs Let_def tablesOk_None markReady_def
      split: option.splits list.splits prod.splits outcome.splits sum.splits net_addr.splits)
lemma tablesOk_runUDPSends_done: "tablesOk r \<Longrightarrow> tablesOk (runUDPSends_done handle d request n err r)"
  by (rule tablesOkI; simp add: helper_defs udp_defs Let_def tablesOk_None markReady_def
      split: option.splits list.splits prod.splits outcome.splits sum.splits net_addr.splits)
lemma tablesOk_StartTCPAccept: "tablesOk r \<Longrightarrow> tablesOk (snd (StartTCPAccept handle operation r))"
  by (rule tablesOkI; simp add: helper_defs listener_defs Let_def tablesOk_None tablesOk_Some(6) [of r operation] markReady_def
      split: option.splits list.splits prod.splits outcome.splits sum.splits net_addr.splits)
lemma tablesOk_runTCPAccept: "tablesOk r \<Longrightarrow> tablesOk (runTCPAccept handle l result r)"
  by (rule tablesOkI; simp add: helper_defs listener_defs Let_def tablesOk_None markReady_def
      split: option.splits list.splits prod.splits outcome.splits sum.splits net_addr.splits)
lemma tablesOk_RegisterPacketSink: "tablesOk r \<Longrightarrow> tablesOk (snd (RegisterPacketSink cap r))"
  by (rule tablesOkI; simp add: helper_defs packet_defs Let_def tablesOk_None markReady_def
      split: option.splits list.splits prod.splits outcome.splits sum.splits net_addr.splits)
lemma tablesOk_UnregisterPacketSink: "tablesOk r \<Longrightarrow> tablesOk (UnregisterPacketSink handle r)"
  by (rule tablesOkI; simp add: helper_defs packet_defs Let_def tablesOk_None markReady_def
      split: option.splits list.splits prod.splits outcome.splits sum.splits net_addr.splits)
lemma tablesOk_TryPacketWrite: "tablesOk r \<Longrightarrow> tablesOk (snd (TryPacketWrite handle packet r))"
  by (rule tablesOkI; simp add: helper_defs packet_defs Let_def tablesOk_None markReady_def
      split: option.splits list.splits prod.splits outcome.splits sum.splits net_addr.splits)
lemma tablesOk_StartPacketWriteReady: "tablesOk r \<Longrightarrow> tablesOk (snd (StartPacketWriteReady handle operation r))"
  by (rule tablesOkI; simp add: helper_defs packet_defs Let_def tablesOk_None tablesOk_Some(9) [of r operation] markReady_def
      split: option.splits list.splits prod.splits outcome.splits sum.splits net_addr.splits)
lemma tablesOk_TakePacketWriteReady: "tablesOk r \<Longrightarrow> tablesOk (snd (TakePacketWriteReady operation r))"
  by (rule tablesOkI; simp add: helper_defs packet_defs Let_def tablesOk_None tablesOk_Some(9) [of r operation] markReady_def
      split: option.splits list.splits prod.splits outcome.splits sum.splits net_addr.splits)
lemma tablesOk_receiveAttempt: "tablesOk r \<Longrightarrow> tablesOk (snd (receiveAttempt handle r))"
  by (rule tablesOkI; simp add: helper_defs packet_defs Let_def tablesOk_None markReady_def
      split: option.splits list.splits prod.splits outcome.splits sum.splits net_addr.splits)
lemma tablesOk_RegisterEventSink: "tablesOk r \<Longrightarrow> tablesOk (snd (RegisterEventSink deliver r))"
  by (rule tablesOkI; simp add: helper_defs packet_defs Let_def tablesOk_None markReady_def
      split: option.splits list.splits prod.splits outcome.splits sum.splits net_addr.splits)
lemma tablesOk_UnregisterEventSink: "tablesOk r \<Longrightarrow> tablesOk (UnregisterEventSink handle r)"
  by (rule tablesOkI; simp add: helper_defs packet_defs Let_def tablesOk_None markReady_def
      split: option.splits list.splits prod.splits outcome.splits sum.splits net_addr.splits)
lemma tablesOk_StartTCPConnect: "tablesOk r \<Longrightarrow> tablesOk (snd (StartTCPConnect operation connectOptions r))"
  by (rule tablesOkI; simp add: helper_defs create_defs Let_def tablesOk_None markReady_def
      split: option.splits list.splits prod.splits outcome.splits sum.splits net_addr.splits)
lemma tablesOk_StartUDPBind: "tablesOk r \<Longrightarrow> tablesOk (snd (StartUDPBind operation bindOptions r))"
  by (rule tablesOkI; simp add: helper_defs create_defs Let_def tablesOk_None markReady_def
      split: option.splits list.splits prod.splits outcome.splits sum.splits net_addr.splits)
lemma tablesOk_StartTCPListen: "tablesOk r \<Longrightarrow> tablesOk (snd (StartTCPListen operation listenOptions r))"
  by (rule tablesOkI; simp add: helper_defs create_defs Let_def tablesOk_None markReady_def
      split: option.splits list.splits prod.splits outcome.splits sum.splits net_addr.splits)
lemma tablesOk_runTCPConnect: "tablesOk r \<Longrightarrow> tablesOk (runTCPConnect operation c connectOptions connection err r)"
  by (rule tablesOkI; simp add: helper_defs create_defs Let_def tablesOk_None tablesOk_Some(5) [of r operation] markReady_def
      split: option.splits list.splits prod.splits outcome.splits sum.splits net_addr.splits)
lemma tablesOk_runUDPBind: "tablesOk r \<Longrightarrow> tablesOk (runUDPBind operation c bindOptions connection err r)"
  by (rule tablesOkI; simp add: helper_defs create_defs Let_def tablesOk_None tablesOk_Some(5) [of r operation] markReady_def
      split: option.splits list.splits prod.splits outcome.splits sum.splits net_addr.splits)
lemma tablesOk_runTCPListen: "tablesOk r \<Longrightarrow> tablesOk (runTCPListen operation c listenOptions connection err r)"
  by (rule tablesOkI; simp add: helper_defs create_defs Let_def tablesOk_None tablesOk_Some(5) [of r operation] markReady_def
      split: option.splits list.splits prod.splits outcome.splits sum.splits net_addr.splits)
lemma tablesOk_TakeTCPConnect: "tablesOk r \<Longrightarrow> tablesOk (snd (TakeTCPConnect operation r))"
  by (rule tablesOkI; simp add: helper_defs connect_defs Let_def tablesOk_None tablesOk_Some(5) [of r operation] markReady_def
      split: option.splits list.splits prod.splits outcome.splits sum.splits net_addr.splits)
lemma tablesOk_TakeUDPBind: "tablesOk r \<Longrightarrow> tablesOk (snd (TakeUDPBind operation r))"
  by (rule tablesOkI; simp add: helper_defs bind_defs Let_def tablesOk_None tablesOk_Some(5) [of r operation] markReady_def
      split: option.splits list.splits prod.splits outcome.splits sum.splits net_addr.splits)
lemma tablesOk_TakeTCPListen: "tablesOk r \<Longrightarrow> tablesOk (snd (TakeTCPListen operation r))"
  by (rule tablesOkI; simp add: helper_defs listen_defs Let_def tablesOk_None tablesOk_Some(5) [of r operation] markReady_def
      split: option.splits list.splits prod.splits outcome.splits sum.splits net_addr.splits)
lemma tablesOk_StartDNS: "tablesOk r \<Longrightarrow> tablesOk (snd (StartDNS operation kind query r))"
  by (rule tablesOkI; simp add: helper_defs query_defs Let_def tablesOk_None tablesOk_Some(7) [of r operation] markReady_def
      split: option.splits list.splits prod.splits outcome.splits sum.splits net_addr.splits)
lemma tablesOk_DNSResult_op: "tablesOk r \<Longrightarrow> tablesOk (snd (DNSResult_op operation r))"
  by (rule tablesOkI; simp add: helper_defs query_defs Let_def tablesOk_None tablesOk_Some(7) [of r operation] markReady_def
      split: option.splits list.splits prod.splits outcome.splits sum.splits net_addr.splits)
lemma tablesOk_FinishDNS: "tablesOk r \<Longrightarrow> tablesOk (snd (FinishDNS operation r))"
  by (rule tablesOkI; simp add: helper_defs query_defs Let_def tablesOk_None tablesOk_Some(7) [of r operation] markReady_def
      split: option.splits list.splits prod.splits outcome.splits sum.splits net_addr.splits)
lemma tablesOk_runDNS: "tablesOk r \<Longrightarrow> tablesOk (runDNS operation c kind query answer r)"
  by (rule tablesOkI; simp add: helper_defs query_defs Let_def tablesOk_None tablesOk_Some(7) [of r operation] markReady_def
      split: option.splits list.splits prod.splits outcome.splits sum.splits net_addr.splits)
lemma tablesOk_StartLocalAddrForRemote: "tablesOk r \<Longrightarrow> tablesOk (snd (StartLocalAddrForRemote operation remote context r))"
  by (rule tablesOkI; simp add: helper_defs query_defs Let_def tablesOk_None tablesOk_Some(8) [of r operation] markReady_def
      split: option.splits list.splits prod.splits outcome.splits sum.splits net_addr.splits)
lemma tablesOk_TakeLocalAddrForRemote: "tablesOk r \<Longrightarrow> tablesOk (snd (TakeLocalAddrForRemote operation r))"
  by (rule tablesOkI; simp add: helper_defs query_defs Let_def tablesOk_None tablesOk_Some(8) [of r operation] markReady_def
      split: option.splits list.splits prod.splits outcome.splits sum.splits net_addr.splits)
lemma tablesOk_runLocalAddrForRemote: "tablesOk r \<Longrightarrow> tablesOk (runLocalAddrForRemote operation c remote context address err r)"
  by (rule tablesOkI; simp add: helper_defs query_defs Let_def tablesOk_None tablesOk_Some(8) [of r operation] markReady_def
      split: option.splits list.splits prod.splits outcome.splits sum.splits net_addr.splits)
lemma tablesOk_StartManagement: "tablesOk r \<Longrightarrow> tablesOk (snd (StartManagement operation request_bytes r))"
  by (rule tablesOkI; simp add: helper_defs query_defs Let_def tablesOk_None tablesOk_Some(10) [of r operation] markReady_def
      split: option.splits list.splits prod.splits outcome.splits sum.splits net_addr.splits)
lemma tablesOk_FinishManagement: "tablesOk r \<Longrightarrow> tablesOk (snd (FinishManagement operation r))"
  by (rule tablesOkI; simp add: helper_defs query_defs Let_def tablesOk_None tablesOk_Some(10) [of r operation] markReady_def
      split: option.splits list.splits prod.splits outcome.splits sum.splits net_addr.splits)
lemma tablesOk_runManagement: "tablesOk r \<Longrightarrow> tablesOk (runManagement operation c request_bytes reply r)"
  by (rule tablesOkI; simp add: helper_defs query_defs Let_def tablesOk_None tablesOk_Some(10) [of r operation] markReady_def
      split: option.splits list.splits prod.splits outcome.splits sum.splits net_addr.splits)
lemma tablesOk_CloseFinish: "tablesOk r \<Longrightarrow> tablesOk (CloseFinish r)"
  by (rule tablesOkI; simp add: helper_defs engine_defs Let_def tablesOk_None markReady_def
      split: option.splits list.splits prod.splits outcome.splits sum.splits net_addr.splits)
lemma tablesOk_takeCompletion: "tablesOk r \<Longrightarrow> tablesOk (takeCompletion r)"
  by (rule tablesOkI; simp add: helper_defs engine_defs Let_def tablesOk_None markReady_def
      split: option.splits list.splits prod.splits outcome.splits sum.splits net_addr.splits)

lemma tablesOk_closeIfAny [simp]: "tablesOk (closeIfAny c r) = tablesOk r"
  by (simp add: closeIfAny_def split: option.splits)

lemma tablesOk_receiveWake:
  "receiveWake wake sink handle r = Some (result, r') \<Longrightarrow> tablesOk r \<Longrightarrow> tablesOk r'"
  using tablesOk_receiveAttempt [of "updSink sink (\<lambda>st. st\<lparr>ps_available := False\<rparr>) r" handle]
    tablesOk_view [of "updSink sink (\<lambda>st. st\<lparr>ps_available := False\<rparr>) r" r]
  by (cases wake) (auto simp: tablesView_def updSink_def split: if_splits)

lemma tablesOk_cancel:
  assumes "tablesOk r" and "operations r i = Some kind"
  shows "kind = operationRead \<Longrightarrow> tablesOk (snd (cancelStreamReadLocked i (r\<lparr>operations := (operations r)(i := None)\<rparr>)))"
    "kind = operationWrite \<Longrightarrow> tablesOk (cancelStreamWriteLocked i (r\<lparr>operations := (operations r)(i := None)\<rparr>))"
  using assms tablesOk_None(1,2) [OF assms(1), of i]
  by (auto simp: cancelStreamReadLocked_def cancelStreamWriteLocked_def Let_def tablesOk_None updStream_def
    split: option.splits if_splits intro!: tablesOkI)

lemma tablesOk_CancelOperation:
  assumes "tablesOk r" shows "tablesOk (CancelOperation operation r)"
proof (cases "operations r operation")
  case (Some kind)
  then show ?thesis
    using tablesOk_cancel [OF assms Some] tablesOk_None [OF assms, of operation] assms
    by (cases kind) (auto simp: CancelOperation_def tablesOk_None Let_def cancelContext_def closeIfAny_def closeResource_def split: prod.splits option.splits if_splits intro!: tablesOkI)
qed (simp add: CancelOperation_def assms)

lemma tablesOk_failQueuedWrites: "tablesOk (snd (failQueuedWrites queue ready r)) = tablesOk r"
  by (induction queue ready r rule: failQueuedWrites.induct)
     (auto simp: Let_def intro!: tablesOk_view simp: tablesView_def)

lemma tablesOk_closeStream: "tablesOk (snd (closeStreamLocked s r)) = tablesOk r"
  using tablesOk_failQueuedWrites by (simp add: closeStreamLocked_def Let_def case_prod_beta)

lemma tablesOk_fold_closeResource [simp]: "tablesOk (fold closeResource cs r) = tablesOk r"
  by (induction cs arbitrary: r) auto

lemma tablesOk_updates [simp]:
  "tablesOk (r\<lparr>streams := m\<rparr>) = tablesOk r" "tablesOk (r\<lparr>datagrams := m, drainingDatagrams := ds\<rparr>) = tablesOk r"
  "tablesOk (r\<lparr>listeners := m\<rparr>) = tablesOk r"
  by (rule tablesOk_view, simp add: tablesView_def)+

lemma tablesOk_CloseHandle:
  "tablesOk r \<Longrightarrow> tablesOk (CloseHandle_begin handle r)" "tablesOk (CloseHandle_continue action r) = tablesOk r"
proof -
  show "tablesOk (CloseHandle_continue action r) = tablesOk r"
    by (rule CloseHandle_continue_eq [of action r], rule tablesOk_view, simp add: tablesView_def)
  have b: "tablesOk (CloseHandle_begin handle r) = tablesOk (snd (CloseHandle_locked handle r))"
    by (rule tablesOk_view, simp add: tablesView_def CloseHandle_begin_eq)
  have "tablesOk (snd (closeStreamHandle handle r)) = tablesOk r" for r
    by (simp add: closeStreamHandle_def Let_def case_prod_beta tablesOk_closeStream split: option.splits)
  moreover have "tablesOk (snd (closeDatagramHandle handle r)) = tablesOk r" for r
    by (simp add: closeDatagramHandle_def split: option.splits)
  moreover have "tablesOk (snd (closeListenerHandle handle r)) = tablesOk r" for r
    by (simp add: closeListenerHandle_def Let_def split: option.splits)
  ultimately show "tablesOk r \<Longrightarrow> tablesOk (CloseHandle_begin handle r)"
    by (simp add: b snd_CloseHandle)
qed

lemma tablesOk_CloseBegin: "tablesOk r \<Longrightarrow> tablesOk (CloseBegin r)"
  by (rule tablesOkI; simp add: CloseBegin_def tablesOk_None)

lemma tablesOk_New: "tablesOk (New options)"
proof -
  have "tablesOk (emptyReactor options)" by (rule tablesOkI; simp add: emptyReactor_def)
  moreover have "tablesOk (addDatagram h c (receiveResource (Some c) r)) = tablesOk r"
    "tablesOk (addStream h c (receiveResource (Some c) r)) = tablesOk r" for h c r
    by (rule tablesOk_view, simp add: tablesView_def helper_defs)+
  ultimately show ?thesis
    unfolding New_def by (intro fold_invariant [where P = tablesOk and Q = "\<lambda>_. True"]) auto
qed

lemmas tablesOk_ops =
  tablesOk_TakeUDPReceive tablesOk_TakeTCPAccept tablesOk_TakeRead tablesOk_StartRead
  tablesOk_StartWrite tablesOk_TakeWrite tablesOk_runStreamRead
  tablesOk_runStreamWrites_head tablesOk_runStreamWrites_done tablesOk_StartUDPReceive
  tablesOk_TryUDPSend tablesOk_StartUDPSendReady tablesOk_TakeUDPSendReady
  tablesOk_runUDPReceive tablesOk_runUDPSends_range tablesOk_runUDPSends_mark
  tablesOk_runUDPSends_done tablesOk_StartTCPAccept tablesOk_runTCPAccept
  tablesOk_RegisterPacketSink tablesOk_UnregisterPacketSink tablesOk_TryPacketWrite
  tablesOk_StartPacketWriteReady tablesOk_TakePacketWriteReady tablesOk_receiveAttempt
  tablesOk_RegisterEventSink tablesOk_UnregisterEventSink tablesOk_StartTCPConnect
  tablesOk_StartUDPBind tablesOk_StartTCPListen tablesOk_runTCPConnect tablesOk_runUDPBind
  tablesOk_runTCPListen tablesOk_TakeTCPConnect tablesOk_TakeUDPBind tablesOk_TakeTCPListen
  tablesOk_StartDNS tablesOk_DNSResult_op tablesOk_FinishDNS tablesOk_runDNS
  tablesOk_StartLocalAddrForRemote tablesOk_TakeLocalAddrForRemote
  tablesOk_runLocalAddrForRemote tablesOk_StartManagement tablesOk_FinishManagement
  tablesOk_runManagement tablesOk_CloseFinish tablesOk_takeCompletion
  tablesOk_CancelOperation tablesOk_CloseHandle tablesOk_CloseBegin

section \<open>Induction over the construction\<close>

lemma New_induct:
  assumes "P (emptyReactor options)"
    and "\<And>h c r. P r \<Longrightarrow> P (addStream h c (receiveResource (Some c) r))"
    and "\<And>h c r. P r \<Longrightarrow> P (addDatagram h c (receiveResource (Some c) r))"
  shows "P (New options)"
proof -
  have s: "P r \<Longrightarrow> P (fold (\<lambda>(handle, connection) r. addStream handle connection (receiveResource (Some connection) r)) xs r)" for xs r
    by (induction xs arbitrary: r) (auto intro: assms(2))
  have "P r \<Longrightarrow> P (fold (\<lambda>(handle, connection) r. addDatagram handle connection (receiveResource (Some connection) r)) xs r)" for xs r
    by (induction xs arbitrary: r) (auto intro: assms(3))
  with s [OF assms(1)] show ?thesis by (simp add: New_def)
qed

lemma tablesOk_reachable:
  assumes "reachable options r"
  shows "tablesOk r"
  using assms
proof (rule reachable_invariant)
  show "tablesOk (New options)" by (rule tablesOk_New)
next
  fix r r' assume "tablesOk r" "call r r'"
  from this(2,1) show "tablesOk r'" by cases (simp_all add: tablesOk_ops tablesOk_receiveWake)
next
  fix r r' assume "tablesOk r" "work r r'"
  from this(2,1) show "tablesOk r'" by cases (simp_all add: tablesOk_ops)
qed

section \<open>The property\<close>

text \<open>
  C1: in every reachable state the entry of an operation and its claim agree, for each of the ten kinds.
\<close>

theorem operation_tables_exact:
  assumes "reachable options r"
  shows "tableHas kind r i \<longleftrightarrow> operations r i = Some kind"
  using tablesOk_reachable [OF assms] by (simp add: tablesOk_def)

theorem operation_tables_exact_witness:
  "tableHas operationRead (snd (StartRead 7 1 16 (New demoOptions))) 1 \<longleftrightarrow>
   operations (snd (StartRead 7 1 16 (New demoOptions))) 1 = Some operationRead"
  by (rule operation_tables_exact [OF demo_read])

end
