(* ===== verification/ReactorHandles.thy ===== *)
theory ReactorHandles
  imports ReactorTables
begin

text \<open>
  The handles of the reactor: a handle names at most one object, of one kind, and every handle that an
  operation allocates is fresh. A closed reactor has empty tables for good.
\<close>


lemma New_induct_fresh:
  assumes ok: "initialOk options" and empty: "P (emptyReactor options)"
    and stream: "\<And>h c r. P r \<Longrightarrow> streams r h = None \<Longrightarrow> datagrams r h = None \<Longrightarrow> h \<le> 2 ^ 48 \<Longrightarrow>
      res_id c \<notin> obtained r \<Longrightarrow> P (addStream h c (receiveResource (Some c) r))"
    and datagram: "\<And>h c r. P r \<Longrightarrow> streams r h = None \<Longrightarrow> datagrams r h = None \<Longrightarrow> h \<le> 2 ^ 48 \<Longrightarrow>
      res_id c \<notin> obtained r \<Longrightarrow> P (addDatagram h c (receiveResource (Some c) r))"
  shows "P (New options)"
proof -
  let ?S = "fold (\<lambda>(handle, connection) r. addStream handle connection (receiveResource (Some connection) r))"
  let ?D = "fold (\<lambda>(handle, connection) r. addDatagram handle connection (receiveResource (Some connection) r))"
  have s: "P (?S xs r) \<and> dom (streams (?S xs r)) = dom (streams r) \<union> fst ` set xs \<and>
      dom (datagrams (?S xs r)) = dom (datagrams r) \<and> obtained (?S xs r) = obtained r \<union> (res_id \<circ> snd) ` set xs"
    if "P r" "distinct (map fst xs)" "distinct (map (res_id \<circ> snd) xs)" "\<forall>x \<in> set xs. fst x \<le> 2 ^ 48"
      "fst ` set xs \<inter> (dom (streams r) \<union> dom (datagrams r)) = {}" "(res_id \<circ> snd) ` set xs \<inter> obtained r = {}"
    for xs r using that
  proof (induction xs arbitrary: r)
    case (Cons x xs)
    obtain h c where x: "x = (h, c)" by (cases x)
    define r1 where "r1 = addStream h c (receiveResource (Some c) r)"
    have v: "dom (streams r1) \<union> dom (datagrams r1) = insert h (dom (streams r) \<union> dom (datagrams r))"
      "dom (streams r1) = insert h (dom (streams r))" "datagrams r1 = datagrams r" "obtained r1 = insert (res_id c) (obtained r)"
      by (auto simp: r1_def addStream_def receiveResource_def)
    have "P r1" unfolding r1_def using Cons.prems by (intro stream) (auto simp: x)
    moreover have "fst ` set xs \<inter> (dom (streams r1) \<union> dom (datagrams r1)) = {}"
      "(res_id \<circ> snd) ` set xs \<inter> obtained r1 = {}"
      using Cons.prems(2,3,5,6) unfolding v by (auto simp: x)
    ultimately show ?case
      using Cons.IH [of r1] Cons.prems(2-4) v(2-) by (simp add: x r1_def [symmetric])
  qed simp
  have d: "P (?D xs r)"
    if "P r" "distinct (map fst xs)" "distinct (map (res_id \<circ> snd) xs)" "\<forall>x \<in> set xs. fst x \<le> 2 ^ 48"
      "fst ` set xs \<inter> (dom (streams r) \<union> dom (datagrams r)) = {}" "(res_id \<circ> snd) ` set xs \<inter> obtained r = {}"
    for xs r using that
  proof (induction xs arbitrary: r)
    case (Cons x xs)
    obtain h c where x: "x = (h, c)" by (cases x)
    define r1 where "r1 = addDatagram h c (receiveResource (Some c) r)"
    have v: "dom (streams r1) \<union> dom (datagrams r1) = insert h (dom (streams r) \<union> dom (datagrams r))"
      "dom (datagrams r1) = insert h (dom (datagrams r))" "streams r1 = streams r" "obtained r1 = insert (res_id c) (obtained r)"
      by (auto simp: r1_def addDatagram_def receiveResource_def)
    have "P r1" unfolding r1_def using Cons.prems by (intro datagram) (auto simp: x)
    moreover have "fst ` set xs \<inter> (dom (streams r1) \<union> dom (datagrams r1)) = {}"
      "(res_id \<circ> snd) ` set xs \<inter> obtained r1 = {}"
      using Cons.prems(2,3,5,6) unfolding v by (auto simp: x)
    ultimately show ?case
      using Cons.IH [of r1] Cons.prems(2-4) v(2-) by (simp add: x r1_def [symmetric])
  qed simp
  have e: "streams (emptyReactor options) = Map.empty" "datagrams (emptyReactor options) = Map.empty"
    "obtained (emptyReactor options) = {}" by (simp_all add: emptyReactor_def)
  have o: "distinct (map fst (op_InitialStreams options))" "distinct (map fst (op_InitialDatagrams options))"
    "distinct (map (res_id \<circ> snd) (op_InitialStreams options))" "distinct (map (res_id \<circ> snd) (op_InitialDatagrams options))"
    "fst ` set (op_InitialStreams options) \<inter> fst ` set (op_InitialDatagrams options) = {}"
    "(res_id \<circ> snd) ` set (op_InitialStreams options) \<inter> (res_id \<circ> snd) ` set (op_InitialDatagrams options) = {}"
    "\<forall>x \<in> set (op_InitialStreams options). fst x \<le> 2 ^ 48" "\<forall>x \<in> set (op_InitialDatagrams options). fst x \<le> 2 ^ 48"
    using ok by (auto simp: initialOk_def list_all_iff)
  note s1 = s [OF empty o(1,3,7), unfolded e, simplified]
  show ?thesis unfolding New_def
    by (rule d) (use s1 o in \<open>auto simp: image_comp\<close>)
qed

section \<open>Handles\<close>

datatype handleKind = StreamHandle | DatagramHandle | ListenerHandle | EventHandle | PacketHandle

fun names :: "handleKind \<Rightarrow> reactor \<Rightarrow> u64 \<Rightarrow> bool" where
  "names StreamHandle r h = (streams r h \<noteq> None)"
| "names DatagramHandle r h = (datagrams r h \<noteq> None)"
| "names ListenerHandle r h = (listeners r h \<noteq> None)"
| "names EventHandle r h = (eventSinks r h \<noteq> None)"
| "names PacketHandle r h = (packetSinks r h \<noteq> None)"

definition handlesInv :: "reactor \<Rightarrow> bool" where
  "handlesInv r \<longleftrightarrow> (\<forall>k h. names k r h \<longrightarrow> h \<le> nextHandle r \<and> (\<forall>k'. names k' r h \<longrightarrow> k' = k))"

lemma handlesInvI:
  assumes "\<And>k h. names k r h \<Longrightarrow> h \<le> nextHandle r" and "\<And>k k' h. names k r h \<Longrightarrow> names k' r h \<Longrightarrow> k' = k"
  shows "handlesInv r"
  using assms unfolding handlesInv_def by blast

lemma handlesInvD:
  assumes "handlesInv r" "names k r h"
  shows "h \<le> nextHandle r" "names k' r h \<Longrightarrow> k' = k"
  using assms unfolding handlesInv_def by blast+

definition handleView where
  "handleView (r :: reactor) =
     (closed r, nextHandle r, streams r, datagrams r, listeners r, eventSinks r, packetSinks r)"

lemma handlesInv_view: "handleView r' = handleView r \<Longrightarrow> handlesInv r' = handlesInv r"
proof -
  assume "handleView r' = handleView r"
  then have "nextHandle r' = nextHandle r" "names k r' h = names k r h" for k h
    by (cases k; simp add: handleView_def)+
  then show ?thesis by (simp add: handlesInv_def)
qed

lemma next_handle:
  assumes "handlesLeft r" "h \<le> nextHandle r"
  shows "h \<le> nextHandle r + 1" "h \<noteq> nextHandle r + 1"
proof -
  have "unat (nextHandle r + 1) = unat (nextHandle r) + 1"
  proof -
    have "unat (nextHandle r) \<noteq> unat (- 1 :: u64)" using assms(1) unfolding handlesLeft_def by (metis word_unat_eq_iff)
    then have "unat (nextHandle r) + 1 < 2 ^ 64"
      using unsigned_less [of "nextHandle r", where 'a = nat] by (simp add: unsigned_minus_1_eq_mask mask_eq_exp_minus_1)
    then show ?thesis by (simp add: unat_word_ariths)
  qed
  then show "h \<le> nextHandle r + 1" "h \<noteq> nextHandle r + 1"
    using assms(2) by (auto simp: word_le_nat_alt)
qed

lemma fresh_handle:
  assumes "handlesLeft r" "handlesInv r"
  shows "streams r (nextHandle r + 1) = None" "datagrams r (nextHandle r + 1) = None" "listeners r (nextHandle r + 1) = None"
    "eventSinks r (nextHandle r + 1) = None" "packetSinks r (nextHandle r + 1) = None"
proof -
  have n: "\<not> names k r (nextHandle r + 1)" for k
    using handlesInvD(1) [OF assms(2)] next_handle(2) [OF assms(1)] by blast
  show "streams r (nextHandle r + 1) = None" "datagrams r (nextHandle r + 1) = None" "listeners r (nextHandle r + 1) = None"
    "eventSinks r (nextHandle r + 1) = None" "packetSinks r (nextHandle r + 1) = None"
    using n [of StreamHandle] n [of DatagramHandle] n [of ListenerHandle] n [of EventHandle] n [of PacketHandle] by simp_all
qed

lemma handleView_frames:
  "handleView (snd (StartRead handle operation capacity r)) = handleView r"
  "handleView (snd (StartWrite handle operation data r)) = handleView r"
  "handleView (snd (TakeWrite operation r)) = handleView r"
  "handleView (runStreamRead cap s chunk err r) = handleView r"
  "handleView (runStreamWrites_head s r) = handleView r"
  "handleView (runStreamWrites_done s q data err r) = handleView r"
  by (auto simp: handleView_def helper_defs stream_defs Let_def split: option.splits list.splits)

lemma handleView_TakeRead: "handleView (snd (TakeRead operation r)) = handleView r"
  by (auto simp: handleView_def helper_defs stream_defs Let_def split: option.splits list.splits prod.splits)

lemma handleView_udp [simp]:
  "handleView (snd (StartUDPReceive handle operation r)) = handleView r"
  "handleView (snd (TakeUDPReceive operation capacity r)) = handleView r"
  "handleView (snd (TryUDPSend handle data peer r)) = handleView r"
  "handleView (snd (StartUDPSendReady handle operation r)) = handleView r"
  "handleView (snd (TakeUDPSendReady operation r)) = handleView r"
  "handleView (runUDPReceive handle d err data paddr r) = handleView r"
  "handleView (runUDPSends_range handle d r) = handleView r"
  "handleView (runUDPSends_mark handle d request r) = handleView r"
  "handleView (runUDPSends_done handle d request n err r) = handleView r"
  by (auto simp: handleView_def helper_defs udp_defs Let_def
      split: option.splits list.splits prod.splits outcome.splits sum.splits net_addr.splits)

lemma handleView_listener [simp]:
  "handleView (snd (StartTCPAccept handle operation r)) = handleView r"
  "handleView (runTCPAccept handle l result r) = handleView r"
  by (auto simp: handleView_def helper_defs listener_defs Let_def
      split: option.splits list.splits prod.splits outcome.splits sum.splits net_addr.splits)

lemma handleView_packet [simp]:
  "handleView (snd (TryPacketWrite handle packet r)) = handleView r"
  "handleView (snd (StartPacketWriteReady handle operation r)) = handleView r"
  "handleView (snd (TakePacketWriteReady operation r)) = handleView r"
  "handleView (snd (receiveAttempt handle r)) = handleView r"
  by (auto simp: handleView_def helper_defs packet_defs Let_def
      split: option.splits list.splits prod.splits outcome.splits sum.splits net_addr.splits)

lemma handleView_create [simp]:
  "handleView (snd (StartTCPConnect operation connectOptions r)) = handleView r"
  "handleView (snd (StartUDPBind operation bindOptions r)) = handleView r"
  "handleView (snd (StartTCPListen operation listenOptions r)) = handleView r"
  "handleView (runTCPConnect operation c connectOptions connection err r) = handleView r"
  "handleView (runUDPBind operation c bindOptions connection err r) = handleView r"
  "handleView (runTCPListen operation c listenOptions connection err r) = handleView r"
  by (auto simp: handleView_def helper_defs create_defs Let_def
      split: option.splits list.splits prod.splits outcome.splits sum.splits net_addr.splits)

lemma handleView_query [simp]:
  "handleView (snd (StartDNS operation kind query r)) = handleView r"
  "handleView (snd (DNSResult_op operation r)) = handleView r"
  "handleView (snd (FinishDNS operation r)) = handleView r"
  "handleView (runDNS operation c kind query answer r) = handleView r"
  "handleView (snd (StartLocalAddrForRemote operation remote context r)) = handleView r"
  "handleView (snd (TakeLocalAddrForRemote operation r)) = handleView r"
  "handleView (runLocalAddrForRemote operation c remote context address err r) = handleView r"
  "handleView (snd (StartManagement operation request_bytes r)) = handleView r"
  "handleView (snd (FinishManagement operation r)) = handleView r"
  "handleView (runManagement operation c request_bytes reply r) = handleView r"
  by (auto simp: handleView_def helper_defs query_defs Let_def
      split: option.splits list.splits prod.splits outcome.splits sum.splits net_addr.splits)

lemma handleView_engine [simp]:
  "handleView (CloseFinish r) = handleView r"
  "handleView (takeCompletion r) = handleView r"
  by (auto simp: handleView_def helper_defs engine_defs Let_def
      split: option.splits list.splits prod.splits outcome.splits sum.splits net_addr.splits)

lemma handleView_CancelOperation [simp]: "handleView (CancelOperation operation r) = handleView r"
proof (cases "operations r operation")
  case (Some kind)
  then show ?thesis
    by (cases kind) (auto simp: CancelOperation_def cancelStreamReadLocked_def cancelStreamWriteLocked_def
      prepareStreamReadLocked_def helper_defs updStream_def Let_def handleView_def split: option.splits list.splits)
qed (simp add: CancelOperation_def)

lemma handleView_receiveWake:
  "receiveWake wake sink handle r = Some (result, r') \<Longrightarrow> handleView r' = handleView r"
  by (cases wake; auto simp: updSink_def receiveAttempt_def helper_defs handleView_def split: if_splits option.splits list.splits)

text \<open>A new handle, and handles given up.\<close>

lemma handlesInv_new:
  assumes "handlesInv r" "handlesLeft r" "nextHandle r' = nextHandle r + 1"
    and new: "\<And>k h. names k r' h \<Longrightarrow> names k r h \<or> h = nextHandle r + 1 \<and> k = new"
  shows "handlesInv r'"
proof -
  have "\<not> names k r (nextHandle r + 1)" for k
    using handlesInvD(1) [OF assms(1)] next_handle(2) [OF assms(2)] by blast
  then show ?thesis unfolding handlesInv_def assms(3)
    using new next_handle(1) [OF assms(2)] handlesInvD [OF assms(1)] by (metis order_refl)
qed

lemma handlesInv_less:
  assumes "handlesInv r" "nextHandle r' = nextHandle r" "\<And>k h. names k r' h \<Longrightarrow> names k r h"
  shows "handlesInv r'"
  using assms(2,3) handlesInvD [OF assms(1)] unfolding handlesInv_def by metis

lemma handlesInv_addNew:
  assumes "handlesInv r" "handlesLeft r"
  shows "handleView r' = handleView (addStream (nextHandle r + 1) c (r\<lparr>nextHandle := nextHandle r + 1\<rparr>)) \<Longrightarrow> handlesInv r'"
    "handleView r' = handleView (addDatagram (nextHandle r + 1) c (r\<lparr>nextHandle := nextHandle r + 1\<rparr>)) \<Longrightarrow> handlesInv r'"
    "handleView r' = handleView (addListener (nextHandle r + 1) c (r\<lparr>nextHandle := nextHandle r + 1\<rparr>)) \<Longrightarrow> handlesInv r'"
proof -
  assume v: "handleView r' = handleView (addStream (nextHandle r + 1) c (r\<lparr>nextHandle := nextHandle r + 1\<rparr>))"
  show "handlesInv r'"
  proof (rule handlesInv_new [OF assms, where new = StreamHandle])
    show "names k r' h \<Longrightarrow> names k r h \<or> h = nextHandle r + 1 \<and> k = StreamHandle" for k h
      using v by (cases k) (auto simp: handleView_def addStream_def split: if_splits)
  qed (use v in \<open>simp add: handleView_def addStream_def\<close>)
next
  assume v: "handleView r' = handleView (addDatagram (nextHandle r + 1) c (r\<lparr>nextHandle := nextHandle r + 1\<rparr>))"
  show "handlesInv r'"
  proof (rule handlesInv_new [OF assms, where new = DatagramHandle])
    show "names k r' h \<Longrightarrow> names k r h \<or> h = nextHandle r + 1 \<and> k = DatagramHandle" for k h
      using v by (cases k) (auto simp: handleView_def addDatagram_def split: if_splits)
  qed (use v in \<open>simp add: handleView_def addDatagram_def\<close>)
next
  assume v: "handleView r' = handleView (addListener (nextHandle r + 1) c (r\<lparr>nextHandle := nextHandle r + 1\<rparr>))"
  show "handlesInv r'"
  proof (rule handlesInv_new [OF assms, where new = ListenerHandle])
    show "names k r' h \<Longrightarrow> names k r h \<or> h = nextHandle r + 1 \<and> k = ListenerHandle" for k h
      using v by (cases k) (auto simp: handleView_def addListener_def split: if_splits)
  qed (use v in \<open>simp add: handleView_def addListener_def\<close>)
qed

lemma handlesInv_TakeTCPAccept:
  assumes "handlesInv r" "handlesLeft r" shows "handlesInv (snd (TakeTCPAccept operation r))"
proof -
  have "handleView (snd (TakeTCPAccept operation r)) = handleView r \<or>
      (\<exists>c. handleView (snd (TakeTCPAccept operation r)) = handleView (addStream (nextHandle r + 1) c (r\<lparr>nextHandle := nextHandle r + 1\<rparr>)))"
    by (auto simp: handleView_def accept_defs helper_defs Let_def split: option.splits list.splits)
  then show ?thesis using handlesInv_view assms(1) handlesInv_addNew(1) [OF assms] by blast
qed

lemma handlesInv_TakeTCPConnect:
  assumes "handlesInv r" "handlesLeft r" shows "handlesInv (snd (TakeTCPConnect operation r))"
proof -
  have "handleView (snd (TakeTCPConnect operation r)) = handleView r \<or>
      (\<exists>c. handleView (snd (TakeTCPConnect operation r)) = handleView (addStream (nextHandle r + 1) c (r\<lparr>nextHandle := nextHandle r + 1\<rparr>)))"
    by (auto simp: handleView_def connect_defs helper_defs Let_def split: option.splits)
  then show ?thesis using handlesInv_view assms(1) handlesInv_addNew(1) [OF assms] by blast
qed

lemma handlesInv_TakeUDPBind:
  assumes "handlesInv r" "handlesLeft r" shows "handlesInv (snd (TakeUDPBind operation r))"
proof -
  have "handleView (snd (TakeUDPBind operation r)) = handleView r \<or>
      (\<exists>c. handleView (snd (TakeUDPBind operation r)) = handleView (addDatagram (nextHandle r + 1) c (r\<lparr>nextHandle := nextHandle r + 1\<rparr>)))"
    by (auto simp: handleView_def bind_defs helper_defs Let_def split: option.splits)
  then show ?thesis using handlesInv_view assms(1) handlesInv_addNew(2) [OF assms] by blast
qed

lemma handlesInv_TakeTCPListen:
  assumes "handlesInv r" "handlesLeft r" shows "handlesInv (snd (TakeTCPListen operation r))"
proof -
  have "handleView (snd (TakeTCPListen operation r)) = handleView r \<or>
      (\<exists>c. handleView (snd (TakeTCPListen operation r)) = handleView (addListener (nextHandle r + 1) c (r\<lparr>nextHandle := nextHandle r + 1\<rparr>)))"
    by (auto simp: handleView_def listen_defs helper_defs Let_def split: option.splits)
  then show ?thesis using handlesInv_view assms(1) handlesInv_addNew(3) [OF assms] by blast
qed

lemma handlesInv_Register:
  assumes "handlesInv r" "handlesLeft r"
  shows "handlesInv (snd (RegisterPacketSink cap r))" "handlesInv (snd (RegisterEventSink deliver r))"
proof -
  show "handlesInv (snd (RegisterPacketSink cap r))"
  proof (cases "cap \<le> 0 \<or> closed r")
    case False
    show ?thesis
    proof (rule handlesInv_new [OF assms, where new = PacketHandle])
      show "names k (snd (RegisterPacketSink cap r)) h \<Longrightarrow> names k r h \<or> h = nextHandle r + 1 \<and> k = PacketHandle" for k h
        using False by (cases k) (auto simp: RegisterPacketSink_def allocateHandleLocked_def Let_def split: if_splits)
    qed (use False in \<open>simp add: RegisterPacketSink_def allocateHandleLocked_def Let_def\<close>)
  qed (use assms in \<open>auto simp: RegisterPacketSink_def\<close>)
  show "handlesInv (snd (RegisterEventSink deliver r))"
  proof (cases "deliver = None \<or> closed r")
    case False
    show ?thesis
    proof (rule handlesInv_new [OF assms, where new = EventHandle])
      show "names k (snd (RegisterEventSink deliver r)) h \<Longrightarrow> names k r h \<or> h = nextHandle r + 1 \<and> k = EventHandle" for k h
        using False by (cases k) (auto simp: RegisterEventSink_def allocateHandleLocked_def Let_def split: if_splits)
    qed (use False in \<open>auto simp: RegisterEventSink_def allocateHandleLocked_def Let_def\<close>)
  qed (use assms in \<open>auto simp: RegisterEventSink_def split: option.splits\<close>)
qed

lemma handlesInv_gone:
  assumes "handlesInv r"
  shows "handlesInv (UnregisterPacketSink handle r)" "handlesInv (UnregisterEventSink handle r)"
    "handlesInv (CloseBegin r)" "handlesInv (snd (closeStreamHandle handle r))"
    "handlesInv (snd (closeDatagramHandle handle r))" "handlesInv (snd (closeListenerHandle handle r))"
proof -
  show "handlesInv (UnregisterPacketSink handle r)"
    by (rule handlesInv_less [OF assms])
       (auto simp: UnregisterPacketSink_def updSink_def split: option.splits, case_tac k, auto split: if_splits)
  show "handlesInv (UnregisterEventSink handle r)"
    by (rule handlesInv_less [OF assms]) (auto simp: UnregisterEventSink_def, case_tac k, auto split: if_splits)
  show "handlesInv (CloseBegin r)"
    by (rule handlesInv_less [OF assms]) (auto simp: CloseBegin_def split: if_splits, case_tac k, auto)
  show "handlesInv (snd (closeDatagramHandle handle r))"
    by (rule handlesInv_less [OF assms]) (auto simp: closeDatagram_defs split: option.splits, case_tac k, auto split: if_splits)
  show "handlesInv (snd (closeListenerHandle handle r))"
    by (rule handlesInv_less [OF assms])
       (auto simp: closeListener_defs helper_defs Let_def split: option.splits, case_tac k, auto split: if_splits)
  show "handlesInv (snd (closeStreamHandle handle r))"
    using closeStreamHandle_frame [of handle r]
  proof (elim disjE exE conjE)
    fix s b W assume e: "snd (closeStreamHandle handle r) =
     signalIf b (r\<lparr>streams := (streams r)(handle := None),
       streamAt := (streamAt r)(s := (streamAt r s)\<lparr>ss_closed := True, ss_writeQueue := []\<rparr>), writeAt := W\<rparr>)"
    show ?thesis unfolding e
      by (cases b; rule handlesInv_less [OF assms]; simp add: helper_defs; case_tac k; simp split: if_splits)
  qed (simp add: assms)
qed

lemma handlesInv_insert:
  assumes "handlesInv r" "nextHandle r' = nextHandle r" "h \<le> nextHandle r" "\<And>k. \<not> names k r h"
    and new: "\<And>k i. names k r' i \<Longrightarrow> names k r i \<or> i = h \<and> k = new"
  shows "handlesInv r'"
  unfolding handlesInv_def assms(2)
  using assms(3,4) new handlesInvD [OF assms(1)] by metis

lemma handlesInv_New:
  assumes "initialOk options" shows "handlesInv (New options)"
proof -
  let ?P = "\<lambda>r. handlesInv r \<and> nextHandle r = 2 ^ 48 \<and> listeners r = Map.empty \<and> eventSinks r = Map.empty \<and> packetSinks r = Map.empty"
  from assms have "?P (New options)"
  proof (rule New_induct_fresh)
    have e: "streams (emptyReactor options) = Map.empty" "datagrams (emptyReactor options) = Map.empty"
      "listeners (emptyReactor options) = Map.empty" "eventSinks (emptyReactor options) = Map.empty"
      "packetSinks (emptyReactor options) = Map.empty" "nextHandle (emptyReactor options) = 2 ^ 48"
      unfolding emptyReactor_def by simp_all
    have "\<not> names k (emptyReactor options) h" for k h by (cases k) (simp_all add: e)
    then have "handlesInv (emptyReactor options)" by (intro handlesInvI) simp_all
    then show "?P (emptyReactor options)" using e by (intro conjI)
  next
    fix h c r
    assume i: "?P r" and f: "streams r h = None" "datagrams r h = None" "h \<le> 2 ^ 48"
    have free: "\<not> names k r h" for k using i f by (cases k) simp_all
    have "names k (addStream h c (receiveResource (Some c) r)) x \<Longrightarrow> names k r x \<or> x = h \<and> k = StreamHandle" for k x
      by (cases k) (auto simp: addStream_def receiveResource_def split: if_splits)
    then have "handlesInv (addStream h c (receiveResource (Some c) r))"
      using i f by - (rule handlesInv_insert [OF _ _ _ free]; simp add: addStream_def receiveResource_def)
    then show "?P (addStream h c (receiveResource (Some c) r))"
      using i by (simp add: addStream_def receiveResource_def)
    have "names k (addDatagram h c (receiveResource (Some c) r)) x \<Longrightarrow> names k r x \<or> x = h \<and> k = DatagramHandle" for k x
      by (cases k) (auto simp: addDatagram_def receiveResource_def split: if_splits)
    then have "handlesInv (addDatagram h c (receiveResource (Some c) r))"
      using i f by - (rule handlesInv_insert [OF _ _ _ free]; simp add: addDatagram_def receiveResource_def)
    then show "?P (addDatagram h c (receiveResource (Some c) r))"
      using i by (simp add: addDatagram_def receiveResource_def)
  qed
  then show ?thesis by simp
qed

lemmas handleView_all = handleView_frames handleView_TakeRead handleView_udp handleView_listener
  handleView_packet handleView_create handleView_query handleView_engine handleView_CancelOperation

lemma handleView_CloseHandle:
  "handleView (CloseHandle_begin handle r) = handleView (snd (CloseHandle_locked handle r))"
  "handleView (CloseHandle_continue action r) = handleView r"
  by (simp add: CloseHandle_begin_eq handleView_def) (rule CloseHandle_continue_eq [of action r], simp add: handleView_def)

lemmas handlesInv_frames = handleView_all [THEN handlesInv_view]

lemma handlesInv_reachable:
  assumes "reachable options r" shows "handlesInv r"
  using assms
proof (rule reachable_invariant)
  show "handlesInv (New options)" if "initialOk options" using handlesInv_New that by blast
next
  fix r r' assume i: "handlesInv r" "handlesLeft r" and "call r r'"
  from this(3) show "handlesInv r'"
  proof cases
    case (call_receiveWake wake sink handle result)
    then show ?thesis using handleView_receiveWake handlesInv_view i(1) by blast
  next
    case (call_CloseHandle handle)
    then show ?thesis
      using i(1) by (simp add: handlesInv_view [OF handleView_CloseHandle(1)] snd_CloseHandle handlesInv_gone(4,5,6))
  next
    case (call_CloseAction action)
    then show ?thesis using i(1) by (simp add: handlesInv_view [OF handleView_CloseHandle(2)])
  qed (use i in \<open>simp_all add: handlesInv_TakeTCPAccept handlesInv_TakeTCPConnect handlesInv_TakeUDPBind
         handlesInv_TakeTCPListen handlesInv_Register handlesInv_gone(1-3) handlesInv_frames\<close>)
next
  fix r r' assume i: "handlesInv r" and "work r r'"
  from this(2) show "handlesInv r'"
    by cases (use i in \<open>simp_all add: handlesInv_frames\<close>)
qed

section \<open>After closing\<close>

text \<open>With the operations and the handles the tables of operations are empty too (\<^const>\<open>tablesOk\<close>).\<close>

definition shut :: "reactor \<Rightarrow> bool" where
  "shut r \<longleftrightarrow> closed r \<and> operations r = Map.empty \<and> streams r = Map.empty \<and> datagrams r = Map.empty \<and>
     listeners r = Map.empty \<and> eventSinks r = Map.empty \<and> packetSinks r = Map.empty \<and> drainingDatagrams r = {}"

lemma shutD:
  assumes "shut r"
  shows "closed r" "operations r = Map.empty" "streams r = Map.empty" "datagrams r = Map.empty"
    "listeners r = Map.empty" "eventSinks r = Map.empty" "packetSinks r = Map.empty" "drainingDatagrams r = {}"
  using assms by (simp_all add: shut_def)

lemma shut_tables:
  assumes "shut r" "tablesOk r"
  shows "reads r = Map.empty" "writes r = Map.empty" "udpReads r = Map.empty" "udpWrites r = Map.empty"
    "creates r = Map.empty" "accepts r = Map.empty" "dns r = Map.empty" "environments r = Map.empty"
    "packetWrites r = Map.empty" "management r = Map.empty"
  using tablesOk_None [OF assms(2)] shutD(2) [OF assms(1)] by (auto simp: fun_eq_iff)

text \<open>A call finds nothing and changes nothing.\<close>

lemma shut_calls:
  assumes "shut r" "tablesOk r"
  shows "snd (StartRead handle operation capacity r) = r" "snd (TakeRead operation r) = r"
    "snd (StartWrite handle operation data r) = r" "snd (TakeWrite operation r) = r"
    "snd (StartUDPReceive handle operation r) = r" "snd (TakeUDPReceive operation capacity r) = r"
    "snd (TryUDPSend handle data peer r) = r" "snd (StartUDPSendReady handle operation r) = r"
    "snd (TakeUDPSendReady operation r) = r" "snd (StartTCPAccept handle operation r) = r"
    "snd (TakeTCPAccept operation r) = r" "snd (RegisterPacketSink cap r) = r" "UnregisterPacketSink handle r = r"
    "snd (TryPacketWrite handle packet r) = r" "snd (StartPacketWriteReady handle operation r) = r"
    "snd (TakePacketWriteReady operation r) = r" "snd (receiveAttempt handle r) = r"
    "snd (RegisterEventSink deliver r) = r" "UnregisterEventSink handle r = r"
    "snd (TakeTCPConnect operation r) = r" "snd (TakeUDPBind operation r) = r"
    "snd (TakeTCPListen operation r) = r" "snd (DNSResult_op operation r) = r" "snd (FinishDNS operation r) = r"
    "snd (TakeLocalAddrForRemote operation r) = r" "snd (FinishManagement operation r) = r"
    "CancelOperation operation r = r" "CloseBegin r = r"
  using shutD [OF assms(1)] shut_tables [OF assms]
  by (simp_all add: stream_defs udp_defs accept_defs listener_defs packet_defs create_defs connect_defs bind_defs listen_defs
        query_defs claimOperationLocked_def CancelOperation_def CloseBegin_def TakeRead_def Let_def
      split: option.splits)

lemma CloseHandle_begin_shut: "shut r \<Longrightarrow> CloseHandle_begin handle r = r"
  by (simp add: CloseHandle_begin_def CloseHandle_locked_def closeStreamHandle_def closeDatagramHandle_def closeListenerHandle_def shutD)

lemma shut_view:
  assumes "handleView r' = handleView r" "operations r' = operations r" "drainingDatagrams r' \<subseteq> drainingDatagrams r" "shut r"
  shows "shut r'"
  using assms by (simp add: shut_def handleView_def)

lemma shut_CloseHandle: "shut r \<Longrightarrow> shut (CloseHandle_begin handle r)" "shut r \<Longrightarrow> shut (CloseHandle_continue action r)"
  by (simp add: CloseHandle_begin_shut) (rule CloseHandle_continue_eq [of action r], simp add: shut_def)

text \<open>A start that needs a context derives it first and cancels it when the claim is refused.\<close>

lemma shut_starts:
  assumes "shut r"
  shows "shut (snd (StartTCPConnect operation connectOptions r))" "shut (snd (StartUDPBind operation bindOptions r))"
    "shut (snd (StartTCPListen operation listenOptions r))" "shut (snd (StartDNS operation kind query r))"
    "shut (snd (StartLocalAddrForRemote operation remote context r))" "shut (snd (StartManagement operation request r))"
  using shutD(1) [OF assms]
  by (rule_tac [!] shut_view [OF _ _ _ assms])
    (simp_all add: handleView_def create_defs query_defs claimOperationLocked_def cancelContext_def Let_def split: option.splits)

lemma operations_work [simp]:
  "operations (runStreamRead cap s chunk err r) = operations r" "operations (runStreamWrites_head s r) = operations r"
  "operations (runStreamWrites_done s q data err r) = operations r"
  "operations (runUDPReceive handle d err data paddr r) = operations r"
  "operations (runUDPSends_range handle d r) = operations r" "operations (runUDPSends_mark handle d request r) = operations r"
  "operations (runUDPSends_done handle d request n err r) = operations r"
  "operations (runTCPAccept handle l result r) = operations r"
  "operations (runTCPConnect operation c connectOptions connection err r) = operations r"
  "operations (runUDPBind operation c bindOptions connection err r) = operations r"
  "operations (runTCPListen operation c listenOptions connection err r) = operations r"
  "operations (runDNS operation c kind query answer r) = operations r"
  "operations (runLocalAddrForRemote operation c remote context address err r) = operations r"
  "operations (runManagement operation c request_bytes reply r) = operations r"
  by (simp_all add: helper_defs stream_defs udp_defs listener_defs create_defs query_defs Let_def
      split: option.splits list.splits prod.splits outcome.splits sum.splits net_addr.splits)

lemma draining_work:
  "drainingDatagrams (runStreamRead cap s chunk err r) = drainingDatagrams r" "drainingDatagrams (runStreamWrites_head s r) = drainingDatagrams r"
  "drainingDatagrams (runStreamWrites_done s q data err r) = drainingDatagrams r"
  "drainingDatagrams (runUDPReceive handle d err data paddr r) = drainingDatagrams r"
  "drainingDatagrams (runUDPSends_range handle d r) \<subseteq> drainingDatagrams r" "drainingDatagrams (runUDPSends_mark handle d request r) = drainingDatagrams r"
  "drainingDatagrams (runUDPSends_done handle d request n err r) = drainingDatagrams r"
  "drainingDatagrams (runTCPAccept handle l result r) = drainingDatagrams r"
  "drainingDatagrams (runTCPConnect operation c connectOptions connection err r) = drainingDatagrams r"
  "drainingDatagrams (runUDPBind operation c bindOptions connection err r) = drainingDatagrams r"
  "drainingDatagrams (runTCPListen operation c listenOptions connection err r) = drainingDatagrams r"
  "drainingDatagrams (runDNS operation c kind query answer r) = drainingDatagrams r"
  "drainingDatagrams (runLocalAddrForRemote operation c remote context address err r) = drainingDatagrams r"
  "drainingDatagrams (runManagement operation c request_bytes reply r) = drainingDatagrams r"
  by (auto simp add: helper_defs stream_defs udp_defs listener_defs create_defs query_defs Let_def
      split: option.splits list.splits prod.splits outcome.splits sum.splits net_addr.splits)

lemma closed_calls:
  "closed (snd (TakeTCPAccept operation r)) = closed r" "closed (snd (TakeTCPConnect operation r)) = closed r"
  "closed (snd (TakeUDPBind operation r)) = closed r" "closed (snd (TakeTCPListen operation r)) = closed r"
  "closed (snd (RegisterPacketSink cap r)) = closed r" "closed (UnregisterPacketSink handle r) = closed r"
  "closed (snd (RegisterEventSink deliver r)) = closed r" "closed (UnregisterEventSink handle r) = closed r"
  by (simp_all add: accept_defs connect_defs bind_defs listen_defs packet_defs helper_defs Let_def split: option.splits list.splits)

lemma closed_CloseHandle:
  "closed (CloseHandle_begin handle r) = closed r" "closed (CloseHandle_continue action r) = closed r"
proof -
  show "closed (CloseHandle_continue action r) = closed r" by (rule CloseHandle_continue_eq [of action r]) simp
  have "closed (snd (closeStreamHandle handle r)) = closed r" for r
    using closeStreamHandle_frame [of handle r]
    by (elim disjE exE conjE) (simp_all add: helper_defs)
  moreover have "closed (snd (closeDatagramHandle handle r)) = closed r" for r
    by (simp add: closeDatagram_defs split: option.splits)
  moreover have "closed (snd (closeListenerHandle handle r)) = closed r" for r
    by (simp add: closeListener_defs helper_defs Let_def split: option.splits)
  ultimately show "closed (CloseHandle_begin handle r) = closed r" by (simp add: CloseHandle_begin_eq snd_CloseHandle)
qed

lemma handleView_closed: "handleView r' = handleView r \<Longrightarrow> closed r' = closed r"
  by (simp add: handleView_def)

lemma shut_call:
  assumes "call r r'" "closed r \<longrightarrow> shut r" "tablesOk r" shows "closed r' \<longrightarrow> shut r'"
proof (cases "closed r")
  case True
  with assms(2) have s: "shut r" by simp
  from assms(1) show ?thesis
  proof cases
    case (call_receiveWake wake sink handle result)
    from handleView_receiveWake [OF this] have "handleView r' = handleView r" .
    moreover have "operations r' = operations r \<and> drainingDatagrams r' = drainingDatagrams r"
      using call_receiveWake s shutD(7) [OF s]
      by (cases wake) (auto simp: updSink_def receiveAttempt_def split: if_splits)
    ultimately show ?thesis using s shut_view by blast
  next
    case call_CloseFinish
    have "shut (CloseFinish r)" by (rule shut_view [OF _ _ _ s]) (simp_all add: CloseFinish_def handleView_def)
    then show ?thesis using call_CloseFinish by simp
  next
    case call_takeCompletion
    have "shut (takeCompletion r)" by (rule shut_view [OF _ _ _ s]) (simp_all add: takeCompletion_def handleView_def)
    then show ?thesis using call_takeCompletion by simp
  qed (use s in \<open>simp_all add: shut_calls [OF s assms(3)] shut_starts shut_CloseHandle\<close>)
next
  case False
  from assms(1) show ?thesis
  proof cases
    case (call_receiveWake wake sink handle result)
    from handleView_receiveWake [OF this] show ?thesis using False handleView_closed by blast
  next
    case call_CloseBegin
    then show ?thesis using False by (simp add: CloseBegin_def shut_def)
  qed (use False in \<open>simp_all add: closed_calls closed_CloseHandle handleView_all [THEN handleView_closed]\<close>)
qed

lemma shut_work:
  assumes "work r r'" "closed r \<longrightarrow> shut r" shows "closed r' \<longrightarrow> shut r'"
proof -
  have "handleView r' = handleView r \<and> operations r' = operations r \<and> drainingDatagrams r' \<subseteq> drainingDatagrams r"
    using assms(1) by cases (simp_all add: handleView_all draining_work)
  then show ?thesis using assms(2) shut_view handleView_closed by blast
qed

lemma shut_reachable:
  assumes "reachable options r" "closed r" shows "shut r"
proof -
  from assms(1) have "closed r \<longrightarrow> shut r"
  proof (rule reachable_invariant)
    have "\<not> closed (New options)"
      by (rule New_induct) (simp_all add: emptyReactor_def addStream_def addDatagram_def receiveResource_def)
    then show "closed (New options) \<longrightarrow> shut (New options)" by simp
  qed (auto intro: shut_call [rule_format] shut_work [rule_format] tablesOk_reachable)
  with assms(2) show ?thesis by simp
qed

section \<open>Properties\<close>

lemma demo_closed: "reachable demoOptions (CloseBegin (New demoOptions))"
  by (rule reachable_step [OF demo_New])
     (simp_all add: handlesLeft_def New_handlesLeft step_def call_CloseBegin)

text \<open>
  C2: in every reachable state a handle names at most one object, of one of the five kinds, and the handle
  that is allocated next names none.
\<close>

theorem handles_name_one_object:
  assumes "reachable options r" "handlesLeft r" "names k r h"
  shows "{k'. names k' r h} = {k} \<and> {k'. names k' r (fst (allocateHandleLocked r))} = {}"
proof -
  have i: "handlesInv r" by (rule handlesInv_reachable [OF assms(1)])
  have "\<not> names k' r (nextHandle r + 1)" for k'
    using handlesInvD(1) [OF i] next_handle(2) [OF assms(2)] by blast
  then have "{k'. names k' r (fst (allocateHandleLocked r))} = {}" by (simp add: allocateHandleLocked_def Let_def)
  moreover have "{k'. names k' r h} = {k}" using handlesInvD(2) [OF i assms(3)] assms(3) by blast
  ultimately show ?thesis by (rule conjI [rotated])
qed

theorem handles_name_one_object_witness:
  "{k'. names k' (New demoOptions) 7} = {StreamHandle} \<and>
   {k'. names k' (New demoOptions) (fst (allocateHandleLocked (New demoOptions)))} = {}"
proof (rule handles_name_one_object [OF demo_New])
  show "handlesLeft (New demoOptions)" by (simp add: handlesLeft_def New_handlesLeft)
  show "names StreamHandle (New demoOptions) 7"
    by (simp add: New_def demoOptions_def emptyReactor_def addStream_def addDatagram_def receiveResource_def)
qed

text \<open>
  C3: once closed, a reactor has no operation, no handle and no draining socket, and every claim is refused.
\<close>

theorem closed_reactor_is_empty:
  assumes "reachable options r" "closed r"
  shows "\<not> tableHas kind r i \<and> \<not> names k r h \<and> drainingDatagrams r = {} \<and>
    claimOperationLocked i kind r = Err ErrInvalid"
proof -
  have s: "shut r" by (rule shut_reachable [OF assms])
  then have "\<not> names k r h" by (cases k) (simp_all add: shutD)
  moreover have "\<not> tableHas kind r i"
    using tablesOk_reachable [OF assms(1)] by (simp add: tablesOk_def shutD(2) [OF s])
  ultimately show ?thesis by (simp add: claimOperationLocked_def shutD [OF s])
qed

theorem closed_reactor_is_empty_witness:
  "\<not> tableHas operationRead (CloseBegin (New demoOptions)) 1 \<and>
   \<not> names StreamHandle (CloseBegin (New demoOptions)) 7 \<and>
   drainingDatagrams (CloseBegin (New demoOptions)) = {} \<and>
   claimOperationLocked 1 operationRead (CloseBegin (New demoOptions)) = Err ErrInvalid"
  by (rule closed_reactor_is_empty [OF demo_closed]) (simp add: CloseBegin_def)

end
