(* ===== verification/ReactorStreamInv.thy ===== *)
theory ReactorStreamInv
  imports ReactorHandles
begin

text \<open>
  The invariant of the reactor's streams. Its two relational halves speak about the tables, queues and goroutines
  directly, as functions of a stream reference: \<open>readRel\<close> ties the queue of a stream to the pending reads and the
  reading flag to the goroutine that reads, \<open>writerRel\<close> and \<open>writeRel\<close> do the same for the writer goroutine and
  the pending writes. Each has one lemma per way in which the code changes it (a read is queued, served or
  cancelled, a goroutine starts or ends, a stream is added or closed). The operations of the reactor are then
  compositions of these.
\<close>

section \<open>Reads: relation and its transitions\<close>

definition readRel ::
  "ref \<Rightarrow> (ref \<Rightarrow> readOperation list) \<Rightarrow> (ref \<Rightarrow> bool) \<Rightarrow> (u32 \<times> ref) list \<Rightarrow> (u64 \<rightharpoonup> readOperation) \<Rightarrow> bool" where
  "readRel n Q R T rds \<longleftrightarrow>
     distinct (map snd T) \<and>
     (\<forall>s. R s \<longleftrightarrow> (\<exists>cap. (cap, s) \<in> set T)) \<and>
     (\<forall>(cap, s) \<in> set T. s < n) \<and>
     (\<forall>w \<in> ran rds. ro_ref w < n \<and> ro_stream w < n \<and> w \<in> set (Q (ro_stream w))) \<and>
     (\<forall>s. \<forall>w \<in> set (Q s). ro_stream w = s \<and> w \<in> ran rds) \<and>
     (\<forall>s. distinct (Q s)) \<and>
     inj_on rds (dom rds)"

lemma readRelI:
  assumes "distinct (map snd T)"
    and "\<And>s. R s \<longleftrightarrow> (\<exists>cap. (cap, s) \<in> set T)"
    and "\<And>cap s. (cap, s) \<in> set T \<Longrightarrow> s < n"
    and "\<And>w. w \<in> ran rds \<Longrightarrow> ro_ref w < n"
    and "\<And>w. w \<in> ran rds \<Longrightarrow> ro_stream w < n"
    and "\<And>w. w \<in> ran rds \<Longrightarrow> w \<in> set (Q (ro_stream w))"
    and "\<And>s w. w \<in> set (Q s) \<Longrightarrow> ro_stream w = s"
    and "\<And>s w. w \<in> set (Q s) \<Longrightarrow> w \<in> ran rds"
    and "\<And>s. distinct (Q s)"
    and "inj_on rds (dom rds)"
  shows "readRel n Q R T rds"
  using assms unfolding readRel_def by blast

lemma readRelD:
  assumes "readRel n Q R T rds"
  shows "distinct (map snd T)"
    and "R s \<longleftrightarrow> (\<exists>cap. (cap, s) \<in> set T)"
    and "(cap, s) \<in> set T \<Longrightarrow> s < n"
    and "w \<in> ran rds \<Longrightarrow> ro_ref w < n"
    and "w \<in> ran rds \<Longrightarrow> ro_stream w < n"
    and "w \<in> ran rds \<Longrightarrow> ro_stream w = s \<Longrightarrow> w \<in> set (Q s)"
    and "w \<in> set (Q s) \<Longrightarrow> ro_stream w = s"
    and "w \<in> set (Q s) \<Longrightarrow> w \<in> ran rds"
    and "distinct (Q s)"
    and "inj_on rds (dom rds)"
  using assms unfolding readRel_def by blast+

lemma readRel_mono: "readRel n Q R T rds \<Longrightarrow> n \<le> m \<Longrightarrow> readRel m Q R T rds"
  by (intro readRelI) (auto simp: readRelD(1,2,6,9,10) dest: readRelD(3,4,5,7,8))

lemma readRel_start:
  assumes "readRel n Q R T rds" "s < n" "\<not> R s"
  shows "readRel n Q (R(s := True)) ((cap, s) # T) rds"
proof -
  note d = readRelD [OF assms(1)]
  have "s \<notin> set (map snd T)" using assms(3) d(2) by auto
  then show ?thesis using assms(2)
    by (intro readRelI) (auto simp: d(1,2,9,10) dest: d(3,4,5,6,7,8))
qed

lemma readRel_end:
  assumes "readRel n Q R T rds" "(cap, s) \<in> set T"
  shows "readRel n Q (R(s := False)) (remove1 (cap, s) T) rds"
proof -
  note d = readRelD [OF assms(1)] and r = distinct_map_remove1 [OF readRelD(1) [OF assms(1)] assms(2)]
  have "(cap', t) \<in> set (remove1 (cap, s) T) \<longleftrightarrow> t \<noteq> s \<and> (cap', t) \<in> set T" for cap' t
  proof
    assume *: "(cap', t) \<in> set (remove1 (cap, s) T)"
    then have "t \<in> snd ` set (remove1 (cap, s) T)" by force
    then show "t \<noteq> s \<and> (cap', t) \<in> set T" using r notin_set_remove1 * by auto
  qed (simp add: in_set_remove1)
  then show ?thesis using r
    by (intro readRelI) (auto simp: d(2,9,10) dest: d(3,4,5,6,7,8))
qed

lemma readRel_enqueue:
  assumes "readRel n Q R T rds" "rds i = None" "ro_ref w = n" "ro_stream w = s" "s < n"
  shows "readRel (Suc n) (Q(s := Q s @ [w])) R T (rds(i \<mapsto> w))"
proof -
  note d = readRelD [OF assms(1)]
  have "w \<notin> set (Q t)" "w \<notin> ran rds" for t using d(4) [of w] d(8) [of w t] assms(3) by auto
  with assms(2-5) inj_on_map_insert [OF d(10), of w i] show ?thesis
    by (intro readRelI) (auto simp: d(1,2,9) split: if_splits intro: less_SucI dest: d(3,4,5,6,7,8))
qed

lemma readRel_dequeue:
  assumes "readRel n Q R T rds" "rds i = Some w" "ro_stream w = s"
  shows "readRel n (Q(s := remove1 w (Q s))) R T (rds(i := None))"
proof -
  note d = readRelD [OF assms(1)]
  show ?thesis
    using ran_delete_inj [OF d(10) assms(2)] inj_on_map_delete [OF d(10), of i] d(9) [of s] assms(3)
    by (intro readRelI) (auto simp: d(1,2,9) split: if_splits dest: d(3,4,5,6,7,8))
qed

lemma readRel_new:
  assumes "readRel n Q R T rds"
  shows "readRel (Suc n) (Q(n := [])) (R(n := False)) T rds"
proof -
  note d = readRelD [OF assms(1)]
  show ?thesis
    by (intro readRelI) (auto simp: d(1,2,9,10) split: if_splits intro: less_SucI dest: d(3,4,5,6,7,8))
qed


definition readBase :: "reactor \<Rightarrow> bool" where
  "readBase r \<longleftrightarrow>
     (\<forall>h s. streams r h = Some s \<longrightarrow> s < nextRef r) \<and>
     readRel (nextRef r) (ss_readQueue \<circ> streamAt r) (ss_readRunning \<circ> streamAt r) (readTasks r) (reads r)"

definition readLive :: "reactor \<Rightarrow> ref \<Rightarrow> bool" where
  "readLive r s \<longleftrightarrow>
     ss_readQueue (streamAt r s) = [] \<or> readAvailableLocked (streamAt r s) \<or> ss_readRunning (streamAt r s)"

definition readInv :: "reactor \<Rightarrow> bool" where
  "readInv r \<longleftrightarrow> closed r \<or> readBase r \<and> (\<forall>s. readLive r s)"

definition readPart :: "streamState \<Rightarrow> bool \<times> readOperation list \<times> bool \<times> bool" where
  "readPart st = (ss_closed st, ss_readQueue st, ss_readRunning st, ss_readReady st)"

definition readView where
  "readView (r :: reactor) = (closed r, streams r, reads r, readPart \<circ> streamAt r, readTasks r)"

lemma readView_streamView: "streamView r' = streamView r \<Longrightarrow> readView r' = readView r"
  by (simp add: readView_def streamView_def)

lemma readPart_eq:
  assumes "readPart \<circ> f = readPart \<circ> g"
  shows "ss_closed (f s) = ss_closed (g s)" "ss_readQueue (f s) = ss_readQueue (g s)"
    "ss_readRunning (f s) = ss_readRunning (g s)" "ss_readReady (f s) = ss_readReady (g s)"
  using assms by (auto simp: readPart_def fun_eq_iff)

lemma readInv_view:
  assumes "readView r' = readView r" "nextRef r \<le> nextRef r'" "readInv r"
  shows "readInv r'"
proof -
  from assms(1) have v: "closed r' = closed r" "streams r' = streams r" "reads r' = reads r" "readTasks r' = readTasks r"
    and p: "readPart \<circ> streamAt r' = readPart \<circ> streamAt r"
    by (simp_all add: readView_def)
  have q: "ss_readQueue \<circ> streamAt r' = ss_readQueue \<circ> streamAt r"
    "ss_readRunning \<circ> streamAt r' = ss_readRunning \<circ> streamAt r"
    using readPart_eq [OF p] by (simp_all add: fun_eq_iff)
  have "readLive r' s = readLive r s" for s
    using readPart_eq [OF p, of s] by (simp add: readLive_def readAvailableLocked_def)
  then show ?thesis using assms(2,3) unfolding readInv_def readBase_def v q
    by (meson order.strict_trans2 readRel_mono)
qed

lemma readBase_prepare:
  assumes "readBase r" "s < nextRef r"
  shows "readBase (prepareStreamReadLocked s r)"
  using assms readRel_start [of "nextRef r" "ss_readQueue \<circ> streamAt r" "ss_readRunning \<circ> streamAt r" "readTasks r" "reads r" s]
  by (auto simp: readBase_def prepareStreamReadLocked_def updStream_def Let_def fun_upd_comp split: list.splits)

lemma readLive_prepare:
  "\<not> closed r \<Longrightarrow> readLive (prepareStreamReadLocked s r) s"
  "s' \<noteq> s \<Longrightarrow> readLive (prepareStreamReadLocked s r) s' = readLive r s'"
  by (auto simp: readLive_def readAvailableLocked_def prepareStreamReadLocked_def updStream_def Let_def
      split: list.splits)

lemma readInv_prepare:
  assumes "readBase r" "s < nextRef r" "\<And>s'. s' \<noteq> s \<Longrightarrow> readLive r s'" "\<not> closed r"
  shows "readInv (prepareStreamReadLocked s r)"
proof -
  have "readLive (prepareStreamReadLocked s r) t" for t
    using assms(3,4) readLive_prepare by (cases "t = s") simp_all
  then show ?thesis using assms readBase_prepare by (simp add: readInv_def)
qed

lemma readInv_signalIf [simp]: "readInv (signalIf b r) = readInv r"
  by (simp add: signalIf_def signalCompletion_def readInv_def readBase_def readLive_def)

lemma readInv_StartRead:
  assumes "readInv r" "tablesOk r"
  shows "readInv (snd (StartRead handle operation capacity r))"
proof (cases "streams r handle = None \<or> capacity = 0 \<or> closed r \<or> operations r operation \<noteq> None")
  case True
  then show ?thesis using assms(1)
    by (auto simp: StartRead_def claimOperationLocked_def split: option.splits)
next
  case False
  then obtain s where s: "streams r handle = Some s" and op: "operations r operation = None" "\<not> closed r" "capacity \<noteq> 0"
    by auto
  have base: "readBase r" and live: "\<And>t. readLive r t" using assms(1) op(2) by (auto simp: readInv_def)
  have bound: "s < nextRef r" using base s by (auto simp: readBase_def)
  define w where "w = \<lparr>ro_ref = nextRef r, ro_capacity = capacity, ro_stream = s\<rparr>"
  define r1 where "r1 = updStream s (\<lambda>st. st\<lparr>ss_readQueue := ss_readQueue st @ [w]\<rparr>)
     (r\<lparr>operations := (operations r)(operation \<mapsto> operationRead), nextRef := Suc (nextRef r), reads := (reads r)(operation \<mapsto> w)\<rparr>)"
  have "readBase r1"
    using base bound readRel_enqueue [of "nextRef r" "ss_readQueue \<circ> streamAt r" "ss_readRunning \<circ> streamAt r" "readTasks r" "reads r" operation w s]
      tablesOk_None(1) [OF assms(2), of operation] op(1)
    by (auto simp: readBase_def r1_def updStream_def fun_upd_comp w_def less_SucI)
  moreover have "s < nextRef r1" "\<not> closed r1" using bound op(2) by (simp_all add: r1_def updStream_def)
  moreover have "readLive r1 t" if "t \<noteq> s" for t
    using live [of t] that by (simp add: r1_def updStream_def readLive_def)
  ultimately have "readInv (prepareStreamReadLocked s r1)" by (intro readInv_prepare) auto
  then show ?thesis using s op
    by (simp add: StartRead_def claimOperationLocked_def Let_def r1_def [symmetric] w_def [symmetric])
qed


lemma readInv_runStreamRead:
  assumes "readInv r" "(cap, s) \<in> set (readTasks r)"
  shows "readInv (runStreamRead cap s chunk err r)"
proof (cases "closed r")
  case True
  then show ?thesis by (simp add: readInv_def runStreamRead_def Let_def helper_defs updStream_def)
next
  case False
  with assms have base: "readBase r" and live: "\<And>t. readLive r t" by (auto simp: readInv_def)
  have "readBase (runStreamRead cap s chunk err r)"
    using base readRel_end [of "nextRef r" "ss_readQueue \<circ> streamAt r" "ss_readRunning \<circ> streamAt r" "readTasks r" "reads r" cap s] assms(2)
    by (simp add: readBase_def runStreamRead_def Let_def helper_defs updStream_def fun_upd_comp)
  moreover have "readLive (runStreamRead cap s chunk err r) t" for t
    using live [of t] by (simp add: readLive_def readAvailableLocked_def runStreamRead_def Let_def helper_defs updStream_def)
  ultimately show ?thesis by (simp add: readInv_def)
qed

definition servedStream :: "readOperation \<Rightarrow> readOperation list \<Rightarrow> streamState \<Rightarrow> streamState" where
  "servedStream w queue stream =
     (if ss_readReady stream then
        if length (ss_readData stream) \<le> unat (ro_capacity w)
        then stream\<lparr>ss_readData := [], ss_readErr := None, ss_readReady := False, ss_readQueue := queue\<rparr>
        else stream\<lparr>ss_readData := drop (unat (ro_capacity w)) (ss_readData stream), ss_readQueue := queue\<rparr>
      else stream\<lparr>ss_readQueue := queue\<rparr>)"

lemma TakeRead_cases:
  obtains (idle) e where "TakeRead operation r = (([], Some e), r)"
  | (served) w queue stream where "reads r operation = Some w" "operations r operation = Some operationRead"
      "stream = streamAt r (ro_stream w)"
      "ss_readQueue stream = w # queue" "readAvailableLocked stream"
      "snd (TakeRead operation r) =
         signalIf (queue \<noteq> [] \<and> readAvailableLocked (servedStream w queue stream))
           (prepareStreamReadLocked (ro_stream w)
             (r\<lparr>streamAt := (streamAt r)(ro_stream w := servedStream w queue stream),
                reads := (reads r)(operation := None), operations := (operations r)(operation := None)\<rparr>))"
proof (cases "reads r operation")
  case (Some w)
  show thesis
  proof (cases "operations r operation = Some operationRead \<and> readAvailableLocked (streamAt r (ro_stream w)) \<and>
      ss_readQueue (streamAt r (ro_stream w)) \<noteq> [] \<and> hd (ss_readQueue (streamAt r (ro_stream w))) = w")
    case True
    then obtain queue where q: "ss_readQueue (streamAt r (ro_stream w)) = w # queue"
      by (cases "ss_readQueue (streamAt r (ro_stream w))") auto
    show thesis
      by (rule served [OF Some _ refl q])
         (use True q Some in \<open>simp_all add: TakeRead_def Let_def servedStream_def releaseOperationLocked_def min_def\<close>)
  next
    case False
    then have "\<exists>e. TakeRead operation r = (([], Some e), r)" using Some
      by (cases "ss_readQueue (streamAt r (ro_stream w))") (auto simp: TakeRead_def Let_def)
    with idle show thesis by blast
  qed
qed (use idle in \<open>simp add: TakeRead_def\<close>)

lemma servedStream_simps [simp]:
  "ss_readQueue (servedStream w queue stream) = queue"
  "ss_readRunning (servedStream w queue stream) = ss_readRunning stream"
  "ss_closed (servedStream w queue stream) = ss_closed stream"
  by (simp_all add: servedStream_def)

lemma readInv_TakeRead:
  assumes "readInv r"
  shows "readInv (snd (TakeRead operation r))"
proof (cases operation r rule: TakeRead_cases)
  case (served w queue stream)
  note served(3) [simp]
  let ?s = "ro_stream w"
  let ?r1 = "r\<lparr>streamAt := (streamAt r)(?s := servedStream w queue stream),
                reads := (reads r)(operation := None), operations := (operations r)(operation := None)\<rparr>"
  have "readInv (prepareStreamReadLocked ?s ?r1)"
  proof (cases "closed r")
    case True
    then show ?thesis by (simp add: readInv_def prepareStreamReadLocked_def Let_def split: list.splits)
  next
    case False
    with assms have base: "readBase r" and live: "\<And>t. readLive r t" by (auto simp: readInv_def)
    have bound: "?s < nextRef r"
      using base served(1) readRelD(5) [of "nextRef r" _ _ _ "reads r" w] by (auto simp: readBase_def ranI)
    have "readBase ?r1"
      using base readRel_dequeue [of "nextRef r" "ss_readQueue \<circ> streamAt r" "ss_readRunning \<circ> streamAt r" "readTasks r" "reads r" operation w ?s]
        served(1,4) by (simp add: readBase_def fun_upd_comp)
    moreover have "readLive ?r1 t" if "t \<noteq> ?s" for t
      using live [of t] that by (simp add: readLive_def)
    ultimately show ?thesis using bound False by (intro readInv_prepare) auto
  qed
  then show ?thesis by (simp only: served(6) readInv_signalIf)
qed (simp add: assms)

lemma readInv_cancel:
  assumes "readInv r"
  shows "readInv (snd (cancelStreamReadLocked operation (r\<lparr>operations := ops\<rparr>)))"
proof (cases "closed r \<or> reads r operation = None")
  case True
  then show ?thesis using assms
    by (auto simp: cancelStreamReadLocked_def Let_def readInv_def readBase_def readLive_def prepareStreamReadLocked_def updStream_def split: option.splits list.splits)
next
  case False
  then obtain w where w: "reads r operation = Some w" by auto
  from False assms have base: "readBase r" and live: "\<And>t. readLive r t" by (auto simp: readInv_def)
  define s where "s = ro_stream w"
  let ?st = "(streamAt r s)\<lparr>ss_readQueue := remove1 w (ss_readQueue (streamAt r s))\<rparr>"
  let ?r1 = "r\<lparr>operations := ops, reads := (reads r)(operation := None), streamAt := (streamAt r)(s := ?st)\<rparr>"
  have bound: "s < nextRef r"
    using base w(1) readRelD(5) [of "nextRef r" _ _ _ "reads r" w] by (auto simp: readBase_def s_def ranI)
  have "readBase ?r1"
    using base readRel_dequeue [of "nextRef r" "ss_readQueue \<circ> streamAt r" "ss_readRunning \<circ> streamAt r" "readTasks r" "reads r" operation w s]
      w by (simp add: readBase_def fun_upd_comp s_def)
  moreover have "readLive ?r1 t" if "t \<noteq> s" for t
    using live [of t] that by (simp add: readLive_def)
  ultimately have "readInv (prepareStreamReadLocked s ?r1)"
    using bound False by (intro readInv_prepare) auto
  then show ?thesis
    using w by (simp add: cancelStreamReadLocked_def Let_def updStream_def removeReadOperation_def s_def)
qed

lemma readInv_addStream:
  assumes "readInv r"
  shows "readInv (addStream handle connection r)"
proof (cases "closed r")
  case False
  with assms have base: "readBase r" and live: "\<And>t. readLive r t" by (auto simp: readInv_def)
  from base readRel_new [of "nextRef r" "ss_readQueue \<circ> streamAt r" "ss_readRunning \<circ> streamAt r" "readTasks r" "reads r"]
  have "readBase (addStream handle connection r)"
    by (auto simp: readBase_def addStream_def fun_upd_comp newStreamState_def less_SucI)
  moreover have "readLive (addStream handle connection r) t" for t
    using live [of t] by (simp add: readLive_def addStream_def newStreamState_def)
  ultimately show ?thesis by (simp add: readInv_def)
qed (simp add: readInv_def addStream_def)

lemma readInv_closeStreamHandle:
  assumes "readInv r"
  shows "readInv (snd (closeStreamHandle handle r))"
  using closeStreamHandle_frame [of handle r]
proof (elim disjE exE conjE)
  fix s b W
  assume e: "snd (closeStreamHandle handle r) =
     signalIf b (r\<lparr>streams := (streams r)(handle := None),
       streamAt := (streamAt r)(s := (streamAt r s)\<lparr>ss_closed := True, ss_writeQueue := []\<rparr>), writeAt := W\<rparr>)"
  show ?thesis
  proof (cases "closed r")
    case False
    with assms have base: "readBase r" and live: "\<And>t. readLive r t" by (auto simp: readInv_def)
    show ?thesis unfolding readInv_def readBase_def readLive_def e
      using base live by (auto simp: readBase_def closeResource_def signalIf_def signalCompletion_def fun_upd_comp readLive_def readAvailableLocked_def)
  qed (simp add: readInv_def e helper_defs)
qed (simp add: assms)

section \<open>Writes: relations and their transitions\<close>

definition writerRel ::
  "ref \<Rightarrow> (ref \<Rightarrow> bool) \<Rightarrow> (ref \<Rightarrow> ref option) \<Rightarrow> ref list \<Rightarrow> (ref \<times> ref \<times> bytes) list \<Rightarrow> bool" where
  "writerRel n R A T G \<longleftrightarrow>
     distinct T \<and> distinct (map fst G) \<and> (\<forall>s \<in> set T. s < n \<and> A s = None) \<and>
     (\<forall>(s, q, d) \<in> set G. s < n \<and> A s = Some q) \<and>
     (\<forall>s q. A s = Some q \<longrightarrow> (\<exists>d. (s, q, d) \<in> set G)) \<and>
     (\<forall>s. R s \<longleftrightarrow> s \<in> set T \<or> A s \<noteq> None)"

definition writeRel ::
  "ref \<Rightarrow> (ref \<Rightarrow> ref list) \<Rightarrow> (ref \<Rightarrow> bool) \<Rightarrow> (ref \<Rightarrow> ref option) \<Rightarrow> (u64 \<rightharpoonup> ref) \<Rightarrow> (ref \<Rightarrow> u64) \<Rightarrow> (ref \<Rightarrow> ref) \<Rightarrow> (ref \<Rightarrow> bool) \<Rightarrow> bool" where
  "writeRel n Q R A wr opOf str dn \<longleftrightarrow>
     (\<forall>s. Q s \<noteq> [] \<longrightarrow> R s) \<and>
     (\<forall>i q. wr i = Some q \<longrightarrow> q < n \<and> str q < n \<and> opOf q = i \<and>
        (\<not> dn q \<longrightarrow> q \<notin> set (Q (str q)) \<longrightarrow> A (str q) = Some q)) \<and>
     (\<forall>s. \<forall>q \<in> set (Q s). str q = s \<and> wr (opOf q) = Some q \<and> \<not> dn q \<and> A s \<noteq> Some q) \<and>
     (\<forall>s. distinct (Q s)) \<and>
     (\<forall>s q. A s = Some q \<longrightarrow> str q = s \<and> q < n \<and> (wr (opOf q) = Some q \<longrightarrow> \<not> dn q))"

lemma writerRelD:
  assumes "writerRel n R A T G"
  shows "distinct T" "distinct (map fst G)"
    and "s \<in> set T \<Longrightarrow> s < n" and "s \<in> set T \<Longrightarrow> A s = None"
    and "(s, q, d) \<in> set G \<Longrightarrow> s < n" and "(s, q, d) \<in> set G \<Longrightarrow> A s = Some q"
    and "A s = Some q \<Longrightarrow> \<exists>d. (s, q, d) \<in> set G"
    and "R s \<longleftrightarrow> s \<in> set T \<or> A s \<noteq> None"
  using assms unfolding writerRel_def by blast+

lemma writerRelI:
  assumes "distinct T" "distinct (map fst G)"
    and "\<And>s. s \<in> set T \<Longrightarrow> s < n" and "\<And>s. s \<in> set T \<Longrightarrow> A s = None"
    and "\<And>s q d. (s, q, d) \<in> set G \<Longrightarrow> s < n" and "\<And>s q d. (s, q, d) \<in> set G \<Longrightarrow> A s = Some q"
    and "\<And>s q. A s = Some q \<Longrightarrow> \<exists>d. (s, q, d) \<in> set G"
    and "\<And>s. R s \<longleftrightarrow> s \<in> set T \<or> A s \<noteq> None"
  shows "writerRel n R A T G"
  using assms unfolding writerRel_def by blast

lemma writeRelD:
  assumes "writeRel n Q R A wr opOf str dn"
  shows "Q s \<noteq> [] \<Longrightarrow> R s"
    and "wr i = Some q \<Longrightarrow> q < n" "wr i = Some q \<Longrightarrow> str q < n" "wr i = Some q \<Longrightarrow> opOf q = i"
    and "wr i = Some q \<Longrightarrow> \<not> dn q \<Longrightarrow> q \<notin> set (Q (str q)) \<Longrightarrow> A (str q) = Some q"
    and "q \<in> set (Q s) \<Longrightarrow> str q = s" "q \<in> set (Q s) \<Longrightarrow> wr (opOf q) = Some q"
    and "q \<in> set (Q s) \<Longrightarrow> \<not> dn q" "q \<in> set (Q s) \<Longrightarrow> A s \<noteq> Some q"
    and "distinct (Q s)"
    and "A s = Some q \<Longrightarrow> str q = s" "A s = Some q \<Longrightarrow> q < n"
    and "A s = Some q \<Longrightarrow> wr (opOf q) = Some q \<Longrightarrow> \<not> dn q"
  using assms unfolding writeRel_def by blast+

lemma writeRelI:
  assumes "\<And>s. Q s \<noteq> [] \<Longrightarrow> R s"
    and "\<And>i q. wr i = Some q \<Longrightarrow> q < n" "\<And>i q. wr i = Some q \<Longrightarrow> str q < n" "\<And>i q. wr i = Some q \<Longrightarrow> opOf q = i"
    and "\<And>i q. wr i = Some q \<Longrightarrow> \<not> dn q \<Longrightarrow> q \<notin> set (Q (str q)) \<Longrightarrow> A (str q) = Some q"
    and "\<And>q s. q \<in> set (Q s) \<Longrightarrow> str q = s" "\<And>q s. q \<in> set (Q s) \<Longrightarrow> wr (opOf q) = Some q"
    and "\<And>q s. q \<in> set (Q s) \<Longrightarrow> \<not> dn q" "\<And>q s. q \<in> set (Q s) \<Longrightarrow> A s \<noteq> Some q"
    and "\<And>s. distinct (Q s)"
    and "\<And>q s. A s = Some q \<Longrightarrow> str q = s" "\<And>q s. A s = Some q \<Longrightarrow> q < n"
    and "\<And>q s. A s = Some q \<Longrightarrow> wr (opOf q) = Some q \<Longrightarrow> \<not> dn q"
  shows "writeRel n Q R A wr opOf str dn"
  unfolding writeRel_def
  by (intro conjI allI impI ballI; rule assms; assumption)

lemma writerRel_mono: "writerRel n R A T G \<Longrightarrow> n \<le> m \<Longrightarrow> writerRel m R A T G"
  unfolding writerRel_def by auto

lemma writeRel_mono: "writeRel n Q R A wr opOf str dn \<Longrightarrow> n \<le> m \<Longrightarrow> writeRel m Q R A wr opOf str dn"
  by (rule writeRelI) (meson writeRelD order.strict_trans2)+

lemma writerRel_start:
  assumes "writerRel n R A T G" "s < n" "\<not> R s"
  shows "writerRel n (R(s := True)) A (s # T) G"
proof -
  note d = writerRelD [OF assms(1)]
  show ?thesis using assms(2,3) by (intro writerRelI) (auto simp: d(1,2,8) dest: d(3-7))
qed

lemma writerRel_exit:
  assumes "writerRel n R A T G" "s \<in> set T"
  shows "writerRel n (R(s := False)) A (remove1 s T) G"
proof -
  note d = writerRelD [OF assms(1)]
  show ?thesis using assms(2) d(1)
    by (intro writerRelI) (auto simp: d(2,8) dest: d(3-7))
qed

lemma writerRel_take:
  assumes "writerRel n R A T G" "s \<in> set T"
  shows "writerRel n R (A(s := Some q)) (remove1 s T) ((s, q, x) # G)"
proof -
  note d = writerRelD [OF assms(1)]
  have "s \<notin> fst ` set G" using d(4) [OF assms(2)] d(6) by fastforce
  then show ?thesis using assms(2) d(1) d(3,4) [OF assms(2)]
    by (intro writerRelI) (auto simp: d(2,8) split: if_splits dest: d(3-7))
qed

lemma writerRel_done:
  assumes "writerRel n R A T G" "(s, q, x) \<in> set G"
  shows "writerRel n R (A(s := None)) (s # T) (remove1 (s, q, x) G)"
proof -
  note d = writerRelD [OF assms(1)]
  have "s \<notin> set T" using d(4) d(6) [OF assms(2)] by fastforce
  moreover have "(t, p, y) \<in> set (remove1 (s, q, x) G) \<longleftrightarrow> t \<noteq> s \<and> (t, p, y) \<in> set G" for t p y
  proof
    assume *: "(t, p, y) \<in> set (remove1 (s, q, x) G)"
    then have "t \<in> fst ` set (remove1 (s, q, x) G)" by force
    with * show "t \<noteq> s \<and> (t, p, y) \<in> set G"
      using distinct_map_remove1 [OF d(2) assms(2)] notin_set_remove1 by auto
  qed (simp add: in_set_remove1)
  ultimately show ?thesis using d(5,6) [OF assms(2)] distinct_map_remove1 [OF d(2) assms(2)]
    by (intro writerRelI) (auto simp: d(1,8) split: if_splits dest: d(3-7))
qed

lemma writerRel_new: "writerRel n R A T G \<Longrightarrow> writerRel (Suc n) (R(n := False)) (A(n := None)) T G"
  unfolding writerRel_def by (auto intro: less_SucI)

lemma writeRel_start:
  assumes "writeRel n Q R A wr opOf str dn" "wr i = None" "s < n"
  shows "writeRel (Suc n) (Q(s := Q s @ [n])) (R(s := True)) A
           (wr(i \<mapsto> n)) (opOf(n := i)) (str(n := s)) (dn(n := False))"
proof -
  note d = writeRelD [OF assms(1)]
  have "n \<notin> set (Q t)" "wr j \<noteq> Some n" "A t \<noteq> Some n" for t j
    using d(2) [of "opOf n" n] d(7) [of n t] d(2) [of j n] d(12) [of t n] by auto
  with assms(2,3) show ?thesis
    by (intro writeRelI) (auto simp: d(10) split: if_splits intro: less_SucI dest: d(1-9,11-13))
qed

lemma writeRel_exit:
  assumes "writeRel n Q R A wr opOf str dn" "Q s = []"
  shows "writeRel n Q (R(s := False)) A wr opOf str dn"
proof -
  note d = writeRelD [OF assms(1)]
  show ?thesis using assms(2)
    by (intro writeRelI) (auto simp: d(10) split: if_splits dest: d(1-9,11-13))
qed

lemma writeRel_take:
  assumes "writeRel n Q R A wr opOf str dn" "Q s = q # qs" "A s = None"
  shows "writeRel n (Q(s := qs)) R (A(s := Some q)) wr opOf str dn"
proof -
  note d = writeRelD [OF assms(1)]
  have "q \<notin> set qs" "distinct qs" "str q = s" "wr (opOf q) = Some q" "\<not> dn q" "q < n"
    using d(10) [of s] d(6-8) [of q s] d(2) assms(2) by auto
  moreover have "R s" using d(1) assms(2) by simp
  moreover have "str p = s \<and> wr (opOf p) = Some p \<and> \<not> dn p" if "p \<in> set qs" for p
    using that d(6-8) [of p s] assms(2) by simp
  moreover have "p = q \<or> p \<in> set qs" if "wr i = Some p" "\<not> dn p" "str p = s" for i p
    using d(5) [OF that(1,2)] that(3) assms(2,3) by auto
  ultimately show ?thesis using assms(2,3)
    by (intro writeRelI)
      (auto simp: d(10) split: if_splits dest: d(1-4,6,8,9,11-13) intro: d(7) d(5) [rotated 2])
qed

lemma writeRel_done:
  assumes "writeRel n Q R A wr opOf str dn" "A s = Some q"
  shows "writeRel n Q R (A(s := None)) wr opOf str (dn(q := dn q \<or> wr (opOf q) = Some q))"
proof -
  note d = writeRelD [OF assms(1)]
  show ?thesis using assms(2) d(11) [OF assms(2)]
    by (intro writeRelI) (auto simp: d(10) split: if_splits dest: d(1-9,11-13))
qed

lemma writeRel_forget:
  assumes "writeRel n Q R A wr opOf str dn" "wr i = Some q" "dn q \<or> A (str q) = Some q"
  shows "writeRel n Q R A (wr(i := None)) opOf str dn"
proof -
  note d = writeRelD [OF assms(1)]
  have "opOf p \<noteq> i" if "p \<in> set (Q t)" for p t
    using that d(6,7,8,9) [of p t] assms(2,3) by auto
  then show ?thesis
    by (intro writeRelI) (auto simp: d(10) split: if_splits dest: d(1-6,8,9,11-13) intro: d(7))
qed

lemma writeRel_cancel:
  assumes "writeRel n Q R A wr opOf str dn" "wr i = Some q" "s = str q"
  shows "writeRel n (Q(s := remove1 q (Q s))) R A (wr(i := None)) opOf str dn"
proof -
  note d = writeRelD [OF assms(1)]
  have p: "wr (opOf p) = Some p \<and> opOf p \<noteq> i \<and> str p = t \<and> \<not> dn p" if "p \<in> set (Q t)" "p \<noteq> q" for p t
    using that d(6,7,8) [of p t] assms(2) by auto
  have q: "p \<noteq> q" if "t \<noteq> s" "p \<in> set (Q t)" for p t using d(6) assms(3) that by blast
  have w: "p \<noteq> q" if "wr j = Some p" "j \<noteq> i" for p j using d(4) assms(2) that by blast
  have r: "R s" if "remove1 q (Q s) \<noteq> []" using d(1) [of s] that by (cases "Q s") auto
  have m: "p \<in> set (remove1 q (Q s)) \<longleftrightarrow> p \<in> set (Q s) \<and> p \<noteq> q" for p using d(10) [of s] by auto
  show ?thesis
  proof (rule writeRelI)
    fix t assume "(Q(s := remove1 q (Q s))) t \<noteq> []" then show "R t" using r d(1) by (auto split: if_splits)
  next
    fix j p assume *: "(wr(i := None)) j = Some p"
    then have j: "wr j = Some p" "j \<noteq> i" by (auto split: if_splits)
    then show "p < n" "str p < n" "opOf p = j" by (blast dest: d(2,3,4))+
    assume "\<not> dn p" "p \<notin> set ((Q(s := remove1 q (Q s))) (str p))"
    then show "A (str p) = Some p" using d(5) [OF j(1)] w [OF j] m by (auto split: if_splits)
  next
    fix p t assume "p \<in> set ((Q(s := remove1 q (Q s))) t)"
    then have t: "p \<in> set (Q t)" "p \<noteq> q" using m q by (auto split: if_splits)
    with p [OF t] show "str p = t" "(wr(i := None)) (opOf p) = Some p" "\<not> dn p" by auto
    show "A t \<noteq> Some p" using t d(9) by blast
  next
    fix t show "distinct ((Q(s := remove1 q (Q s))) t)" using d(10) by simp
  next
    fix p t assume "A t = Some p"
    then show "str p = t" "p < n" by (blast dest: d(11,12))+
    assume "(wr(i := None)) (opOf p) = Some p"
    then show "\<not> dn p" using d(13) \<open>A t = Some p\<close> by (auto split: if_splits)
  qed
qed

lemma writeRel_close:
  assumes "writeRel n Q R A wr opOf str dn" "\<And>q. dn' q \<longleftrightarrow> dn q \<or> q \<in> set (Q s)"
  shows "writeRel n (Q(s := [])) R A wr opOf str dn'"
proof -
  note d = writeRelD [OF assms(1)]
  show ?thesis using assms(2)
    by (intro writeRelI) (auto simp: d(10) split: if_splits dest: d(1-9,11-13))
qed

lemma writeRel_new:
  assumes "writeRel n Q R A wr opOf str dn"
  shows "writeRel (Suc n) (Q(n := [])) (R(n := False)) (A(n := None)) wr opOf str dn"
proof -
  note d = writeRelD [OF assms(1)]
  show ?thesis
    by (intro writeRelI) (auto simp: d(10) split: if_splits intro: less_SucI dest: d(1-9,11-13))
qed

definition writeInv :: "reactor \<Rightarrow> bool" where
  "writeInv r \<longleftrightarrow> closed r \<or>
     (\<forall>h s. streams r h = Some s \<longrightarrow> s < nextRef r) \<and>
     writerRel (nextRef r) (ss_writeRunning \<circ> streamAt r) (ss_writeActive \<circ> streamAt r) (writeTasks r) (writingTasks r) \<and>
     writeRel (nextRef r) (ss_writeQueue \<circ> streamAt r) (ss_writeRunning \<circ> streamAt r) (ss_writeActive \<circ> streamAt r)
       (writes r) (wo_operation \<circ> writeAt r) (wo_stream \<circ> writeAt r) (wo_done \<circ> writeAt r)"

definition writePart :: "streamState \<Rightarrow> ref list \<times> bool \<times> ref option" where
  "writePart st = (ss_writeQueue st, ss_writeRunning st, ss_writeActive st)"

definition writeView where
  "writeView (r :: reactor) =
     (closed r, streams r, writes r, writePart \<circ> streamAt r, writeAt r, writeTasks r, writingTasks r)"

lemma writeView_streamView: "streamView r' = streamView r \<Longrightarrow> writeView r' = writeView r"
  by (simp add: writeView_def streamView_def)

lemma writeInv_view:
  assumes "writeView r' = writeView r" "nextRef r \<le> nextRef r'" "writeInv r"
  shows "writeInv r'"
proof -
  from assms(1) have v: "closed r' = closed r" "streams r' = streams r" "writes r' = writes r" "writeAt r' = writeAt r"
    "writeTasks r' = writeTasks r" "writingTasks r' = writingTasks r"
    and p: "\<And>s. writePart (streamAt r' s) = writePart (streamAt r s)"
    by (simp_all add: writeView_def fun_eq_iff)
  have q: "ss_writeQueue \<circ> streamAt r' = ss_writeQueue \<circ> streamAt r"
    "ss_writeRunning \<circ> streamAt r' = ss_writeRunning \<circ> streamAt r"
    "ss_writeActive \<circ> streamAt r' = ss_writeActive \<circ> streamAt r"
    using p by (simp_all add: fun_eq_iff writePart_def)
  show ?thesis using assms(2,3) unfolding writeInv_def v q
    by (meson order.strict_trans2 writerRel_mono writeRel_mono)
qed

lemma writeInv_StartWrite:
  assumes "writeInv r" "tablesOk r"
  shows "writeInv (snd (StartWrite handle operation data r))"
proof (cases "streams r handle = None \<or> closed r \<or> operations r operation \<noteq> None")
  case True
  then show ?thesis using assms(1)
    by (auto simp: StartWrite_def claimOperationLocked_def split: option.splits)
next
  case False
  then obtain s where s: "streams r handle = Some s" and op: "operations r operation = None" "\<not> closed r" by auto
  note inv = assms(1) [unfolded writeInv_def]
  have bound: "s < nextRef r" and free: "writes r operation = None"
    using inv s op tablesOk_None(2) [OF assms(2), of operation] by auto
  from inv op(2) have W: "writerRel (nextRef r) (ss_writeRunning \<circ> streamAt r) (ss_writeActive \<circ> streamAt r) (writeTasks r) (writingTasks r)"
   and Q: "writeRel (nextRef r) (ss_writeQueue \<circ> streamAt r) (ss_writeRunning \<circ> streamAt r) (ss_writeActive \<circ> streamAt r)
       (writes r) (wo_operation \<circ> writeAt r) (wo_stream \<circ> writeAt r) (wo_done \<circ> writeAt r)" by auto
  have "writerRel (Suc (nextRef r)) ((ss_writeRunning \<circ> streamAt r)(s := True)) (ss_writeActive \<circ> streamAt r)
      (if ss_writeRunning (streamAt r s) then writeTasks r else s # writeTasks r) (writingTasks r)"
    using W writerRel_start [OF W bound] by (auto intro: writerRel_mono)
  with writeRel_start [OF Q free bound] show ?thesis using s op inv
    by (auto simp: StartWrite_def claimOperationLocked_def Let_def writeInv_def updStream_def fun_upd_comp less_SucI)
qed

lemma writeInv_head:
  assumes "writeInv r" "s \<in> set (writeTasks r)"
  shows "writeInv (runStreamWrites_head s r)"
proof (cases "closed r")
  case True
  then show ?thesis by (simp add: writeInv_def runStreamWrites_head_def updStream_def)
next
  case False
  note inv = assms(1) [unfolded writeInv_def]
  from inv False have W: "writerRel (nextRef r) (ss_writeRunning \<circ> streamAt r) (ss_writeActive \<circ> streamAt r) (writeTasks r) (writingTasks r)"
   and Q: "writeRel (nextRef r) (ss_writeQueue \<circ> streamAt r) (ss_writeRunning \<circ> streamAt r) (ss_writeActive \<circ> streamAt r)
       (writes r) (wo_operation \<circ> writeAt r) (wo_stream \<circ> writeAt r) (wo_done \<circ> writeAt r)" by auto
  have idle: "ss_writeActive (streamAt r s) = None" using writerRelD(4) [OF W assms(2)] by simp
  show ?thesis
  proof (cases "ss_writeQueue (streamAt r s)")
    case Nil
    then show ?thesis using inv False writerRel_exit [OF W assms(2)] writeRel_exit [OF Q, of s]
      by (simp add: writeInv_def runStreamWrites_head_def updStream_def fun_upd_comp)
  next
    case (Cons q qs)
    then show ?thesis using inv False writerRel_take [OF W assms(2)] writeRel_take [OF Q, of s q qs] idle
      by (simp add: writeInv_def runStreamWrites_head_def updStream_def fun_upd_comp)
  qed
qed

lemma writeInv_done:
  assumes "writeInv r" "tablesOk r" "(s, q, data) \<in> set (writingTasks r)"
  shows "writeInv (runStreamWrites_done s q data err r)"
proof (cases "closed r")
  case True
  then show ?thesis by (simp add: writeInv_def runStreamWrites_done_def updStream_def helper_defs Let_def)
next
  case False
  note inv = assms(1) [unfolded writeInv_def]
  from inv False have W: "writerRel (nextRef r) (ss_writeRunning \<circ> streamAt r) (ss_writeActive \<circ> streamAt r) (writeTasks r) (writingTasks r)"
   and Q: "writeRel (nextRef r) (ss_writeQueue \<circ> streamAt r) (ss_writeRunning \<circ> streamAt r) (ss_writeActive \<circ> streamAt r)
       (writes r) (wo_operation \<circ> writeAt r) (wo_stream \<circ> writeAt r) (wo_done \<circ> writeAt r)" by auto
  have act: "ss_writeActive (streamAt r s) = Some q" using writerRelD(6) [OF W assms(3)] by simp
  let ?i = "wo_operation (writeAt r q)"
  have "writes r ?i = Some q \<Longrightarrow> operations r ?i = Some operationWrite"
    by (rule tablesOk_Some(2) [OF assms(2)])
  moreover have "writes r ?i = Some q \<Longrightarrow> \<not> wo_done (writeAt r q)"
    using writeRelD(13) [OF Q, of s q] act by simp
  ultimately show ?thesis using inv False writerRel_done [OF W assms(3)] writeRel_done [OF Q, of s q] act
    by (cases "writes r ?i = Some q")
      (simp_all add: writeInv_def runStreamWrites_done_def updStream_def fun_upd_comp helper_defs Let_def)
qed

lemma writeInv_TakeWrite:
  assumes "writeInv r"
  shows "writeInv (snd (TakeWrite operation r))"
proof (cases "closed r")
  case False
  note inv = assms(1) [unfolded writeInv_def]
  show ?thesis
  proof (cases "writes r operation")
    case (Some q)
    then show ?thesis
      using inv False writeRel_forget [of "nextRef r" "ss_writeQueue \<circ> streamAt r" "ss_writeRunning \<circ> streamAt r" "ss_writeActive \<circ> streamAt r"
         "writes r" "wo_operation \<circ> writeAt r" "wo_stream \<circ> writeAt r" "wo_done \<circ> writeAt r" operation q]
      by (auto simp: TakeWrite_def writeInv_def helper_defs)
  qed (simp add: TakeWrite_def assms)
qed (auto simp: TakeWrite_def writeInv_def helper_defs split: option.splits)

lemma writeInv_cancel:
  assumes "writeInv r"
  shows "writeInv (cancelStreamWriteLocked operation (r\<lparr>operations := ops\<rparr>))"
proof (cases "closed r \<or> writes r operation = None")
  case True
  then show ?thesis using assms
    by (auto simp: cancelStreamWriteLocked_def writeInv_def updStream_def Let_def split: option.splits)
next
  case False
  then obtain q where q: "writes r operation = Some q" by auto
  note inv = assms(1) [unfolded writeInv_def]
  from inv False have Q: "writeRel (nextRef r) (ss_writeQueue \<circ> streamAt r) (ss_writeRunning \<circ> streamAt r) (ss_writeActive \<circ> streamAt r)
       (writes r) (wo_operation \<circ> writeAt r) (wo_stream \<circ> writeAt r) (wo_done \<circ> writeAt r)" by auto
  show ?thesis using False inv q writeRel_forget [OF Q q] writeRel_cancel [OF Q q refl]
    by (auto simp: cancelStreamWriteLocked_def writeInv_def updStream_def Let_def fun_upd_comp removeWriteOperation_def)
qed

lemma writeInv_addStream:
  assumes "writeInv r"
  shows "writeInv (addStream handle connection r)"
proof (cases "closed r")
  case False
  note inv = assms(1) [unfolded writeInv_def]
  from inv False have W: "writerRel (nextRef r) (ss_writeRunning \<circ> streamAt r) (ss_writeActive \<circ> streamAt r) (writeTasks r) (writingTasks r)"
   and Q: "writeRel (nextRef r) (ss_writeQueue \<circ> streamAt r) (ss_writeRunning \<circ> streamAt r) (ss_writeActive \<circ> streamAt r)
       (writes r) (wo_operation \<circ> writeAt r) (wo_stream \<circ> writeAt r) (wo_done \<circ> writeAt r)" by auto
  from writerRel_new [OF W] writeRel_new [OF Q] inv False show ?thesis
    by (auto simp: writeInv_def addStream_def newStreamState_def fun_upd_comp less_SucI)
qed (simp add: writeInv_def addStream_def)

lemma failQueuedWrites_done:
  assumes "\<And>q. q \<in> set queue \<Longrightarrow> writes r (wo_operation (writeAt r q)) = Some q"
  shows "wo_operation (writeAt (snd (failQueuedWrites queue ready r)) q) = wo_operation (writeAt r q)"
    "wo_stream (writeAt (snd (failQueuedWrites queue ready r)) q) = wo_stream (writeAt r q)"
    "wo_done (writeAt (snd (failQueuedWrites queue ready r)) q) \<longleftrightarrow> wo_done (writeAt r q) \<or> q \<in> set queue"
  using assms
  by (induction queue ready r rule: failQueuedWrites.induct) (auto simp: Let_def)


lemma closeStreamHandle_eq:
  assumes "streams r handle = Some s"
  obtains b ready where "snd (closeStreamHandle handle r) =
     signalIf b (r\<lparr>streams := (streams r)(handle := None),
       writeAt := writeAt (snd (failQueuedWrites (ss_writeQueue (streamAt r s)) ready
          (updStream s (\<lambda>st. st\<lparr>ss_closed := True\<rparr>) (r\<lparr>streams := (streams r)(handle := None)\<rparr>)))),
       streamAt := (streamAt r)(s := (streamAt r s)\<lparr>ss_closed := True, ss_writeQueue := []\<rparr>)\<rparr>)"
proof (rule that)
  let ?r = "updStream s (\<lambda>st. st\<lparr>ss_closed := True\<rparr>) (r\<lparr>streams := (streams r)(handle := None)\<rparr>)"
  let ?ready = "ss_readQueue (streamAt ?r s) \<noteq> [] \<and> readAvailableLocked (streamAt ?r s)"
  show "snd (closeStreamHandle handle r) =
     signalIf (fst (closeStreamLocked s (r\<lparr>streams := (streams r)(handle := None)\<rparr>)))
      (r\<lparr>streams := (streams r)(handle := None),
       writeAt := writeAt (snd (failQueuedWrites (ss_writeQueue (streamAt r s)) ?ready ?r)),
       streamAt := (streamAt r)(s := (streamAt r s)\<lparr>ss_closed := True, ss_writeQueue := []\<rparr>)\<rparr>)"
  proof -
    obtain W where "snd (failQueuedWrites (ss_writeQueue (streamAt r s)) ?ready ?r) = ?r\<lparr>writeAt := W\<rparr>"
      using failQueuedWrites_frame by blast
    with assms show ?thesis
      by (simp add: closeStreamHandle_def closeStreamLocked_def Let_def case_prod_beta updStream_def)
  qed
qed

lemma writeInv_closeStreamHandle:
  assumes "writeInv r"
  shows "writeInv (snd (closeStreamHandle handle r))"
proof (cases "closed r \<or> streams r handle = None")
  case True
  then show ?thesis
  proof
    assume "closed r"
    moreover have "closed (snd (closeStreamHandle handle r)) = closed r"
      using udpView_closeStream [of handle r] by (simp add: udpView_def)
    ultimately show ?thesis by (simp add: writeInv_def)
  qed (simp add: closeStreamHandle_def assms)
next
  case False
  then obtain s where s: "streams r handle = Some s" by auto
  obtain b ready where e: "snd (closeStreamHandle handle r) =
     signalIf b (r\<lparr>streams := (streams r)(handle := None),
       writeAt := writeAt (snd (failQueuedWrites (ss_writeQueue (streamAt r s)) ready
          (updStream s (\<lambda>st. st\<lparr>ss_closed := True\<rparr>) (r\<lparr>streams := (streams r)(handle := None)\<rparr>)))),
       streamAt := (streamAt r)(s := (streamAt r s)\<lparr>ss_closed := True, ss_writeQueue := []\<rparr>)\<rparr>)"
    by (rule closeStreamHandle_eq [OF s])
  let ?r = "updStream s (\<lambda>st. st\<lparr>ss_closed := True\<rparr>) (r\<lparr>streams := (streams r)(handle := None)\<rparr>)"
  let ?W = "writeAt (snd (failQueuedWrites (ss_writeQueue (streamAt r s)) ready ?r))"
  note inv = assms(1) [unfolded writeInv_def]
  from inv False have Q: "writeRel (nextRef r) (ss_writeQueue \<circ> streamAt r) (ss_writeRunning \<circ> streamAt r) (ss_writeActive \<circ> streamAt r)
       (writes r) (wo_operation \<circ> writeAt r) (wo_stream \<circ> writeAt r) (wo_done \<circ> writeAt r)" by auto
  have queued: "q \<in> set (ss_writeQueue (streamAt r s)) \<Longrightarrow> writes ?r (wo_operation (writeAt ?r q)) = Some q" for q
    using writeRelD(7) [OF Q, of q s] by (simp add: updStream_def)
  note f = failQueuedWrites_done [OF queued, of "ss_writeQueue (streamAt r s)" ready]
  have W: "wo_operation \<circ> ?W = wo_operation \<circ> writeAt r" "wo_stream \<circ> ?W = wo_stream \<circ> writeAt r"
    using f(1,2) by (simp_all add: fun_eq_iff updStream_def)
  have D: "(wo_done \<circ> ?W) q \<longleftrightarrow> (wo_done \<circ> writeAt r) q \<or> q \<in> set ((ss_writeQueue \<circ> streamAt r) s)" for q
    using f(3) [of q] by (simp add: updStream_def)
  have "writeRel (nextRef r) ((ss_writeQueue \<circ> streamAt r)(s := [])) (ss_writeRunning \<circ> streamAt r)
      (ss_writeActive \<circ> streamAt r) (writes r) (wo_operation \<circ> writeAt r) (wo_stream \<circ> writeAt r) (wo_done \<circ> ?W)"
    by (rule writeRel_close [OF Q D])
  with inv False show ?thesis
    unfolding e writeInv_def by (auto simp: helper_defs fun_upd_comp W)
qed

section \<open>The invariant of all streams\<close>

definition streamInv :: "reactor \<Rightarrow> bool" where
  "streamInv r \<longleftrightarrow> readInv r \<and> writeInv r"

lemma streamInv_view:
  "streamView r' = streamView r \<Longrightarrow> nextRef r \<le> nextRef r' \<Longrightarrow> streamInv r \<Longrightarrow> streamInv r'"
  unfolding streamInv_def
  by (blast intro: readInv_view [OF readView_streamView] writeInv_view [OF writeView_streamView])

text \<open>Reads leave the writing part of a stream alone, and writes its reading part.\<close>

lemma writePart_upd [simp]: "writePart x = writePart (f s) \<Longrightarrow> writePart \<circ> f(s := x) = writePart \<circ> f"
  by (auto simp: fun_eq_iff)

lemma readPart_upd [simp]: "readPart x = readPart (f s) \<Longrightarrow> readPart \<circ> f(s := x) = readPart \<circ> f"
  by (auto simp: fun_eq_iff)

lemma writeView_prepare [simp]: "writeView (prepareStreamReadLocked s r) = writeView r"
  by (simp add: writeView_def prepareStreamReadLocked_def updStream_def Let_def writePart_def split: list.splits)

lemma writeView_signalIf [simp]: "writeView (signalIf b r) = writeView r"
  by (simp add: writeView_def helper_defs)

lemma writeView_StartRead: "writeView (snd (StartRead handle operation capacity r)) = writeView r"
  by (auto simp: StartRead_def Let_def claimOperationLocked_def split: option.splits outcome.splits)
     (simp_all add: writeView_def updStream_def writePart_def)

lemma writeView_TakeRead: "writeView (snd (TakeRead operation r)) = writeView r"
proof (cases operation r rule: TakeRead_cases)
  case (served w queue stream)
  have "writePart (servedStream w queue (streamAt r (ro_stream w))) = writePart (streamAt r (ro_stream w))"
    by (simp add: writePart_def servedStream_def)
  then have "writeView (r\<lparr>streamAt := (streamAt r)(ro_stream w := servedStream w queue stream),
      reads := (reads r)(operation := None), operations := (operations r)(operation := None)\<rparr>) = writeView r"
    using served(3) by (simp add: writeView_def)
  then show ?thesis using served(6) by simp
qed simp

lemma writeView_runStreamRead: "writeView (runStreamRead cap s chunk err r) = writeView r"
  by (simp add: writeView_def writePart_def runStreamRead_def updStream_def helper_defs Let_def)

lemma writeView_cancel: "writeView (snd (cancelStreamReadLocked operation (r\<lparr>operations := ops\<rparr>))) = writeView r"
  by (auto simp: cancelStreamReadLocked_def Let_def split: option.splits)
     (simp_all add: writeView_def updStream_def writePart_def)

lemma readView_StartWrite: "readView (snd (StartWrite handle operation data r)) = readView r"
  by (auto simp: readView_def readPart_def StartWrite_def Let_def updStream_def claimOperationLocked_def split: option.splits)
lemma readView_TakeWrite: "readView (snd (TakeWrite operation r)) = readView r"
  by (auto simp: readView_def readPart_def TakeWrite_def helper_defs split: option.splits)
lemma readView_head: "readView (runStreamWrites_head s r) = readView r"
  by (auto simp: readView_def readPart_def runStreamWrites_head_def updStream_def split: list.splits)
lemma readView_done: "readView (runStreamWrites_done s q data err r) = readView r"
  by (simp add: readView_def readPart_def runStreamWrites_done_def updStream_def helper_defs Let_def)
lemma readView_cancel: "readView (cancelStreamWriteLocked operation (r\<lparr>operations := ops\<rparr>)) = readView r"
  by (auto simp: readView_def readPart_def cancelStreamWriteLocked_def updStream_def Let_def split: option.splits)

lemma nextRef_cancelStream [simp]:
  "nextRef (snd (cancelStreamReadLocked operation r)) = nextRef r" "nextRef (cancelStreamWriteLocked operation r) = nextRef r"
  by (simp_all add: cancelStreamReadLocked_def cancelStreamWriteLocked_def updStream_def Let_def split: option.splits)

lemma streamInv_own:
  assumes "streamInv r" "tablesOk r"
  shows "streamInv (snd (StartRead handle operation capacity r))"
    "streamInv (snd (TakeRead operation r))"
    "streamInv (snd (StartWrite handle operation data r))"
    "streamInv (snd (TakeWrite operation r))"
    "(cap, s) \<in> set (readTasks r) \<Longrightarrow> streamInv (runStreamRead cap s chunk err r)"
    "s \<in> set (writeTasks r) \<Longrightarrow> streamInv (runStreamWrites_head s r)"
    "(s, q, wdata) \<in> set (writingTasks r) \<Longrightarrow> streamInv (runStreamWrites_done s q wdata err r)"
    "streamInv (addStream handle connection r)"
    "streamInv (snd (closeStreamHandle handle r))"
  using assms
  by (auto simp: streamInv_def readInv_StartRead readInv_TakeRead readInv_runStreamRead readInv_addStream readInv_closeStreamHandle
      writeInv_StartWrite writeInv_TakeWrite writeInv_head writeInv_done writeInv_addStream writeInv_closeStreamHandle
      intro: readInv_view [OF readView_StartWrite] readInv_view [OF readView_TakeWrite] readInv_view [OF readView_head] readInv_view [OF readView_done]
        writeInv_view [OF writeView_StartRead] writeInv_view [OF writeView_TakeRead] writeInv_view [OF writeView_runStreamRead])

lemma streamInv_CancelOperation:
  assumes "streamInv r"
  shows "streamInv (CancelOperation operation r)"
proof -
  let ?r1 = "r\<lparr>operations := (operations r)(operation := None)\<rparr>"
  let ?r2 = "case operations r operation of Some operationRead \<Rightarrow> snd (cancelStreamReadLocked operation ?r1)
       | Some operationWrite \<Rightarrow> cancelStreamWriteLocked operation ?r1 | _ \<Rightarrow> r"
  have "streamInv (snd (cancelStreamReadLocked operation ?r1))" "streamInv (cancelStreamWriteLocked operation ?r1)"
    using assms readInv_cancel writeInv_cancel
    by (auto simp: streamInv_def intro: readInv_view [OF readView_cancel] writeInv_view [OF writeView_cancel])
  then have "streamInv ?r2" using assms by (auto split: option.splits operationKind.splits)
  moreover have "nextRef ?r2 = nextRef r" by (auto split: option.splits operationKind.splits)
  ultimately show ?thesis using streamInv_view [OF CancelOperation_streamView, of r operation] by simp
qed

lemma streamInv_CloseHandle:
  assumes "streamInv r" "tablesOk r"
  shows "streamInv (CloseHandle_begin handle r)" "streamInv (CloseHandle_continue action r)"
proof -
  show "streamInv (CloseHandle_continue action r)" by (rule streamInv_view [OF _ _ assms(1)]) simp_all
  have c: "streamView (CloseHandle_begin handle r) = streamView (snd (closeStreamHandle handle r))"
    by (simp add: snd_CloseHandle)
  have "nextRef (snd (closeStreamHandle handle r)) = nextRef r"
    using closeStreamHandle_frame [of handle r] by (auto simp: helper_defs)
  then show "streamInv (CloseHandle_begin handle r)" using streamInv_view [OF c] streamInv_own(9) [OF assms] by simp
qed

lemma streamInv_New: "streamInv (New options)"
proof -
  have "streamInv (emptyReactor options)"
    by (simp add: streamInv_def readInv_def writeInv_def readBase_def readLive_def emptyReactor_def newStreamState_def
      readRel_def writerRel_def writeRel_def)
  then show ?thesis
  proof (rule New_induct)
    fix h c r assume i: "streamInv r"
    have "streamInv (receiveResource (Some c) r)"
      by (rule streamInv_view [OF _ _ i]) (simp_all add: streamView_def receiveResource_def)
    then show "streamInv (addStream h c (receiveResource (Some c) r))"
      by (simp add: streamInv_def readInv_addStream writeInv_addStream)
    show "streamInv (addDatagram h c (receiveResource (Some c) r))"
      by (rule streamInv_view [OF _ _ i]) (simp_all add: streamView_def helper_defs)
  qed
qed

lemma streamInv_stream_added:
  assumes "streamInv r"
    and "streamView r' = streamView r \<and> nextRef r' = nextRef r \<or>
      (\<exists>handle connection. streamView r' = streamView (addStream handle connection r) \<and>
        nextRef r' = nextRef (addStream handle connection r))"
  shows "streamInv r'"
  using assms(2)
proof (elim disjE exE conjE)
  assume "streamView r' = streamView r" "nextRef r' = nextRef r"
  then show ?thesis by (intro streamInv_view [OF _ _ assms(1)]) simp_all
next
  fix handle connection
  assume *: "streamView r' = streamView (addStream handle connection r)"
    "nextRef r' = nextRef (addStream handle connection r)"
  have "streamInv (addStream handle connection r)"
    using assms(1) by (simp add: streamInv_def readInv_addStream writeInv_addStream)
  with * show ?thesis by (intro streamInv_view [OF *(1)]) simp_all
qed

lemma streamInv_call:
  assumes "call r r'" "streamInv r" "tablesOk r"
  shows "streamInv r'"
  using assms(1)
proof cases
  case (call_TakeTCPAccept operation)
  then show ?thesis using streamInv_stream_added [OF assms(2) TakeTCPAccept_stream] by simp
next
  case (call_TakeTCPConnect operation)
  then show ?thesis using streamInv_stream_added [OF assms(2) TakeTCPConnect_stream] by simp
next
  case (call_receiveWake wake sink handle result)
  from receiveWake_view(1,6) [OF this] show ?thesis by (intro streamInv_view [OF _ _ assms(2)]) simp_all
next
  case call_CloseBegin
  then show ?thesis using assms(2) by (simp add: CloseBegin_def streamInv_def readInv_def writeInv_def)
qed (use streamInv_own [OF assms(2,3)] streamInv_CancelOperation [OF assms(2)] streamInv_CloseHandle [OF assms(2,3)]
   streamInv_view [OF _ _ assms(2)] in \<open>simp_all\<close>)

lemma streamInv_work:
  assumes "work r r'" "streamInv r" "tablesOk r"
  shows "streamInv r'"
  using assms(1)
  by cases (use streamInv_own [OF assms(2,3)] streamInv_view [OF _ _ assms(2)] in \<open>simp_all\<close>)

lemma streamInv_reachable: "reachable options r \<Longrightarrow> streamInv r"
  by (erule reachable_invariant) (auto intro: streamInv_New streamInv_call streamInv_work tablesOk_reachable)

section \<open>Properties of streams\<close>

lemma stream_tables:
  assumes "reachable options r" "reads r i \<noteq> None \<or> writes r i \<noteq> None"
  shows "\<not> closed r"
  using shut_tables(1,2) [OF shut_reachable [OF assms(1)] tablesOk_reachable [OF assms(1)]] assms(2) by auto

text \<open>
  C4: a pending read waits in the queue of its stream, and either the head of the queue can be taken or a goroutine
  is reading from the connection, so no reader waits for ever on a connection that delivers.
\<close>

theorem pending_read_is_served:
  assumes "reachable options r" "reads r i = Some w"
  shows "w \<in> set (ss_readQueue (streamAt r (ro_stream w))) \<and>
    (readAvailableLocked (streamAt r (ro_stream w)) \<or> (\<exists>cap. (cap, ro_stream w) \<in> set (readTasks r)))"
proof -
  have "readInv r" "\<not> closed r"
    using streamInv_reachable [OF assms(1)] stream_tables [OF assms(1), of i] assms(2) by (simp_all add: streamInv_def)
  then have "readBase r" and live: "readLive r (ro_stream w)" by (auto simp: readInv_def)
  then have rel: "readRel (nextRef r) (ss_readQueue \<circ> streamAt r) (ss_readRunning \<circ> streamAt r) (readTasks r) (reads r)"
    by (simp add: readBase_def)
  have "w \<in> ran (reads r)" using assms(2) by (rule ranI)
  from readRelD(6) [OF rel this refl] have "w \<in> set (ss_readQueue (streamAt r (ro_stream w)))" by simp
  with live readRelD(2) [OF rel, of "ro_stream w"] show ?thesis by (auto simp: readLive_def)
qed

theorem pending_read_is_served_witness:
  "\<lparr>ro_ref = 2, ro_capacity = 16, ro_stream = 0\<rparr> \<in> set (ss_readQueue (streamAt (snd (StartRead 7 1 16 (New demoOptions))) 0)) \<and>
   (readAvailableLocked (streamAt (snd (StartRead 7 1 16 (New demoOptions))) 0) \<or>
    (\<exists>cap. (cap, 0) \<in> set (readTasks (snd (StartRead 7 1 16 (New demoOptions))))))"
  using pending_read_is_served [OF demo_read, of 1 "\<lparr>ro_ref = 2, ro_capacity = 16, ro_stream = 0\<rparr>"]
  by (simp add: StartRead_def claimOperationLocked_def Let_def updStream_def prepareStreamReadLocked_def signalIf_def
      New_def demoOptions_def emptyReactor_def addStream_def addDatagram_def receiveResource_def newStreamState_def
      readAvailableLocked_def)

text \<open>
  C5: a pending write is done, or waits in the queue of its stream while a writer goroutine works on the stream, or is
  the one that is being written.
\<close>

theorem pending_write_is_served:
  assumes "reachable options r" "writes r i = Some q"
  shows "wo_operation (writeAt r q) = i \<and>
    (wo_done (writeAt r q) \<or> (\<exists>data. (wo_stream (writeAt r q), q, data) \<in> set (writingTasks r)) \<or>
     q \<in> set (ss_writeQueue (streamAt r (wo_stream (writeAt r q)))) \<and>
       (wo_stream (writeAt r q) \<in> set (writeTasks r) \<or>
        (\<exists>p data. (wo_stream (writeAt r q), p, data) \<in> set (writingTasks r))))"
proof -
  have "writeInv r" "\<not> closed r"
    using streamInv_reachable [OF assms(1)] stream_tables [OF assms(1), of i] assms(2) by (simp_all add: streamInv_def)
  then have w: "writerRel (nextRef r) (ss_writeRunning \<circ> streamAt r) (ss_writeActive \<circ> streamAt r) (writeTasks r) (writingTasks r)"
    and q: "writeRel (nextRef r) (ss_writeQueue \<circ> streamAt r) (ss_writeRunning \<circ> streamAt r) (ss_writeActive \<circ> streamAt r)
       (writes r) (wo_operation \<circ> writeAt r) (wo_stream \<circ> writeAt r) (wo_done \<circ> writeAt r)"
    by (auto simp: writeInv_def)
  let ?s = "wo_stream (writeAt r q)"
  have "wo_done (writeAt r q) \<or> q \<in> set (ss_writeQueue (streamAt r ?s)) \<or> ss_writeActive (streamAt r ?s) = Some q"
    using writeRelD(5) [OF q assms(2)] by auto
  moreover have "ss_writeRunning (streamAt r ?s)" if "q \<in> set (ss_writeQueue (streamAt r ?s))"
    using writeRelD(1) [OF q, of ?s] that by (cases "ss_writeQueue (streamAt r ?s)") simp_all
  moreover have "\<exists>data. (?s, p, data) \<in> set (writingTasks r)" if "ss_writeActive (streamAt r ?s) = Some p" for p
    using writerRelD(7) [OF w, of ?s p] that by simp
  moreover have "?s \<in> set (writeTasks r) \<or> (\<exists>p. ss_writeActive (streamAt r ?s) = Some p)" if "ss_writeRunning (streamAt r ?s)"
    using writerRelD(8) [OF w, of ?s] that by auto
  moreover have "wo_operation (writeAt r q) = i" using writeRelD(4) [OF q assms(2)] by simp
  ultimately show ?thesis by blast
qed

lemma demo_write: "reachable demoOptions (snd (StartWrite 7 1 [1, 2] (New demoOptions)))"
  by (rule reachable_step [OF demo_New])
     (simp_all add: handlesLeft_def New_handlesLeft step_def call_StartWrite)

theorem pending_write_is_served_witness:
  "\<exists>r :: reactor. writes r 1 = Some 2 \<and> wo_stream (writeAt r 2) = 0 \<and> wo_operation (writeAt r 2) = 1 \<and>
     (wo_done (writeAt r 2) \<or> (\<exists>data. (0, 2, data) \<in> set (writingTasks r)) \<or>
      2 \<in> set (ss_writeQueue (streamAt r 0)) \<and>
        (0 \<in> set (writeTasks r) \<or> (\<exists>p data. (0, p, data) \<in> set (writingTasks r))))"
proof -
  let ?r = "snd (StartWrite 7 1 [1, 2] (New demoOptions))"
  have v: "writes ?r 1 = Some 2" "wo_stream (writeAt ?r 2) = 0"
    by (simp_all add: StartWrite_def claimOperationLocked_def Let_def updStream_def
        New_def demoOptions_def emptyReactor_def addStream_def addDatagram_def receiveResource_def newStreamState_def)
  show ?thesis
    by (rule exI [of _ ?r]) (use pending_write_is_served [OF demo_write v(1), unfolded v(2)] v in blast)
qed

text \<open>
  C6: at most one goroutine reads from a stream and at most one writes to it.
\<close>

theorem one_reader_one_writer:
  assumes "reachable options r" "\<not> closed r"
  shows "distinct (map snd (readTasks r)) \<and> distinct (writeTasks r @ map fst (writingTasks r))"
proof -
  have i: "streamInv r" by (rule streamInv_reachable [OF assms(1)])
  then have w: "writerRel (nextRef r) (ss_writeRunning \<circ> streamAt r) (ss_writeActive \<circ> streamAt r) (writeTasks r) (writingTasks r)"
    and rel: "readRel (nextRef r) (ss_readQueue \<circ> streamAt r) (ss_readRunning \<circ> streamAt r) (readTasks r) (reads r)"
    using assms(2) by (auto simp: streamInv_def writeInv_def readInv_def readBase_def)
  have "set (writeTasks r) \<inter> fst ` set (writingTasks r) = {}" using writerRelD(4,6) [OF w] by fastforce
  then show ?thesis using readRelD(1) [OF rel] writerRelD(1,2) [OF w] by simp
qed

theorem one_reader_one_writer_witness:
  "distinct (map snd (readTasks (snd (StartRead 7 1 16 (New demoOptions))))) \<and>
   distinct (writeTasks (snd (StartRead 7 1 16 (New demoOptions))) @ map fst (writingTasks (snd (StartRead 7 1 16 (New demoOptions)))))"
  by (rule one_reader_one_writer [OF demo_read])
     (simp add: StartRead_def claimOperationLocked_def Let_def updStream_def prepareStreamReadLocked_def signalIf_def
      signalCompletion_def readAvailableLocked_def New_def demoOptions_def emptyReactor_def addStream_def addDatagram_def receiveResource_def newStreamState_def)

text \<open>
  C7: \<^const>\<open>TakeRead\<close> of the first read in the queue hands out a prefix of the bytes read ahead, as long as the
  capacity allows, and keeps the rest; the error of the connection comes with the last of them and not before, an end of
  file as no error at all. When bytes are left, what was read ahead stays available with its error; when the last one is
  taken, the stream has nothing available any more, neither bytes nor an error. The operation is finished.
\<close>

theorem TakeRead_serves_in_order:
  assumes "reads r i = Some w" "operations r i = Some operationRead"
    and "ss_readQueue (streamAt r (ro_stream w)) = w # queue" "ss_readReady (streamAt r (ro_stream w))"
    and "TakeRead i r = ((data, err), r')"
  defines "old \<equiv> streamAt r (ro_stream w)" and "new \<equiv> streamAt r' (ro_stream w)"
  shows "data @ ss_readData new = ss_readData old \<and> length data = min (length (ss_readData old)) (unat (ro_capacity w)) \<and>
    ss_readQueue new = queue \<and> reads r' i = None \<and> operations r' i = None \<and>
    (if unat (ro_capacity w) < length (ss_readData old)
     then ss_readReady new \<and> err = None \<and> ss_readErr new = ss_readErr old
     else \<not> ss_readReady new \<and> ss_readData new = [] \<and> ss_readErr new = None \<and> err = (case ss_readErr old of None \<Rightarrow> None | Some e \<Rightarrow> if errors_Is e IoEOF then None else Some e))"
proof -
  have p: "ss_readData (streamAt (prepareStreamReadLocked s x) t) = ss_readData (streamAt x t)"
    "ss_readReady (streamAt (prepareStreamReadLocked s x) t) = ss_readReady (streamAt x t)"
    "ss_readErr (streamAt (prepareStreamReadLocked s x) t) = ss_readErr (streamAt x t)"
    "ss_readQueue (streamAt (prepareStreamReadLocked s x) t) = ss_readQueue (streamAt x t)"
    "reads (prepareStreamReadLocked s x) = reads x" "operations (prepareStreamReadLocked s x) = operations x" for s t x
    by (simp_all add: prepareStreamReadLocked_def updStream_def Let_def split: list.splits)
  have g: "streamAt (signalIf b x) = streamAt x" "reads (signalIf b x) = reads x" "operations (signalIf b x) = operations x" for b x
    by (simp_all add: signalIf_def signalCompletion_def)
  have "readAvailableLocked (streamAt r (ro_stream w))" using assms(4) by (simp add: readAvailableLocked_def)
  then show ?thesis
    using assms(1-5) unfolding old_def new_def
    by (auto simp: TakeRead_def Let_def releaseOperationLocked_def p g split: if_splits option.splits)
qed

theorem TakeRead_serves_in_order_witness:
  "\<exists>r' data err. TakeRead 1 (runStreamRead 16 0 [1, 2, 3] (Some IoEOF) (snd (StartRead 7 1 2 (New demoOptions)))) = ((data, err), r') \<and>
     data = [1, 2] \<and> err = None \<and> ss_readData (streamAt r' 0) = [3] \<and> ss_readReady (streamAt r' 0)"
proof -
  let ?r = "runStreamRead 16 0 [1, 2, 3] (Some IoEOF) (snd (StartRead 7 1 2 (New demoOptions)))"
  let ?w = "\<lparr>ro_ref = 2, ro_capacity = 2, ro_stream = 0\<rparr>"
  have v: "reads ?r 1 = Some ?w" "operations ?r 1 = Some operationRead" "ss_readQueue (streamAt ?r (ro_stream ?w)) = ?w # []"
    "ss_readReady (streamAt ?r (ro_stream ?w))" "ss_readData (streamAt ?r 0) = [1, 2, 3]"
    by (simp_all add: StartRead_def runStreamRead_def claimOperationLocked_def Let_def updStream_def prepareStreamReadLocked_def
        signalIf_def signalCompletion_def New_def demoOptions_def emptyReactor_def addStream_def addDatagram_def
        receiveResource_def newStreamState_def readAvailableLocked_def)
  obtain data err r' where e: "TakeRead 1 ?r = ((data, err), r')" by (metis surj_pair)
  from TakeRead_serves_in_order [OF v(1-4) e] v(5)
  have t: "data @ ss_readData (streamAt r' 0) = [1, 2, 3]" "length data = 2" and c: "err = None" "ss_readReady (streamAt r' 0)"
    by (simp_all split: if_splits)
  obtain a b where "data = [a, b]" using t(2) by (auto simp: numeral_2_eq_2 length_Suc_conv)
  with t have "data = [1, 2]" "ss_readData (streamAt r' 0) = [3]" by auto
  with e c show ?thesis by blast
qed

lemma writeLoop_result:
  "length data \<le> written + length answers \<Longrightarrow>
   \<exists>n err. writeLoop data written answers = Some (n, err) \<and> (err = None \<longrightarrow> length data \<le> n)"
  by (induction data written answers rule: writeLoop.induct) (auto split: option.splits)

text \<open>
  C8: the writer's loop ends after at most as many calls of \<^verbatim>\<open>Write\<close> as there are bytes, and when it ends without
  an error everything has been written.
\<close>

theorem writeLoop_terminates_complete:
  assumes "length data \<le> length answers"
  shows "\<exists>n err. writeLoop data 0 answers = Some (n, err) \<and> (err = None \<longrightarrow> length data \<le> n)"
  using writeLoop_result [of data 0 answers] assms by simp

theorem writeLoop_terminates_complete_witness:
  "\<exists>n. writeLoop [1, 2] 0 [(1, None), (1, None)] = Some (n, None) \<and> 2 \<le> n"
  using writeLoop_terminates_complete [of "[1, 2]" "[(1, None), (1, None)]"] by simp

end
