(* ===== verification/ReactorWaiters.thy ===== *)
theory ReactorWaiters
  imports ReactorHandles
begin

text \<open>
  The tables of waiters (of datagrams, of room to send, of connections, of room in a packet queue): facts on
  \<^const>\<open>hasWaiter\<close> and \<^const>\<open>markReady\<close>, and that nobody waits on a handle that has not been allocated yet.
\<close>

section \<open>Waiters\<close>

lemma hasWaiter_iff: "hasWaiter h m \<longleftrightarrow> (\<exists>i w. m i = Some w \<and> w_handle w = h)"
  by (auto simp: hasWaiter_def dom_def) force

lemma hasWaiter_markReady [simp]: "hasWaiter h (markReady g m) = hasWaiter h m"
proof -
  have "(\<exists>w'. markReady g m i = Some w' \<and> w_handle w' = h) = (\<exists>w. m i = Some w \<and> w_handle w = h)" for i
    by (cases "m i") (auto simp: markReady_def)
  then show ?thesis by (simp add: hasWaiter_iff)
qed

lemma hasWaiter_less: "hasWaiter h (m(i := None)) \<Longrightarrow> hasWaiter h m"
  by (auto simp: hasWaiter_iff split: if_splits)

lemma hasWaiter_other: "hasWaiter h (m(i \<mapsto> w)) \<Longrightarrow> w_handle w \<noteq> h \<Longrightarrow> hasWaiter h m"
  by (auto simp: hasWaiter_iff split: if_splits)

lemma hasWaiter_self: "m i = Some w \<Longrightarrow> hasWaiter (w_handle w) m"
  by (auto simp: hasWaiter_iff)

lemma markReady_Some:
  "markReady g m i = Some w' \<longleftrightarrow>
     (\<exists>w. m i = Some w \<and> w' = (if w_handle w = g then w\<lparr>w_ready := True\<rparr> else w))"
  by (cases "m i") (simp_all add: markReady_def eq_commute [of w'])

section \<open>The handle counter\<close>

lemma nextHandle_view: "handleView r' = handleView r \<Longrightarrow> nextHandle r' = nextHandle r"
  by (simp add: handleView_def)

lemma nextHandle_new:
  "nextHandle (snd (TakeTCPAccept operation r)) = nextHandle r \<or> nextHandle (snd (TakeTCPAccept operation r)) = nextHandle r + 1"
  "nextHandle (snd (TakeTCPConnect operation r)) = nextHandle r \<or> nextHandle (snd (TakeTCPConnect operation r)) = nextHandle r + 1"
  "nextHandle (snd (TakeUDPBind operation r)) = nextHandle r \<or> nextHandle (snd (TakeUDPBind operation r)) = nextHandle r + 1"
  "nextHandle (snd (TakeTCPListen operation r)) = nextHandle r \<or> nextHandle (snd (TakeTCPListen operation r)) = nextHandle r + 1"
  "nextHandle (snd (RegisterPacketSink cap r)) = nextHandle r \<or> nextHandle (snd (RegisterPacketSink cap r)) = nextHandle r + 1"
  "nextHandle (snd (RegisterEventSink deliver r)) = nextHandle r \<or> nextHandle (snd (RegisterEventSink deliver r)) = nextHandle r + 1"
  by (simp_all add: accept_defs connect_defs bind_defs listen_defs packet_defs helper_defs Let_def split: option.splits list.splits)

lemma nextHandle_gone:
  "nextHandle (UnregisterPacketSink handle r) = nextHandle r" "nextHandle (UnregisterEventSink handle r) = nextHandle r"
  "nextHandle (CloseBegin r) = nextHandle r"
  by (simp_all add: packet_defs CloseBegin_def split: option.splits)

lemma nextHandle_CloseHandle:
  "nextHandle (CloseHandle_begin handle r) = nextHandle r" "nextHandle (CloseHandle_continue action r) = nextHandle r"
proof -
  show "nextHandle (CloseHandle_continue action r) = nextHandle r" by (rule CloseHandle_continue_eq [of action r]) simp
  have "nextHandle (snd (closeStreamHandle handle r)) = nextHandle r" for r
    using closeStreamHandle_frame [of handle r]
    by (elim disjE exE conjE) (simp_all add: helper_defs)
  moreover have "nextHandle (snd (closeDatagramHandle handle r)) = nextHandle r" for r
    by (simp add: closeDatagram_defs split: option.splits)
  moreover have "nextHandle (snd (closeListenerHandle handle r)) = nextHandle r" for r
    by (simp add: closeListener_defs helper_defs Let_def split: option.splits)
  ultimately show "nextHandle (CloseHandle_begin handle r) = nextHandle r" by (simp add: CloseHandle_begin_eq snd_CloseHandle)
qed

lemma nextHandle_call:
  assumes "call r r'" "handlesLeft r" shows "nextHandle r \<le> nextHandle r'"
proof -
  have "nextHandle r' = nextHandle r \<or> nextHandle r' = nextHandle r + 1"
    using assms(1)
  proof cases
    case (call_receiveWake wake sink handle result)
    then show ?thesis using handleView_receiveWake nextHandle_view by blast
  qed (simp_all only: nextHandle_new nextHandle_gone nextHandle_CloseHandle handleView_all [THEN nextHandle_view] simp_thms)
  then show ?thesis using next_handle(1) [OF assms(2) order_refl] by auto
qed

lemma nextHandle_work:
  assumes "work r r'" shows "nextHandle r' = nextHandle r"
  using assms by cases (simp_all only: handleView_all [THEN nextHandle_view])

section \<open>Waiters are for allocated handles\<close>

definition waits :: "reactor \<Rightarrow> u64 \<Rightarrow> bool" where
  "waits r h \<longleftrightarrow> hasWaiter h (udpReads r) \<or> hasWaiter h (udpWrites r) \<or> hasWaiter h (accepts r) \<or> hasWaiter h (packetWrites r)"

lemma waits_view:
  assumes "udpView r' = udpView r" "listenerView r' = listenerView r" "packetView r' = packetView r"
  shows "waits r' h = waits r h"
proof -
  have "udpReads r' = udpReads r" "udpWrites r' = udpWrites r" "accepts r' = accepts r" "packetWrites r' = packetWrites r"
    using assms unfolding udpView_def listenerView_def packetView_def by (metis prod.inject)+
  then show ?thesis by (simp add: waits_def)
qed

lemma hasWaiter_restrict: "hasWaiter h (\<lambda>i. if P i then None else m i) \<Longrightarrow> hasWaiter h m"
  by (auto simp: hasWaiter_iff split: if_splits)

lemma waits_start:
  "waits (snd (StartUDPReceive handle operation r)) h \<Longrightarrow> waits r h \<or> h = handle \<and> names DatagramHandle r handle"
  "waits (snd (StartUDPSendReady handle operation r)) h \<Longrightarrow> waits r h \<or> h = handle \<and> names DatagramHandle r handle"
  "waits (snd (StartTCPAccept handle operation r)) h \<Longrightarrow> waits r h \<or> h = handle \<and> names ListenerHandle r handle"
  "waits (snd (StartPacketWriteReady handle operation r)) h \<Longrightarrow> waits r h \<or> h = handle \<and> names PacketHandle r handle"
  by (auto simp: waits_def udp_defs listener_defs packet_defs helper_defs Let_def dest: hasWaiter_other
      split: option.splits outcome.splits if_splits)

lemma waits_less:
  "waits (snd (TakeUDPReceive operation capacity r)) h \<Longrightarrow> waits r h"
  "waits (snd (TakeUDPSendReady operation r)) h \<Longrightarrow> waits r h"
  "waits (runUDPReceive handle d err data peer r) h \<Longrightarrow> waits r h"
  "waits (runUDPSends_mark handle d request r) h \<Longrightarrow> waits r h"
  "waits (runUDPSends_done handle d request n err r) h \<Longrightarrow> waits r h"
  "waits (runTCPAccept handle l result r) h \<Longrightarrow> waits r h"
  "waits (snd (TakeTCPAccept operation r)) h \<Longrightarrow> waits r h"
  "waits (snd (TakePacketWriteReady operation r)) h \<Longrightarrow> waits r h"
  "waits (snd (receiveAttempt handle r)) h \<Longrightarrow> waits r h"
  by (auto simp: waits_def udp_defs listener_defs accept_defs packet_defs helper_defs Let_def case_prod_beta dest: hasWaiter_less
      split: option.splits list.splits outcome.splits sum.splits if_splits)

lemma waits_UnregisterPacketSink: "waits (UnregisterPacketSink handle r) h \<Longrightarrow> waits r h"
  by (auto simp: waits_def UnregisterPacketSink_def updSink_def Let_def dest: hasWaiter_restrict split: option.splits)

lemma waits_CancelOperation: "waits (CancelOperation operation r) h \<Longrightarrow> waits r h"
proof -
  assume *: "waits (CancelOperation operation r) h"
  have "hasWaiter h (udpReads (CancelOperation operation r)) \<Longrightarrow> hasWaiter h (udpReads r)"
    "hasWaiter h (udpWrites (CancelOperation operation r)) \<Longrightarrow> hasWaiter h (udpWrites r)"
    using CancelOperation_udpView [of operation r]
    by (auto simp: udpView_def dest: hasWaiter_less split: option.splits operationKind.splits)
  moreover have "hasWaiter h (accepts (CancelOperation operation r)) \<Longrightarrow> hasWaiter h (accepts r)"
    using CancelOperation_listenerView [of operation r]
    by (auto simp: listenerView_def dest: hasWaiter_less split: option.splits operationKind.splits)
  moreover have "hasWaiter h (packetWrites (CancelOperation operation r)) \<Longrightarrow> hasWaiter h (packetWrites r)"
    using CancelOperation_packetView [of operation r]
    by (auto simp: packetView_def dest: hasWaiter_less split: option.splits operationKind.splits)
  ultimately show ?thesis using * by (auto simp: waits_def)
qed

lemma waits_CloseHandle: "waits (CloseHandle_begin handle r) h = waits r h" "waits (CloseHandle_continue action r) h = waits r h"
proof -
  show "waits (CloseHandle_continue action r) h = waits r h"
    by (rule CloseHandle_continue_eq [of action r]) (simp add: waits_def)
  have b: "waits (CloseHandle_begin handle r) h = waits (snd (CloseHandle_locked handle r)) h"
    by (simp add: CloseHandle_begin_eq waits_def)
  have "waits (snd (closeDatagramHandle handle r)) h = waits r h" for r
    by (simp add: waits_def closeDatagram_defs split: option.splits)
  moreover have "waits (snd (closeListenerHandle handle r)) h = waits r h" for r
    by (simp add: waits_def closeListener_defs helper_defs Let_def split: option.splits)
  moreover have "waits (snd (closeStreamHandle handle r)) h = waits r h" for r
    by (rule waits_view) simp_all
  ultimately show "waits (CloseHandle_begin handle r) h = waits r h" by (simp add: b snd_CloseHandle)
qed

lemma waits_receiveWake:
  assumes "receiveWake wake sink handle r = Some (result, r')" "waits r' h" shows "waits r h"
proof (cases wake)
  case OnAvailable
  let ?r = "updSink sink (\<lambda>st. st\<lparr>ps_available := False\<rparr>) r"
  have "r' = snd (receiveAttempt handle ?r)" using assms(1) OnAvailable by (auto split: if_splits)
  with assms(2) have "waits ?r h" using waits_less(9) by blast
  then show ?thesis by (simp add: waits_def updSink_def)
qed (use assms in \<open>auto split: if_splits\<close>)

definition waitersBelow :: "reactor \<Rightarrow> bool" where
  "waitersBelow r \<longleftrightarrow> (\<forall>h. waits r h \<longrightarrow> h \<le> nextHandle r)"

lemma waitersBelow_call:
  assumes "call r r'" "handlesLeft r" "handlesInv r" "waitersBelow r" shows "waitersBelow r'"
proof -
  have "waits r h \<or> (\<exists>k. names k r h)" if w: "waits r' h" for h
    using assms(1)
  proof cases
    case call_CloseBegin
    then show ?thesis using w by (auto simp: CloseBegin_def waits_def hasWaiter_def split: if_splits)
  next
    case call_StartUDPReceive
    then show ?thesis using w waits_start(1) by blast
  next
    case call_StartUDPSendReady
    then show ?thesis using w waits_start(2) by blast
  next
    case call_StartTCPAccept
    then show ?thesis using w waits_start(3) by blast
  next
    case call_StartPacketWriteReady
    then show ?thesis using w waits_start(4) by blast
  next
    case call_TakeUDPReceive
    then show ?thesis using w waits_less(1) by blast
  next
    case call_TakeUDPSendReady
    then show ?thesis using w waits_less(2) by blast
  next
    case call_TakeTCPAccept
    then show ?thesis using w waits_less(7) by blast
  next
    case call_TakePacketWriteReady
    then show ?thesis using w waits_less(8) by blast
  next
    case call_receiveAttempt
    then show ?thesis using w waits_less(9) by blast
  next
    case call_receiveWake
    then show ?thesis using w waits_receiveWake by blast
  next
    case call_UnregisterPacketSink
    then show ?thesis using w waits_UnregisterPacketSink by blast
  next
    case call_CancelOperation
    then show ?thesis using w waits_CancelOperation by blast
  next
    case call_TakeUDPBind
    then show ?thesis using w by (auto simp: waits_def bind_defs helper_defs Let_def split: option.splits if_splits)
  next
    case call_TakeTCPListen
    then show ?thesis using w by (auto simp: waits_def listen_defs helper_defs Let_def split: option.splits if_splits)
  next
    case call_TryUDPSend
    then show ?thesis using w by (auto simp: waits_def udp_defs helper_defs Let_def split: option.splits if_splits)
  next
    case call_RegisterPacketSink
    then show ?thesis using w by (auto simp: waits_def packet_defs helper_defs Let_def split: option.splits if_splits)
  next
    case call_RegisterEventSink
    then show ?thesis using w by (auto simp: waits_def packet_defs helper_defs Let_def split: option.splits if_splits)
  next
    case call_UnregisterEventSink
    then show ?thesis using w by (simp add: waits_def packet_defs)
  next
    case call_TryPacketWrite
    then show ?thesis using w by (auto simp: waits_def packet_defs helper_defs Let_def split: option.splits if_splits)
  qed (use w waits_view [of r' r h] waits_CloseHandle in \<open>simp_all\<close>)
  then show ?thesis
    using assms(4) handlesInvD(1) [OF assms(3)] nextHandle_call [OF assms(1,2)]
    unfolding waitersBelow_def by (meson order.trans)
qed

lemma waitersBelow_work:
  assumes "work r r'" "waitersBelow r" shows "waitersBelow r'"
proof -
  have "waits r h" if w: "waits r' h" for h
    using assms(1)
  proof cases
    case work_range
    then show ?thesis using w by (auto simp: waits_def udp_defs helper_defs Let_def split: list.splits if_splits)
  next
    case work_mark
    then show ?thesis using w waits_less(4) by blast
  next
    case work_sent
    then show ?thesis using w waits_less(5) by blast
  next
    case work_receive
    then show ?thesis using w waits_less(3) by blast
  next
    case work_accept
    then show ?thesis using w waits_less(6) by blast
  qed (use w waits_view [of r' r h] in \<open>simp_all\<close>)
  then show ?thesis using assms(2) nextHandle_work [OF assms(1)] by (simp add: waitersBelow_def)
qed

lemma waitersBelow_reachable: "reachable options r \<Longrightarrow> waitersBelow r"
proof (erule reachable_invariant)
  have "udpReads (New options) = Map.empty \<and> udpWrites (New options) = Map.empty \<and> accepts (New options) = Map.empty \<and>
      packetWrites (New options) = Map.empty"
    by (rule New_induct) (simp_all add: emptyReactor_def addStream_def addDatagram_def receiveResource_def)
  then show "waitersBelow (New options)" by (simp add: waitersBelow_def waits_def hasWaiter_def)
qed (auto intro: waitersBelow_call waitersBelow_work handlesInv_reachable)

text \<open>Nobody waits on the handle that is allocated next.\<close>

lemma no_waiter_on_fresh_handle:
  assumes "waitersBelow r" "handlesLeft r" shows "\<not> waits r (nextHandle r + 1)"
  using assms next_handle(2) unfolding waitersBelow_def by blast

end
