(* ===== verification/ReactorUdpInv.thy ===== *)
theory ReactorUdpInv
  imports ReactorWaiters "HOL-Library.Multiset"
begin

text \<open>
  The invariants of datagram sockets. \<open>recvRel\<close> ties the receiving flag of a socket to its receiver goroutine,
  \<open>sendRel\<close> ties a socket, live or draining, to its one sender goroutine. On top of them stand the bounds of the two
  queues and that nobody who waits is forgotten.
\<close>
section \<open>Receivers\<close>

definition recvRel :: "ref \<Rightarrow> (u64 \<rightharpoonup> ref) \<Rightarrow> (ref \<Rightarrow> bool) \<Rightarrow> (u64 \<times> ref) list \<Rightarrow> bool" where
  "recvRel n dg run T \<longleftrightarrow>
     distinct (map snd T) \<and>
     (\<forall>h d. dg h = Some d \<longrightarrow> d < n \<and> (run d \<longleftrightarrow> (h, d) \<in> set T)) \<and>
     (\<forall>(h, d) \<in> set T. d < n \<and> (\<forall>h'. dg h' = Some d \<longrightarrow> h' = h)) \<and>
     (\<forall>h h' d. dg h = Some d \<longrightarrow> dg h' = Some d \<longrightarrow> h = h')"

lemma recvRelI:
  assumes "distinct (map snd T)"
    and "\<And>h d. dg h = Some d \<Longrightarrow> d < n" and "\<And>h d. dg h = Some d \<Longrightarrow> run d \<longleftrightarrow> (h, d) \<in> set T"
    and "\<And>h d. (h, d) \<in> set T \<Longrightarrow> d < n" and "\<And>h h' d. (h, d) \<in> set T \<Longrightarrow> dg h' = Some d \<Longrightarrow> h' = h"
    and "\<And>h h' d. dg h = Some d \<Longrightarrow> dg h' = Some d \<Longrightarrow> h = h'"
  shows "recvRel n dg run T"
  unfolding recvRel_def
  by (intro conjI allI impI ballI; (clarify | rule assms(1))?; (rule assms, assumption+ | intro conjI allI impI)?) (use assms in blast)+

lemma recvRelD:
  assumes "recvRel n dg run T"
  shows "distinct (map snd T)"
    and "dg h = Some d \<Longrightarrow> d < n" and "dg h = Some d \<Longrightarrow> run d \<longleftrightarrow> (h, d) \<in> set T"
    and "(h, d) \<in> set T \<Longrightarrow> d < n" and "(h, d) \<in> set T \<Longrightarrow> dg h' = Some d \<Longrightarrow> h' = h"
    and "dg h = Some d \<Longrightarrow> dg h' = Some d \<Longrightarrow> h = h'"
  using assms unfolding recvRel_def by blast+

lemma recvRel_mono: "recvRel n dg run T \<Longrightarrow> n \<le> m \<Longrightarrow> recvRel m dg run T"
  by (rule recvRelI) (meson recvRelD order.strict_trans2)+

lemma recvRel_start:
  assumes "recvRel n dg run T" "dg h = Some d" "\<not> run d"
  shows "recvRel n dg (run(d := True)) ((h, d) # T)"
proof -
  note D = recvRelD [OF assms(1)]
  have "d \<notin> snd ` set T" using assms(2,3) D(3) D(5) by fastforce
  then show ?thesis using assms(2) D(1)
    by (intro recvRelI) (auto split: if_splits dest: D(2-6))
qed

lemma recvRel_end:
  assumes "recvRel n dg run T" "(h, d) \<in> set T"
  shows "recvRel n dg (if dg h = Some d then run(d := False) else run) (remove1 (h, d) T)"
proof -
  note D = recvRelD [OF assms(1)]
  have m: "(h', d') \<in> set (remove1 (h, d) T) \<longleftrightarrow> d' \<noteq> d \<and> (h', d') \<in> set T" for h' d'
  proof
    assume *: "(h', d') \<in> set (remove1 (h, d) T)"
    then have "d' \<in> snd ` set (remove1 (h, d) T)" by force
    with * show "d' \<noteq> d \<and> (h', d') \<in> set T"
      using distinct_map_remove1 [OF D(1) assms(2)] notin_set_remove1 by auto
  qed (simp add: in_set_remove1)
  show ?thesis
    using distinct_map_remove1 [OF D(1) assms(2)] assms(2) D(5) [OF assms(2)]
    by (intro recvRelI) (auto simp: m split: if_splits dest: D(2-6))
qed

lemma recvRel_drop:
  assumes "recvRel n dg run T" shows "recvRel n (dg(h := None)) run T"
proof -
  note D = recvRelD [OF assms(1)]
  show ?thesis using D(1) by (intro recvRelI) (auto split: if_splits dest: D(2-6))
qed

lemma recvRel_new:
  assumes "recvRel n dg run T" "dg h = None" shows "recvRel (Suc n) (dg(h \<mapsto> n)) (run(n := False)) T"
proof -
  note D = recvRelD [OF assms(1)]
  have "(h', n) \<notin> set T" "dg h' \<noteq> Some n" for h' using D(4) D(2) by blast+
  then show ?thesis using D(1) by (intro recvRelI) (auto split: if_splits intro: less_SucI dest: D(2-6))
qed

section \<open>The invariant of receiving\<close>

text \<open>\<open>asked\<close> says whether somebody asked for a datagram of the socket.\<close>

definition recvOk :: "bool \<Rightarrow> datagramState \<Rightarrow> bool" where
  "recvOk asked st \<longleftrightarrow>
     length (ds_received st) \<le> udpReceiveQueueCapacity \<and>
     (ds_receiveRunning st \<longrightarrow> length (ds_received st) < udpReceiveQueueCapacity) \<and>
     (asked \<and> ds_receiveErr st = None \<and> length (ds_received st) < udpReceiveQueueCapacity \<longrightarrow> ds_receiveRunning st)"

definition recvInv :: "reactor \<Rightarrow> bool" where
  "recvInv r \<longleftrightarrow> closed r \<or>
     recvRel (nextRef r) (datagrams r) (ds_receiveRunning \<circ> datagramAt r) (receiveTasks r) \<and>
     (\<forall>h d. datagrams r h = Some d \<longrightarrow> recvOk (hasWaiter h (udpReads r)) (datagramAt r d))"

lemma recvInvI:
  assumes "recvRel (nextRef r) (datagrams r) (ds_receiveRunning \<circ> datagramAt r) (receiveTasks r)"
    and "\<And>h d. datagrams r h = Some d \<Longrightarrow> recvOk (hasWaiter h (udpReads r)) (datagramAt r d)"
  shows "recvInv r"
  using assms by (simp add: recvInv_def)

lemma recvInvD:
  assumes "recvInv r" "\<not> closed r"
  shows "recvRel (nextRef r) (datagrams r) (ds_receiveRunning \<circ> datagramAt r) (receiveTasks r)"
    and "datagrams r h = Some d \<Longrightarrow> recvOk (hasWaiter h (udpReads r)) (datagramAt r d)"
  using assms by (auto simp: recvInv_def)

definition recvPart :: "datagramState \<Rightarrow> Datagram list \<times> bool \<times> goerror option" where
  "recvPart st = (ds_received st, ds_receiveRunning st, ds_receiveErr st)"

definition recvView where
  "recvView (r :: reactor) = (closed r, datagrams r, udpReads r, recvPart \<circ> datagramAt r, receiveTasks r)"

lemma recvView_udpView: "udpView r' = udpView r \<Longrightarrow> recvView r' = recvView r"
  by (simp add: recvView_def udpView_def)

lemma recvOk_part: "recvPart st' = recvPart st \<Longrightarrow> recvOk b st' = recvOk b st"
  by (simp add: recvOk_def recvPart_def)

lemma recvPart_upd [simp]: "recvPart x = recvPart (f d) \<Longrightarrow> recvPart \<circ> f(d := x) = recvPart \<circ> f"
  by (simp add: fun_eq_iff)

lemma recvOk_less: "recvOk b st \<Longrightarrow> (b' \<Longrightarrow> b) \<Longrightarrow> recvOk b' st"
  by (auto simp: recvOk_def)

lemma recvInv_view:
  assumes "recvView r' = recvView r" "nextRef r \<le> nextRef r'" "recvInv r"
  shows "recvInv r'"
proof (cases "closed r")
  case False
  have v: "closed r' = closed r" "datagrams r' = datagrams r" "udpReads r' = udpReads r" "receiveTasks r' = receiveTasks r"
    and p: "\<And>d. recvPart (datagramAt r' d) = recvPart (datagramAt r d)"
    using assms(1) by (simp_all add: recvView_def fun_eq_iff)
  have "ds_receiveRunning \<circ> datagramAt r' = ds_receiveRunning \<circ> datagramAt r"
    using p by (simp add: recvPart_def fun_eq_iff)
  then show ?thesis
    using recvInvD [OF assms(3) False] recvRel_mono [OF _ assms(2)] recvOk_part [OF p]
    by (intro recvInvI) (simp_all add: v)
qed (use assms(1) in \<open>simp add: recvInv_def recvView_def\<close>)

lemma recvInv_less:
  assumes "recvInv r" "closed r' = closed r" "nextRef r' = nextRef r" "datagrams r' = datagrams r" "receiveTasks r' = receiveTasks r"
    "datagramAt r' = datagramAt r" "\<And>h. hasWaiter h (udpReads r') \<Longrightarrow> hasWaiter h (udpReads r)"
  shows "recvInv r'"
proof (cases "closed r")
  case False
  show ?thesis
    by (rule recvInvI) (use recvInvD [OF assms(1) False] assms(3-7) recvOk_less in \<open>simp_all, blast\<close>)
qed (use assms(2) in \<open>simp add: recvInv_def\<close>)

lemma recvInv_at:
  assumes "recvInv r" "\<not> closed r" "datagrams r' = datagrams r" "datagramAt r' = (datagramAt r)(d := st)"
    and "\<And>h. hasWaiter h (udpReads r') = hasWaiter h (udpReads r)"
    and "recvRel (nextRef r') (datagrams r) (ds_receiveRunning \<circ> (datagramAt r)(d := st)) (receiveTasks r')"
    and "recvOk (hasWaiter handle (udpReads r)) st" "\<And>h. datagrams r h = Some d \<Longrightarrow> h = handle"
  shows "recvInv r'"
proof (rule recvInvI)
  show "recvOk (hasWaiter h (udpReads r')) (datagramAt r' d')" if d: "datagrams r' h = Some d'" for h d'
  proof (cases "d' = d")
    case True
    with d assms(3) have "h = handle" using assms(8) by metis
    then show ?thesis using assms(4,5,7) True by simp
  next
    case False
    then show ?thesis using d recvInvD(2) [OF assms(1,2), of h d'] assms(3-5) by simp
  qed
qed (use assms(3,4,6) in simp_all)

text \<open>Starting the receiver restores what a new waiter or a freed place asks for.\<close>

lemma recvInv_startUDPReceiver:
  assumes rel: "recvRel (nextRef r) (datagrams r) (ds_receiveRunning \<circ> datagramAt r) (receiveTasks r)"
    and d: "datagrams r h = Some d" and b: "b \<Longrightarrow> \<not> ds_receiveRunning (datagramAt r d)"
    and others: "\<And>h' d'. datagrams r h' = Some d' \<Longrightarrow> d' \<noteq> d \<Longrightarrow> recvOk (hasWaiter h' (udpReads r)) (datagramAt r d')"
    and own: "b \<Longrightarrow> length (ds_received (datagramAt r d)) < udpReceiveQueueCapacity"
      "\<not> b \<Longrightarrow> recvOk (hasWaiter h (udpReads r)) (datagramAt r d)"
  shows "recvInv (startUDPReceiver b h d r)"
proof (cases b)
  case True
  have u: "h' = h" if "datagrams r h' = Some d" for h' using recvRelD(6) [OF rel that d] .
  show ?thesis
    using recvRel_start [OF rel d] b [OF True] others own(1) [OF True] u True
    by (intro recvInvI) (auto simp: startUDPReceiver_def updDatagram_def fun_upd_comp recvOk_def)
next
  case False
  show ?thesis
    using recvRelD(6) [OF rel _ d] others own(2) [OF False] rel False
    by (intro recvInvI) (auto simp: startUDPReceiver_def)
qed

lemma recvInv_signalIf [simp]: "recvInv (signalIf b r) = recvInv r"
  by (simp add: recvInv_def signalIf_def signalCompletion_def)

lemma recvInv_StartUDPReceive:
  assumes "recvInv r" shows "recvInv (snd (StartUDPReceive handle operation r))"
proof (cases "datagrams r handle = None \<or> closed r \<or> operations r operation \<noteq> None")
  case False
  then obtain d where d: "datagrams r handle = Some d" and nc: "\<not> closed r" and "operations r operation = None" by auto
  define state where "state = datagramAt r d"
  define w where "w = \<lparr>w_handle = handle, w_ready = ds_received state \<noteq> [] \<or> ds_receiveErr state \<noteq> None\<rparr>"
  define r1 where "r1 = r\<lparr>operations := (operations r)(operation \<mapsto> operationUDPRead), udpReads := (udpReads r)(operation \<mapsto> w)\<rparr>"
  define b where "b \<longleftrightarrow> ds_receiveErr state = None \<and> length (ds_received state) < udpReceiveQueueCapacity \<and> \<not> ds_receiveRunning state"
  have e: "snd (StartUDPReceive handle operation r) = signalIf (w_ready w) (startUDPReceiver b handle d r1)"
    using False d by (simp add: StartUDPReceive_def claimOperationLocked_def Let_def r1_def w_def b_def state_def)
  note i = recvInvD [OF assms nc]
  have "recvInv (startUDPReceiver b handle d r1)"
  proof (rule recvInv_startUDPReceiver)
    show "recvOk (hasWaiter h' (udpReads r1)) (datagramAt r1 d')" if "datagrams r1 h' = Some d'" "d' \<noteq> d" for h' d'
    proof (rule recvOk_less)
      show "recvOk (hasWaiter h' (udpReads r)) (datagramAt r1 d')" using that i(2) by (simp add: r1_def)
      show "hasWaiter h' (udpReads r)" if "hasWaiter h' (udpReads r1)"
        using that \<open>datagrams r1 h' = Some d'\<close> \<open>d' \<noteq> d\<close> d
        by (intro hasWaiter_other [of h' "udpReads r" operation w]) (auto simp: r1_def w_def)
    qed
    show "recvOk (hasWaiter handle (udpReads r1)) (datagramAt r1 d)" if "\<not> b"
      using that i(2) [OF d] by (auto simp: r1_def b_def recvOk_def state_def)
  qed (use i(1) d in \<open>simp_all add: r1_def b_def state_def\<close>)
  then show ?thesis by (simp add: e)
qed (use assms in \<open>auto simp: StartUDPReceive_def claimOperationLocked_def split: option.splits\<close>)

lemma TakeUDPReceive_cases:
  obtains (idle) "snd (TakeUDPReceive operation capacity r) = r"
  | (gone) w where "udpReads r operation = Some w" "datagrams r (w_handle w) = None"
      "snd (TakeUDPReceive operation capacity r) =
         r\<lparr>udpReads := (udpReads r)(operation := None), operations := (operations r)(operation := None)\<rparr>"
  | (served) w d st where "udpReads r operation = Some w" "datagrams r (w_handle w) = Some d"
      "st = (datagramAt r d)\<lparr>ds_receiveErr := None\<rparr> \<and> ds_received (datagramAt r d) = [] \<or>
       st = (datagramAt r d)\<lparr>ds_received := tl (ds_received (datagramAt r d))\<rparr> \<and> ds_received (datagramAt r d) \<noteq> []"
      "snd (TakeUDPReceive operation capacity r) =
         startUDPReceiver (length (ds_received st) < udpReceiveQueueCapacity \<and> \<not> ds_receiveRunning (datagramAt r d) \<and>
             hasWaiter (w_handle w) ((udpReads r)(operation := None)))
           (w_handle w) d
           (r\<lparr>datagramAt := (datagramAt r)(d := st), udpReads := (udpReads r)(operation := None),
              operations := (operations r)(operation := None)\<rparr>)"
proof (cases "udpReads r operation")
  case (Some w)
  show thesis
  proof (cases "operations r operation = Some operationUDPRead")
    case op: True
    show thesis
    proof (cases "datagrams r (w_handle w)")
      case None
      show thesis
        by (rule gone [OF Some None]) (simp add: TakeUDPReceive_def Some op None Let_def releaseOperationLocked_def)
    next
      case d: (Some d)
      show thesis
      proof (cases "ds_received (datagramAt r d)")
        case Nil
        show thesis
        proof (cases "ds_receiveErr (datagramAt r d)")
          case None
          show thesis by (rule idle) (simp add: TakeUDPReceive_def Some op None d Nil Let_def)
        next
          case err: (Some e)
          show thesis
            by (rule served [OF Some d, of "(datagramAt r d)\<lparr>ds_receiveErr := None\<rparr>"])
               (simp_all add: TakeUDPReceive_def Some op d Nil err Let_def releaseOperationLocked_def updDatagram_def
                  hasUDPReadWaiterLocked_def)
        qed
      next
        case (Cons datagram received)
        show thesis
          by (rule served [OF Some d, of "(datagramAt r d)\<lparr>ds_received := tl (ds_received (datagramAt r d))\<rparr>"])
             (simp_all add: TakeUDPReceive_def Some op d Cons Let_def releaseOperationLocked_def updDatagram_def
                hasUDPReadWaiterLocked_def)
      qed
    qed
  qed (use idle Some in \<open>simp add: TakeUDPReceive_def\<close>)
qed (use idle in \<open>simp add: TakeUDPReceive_def\<close>)

lemma recvInv_TakeUDPReceive:
  assumes "recvInv r" shows "recvInv (snd (TakeUDPReceive operation capacity r))"
proof (cases "closed r")
  case True
  have "closed (snd (TakeUDPReceive operation capacity r))"
    using handleView_udp(2) [of operation capacity r] handleView_closed True by blast
  then show ?thesis by (simp add: recvInv_def)
next
  case False
  note i = recvInvD [OF assms False]
  show ?thesis
  proof (cases rule: TakeUDPReceive_cases [of operation capacity r])
    case idle
    then show ?thesis using assms by simp
  next
    case (gone w)
    show ?thesis unfolding gone(3)
      by (rule recvInv_less [OF assms]) (auto dest: hasWaiter_less)
  next
    case (served w d st)
    have st: "ds_receiveRunning st = ds_receiveRunning (datagramAt r d)" using served(3) by auto
    have run: "ds_receiveRunning \<circ> (datagramAt r)(d := st) = ds_receiveRunning \<circ> datagramAt r" using st by (simp add: fun_eq_iff)
    show ?thesis unfolding served(4)
    proof (rule recvInv_startUDPReceiver; simp add: run i(1) served(2) st)
      show "recvOk (hasWaiter h' ((udpReads r)(operation := None))) (datagramAt r d')"
        if "datagrams r h' = Some d'" for h' d'
        using recvOk_less [OF i(2) [OF that]] hasWaiter_less by blast
      show "recvOk (hasWaiter (w_handle w) ((udpReads r)(operation := None))) st"
        if "length (ds_received st) < udpReceiveQueueCapacity \<longrightarrow> ds_receiveRunning (datagramAt r d) \<or>
            \<not> hasWaiter (w_handle w) ((udpReads r)(operation := None))"
        using i(2) [OF served(2)] that served(3) by (auto simp: recvOk_def)
    qed
  qed
qed

lemma runUDPReceive_frame:
  "nextRef (runUDPReceive handle d err data peer r) = nextRef r" "datagrams (runUDPReceive handle d err data peer r) = datagrams r"
  "hasWaiter h (udpReads (runUDPReceive handle d err data peer r)) = hasWaiter h (udpReads r)"
  by (simp_all add: runUDPReceive_def case_prod_beta Let_def helper_defs updDatagram_def)

lemma runUDPReceive_live:
  assumes "datagrams r handle = Some d"
  obtains (failed) e where
      "datagramAt (runUDPReceive handle d err data peer r) =
         (datagramAt r)(d := (datagramAt r d)\<lparr>ds_receiveErr := Some e, ds_receiveRunning := False\<rparr>)"
      "receiveTasks (runUDPReceive handle d err data peer r) = remove1 (handle, d) (receiveTasks r)"
  | (more) x where
      "datagramAt (runUDPReceive handle d err data peer r) =
         (datagramAt r)(d := (datagramAt r d)\<lparr>ds_received := ds_received (datagramAt r d) @ [x]\<rparr>)"
      "receiveTasks (runUDPReceive handle d err data peer r) = receiveTasks r"
      "Suc (length (ds_received (datagramAt r d))) < udpReceiveQueueCapacity"
  | (enough) x where
      "datagramAt (runUDPReceive handle d err data peer r) =
         (datagramAt r)(d := (datagramAt r d)\<lparr>ds_received := ds_received (datagramAt r d) @ [x], ds_receiveRunning := False\<rparr>)"
      "receiveTasks (runUDPReceive handle d err data peer r) = remove1 (handle, d) (receiveTasks r)"
      "hasWaiter handle (udpReads r) \<Longrightarrow> \<not> Suc (length (ds_received (datagramAt r d))) < udpReceiveQueueCapacity"
proof (cases "err = None \<and> (\<exists>a. peer = NetUDPAddr a)")
  case True
  then obtain a where a: "err = None" "peer = NetUDPAddr a" by blast
  show thesis
  proof (cases "hasWaiter handle (udpReads r) \<and> Suc (length (ds_received (datagramAt r d))) < udpReceiveQueueCapacity")
    case True
    show thesis
      by (rule more [of "\<lparr>dg_Data = data, dg_Peer = a\<rparr>"])
         (use True assms in \<open>simp_all add: a runUDPReceive_def Let_def helper_defs updDatagram_def\<close>)
  next
    case False
    show thesis
      by (rule enough [of "\<lparr>dg_Data = data, dg_Peer = a\<rparr>"])
         (use False assms in \<open>auto simp: a runUDPReceive_def Let_def helper_defs updDatagram_def\<close>)
  qed
next
  case False
  then obtain e where "(case err of Some e \<Rightarrow> (Some e, []) | None \<Rightarrow> (case peer of
      NetUDPAddr udpPeer \<Rightarrow> (None, [\<lparr>dg_Data = data, dg_Peer = udpPeer\<rparr>])
    | _ \<Rightarrow> (Some (Errorf ''unsupported UDP peer address'' []), []))) = (Some e, [])"
    by (cases err; cases peer) auto
  then show thesis
    by (intro failed [of e]) (use assms in \<open>simp_all add: runUDPReceive_def Let_def helper_defs updDatagram_def\<close>)
qed

lemma recvInv_runUDPReceive:
  assumes "recvInv r" "(handle, d) \<in> set (receiveTasks r)"
  shows "recvInv (runUDPReceive handle d err data peer r)"
proof (cases "closed r")
  case True
  have "closed (runUDPReceive handle d err data peer r)"
    using handleView_udp(6) [of handle d err data peer r] handleView_closed True by blast
  then show ?thesis by (simp add: recvInv_def)
next
  case False
  note i = recvInvD [OF assms(1) False]
  note e = recvRel_end [OF i(1) assms(2)]
  show ?thesis
  proof (cases "datagrams r handle = Some d")
    case gone: False
    then show ?thesis using e i(2)
      by (intro recvInvI) (simp_all add: runUDPReceive_def case_prod_beta Let_def)
  next
    case True
    have u: "h = handle" if "datagrams r h = Some d" for h using recvRelD(5) [OF i(1) assms(2) that] .
    have run: "ds_receiveRunning (datagramAt r d)" using recvRelD(3) [OF i(1) True] assms(2) by simp
    with i(2) [OF True] have len: "length (ds_received (datagramAt r d)) < udpReceiveQueueCapacity" by (simp add: recvOk_def)
    note at = recvInv_at [where handle = handle and r' = "runUDPReceive handle d err data peer r" and d = d,
        OF assms(1) False runUDPReceive_frame(2) _ runUDPReceive_frame(3)]
    from True show ?thesis
    proof (cases rule: runUDPReceive_live [where err = err and data = data and peer = peer])
      case (failed x)
      show ?thesis
        by (rule at [OF failed(1)])
          (use e True i(2) [OF True] in \<open>simp_all add: runUDPReceive_frame failed(2) fun_upd_comp recvOk_def u\<close>)
    next
      case (more x)
      show ?thesis
        by (rule at [OF more(1)])
          (use i(1) i(2) [OF True] run more(3) in \<open>simp_all add: runUDPReceive_frame more(2) fun_upd_comp recvOk_def u\<close>)
    next
      case (enough x)
      show ?thesis
        by (rule at [OF enough(1)])
          (use e True i(2) [OF True] len enough(3) in \<open>simp_all add: runUDPReceive_frame enough(2) fun_upd_comp recvOk_def u\<close>)
    qed
  qed
qed

lemma hasWaiter_udpReads_less:
  "hasWaiter h (udpReads (CancelOperation operation r)) \<Longrightarrow> hasWaiter h (udpReads r)"
  using CancelOperation_udpView [of operation r]
  by (auto simp: udpView_def dest: hasWaiter_less split: option.splits operationKind.splits)

lemma recvInv_CancelOperation:
  assumes "recvInv r" shows "recvInv (CancelOperation operation r)"
proof (rule recvInv_less [OF assms])
  show "hasWaiter h (udpReads (CancelOperation operation r)) \<Longrightarrow> hasWaiter h (udpReads r)" for h
    by (rule hasWaiter_udpReads_less)
qed (use CancelOperation_udpView [of operation r] in \<open>simp_all add: udpView_def split: option.splits operationKind.splits\<close>)

lemma recvInv_addDatagram:
  assumes "recvInv r" "datagrams r h = None" "\<not> hasWaiter h (udpReads r)"
  shows "recvInv (addDatagram h connection r)"
proof (cases "closed r")
  case False
  note i = recvInvD [OF assms(1) False]
  have new: "d \<noteq> nextRef r" if "datagrams r h' = Some d" for h' d using recvRelD(2) [OF i(1) that] by simp
  show ?thesis
  proof (rule recvInvI)
    show "recvRel (nextRef (addDatagram h connection r)) (datagrams (addDatagram h connection r))
        (ds_receiveRunning \<circ> datagramAt (addDatagram h connection r)) (receiveTasks (addDatagram h connection r))"
      using recvRel_new [OF i(1) assms(2)] by (simp add: addDatagram_def fun_upd_comp newDatagramState_def)
    show "recvOk (hasWaiter h' (udpReads (addDatagram h connection r))) (datagramAt (addDatagram h connection r) d)"
      if "datagrams (addDatagram h connection r) h' = Some d" for h' d
    proof (cases "h' = h")
      case True
      then show ?thesis using that assms(3)
        by (simp add: addDatagram_def recvOk_def newDatagramState_def udpReceiveQueueCapacity_def)
    next
      case False
      then show ?thesis using that i(2) [of h' d] new [of h' d] by (simp add: addDatagram_def)
    qed
  qed
qed (simp add: recvInv_def addDatagram_def)

lemma recvInv_closeDatagramHandle:
  assumes "recvInv r" shows "recvInv (snd (closeDatagramHandle handle r))"
proof (cases "closed r \<or> datagrams r handle = None")
  case True
  then show ?thesis using assms by (auto simp: closeDatagram_defs recvInv_def split: option.splits)
next
  case False
  then obtain d where d: "datagrams r handle = Some d" and nc: "\<not> closed r" by auto
  note i = recvInvD [OF assms nc]
  define r' where "r' = snd (closeDatagramHandle handle r)"
  have e: "nextRef r' = nextRef r" "datagrams r' = (datagrams r)(handle := None)" "receiveTasks r' = receiveTasks r"
    "udpReads r' = udpReads r" "datagramAt r' = datagramAt r"
    by (simp_all add: r'_def closeDatagram_defs d)
  have p: "recvPart (datagramAt r' x) = recvPart (datagramAt r x)" for x by (simp add: e recvPart_def)
  have run: "ds_receiveRunning \<circ> datagramAt r' = ds_receiveRunning \<circ> datagramAt r" by (simp add: e fun_eq_iff)
  have "recvInv r'"
  proof (rule recvInvI)
    show "recvRel (nextRef r') (datagrams r') (ds_receiveRunning \<circ> datagramAt r') (receiveTasks r')"
      unfolding run using recvRel_drop [OF i(1)] by (simp add: e(1-3))
    show "recvOk (hasWaiter h (udpReads r')) (datagramAt r' d')" if "datagrams r' h = Some d'" for h d'
      using that i(2) [of h d'] recvOk_part [OF p] by (simp add: e(2,4) split: if_splits)
  qed
  then show ?thesis by (simp add: r'_def)
qed

lemma udpView_CloseHandle:
  "udpView (snd (CloseHandle_locked handle r)) = udpView (snd (closeDatagramHandle handle (snd (closeStreamHandle handle r))))"
  by (simp add: snd_CloseHandle)

lemma fst_CloseHandle:
  "set (fst (CloseHandle_locked handle r)) \<inter> range CloseChannel =
     (case datagrams r handle of None \<Rightarrow> {} | Some d \<Rightarrow> {CloseChannel d})"
proof -
  have "datagrams (snd (closeStreamHandle handle r)) = datagrams r"
    using udpView_closeStream [of handle r] by (simp add: udpView_def)
  moreover have "set (fst (closeStreamHandle handle r)) \<inter> range CloseChannel = {}" "set (fst (closeListenerHandle handle r)) \<inter> range CloseChannel = {}" for r
    by (auto simp: closeStreamHandle_def closeListenerHandle_def Let_def split: option.splits prod.splits)
  ultimately show ?thesis
    by (auto simp: CloseHandle_locked_def closeDatagramHandle_def case_prod_beta Let_def Int_Un_distrib2 split: option.splits)
qed

lemma nextRef_closers [simp]:
  "nextRef (snd (closeStreamHandle handle r)) = nextRef r" "nextRef (snd (closeDatagramHandle handle r)) = nextRef r"
  using closeStreamHandle_frame [of handle r]
  by (auto simp: helper_defs closeDatagram_defs split: option.splits)

lemma recvInv_CloseHandle:
  assumes "recvInv r" shows "recvInv (CloseHandle_begin handle r)" "recvInv (CloseHandle_continue action r)"
proof -
  show "recvInv (CloseHandle_continue action r)"
    by (rule CloseHandle_continue_eq [of action r], rule recvInv_view [OF _ _ assms])
       (simp_all add: recvView_def recvPart_def fun_eq_iff)
  have b: "recvView (CloseHandle_begin handle r) = recvView (snd (CloseHandle_locked handle r))"
    by (simp add: CloseHandle_begin_eq recvView_def)
  have "recvInv (snd (closeStreamHandle handle r))"
    by (rule recvInv_view [OF recvView_udpView _ assms]) simp_all
  from recvInv_closeDatagramHandle [OF this] show "recvInv (CloseHandle_begin handle r)"
    by (rule recvInv_view [OF trans [OF b recvView_udpView [OF udpView_CloseHandle]], rotated]) simp
qed

section \<open>Senders\<close>

text \<open>\<open>pc\<close> are the sockets whose channel somebody is about to close.\<close>

definition sendRel :: "ref \<Rightarrow> (u64 \<rightharpoonup> ref) \<Rightarrow> ref set \<Rightarrow> (ref \<Rightarrow> bool) \<Rightarrow> ref set \<Rightarrow> (u64 \<times> ref) list \<Rightarrow> bool" where
  "sendRel n dg dr cl pc T \<longleftrightarrow>
     distinct (map snd T) \<and>
     (\<forall>(h, d) \<in> set T. d < n \<and> (dg h = Some d \<or> d \<in> dr)) \<and>
     (\<forall>h d. dg h = Some d \<longrightarrow> (h, d) \<in> set T \<and> \<not> cl d \<and> d \<notin> pc) \<and>
     (\<forall>d \<in> dr. (cl d \<or> d \<in> pc) \<and> (\<exists>h. (h, d) \<in> set T)) \<and>
     (\<forall>d \<in> pc. d < n)"

lemma sendRelD:
  assumes "sendRel n dg dr cl pc T"
  shows "distinct (map snd T)"
    and "(h, d) \<in> set T \<Longrightarrow> d < n" and "(h, d) \<in> set T \<Longrightarrow> d \<notin> dr \<Longrightarrow> dg h = Some d"
    and "dg h = Some d \<Longrightarrow> (h, d) \<in> set T" and "dg h = Some d \<Longrightarrow> \<not> cl d" and "dg h = Some d \<Longrightarrow> d \<notin> pc"
    and "d \<in> dr \<Longrightarrow> cl d \<or> d \<in> pc" and "d \<in> dr \<Longrightarrow> \<exists>h. (h, d) \<in> set T" and "d \<in> pc \<Longrightarrow> d < n"
  using assms unfolding sendRel_def by blast+

lemma sendRelI:
  assumes "distinct (map snd T)"
    and "\<And>h d. (h, d) \<in> set T \<Longrightarrow> d < n" and "\<And>h d. (h, d) \<in> set T \<Longrightarrow> d \<notin> dr \<Longrightarrow> dg h = Some d"
    and "\<And>h d. dg h = Some d \<Longrightarrow> (h, d) \<in> set T" and "\<And>h d. dg h = Some d \<Longrightarrow> \<not> cl d" and "\<And>h d. dg h = Some d \<Longrightarrow> d \<notin> pc"
    and "\<And>d. d \<in> dr \<Longrightarrow> cl d \<or> d \<in> pc" and "\<And>d. d \<in> dr \<Longrightarrow> \<exists>h. (h, d) \<in> set T" and "\<And>d. d \<in> pc \<Longrightarrow> d < n"
  shows "sendRel n dg dr cl pc T"
  using assms unfolding sendRel_def by blast

lemma sendRel_mono: "sendRel n dg dr cl pc T \<Longrightarrow> n \<le> m \<Longrightarrow> sendRel m dg dr cl pc T"
  unfolding sendRel_def by fastforce

lemma sendRel_perm:
  assumes "sendRel n dg dr cl pc T" "mset T' = mset T" shows "sendRel n dg dr cl pc T'"
proof -
  have "set T' = set T" using assms(2) by (metis set_mset_mset)
  moreover have "distinct (map snd T') = distinct (map snd T)"
    using assms(2) by (metis mset_eq_imp_distinct_iff mset_map)
  ultimately show ?thesis using assms(1) by (simp add: sendRel_def)
qed

lemma sendRel_new:
  assumes "sendRel n dg dr cl pc T" "dg h = None"
  shows "sendRel (Suc n) (dg(h \<mapsto> n)) dr (cl(n := False)) pc ((h, n) # T)"
proof -
  note D = sendRelD [OF assms(1)]
  have "(h', n) \<notin> set T" "n \<notin> dr" "n \<notin> pc" for h' using D(2,8,9) by blast+
  then show ?thesis using D(1) assms(2)
    by (intro sendRelI) (auto split: if_splits intro: less_SucI dest: D(2-9))
qed

lemma sendRel_leave:
  assumes "sendRel n dg dr cl pc T" "dg h = Some d"
  shows "sendRel n (dg(h := None)) (insert d dr) cl (insert d pc) T"
proof -
  note D = sendRelD [OF assms(1)]
  have u: "h' = h" if "dg h' = Some d" for h'
    using D(4) [OF that] D(4) [OF assms(2)] D(1) unfolding distinct_map
    by (metis inj_onD prod.inject snd_conv)
  have v: "d' = d" if "(h, d') \<in> set T" "d' \<notin> dr" for d' using D(3) [OF that] assms(2) by simp
  show ?thesis using D(1) assms(2)
    by (intro sendRelI) (auto split: if_splits dest: D(2-9) u v)
qed

lemma sendRel_close:
  assumes "sendRel n dg dr cl pc T" "d \<in> pc" "pc - {d} \<subseteq> pc'" "pc' \<subseteq> pc"
  shows "sendRel n dg dr (cl(d := True)) pc' T"
  using assms unfolding sendRel_def by (auto split: if_splits)

lemma sendRel_finish:
  assumes "sendRel n dg dr cl pc T" "(h, d) \<in> set T" "cl d"
  shows "sendRel n dg (dr - {d}) cl pc (remove1 (h, d) T)"
proof -
  note D = sendRelD [OF assms(1)]
  have m: "(h', d') \<in> set (remove1 (h, d) T) \<longleftrightarrow> d' \<noteq> d \<and> (h', d') \<in> set T" for h' d'
  proof
    assume *: "(h', d') \<in> set (remove1 (h, d) T)"
    then have "d' \<in> snd ` set (remove1 (h, d) T)" by force
    with * show "d' \<noteq> d \<and> (h', d') \<in> set T"
      using distinct_map_remove1 [OF D(1) assms(2)] notin_set_remove1 by auto
  qed (simp add: in_set_remove1)
  show ?thesis
    using distinct_map_remove1 [OF D(1) assms(2)] assms(3)
    by (intro sendRelI) (auto simp: m split: if_splits dest: D(2-9))
qed

section \<open>The invariant of sending\<close>

text \<open>The senders, wherever they are in their loop; and the handles somebody waits on for room.\<close>

definition senders :: "reactor \<Rightarrow> (u64 \<times> ref) list" where
  "senders r = sendTasks r @ map (\<lambda>(h, d, q). (h, d)) (dequeuedTasks r) @ map (\<lambda>(h, d, q). (h, d)) (sendingTasks r)"

definition channelsToClose :: "reactor \<Rightarrow> ref set" where
  [simp]: "channelsToClose r = {d. CloseChannel d \<in> set (closings r)}"

definition unready :: "u64 \<Rightarrow> (u64 \<rightharpoonup> waiter) \<Rightarrow> bool" where
  "unready h m \<longleftrightarrow> (\<exists>i w. m i = Some w \<and> w_handle w = h \<and> \<not> w_ready w)"

definition sendLive :: "reactor \<Rightarrow> bool" where
  "sendLive r \<longleftrightarrow>
     (\<forall>h. unready h (udpWrites r) \<longrightarrow>
       (\<exists>d. (h, d) \<in> set (senders r) \<and>
         (ds_sendQueue (datagramAt r d) \<noteq> [] \<or> (\<exists>q. (h, d, q) \<in> set (dequeuedTasks r)))))"

definition sendBound :: "reactor \<Rightarrow> bool" where
  "sendBound r \<longleftrightarrow> (\<forall>d \<in> snd ` set (senders r). length (ds_sendQueue (datagramAt r d)) \<le> udpSendQueueCapacity)"

definition sendInv :: "reactor \<Rightarrow> bool" where
  "sendInv r \<longleftrightarrow> closed r \<or>
     sendRel (nextRef r) (datagrams r) (drainingDatagrams r) (ds_sendClosed \<circ> datagramAt r) (channelsToClose r) (senders r) \<and> sendBound r \<and> sendLive r"

lemma sendInvD:
  assumes "sendInv r" "\<not> closed r"
  shows "sendRel (nextRef r) (datagrams r) (drainingDatagrams r) (ds_sendClosed \<circ> datagramAt r) (channelsToClose r) (senders r)"
    "sendBound r" "sendLive r"
  using assms by (auto simp: sendInv_def)

lemma sendInvI:
  assumes "sendRel (nextRef r) (datagrams r) (drainingDatagrams r) (ds_sendClosed \<circ> datagramAt r) (channelsToClose r) (senders r)"
    "sendBound r" "sendLive r"
  shows "sendInv r"
  using assms by (auto simp: sendInv_def)

definition sendPart :: "datagramState \<Rightarrow> udpSend list \<times> bool" where
  "sendPart st = (ds_sendQueue st, ds_sendClosed st)"

definition sendView where
  "sendView (r :: reactor) =
     (closed r, datagrams r, drainingDatagrams r, sendPart \<circ> datagramAt r, udpWrites r, sendTasks r, dequeuedTasks r, sendingTasks r,
      closings r)"

lemma sendView_udpView: "udpView r' = udpView r \<Longrightarrow> sendView r' = sendView r"
  by (simp add: sendView_def udpView_def)

lemma sendPart_upd [simp]: "sendPart x = sendPart (f d) \<Longrightarrow> sendPart \<circ> f(d := x) = sendPart \<circ> f"
  by (simp add: fun_eq_iff)

lemma sendInv_view:
  assumes "sendView r' = sendView r" "nextRef r \<le> nextRef r'" "sendInv r"
  shows "sendInv r'"
proof (cases "closed r")
  case False
  have v: "closed r' = closed r" "datagrams r' = datagrams r" "drainingDatagrams r' = drainingDatagrams r" "udpWrites r' = udpWrites r"
    "sendTasks r' = sendTasks r" "dequeuedTasks r' = dequeuedTasks r" "sendingTasks r' = sendingTasks r" "closings r' = closings r"
    and p: "\<And>d. sendPart (datagramAt r' d) = sendPart (datagramAt r d)"
    using assms(1) by (simp_all add: sendView_def fun_eq_iff)
  have q: "ds_sendQueue (datagramAt r' d) = ds_sendQueue (datagramAt r d)" for d using p [of d] by (simp add: sendPart_def)
  have c: "ds_sendClosed \<circ> datagramAt r' = ds_sendClosed \<circ> datagramAt r" using p by (simp add: sendPart_def fun_eq_iff)
  have s: "senders r' = senders r" by (simp add: senders_def v)
  show ?thesis
    using sendInvD [OF assms(3) False] sendRel_mono [OF _ assms(2)]
    by (intro sendInvI) (simp_all add: v c s channelsToClose_def sendBound_def sendLive_def q)
qed (use assms(1) in \<open>simp add: sendInv_def sendView_def\<close>)

text \<open>The general step: the senders are permuted, queues do not grow beyond the bound, fewer wait.\<close>

lemma sendInv_step:
  assumes "sendInv r" "\<not> closed r" "nextRef r' = nextRef r" "datagrams r' = datagrams r" "drainingDatagrams r' = drainingDatagrams r"
    "closings r' = closings r"
    "ds_sendClosed \<circ> datagramAt r' = ds_sendClosed \<circ> datagramAt r" "mset (senders r') = mset (senders r)"
    and "\<And>d. length (ds_sendQueue (datagramAt r d)) \<le> udpSendQueueCapacity \<Longrightarrow> length (ds_sendQueue (datagramAt r' d)) \<le> udpSendQueueCapacity"
    and "\<And>h. unready h (udpWrites r') \<Longrightarrow> unready h (udpWrites r)"
    and "\<And>h d. unready h (udpWrites r') \<Longrightarrow> (h, d) \<in> set (senders r) \<Longrightarrow>
      ds_sendQueue (datagramAt r d) \<noteq> [] \<or> (\<exists>q. (h, d, q) \<in> set (dequeuedTasks r)) \<Longrightarrow>
      ds_sendQueue (datagramAt r' d) \<noteq> [] \<or> (\<exists>q. (h, d, q) \<in> set (dequeuedTasks r'))"
  shows "sendInv r'"
proof -
  note i = sendInvD [OF assms(1,2)]
  have s: "set (senders r') = set (senders r)" using assms(8) by (metis set_mset_mset)
  show ?thesis
  proof (rule sendInvI)
    show "sendRel (nextRef r') (datagrams r') (drainingDatagrams r') (ds_sendClosed \<circ> datagramAt r') (channelsToClose r') (senders r')"
      unfolding assms(7) using sendRel_perm [OF i(1) assms(8)] by (simp add: assms(3-6))
    show "sendBound r'" using i(2) assms(9) unfolding sendBound_def s by blast
    show "sendLive r'" using i(3) assms(10,11) unfolding sendLive_def s by meson
  qed
qed

lemma unready_markReady: "unready h (markReady g m) \<Longrightarrow> h \<noteq> g \<and> unready h m"
  unfolding unready_def markReady_Some by (fastforce split: if_splits)

lemma unready_less: "unready h (m(i := None)) \<Longrightarrow> unready h m"
  by (auto simp: unready_def split: if_splits)

lemma unready_other: "unready h (m(i \<mapsto> w)) \<Longrightarrow> w_ready w \<or> w_handle w \<noteq> h \<Longrightarrow> unready h m"
  by (auto simp: unready_def split: if_splits)

lemma mset_map_remove1: "x \<in> set xs \<Longrightarrow> add_mset (f x) (mset (map f (remove1 x xs))) = mset (map f xs)"
  by (induction xs) auto

lemma sendInv_signalIf [simp]: "sendInv (signalIf b r) = sendInv r"
  by (simp add: sendInv_def sendBound_def sendLive_def senders_def signalIf_def signalCompletion_def)

lemma closed_udp [simp]:
  "closed (snd (TryUDPSend handle data peer r)) = closed r" "closed (snd (StartUDPSendReady handle operation r)) = closed r"
  "closed (snd (TakeUDPSendReady operation r)) = closed r" "closed (runUDPSends_range handle d r) = closed r"
  "closed (runUDPSends_mark handle d request r) = closed r" "closed (runUDPSends_done handle d request n err r) = closed r"
  by (rule handleView_closed; simp)+

lemma sendInv_TryUDPSend:
  assumes "sendInv r" shows "sendInv (snd (TryUDPSend handle data peer r))"
proof (cases "closed r \<or> snd (TryUDPSend handle data peer r) = r")
  case False
  then obtain d a where d: "length (ds_sendQueue (datagramAt r d)) < udpSendQueueCapacity"
      "snd (TryUDPSend handle data peer r) = updDatagram d (\<lambda>st. st\<lparr>ds_sendQueue := ds_sendQueue st @ [a]\<rparr>) r"
    by (auto simp: TryUDPSend_def Let_def not_le split: option.splits if_splits)
  show ?thesis unfolding d(2)
    by (rule sendInv_step [OF assms]) (use False d(1) in \<open>auto simp: updDatagram_def senders_def fun_eq_iff\<close>)
qed (use assms in \<open>auto simp: sendInv_def\<close>)

lemma sendInv_StartUDPSendReady:
  assumes "sendInv r" shows "sendInv (snd (StartUDPSendReady handle operation r))"
proof (cases "closed r \<or> datagrams r handle = None \<or> operations r operation \<noteq> None")
  case False
  then obtain d where d: "datagrams r handle = Some d" and nc: "\<not> closed r" and "operations r operation = None" by auto
  note i = sendInvD [OF assms nc]
  define w where "w = \<lparr>w_handle = handle, w_ready = length (ds_sendQueue (datagramAt r d)) < udpSendQueueCapacity \<or> ds_sendErr (datagramAt r d) \<noteq> None\<rparr>"
  define r1 where "r1 = r\<lparr>operations := (operations r)(operation \<mapsto> operationUDPWrite), udpWrites := (udpWrites r)(operation \<mapsto> w)\<rparr>"
  have e: "snd (StartUDPSendReady handle operation r) = signalIf (w_ready w) r1"
    using False d by (simp add: StartUDPSendReady_def claimOperationLocked_def Let_def r1_def w_def)
  have s: "senders r1 = senders r" by (simp add: r1_def senders_def)
  have "sendLive r1" unfolding sendLive_def s
  proof (intro allI impI)
    fix h assume u: "unready h (udpWrites r1)"
    show "\<exists>d. (h, d) \<in> set (senders r) \<and> (ds_sendQueue (datagramAt r1 d) \<noteq> [] \<or> (\<exists>q. (h, d, q) \<in> set (dequeuedTasks r1)))"
    proof (cases "unready h (udpWrites r)")
      case True
      then show ?thesis using i(3) by (simp add: sendLive_def r1_def)
    next
      case False
      with u have "\<not> (w_ready w \<or> w_handle w \<noteq> h)" using unready_other [of h "udpWrites r" operation w] by (auto simp: r1_def)
      then have "h = handle" "\<not> w_ready w" by (simp_all add: w_def)
      then have "ds_sendQueue (datagramAt r d) \<noteq> []" by (auto simp: w_def udpSendQueueCapacity_def)
      then show ?thesis using sendRelD(4) [OF i(1) d] \<open>h = handle\<close> by (auto simp: r1_def)
    qed
  qed
  then have "sendInv r1" using i(1,2)
    by (intro sendInvI) (simp_all add: sendBound_def s, simp_all add: r1_def)
  then show ?thesis by (simp add: e)
qed (use assms in \<open>auto simp: StartUDPSendReady_def claimOperationLocked_def split: option.splits\<close>)

lemma sendInv_TakeUDPSendReady:
  assumes "sendInv r" shows "sendInv (snd (TakeUDPSendReady operation r))"
proof (cases "closed r")
  case False
  have "snd (TakeUDPSendReady operation r) = r \<or> snd (TakeUDPSendReady operation r) =
      r\<lparr>udpWrites := (udpWrites r)(operation := None), operations := (operations r)(operation := None)\<rparr>"
    by (simp add: TakeUDPSendReady_def Let_def releaseOperationLocked_def split: option.splits)
  then show ?thesis
  proof
    assume e: "snd (TakeUDPSendReady operation r) =
      r\<lparr>udpWrites := (udpWrites r)(operation := None), operations := (operations r)(operation := None)\<rparr>"
    show ?thesis unfolding e
      by (rule sendInv_step [OF assms False]) (auto simp: senders_def dest: unready_less)
  qed (use assms in simp)
qed (simp add: sendInv_def)

lemma sendInv_CancelOperation:
  assumes "sendInv r" shows "sendInv (CancelOperation operation r)"
proof (cases "closed r")
  case True
  then show ?thesis using handleView_closed [OF handleView_CancelOperation [of operation r]] by (simp add: sendInv_def)
next
  case False
  have "unready h (udpWrites (CancelOperation operation r)) \<Longrightarrow> unready h (udpWrites r)" for h
    using CancelOperation_udpView [of operation r]
    by (auto simp: udpView_def dest: unready_less split: option.splits operationKind.splits)
  then show ?thesis using CancelOperation_udpView [of operation r]
    by (intro sendInv_step [OF assms False])
       (simp_all add: udpView_def senders_def split: option.splits operationKind.splits)
qed

lemma senders_distinct:
  assumes "sendInv r" "\<not> closed r" "(h, d) \<in> set (senders r)"
  shows "(h', d) \<in> set (senders r) \<Longrightarrow> h' = h" "(h, d) \<in> set (sendTasks r) \<Longrightarrow> (h', d, q) \<notin> set (dequeuedTasks r)"
proof -
  have dist: "distinct (map snd (senders r))" using sendRelD(1) [OF sendInvD(1) [OF assms(1,2)]] .
  show "(h', d) \<in> set (senders r) \<Longrightarrow> h' = h"
    using dist assms(3) unfolding distinct_map by (metis inj_onD prod.inject snd_conv)
  show "(h, d) \<in> set (sendTasks r) \<Longrightarrow> (h', d, q) \<notin> set (dequeuedTasks r)"
    using dist by (force simp: senders_def)
qed

lemma sendInv_range:
  assumes "sendInv r" "(handle, d) \<in> set (sendTasks r)" "ds_sendQueue (datagramAt r d) \<noteq> [] \<or> ds_sendClosed (datagramAt r d)"
  shows "sendInv (runUDPSends_range handle d r)"
proof (cases "closed r")
  case False
  note i = sendInvD [OF assms(1) False]
  have m: "(handle, d) \<in> set (senders r)" using assms(2) by (simp add: senders_def)
  note u = senders_distinct [OF assms(1) False m]
  define r' where "r' = runUDPSends_range handle d r"
  show ?thesis
  proof (cases "ds_sendQueue (datagramAt r d)")
    case (Cons request queue)
    have e: "nextRef r' = nextRef r" "datagrams r' = datagrams r" "drainingDatagrams r' = drainingDatagrams r" "closings r' = closings r"
      "datagramAt r' = (datagramAt r)(d := (datagramAt r d)\<lparr>ds_sendQueue := queue\<rparr>)" "udpWrites r' = udpWrites r"
      "sendTasks r' = remove1 (handle, d) (sendTasks r)" "dequeuedTasks r' = (handle, d, request) # dequeuedTasks r"
      "sendingTasks r' = sendingTasks r"
      by (simp_all add: r'_def runUDPSends_range_def Cons updDatagram_def)
    have "sendInv r'"
    proof (rule sendInv_step [OF assms(1) False e(1-4)])
      show "mset (senders r') = mset (senders r)" using assms(2) by (simp add: senders_def e)
      show "ds_sendClosed \<circ> datagramAt r' = ds_sendClosed \<circ> datagramAt r" by (simp add: e fun_eq_iff)
      show "length (ds_sendQueue (datagramAt r' d')) \<le> udpSendQueueCapacity"
        if "length (ds_sendQueue (datagramAt r d')) \<le> udpSendQueueCapacity" for d'
        using that Cons by (cases "d' = d") (simp_all add: e)
      show "unready h (udpWrites r') \<Longrightarrow> unready h (udpWrites r)" for h by (simp add: e)
      show "ds_sendQueue (datagramAt r' d') \<noteq> [] \<or> (\<exists>q. (h, d', q) \<in> set (dequeuedTasks r'))"
        if "(h, d') \<in> set (senders r)" "ds_sendQueue (datagramAt r d') \<noteq> [] \<or> (\<exists>q. (h, d', q) \<in> set (dequeuedTasks r))" for h d'
        using that u(1) by (cases "d' = d") (auto simp: e)
    qed
    then show ?thesis by (simp add: r'_def)
  next
    case Nil
    with assms(3) have c: "ds_sendClosed (datagramAt r d)" by simp
    have e: "nextRef r' = nextRef r" "datagrams r' = datagrams r" "drainingDatagrams r' = drainingDatagrams r - {d}" "closings r' = closings r"
      "datagramAt r' = datagramAt r" "udpWrites r' = udpWrites r" "sendTasks r' = remove1 (handle, d) (sendTasks r)"
      "dequeuedTasks r' = dequeuedTasks r" "sendingTasks r' = sendingTasks r"
      by (simp_all add: r'_def runUDPSends_range_def Nil c finishUDPSends_def closeResource_def)
    have s: "senders r' = remove1 (handle, d) (senders r)" using assms(2) by (simp add: senders_def e remove1_append)
    have "sendInv r'"
    proof (rule sendInvI)
      show "sendRel (nextRef r') (datagrams r') (drainingDatagrams r') (ds_sendClosed \<circ> datagramAt r') (channelsToClose r') (senders r')"
        using sendRel_finish [OF i(1) m] c by (simp add: e s)
      show "sendBound r'" using i(2) set_remove1_subset [of "(handle, d)" "senders r"] unfolding sendBound_def s e by blast
      show "sendLive r'" unfolding sendLive_def
      proof (intro allI impI)
        fix h assume "unready h (udpWrites r')"
        then obtain d' where d': "(h, d') \<in> set (senders r)"
          "ds_sendQueue (datagramAt r d') \<noteq> [] \<or> (\<exists>q. (h, d', q) \<in> set (dequeuedTasks r))"
          using i(3) unfolding sendLive_def e(6) by blast
        have "d' \<noteq> d" using d'(2) u(2) [OF assms(2)] Nil by auto
        then show "\<exists>d. (h, d) \<in> set (senders r') \<and> (ds_sendQueue (datagramAt r' d) \<noteq> [] \<or> (\<exists>q. (h, d, q) \<in> set (dequeuedTasks r')))"
          using d' by (intro exI [of _ d']) (simp add: s e in_set_remove1)
      qed
    qed
    then show ?thesis by (simp add: r'_def)
  qed
qed (simp add: sendInv_def)

lemma sendInv_mark:
  assumes "sendInv r" "(handle, d, request) \<in> set (dequeuedTasks r)"
  shows "sendInv (runUDPSends_mark handle d request r)"
proof (cases "closed r")
  case False
  define r' where "r' = runUDPSends_mark handle d request r"
  have e: "nextRef r' = nextRef r" "datagrams r' = datagrams r" "drainingDatagrams r' = drainingDatagrams r" "closings r' = closings r"
    "datagramAt r' = datagramAt r" "udpWrites r' = markReady handle (udpWrites r)"
    "sendTasks r' = sendTasks r" "dequeuedTasks r' = remove1 (handle, d, request) (dequeuedTasks r)"
    "sendingTasks r' = (handle, d, request) # sendingTasks r"
    by (simp_all add: r'_def runUDPSends_mark_def helper_defs)
  have "sendInv r'"
  proof (rule sendInv_step [OF assms(1) False e(1-4)])
    show "mset (senders r') = mset (senders r)"
      using mset_map_remove1 [OF assms(2), of "\<lambda>(h, d, q). (h, d)"] by (simp add: senders_def e)
    show "unready h (udpWrites r') \<Longrightarrow> unready h (udpWrites r)" for h by (simp add: e unready_markReady)
    show "ds_sendQueue (datagramAt r' d') \<noteq> [] \<or> (\<exists>q. (h, d', q) \<in> set (dequeuedTasks r'))"
      if "unready h (udpWrites r')" "ds_sendQueue (datagramAt r d') \<noteq> [] \<or> (\<exists>q. (h, d', q) \<in> set (dequeuedTasks r))" for h d'
      using that unready_markReady [of h handle "udpWrites r"] by (auto simp: e in_set_remove1)
  qed (simp_all add: e)
  then show ?thesis by (simp add: r'_def)
qed (simp add: sendInv_def)

lemma sendInv_done:
  assumes "sendInv r" "(handle, d, request) \<in> set (sendingTasks r)"
  shows "sendInv (runUDPSends_done handle d request n err r)"
proof (cases "closed r")
  case False
  define r' where "r' = runUDPSends_done handle d request n err r"
  have e: "nextRef r' = nextRef r" "datagrams r' = datagrams r" "drainingDatagrams r' = drainingDatagrams r" "closings r' = closings r"
    "sendTasks r' = (handle, d) # sendTasks r" "dequeuedTasks r' = dequeuedTasks r"
    "sendingTasks r' = remove1 (handle, d, request) (sendingTasks r)"
    and q: "ds_sendQueue (datagramAt r' x) = ds_sendQueue (datagramAt r x)" "ds_sendClosed (datagramAt r' x) = ds_sendClosed (datagramAt r x)"
    and w: "udpWrites r' = udpWrites r \<or> udpWrites r' = markReady handle (udpWrites r)" for x
    by (simp_all add: r'_def runUDPSends_done_def helper_defs updDatagram_def Let_def)
  have "sendInv r'"
  proof (rule sendInv_step [OF assms(1) False e(1-4)])
    show "mset (senders r') = mset (senders r)"
      using mset_map_remove1 [OF assms(2), of "\<lambda>(h, d, q). (h, d)"] by (simp add: senders_def e)
    show "unready h (udpWrites r') \<Longrightarrow> unready h (udpWrites r)" for h using w unready_markReady by auto
  qed (simp_all add: e q fun_eq_iff)
  then show ?thesis by (simp add: r'_def)
qed (simp add: sendInv_def)

lemma sendInv_addDatagram:
  assumes "sendInv r" "datagrams r h = None" shows "sendInv (addDatagram h connection r)"
proof (cases "closed r")
  case False
  note i = sendInvD [OF assms(1) False]
  define r' where "r' = addDatagram h connection r"
  have e: "nextRef r' = Suc (nextRef r)" "datagrams r' = (datagrams r)(h \<mapsto> nextRef r)" "drainingDatagrams r' = drainingDatagrams r" "closings r' = closings r"
    "datagramAt r' = (datagramAt r)(nextRef r := newDatagramState connection)" "udpWrites r' = udpWrites r"
    "dequeuedTasks r' = dequeuedTasks r" and s: "senders r' = (h, nextRef r) # senders r"
    by (simp_all add: r'_def addDatagram_def senders_def)
  have old: "d \<noteq> nextRef r" if "(h', d) \<in> set (senders r)" for h' d using sendRelD(2) [OF i(1) that] by simp
  have "sendInv r'"
  proof (rule sendInvI)
    show "sendRel (nextRef r') (datagrams r') (drainingDatagrams r') (ds_sendClosed \<circ> datagramAt r') (channelsToClose r') (senders r')"
      using sendRel_new [OF i(1) assms(2)] by (simp add: e s fun_upd_comp newDatagramState_def)
    show "sendBound r'" unfolding sendBound_def
    proof
      fix d assume "d \<in> snd ` set (senders r')"
      then show "length (ds_sendQueue (datagramAt r' d)) \<le> udpSendQueueCapacity"
        using i(2) by (cases "d = nextRef r") (auto simp: sendBound_def s e newDatagramState_def)
    qed
    show "sendLive r'" using i(3) old unfolding sendLive_def s e
      by (metis fun_upd_other list.set_intros(2))
  qed
  then show ?thesis by (simp add: r'_def)
qed (simp add: sendInv_def addDatagram_def)

text \<open>The locked section of closing a handle moves the socket to those that drain; its channel is closed later.\<close>

lemma sendInv_begin:
  assumes "sendInv r" shows "sendInv (CloseHandle_begin handle r)"
proof -
  define r' where "r' = CloseHandle_begin handle r"
  define a where "a = fst (CloseHandle_locked handle r)"
  have v: "udpView (snd (CloseHandle_locked handle r)) = udpView (snd (closeDatagramHandle handle (snd (closeStreamHandle handle r))))"
    "udpView (snd (closeStreamHandle handle r)) = udpView r" by (simp_all add: udpView_CloseHandle)
  have "nextRef r' = nextRef r" by (simp add: r'_def)
  have c: "CloseChannel d \<in> set a \<longleftrightarrow> datagrams r handle = Some d" for d
  proof -
    have "CloseChannel d \<in> set a \<longleftrightarrow> CloseChannel d \<in> set a \<inter> range CloseChannel" by simp
    then show ?thesis unfolding a_def fst_CloseHandle by (auto split: option.splits)
  qed
  have e: "closed r' = closed r" "datagramAt r' = datagramAt r" "udpWrites r' = udpWrites r" "sendTasks r' = sendTasks r"
    "dequeuedTasks r' = dequeuedTasks r" "sendingTasks r' = sendingTasks r" "closings r' = a @ closings r"
    "datagrams r' = (datagrams r)(handle := None)"
    "drainingDatagrams r' = (case datagrams r handle of None \<Rightarrow> drainingDatagrams r | Some d \<Rightarrow> insert d (drainingDatagrams r))"
    using v by (auto simp: r'_def a_def CloseHandle_begin_eq udpView_def closeDatagram_defs split: option.splits)
  have s: "senders r' = senders r" by (simp add: senders_def e)
  show ?thesis
  proof (cases "closed r")
    case False
    note i = sendInvD [OF assms False]
    have "sendRel (nextRef r') (datagrams r') (drainingDatagrams r') (ds_sendClosed \<circ> datagramAt r') (channelsToClose r') (senders r')"
    proof (cases "datagrams r handle")
      case None
      then have "channelsToClose r' = channelsToClose r" "datagrams r' = datagrams r" by (auto simp: e c)
      then show ?thesis using i(1) None by (simp add: e s \<open>nextRef r' = nextRef r\<close> del: channelsToClose_def)
    next
      case (Some d)
      then have "channelsToClose r' = insert d (channelsToClose r)" by (auto simp: e c)
      then show ?thesis using sendRel_leave [OF i(1) Some] Some by (simp add: e s \<open>nextRef r' = nextRef r\<close> del: channelsToClose_def)
    qed
    then have "sendInv r'" using i(2,3) by (intro sendInvI) (simp_all add: sendBound_def sendLive_def s, simp_all add: e)
    then show ?thesis by (simp add: r'_def)
  qed (simp add: sendInv_def e(1) flip: r'_def)
qed

lemma sendInv_continue:
  assumes "sendInv r" "action \<in> set (closings r)" shows "sendInv (CloseHandle_continue action r)"
proof (cases "closed r")
  case False
  note i = sendInvD [OF assms(1) False]
  define r' where "r' = CloseHandle_continue action r"
  obtain c where e: "r' = r\<lparr>closings := remove1 action (closings r), closedResources := c,
     datagramAt := (\<lambda>d. if action = CloseChannel d then (datagramAt r d)\<lparr>ds_sendClosed := True\<rparr> else datagramAt r d)\<rparr>"
    using CloseHandle_continue_eq r'_def by metis
  have s: "senders r' = senders r" by (simp add: senders_def e)
  have q: "ds_sendQueue (datagramAt r' d) = ds_sendQueue (datagramAt r d)" for d by (simp add: e)
  have "sendRel (nextRef r) (datagrams r) (drainingDatagrams r) (ds_sendClosed \<circ> datagramAt r') (channelsToClose r') (senders r)"
  proof (cases "\<exists>d. action = CloseChannel d")
    case True
    then obtain d where d: "action = CloseChannel d" by blast
    have cl: "ds_sendClosed \<circ> datagramAt r' = (ds_sendClosed \<circ> datagramAt r)(d := True)" by (auto simp: e d fun_eq_iff)
    show ?thesis unfolding cl
      by (rule sendRel_close [OF i(1)]) (use assms(2) set_remove1_subset [of action "closings r"] in \<open>auto simp: e d in_set_remove1\<close>)
  next
    case False
    then have "CloseChannel x \<in> set (remove1 action (closings r)) \<longleftrightarrow> CloseChannel x \<in> set (closings r)" for x
      by (intro in_set_remove1) auto
    then have "channelsToClose r' = channelsToClose r" by (simp add: e)
    moreover have "ds_sendClosed \<circ> datagramAt r' = ds_sendClosed \<circ> datagramAt r" using False by (auto simp: e fun_eq_iff)
    ultimately show ?thesis using i(1) by (simp del: channelsToClose_def)
  qed
  then have "sendInv r'" using i(2,3)
    by (intro sendInvI) (simp_all add: sendBound_def sendLive_def s q, simp_all add: e)
  then show ?thesis by (simp add: r'_def)
qed (use closed_CloseHandle(2) in \<open>simp add: sendInv_def\<close>)

section \<open>Reachable states\<close>

definition udpInv :: "reactor \<Rightarrow> bool" where
  "udpInv r \<longleftrightarrow> recvInv r \<and> sendInv r"

lemma udpInv_view: "udpView r' = udpView r \<Longrightarrow> nextRef r \<le> nextRef r' \<Longrightarrow> udpInv r \<Longrightarrow> udpInv r'"
  unfolding udpInv_def using recvInv_view [OF recvView_udpView] sendInv_view [OF sendView_udpView] by blast

lemma recvView_sends:
  "recvView (snd (TryUDPSend handle data peer r)) = recvView r" "recvView (snd (StartUDPSendReady handle operation r)) = recvView r"
  "recvView (snd (TakeUDPSendReady operation r)) = recvView r" "recvView (runUDPSends_range handle d r) = recvView r"
  "recvView (runUDPSends_mark handle d request r) = recvView r" "recvView (runUDPSends_done handle d request n err r) = recvView r"
  by (simp_all add: recvView_def udp_defs helper_defs updDatagram_def Let_def recvPart_def
      split: option.splits list.splits outcome.splits)

lemma sendView_receives:
  "sendView (snd (StartUDPReceive handle operation r)) = sendView r" "sendView (runUDPReceive handle d err data peer r) = sendView r"
  "sendView (snd (TakeUDPReceive operation capacity r)) = sendView r"
  by (simp_all add: sendView_def udp_defs helper_defs updDatagram_def Let_def sendPart_def case_prod_beta
      split: option.splits list.splits outcome.splits net_addr.splits)

lemma udpInvI: "recvInv r \<Longrightarrow> sendInv r \<Longrightarrow> udpInv r"
  by (simp add: udpInv_def)

lemma udpInv_sends:
  assumes "udpInv r"
  shows "udpInv (snd (TryUDPSend handle data peer r))" "udpInv (snd (StartUDPSendReady handle operation r))"
    "udpInv (snd (TakeUDPSendReady operation r))"
    "(handle, d) \<in> set (sendTasks r) \<Longrightarrow> ds_sendQueue (datagramAt r d) \<noteq> [] \<or> ds_sendClosed (datagramAt r d) \<Longrightarrow>
       udpInv (runUDPSends_range handle d r)"
    "(handle, d, request) \<in> set (dequeuedTasks r) \<Longrightarrow> udpInv (runUDPSends_mark handle d request r)"
    "(handle, d, request) \<in> set (sendingTasks r) \<Longrightarrow> udpInv (runUDPSends_done handle d request n err r)"
proof -
  have i: "recvInv r" "sendInv r" using assms by (simp_all add: udpInv_def)
  show "udpInv (snd (TryUDPSend handle data peer r))"
    by (rule udpInvI [OF recvInv_view [OF recvView_sends(1) nextRef_udp(3) i(1)] sendInv_TryUDPSend [OF i(2)]])
  show "udpInv (snd (StartUDPSendReady handle operation r))"
    by (rule udpInvI [OF recvInv_view [OF recvView_sends(2) nextRef_udp(4) i(1)] sendInv_StartUDPSendReady [OF i(2)]])
  show "udpInv (snd (TakeUDPSendReady operation r))"
    by (rule udpInvI [OF recvInv_view [OF recvView_sends(3) nextRef_udp(5) i(1)] sendInv_TakeUDPSendReady [OF i(2)]])
  show "udpInv (runUDPSends_range handle d r)"
    if "(handle, d) \<in> set (sendTasks r)" "ds_sendQueue (datagramAt r d) \<noteq> [] \<or> ds_sendClosed (datagramAt r d)"
    by (rule udpInvI [OF recvInv_view [OF recvView_sends(4) nextRef_udp(7) i(1)] sendInv_range [OF i(2) that]])
  show "udpInv (runUDPSends_mark handle d request r)" if "(handle, d, request) \<in> set (dequeuedTasks r)"
    by (rule udpInvI [OF recvInv_view [OF recvView_sends(5) nextRef_udp(8) i(1)] sendInv_mark [OF i(2) that]])
  show "udpInv (runUDPSends_done handle d request n err r)" if "(handle, d, request) \<in> set (sendingTasks r)"
    by (rule udpInvI [OF recvInv_view [OF recvView_sends(6) nextRef_udp(9) i(1)] sendInv_done [OF i(2) that]])
qed

lemma udpInv_receives:
  assumes "udpInv r"
  shows "udpInv (snd (StartUDPReceive handle operation r))" "udpInv (snd (TakeUDPReceive operation capacity r))"
    "(handle, d) \<in> set (receiveTasks r) \<Longrightarrow> udpInv (runUDPReceive handle d err data peer r)"
proof -
  have i: "recvInv r" "sendInv r" using assms by (simp_all add: udpInv_def)
  show "udpInv (snd (StartUDPReceive handle operation r))"
    by (rule udpInvI [OF recvInv_StartUDPReceive [OF i(1)] sendInv_view [OF sendView_receives(1) nextRef_udp(1) i(2)]])
  show "udpInv (snd (TakeUDPReceive operation capacity r))"
    by (rule udpInvI [OF recvInv_TakeUDPReceive [OF i(1)] sendInv_view [OF sendView_receives(3) nextRef_udp(2) i(2)]])
  show "udpInv (runUDPReceive handle d err data peer r)" if "(handle, d) \<in> set (receiveTasks r)"
    by (rule udpInvI [OF recvInv_runUDPReceive [OF i(1) that] sendInv_view [OF sendView_receives(2) nextRef_udp(6) i(2)]])
qed

lemma udpInv_TakeUDPBind:
  assumes "udpInv r" "handlesInv r" "handlesLeft r" "waitersBelow r"
  shows "udpInv (snd (TakeUDPBind operation r))"
  using TakeUDPBind_udp [of operation r]
proof (elim disjE exE conjE)
  assume "udpView (snd (TakeUDPBind operation r)) = udpView r" "nextRef (snd (TakeUDPBind operation r)) = nextRef r"
  then show ?thesis by (intro udpInv_view [OF _ _ assms(1)]) simp_all
next
  fix connection
  assume *: "udpView (snd (TakeUDPBind operation r)) = udpView (addDatagram (nextHandle r + 1) connection r)"
    "nextRef (snd (TakeUDPBind operation r)) = nextRef (addDatagram (nextHandle r + 1) connection r)"
  have "\<not> hasWaiter (nextHandle r + 1) (udpReads r)"
    using no_waiter_on_fresh_handle [OF assms(4,3)] by (simp add: waits_def)
  then have "udpInv (addDatagram (nextHandle r + 1) connection r)"
    using assms(1) fresh_handle(2) [OF assms(3,2)] recvInv_addDatagram sendInv_addDatagram by (simp add: udpInv_def)
  with * show ?thesis by (intro udpInv_view [OF *(1)]) simp_all
qed

lemma udpInv_New:
  assumes "initialOk options" shows "udpInv (New options)"
proof -
  from assms have "udpInv (New options) \<and> udpReads (New options) = Map.empty"
  proof (rule New_induct_fresh)
    show "udpInv (emptyReactor options) \<and> udpReads (emptyReactor options) = Map.empty"
      by (simp add: emptyReactor_def udpInv_def recvInv_def sendInv_def recvRel_def sendRel_def senders_def sendBound_def
          sendLive_def unready_def)
  next
    fix h c r assume i: "udpInv r \<and> udpReads r = Map.empty" and f: "streams r h = None" "datagrams r h = None"
    then show "udpInv (addStream h c (receiveResource (Some c) r)) \<and> udpReads (addStream h c (receiveResource (Some c) r)) = Map.empty"
      by - (rule conjI, rule udpInv_view [of _ r]; simp add: udpView_def addStream_def receiveResource_def)
    define r1 where "r1 = receiveResource (Some c) r"
    have v: "datagrams r1 h = None" "udpReads r1 = Map.empty" using i f by (simp_all add: r1_def receiveResource_def)
    have "udpInv r1" by (rule udpInv_view [of _ r]) (use i in \<open>simp_all add: r1_def udpView_def receiveResource_def\<close>)
    then have "recvInv (addDatagram h c r1)" "sendInv (addDatagram h c r1)"
      using recvInv_addDatagram [OF _ v(1)] sendInv_addDatagram [OF _ v(1)] v(2) by (simp_all add: udpInv_def hasWaiter_def)
    moreover have "udpReads (addDatagram h c r1) = Map.empty" using v(2) by (simp add: addDatagram_def)
    ultimately show "udpInv (addDatagram h c (receiveResource (Some c) r)) \<and>
        udpReads (addDatagram h c (receiveResource (Some c) r)) = Map.empty"
      by (simp add: udpInv_def r1_def)
  qed
  then show ?thesis by simp
qed

lemma udpInv_call:
  assumes "call r r'" "udpInv r" "handlesInv r" "handlesLeft r" "waitersBelow r"
  shows "udpInv r'"
  using assms(1)
proof cases
  case (call_TakeUDPBind operation)
  then show ?thesis using udpInv_TakeUDPBind [OF assms(2-5)] by simp
next
  case (call_receiveWake wake sink handle result)
  from receiveWake_view(2,6) [OF this] show ?thesis by (intro udpInv_view [OF _ _ assms(2)]) simp_all
next
  case call_CloseBegin
  then show ?thesis using assms(2) by (simp add: CloseBegin_def udpInv_def recvInv_def sendInv_def)
next
  case (call_CloseHandle handle)
  then show ?thesis using assms(2) recvInv_CloseHandle(1) sendInv_begin by (simp add: udpInv_def)
next
  case (call_CloseAction action)
  then show ?thesis using assms(2) recvInv_CloseHandle(2) sendInv_continue by (simp add: udpInv_def)
next
  case (call_CancelOperation operation)
  then show ?thesis using assms(2) recvInv_CancelOperation sendInv_CancelOperation by (simp add: udpInv_def)
qed (use udpInv_sends [OF assms(2)] udpInv_receives [OF assms(2)] udpInv_view [OF _ _ assms(2)] in \<open>simp_all\<close>)

lemma udpInv_work:
  assumes "work r r'" "udpInv r"
  shows "udpInv r'"
  using assms(1)
proof cases
  case (work_range handle d)
  then show ?thesis using udpInv_sends(4) [OF assms(2)] by simp
qed (use udpInv_sends(5,6) [OF assms(2)] udpInv_receives [OF assms(2)] udpInv_view [OF _ _ assms(2)] in \<open>simp_all\<close>)

lemma udpInv_reachable: "reachable options r \<Longrightarrow> udpInv r"
  by (erule reachable_invariant)
     (auto intro: udpInv_New udpInv_call udpInv_work handlesInv_reachable waitersBelow_reachable)

section \<open>Properties of datagram sockets\<close>

lemma udp_tables:
  assumes "reachable options r"
  shows "datagrams r h = Some d \<Longrightarrow> \<not> closed r" "udpReads r i = Some w \<Longrightarrow> \<not> closed r" "udpWrites r i = Some w \<Longrightarrow> \<not> closed r"
    "d \<in> drainingDatagrams r \<Longrightarrow> \<not> closed r"
  using shut_reachable [OF assms] shutD(4,8) shut_tables(3,4) [OF _ tablesOk_reachable [OF assms]] by fastforce+

text \<open>
  C9: neither the queue of received datagrams nor the queue of datagrams to send of an open socket exceeds its capacity of
  64, whatever the peer sends and however often the guest calls.
\<close>

theorem udp_queues_bounded:
  assumes "reachable options r" "datagrams r h = Some d"
  shows "length (ds_received (datagramAt r d)) \<le> udpReceiveQueueCapacity \<and>
    length (ds_sendQueue (datagramAt r d)) \<le> udpSendQueueCapacity"
proof -
  have nc: "\<not> closed r" using udp_tables(1) [OF assms] .
  have i: "recvInv r" "sendInv r" using udpInv_reachable [OF assms(1)] by (simp_all add: udpInv_def)
  note s = sendInvD [OF i(2) nc]
  have "d \<in> snd ` set (senders r)" using sendRelD(4) [OF s(1) assms(2)] by force
  then have "length (ds_sendQueue (datagramAt r d)) \<le> udpSendQueueCapacity" using s(2) unfolding sendBound_def by blast
  then show ?thesis using recvInvD(2) [OF i(1) nc assms(2)] by (simp add: recvOk_def)
qed

lemma demo_datagram: "datagrams (New demoOptions) 8 = Some 1"
  by (simp add: New_def demoOptions_def emptyReactor_def addStream_def addDatagram_def receiveResource_def)

theorem udp_queues_bounded_witness:
  "length (ds_received (datagramAt (New demoOptions) 1)) \<le> udpReceiveQueueCapacity \<and>
   length (ds_sendQueue (datagramAt (New demoOptions) 1)) \<le> udpSendQueueCapacity"
  by (rule udp_queues_bounded [OF demo_New demo_datagram])

text \<open>
  C10: when somebody waits for a datagram of an open socket there is one to take, or an error to report, or a goroutine
  receives: no waiter is forgotten.
\<close>

theorem pending_receive_is_served:
  assumes "reachable options r" "udpReads r i = Some w" "datagrams r (w_handle w) = Some d"
  shows "ds_received (datagramAt r d) \<noteq> [] \<or> ds_receiveErr (datagramAt r d) \<noteq> None \<or> (w_handle w, d) \<in> set (receiveTasks r)"
proof -
  have nc: "\<not> closed r" using udp_tables(1) [OF assms(1,3)] .
  have i: "recvInv r" using udpInv_reachable [OF assms(1)] by (simp add: udpInv_def)
  have "recvOk True (datagramAt r d)" using recvInvD(2) [OF i nc assms(3)] hasWaiter_self [where m = "udpReads r" and i = i, OF assms(2)] by simp
  then show ?thesis using recvRelD(3) [OF recvInvD(1) [OF i nc] assms(3)]
    by (auto simp: recvOk_def udpReceiveQueueCapacity_def)
qed

lemma demo_receive: "reachable demoOptions (snd (StartUDPReceive 8 1 (New demoOptions)))"
  by (rule reachable_step [OF demo_New])
     (simp_all add: handlesLeft_def New_handlesLeft step_def call_StartUDPReceive)

theorem pending_receive_is_served_witness:
  "(8, 1) \<in> set (receiveTasks (snd (StartUDPReceive 8 1 (New demoOptions))))"
proof -
  let ?r = "snd (StartUDPReceive 8 1 (New demoOptions))"
  have "udpReads ?r 1 = Some \<lparr>w_handle = 8, w_ready = False\<rparr>" "datagrams ?r 8 = Some 1"
    "ds_received (datagramAt ?r 1) = []" "ds_receiveErr (datagramAt ?r 1) = None"
    by (simp_all add: StartUDPReceive_def claimOperationLocked_def Let_def startUDPReceiver_def updDatagram_def signalIf_def
      udpReceiveQueueCapacity_def New_def demoOptions_def emptyReactor_def addStream_def addDatagram_def receiveResource_def
      newDatagramState_def)
  then show ?thesis using pending_receive_is_served [OF demo_receive, of 1 "\<lparr>w_handle = 8, w_ready = False\<rparr>" 1] by simp
qed

text \<open>
  C11: whoever still waits for room in a socket's queue waits for a socket, open or draining, whose sender goroutine has a
  datagram to take or has just taken one, after which it tells the waiter.
\<close>

theorem send_waiter_is_woken:
  assumes "reachable options r" "udpWrites r i = Some w" "\<not> w_ready w"
  shows "\<exists>d. (w_handle w, d) \<in> set (senders r) \<and>
    (ds_sendQueue (datagramAt r d) \<noteq> [] \<or> (\<exists>q. (w_handle w, d, q) \<in> set (dequeuedTasks r)))"
proof -
  have "sendInv r" using udpInv_reachable [OF assms(1)] by (simp add: udpInv_def)
  then have "sendLive r" using sendInvD(3) udp_tables(3) [OF assms(1,2)] by blast
  moreover have "unready (w_handle w) (udpWrites r)" using assms(2,3) by (auto simp: unready_def)
  ultimately show ?thesis by (simp add: sendLive_def)
qed

definition demoPeer :: UDPAddr where
  "demoPeer = \<lparr>IP = [127, 0, 0, 1], Port = 9, Zone = []\<rparr>"

definition demoFull :: "nat \<Rightarrow> reactor" where
  "demoFull n = ((\<lambda>r. snd (TryUDPSend 8 [] (Some demoPeer) r)) ^^ n) (New demoOptions)"

lemma demoFull:
  "n \<le> 64 \<Longrightarrow> reachable demoOptions (demoFull n) \<and> handlesLeft (demoFull n) \<and> datagrams (demoFull n) 8 = Some 1 \<and>
     operations (demoFull n) = Map.empty \<and> \<not> closed (demoFull n) \<and> ds_sendErr (datagramAt (demoFull n) 1) = None \<and>
     length (ds_sendQueue (datagramAt (demoFull n) 1)) = n"
proof (induction n)
  case 0
  show ?case
    by (simp add: demoFull_def demo_New handlesLeft_def New_handlesLeft)
       (simp add: New_def demoOptions_def emptyReactor_def addStream_def addDatagram_def receiveResource_def newDatagramState_def)
next
  case (Suc n)
  have e: "demoFull (Suc n) = snd (TryUDPSend 8 [] (Some demoPeer) (demoFull n))" by (simp add: demoFull_def)
  have i: "reachable demoOptions (demoFull n)" "handlesLeft (demoFull n)" using Suc by simp_all
  have "reachable demoOptions (demoFull (Suc n))" unfolding e
    by (rule reachable_step [OF i]) (simp add: step_def call_TryUDPSend)
  then show ?case using Suc
    by (simp add: e handlesLeft_def TryUDPSend_def Let_def udpSendQueueCapacity_def updDatagram_def)
qed

theorem send_waiter_is_woken_witness:
  "\<exists>d. (8, d) \<in> set (senders (snd (StartUDPSendReady 8 1 (demoFull 64)))) \<and>
     (0 < length (ds_sendQueue (datagramAt (snd (StartUDPSendReady 8 1 (demoFull 64))) d)) \<or>
      (\<exists>q. (8, d, q) \<in> set (dequeuedTasks (snd (StartUDPSendReady 8 1 (demoFull 64))))))"
proof -
  have d: "reachable demoOptions (demoFull 64)" "handlesLeft (demoFull 64)" using demoFull [of 64] by simp_all
  have "reachable demoOptions (snd (StartUDPSendReady 8 1 (demoFull 64)))"
    by (rule reachable_step [OF d]) (simp add: step_def call_StartUDPSendReady)
  moreover have "udpWrites (snd (StartUDPSendReady 8 1 (demoFull 64))) 1 = Some \<lparr>w_handle = 8, w_ready = False\<rparr>"
    using demoFull [of 64]
    by (simp add: StartUDPSendReady_def claimOperationLocked_def Let_def udpSendQueueCapacity_def signalIf_def)
  ultimately show ?thesis
    using send_waiter_is_woken [of demoOptions "snd (StartUDPSendReady 8 1 (demoFull 64))" 1 "\<lparr>w_handle = 8, w_ready = False\<rparr>"]
    by simp
qed

text \<open>
  C12: an open socket has exactly one sender goroutine, its channel is open and nobody is about to close it, so that no send
  is on a closed channel; a draining socket has its sender too, and its channel is closed or the caller that closed the
  handle is about to close it, so that the sender ends and closes the connection.
\<close>

theorem socket_has_one_sender:
  assumes "reachable options r" "\<not> closed r"
  shows "distinct (map snd (senders r)) \<and>
    {(h, d). datagrams r h = Some d} \<subseteq>
      {(h, d) \<in> set (senders r). \<not> ds_sendClosed (datagramAt r d) \<and> CloseChannel d \<notin> set (closings r)} \<and>
    drainingDatagrams r \<subseteq>
      {d \<in> snd ` set (senders r). ds_sendClosed (datagramAt r d) \<or> CloseChannel d \<in> set (closings r)}"
proof -
  have "sendInv r" using udpInv_reachable [OF assms(1)] by (simp add: udpInv_def)
  note s = sendRelD [OF sendInvD(1) [OF this assms(2)]]
  have "d \<in> snd ` set (senders r)" if "d \<in> drainingDatagrams r" for d using s(8) [OF that] by force
  moreover have "ds_sendClosed (datagramAt r d) \<or> CloseChannel d \<in> set (closings r)" if "d \<in> drainingDatagrams r" for d
    using s(7) [OF that] by simp
  ultimately show ?thesis using s(1,4,5,6) by (auto simp: comp_def)
qed

text \<open>The witness is a socket whose handle has been closed and whose channel has not.\<close>

theorem socket_has_one_sender_witness:
  "1 \<in> drainingDatagrams (CloseHandle_begin 8 (New demoOptions)) \<and> \<not> ds_sendClosed (datagramAt (CloseHandle_begin 8 (New demoOptions)) 1) \<and>
   distinct (map snd (senders (CloseHandle_begin 8 (New demoOptions)))) \<and>
   drainingDatagrams (CloseHandle_begin 8 (New demoOptions)) \<subseteq>
     {d \<in> snd ` set (senders (CloseHandle_begin 8 (New demoOptions))).
       ds_sendClosed (datagramAt (CloseHandle_begin 8 (New demoOptions)) d) \<or> CloseChannel d \<in> set (closings (CloseHandle_begin 8 (New demoOptions)))}"
proof -
  have r: "reachable demoOptions (CloseHandle_begin 8 (New demoOptions))"
    by (rule reachable_step [OF demo_New]) (simp_all add: handlesLeft_def New_handlesLeft step_def call_CloseHandle)
  have v: "1 \<in> drainingDatagrams (CloseHandle_begin 8 (New demoOptions))" "\<not> ds_sendClosed (datagramAt (CloseHandle_begin 8 (New demoOptions)) 1)"
    "\<not> closed (CloseHandle_begin 8 (New demoOptions))"
    by (simp_all add: CloseHandle_begin_def CloseHandle_locked_def closeStreamHandle_def closeDatagramHandle_def closeListenerHandle_def
        New_def demoOptions_def emptyReactor_def addStream_def addDatagram_def receiveResource_def newDatagramState_def)
  show ?thesis using socket_has_one_sender [OF r v(3)] v(1,2) by (intro conjI) blast+
qed

end
