(* ===== verification/HostCrypto.thy ===== *)
theory HostCrypto
  imports Reactor HostWire
begin

text \<open>
  The state behind the functions a guest imports from the host (internal/hostabi): the reactor, the cache of
  ciphers and the guest's linear memory. The memory is the WebAssembly runtime's, so it is a parameter: a read
  of a range and a write at an address, each of which fails out of range. This theory holds the environment
  record that collects such parameters, the status codes (status.go, connect_error_*.go) and the
  authenticated encryption of crypto.go.
\<close>

type_synonym i32 = "32 word"

section \<open>The environment\<close>

text \<open>The numbers of the four connection errors on the system the host is compiled for (Windows has
  its own), or none of them.\<close>

datatype connectErrors =
    SystemErrors (refused: int) (aborted: int) (reset: int) (notConnected: int)
  | NoConnectErrors

definition windowsErrors :: connectErrors where
  "windowsErrors = SystemErrors 10061 10053 10054 10057"

text \<open>
  \<open>env_read\<close> and \<open>env_write\<close> are the guest's memory; \<open>env_seal\<close> and \<open>env_open\<close> are AES-GCM of the
  standard library as functions of key, nonce, text and additional data; \<open>env_clobber\<close> is what a failed
  \<^verbatim>\<open>Open\<close> leaves in its buffer; \<open>env_deliver\<close> is the delivery function of an event sink.
\<close>

record 'm hostEnv =
  env_arch :: goarch
  env_ifaces :: iface_table
  env_errors :: connectErrors
  env_read :: "'m \<Rightarrow> u32 \<Rightarrow> u32 \<Rightarrow> bytes option"
  env_write :: "'m \<Rightarrow> u32 \<Rightarrow> bytes \<Rightarrow> 'm option"
  env_seal :: "bytes \<Rightarrow> bytes \<Rightarrow> bytes \<Rightarrow> bytes \<Rightarrow> bytes"
  env_open :: "bytes \<Rightarrow> bytes \<Rightarrow> bytes \<Rightarrow> bytes \<Rightarrow> bytes option"
  env_clobber :: "bytes \<Rightarrow> bytes"
  env_deliver :: "ref \<Rightarrow> bytes \<Rightarrow> bytes \<Rightarrow> bool"
  env_closeErr :: "ioResource \<Rightarrow> goerror option"

section \<open>Status codes\<close>

definition statusPending :: i32 where "statusPending = - 1"
definition statusInvalid :: i32 where "statusInvalid = - 2"
definition statusIOError :: i32 where "statusIOError = - 3"
definition statusMemory :: i32 where "statusMemory = - 4"
definition statusWouldBlock :: i32 where "statusWouldBlock = - 5"
definition statusConnectionRefused :: i32 where "statusConnectionRefused = - 6"
definition statusConnectionAborted :: i32 where "statusConnectionAborted = - 7"
definition statusConnectionReset :: i32 where "statusConnectionReset = - 8"
definition statusNotConnected :: i32 where "statusNotConnected = - 9"
definition statusCryptoAuthFailed :: i32 where "statusCryptoAuthFailed = - 10"
definition statusCryptoFallback :: i32 where "statusCryptoFallback = - 11"

definition operationStatus :: "goerror option \<Rightarrow> i32" where
  "operationStatus err =
     (case err of
        None \<Rightarrow> 0
      | Some err \<Rightarrow>
          if errors_Is err ErrPending then statusPending
          else if errors_Is err ErrInvalid then statusInvalid
          else if errors_Is err ErrWouldBlock then statusWouldBlock
          else statusIOError)"

definition isConnectionRefused :: "connectErrors \<Rightarrow> goerror \<Rightarrow> bool" where
  "isConnectionRefused ce err =
     (case ce of SystemErrors n _ _ _ \<Rightarrow> errors_Is err (Errno n) | NoConnectErrors \<Rightarrow> False)"

definition isConnectionAborted :: "connectErrors \<Rightarrow> goerror \<Rightarrow> bool" where
  "isConnectionAborted ce err =
     (case ce of SystemErrors _ n _ _ \<Rightarrow> errors_Is err (Errno n) | NoConnectErrors \<Rightarrow> False)"

definition isConnectionReset :: "connectErrors \<Rightarrow> goerror \<Rightarrow> bool" where
  "isConnectionReset ce err =
     (case ce of SystemErrors _ _ n _ \<Rightarrow> errors_Is err (Errno n) | NoConnectErrors \<Rightarrow> False)"

definition isNotConnected :: "connectErrors \<Rightarrow> goerror \<Rightarrow> bool" where
  "isNotConnected ce err =
     (case ce of SystemErrors _ _ _ n \<Rightarrow> errors_Is err (Errno n) | NoConnectErrors \<Rightarrow> False)"

definition connectStatus :: "connectErrors \<Rightarrow> goerror option \<Rightarrow> i32" where
  "connectStatus ce err =
     (case err of
        None \<Rightarrow> 0
      | Some err \<Rightarrow>
          if errors_Is err ErrPending then statusPending
          else if errors_Is err ErrInvalid then statusInvalid
          else if isConnectionRefused ce err then statusConnectionRefused
          else if isConnectionAborted ce err then statusConnectionAborted
          else if isConnectionReset ce err then statusConnectionReset
          else if isNotConnected ce err then statusNotConnected
          else statusIOError)"

section \<open>The cache of ciphers\<close>

definition aeadAES128GCM :: u32 where "aeadAES128GCM = 1"
definition aeadAES256GCM :: u32 where "aeadAES256GCM = 2"
definition aeadCacheCapacity :: nat where "aeadCacheCapacity = 64"

text \<open>
  A cached cipher is identified by the key it was made with: \<^verbatim>\<open>aes.NewCipher\<close> accepts keys of 16
  and 32 bytes and \<^verbatim>\<open>cipher.NewGCM\<close> accepts every AES block.
\<close>

record aeadCacheKey =
  ck_algorithm :: u32
  ck_key :: bytes

record aeadCache =
  ac_entries :: "aeadCacheKey \<rightharpoonup> bytes"
  ac_order :: "aeadCacheKey list"
  ac_size :: nat
  ac_next :: nat

definition emptyCacheKey :: aeadCacheKey where
  "emptyCacheKey = \<lparr>ck_algorithm = 0, ck_key = replicate 32 0\<rparr>"

definition emptyCache :: aeadCache where
  "emptyCache =
     \<lparr>ac_entries = Map.empty, ac_order = replicate aeadCacheCapacity emptyCacheKey,
      ac_size = 0, ac_next = 0\<rparr>"

definition aeadCache_get :: "u32 \<Rightarrow> bytes \<Rightarrow> aeadCache \<Rightarrow> bytes option \<times> aeadCache" where
  "aeadCache_get algorithm key cache =
     (if (algorithm \<noteq> aeadAES128GCM \<or> length key \<noteq> 16) \<and>
         (algorithm \<noteq> aeadAES256GCM \<or> length key \<noteq> 32)
      then (None, cache)
      else
        let cacheKey = \<lparr>ck_algorithm = algorithm, ck_key = copy_into (replicate 32 0) 0 32 key\<rparr>
        in case ac_entries cache cacheKey of
             Some cached \<Rightarrow> (Some cached, cache)
           | None \<Rightarrow>
               let cache =
                 (if ac_size cache < aeadCacheCapacity
                  then cache\<lparr>ac_order := (ac_order cache)[ac_size cache := cacheKey],
                             ac_size := ac_size cache + 1\<rparr>
                  else cache\<lparr>ac_entries := (ac_entries cache)(ac_order cache ! ac_next cache := None),
                             ac_order := (ac_order cache)[ac_next cache := cacheKey],
                             ac_next := (ac_next cache + 1) mod aeadCacheCapacity\<rparr>)
               in (Some key, cache\<lparr>ac_entries := (ac_entries cache)(cacheKey \<mapsto> key)\<rparr>))"

section \<open>Sealing and opening\<close>

text \<open>The state of the adapter with the memory of the guest that calls it.\<close>

record 'm host =
  h_reactor :: reactor
  h_aeads :: aeadCache
  h_memory :: 'm

text \<open>\<^verbatim>\<open>NonceSize\<close> and \<^verbatim>\<open>Overhead\<close> of GCM as \<^verbatim>\<open>NewGCM\<close> makes it.\<close>

definition gcmNonceSize :: nat where "gcmNonceSize = 12"
definition gcmOverhead :: u32 where "gcmOverhead = 16"

definition readCryptoBytes :: "'m hostEnv \<Rightarrow> 'm \<Rightarrow> u32 \<Rightarrow> u32 \<Rightarrow> bytes option" where
  "readCryptoBytes E m pointer len = (if len = 0 then Some [] else env_read E m pointer len)"

definition cryptoAEADInputs ::
  "'m hostEnv \<Rightarrow> u32 \<Rightarrow> u32 \<Rightarrow> u32 \<Rightarrow> u32 \<Rightarrow> u32 \<Rightarrow> u32 \<Rightarrow> u32 \<Rightarrow> 'm host
    \<Rightarrow> (bytes \<times> bytes \<times> bytes) option \<times> 'm host" where
  "cryptoAEADInputs E algorithm keyPointer keyLength noncePointer nonceLength aadPointer aadLength s =
     (case readCryptoBytes E (h_memory s) keyPointer keyLength of
        None \<Rightarrow> (None, s)
      | Some key \<Rightarrow>
          let (aead, cache) = aeadCache_get algorithm key (h_aeads s);
              s = s\<lparr>h_aeads := cache\<rparr>
          in case aead of
               None \<Rightarrow> (None, s)
             | Some aead \<Rightarrow>
                 case readCryptoBytes E (h_memory s) noncePointer nonceLength of
                   None \<Rightarrow> (None, s)
                 | Some nonce \<Rightarrow>
                     if length nonce \<noteq> gcmNonceSize then (None, s)
                     else
                       case readCryptoBytes E (h_memory s) aadPointer aadLength of
                         None \<Rightarrow> (None, s)
                       | Some aad \<Rightarrow> (Some (nonce, aad, aead), s))"

text \<open>
  \<^verbatim>\<open>Seal\<close> and \<^verbatim>\<open>Open\<close> work in place on the slice of guest memory that the preceding read
  returned, so that the write cannot fail.
\<close>

definition overwrite :: "'m hostEnv \<Rightarrow> u32 \<Rightarrow> bytes \<Rightarrow> 'm host \<Rightarrow> 'm host" where
  "overwrite E pointer content s =
     (case env_write E (h_memory s) pointer content of
        Some m \<Rightarrow> s\<lparr>h_memory := m\<rparr>
      | None \<Rightarrow> s)"

definition cryptoAEADSeal ::
  "'m hostEnv \<Rightarrow> u32 \<Rightarrow> u32 \<Rightarrow> u32 \<Rightarrow> u32 \<Rightarrow> u32 \<Rightarrow> u32 \<Rightarrow> u32 \<Rightarrow> u32 \<Rightarrow> u32 \<Rightarrow> 'm host \<Rightarrow> i32 \<times> 'm host" where
  "cryptoAEADSeal E algorithm keyPointer keyLength noncePointer nonceLength aadPointer aadLength
     bufferPointer textLength s =
     (case cryptoAEADInputs E algorithm keyPointer keyLength noncePointer nonceLength aadPointer aadLength s of
        (None, s) \<Rightarrow> (statusCryptoFallback, s)
      | (Some (nonce, aad, aead), s) \<Rightarrow>
          if textLength > - 1 - gcmOverhead then (statusCryptoFallback, s)
          else
            case env_read E (h_memory s) bufferPointer (textLength + gcmOverhead) of
              None \<Rightarrow> (statusCryptoFallback, s)
            | Some buffer \<Rightarrow>
                (0, overwrite E bufferPointer
                      (env_seal E aead nonce (take (unat textLength) buffer) aad) s))"

definition cryptoAEADOpen ::
  "'m hostEnv \<Rightarrow> u32 \<Rightarrow> u32 \<Rightarrow> u32 \<Rightarrow> u32 \<Rightarrow> u32 \<Rightarrow> u32 \<Rightarrow> u32 \<Rightarrow> u32 \<Rightarrow> u32 \<Rightarrow> 'm host \<Rightarrow> i32 \<times> 'm host" where
  "cryptoAEADOpen E algorithm keyPointer keyLength noncePointer nonceLength aadPointer aadLength
     bufferPointer textLength s =
     (case cryptoAEADInputs E algorithm keyPointer keyLength noncePointer nonceLength aadPointer aadLength s of
        (None, s) \<Rightarrow> (statusCryptoFallback, s)
      | (Some (nonce, aad, aead), s) \<Rightarrow>
          if textLength > - 1 - gcmOverhead then (statusCryptoFallback, s)
          else
            case env_read E (h_memory s) bufferPointer (textLength + gcmOverhead) of
              None \<Rightarrow> (statusCryptoFallback, s)
            | Some buffer \<Rightarrow>
                case env_open E aead nonce buffer aad of
                  None \<Rightarrow> (statusCryptoAuthFailed, overwrite E bufferPointer (env_clobber E buffer) s)
                | Some opened \<Rightarrow>
                    let s = overwrite E bufferPointer opened s
                    in if length opened \<noteq> unat textLength then (statusCryptoAuthFailed, s) else (0, s))"

end
