(* ===== verification/HostAbi.thy ===== *)
theory HostAbi
  imports HostCrypto
begin

text \<open>
  The functions a guest imports from the host (internal/hostabi): every one reads its arguments from the guest's
  memory, calls the reactor and writes the result back, and returns a status or a length. \<open>Panic\<close> is a
  run-time panic of a decoder, which ends the call. At the end the functions on the WebAssembly value stack and the
  table of exports, one constructor per import.
\<close>

type_synonym 'm abi = "'m host \<Rightarrow> i32 outcome \<times> 'm host"

text \<open>A call of the reactor that returns an error, and its status.\<close>

definition withReactor :: "(reactor \<Rightarrow> goerror option \<times> reactor) \<Rightarrow> 'm abi" where
  "withReactor f s =
     (let (err, r) = f (h_reactor s) in (Ok (operationStatus err), s\<lparr>h_reactor := r\<rparr>))"

definition updReactor :: "(reactor \<Rightarrow> reactor) \<Rightarrow> 'm host \<Rightarrow> 'm host" where
  "updReactor f s = s\<lparr>h_reactor := f (h_reactor s)\<rparr>"

text \<open>A decoder in front of a call: an error is \<open>statusInvalid\<close>.\<close>

fun decoded :: "'a outcome \<Rightarrow> ('a \<Rightarrow> 'm abi) \<Rightarrow> 'm abi" where
  "decoded (Ok x) f s = f x s"
| "decoded (Err _) f s = (Ok statusInvalid, s)"
| "decoded Panic f s = (Panic, s)"

section \<open>stream.go\<close>

definition startRead :: "u64 \<Rightarrow> u64 \<Rightarrow> u32 \<Rightarrow> 'm abi" where
  "startRead handle operation capacity = withReactor (StartRead handle operation capacity)"

definition takeRead :: "'m hostEnv \<Rightarrow> u64 \<Rightarrow> u32 \<Rightarrow> u32 \<Rightarrow> 'm abi" where
  "takeRead E operation destination capacity s =
     (let ((data, err), r) = TakeRead operation (h_reactor s);
          s = s\<lparr>h_reactor := r\<rparr>
      in if err \<noteq> None then (Ok (operationStatus err), s)
         else if (of_nat (length data) :: u32) > capacity then (Ok statusMemory, s)
         else if data = [] then (Ok 0, s)
         else case env_write E (h_memory s) destination data of
                None \<Rightarrow> (Ok statusMemory, s)
              | Some m \<Rightarrow> (Ok (of_nat (length data)), s\<lparr>h_memory := m\<rparr>))"

definition startWrite :: "'m hostEnv \<Rightarrow> u64 \<Rightarrow> u64 \<Rightarrow> u32 \<Rightarrow> u32 \<Rightarrow> 'm abi" where
  "startWrite E handle operation source len s =
     (case env_read E (h_memory s) source len of
        None \<Rightarrow> (Ok statusMemory, s)
      | Some data \<Rightarrow> withReactor (StartWrite handle operation data) s)"

definition takeWrite :: "u64 \<Rightarrow> 'm abi" where
  "takeWrite operation = withReactor (TakeWrite operation)"

definition cancelOperation :: "u64 \<Rightarrow> 'm abi" where
  "cancelOperation operation = withReactor (\<lambda>r. (None, CancelOperation operation r))"

definition closeHandle :: "'m hostEnv \<Rightarrow> u64 \<Rightarrow> 'm abi" where
  "closeHandle E handle = withReactor (CloseHandle (env_closeErr E) handle)"

section \<open>udp.go\<close>

definition startUDPReceive :: "u64 \<Rightarrow> u64 \<Rightarrow> u32 \<Rightarrow> 'm abi" where
  "startUDPReceive handle operation _ = withReactor (StartUDPReceive handle operation)"

definition takeUDPReceive :: "'m hostEnv \<Rightarrow> u64 \<Rightarrow> u32 \<Rightarrow> u32 \<Rightarrow> u32 \<Rightarrow> u32 \<Rightarrow> 'm abi" where
  "takeUDPReceive E operation destination capacity metadataDestination metadataLength s =
     (if metadataLength \<noteq> of_nat udpMetadataLen then (Ok statusMemory, s)
      else if env_read E (h_memory s) destination capacity = None then (Ok statusMemory, s)
      else if env_read E (h_memory s) metadataDestination metadataLength = None then (Ok statusMemory, s)
      else
        let (result, r) = TakeUDPReceive operation capacity (h_reactor s);
            s = s\<lparr>h_reactor := r\<rparr>
        in case result of
             Err err \<Rightarrow> (Ok (operationStatus (Some err)), s)
           | Panic \<Rightarrow> (Panic, s)
           | Ok datagram \<Rightarrow>
               case (if dg_Data datagram = [] then Some (h_memory s)
                     else env_write E (h_memory s) destination (dg_Data datagram)) of
                 None \<Rightarrow> (Ok statusMemory, s)
               | Some m \<Rightarrow>
                   let s = s\<lparr>h_memory := m\<rparr> in
                   decoded (encodeUDPMetadata (env_ifaces E) (Some (dg_Peer datagram)) None 0)
                     (\<lambda>metadata s.
                       case env_write E (h_memory s) metadataDestination metadata of
                         None \<Rightarrow> (Ok statusMemory, s)
                       | Some m \<Rightarrow> (Ok (of_nat (length (dg_Data datagram))), s\<lparr>h_memory := m\<rparr>)) s)"

definition tryUDPSend :: "'m hostEnv \<Rightarrow> u64 \<Rightarrow> u32 \<Rightarrow> u32 \<Rightarrow> u32 \<Rightarrow> u32 \<Rightarrow> 'm abi" where
  "tryUDPSend E handle source len metadataSource metadataLength s =
     (if metadataLength \<noteq> of_nat udpMetadataLen \<or> len > 65535 then (Ok statusMemory, s)
      else
        case env_read E (h_memory s) metadataSource metadataLength of
          None \<Rightarrow> (Ok statusMemory, s)
        | Some metadata \<Rightarrow>
            decoded (decodeUDPMetadata (env_arch E) (env_ifaces E) metadata)
              (\<lambda>(peer, sourceIP, flowinfo, sourceIfindex) s.
                if sourceIP \<noteq> None \<or> flowinfo \<noteq> 0 \<or> sourceIfindex \<noteq> 0 then (Ok statusInvalid, s)
                else
                  case env_read E (h_memory s) source len of
                    None \<Rightarrow> (Ok statusMemory, s)
                  | Some data \<Rightarrow> withReactor (TryUDPSend handle data (Some peer)) s) s)"

definition startUDPSendReady :: "u64 \<Rightarrow> u64 \<Rightarrow> 'm abi" where
  "startUDPSendReady handle operation = withReactor (StartUDPSendReady handle operation)"

definition takeUDPSendReady :: "u64 \<Rightarrow> 'm abi" where
  "takeUDPSendReady operation = withReactor (TakeUDPSendReady operation)"

section \<open>factory.go and listener.go\<close>

definition readOwnedOptions :: "'m hostEnv \<Rightarrow> 'm \<Rightarrow> u32 \<Rightarrow> u32 \<Rightarrow> bytes option" where
  "readOwnedOptions E m pointer len =
     (if len > of_nat maxFactoryOptionsSize then None else env_read E m pointer len)"

definition validResultMemory :: "'m hostEnv \<Rightarrow> 'm \<Rightarrow> u32 \<Rightarrow> u32 \<Rightarrow> nat \<Rightarrow> bool" where
  "validResultMemory E m pointer len expected \<longleftrightarrow>
     len = of_nat expected \<and> env_read E m pointer len \<noteq> None"

text \<open>A nil address is none of the types the encoder knows.\<close>

definition addrOrNil :: "net_addr option \<Rightarrow> net_addr" where
  "addrOrNil a = (case a of Some a \<Rightarrow> a | None \<Rightarrow> OtherAddr)"

text \<open>The end the four \<^verbatim>\<open>take\<close> functions of sockets share: a result that cannot be encoded or written
  closes the handle that was just made.\<close>

definition writeResult :: "'m hostEnv \<Rightarrow> bytes outcome \<Rightarrow> u32 \<Rightarrow> u64 \<Rightarrow> 'm abi" where
  "writeResult E encoded resultPointer handle s =
     (case encoded of
        Panic \<Rightarrow> (Panic, s)
      | Err _ \<Rightarrow> (Ok statusMemory, updReactor (\<lambda>r. snd (CloseHandle (env_closeErr E) handle r)) s)
      | Ok encoded \<Rightarrow>
          case env_write E (h_memory s) resultPointer encoded of
            None \<Rightarrow> (Ok statusMemory, updReactor (\<lambda>r. snd (CloseHandle (env_closeErr E) handle r)) s)
          | Some m \<Rightarrow> (Ok 0, s\<lparr>h_memory := m\<rparr>))"

definition startTCPConnect :: "'m hostEnv \<Rightarrow> u64 \<Rightarrow> u32 \<Rightarrow> u32 \<Rightarrow> 'm abi" where
  "startTCPConnect E operation optionsPointer optionsLength s =
     (case readOwnedOptions E (h_memory s) optionsPointer optionsLength of
        None \<Rightarrow> (Ok statusMemory, s)
      | Some encoded \<Rightarrow>
          decoded (decodeTCPConnectOptions (env_arch E) (env_ifaces E) encoded)
            (\<lambda>options. withReactor (StartTCPConnect operation options)) s)"

definition startUDPBind :: "'m hostEnv \<Rightarrow> u64 \<Rightarrow> u32 \<Rightarrow> u32 \<Rightarrow> 'm abi" where
  "startUDPBind E operation optionsPointer optionsLength s =
     (case readOwnedOptions E (h_memory s) optionsPointer optionsLength of
        None \<Rightarrow> (Ok statusMemory, s)
      | Some encoded \<Rightarrow>
          decoded (decodeUDPBindOptions (env_arch E) (env_ifaces E) encoded)
            (\<lambda>options. withReactor (StartUDPBind operation options)) s)"

definition startTCPListen :: "'m hostEnv \<Rightarrow> u64 \<Rightarrow> u32 \<Rightarrow> u32 \<Rightarrow> 'm abi" where
  "startTCPListen E operation optionsPointer optionsLength s =
     (case readOwnedOptions E (h_memory s) optionsPointer optionsLength of
        None \<Rightarrow> (Ok statusMemory, s)
      | Some encoded \<Rightarrow>
          decoded (decodeTCPListenOptions (env_arch E) (env_ifaces E) encoded)
            (\<lambda>options. withReactor (StartTCPListen operation options)) s)"

definition takeTCPConnect :: "'m hostEnv \<Rightarrow> u64 \<Rightarrow> u32 \<Rightarrow> u32 \<Rightarrow> 'm abi" where
  "takeTCPConnect E operation resultPointer resultLength s =
     (if \<not> validResultMemory E (h_memory s) resultPointer resultLength tcpSocketResultLen
      then (Ok statusMemory, updReactor (CancelOperation operation) s)
      else
        let (result, r) = TakeTCPConnect operation (h_reactor s);
            s = s\<lparr>h_reactor := r\<rparr>
        in case result of
             Err err \<Rightarrow> (Ok (connectStatus (env_errors E) (Some err)), s)
           | Panic \<Rightarrow> (Panic, s)
           | Ok result \<Rightarrow>
               writeResult E (encodeTCPSocketResult (env_ifaces E) (sr_Handle result) (addrOrNil (sr_Local result)) (addrOrNil (sr_Peer result)))
                 resultPointer (sr_Handle result) s)"

definition takeUDPBind :: "'m hostEnv \<Rightarrow> u64 \<Rightarrow> u32 \<Rightarrow> u32 \<Rightarrow> 'm abi" where
  "takeUDPBind E operation resultPointer resultLength s =
     (if \<not> validResultMemory E (h_memory s) resultPointer resultLength boundSocketResultLen
      then (Ok statusMemory, updReactor (CancelOperation operation) s)
      else
        let (result, r) = TakeUDPBind operation (h_reactor s);
            s = s\<lparr>h_reactor := r\<rparr>
        in case result of
             Err err \<Rightarrow> (Ok (operationStatus (Some err)), s)
           | Panic \<Rightarrow> (Panic, s)
           | Ok result \<Rightarrow>
               writeResult E (encodeBoundSocketResult (env_ifaces E) (br_Handle result) (addrOrNil (br_Local result)))
                 resultPointer (br_Handle result) s)"

definition takeTCPListen :: "'m hostEnv \<Rightarrow> u64 \<Rightarrow> u32 \<Rightarrow> u32 \<Rightarrow> 'm abi" where
  "takeTCPListen E operation resultPointer resultLength s =
     (if \<not> validResultMemory E (h_memory s) resultPointer resultLength boundSocketResultLen
      then (Ok statusMemory, updReactor (CancelOperation operation) s)
      else
        let (result, r) = TakeTCPListen operation (h_reactor s);
            s = s\<lparr>h_reactor := r\<rparr>
        in case result of
             Err err \<Rightarrow> (Ok (operationStatus (Some err)), s)
           | Panic \<Rightarrow> (Panic, s)
           | Ok result \<Rightarrow>
               writeResult E (encodeBoundSocketResult (env_ifaces E) (br_Handle result) (addrOrNil (br_Local result)))
                 resultPointer (br_Handle result) s)"

definition startTCPAccept :: "u64 \<Rightarrow> u64 \<Rightarrow> 'm abi" where
  "startTCPAccept handle operation = withReactor (StartTCPAccept handle operation)"

definition takeTCPAccept :: "'m hostEnv \<Rightarrow> u64 \<Rightarrow> u32 \<Rightarrow> u32 \<Rightarrow> 'm abi" where
  "takeTCPAccept E operation resultPointer resultLength s =
     (if \<not> validResultMemory E (h_memory s) resultPointer resultLength tcpSocketResultLen
      then (Ok statusMemory, updReactor (CancelOperation operation) s)
      else
        let (result, r) = TakeTCPAccept operation (h_reactor s);
            s = s\<lparr>h_reactor := r\<rparr>
        in case result of
             Err err \<Rightarrow> (Ok (operationStatus (Some err)), s)
           | Panic \<Rightarrow> (Panic, s)
           | Ok result \<Rightarrow>
               writeResult E (encodeTCPSocketResult (env_ifaces E) (sr_Handle result) (addrOrNil (sr_Local result)) (addrOrNil (sr_Peer result)))
                 resultPointer (sr_Handle result) s)"

section \<open>dns.go\<close>

definition maxDNSQueryLen :: u32 where "maxDNSQueryLen = 4096"

definition startDNS :: "'m hostEnv \<Rightarrow> DNSKind \<Rightarrow> u64 \<Rightarrow> u32 \<Rightarrow> u32 \<Rightarrow> 'm abi" where
  "startDNS E kind operation queryPointer queryLength s =
     (if queryLength = 0 \<or> queryLength > maxDNSQueryLen then (Ok statusInvalid, s)
      else
        case env_read E (h_memory s) queryPointer queryLength of
          None \<Rightarrow> (Ok statusMemory, s)
        | Some encoded \<Rightarrow>
            decoded (decodeDNSQuery encoded) (\<lambda>query. withReactor (StartDNS operation kind query)) s)"

definition startDNSAddress :: "'m hostEnv \<Rightarrow> u64 \<Rightarrow> u32 \<Rightarrow> u32 \<Rightarrow> 'm abi" where
  "startDNSAddress E = startDNS E DNSAddress"

definition startDNSTXT :: "'m hostEnv \<Rightarrow> u64 \<Rightarrow> u32 \<Rightarrow> u32 \<Rightarrow> 'm abi" where
  "startDNSTXT E = startDNS E DNSTXT"

definition startDNSSRV :: "'m hostEnv \<Rightarrow> u64 \<Rightarrow> u32 \<Rightarrow> u32 \<Rightarrow> 'm abi" where
  "startDNSSRV E = startDNS E DNSSRV"

definition encodeDNSResult :: "DNSKind \<Rightarrow> DNSResult \<Rightarrow> bytes outcome" where
  "encodeDNSResult kind result =
     (case kind of
        DNSAddress \<Rightarrow> encodeDNSAddresses (dr_Addresses result)
      | DNSTXT \<Rightarrow> encodeDNSTXT (dr_Text result)
      | DNSSRV \<Rightarrow> encodeDNSSRV (dr_Records result)
      | DNSOther _ \<Rightarrow> Panic)"

definition takeDNS :: "'m hostEnv \<Rightarrow> DNSKind \<Rightarrow> u64 \<Rightarrow> u32 \<Rightarrow> u32 \<Rightarrow> 'm abi" where
  "takeDNS E kind operation resultPointer resultCapacity s =
     (let (result, r) = DNSResult_op operation (h_reactor s);
          s = s\<lparr>h_reactor := r\<rparr>
      in case result of
           Err err \<Rightarrow> (Ok (operationStatus (Some err)), s)
         | Panic \<Rightarrow> (Panic, s)
         | Ok result \<Rightarrow>
             if dr_Kind result \<noteq> kind then (Ok statusInvalid, s)
             else if \<exists>k. kind = DNSOther k then (Ok statusInvalid, s)
             else
               case encodeDNSResult kind result of
                 Panic \<Rightarrow> (Panic, s)
               | Err _ \<Rightarrow> (Ok statusInvalid, updReactor (\<lambda>r. snd (FinishDNS operation r)) s)
               | Ok encoded \<Rightarrow>
                   if resultCapacity < of_nat (length encoded) then (Ok (of_nat (length encoded)), s)
                   else
                     let (err, r) = FinishDNS operation (h_reactor s);
                         s = s\<lparr>h_reactor := r\<rparr>
                     in if err \<noteq> None then (Ok (operationStatus err), s)
                        else case env_write E (h_memory s) resultPointer encoded of
                               None \<Rightarrow> (Ok statusMemory, s)
                             | Some m \<Rightarrow> (Ok (of_nat (length encoded)), s\<lparr>h_memory := m\<rparr>))"

definition takeDNSAddress :: "'m hostEnv \<Rightarrow> u64 \<Rightarrow> u32 \<Rightarrow> u32 \<Rightarrow> 'm abi" where
  "takeDNSAddress E = takeDNS E DNSAddress"

definition takeDNSTXT :: "'m hostEnv \<Rightarrow> u64 \<Rightarrow> u32 \<Rightarrow> u32 \<Rightarrow> 'm abi" where
  "takeDNSTXT E = takeDNS E DNSTXT"

definition takeDNSSRV :: "'m hostEnv \<Rightarrow> u64 \<Rightarrow> u32 \<Rightarrow> u32 \<Rightarrow> 'm abi" where
  "takeDNSSRV E = takeDNS E DNSSRV"

section \<open>environment.go\<close>

text \<open>\<^verbatim>\<open>decodeSocketAddress\<close> with a required address returns one when it returns no error.\<close>

definition startLocalAddrForRemote ::
  "'m hostEnv \<Rightarrow> u64 \<Rightarrow> u32 \<Rightarrow> u32 \<Rightarrow> u32 \<Rightarrow> u32 \<Rightarrow> 'm abi" where
  "startLocalAddrForRemote E operation remotePointer remoteLength contextPointer contextLength s =
     (if remoteLength \<noteq> of_nat socketAddressLen then (Ok statusInvalid, s)
      else
        case env_read E (h_memory s) remotePointer remoteLength of
          None \<Rightarrow> (Ok statusMemory, s)
        | Some encoded \<Rightarrow>
            decoded (decodeSocketAddress (env_arch E) (env_ifaces E) encoded False) (\<lambda>remote s.
              case readOwnedOptions E (h_memory s) contextPointer contextLength of
                None \<Rightarrow> (Ok statusMemory, s)
              | Some encodedContext \<Rightarrow>
                  decoded (decodeSocketContext (env_arch E) encodedContext)
                    (\<lambda>(socketContext, remainder) s.
                      if remainder \<noteq> [] then (Ok statusInvalid, s)
                      else
                        case remote of
                          None \<Rightarrow> (Panic, s)
                        | Some remote \<Rightarrow>
                            withReactor (StartLocalAddrForRemote operation remote socketContext) s) s) s)"

definition takeLocalAddrForRemote :: "'m hostEnv \<Rightarrow> u64 \<Rightarrow> u32 \<Rightarrow> u32 \<Rightarrow> 'm abi" where
  "takeLocalAddrForRemote E operation resultPointer resultLength s =
     (if \<not> validResultMemory E (h_memory s) resultPointer resultLength socketAddressLen
      then (Ok statusMemory, updReactor (CancelOperation operation) s)
      else
        let ((address, err), r) = TakeLocalAddrForRemote operation (h_reactor s);
            s = s\<lparr>h_reactor := r\<rparr>
        in if err \<noteq> None then (Ok (operationStatus err), s)
           else
             decoded (encodeNetAddr (env_ifaces E) (addrOrNil address)) (\<lambda>encoded s.
               case env_write E (h_memory s) resultPointer encoded of
                 None \<Rightarrow> (Ok statusMemory, s)
               | Some m \<Rightarrow> (Ok 0, s\<lparr>h_memory := m\<rparr>)) s)"

section \<open>management.go\<close>

definition maxManagementMessageLen :: nat where "maxManagementMessageLen = 16 * 1024 * 1024"

definition startManagement :: "'m hostEnv \<Rightarrow> u64 \<Rightarrow> u32 \<Rightarrow> u32 \<Rightarrow> 'm abi" where
  "startManagement E operation requestPointer requestLength s =
     (if requestLength = 0 \<or> requestLength > of_nat maxManagementMessageLen then (Ok statusInvalid, s)
      else
        case env_read E (h_memory s) requestPointer requestLength of
          None \<Rightarrow> (Ok statusMemory, s)
        | Some request \<Rightarrow> withReactor (StartManagement operation request) s)"

definition takeManagement :: "'m hostEnv \<Rightarrow> u64 \<Rightarrow> u32 \<Rightarrow> u32 \<Rightarrow> 'm abi" where
  "takeManagement E operation resultPointer resultCapacity s =
     (case ManagementResult operation (h_reactor s) of
        Err err \<Rightarrow> (Ok (operationStatus (Some err)), s)
      | Panic \<Rightarrow> (Panic, s)
      | Ok result \<Rightarrow>
          if length result > maxManagementMessageLen
          then (Ok statusInvalid, updReactor (CancelOperation operation) s)
          else if resultCapacity < of_nat (length result) then (Ok (of_nat (length result)), s)
          else
            let (err, r) = FinishManagement operation (h_reactor s);
                s = s\<lparr>h_reactor := r\<rparr>
            in if err \<noteq> None then (Ok (operationStatus err), s)
               else case env_write E (h_memory s) resultPointer result of
                      None \<Rightarrow> (Ok statusMemory, s)
                    | Some m \<Rightarrow> (Ok (of_nat (length result)), s\<lparr>h_memory := m\<rparr>))"

section \<open>packet.go and event.go\<close>

definition maxHostPacketLen :: u32 where "maxHostPacketLen = 1024 * 1024"
definition maxHostEventKindLen :: u32 where "maxHostEventKindLen = 64"
definition maxHostEventMessageLen :: u32 where "maxHostEventMessageLen = 64 * 1024"

definition tryPacketWrite :: "'m hostEnv \<Rightarrow> u64 \<Rightarrow> u32 \<Rightarrow> u32 \<Rightarrow> 'm abi" where
  "tryPacketWrite E handle packetPointer packetLength s =
     (if packetLength = 0 \<or> packetLength > maxHostPacketLen then (Ok statusInvalid, s)
      else
        case env_read E (h_memory s) packetPointer packetLength of
          None \<Rightarrow> (Ok statusMemory, s)
        | Some packet \<Rightarrow> withReactor (TryPacketWrite handle packet) s)"

definition startPacketWriteReady :: "u64 \<Rightarrow> u64 \<Rightarrow> 'm abi" where
  "startPacketWriteReady handle operation = withReactor (StartPacketWriteReady handle operation)"

definition takePacketWriteReady :: "u64 \<Rightarrow> 'm abi" where
  "takePacketWriteReady operation = withReactor (TakePacketWriteReady operation)"

definition emitEvent :: "'m hostEnv \<Rightarrow> u64 \<Rightarrow> u32 \<Rightarrow> u32 \<Rightarrow> u32 \<Rightarrow> u32 \<Rightarrow> 'm abi" where
  "emitEvent E handle kindPointer kindLength messagePointer messageLength s =
     (if kindLength = 0 \<or> kindLength > maxHostEventKindLen \<or>
         messageLength = 0 \<or> messageLength > maxHostEventMessageLen
      then (Ok statusInvalid, s)
      else
        case env_read E (h_memory s) kindPointer kindLength of
          None \<Rightarrow> (Ok statusMemory, s)
        | Some kind \<Rightarrow>
            case env_read E (h_memory s) messagePointer messageLength of
              None \<Rightarrow> (Ok statusMemory, s)
            | Some message \<Rightarrow>
                withReactor (\<lambda>r. (TryEventWrite (env_deliver E) handle kind message r, r)) s)"

section \<open>adapter.go: the exports and the value stack\<close>

text \<open>One constructor per export of the host module.\<close>

datatype hostFunction =
    HF_emit_event | HF_crypto_aead_seal | HF_crypto_aead_open | HF_start_read
  | HF_take_read | HF_start_write | HF_take_write | HF_start_udp_recv
  | HF_take_udp_recv | HF_try_udp_send | HF_start_udp_send_ready | HF_take_udp_send_ready
  | HF_start_tcp_connect | HF_take_tcp_connect | HF_start_udp_bind | HF_take_udp_bind
  | HF_start_tcp_bind | HF_take_tcp_bind | HF_start_tcp_accept | HF_take_tcp_accept
  | HF_start_dns_resolve | HF_take_dns_resolve | HF_start_dns_txt | HF_take_dns_txt
  | HF_start_dns_srv | HF_take_dns_srv | HF_start_local_addr_for_remote | HF_take_local_addr_for_remote
  | HF_start_management_call | HF_take_management_call | HF_try_packet_write | HF_start_packet_write_ready
  | HF_take_packet_write_ready | HF_cancel_operation | HF_close

datatype valueType = ValueTypeI64 | ValueTypeI32

definition hostExports :: "(hostFunction \<times> string \<times> valueType list) list" where
  "hostExports =
     [(HF_emit_event, ''emit_event'', [ValueTypeI64, ValueTypeI32, ValueTypeI32, ValueTypeI32, ValueTypeI32]),
      (HF_crypto_aead_seal, ''crypto_aead_seal'', [ValueTypeI32, ValueTypeI32, ValueTypeI32, ValueTypeI32, ValueTypeI32, ValueTypeI32, ValueTypeI32, ValueTypeI32, ValueTypeI32]),
      (HF_crypto_aead_open, ''crypto_aead_open'', [ValueTypeI32, ValueTypeI32, ValueTypeI32, ValueTypeI32, ValueTypeI32, ValueTypeI32, ValueTypeI32, ValueTypeI32, ValueTypeI32]),
      (HF_start_read, ''start_read'', [ValueTypeI64, ValueTypeI64, ValueTypeI32]),
      (HF_take_read, ''take_read'', [ValueTypeI64, ValueTypeI32, ValueTypeI32]),
      (HF_start_write, ''start_write'', [ValueTypeI64, ValueTypeI64, ValueTypeI32, ValueTypeI32]),
      (HF_take_write, ''take_write'', [ValueTypeI64]),
      (HF_start_udp_recv, ''start_udp_recv'', [ValueTypeI64, ValueTypeI64, ValueTypeI32]),
      (HF_take_udp_recv, ''take_udp_recv'', [ValueTypeI64, ValueTypeI32, ValueTypeI32, ValueTypeI32, ValueTypeI32]),
      (HF_try_udp_send, ''try_udp_send'', [ValueTypeI64, ValueTypeI32, ValueTypeI32, ValueTypeI32, ValueTypeI32]),
      (HF_start_udp_send_ready, ''start_udp_send_ready'', [ValueTypeI64, ValueTypeI64]),
      (HF_take_udp_send_ready, ''take_udp_send_ready'', [ValueTypeI64]),
      (HF_start_tcp_connect, ''start_tcp_connect'', [ValueTypeI64, ValueTypeI32, ValueTypeI32]),
      (HF_take_tcp_connect, ''take_tcp_connect'', [ValueTypeI64, ValueTypeI32, ValueTypeI32]),
      (HF_start_udp_bind, ''start_udp_bind'', [ValueTypeI64, ValueTypeI32, ValueTypeI32]),
      (HF_take_udp_bind, ''take_udp_bind'', [ValueTypeI64, ValueTypeI32, ValueTypeI32]),
      (HF_start_tcp_bind, ''start_tcp_bind'', [ValueTypeI64, ValueTypeI32, ValueTypeI32]),
      (HF_take_tcp_bind, ''take_tcp_bind'', [ValueTypeI64, ValueTypeI32, ValueTypeI32]),
      (HF_start_tcp_accept, ''start_tcp_accept'', [ValueTypeI64, ValueTypeI64]),
      (HF_take_tcp_accept, ''take_tcp_accept'', [ValueTypeI64, ValueTypeI32, ValueTypeI32]),
      (HF_start_dns_resolve, ''start_dns_resolve'', [ValueTypeI64, ValueTypeI32, ValueTypeI32]),
      (HF_take_dns_resolve, ''take_dns_resolve'', [ValueTypeI64, ValueTypeI32, ValueTypeI32]),
      (HF_start_dns_txt, ''start_dns_txt'', [ValueTypeI64, ValueTypeI32, ValueTypeI32]),
      (HF_take_dns_txt, ''take_dns_txt'', [ValueTypeI64, ValueTypeI32, ValueTypeI32]),
      (HF_start_dns_srv, ''start_dns_srv'', [ValueTypeI64, ValueTypeI32, ValueTypeI32]),
      (HF_take_dns_srv, ''take_dns_srv'', [ValueTypeI64, ValueTypeI32, ValueTypeI32]),
      (HF_start_local_addr_for_remote, ''start_local_addr_for_remote'', [ValueTypeI64, ValueTypeI32, ValueTypeI32, ValueTypeI32, ValueTypeI32]),
      (HF_take_local_addr_for_remote, ''take_local_addr_for_remote'', [ValueTypeI64, ValueTypeI32, ValueTypeI32]),
      (HF_start_management_call, ''start_management_call'', [ValueTypeI64, ValueTypeI32, ValueTypeI32]),
      (HF_take_management_call, ''take_management_call'', [ValueTypeI64, ValueTypeI32, ValueTypeI32]),
      (HF_try_packet_write, ''try_packet_write'', [ValueTypeI64, ValueTypeI32, ValueTypeI32]),
      (HF_start_packet_write_ready, ''start_packet_write_ready'', [ValueTypeI64, ValueTypeI64]),
      (HF_take_packet_write_ready, ''take_packet_write_ready'', [ValueTypeI64]),
      (HF_cancel_operation, ''cancel_operation'', [ValueTypeI64]),
      (HF_close, ''close'', [ValueTypeI64])]"

text \<open>
  \<^verbatim>\<open>api.DecodeU32\<close> and \<^verbatim>\<open>api.EncodeI32\<close>. The runtime passes a stack with a slot per
  parameter and at least one for the result.
\<close>

definition DecodeU32 :: "u64 \<Rightarrow> u32" where
  "DecodeU32 input = ucast input"

definition EncodeI32 :: "i32 \<Rightarrow> u64" where
  "EncodeI32 input = ucast input"

definition returnStatus :: "i32 outcome \<times> 'm host \<Rightarrow> u64 list \<Rightarrow> u64 list outcome \<times> 'm host" where
  "returnStatus result stack =
     (case result of
        (Ok status, s) \<Rightarrow> (Ok (stack[0 := EncodeI32 status]), s)
      | (Err e, s) \<Rightarrow> (Err e, s)
      | (Panic, s) \<Rightarrow> (Panic, s))"

text \<open>The functions that decode the stack themselves; the others are decoded by the runtime in the same way.\<close>

definition cryptoAEADFunction :: "'m hostEnv \<Rightarrow> bool \<Rightarrow> u64 list \<Rightarrow> 'm abi" where
  "cryptoAEADFunction E isOpen stack s =
     (let function = (if isOpen then cryptoAEADOpen E else cryptoAEADSeal E);
          (status, s) = function (DecodeU32 (stack ! 0)) (DecodeU32 (stack ! 1)) (DecodeU32 (stack ! 2))
            (DecodeU32 (stack ! 3)) (DecodeU32 (stack ! 4)) (DecodeU32 (stack ! 5)) (DecodeU32 (stack ! 6))
            (DecodeU32 (stack ! 7)) (DecodeU32 (stack ! 8)) s
      in (Ok status, s))"

definition emitEventFunction :: "'m hostEnv \<Rightarrow> u64 list \<Rightarrow> 'm abi" where
  "emitEventFunction E stack =
     emitEvent E (stack ! 0) (DecodeU32 (stack ! 1)) (DecodeU32 (stack ! 2)) (DecodeU32 (stack ! 3)) (DecodeU32 (stack ! 4))"

definition startReadFunction :: "u64 list \<Rightarrow> 'm abi" where
  "startReadFunction stack =
     startRead (stack ! 0) (stack ! 1) (DecodeU32 (stack ! 2))"

definition takeReadFunction :: "'m hostEnv \<Rightarrow> u64 list \<Rightarrow> 'm abi" where
  "takeReadFunction E stack =
     takeRead E (stack ! 0) (DecodeU32 (stack ! 1)) (DecodeU32 (stack ! 2))"

definition startWriteFunction :: "'m hostEnv \<Rightarrow> u64 list \<Rightarrow> 'm abi" where
  "startWriteFunction E stack =
     startWrite E (stack ! 0) (stack ! 1) (DecodeU32 (stack ! 2)) (DecodeU32 (stack ! 3))"

definition takeWriteFunction :: "u64 list \<Rightarrow> 'm abi" where
  "takeWriteFunction stack =
     takeWrite (stack ! 0)"

definition startUDPReceiveFunction :: "u64 list \<Rightarrow> 'm abi" where
  "startUDPReceiveFunction stack =
     startUDPReceive (stack ! 0) (stack ! 1) (DecodeU32 (stack ! 2))"

definition takeUDPReceiveFunction :: "'m hostEnv \<Rightarrow> u64 list \<Rightarrow> 'm abi" where
  "takeUDPReceiveFunction E stack =
     takeUDPReceive E (stack ! 0) (DecodeU32 (stack ! 1)) (DecodeU32 (stack ! 2)) (DecodeU32 (stack ! 3)) (DecodeU32 (stack ! 4))"

definition tryUDPSendFunction :: "'m hostEnv \<Rightarrow> u64 list \<Rightarrow> 'm abi" where
  "tryUDPSendFunction E stack =
     tryUDPSend E (stack ! 0) (DecodeU32 (stack ! 1)) (DecodeU32 (stack ! 2)) (DecodeU32 (stack ! 3)) (DecodeU32 (stack ! 4))"

definition startUDPSendReadyFunction :: "u64 list \<Rightarrow> 'm abi" where
  "startUDPSendReadyFunction stack =
     startUDPSendReady (stack ! 0) (stack ! 1)"

definition takeUDPSendReadyFunction :: "u64 list \<Rightarrow> 'm abi" where
  "takeUDPSendReadyFunction stack =
     takeUDPSendReady (stack ! 0)"

definition tryPacketWriteFunction :: "'m hostEnv \<Rightarrow> u64 list \<Rightarrow> 'm abi" where
  "tryPacketWriteFunction E stack =
     tryPacketWrite E (stack ! 0) (DecodeU32 (stack ! 1)) (DecodeU32 (stack ! 2))"

definition startPacketWriteReadyFunction :: "u64 list \<Rightarrow> 'm abi" where
  "startPacketWriteReadyFunction stack =
     startPacketWriteReady (stack ! 0) (stack ! 1)"

definition takePacketWriteReadyFunction :: "u64 list \<Rightarrow> 'm abi" where
  "takePacketWriteReadyFunction stack =
     takePacketWriteReady (stack ! 0)"

fun hostCall :: "'m hostEnv \<Rightarrow> hostFunction \<Rightarrow> u64 list \<Rightarrow> 'm abi" where
  "hostCall E HF_emit_event stack = emitEventFunction E stack"
| "hostCall E HF_crypto_aead_seal stack = cryptoAEADFunction E False stack"
| "hostCall E HF_crypto_aead_open stack = cryptoAEADFunction E True stack"
| "hostCall E HF_start_read stack = startReadFunction stack"
| "hostCall E HF_take_read stack = takeReadFunction E stack"
| "hostCall E HF_start_write stack = startWriteFunction E stack"
| "hostCall E HF_take_write stack = takeWriteFunction stack"
| "hostCall E HF_start_udp_recv stack = startUDPReceiveFunction stack"
| "hostCall E HF_take_udp_recv stack = takeUDPReceiveFunction E stack"
| "hostCall E HF_try_udp_send stack = tryUDPSendFunction E stack"
| "hostCall E HF_start_udp_send_ready stack = startUDPSendReadyFunction stack"
| "hostCall E HF_take_udp_send_ready stack = takeUDPSendReadyFunction stack"
| "hostCall E HF_start_tcp_connect stack = startTCPConnect E (stack ! 0) (DecodeU32 (stack ! 1)) (DecodeU32 (stack ! 2))"
| "hostCall E HF_take_tcp_connect stack = takeTCPConnect E (stack ! 0) (DecodeU32 (stack ! 1)) (DecodeU32 (stack ! 2))"
| "hostCall E HF_start_udp_bind stack = startUDPBind E (stack ! 0) (DecodeU32 (stack ! 1)) (DecodeU32 (stack ! 2))"
| "hostCall E HF_take_udp_bind stack = takeUDPBind E (stack ! 0) (DecodeU32 (stack ! 1)) (DecodeU32 (stack ! 2))"
| "hostCall E HF_start_tcp_bind stack = startTCPListen E (stack ! 0) (DecodeU32 (stack ! 1)) (DecodeU32 (stack ! 2))"
| "hostCall E HF_take_tcp_bind stack = takeTCPListen E (stack ! 0) (DecodeU32 (stack ! 1)) (DecodeU32 (stack ! 2))"
| "hostCall E HF_start_tcp_accept stack = startTCPAccept (stack ! 0) (stack ! 1)"
| "hostCall E HF_take_tcp_accept stack = takeTCPAccept E (stack ! 0) (DecodeU32 (stack ! 1)) (DecodeU32 (stack ! 2))"
| "hostCall E HF_start_dns_resolve stack = startDNSAddress E (stack ! 0) (DecodeU32 (stack ! 1)) (DecodeU32 (stack ! 2))"
| "hostCall E HF_take_dns_resolve stack = takeDNSAddress E (stack ! 0) (DecodeU32 (stack ! 1)) (DecodeU32 (stack ! 2))"
| "hostCall E HF_start_dns_txt stack = startDNSTXT E (stack ! 0) (DecodeU32 (stack ! 1)) (DecodeU32 (stack ! 2))"
| "hostCall E HF_take_dns_txt stack = takeDNSTXT E (stack ! 0) (DecodeU32 (stack ! 1)) (DecodeU32 (stack ! 2))"
| "hostCall E HF_start_dns_srv stack = startDNSSRV E (stack ! 0) (DecodeU32 (stack ! 1)) (DecodeU32 (stack ! 2))"
| "hostCall E HF_take_dns_srv stack = takeDNSSRV E (stack ! 0) (DecodeU32 (stack ! 1)) (DecodeU32 (stack ! 2))"
| "hostCall E HF_start_local_addr_for_remote stack = startLocalAddrForRemote E (stack ! 0) (DecodeU32 (stack ! 1)) (DecodeU32 (stack ! 2)) (DecodeU32 (stack ! 3)) (DecodeU32 (stack ! 4))"
| "hostCall E HF_take_local_addr_for_remote stack = takeLocalAddrForRemote E (stack ! 0) (DecodeU32 (stack ! 1)) (DecodeU32 (stack ! 2))"
| "hostCall E HF_start_management_call stack = startManagement E (stack ! 0) (DecodeU32 (stack ! 1)) (DecodeU32 (stack ! 2))"
| "hostCall E HF_take_management_call stack = takeManagement E (stack ! 0) (DecodeU32 (stack ! 1)) (DecodeU32 (stack ! 2))"
| "hostCall E HF_try_packet_write stack = tryPacketWriteFunction E stack"
| "hostCall E HF_start_packet_write_ready stack = startPacketWriteReadyFunction stack"
| "hostCall E HF_take_packet_write_ready stack = takePacketWriteReadyFunction stack"
| "hostCall E HF_cancel_operation stack = cancelOperation (stack ! 0)"
| "hostCall E HF_close stack = closeHandle E (stack ! 0)"

definition invoke :: "'m hostEnv \<Rightarrow> hostFunction \<Rightarrow> u64 list \<Rightarrow> 'm host \<Rightarrow> u64 list outcome \<times> 'm host" where
  "invoke E f stack s = returnStatus (hostCall E f stack s) stack"

end
