(* ===== verification/HostAbiTotal.thy ===== *)
theory HostAbiTotal
  imports HostAbi HostWireSafe
begin

text \<open>
  Every function the guest imports gives an answer. The decoders do not panic on a 64-bit host (theory HostWireSafe); here the
  same is shown of the encoders and of the reactor's calls that return a result, and then of the functions built of them.
\<close>

section \<open>Encoders and results\<close>

lemma encodeUDPMetadata_length:
  "encodeUDPMetadata ift peer None i \<noteq> Panic \<and> (encodeUDPMetadata ift peer None i = Ok x \<longrightarrow> length x = udpMetadataLen)"
  by (auto simp: encodeUDPMetadata_def Let_def udpMetadataLen_def split: option.splits if_splits)

lemma encodeNetAddr_not_Panic: "encodeNetAddr ift a \<noteq> Panic"
proof -
  have "obind (encodeUDPMetadata ift (Some u) None 0) (\<lambda>metadata. obind (slice metadata 0 (int socketAddressLen)) (\<lambda>prefix. Ok (f prefix)))
      \<noteq> Panic" for u f
    using encodeUDPMetadata_length [of ift "Some u" 0]
    by (auto simp: slice_def udpMetadataLen_def socketAddressLen_def)
  then show ?thesis by (cases a) (simp_all add: encodeNetAddr_def Let_def del: obind_Panic_iff)
qed

lemma encode_results_not_Panic:
  "encodeTCPSocketResult ift handle a b \<noteq> Panic" "encodeBoundSocketResult ift handle a \<noteq> Panic"
  by (simp_all add: encodeTCPSocketResult_def encodeBoundSocketResult_def Let_def encodeNetAddr_not_Panic)

lemma appendDNS_not_Panic: "appendDNSAddresses result as \<noteq> Panic" "appendDNSSRV result rs \<noteq> Panic"
proof -
  have "As4 a \<noteq> Panic" if "Is4 a" for a using that by (cases a) auto
  then show "appendDNSAddresses result as \<noteq> Panic" by (induction as arbitrary: result) auto
  show "appendDNSSRV result rs \<noteq> Panic" by (induction result rs rule: appendDNSSRV.induct) (auto simp: Let_def)
qed

lemma encodeDNSResult_not_Panic: "(\<And>k. kind \<noteq> DNSOther k) \<Longrightarrow> encodeDNSResult kind result \<noteq> Panic"
  by (cases kind)
     (auto simp: encodeDNSResult_def encodeDNSAddresses_def encodeDNSTXT_def encodeDNSSRV_def boundedDNSResult_def appendDNS_not_Panic)

lemma decodeSocketAddress_required: "decodeSocketAddress arch ift w False \<noteq> Ok None"
  by (auto simp: decodeSocketAddress_def Let_def split: if_splits)

lemma results_not_Panic:
  "fst (TakeUDPReceive operation capacity r) \<noteq> Panic" "fst (TakeTCPConnect operation r) \<noteq> Panic" "fst (TakeUDPBind operation r) \<noteq> Panic"
  "fst (TakeTCPListen operation r) \<noteq> Panic" "fst (TakeTCPAccept operation r) \<noteq> Panic" "fst (DNSResult_op operation r) \<noteq> Panic"
  "ManagementResult operation r \<noteq> Panic"
  by (simp_all add: TakeUDPReceive_def TakeTCPConnect_def TakeUDPBind_def TakeTCPListen_def takeCreate_def TakeTCPAccept_def DNSResult_op_def
      ManagementResult_def Let_def split: option.splits list.splits prod.splits)

section \<open>Functions\<close>

definition answers :: "i32 outcome \<times> 'm host \<Rightarrow> bool" where
  "answers result \<longleftrightarrow> (\<exists>status. fst result = Ok status)"

lemma answers_Ok [simp]: "answers (Ok status, s)" "answers (withReactor f s)"
  by (simp_all add: answers_def withReactor_def case_prod_beta)

lemma answers_decoded: "d \<noteq> Panic \<Longrightarrow> (\<And>x. d = Ok x \<Longrightarrow> answers (f x s)) \<Longrightarrow> answers (decoded d f s)"
  by (cases d) simp_all

lemma answers_writeResult: "encoded \<noteq> Panic \<Longrightarrow> answers (writeResult E encoded p handle s)"
  by (auto simp: writeResult_def split: outcome.splits option.splits)

named_theorems abi_answers

lemma answers_stream [abi_answers]:
  "answers (startRead handle operation capacity s)" "answers (takeRead E operation p capacity s)"
  "answers (startWrite E handle operation p n s)" "answers (takeWrite operation s)"
  "answers (cancelOperation operation s)" "answers (closeHandle E handle s)"
  by (simp_all add: startRead_def takeRead_def startWrite_def takeWrite_def cancelOperation_def closeHandle_def case_prod_beta Let_def
      split: option.splits)

lemma answers_udp [abi_answers]:
  "answers (startUDPReceive handle operation n s)" "answers (takeUDPReceive E operation p capacity q n s)"
  "env_arch E = Arch64 \<Longrightarrow> answers (tryUDPSend E handle p n q k s)" "answers (startUDPSendReady handle operation s)"
  "answers (takeUDPSendReady operation s)"
proof -
  show "answers (takeUDPReceive E operation p capacity q n s)"
    using results_not_Panic(1) [of operation capacity "h_reactor s"] encodeUDPMetadata_length
    by (auto simp: takeUDPReceive_def Let_def split: outcome.splits option.splits prod.splits intro!: answers_decoded)
  show "answers (tryUDPSend E handle p n q k s)" if "env_arch E = Arch64"
    using decoders_never_panic [of "env_ifaces E"] that
    by (auto simp: tryUDPSend_def split: option.splits intro!: answers_decoded)
qed (simp_all add: startUDPReceive_def startUDPSendReady_def takeUDPSendReady_def)

lemma answers_factory [abi_answers]:
  "env_arch E = Arch64 \<Longrightarrow> answers (startTCPConnect E operation p n s)" "env_arch E = Arch64 \<Longrightarrow> answers (startUDPBind E operation p n s)"
  "env_arch E = Arch64 \<Longrightarrow> answers (startTCPListen E operation p n s)" "answers (startTCPAccept handle operation s)"
  "answers (takeTCPConnect E operation p n s)" "answers (takeUDPBind E operation p n s)"
  "answers (takeTCPListen E operation p n s)" "answers (takeTCPAccept E operation p n s)"
  using decodeTCPConnectOptions_not_Panic decodeUDPBindOptions_not_Panic decodeTCPListenOptions_not_Panic
    results_not_Panic(2-5) [of operation "h_reactor s"]
  by (auto simp: startTCPConnect_def startUDPBind_def startTCPListen_def startTCPAccept_def takeTCPConnect_def takeUDPBind_def
      takeTCPListen_def takeTCPAccept_def Let_def split: option.splits outcome.splits prod.splits
      intro!: answers_decoded answers_writeResult encode_results_not_Panic)

lemma answers_query [abi_answers]:
  "answers (startDNS E kind operation p n s)" "(\<And>k. kind \<noteq> DNSOther k) \<Longrightarrow> answers (takeDNS E kind operation p n s)"
  "env_arch E = Arch64 \<Longrightarrow> answers (startLocalAddrForRemote E operation p n q k s)" "answers (takeLocalAddrForRemote E operation p n s)"
  "answers (startManagement E operation p n s)" "answers (takeManagement E operation p n s)"
proof -
  show "answers (startDNS E kind operation p n s)"
    by (auto simp: startDNS_def decodeDNSQuery_not_Panic split: option.splits intro!: answers_decoded)
  show "answers (takeDNS E kind operation p n s)" if "\<And>k. kind \<noteq> DNSOther k"
    using results_not_Panic(6) [of operation "h_reactor s"] encodeDNSResult_not_Panic [OF that] that
    by (auto simp: takeDNS_def Let_def split: option.splits outcome.splits prod.splits)
  show "answers (startLocalAddrForRemote E operation p n q k s)" if "env_arch E = Arch64"
    using that decodeSocketAddress_required
    by (auto simp: startLocalAddrForRemote_def split: option.splits intro!: answers_decoded)
  show "answers (takeLocalAddrForRemote E operation p n s)"
    by (auto simp: takeLocalAddrForRemote_def Let_def encodeNetAddr_not_Panic split: option.splits prod.splits intro!: answers_decoded)
  show "answers (takeManagement E operation p n s)"
    using results_not_Panic(7) [of operation "h_reactor s"]
    by (auto simp: takeManagement_def Let_def split: option.splits outcome.splits prod.splits)
qed (simp add: startManagement_def split: option.splits)

lemma answers_packet [abi_answers]:
  "answers (tryPacketWrite E handle p n s)" "answers (startPacketWriteReady handle operation s)"
  "answers (takePacketWriteReady operation s)" "answers (emitEvent E handle p n q k s)" "answers (cryptoAEADFunction E isOpen stack s)"
  by (simp_all add: tryPacketWrite_def startPacketWriteReady_def takePacketWriteReady_def emitEvent_def cryptoAEADFunction_def
      Let_def case_prod_beta split: option.splits)

lemmas abi_functions =
  startReadFunction_def takeReadFunction_def startWriteFunction_def takeWriteFunction_def startUDPReceiveFunction_def
  takeUDPReceiveFunction_def tryUDPSendFunction_def startUDPSendReadyFunction_def takeUDPSendReadyFunction_def
  tryPacketWriteFunction_def startPacketWriteReadyFunction_def takePacketWriteReadyFunction_def emitEventFunction_def
  startDNSAddress_def startDNSTXT_def startDNSSRV_def takeDNSAddress_def takeDNSTXT_def takeDNSSRV_def

lemma hostCall_answers: "env_arch E = Arch64 \<Longrightarrow> answers (hostCall E f stack s)"
  by (cases f) (simp_all add: abi_functions abi_answers)

end
