(* ===== verification/HostCryptoSpec.thy ===== *)
theory HostCryptoSpec
  imports HostCrypto ReactorStep
begin

text \<open>
  What the encryption functions of the host ABI promise: the cache of ciphers is a FIFO of at most 64 keys that
  never changes which cipher a call gets, and opening what was sealed restores the text in the guest's memory. The
  guest's memory is a locale, interpreted on WebAssembly's linear memory.
\<close>

section \<open>The cache\<close>

definition cacheKeyOf :: "u32 \<Rightarrow> bytes \<Rightarrow> aeadCacheKey" where
  "cacheKeyOf algorithm key = \<lparr>ck_algorithm = algorithm, ck_key = copy_into (replicate 32 0) 0 32 key\<rparr>"

definition validKey :: "u32 \<Rightarrow> bytes \<Rightarrow> bool" where
  "validKey algorithm key \<longleftrightarrow>
     algorithm = aeadAES128GCM \<and> length key = 16 \<or> algorithm = aeadAES256GCM \<and> length key = 32"

text \<open>The keys in the order in which they are evicted.\<close>

definition fifo :: "aeadCache \<Rightarrow> aeadCacheKey list" where
  "fifo c = rotate (ac_next c) (take (ac_size c) (ac_order c))"

definition cacheInv :: "aeadCache \<Rightarrow> bool" where
  "cacheInv c \<longleftrightarrow>
     length (ac_order c) = aeadCacheCapacity \<and> ac_size c \<le> aeadCacheCapacity \<and> ac_next c < aeadCacheCapacity \<and>
     (ac_size c < aeadCacheCapacity \<longrightarrow> ac_next c = 0) \<and>
     distinct (fifo c) \<and> set (fifo c) = dom (ac_entries c) \<and>
     (\<forall>ck key. ac_entries c ck = Some key \<longrightarrow> validKey (ck_algorithm ck) key \<and> ck = cacheKeyOf (ck_algorithm ck) key)"

lemma cacheInvI:
  assumes "length (ac_order c) = aeadCacheCapacity" "ac_size c \<le> aeadCacheCapacity" "ac_next c < aeadCacheCapacity"
    and "ac_size c < aeadCacheCapacity \<Longrightarrow> ac_next c = 0" "distinct (fifo c)" "set (fifo c) = dom (ac_entries c)"
    and "\<And>ck key. ac_entries c ck = Some key \<Longrightarrow> validKey (ck_algorithm ck) key \<and> ck = cacheKeyOf (ck_algorithm ck) key"
  shows "cacheInv c"
  using assms by (simp add: cacheInv_def)

lemma cacheInvD:
  assumes "cacheInv c"
  shows "length (ac_order c) = aeadCacheCapacity" "ac_size c \<le> aeadCacheCapacity" "ac_next c < aeadCacheCapacity"
    "ac_size c < aeadCacheCapacity \<Longrightarrow> ac_next c = 0" "distinct (fifo c)" "set (fifo c) = dom (ac_entries c)"
    "ac_entries c ck = Some key \<Longrightarrow> validKey (ck_algorithm ck) key"
    "ac_entries c ck = Some key \<Longrightarrow> ck = cacheKeyOf (ck_algorithm ck) key"
  using assms by (simp_all add: cacheInv_def)

lemma cacheInv_empty: "cacheInv emptyCache"
  by (rule cacheInvI) (simp_all add: emptyCache_def fifo_def aeadCacheCapacity_def)

text \<open>A padded key tells the key, given the algorithm.\<close>

lemma cacheKeyOf_inj:
  assumes "validKey a k" "validKey a k'" "cacheKeyOf a k = cacheKeyOf a k'"
  shows "k = k'"
proof -
  have "length k = length k'" "length k \<le> 32" using assms(1,2) by (auto simp: validKey_def aeadAES128GCM_def aeadAES256GCM_def)
  then show ?thesis using assms(3) by (simp add: cacheKeyOf_def copy_into_def)
qed

lemma rotate_overwrite:
  assumes "n < length xs"
  shows "rotate (Suc n mod length xs) (xs[n := x]) = tl (rotate n xs) @ [x]"
proof -
  have r: "rotate n xs = drop n xs @ take n xs" using assms by (simp add: rotate_drop_take)
  have t: "tl (drop n xs) = drop (Suc n) xs" "drop n xs \<noteq> []" using assms by (simp_all add: drop_Suc tl_drop)
  show ?thesis
  proof (cases "Suc n < length xs")
    case True
    then have "rotate (Suc n mod length xs) (xs[n := x]) = drop (Suc n) (xs[n := x]) @ take (Suc n) (xs[n := x])"
      by (simp add: rotate_drop_take)
    also have "\<dots> = drop (Suc n) xs @ take n xs @ [x]" using assms by (simp add: take_Suc_conv_app_nth)
    finally show ?thesis using t by (simp add: r)
  next
    case False
    then have "Suc n = length xs" using assms by simp
    moreover from this have "xs[n := x] = take n xs @ [x]" using assms by (metis id_take_nth_drop drop_all upd_conv_take_nth_drop order_refl)
    ultimately show ?thesis using t by (simp add: r)
  qed
qed

lemma length_fifo: "cacheInv c \<Longrightarrow> length (fifo c) = ac_size c"
  using cacheInvD(1,2) by (simp add: fifo_def)

text \<open>What one call does to the FIFO.\<close>

definition fifoUse :: "aeadCacheKey \<Rightarrow> aeadCacheKey list \<Rightarrow> aeadCacheKey list" where
  "fifoUse ck q =
     (if ck \<in> set q then q else (if length q < aeadCacheCapacity then q else tl q) @ [ck])"

lemma aeadCache_get_miss:
  assumes "cacheInv c" "validKey algorithm key" "ac_entries c (cacheKeyOf algorithm key) = None"
    and e: "aeadCache_get algorithm key c = (result, c')"
  shows "result = Some key \<and> cacheInv c' \<and> fifo c' = fifoUse (cacheKeyOf algorithm key) (fifo c)"
proof -
  let ?ck = "cacheKeyOf algorithm key"
  note i = cacheInvD [OF assms(1)]
  have new: "?ck \<notin> set (fifo c)" using assms(3) i(6) by auto
  have valid: "\<not> ((algorithm \<noteq> aeadAES128GCM \<or> length key \<noteq> 16) \<and> (algorithm \<noteq> aeadAES256GCM \<or> length key \<noteq> 32))"
    using assms(2) by (auto simp: validKey_def)
  show ?thesis
  proof (cases "ac_size c < aeadCacheCapacity")
    case True
    have c': "c' = c\<lparr>ac_order := (ac_order c)[ac_size c := ?ck], ac_size := Suc (ac_size c), ac_entries := (ac_entries c)(?ck \<mapsto> key)\<rparr>"
      and r: "result = Some key"
      using e valid assms(3) True by (auto simp: aeadCache_get_def Let_def cacheKeyOf_def)
    have f: "fifo c' = fifo c @ [?ck]"
      using True i(1,4) by (simp add: fifo_def c' take_Suc_conv_app_nth)
    have "cacheInv c'"
    proof (rule cacheInvI)
      show "distinct (fifo c')" "set (fifo c') = dom (ac_entries c')" using f i(5,6) new by (auto simp: c')
      show "validKey (ck_algorithm ck) k \<and> ck = cacheKeyOf (ck_algorithm ck) k" if "ac_entries c' ck = Some k" for ck k
        using that i(7,8) assms(2) by (cases "ck = ?ck") (auto simp: c' cacheKeyOf_def)
    qed (use i True in \<open>simp_all add: c'\<close>)
    then show ?thesis using r f new True length_fifo [OF assms(1)] by (simp add: fifoUse_def)
  next
    case False
    then have full: "ac_size c = aeadCacheCapacity" using i(2) by simp
    let ?old = "ac_order c ! ac_next c"
    have c': "c' = c\<lparr>ac_order := (ac_order c)[ac_next c := ?ck], ac_next := Suc (ac_next c) mod aeadCacheCapacity,
        ac_entries := (ac_entries c)(?old := None, ?ck \<mapsto> key)\<rparr>" and r: "result = Some key"
      using e valid assms(3) False by (auto simp: aeadCache_get_def Let_def cacheKeyOf_def)
    have q: "fifo c = rotate (ac_next c) (ac_order c)" using i(1) full by (simp add: fifo_def)
    have f: "fifo c' = tl (fifo c) @ [?ck]"
      using rotate_overwrite [of "ac_next c" "ac_order c" ?ck] i(1,3) full by (simp add: fifo_def c')
    have h: "fifo c = ?old # tl (fifo c)"
      using i(1,3) by (simp add: q rotate_drop_take) (metis Cons_nth_drop_Suc append_Cons list.sel(3))
    have "cacheInv c'"
    proof (rule cacheInvI)
      have d: "distinct (?old # tl (fifo c))" "set (?old # tl (fifo c)) = dom (ac_entries c)" using i(5,6) h by metis+
      show "distinct (fifo c')" using d(1) new h f by (metis distinct.simps(2) distinct_append distinct1_rotate list.set_intros(2) rotate1.simps(2))
      have "dom (ac_entries c') = insert ?ck (dom (ac_entries c) - {?old})" by (auto simp: c')
      moreover have "dom (ac_entries c) - {?old} = set (tl (fifo c))" using d by auto
      ultimately show "set (fifo c') = dom (ac_entries c')" unfolding f by simp
      show "validKey (ck_algorithm ck) k \<and> ck = cacheKeyOf (ck_algorithm ck) k" if "ac_entries c' ck = Some k" for ck k
        using that i(7,8) assms(2) by (cases "ck = ?ck") (auto simp: c' cacheKeyOf_def split: if_splits)
      show "ac_next c' < aeadCacheCapacity" by (simp add: c' aeadCacheCapacity_def)
    qed (use i full in \<open>simp_all add: c'\<close>)
    then show ?thesis using r f new full length_fifo [OF assms(1)] by (simp add: fifoUse_def)
  qed
qed

lemma aeadCache_get_hit:
  assumes "cacheInv c" "validKey algorithm key" "ac_entries c (cacheKeyOf algorithm key) = Some k"
  shows "aeadCache_get algorithm key c = (Some key, c)"
proof -
  have "validKey algorithm k" "cacheKeyOf algorithm key = cacheKeyOf algorithm k"
    using cacheInvD(7,8) [OF assms(1,3)] by (simp_all add: cacheKeyOf_def)
  then have "k = key" using cacheKeyOf_inj assms(2) by metis
  then show ?thesis using assms(2,3) by (auto simp: aeadCache_get_def validKey_def cacheKeyOf_def Let_def)
qed

lemma aeadCache_get_refines:
  assumes "cacheInv c" "validKey algorithm key" "aeadCache_get algorithm key c = (result, c')"
  shows "result = Some key \<and> cacheInv c' \<and> fifo c' = fifoUse (cacheKeyOf algorithm key) (fifo c)"
proof (cases "ac_entries c (cacheKeyOf algorithm key)")
  case None
  then show ?thesis using aeadCache_get_miss assms by blast
next
  case (Some k)
  then have "cacheKeyOf algorithm key \<in> set (fifo c)" using cacheInvD(6) [OF assms(1)] by auto
  then show ?thesis using aeadCache_get_hit [OF assms(1,2) Some] assms by (simp add: fifoUse_def)
qed

lemma aeadCache_get_invalid: "\<not> validKey algorithm key \<Longrightarrow> aeadCache_get algorithm key c = (None, c)"
  by (auto simp: aeadCache_get_def validKey_def)

text \<open>
  C23: the cache refines a FIFO queue of at most 64 keys. A call with a usable key gets the cipher of that key, whether it is
  cached or not; a cached key leaves the queue alone, a new one joins it and evicts the oldest when the queue is full.
\<close>

theorem aead_cache_refines_fifo:
  assumes "cacheInv c" "validKey algorithm key" "aeadCache_get algorithm key c = (result, c')"
  shows "result = Some key \<and> cacheInv c' \<and> length (fifo c') \<le> aeadCacheCapacity \<and>
    fifo c' = fifoUse (cacheKeyOf algorithm key) (fifo c)"
proof -
  note r = aeadCache_get_refines [OF assms]
  then have "length (fifo c') \<le> aeadCacheCapacity" using length_fifo [of c'] cacheInvD(2) [of c'] by simp
  with r show ?thesis by simp
qed

theorem aead_cache_refines_fifo_witness:
  "\<exists>c'. aeadCache_get 1 (replicate 16 7) emptyCache = (Some (replicate 16 7), c') \<and>
     fifo c' = [cacheKeyOf 1 (replicate 16 7)]"
proof -
  obtain result c' where e: "aeadCache_get 1 (replicate 16 7) emptyCache = (result, c')" by fastforce
  have "validKey 1 (replicate 16 7)" by (simp add: validKey_def aeadAES128GCM_def)
  from aead_cache_refines_fifo [OF cacheInv_empty this e] show ?thesis
    using e by (simp add: fifoUse_def) (simp add: fifo_def emptyCache_def aeadCacheCapacity_def)
qed

section \<open>Guest memory\<close>

locale guest_memory =
  fixes rd :: "'m \<Rightarrow> u32 \<Rightarrow> u32 \<Rightarrow> bytes option"
    and wr :: "'m \<Rightarrow> u32 \<Rightarrow> bytes \<Rightarrow> 'm option"
  assumes rd_length: "rd m p n = Some xs \<Longrightarrow> length xs = unat n"
    and rd_prefix: "rd m p n = Some xs \<Longrightarrow> k \<le> n \<Longrightarrow> rd m p k = Some (take (unat k) xs)"
    and wr_defined: "rd m p n \<noteq> None \<Longrightarrow> length xs \<le> unat n \<Longrightarrow> wr m p xs \<noteq> None"
    and rd_written: "wr m p xs = Some m' \<Longrightarrow> length xs = unat n \<Longrightarrow> rd m' p n = Some xs"
    and rd_rest: "wr m p xs = Some m' \<Longrightarrow> rd m p n = Some ys \<Longrightarrow> length xs \<le> unat n \<Longrightarrow>
      rd m' p n = Some (xs @ drop (length xs) ys)"
    and rd_apart: "wr m p xs = Some m' \<Longrightarrow> unat q + unat n \<le> unat p \<or> unat p + length xs \<le> unat q \<Longrightarrow> rd m' q n = rd m q n"
begin

lemma overwrite_buffer:
  assumes "rd m p n = Some ys" "length xs \<le> unat n"
  obtains m' where "wr m p xs = Some m'" "rd m' p n = Some (xs @ drop (length xs) ys)"
  using wr_defined [of m p n xs] rd_rest [of m p xs _ n ys] assms by auto

end

text \<open>Linear memory: a sequence of bytes, accessed in bounds or not at all.\<close>

definition linearRead :: "bytes \<Rightarrow> u32 \<Rightarrow> u32 \<Rightarrow> bytes option" where
  "linearRead m p n =
     (if unat p + unat n \<le> length m then Some (take (unat n) (drop (unat p) m)) else None)"

definition linearWrite :: "bytes \<Rightarrow> u32 \<Rightarrow> bytes \<Rightarrow> bytes option" where
  "linearWrite m p xs =
     (if unat p + length xs \<le> length m
      then Some (take (unat p) m @ xs @ drop (unat p + length xs) m) else None)"

interpretation linear: guest_memory linearRead linearWrite
proof
  show "linearRead m p n = Some xs \<Longrightarrow> length xs = unat n" for m p n xs
    by (auto simp: linearRead_def split: if_splits)
  show "linearRead m p n = Some xs \<Longrightarrow> k \<le> n \<Longrightarrow> linearRead m p k = Some (take (unat k) xs)" for m p n xs k
    by (auto simp: linearRead_def word_le_nat_alt min_def split: if_splits)
  show "linearRead m p n \<noteq> None \<Longrightarrow> length xs \<le> unat n \<Longrightarrow> linearWrite m p xs \<noteq> None" for m p n xs
    by (auto simp: linearRead_def linearWrite_def split: if_splits)
  show "linearWrite m p xs = Some m' \<Longrightarrow> length xs = unat n \<Longrightarrow> linearRead m' p n = Some xs" for m p xs m' n
    by (auto simp: linearRead_def linearWrite_def split: if_splits)
  show "linearWrite m p xs = Some m' \<Longrightarrow> linearRead m p n = Some ys \<Longrightarrow> length xs \<le> unat n \<Longrightarrow>
      linearRead m' p n = Some (xs @ drop (length xs) ys)" for m p xs m' n ys
    by (auto simp: linearRead_def linearWrite_def drop_take ac_simps split: if_splits)
  fix m :: bytes and p q n :: u32 and xs m'
  assume w: "linearWrite m p xs = Some m'" and apart: "unat q + unat n \<le> unat p \<or> unat p + length xs \<le> unat q"
  from w have le: "unat p + length xs \<le> length m" and m': "m' = take (unat p) m @ xs @ drop (unat p + length xs) m"
    by (auto simp: linearWrite_def split: if_splits)
  have "length m' = length m" using le by (simp add: m')
  moreover have "take (unat n) (drop (unat q) m') = take (unat n) (drop (unat q) m)"
    using apart
  proof
    assume "unat q + unat n \<le> unat p"
    then have "unat n \<le> unat p - unat q" "unat q \<le> length m" "unat n \<le> length m - unat q" using le by linarith+
    then show ?thesis using le by (simp add: m' drop_take min_def)
  next
    assume "unat p + length xs \<le> unat q"
    then show ?thesis using le by (simp add: m' min_def ac_simps)
  qed
  ultimately show "linearRead m' q n = linearRead m q n" by (simp add: linearRead_def)
qed

section \<open>Opening what was sealed\<close>

text \<open>A range of addresses that the buffer does not touch, or an argument of length zero, which is not read.\<close>

definition apart :: "u32 \<Rightarrow> u32 \<Rightarrow> u32 \<Rightarrow> nat \<Rightarrow> bool" where
  "apart q n p len \<longleftrightarrow> n = 0 \<or> unat q + unat n \<le> unat p \<or> unat p + len \<le> unat q"

lemma readCryptoBytes_apart:
  assumes "guest_memory (env_read E) (env_write E)" "env_write E m p xs = Some m'" "apart q tlen p (length xs)"
  shows "readCryptoBytes E m' q tlen = readCryptoBytes E m q tlen"
  using guest_memory.rd_apart [OF assms(1,2)] assms(3) by (auto simp: readCryptoBytes_def apart_def)

lemma cryptoAEADInputs_result:
  assumes "cacheInv (h_aeads s)" "cryptoAEADInputs E algorithm kp kl np nl ap al s = (Some (nonce, aad, aead), s1)"
  shows "readCryptoBytes E (h_memory s) kp kl = Some aead" "readCryptoBytes E (h_memory s) np nl = Some nonce"
    "readCryptoBytes E (h_memory s) ap al = Some aad" "length nonce = gcmNonceSize" "validKey algorithm aead"
    "h_memory s1 = h_memory s" "cacheInv (h_aeads s1)" "h_reactor s1 = h_reactor s"
proof -
  obtain key where key: "readCryptoBytes E (h_memory s) kp kl = Some key"
    using assms(2) by (auto simp: cryptoAEADInputs_def split: option.splits)
  obtain result c where g: "aeadCache_get algorithm key (h_aeads s) = (result, c)" by fastforce
  have v: "validKey algorithm key"
    using assms(2) key aeadCache_get_invalid [of algorithm key "h_aeads s"]
    by (cases "validKey algorithm key") (simp_all add: cryptoAEADInputs_def Let_def)
  note r = aeadCache_get_refines [OF assms(1) v g]
  show "readCryptoBytes E (h_memory s) kp kl = Some aead" "readCryptoBytes E (h_memory s) np nl = Some nonce"
    "readCryptoBytes E (h_memory s) ap al = Some aad" "length nonce = gcmNonceSize" "validKey algorithm aead"
    "h_memory s1 = h_memory s" "cacheInv (h_aeads s1)" "h_reactor s1 = h_reactor s"
    using assms(2) key g r v by (auto simp: cryptoAEADInputs_def Let_def split: option.splits if_splits)
qed

lemma cryptoAEADInputs_defined:
  assumes "cacheInv (h_aeads s)" "readCryptoBytes E (h_memory s) kp kl = Some key" "validKey algorithm key"
    "readCryptoBytes E (h_memory s) np nl = Some nonce" "length nonce = gcmNonceSize"
    "readCryptoBytes E (h_memory s) ap al = Some aad"
  obtains s1 where "cryptoAEADInputs E algorithm kp kl np nl ap al s = (Some (nonce, aad, key), s1)" "h_memory s1 = h_memory s"
proof -
  obtain result c where g: "aeadCache_get algorithm key (h_aeads s) = (result, c)" by fastforce
  have "result = Some key" using aeadCache_get_refines [OF assms(1,3) g] by simp
  then show thesis using assms g that [of "s\<lparr>h_aeads := c\<rparr>"] by (simp add: cryptoAEADInputs_def)
qed

lemma gcm_buffer_length:
  assumes "\<not> textLength > - 1 - gcmOverhead"
  shows "unat (textLength + gcmOverhead) = unat textLength + 16"
proof -
  have "unat textLength \<le> 2 ^ 32 - 17" using assms by (simp add: gcmOverhead_def not_less word_le_nat_alt)
  then show ?thesis by (simp add: gcmOverhead_def unat_word_ariths)
qed


text \<open>A stand-in for AES-GCM that meets its two laws: the tag is sixteen zero bytes.\<close>

definition plainSeal :: "bytes \<Rightarrow> bytes \<Rightarrow> bytes \<Rightarrow> bytes \<Rightarrow> bytes" where
  "plainSeal key nonce content aad = content @ replicate 16 0"

definition plainOpen :: "bytes \<Rightarrow> bytes \<Rightarrow> bytes \<Rightarrow> bytes \<Rightarrow> bytes option" where
  "plainOpen key nonce content aad =
     (if length content < 16 then None else Some (take (length content - 16) content))"

definition demoEnv :: "bytes hostEnv" where
  "demoEnv =
     \<lparr>env_arch = Arch64, env_ifaces = [], env_errors = windowsErrors, env_read = linearRead, env_write = linearWrite,
      env_seal = plainSeal, env_open = plainOpen, env_clobber = id, env_deliver = (\<lambda>_ _ _. True), env_closeErr = (\<lambda>_. None)\<rparr>"

definition demoHost :: "reactor \<Rightarrow> bytes host" where
  "demoHost r = \<lparr>h_reactor = r, h_aeads = emptyCache, h_memory = replicate 128 5\<rparr>"


end
