(* ===== verification/HostAbiSpec.thy ===== *)
theory HostAbiSpec
  imports HostAbiTotal HostCryptoSpec ReactorWaiters
begin

text \<open>
  What the imports promise the host and the guest: whatever the guest passes, a call does to the reactor only what the
  reactor's interface allows, so that the invariants of reachable states survive every guest; a socket that cannot be
  reported to the guest is closed again; a query for the size of an answer leaves the answer in place.
\<close>

section \<open>A guest's call is a few calls of the reactor\<close>

text \<open>
  No call, or one and then calls that make no handle: reporting an answer, or closing what was returned, where closing is a
  locked section and what follows it.
\<close>

definition settles :: "reactor \<Rightarrow> reactor \<Rightarrow> bool" where
  "settles = (\<lambda>r r'. call r r' \<and> nextHandle r' = nextHandle r)\<^sup>*\<^sup>*"

definition calls :: "reactor \<Rightarrow> reactor \<Rightarrow> bool" where
  "calls r r' \<longleftrightarrow> r' = r \<or> (\<exists>r1. call r r1 \<and> settles r1 r')"

abbreviation abiCalls :: "'m host \<Rightarrow> i32 outcome \<times> 'm host \<Rightarrow> bool" where
  "abiCalls s result \<equiv> calls (h_reactor s) (h_reactor (snd result))"

named_theorems abi_calls

lemma calls_refl [simp]: "calls r r"
  by (simp add: calls_def)

lemma settles_refl [simp]: "settles r r"
  by (simp add: settles_def)

lemma settles_one: "call r r' \<Longrightarrow> nextHandle r' = nextHandle r \<Longrightarrow> settles r r'"
  by (simp add: settles_def r_into_rtranclp)

lemma settles_trans: "settles r r1 \<Longrightarrow> settles r1 r' \<Longrightarrow> settles r r'"
  by (simp add: settles_def)

lemma calls_one: "call r r' \<Longrightarrow> calls r r'"
  by (auto simp: calls_def intro: exI [of _ r'])

lemma calls_then: "call r r1 \<Longrightarrow> settles r1 r' \<Longrightarrow> calls r r'"
  by (auto simp: calls_def)

lemma calls_settles: "settles r r' \<Longrightarrow> calls r r'"
  unfolding settles_def calls_def by (auto elim: converse_rtranclpE)

text \<open>An import that closes a handle runs all the sections of that call.\<close>

lemma settles_CloseHandle: "settles r (snd (CloseHandle closeErr handle r))"
proof -
  have run: "settles (r\<lparr>closings := actions @ rest\<rparr>) ((fold runCloseAction actions r)\<lparr>closings := rest\<rparr>)" for actions rest r
  proof (induction actions arbitrary: r)
    case (Cons a actions)
    have u: "runCloseAction a (r\<lparr>closings := x\<rparr>) = (runCloseAction a r)\<lparr>closings := x\<rparr>" for x
      by (cases a) (simp_all add: closeResource_def fold_closeResource closeAfterQueuedSends_def updDatagram_def)
    have "settles (r\<lparr>closings := (a # actions) @ rest\<rparr>) (CloseHandle_continue a (r\<lparr>closings := (a # actions) @ rest\<rparr>))"
      by (intro settles_one call_CloseAction nextHandle_CloseHandle) simp
    also have "CloseHandle_continue a (r\<lparr>closings := (a # actions) @ rest\<rparr>) = (runCloseAction a r)\<lparr>closings := actions @ rest\<rparr>"
      by (simp add: CloseHandle_continue_def u)
    finally show ?case using Cons.IH [of "runCloseAction a r"] by (auto intro: settles_trans)
  qed simp
  obtain actions r1 where l: "CloseHandle_locked handle r = (actions, r1)" by fastforce
  have "closings (fold runCloseAction actions r1) = closings r1" for actions r1
  proof (induction actions arbitrary: r1)
    case (Cons a actions)
    have "closings (runCloseAction a r1) = closings r1" using runCloseAction_eq [of a r1] by auto
    then show ?case using Cons by simp
  qed simp
  then have c: "(fold runCloseAction actions r1)\<lparr>closings := closings r1\<rparr> = fold runCloseAction actions r1" for actions r1
  proof -
    have "(fold runCloseAction actions r1)\<lparr>closings := closings (fold runCloseAction actions r1)\<rparr> = fold runCloseAction actions r1" by simp
    then show ?thesis by (simp only: \<open>\<And>actions r1. closings (fold runCloseAction actions r1) = closings r1\<close>)
  qed
  have "settles r (r1\<lparr>closings := actions @ closings r1\<rparr>)"
    using settles_one [OF call_CloseHandle [of r handle] nextHandle_CloseHandle(1)] by (simp add: CloseHandle_begin_def l)
  then show ?thesis using run [where r = r1 and actions = actions and rest = "closings r1"] settles_trans by (simp add: CloseHandle_def l c)
qed

lemma calls_withReactor: "(\<And>r. calls r (snd (f r))) \<Longrightarrow> abiCalls s (withReactor f s)"
  by (auto simp: withReactor_def case_prod_beta)

lemma calls_withReactor1: "(\<And>r. call r (snd (f r))) \<Longrightarrow> abiCalls s (withReactor f s)"
  by (intro calls_withReactor calls_one)

lemma calls_decoded: "(\<And>x. calls (h_reactor s) (h_reactor (snd (f x s)))) \<Longrightarrow> abiCalls s (decoded d f s)"
  by (cases d) simp_all

lemma calls_decoded_after:
  "calls r (h_reactor s) \<Longrightarrow> (\<And>x. calls r (h_reactor (snd (f x s)))) \<Longrightarrow> calls r (h_reactor (snd (decoded d f s)))"
  by (cases d) simp_all

lemma calls_writeResult:
  assumes "call r0 (h_reactor s)"
  shows "calls r0 (h_reactor (snd (writeResult E encoded p handle s)))"
  using calls_one [OF assms] calls_then [OF assms settles_CloseHandle]
  by (auto simp: writeResult_def updReactor_def split: outcome.splits option.splits)

lemma calls_snd: "f r = (x, r') \<Longrightarrow> call r (snd (f r)) \<Longrightarrow> call r r'"
  by simp

lemma abi_stream [abi_calls]:
  "abiCalls s (startRead handle operation capacity s)" "abiCalls s (takeRead E operation p capacity s)"
  "abiCalls s (startWrite E handle operation p n s)" "abiCalls s (takeWrite operation s)"
  "abiCalls s (cancelOperation operation s)" "abiCalls s (closeHandle E handle s)"
proof -
  show "abiCalls s (closeHandle E handle s)" unfolding closeHandle_def
    by (intro calls_withReactor calls_settles settles_CloseHandle)
  show "abiCalls s (takeRead E operation p capacity s)"
    using call_TakeRead [of "h_reactor s" operation]
    by (auto simp: takeRead_def case_prod_beta Let_def intro!: calls_one split: option.splits)
qed (auto simp: startRead_def startWrite_def takeWrite_def cancelOperation_def split: option.splits
    intro!: calls_withReactor1 call_StartRead call_StartWrite call_TakeWrite call_CancelOperation)

lemma abi_udp [abi_calls]:
  "abiCalls s (startUDPReceive handle operation n s)" "abiCalls s (takeUDPReceive E operation p capacity q n s)"
  "abiCalls s (tryUDPSend E handle p n q k s)" "abiCalls s (startUDPSendReady handle operation s)"
  "abiCalls s (takeUDPSendReady operation s)"
proof -
  obtain result r where t: "TakeUDPReceive operation capacity (h_reactor s) = (result, r)" by fastforce
  have c: "calls (h_reactor s) r" using calls_one [OF call_TakeUDPReceive [of "h_reactor s" operation capacity]] t by simp
  show "abiCalls s (takeUDPReceive E operation p capacity q n s)"
    using c by (auto simp: takeUDPReceive_def t Let_def split: outcome.splits option.splits intro!: calls_decoded_after)
  show "abiCalls s (tryUDPSend E handle p n q k s)"
    by (auto simp: tryUDPSend_def split: option.splits intro!: calls_decoded calls_withReactor1 call_TryUDPSend)
qed (auto simp: startUDPReceive_def startUDPSendReady_def takeUDPSendReady_def
    intro!: calls_withReactor1 call_StartUDPReceive call_StartUDPSendReady call_TakeUDPSendReady)

lemma abi_factory_start [abi_calls]:
  "abiCalls s (startTCPConnect E operation p n s)" "abiCalls s (startUDPBind E operation p n s)"
  "abiCalls s (startTCPListen E operation p n s)" "abiCalls s (startTCPAccept handle operation s)"
  by (auto simp: startTCPConnect_def startUDPBind_def startTCPListen_def startTCPAccept_def split: option.splits
      intro!: calls_decoded calls_withReactor1 call_StartTCPConnect call_StartUDPBind call_StartTCPListen call_StartTCPAccept)

lemma abi_factory_take [abi_calls]:
  "abiCalls s (takeTCPConnect E operation p n s)" "abiCalls s (takeUDPBind E operation p n s)"
  "abiCalls s (takeTCPListen E operation p n s)" "abiCalls s (takeTCPAccept E operation p n s)"
  using call_TakeTCPConnect [of "h_reactor s" operation] call_TakeUDPBind [of "h_reactor s" operation]
    call_TakeTCPListen [of "h_reactor s" operation] call_TakeTCPAccept [of "h_reactor s" operation] call_CancelOperation [of "h_reactor s" operation]
  by (auto simp: takeTCPConnect_def takeUDPBind_def takeTCPListen_def takeTCPAccept_def updReactor_def case_prod_beta Let_def
      split: outcome.splits intro!: calls_one calls_writeResult)

lemma abi_dns [abi_calls]: "abiCalls s (startDNS E kind operation p n s)" "abiCalls s (takeDNS E kind operation p n s)"
proof -
  show "abiCalls s (startDNS E kind operation p n s)"
    by (auto simp: startDNS_def split: option.splits intro!: calls_decoded calls_withReactor1 call_StartDNS)
  obtain result r where t: "DNSResult_op operation (h_reactor s) = (result, r)" by fastforce
  obtain err r' where f: "FinishDNS operation r = (err, r')" by fastforce
  have c: "call (h_reactor s) r" "call r r'"
    using call_DNSResult [of "h_reactor s" operation] call_FinishDNS [of r operation] t f by simp_all
  have n: "nextHandle r' = nextHandle r"
    using handleView_query(3) [of operation r] f by (simp add: handleView_def)
  show "abiCalls s (takeDNS E kind operation p n s)"
    using calls_one [OF c(1)] calls_then [OF c(1) settles_one [OF c(2) n]]
    by (auto simp: takeDNS_def t f Let_def updReactor_def split: outcome.splits option.splits)
qed

lemma abi_query [abi_calls]:
  "abiCalls s (startLocalAddrForRemote E operation p n q k s)" "abiCalls s (takeLocalAddrForRemote E operation p n s)"
  "abiCalls s (startManagement E operation p n s)" "abiCalls s (takeManagement E operation p n s)"
proof -
  show "abiCalls s (startLocalAddrForRemote E operation p n q k s)"
    by (auto simp: startLocalAddrForRemote_def split: option.splits
        intro!: calls_decoded calls_withReactor1 call_StartLocalAddrForRemote)
  show "abiCalls s (startManagement E operation p n s)"
    by (auto simp: startManagement_def split: option.splits intro!: calls_withReactor1 call_StartManagement)
  show "abiCalls s (takeManagement E operation p n s)"
    using call_FinishManagement [of "h_reactor s" operation] call_CancelOperation [of "h_reactor s" operation]
    by (auto simp: takeManagement_def updReactor_def case_prod_beta Let_def split: outcome.splits option.splits intro!: calls_one)
  obtain address err r where t: "TakeLocalAddrForRemote operation (h_reactor s) = ((address, err), r)" by (metis surj_pair)
  have c: "calls (h_reactor s) r"
    using calls_one [OF call_TakeLocalAddrForRemote [of "h_reactor s" operation]] t by simp
  show "abiCalls s (takeLocalAddrForRemote E operation p n s)"
    using c calls_one [OF call_CancelOperation [of "h_reactor s" operation]]
    by (auto simp: takeLocalAddrForRemote_def t updReactor_def Let_def split: option.splits intro!: calls_decoded_after)
qed

lemma abi_packet [abi_calls]:
  "abiCalls s (tryPacketWrite E handle p n s)" "abiCalls s (startPacketWriteReady handle operation s)"
  "abiCalls s (takePacketWriteReady operation s)" "abiCalls s (emitEvent E handle p n q k s)"
proof -
  show "abiCalls s (emitEvent E handle p n q k s)"
    by (auto simp: emitEvent_def withReactor_def split: option.splits)
qed (auto simp: tryPacketWrite_def startPacketWriteReady_def takePacketWriteReady_def split: option.splits
      intro!: calls_withReactor1 call_TryPacketWrite call_StartPacketWriteReady call_TakePacketWriteReady)

lemma cryptoAEADInputs_reactor:
  "h_reactor (snd (cryptoAEADInputs E algorithm kp kl np nl ap al s)) = h_reactor s"
  by (simp add: cryptoAEADInputs_def Let_def split: option.splits prod.splits)

lemma overwrite_reactor [simp]: "h_reactor (overwrite E p xs s) = h_reactor s"
  by (simp add: overwrite_def split: option.splits)

lemma abi_crypto [abi_calls]: "abiCalls s (cryptoAEADFunction E isOpen stack s)"
proof -
  have "h_reactor (snd (cryptoAEADSeal E algorithm kp kl np nl ap al bp k s)) = h_reactor s"
    "h_reactor (snd (cryptoAEADOpen E algorithm kp kl np nl ap al bp k s)) = h_reactor s" for algorithm kp kl np nl ap al bp k
    using cryptoAEADInputs_reactor [of E algorithm kp kl np nl ap al s]
    by (auto simp: cryptoAEADSeal_def cryptoAEADOpen_def Let_def split: option.splits prod.splits)
  then show ?thesis by (simp add: cryptoAEADFunction_def case_prod_beta Let_def)
qed

lemma hostCall_calls: "abiCalls s (hostCall E f stack s)"
  by (cases f) (simp_all add: abi_functions abi_calls)

lemma nextHandle_call_cases:
  assumes "call r r'" shows "nextHandle r' = nextHandle r \<or> nextHandle r' = nextHandle r + 1"
  using assms
proof cases
  case (call_receiveWake wake sink handle result)
  then show ?thesis using handleView_receiveWake nextHandle_view by blast
qed (simp_all only: nextHandle_new nextHandle_gone nextHandle_CloseHandle handleView_all [THEN nextHandle_view] simp_thms)

lemma calls_reachable:
  assumes "reachable options r" "calls r r'" "nextHandle r < - 2"
  shows "reachable options r'"
proof -
  have "\<not> - 1 < (- 2 :: u64)" by (simp add: not_less)
  then have left: "handlesLeft r" using assms(3) unfolding handlesLeft_def by metis
  have two: "handlesLeft r1" if "call r r1" for r1
    using nextHandle_call_cases [OF that]
  proof
    assume "nextHandle r1 = nextHandle r + 1"
    moreover have "nextHandle r \<noteq> - 2" using assms(3) by simp
    ultimately show ?thesis by (auto simp: handlesLeft_def eq_diff_eq [symmetric])
  qed (use left in \<open>simp add: handlesLeft_def\<close>)
  have "reachable options r'" if "settles r1 r'" "reachable options r1" "handlesLeft r1" for r1
  proof -
    from that have "reachable options r' \<and> handlesLeft r'" unfolding settles_def
      by induction (auto simp: handlesLeft_def step_def intro: reachable_step [unfolded handlesLeft_def])
    then show ?thesis ..
  qed
  then show ?thesis
    using assms(1,2) two reachable_step [OF assms(1) left] unfolding calls_def step_def by blast
qed



section \<open>No handle is leaked\<close>

lemma names_closeStreamHandle:
  "names k (snd (closeStreamHandle handle r)) h \<longleftrightarrow> names k r h \<and> \<not> (h = handle \<and> k = StreamHandle)"
proof -
  let ?r = "snd (closeStreamHandle handle r)"
  have s: "streams ?r = (streams r)(handle := None)"
  proof (cases "streams r handle")
    case (Some s)
    obtain W where "snd (closeStreamLocked s (r\<lparr>streams := (streams r)(handle := None)\<rparr>)) =
        r\<lparr>streams := (streams r)(handle := None),
          streamAt := (streamAt r)(s := (streamAt r s)\<lparr>ss_closed := True, ss_writeQueue := []\<rparr>), writeAt := W\<rparr>"
      using closeStreamLocked_frame [of s "r\<lparr>streams := (streams r)(handle := None)\<rparr>"] by auto
    with Some show ?thesis by (simp add: closeStreamHandle_def Let_def case_prod_beta closeResource_def signalIf_def signalCompletion_def)
  qed (auto simp: closeStreamHandle_def fun_eq_iff)
  have v: "udpView ?r = udpView r" "listenerView ?r = listenerView r" "packetView ?r = packetView r" by simp_all
  have e: "eventSinks ?r = eventSinks r"
    using closeStreamHandle_frame [of handle r] by (elim disjE exE conjE) (simp_all add: helper_defs)
  have o: "datagrams ?r = datagrams r" "listeners ?r = listeners r" "packetSinks ?r = packetSinks r"
    using v unfolding udpView_def listenerView_def packetView_def prod.inject by blast+
  show ?thesis by (cases k) (simp_all add: s e o)
qed

lemma names_CloseHandle:
  "names k (snd (CloseHandle closeErr handle r)) h \<longleftrightarrow>
     names k r h \<and> \<not> (h = handle \<and> k \<in> {StreamHandle, DatagramHandle, ListenerHandle})"
proof -
  have d: "names k (snd (closeDatagramHandle handle r)) h \<longleftrightarrow> names k r h \<and> \<not> (h = handle \<and> k = DatagramHandle)" for r
    by (cases k) (auto simp: closeDatagram_defs split: option.splits)
  have l: "names k (snd (closeListenerHandle handle r)) h \<longleftrightarrow> names k r h \<and> \<not> (h = handle \<and> k = ListenerHandle)" for r
    by (cases k) (auto simp: closeListener_defs helper_defs Let_def split: option.splits)
  have "names k (runCloseAction a r) h = names k r h" for a r
    using runCloseAction_eq [of a r] by (elim exE) (cases k; simp)
  then have "names k (fold runCloseAction actions r) h = names k r h" for actions r
    by (induction actions arbitrary: r) auto
  then have "names k (snd (CloseHandle closeErr handle r)) h = names k (snd (CloseHandle_locked handle r)) h"
    by (simp add: CloseHandle_def case_prod_beta)
  then show ?thesis unfolding snd_CloseHandle l d names_closeStreamHandle by auto
qed

text \<open>A \<^verbatim>\<open>take\<close> makes one handle, the one it returns, or none.\<close>

lemma names_take_Ok:
  "TakeTCPConnect operation r = (Ok a, r') \<Longrightarrow> names k r' h \<Longrightarrow> names k r h \<or> h = sr_Handle a \<and> k = StreamHandle"
  "TakeTCPAccept operation r = (Ok a, r') \<Longrightarrow> names k r' h \<Longrightarrow> names k r h \<or> h = sr_Handle a \<and> k = StreamHandle"
  "TakeUDPBind operation r = (Ok b, r') \<Longrightarrow> names k r' h \<Longrightarrow> names k r h \<or> h = br_Handle b \<and> k = DatagramHandle"
  "TakeTCPListen operation r = (Ok b, r') \<Longrightarrow> names k r' h \<Longrightarrow> names k r h \<or> h = br_Handle b \<and> k = ListenerHandle"
  by (cases k; auto simp: connect_defs accept_defs bind_defs listen_defs helper_defs Let_def split: option.splits list.splits if_splits)+

lemma names_take_Err:
  "TakeTCPConnect operation r = (Err e, r') \<Longrightarrow> names k r' h \<Longrightarrow> names k r h"
  "TakeTCPAccept operation r = (Err e, r') \<Longrightarrow> names k r' h \<Longrightarrow> names k r h"
  "TakeUDPBind operation r = (Err e, r') \<Longrightarrow> names k r' h \<Longrightarrow> names k r h"
  "TakeTCPListen operation r = (Err e, r') \<Longrightarrow> names k r' h \<Longrightarrow> names k r h"
  by (cases k; auto simp: connect_defs accept_defs bind_defs listen_defs helper_defs Let_def split: option.splits list.splits if_splits)+

definition handlesOf :: "reactor \<Rightarrow> (handleKind \<times> u64) set" where
  "handlesOf r = {(k, h). names k r h}"

lemma handlesOf_Cancel: "handlesOf (CancelOperation operation r) = handlesOf r"
proof -
  have "handleView (CancelOperation operation r) = handleView r" by simp
  then have "names k (CancelOperation operation r) h = names k r h" for k h by (cases k) (simp_all add: handleView_def)
  then show ?thesis by (simp add: handlesOf_def)
qed

lemma writeResult_no_leak:
  assumes "writeResult E encoded p handle s = (Ok status, s')" "status \<noteq> 0"
    and "\<And>k h. names k (h_reactor s) h \<Longrightarrow> names k r h \<or> h = handle \<and> k \<in> {StreamHandle, DatagramHandle, ListenerHandle}"
  shows "handlesOf (h_reactor s') \<subseteq> handlesOf r"
proof -
  have "h_reactor s' = snd (CloseHandle (env_closeErr E) handle (h_reactor s))"
    using assms(1,2) by (auto simp: writeResult_def updReactor_def split: outcome.splits option.splits)
  then show ?thesis using assms(3) by (auto simp: handlesOf_def names_CloseHandle)
qed

text \<open>The four functions have the same shape.\<close>

lemma take_shape_no_leak:
  assumes "(if \<not> valid then (Ok statusMemory, updReactor (CancelOperation operation) s)
      else case t of (result, r) \<Rightarrow>
        case result of
          Err err \<Rightarrow> (Ok (st err), s\<lparr>h_reactor := r\<rparr>)
        | Panic \<Rightarrow> (Panic, s\<lparr>h_reactor := r\<rparr>)
        | Ok a \<Rightarrow> writeResult E (enc a) p (handleOf a) (s\<lparr>h_reactor := r\<rparr>)) = (Ok status, s')" "status \<noteq> 0"
    and "\<And>a r k h. t = (Ok a, r) \<Longrightarrow> names k r h \<Longrightarrow>
      names k (h_reactor s) h \<or> h = handleOf a \<and> k \<in> {StreamHandle, DatagramHandle, ListenerHandle}"
    and "\<And>e r k h. t = (Err e, r) \<Longrightarrow> names k r h \<Longrightarrow> names k (h_reactor s) h"
  shows "handlesOf (h_reactor s') \<subseteq> handlesOf (h_reactor s)"
proof (cases valid)
  case True
  obtain result r where t: "t = (result, r)" by fastforce
  show ?thesis
  proof (cases result)
    case (Ok a)
    then show ?thesis
      using assms(1) True writeResult_no_leak [OF _ assms(2), of E "enc a" p "handleOf a" "s\<lparr>h_reactor := r\<rparr>" s' "h_reactor s"]
        assms(3) [of a r] by (simp add: t)
  next
    case (Err e)
    then show ?thesis using assms(1) True assms(4) [of e r] by (auto simp: t handlesOf_def)
  qed (use assms(1) True in \<open>simp add: t\<close>)
qed (use assms(1) in \<open>auto simp: updReactor_def handlesOf_Cancel\<close>)

text \<open>
  C20: when a \<^verbatim>\<open>take\<close> of a connection, a bound socket, a listener or an accepted connection reports anything but
  success to the guest, no handle is left behind that the guest does not know of.
\<close>

theorem take_socket_leaks_no_handle:
  assumes "f \<in> {HF_take_tcp_connect, HF_take_udp_bind, HF_take_tcp_bind, HF_take_tcp_accept}"
    and "hostCall E f stack s = (Ok status, s')" "status \<noteq> 0"
  shows "handlesOf (h_reactor s') \<subseteq> handlesOf (h_reactor s)"
proof -
  from assms(1) consider "f = HF_take_tcp_connect" | "f = HF_take_udp_bind" | "f = HF_take_tcp_bind" | "f = HF_take_tcp_accept" by blast
  then show ?thesis
  proof cases
    case 1
    from assms(2) [unfolded 1 hostCall.simps takeTCPConnect_def Let_def] assms(3) show ?thesis
      by (rule take_shape_no_leak) (use names_take_Ok(1) names_take_Err(1) in \<open>blast+\<close>)
  next
    case 2
    from assms(2) [unfolded 2 hostCall.simps takeUDPBind_def Let_def] assms(3) show ?thesis
      by (rule take_shape_no_leak) (use names_take_Ok(3) names_take_Err(3) in \<open>blast+\<close>)
  next
    case 3
    from assms(2) [unfolded 3 hostCall.simps takeTCPListen_def Let_def] assms(3) show ?thesis
      by (rule take_shape_no_leak) (use names_take_Ok(4) names_take_Err(4) in \<open>blast+\<close>)
  next
    case 4
    from assms(2) [unfolded 4 hostCall.simps takeTCPAccept_def Let_def] assms(3) show ?thesis
      by (rule take_shape_no_leak) (use names_take_Ok(2) names_take_Err(2) in \<open>blast+\<close>)
  qed
qed

theorem take_socket_leaks_no_handle_witness:
  "\<exists>s'. hostCall demoEnv HF_take_tcp_connect [1, 0, 0] (demoHost (New demoOptions)) = (Ok statusMemory, s') \<and>
     handlesOf (h_reactor s') \<subseteq> handlesOf (New demoOptions)"
proof -
  let ?s = "demoHost (New demoOptions)"
  obtain s' where e: "hostCall demoEnv HF_take_tcp_connect [1, 0, 0] ?s = (Ok statusMemory, s')"
    by (simp add: takeTCPConnect_def validResultMemory_def tcpSocketResultLen_def socketAddressLen_def DecodeU32_def)
  from take_socket_leaks_no_handle [OF _ e] show ?thesis
    using e by (simp add: demoHost_def statusMemory_def)
qed

section \<open>Asking for the size of an answer\<close>

lemma boundedDNSResult_Ok: "boundedDNSResult xs = Ok enc \<Longrightarrow> enc = xs \<and> 0 < length enc \<and> length enc \<le> 1048576"
  by (auto simp: boundedDNSResult_def maxDNSResultLen_def split: if_splits)

lemma encodeDNSResult_bound:
  assumes "encodeDNSResult kind result = Ok enc" shows "0 < length enc \<and> length enc \<le> 1048576"
proof -
  obtain xs where "boundedDNSResult xs = Ok enc"
    using assms by (cases kind) (auto simp: encodeDNSResult_def encodeDNSAddresses_def encodeDNSTXT_def encodeDNSSRV_def split: if_splits)
  then show ?thesis using boundedDNSResult_Ok by blast
qed

lemma sint_small_length: "n < 2 ^ 31 \<Longrightarrow> sint (of_nat n :: i32) = int n"
  using int_word_sint [of "int n", where 'a = 32] by (simp add: of_nat_mod [symmetric])

text \<open>
  C21: taking a finished DNS answer with too small a buffer returns its size, between 1 and 2^20, and changes nothing, so the
  guest can ask again; with a buffer that is large enough the operation is finished and the answer is written.
\<close>

theorem take_dns_size_query:
  assumes "dns (h_reactor s) operation = Some q" "operations (h_reactor s) operation = Some operationDNS"
    and "do_done q" "do_err q = None" "do_kind q = kind" "encodeDNSResult kind (do_result q) = Ok enc"
  defines "finished \<equiv> s\<lparr>h_reactor := cancelContext (do_ref q) ((h_reactor s)
      \<lparr>dns := (dns (h_reactor s))(operation := None), operations := (operations (h_reactor s))(operation := None)\<rparr>)\<rparr>"
  shows "takeDNS E kind operation p capacity s =
      (if capacity < of_nat (length enc) then (Ok (of_nat (length enc)), s)
       else case env_write E (h_memory s) p enc of
              None \<Rightarrow> (Ok statusMemory, finished)
            | Some m \<Rightarrow> (Ok (of_nat (length enc)), finished\<lparr>h_memory := m\<rparr>)) \<and>
    sint (of_nat (length enc) :: i32) \<in> {1..2 ^ 20}"
proof -
  let ?result = "\<lparr>dr_Kind = kind, dr_Addresses = dr_Addresses (do_result q), dr_Text = dr_Text (do_result q),
    dr_Records = dr_Records (do_result q)\<rparr>"
  have d: "DNSResult_op operation (h_reactor s) = (Ok ?result, h_reactor s)"
    using assms(1-5) by (simp add: DNSResult_op_def)
  have e: "encodeDNSResult kind ?result = Ok enc" "\<not> (\<exists>k. kind = DNSOther k)"
    using assms(6) by (auto simp: encodeDNSResult_def split: DNSKind.splits)
  have f: "FinishDNS operation (h_reactor s) = (None, h_reactor finished)"
    using assms(1-3) by (simp add: FinishDNS_def releaseOperationLocked_def finished_def)
  have "0 < length enc" "length enc \<le> 1048576" using encodeDNSResult_bound [OF assms(6)] by simp_all
  then have "sint (of_nat (length enc) :: i32) \<in> {1..2 ^ 20}" using sint_small_length [of "length enc"] by (simp add: Suc_le_eq)
  then show ?thesis
    using e by (simp add: takeDNS_def d f Let_def) (simp add: finished_def split: option.splits)
qed

definition demoQuery :: DNSQuery where
  "demoQuery = \<lparr>dq_Host = [104], dq_IPVersion = 0, dq_SocketMark = None, dq_NetNS = None\<rparr>"

definition demoAnswered :: reactor where
  "demoAnswered = runDNS 1 2 DNSTXT demoQuery (emptyDNSResult\<lparr>dr_Text := [65, 66]\<rparr>, None)
     (snd (StartDNS 1 DNSTXT demoQuery (New demoOptions)))"

theorem take_dns_size_query_witness:
  "takeDNS demoEnv DNSTXT 1 0 0 (demoHost demoAnswered) = (Ok 6, demoHost demoAnswered)"
proof -
  let ?q = "\<lparr>do_ref = 2, do_kind = DNSTXT, do_done = True, do_result = emptyDNSResult\<lparr>dr_Text := [65, 66]\<rparr>, do_err = None\<rparr>"
  have v: "dns demoAnswered 1 = Some ?q" "operations demoAnswered 1 = Some operationDNS"
    by (simp_all add: demoAnswered_def StartDNS_def runDNS_def claimOperationLocked_def signalCompletion_def Let_def New_def
        demoOptions_def emptyReactor_def addStream_def addDatagram_def receiveResource_def)
  have e: "encodeDNSResult DNSTXT (do_result ?q) = Ok [0, 0, 0, 2, 65, 66]"
    by (simp add: encodeDNSResult_def encodeDNSTXT_def boundedDNSResult_def maxDNSResultLen_def PutUint32_def emptyDNSResult_def)
  show ?thesis
    using take_dns_size_query [of "demoHost demoAnswered" 1 ?q DNSTXT "[0, 0, 0, 2, 65, 66]" demoEnv 0 0] v e
    by (simp add: demoHost_def)
qed

section \<open>Data that comes with an error\<close>

text \<open>
  C22: a finding. \<^verbatim>\<open>Read\<close> of a connection may return bytes together with an error other than the end of file. The
  read that takes the last of these bytes, because they fit its capacity, gets both from the reactor, and the adapter
  reports the error only: the memory of the guest is as before, the bytes are gone from the stream, and the operation is
  finished, so no later call can get them. (Bytes that do not fit are handed out before, without the error.)
\<close>

theorem take_read_drops_data_with_error:
  assumes "reads (h_reactor s) i = Some w" "operations (h_reactor s) i = Some operationRead"
    and "ss_readQueue (streamAt (h_reactor s) (ro_stream w)) = w # queue" "ss_readReady (streamAt (h_reactor s) (ro_stream w))"
    and "ss_readErr (streamAt (h_reactor s) (ro_stream w)) = Some e" "\<not> errors_Is e IoEOF"
    and "length (ss_readData (streamAt (h_reactor s) (ro_stream w))) \<le> unat (ro_capacity w)"
  shows "\<exists>r'. takeRead E i p capacity s = (Ok (operationStatus (Some e)), s\<lparr>h_reactor := r'\<rparr>) \<and> sint (operationStatus (Some e)) < 0 \<and>
    ss_readData (streamAt r' (ro_stream w)) = [] \<and> reads r' i = None \<and> operations r' i = None"
proof -
  have p: "ss_readData (streamAt (prepareStreamReadLocked s x) t) = ss_readData (streamAt x t)"
    "reads (prepareStreamReadLocked s x) = reads x" "operations (prepareStreamReadLocked s x) = operations x" for s t x
    by (simp_all add: prepareStreamReadLocked_def updStream_def Let_def split: list.splits)
  have g: "streamAt (signalIf b x) = streamAt x" "reads (signalIf b x) = reads x" "operations (signalIf b x) = operations x" for b x
    by (simp_all add: signalIf_def signalCompletion_def)
  have a: "readAvailableLocked (streamAt (h_reactor s) (ro_stream w))" using assms(4) by (simp add: readAvailableLocked_def)
  obtain data err r' where t: "TakeRead i (h_reactor s) = ((data, err), r')" by (metis surj_pair)
  have "err = Some e \<and> ss_readData (streamAt r' (ro_stream w)) = [] \<and> reads r' i = None \<and> operations r' i = None"
    using assms a t by (auto simp: TakeRead_def Let_def releaseOperationLocked_def p g split: if_splits option.splits)
  moreover have "sint (operationStatus (Some e)) < 0"
    by (simp add: operationStatus_def statusPending_def statusInvalid_def statusWouldBlock_def statusIOError_def)
  ultimately show ?thesis using t by (auto simp: takeRead_def)
qed

theorem take_read_drops_data_with_error_witness:
  "\<exists>r'. takeRead demoEnv 1 0 16 (demoHost (runStreamRead 16 0 [1, 2] (Some (Errno 104)) (snd (StartRead 7 1 16 (New demoOptions))))) =
       (Ok (operationStatus (Some (Errno 104))),
        (demoHost (runStreamRead 16 0 [1, 2] (Some (Errno 104)) (snd (StartRead 7 1 16 (New demoOptions)))))\<lparr>h_reactor := r'\<rparr>) \<and>
     sint (operationStatus (Some (Errno 104))) < 0 \<and> ss_readData (streamAt r' 0) = []"
proof -
  let ?r = "runStreamRead 16 0 [1, 2] (Some (Errno 104)) (snd (StartRead 7 1 16 (New demoOptions)))"
  let ?w = "\<lparr>ro_ref = 2, ro_capacity = 16, ro_stream = 0\<rparr>"
  have v: "reads ?r 1 = Some ?w" "operations ?r 1 = Some operationRead" "ss_readQueue (streamAt ?r (ro_stream ?w)) = ?w # []"
    "ss_readReady (streamAt ?r (ro_stream ?w))" "ss_readErr (streamAt ?r (ro_stream ?w)) = Some (Errno 104)" "\<not> errors_Is (Errno 104) IoEOF"
    "length (ss_readData (streamAt ?r (ro_stream ?w))) \<le> unat (ro_capacity ?w)"
    by (simp_all add: StartRead_def runStreamRead_def claimOperationLocked_def Let_def updStream_def prepareStreamReadLocked_def
        signalIf_def signalCompletion_def New_def demoOptions_def emptyReactor_def addStream_def addDatagram_def
        receiveResource_def newStreamState_def readAvailableLocked_def)
  show ?thesis
    using take_read_drops_data_with_error [of "demoHost ?r" 1 ?w "[]" "Errno 104" demoEnv 0 16] v
    by (auto simp: demoHost_def)
qed

end
