(* ===== verification/CoreWire.thy ===== *)
theory CoreWire
  imports GoNet
begin

text \<open>
  The wire formats of the data plane between the host and the guest (internal/coreabi/dataplane\_wire.go and the enumerations
  of dataplane.go). What is decoded here was written by the guest into its memory: no bytes panic a decoder, the decoders
  accept exactly the encodings of well-formed values, and a batch of completions is cut apart as it was laid out.
\<close>

section \<open>dataplane.go: kinds and statuses\<close>

type_synonym OperationID = u64
type_synonym ResourceID = u64
type_synonym OperationKind = u16
type_synonym ErrorKind = u16

definition OperationTCPConnect :: OperationKind where "OperationTCPConnect = 1"
definition OperationTCPBind :: OperationKind where "OperationTCPBind = 2"
definition OperationTCPAccept :: OperationKind where "OperationTCPAccept = 3"
definition OperationTCPRead :: OperationKind where "OperationTCPRead = 4"
definition OperationTCPWrite :: OperationKind where "OperationTCPWrite = 5"
definition OperationUDPBind :: OperationKind where "OperationUDPBind = 6"
definition OperationUDPReceive :: OperationKind where "OperationUDPReceive = 7"
definition OperationUDPSend :: OperationKind where "OperationUDPSend = 8"

lemmas OperationKinds =
  OperationTCPConnect_def OperationTCPBind_def OperationTCPAccept_def OperationTCPRead_def OperationTCPWrite_def
  OperationUDPBind_def OperationUDPReceive_def OperationUDPSend_def

definition operationKind_valid :: "OperationKind \<Rightarrow> bool" where
  "operationKind_valid kind \<longleftrightarrow> OperationTCPConnect \<le> kind \<and> kind \<le> OperationUDPSend"

definition ErrorNone :: ErrorKind where "ErrorNone = 0"
definition ErrorCancelled :: ErrorKind where "ErrorCancelled = 1"
definition ErrorDeadlineExceeded :: ErrorKind where "ErrorDeadlineExceeded = 2"
definition ErrorInstanceStopped :: ErrorKind where "ErrorInstanceStopped = 3"
definition ErrorHandleClosed :: ErrorKind where "ErrorHandleClosed = 4"
definition ErrorNoOverlayRoute :: ErrorKind where "ErrorNoOverlayRoute = 5"
definition ErrorPathNotReady :: ErrorKind where "ErrorPathNotReady = 6"
definition ErrorAddressFamilyUnsupported :: ErrorKind where "ErrorAddressFamilyUnsupported = 7"
definition ErrorAddressInUse :: ErrorKind where "ErrorAddressInUse = 8"
definition ErrorConnectionRefused :: ErrorKind where "ErrorConnectionRefused = 9"
definition ErrorNetworkChanged :: ErrorKind where "ErrorNetworkChanged = 10"
definition ErrorResourceLimit :: ErrorKind where "ErrorResourceLimit = 11"
definition ErrorIO :: ErrorKind where "ErrorIO = 12"
definition ErrorBufferTooSmall :: ErrorKind where "ErrorBufferTooSmall = 13"

lemmas ErrorKinds =
  ErrorNone_def ErrorCancelled_def ErrorDeadlineExceeded_def ErrorInstanceStopped_def ErrorHandleClosed_def
  ErrorNoOverlayRoute_def ErrorPathNotReady_def ErrorAddressFamilyUnsupported_def ErrorAddressInUse_def
  ErrorConnectionRefused_def ErrorNetworkChanged_def ErrorResourceLimit_def ErrorIO_def ErrorBufferTooSmall_def

definition validCompletionStatus :: "ErrorKind \<Rightarrow> bool" where
  "validCompletionStatus kind \<longleftrightarrow> kind \<le> ErrorBufferTooSmall"

record Completion =
  cp_Operation :: OperationID
  cp_Kind :: OperationKind
  cp_Status :: ErrorKind

section \<open>dataplane\_wire.go\<close>

definition socketAddressLength :: nat where "socketAddressLength = 27"
definition operationIDLength :: nat where "operationIDLength = 8"
definition completionLength :: nat where "completionLength = 12"
definition streamResultLength :: nat where "streamResultLength = 8 + socketAddressLength * 2"
definition bindResultLength :: nat where "bindResultLength = 8 + socketAddressLength"
definition tcpReadMetadataLength :: nat where "tcpReadMetadataLength = 1"
definition udpReceiveMetadataLength :: nat where "udpReceiveMetadataLength = socketAddressLength + 1"
definition maxDataPlaneTransferBytes :: nat where "maxDataPlaneTransferBytes = 1024 * 1024"

lemmas coreLengths =
  socketAddressLength_def operationIDLength_def completionLength_def streamResultLength_def bindResultLength_def
  tcpReadMetadataLength_def udpReceiveMetadataLength_def maxDataPlaneTransferBytes_def

text \<open>\<^verbatim>\<open>netip.AddrPort.IsValid\<close> and \<^verbatim>\<open>netip.AddrFrom4\<close>.\<close>

definition addrport_IsValid :: "addr_port \<Rightarrow> bool" where
  "addrport_IsValid address = addr_IsValid (ap_addr address)"

definition AddrFrom4 :: "bytes \<Rightarrow> netip_addr outcome" where
  "AddrFrom4 ip = obind (Uint32 ip) (\<lambda>v. Ok (Addr4 v))"

definition encodeSocketAddress_core :: "addr_port \<Rightarrow> bytes outcome" where
  "encodeSocketAddress_core address =
     (let wire = replicate socketAddressLength 0 in
      if \<not> addrport_IsValid address \<or> \<not> Is4 (ap_addr address)
      then Err (Errorf ''data plane ABI v2 requires an IPv4 address'' [])
      else
        let wire = wire[0 := 4] in
        obind (As4 (ap_addr address)) (\<lambda>ip.
        let wire = copy_into wire 1 5 ip in
        Ok (copy_into wire 17 19 (PutUint16 (ap_port address)))))"

definition decodeSocketAddress_core :: "bytes \<Rightarrow> addr_port outcome" where
  "decodeSocketAddress_core wire =
     (if length wire \<noteq> socketAddressLength then Err (Errorf ''decode socket address with length %d'' [])
      else
        obind (index wire 0) (\<lambda>family.
        if family \<noteq> 4 then Err (Errorf ''data plane ABI v2 returned address family %d'' [])
        else
          obind (slice wire 5 17) (\<lambda>padding.
          if \<not> list_all (\<lambda>value. value = 0) padding
          then Err (Errorf ''data plane ABI returned noncanonical IPv4 padding'' [])
          else
            obind (slice wire 19 27) (\<lambda>metadata.
            if \<not> list_all (\<lambda>value. value = 0) metadata
            then Err (Errorf ''data plane ABI returned IPv4 flow or scope metadata'' [])
            else
              obind (obind (slice wire 1 5) AddrFrom4) (\<lambda>address.
              obind (obind (slice wire 17 19) Uint16) (\<lambda>port.
              Ok (AddrPort address port)))))))"

text \<open>The body of the loop of \<^verbatim>\<open>decodeCompletions\<close>, and the loop.\<close>

definition decodeCompletion :: "bytes \<Rightarrow> Completion outcome" where
  "decodeCompletion wire =
     obind (obind (slice wire 0 8) Uint64) (\<lambda>operation.
     obind (obind (slice wire 8 10) Uint16) (\<lambda>kind.
     obind (obind (slice wire 10 12) Uint16) (\<lambda>status.
     if operation = 0 then Err (Errorf ''data plane returned zero operation ID'' [])
     else if \<not> operationKind_valid kind then Err (Errorf ''data plane returned operation kind %d'' [])
     else if \<not> validCompletionStatus status then Err (Errorf ''data plane returned completion status %d'' [])
     else Ok \<lparr>cp_Operation = operation, cp_Kind = kind, cp_Status = status\<rparr>)))"

lemma obind_cong [fundef_cong]:
  "m = m' \<Longrightarrow> (\<And>x. m' = Ok x \<Longrightarrow> f x = f' x) \<Longrightarrow> obind m f = obind m' f'"
  by (cases m') auto

function decodeCompletionsLoop :: "bytes \<Rightarrow> Completion list \<Rightarrow> Completion list outcome" where
  "decodeCompletionsLoop wire completions =
     (if length wire = 0 then Ok completions
      else
        obind (decodeCompletion wire) (\<lambda>completion.
        obind (slice_from wire (int completionLength)) (\<lambda>wire.
        decodeCompletionsLoop wire (completions @ [completion]))))"
  by auto
termination
  by (relation "measure (\<lambda>(wire, _). length wire)") (auto simp: slice_from_def slice_def completionLength_def split: if_splits)

definition decodeCompletions :: "bytes \<Rightarrow> Completion list outcome" where
  "decodeCompletions wire =
     (if length wire mod completionLength \<noteq> 0 then Err (Errorf ''decode completion bytes with length %d'' [])
      else decodeCompletionsLoop wire [])"

definition decodeStreamResult :: "bytes \<Rightarrow> (ResourceID \<times> addr_port \<times> addr_port) outcome" where
  "decodeStreamResult wire =
     (if length wire \<noteq> streamResultLength then Err (Errorf ''decode stream result with length %d'' [])
      else
        obind (obind (slice wire 0 8) Uint64) (\<lambda>resource.
        if resource = 0 then Err (Errorf ''data plane returned zero stream resource ID'' [])
        else
          obind (obind (slice wire 8 (8 + int socketAddressLength)) decodeSocketAddress_core) (\<lambda>local.
          obind (obind (slice_from wire (8 + int socketAddressLength)) decodeSocketAddress_core) (\<lambda>peer.
          Ok (resource, local, peer)))))"

definition decodeBindResult :: "bytes \<Rightarrow> (ResourceID \<times> addr_port) outcome" where
  "decodeBindResult wire =
     (if length wire \<noteq> bindResultLength then Err (Errorf ''decode bind result with length %d'' [])
      else
        obind (obind (slice wire 0 8) Uint64) (\<lambda>resource.
        if resource = 0 then Err (Errorf ''data plane returned zero bound resource ID'' [])
        else
          obind (obind (slice_from wire 8) decodeSocketAddress_core) (\<lambda>address.
          Ok (resource, address))))"

section \<open>The grammars\<close>

text \<open>A socket address: family 4, the address, zeros, the port, zeros.\<close>

fun socketAddressWire :: "addr_port \<Rightarrow> bytes" where
  "socketAddressWire (AddrPort (Addr4 ip) port) =
     4 # PutUint32 ip @ replicate 12 0 @ PutUint16 port @ replicate 8 0"
| "socketAddressWire _ = []"

definition isIPv4 :: "addr_port \<Rightarrow> bool" where
  "isIPv4 address = Is4 (ap_addr address)"

lemma isIPv4_iff: "isIPv4 a \<longleftrightarrow> (\<exists>ip port. a = AddrPort (Addr4 ip) port)"
  by (cases a; cases "ap_addr a") (auto simp: isIPv4_def)

lemma length_socketAddressWire: "isIPv4 a \<Longrightarrow> length (socketAddressWire a) = socketAddressLength"
  by (auto simp: isIPv4_iff socketAddressLength_def)

lemma encodeSocketAddress_core_wire:
  "encodeSocketAddress_core a =
     (if isIPv4 a then Ok (socketAddressWire a) else Err (Errorf ''data plane ABI v2 requires an IPv4 address'' []))"
  by (cases a; cases "ap_addr a")
    (simp_all add: encodeSocketAddress_core_def isIPv4_def addrport_IsValid_def addr_IsValid_def socketAddressLength_def
      copy_into_def numeral_eq_Suc PutUint32_def PutUint16_def)

text \<open>What the decoder does with 27 bytes, whatever they are.\<close>

lemma socketAddress_layout:
  assumes "length wire = socketAddressLength"
  obtains family ip pad port meta
  where "wire = family # PutUint32 ip @ pad @ PutUint16 port @ meta" "length pad = 12" "length meta = 8"
proof -
  obtain family r where w: "wire = family # r" "length r = 26" using assms by (cases wire) (auto simp: socketAddressLength_def)
  obtain ip where ip: "take 4 r = PutUint32 ip" using Uint32_total [of r] w by auto
  obtain port where port: "take 2 (drop 16 r) = PutUint16 port" using Uint16_total [of "drop 16 r"] w by auto
  have "drop 4 r = take 12 (drop 4 r) @ drop 12 (drop 4 r)" "drop 16 r = take 2 (drop 16 r) @ drop 2 (drop 16 r)"
    by (simp_all only: append_take_drop_id)
  then have "r = take 4 r @ take 12 (drop 4 r) @ take 2 (drop 16 r) @ drop 18 r"
    using append_take_drop_id [of 4 r] by (simp add: drop_drop)
  then show thesis using that [of family ip "take 12 (drop 4 r)" port "drop 18 r"] w ip port by simp
qed

lemma decodeSocketAddress_core_layout:
  assumes "length pad = 12" "length meta = 8"
  shows "decodeSocketAddress_core (family # PutUint32 ip @ pad @ PutUint16 port @ meta) =
    (if family \<noteq> 4 then Err (Errorf ''data plane ABI v2 returned address family %d'' [])
     else if \<not> allZero pad then Err (Errorf ''data plane ABI returned noncanonical IPv4 padding'' [])
     else if \<not> allZero meta then Err (Errorf ''data plane ABI returned IPv4 flow or scope metadata'' [])
     else Ok (AddrPort (Addr4 ip) port))"
  using assms by (simp add: decodeSocketAddress_core_def socketAddressLength_def slice_Ok index_Ok AddrFrom4_def allZero_def)

lemma decode_socketAddressWire: "isIPv4 a \<Longrightarrow> decodeSocketAddress_core (socketAddressWire a) = Ok a"
  by (auto simp: isIPv4_iff decodeSocketAddress_core_layout)

lemma decodeSocketAddress_core_sound:
  assumes "decodeSocketAddress_core wire = Ok a"
  shows "isIPv4 a \<and> wire = socketAddressWire a"
proof -
  have "length wire = socketAddressLength" using assms by (auto simp: decodeSocketAddress_core_def split: if_splits)
  then obtain family ip pad port meta
    where w: "wire = family # PutUint32 ip @ pad @ PutUint16 port @ meta" "length pad = 12" "length meta = 8"
    by (rule socketAddress_layout)
  then show ?thesis
    using assms by (auto simp: decodeSocketAddress_core_layout isIPv4_iff allZero_iff_replicate split: if_splits)
qed

lemma decodeSocketAddress_core_no_panic: "decodeSocketAddress_core wire \<noteq> Panic"
proof (cases "length wire = socketAddressLength")
  case True
  then show ?thesis by (rule socketAddress_layout) (simp add: decodeSocketAddress_core_layout)
qed (simp add: decodeSocketAddress_core_def)

interpretation socketAddress: fixed_codec socketAddressWire decodeSocketAddress_core isIPv4 socketAddressLength
  by unfold_locales
    (simp_all add: decode_socketAddressWire decodeSocketAddress_core_sound length_socketAddressWire)

text \<open>One completion.\<close>

definition completionWire :: "Completion \<Rightarrow> bytes" where
  "completionWire c = PutUint64 (cp_Operation c) @ PutUint16 (cp_Kind c) @ PutUint16 (cp_Status c)"

definition completionOk :: "Completion \<Rightarrow> bool" where
  "completionOk c \<longleftrightarrow> cp_Operation c \<noteq> 0 \<and> operationKind_valid (cp_Kind c) \<and> validCompletionStatus (cp_Status c)"

lemma length_completionWire [simp]: "length (completionWire c) = 12"
  by (simp add: completionWire_def)

lemma decodeCompletion_wire:
  "decodeCompletion (completionWire c @ rest) =
     (if cp_Operation c = 0 then Err (Errorf ''data plane returned zero operation ID'' [])
      else if \<not> operationKind_valid (cp_Kind c) then Err (Errorf ''data plane returned operation kind %d'' [])
      else if \<not> validCompletionStatus (cp_Status c) then Err (Errorf ''data plane returned completion status %d'' [])
      else Ok c)"
  by (simp add: decodeCompletion_def completionWire_def slice_Ok)

lemma completion_layout:
  assumes "12 \<le> length wire"
  obtains c where "wire = completionWire c @ drop 12 wire"
proof -
  obtain op where op: "take 8 wire = PutUint64 op" using Uint64_total [of wire] assms by auto
  obtain kind where kind: "take 2 (drop 8 wire) = PutUint16 kind" using Uint16_total [of "drop 8 wire"] assms that by force
  obtain status where status: "take 2 (drop 10 wire) = PutUint16 status" using Uint16_total [of "drop 10 wire"] assms that by force
  have "drop 8 wire = take 2 (drop 8 wire) @ drop 2 (drop 8 wire)" "drop 10 wire = take 2 (drop 10 wire) @ drop 2 (drop 10 wire)"
    by (simp_all only: append_take_drop_id)
  then have "wire = take 8 wire @ take 2 (drop 8 wire) @ take 2 (drop 10 wire) @ drop 12 wire"
    using append_take_drop_id [of 8 wire] by simp
  then show thesis
    using that [of "\<lparr>cp_Operation = op, cp_Kind = kind, cp_Status = status\<rparr>"] op kind status by (simp add: completionWire_def)
qed

text \<open>The batch: the loop cuts it into completions, or stops at the first that is not well-formed.\<close>

lemma decodeCompletionsLoop_wire:
  "decodeCompletionsLoop (completionWire c @ rest) acc =
     obind (decodeCompletion (completionWire c @ rest)) (\<lambda>c. decodeCompletionsLoop rest (acc @ [c]))"
  by (subst decodeCompletionsLoop.simps) (simp add: slice_from_Ok completionLength_def)

lemma decodeCompletionsLoop_complete:
  "list_all completionOk cs \<Longrightarrow> decodeCompletionsLoop (concat (map completionWire cs)) acc = Ok (acc @ cs)"
proof (induction cs arbitrary: acc)
  case (Cons c cs)
  then show ?case
    by (simp add: decodeCompletionsLoop_wire decodeCompletion_wire completionOk_def del: decodeCompletionsLoop.simps)
qed simp

lemma decodeCompletionsLoop_sound:
  "length wire mod 12 = 0 \<Longrightarrow> decodeCompletionsLoop wire acc = Ok out \<Longrightarrow>
     \<exists>cs. out = acc @ cs \<and> list_all completionOk cs \<and> wire = concat (map completionWire cs)"
proof (induction "length wire" arbitrary: wire acc rule: less_induct)
  case less
  show ?case
  proof (cases "wire = []")
    case True
    then show ?thesis using less.prems(2) by simp
  next
    case False
    with less.prems(1) have "12 \<le> length wire" by (metis length_0_conv mod_less not_less)
    then obtain c where w: "wire = completionWire c @ drop 12 wire" by (rule completion_layout)
    let ?rest = "drop 12 wire"
    have out: "completionOk c" "decodeCompletionsLoop ?rest (acc @ [c]) = Ok out"
      using less.prems(2) decodeCompletionsLoop_wire [of c ?rest acc] w decodeCompletion_wire [of c ?rest]
      by (auto simp: completionOk_def simp del: decodeCompletionsLoop.simps split: if_splits)
    have "length ?rest < length wire" "length ?rest mod 12 = 0"
      using \<open>12 \<le> length wire\<close> less.prems(1) by (auto simp: mod_if [of "length wire"])
    then obtain cs where "out = (acc @ [c]) @ cs" "list_all completionOk cs" "?rest = concat (map completionWire cs)"
      using less.hyps [OF _ _ out(2)] by metis
    then show ?thesis using out(1) w by (intro exI [of _ "c # cs"]) simp
  qed
qed

lemma decodeCompletionsLoop_no_panic: "length wire mod 12 = 0 \<Longrightarrow> decodeCompletionsLoop wire acc \<noteq> Panic"
proof (induction "length wire" arbitrary: wire acc rule: less_induct)
  case less
  show ?case
  proof (cases "wire = []")
    case False
    with less.prems have "12 \<le> length wire" by (metis length_0_conv mod_less not_less)
    then obtain c where w: "wire = completionWire c @ drop 12 wire" by (rule completion_layout)
    let ?rest = "drop 12 wire"
    have "length ?rest < length wire" "length ?rest mod 12 = 0"
      using \<open>12 \<le> length wire\<close> less.prems by (auto simp: mod_if [of "length wire"])
    then have "decodeCompletionsLoop ?rest (acc @ [c]) \<noteq> Panic" by (rule less.hyps)
    then show ?thesis
      using decodeCompletionsLoop_wire [of c ?rest acc] w decodeCompletion_wire [of c ?rest]
      by (auto simp del: decodeCompletionsLoop.simps split: if_splits)
  qed simp
qed

text \<open>The list decoder is exact too.\<close>

definition completionsWire :: "Completion list \<Rightarrow> bytes" where
  "completionsWire cs = concat (map completionWire cs)"

lemma length_completionsWire: "length (completionsWire cs) = 12 * length cs"
  by (induction cs) (simp_all add: completionsWire_def)

interpretation completions: codec completionsWire decodeCompletions "list_all completionOk"
proof
  show "list_all completionOk cs \<Longrightarrow> decodeCompletions (completionsWire cs) = Ok cs" for cs
    using decodeCompletionsLoop_complete [of cs "[]"] length_completionsWire [of cs]
    by (simp add: decodeCompletions_def completionLength_def completionsWire_def del: decodeCompletionsLoop.simps)
  show "decodeCompletions wire = Ok cs \<Longrightarrow> list_all completionOk cs \<and> wire = completionsWire cs" for wire cs
    using decodeCompletionsLoop_sound [of wire "[]" cs]
    by (auto simp: decodeCompletions_def completionLength_def completionsWire_def simp del: decodeCompletionsLoop.simps split: if_splits)
qed

text \<open>The results of operations that make a stream or bind a socket.\<close>

definition streamResultWire :: "ResourceID \<times> addr_port \<times> addr_port \<Rightarrow> bytes" where
  "streamResultWire = (\<lambda>(resource, local, peer). PutUint64 resource @ socketAddressWire local @ socketAddressWire peer)"

definition streamResultOk :: "ResourceID \<times> addr_port \<times> addr_port \<Rightarrow> bool" where
  "streamResultOk = (\<lambda>(resource, local, peer). resource \<noteq> 0 \<and> isIPv4 local \<and> isIPv4 peer)"

definition bindResultWire :: "ResourceID \<times> addr_port \<Rightarrow> bytes" where
  "bindResultWire = (\<lambda>(resource, local). PutUint64 resource @ socketAddressWire local)"

definition bindResultOk :: "ResourceID \<times> addr_port \<Rightarrow> bool" where
  "bindResultOk = (\<lambda>(resource, local). resource \<noteq> 0 \<and> isIPv4 local)"

lemma decodeStreamResult_layout:
  assumes "length l = 27" "length p = 27"
  shows "decodeStreamResult (PutUint64 resource @ l @ p) =
    (if resource = 0 then Err (Errorf ''data plane returned zero stream resource ID'' [])
     else obind (decodeSocketAddress_core l) (\<lambda>local.
          obind (decodeSocketAddress_core p) (\<lambda>peer. Ok (resource, local, peer))))"
  using assms by (simp add: decodeStreamResult_def streamResultLength_def socketAddressLength_def slice_Ok slice_from_Ok)

lemma decodeBindResult_layout:
  assumes "length l = 27"
  shows "decodeBindResult (PutUint64 resource @ l) =
    (if resource = 0 then Err (Errorf ''data plane returned zero bound resource ID'' [])
     else obind (decodeSocketAddress_core l) (\<lambda>local. Ok (resource, local)))"
  using assms by (simp add: decodeBindResult_def bindResultLength_def socketAddressLength_def slice_Ok slice_from_Ok)

lemma result_layout:
  assumes "8 + n = length wire"
  obtains resource rest where "wire = PutUint64 resource @ rest" "length rest = n"
proof -
  obtain resource where "take 8 wire = PutUint64 resource" using Uint64_total [of wire] assms by auto
  then show thesis using that [of resource "drop 8 wire"] append_take_drop_id [of 8 wire] assms by simp
qed

lemma streamResult_layout:
  assumes "length wire = streamResultLength"
  obtains resource l p where "wire = PutUint64 resource @ l @ p" "length l = 27" "length p = 27"
proof -
  obtain resource rest where w: "wire = PutUint64 resource @ rest" "length rest = 54"
    using result_layout [of 54 wire] assms by (auto simp: streamResultLength_def socketAddressLength_def)
  then show thesis using that [of resource "take 27 rest" "drop 27 rest"] by simp
qed

interpretation streamResult: fixed_codec streamResultWire decodeStreamResult streamResultOk streamResultLength
proof
  show "streamResultOk x \<Longrightarrow> decodeStreamResult (streamResultWire x) = Ok x" for x
    using length_socketAddressWire decode_socketAddressWire
    by (auto simp: streamResultOk_def streamResultWire_def decodeStreamResult_layout socketAddressLength_def)
  show "streamResultOk x \<and> wire = streamResultWire x" if d: "decodeStreamResult wire = Ok x" for wire x
  proof -
    have "length wire = streamResultLength" using d by (auto simp: decodeStreamResult_def split: if_splits)
    then obtain resource l p where w: "wire = PutUint64 resource @ l @ p" "length l = 27" "length p = 27" by (rule streamResult_layout)
    show ?thesis
      using d decodeSocketAddress_core_sound
      by (auto simp: w decodeStreamResult_layout streamResultOk_def streamResultWire_def split: if_splits)
  qed
  show "streamResultOk x \<Longrightarrow> length (streamResultWire x) = streamResultLength" for x
    using length_socketAddressWire by (auto simp: streamResultOk_def streamResultWire_def streamResultLength_def)
qed

interpretation bindResult: fixed_codec bindResultWire decodeBindResult bindResultOk bindResultLength
proof
  show "bindResultOk x \<Longrightarrow> decodeBindResult (bindResultWire x) = Ok x" for x
    using length_socketAddressWire decode_socketAddressWire
    by (auto simp: bindResultOk_def bindResultWire_def decodeBindResult_layout socketAddressLength_def)
  show "bindResultOk x \<and> wire = bindResultWire x" if d: "decodeBindResult wire = Ok x" for wire x
  proof -
    have "length wire = bindResultLength" using d by (auto simp: decodeBindResult_def split: if_splits)
    then obtain resource l where w: "wire = PutUint64 resource @ l" "length l = 27"
      using result_layout [of 27 wire] by (auto simp: bindResultLength_def socketAddressLength_def)
    show ?thesis
      using d decodeSocketAddress_core_sound
      by (auto simp: w decodeBindResult_layout bindResultOk_def bindResultWire_def split: if_splits)
  qed
  show "bindResultOk x \<Longrightarrow> length (bindResultWire x) = bindResultLength" for x
    using length_socketAddressWire by (auto simp: bindResultOk_def bindResultWire_def bindResultLength_def)
qed

lemma decodeCompletions_no_panic: "decodeCompletions wire \<noteq> Panic"
  using decodeCompletionsLoop_no_panic [of wire "[]"]
  by (simp add: decodeCompletions_def completionLength_def del: decodeCompletionsLoop.simps)

lemma decodeStreamResult_no_panic: "decodeStreamResult wire \<noteq> Panic"
proof (cases "length wire = streamResultLength")
  case True
  then show ?thesis
    by (rule streamResult_layout) (simp add: decodeStreamResult_layout decodeSocketAddress_core_no_panic)
qed (simp add: decodeStreamResult_def)

lemma decodeBindResult_no_panic: "decodeBindResult wire \<noteq> Panic"
proof (cases "length wire = bindResultLength")
  case True
  then have "8 + 27 = length wire" by (simp add: bindResultLength_def socketAddressLength_def)
  then show ?thesis
    by (rule result_layout) (simp add: decodeBindResult_layout decodeSocketAddress_core_no_panic)
qed (simp add: decodeBindResult_def)

section \<open>The properties\<close>

text \<open>
  C25: a batch of completions is accepted exactly when it is the concatenation of 12-byte encodings of completions with a
  non-zero operation, a known kind and a known status, and then those completions come out, in order.
\<close>

theorem decode_completions_exact:
  "decodeCompletions wire = Ok cs \<longleftrightarrow> list_all completionOk cs \<and> wire = concat (map completionWire cs)"
  using completions.dec_iff by (simp add: completionsWire_def)

text \<open>
  C26: what \<^verbatim>\<open>TakeResult\<close> reads for a new stream or a bound socket is accepted exactly when it is the layout of a non-zero
  resource and IPv4 socket addresses, and no bytes of the guest panic these decoders.
\<close>

theorem decode_results_exact:
  "(decodeStreamResult wire = Ok (resource, local, peer) \<longleftrightarrow>
      resource \<noteq> 0 \<and> isIPv4 local \<and> isIPv4 peer \<and>
      wire = PutUint64 resource @ socketAddressWire local @ socketAddressWire peer) \<and>
   (decodeBindResult wire = Ok (resource, local) \<longleftrightarrow>
      resource \<noteq> 0 \<and> isIPv4 local \<and> wire = PutUint64 resource @ socketAddressWire local) \<and>
   decodeStreamResult wire \<noteq> Panic \<and> decodeBindResult wire \<noteq> Panic \<and> decodeCompletions wire \<noteq> Panic"
  using streamResult.dec_iff [of wire "(resource, local, peer)"] bindResult.dec_iff [of wire "(resource, local)"]
    decodeStreamResult_no_panic decodeBindResult_no_panic decodeCompletions_no_panic
  by (auto simp: streamResultOk_def bindResultOk_def streamResultWire_def bindResultWire_def)

text \<open>
  C27: the encoder of peer addresses and the decoder of addresses are inverse to each other: the host can read back exactly
  what it writes, and it writes only IPv4 addresses.
\<close>

theorem socket_address_roundtrip:
  "encodeSocketAddress_core address = Ok wire \<longleftrightarrow> decodeSocketAddress_core wire = Ok address"
  using socketAddress.dec_iff [of wire address] by (auto simp: encodeSocketAddress_core_wire)

end
