(* ===== verification/CoreGuest.thy ===== *)
theory CoreGuest
  imports CoreWire
begin

text \<open>
  The wrapper around the guest module of one EasyTier instance (internal/coreabi/core.go): resolving and calling exported
  functions, the buffers it allocates in guest memory, and the life cycle calls of an instance. The guest itself is WebAssembly
  and not part of this program: \<^verbatim>\<open>api.Module\<close> is a record of functions on a guest state of any type. Contexts are not
  modelled: the runtime is not configured to stop calls, so they only reach the host functions, which ignore them.
\<close>

section \<open>The module\<close>

text \<open>
  \<^verbatim>\<open>ExportedFunction\<close> gives the numbers of parameters and results; \<^verbatim>\<open>CallWithStack\<close> gives an error or nil and what is
  left in the first slot of the stack; \<^verbatim>\<open>Memory().Read\<close> and \<^verbatim>\<open>Memory().Write\<close> fail outside the memory.
\<close>

record 'g module =
  m_exported :: "string \<Rightarrow> (nat \<times> nat) option"
  m_call :: "string \<Rightarrow> u64 list \<Rightarrow> 'g \<Rightarrow> (goerror option \<times> u64) \<times> 'g"
  m_read :: "'g \<Rightarrow> u32 \<Rightarrow> u32 \<Rightarrow> bytes option"
  m_write :: "'g \<Rightarrow> u32 \<Rightarrow> bytes \<Rightarrow> 'g option"

text \<open>A resolved function; its \<^verbatim>\<open>call\<close> is identified by the name it is exported under.\<close>

record guestFunction =
  gf_call :: string
  gf_parameterCount :: nat

record Core =
  core_functions :: "string \<Rightarrow> guestFunction option"
  core_driveFunction :: "guestFunction option"
  core_deadlineFunction :: "guestFunction option"
  core_completionFunction :: "guestFunction option"
  core_handle :: u64
  core_packetBuffer :: u32
  core_packetBufferCapacity :: u32
  core_dataPlaneAddress :: u32
  core_dataPlaneInput :: u32
  core_dataPlaneInputSize :: u32
  core_dataPlaneOutput :: u32
  core_dataPlaneOutputSize :: u32
  core_dropped :: bool

definition emptyCore :: Core where
  "emptyCore =
     \<lparr>core_functions = Map.empty, core_driveFunction = None, core_deadlineFunction = None, core_completionFunction = None, core_handle = 0,
      core_packetBuffer = 0, core_packetBufferCapacity = 0, core_dataPlaneAddress = 0, core_dataPlaneInput = 0, core_dataPlaneInputSize = 0,
      core_dataPlaneOutput = 0, core_dataPlaneOutputSize = 0, core_dropped = False\<rparr>"

section \<open>Actions\<close>

text \<open>
  A method of the wrapper: it changes the wrapper and the guest and returns a value or an error. Where the code returns values
  beside an error they are not kept.
\<close>

type_synonym ('g, 'a) act = "Core \<times> 'g \<Rightarrow> 'a outcome \<times> Core \<times> 'g"

definition returnA :: "'a \<Rightarrow> ('g, 'a) act" where "returnA x s = (Ok x, s)"
definition failA :: "goerror \<Rightarrow> ('g, 'a) act" where "failA e s = (Err e, s)"
definition liftA :: "'a outcome \<Rightarrow> ('g, 'a) act" where "liftA m s = (m, s)"
definition getsA :: "(Core \<Rightarrow> 'a) \<Rightarrow> ('g, 'a) act" where "getsA f s = (Ok (f (fst s)), s)"
definition modifyA :: "(Core \<Rightarrow> Core) \<Rightarrow> ('g, unit) act" where "modifyA f s = (Ok (), f (fst s), snd s)"

definition bindA :: "('g, 'a) act \<Rightarrow> ('a \<Rightarrow> ('g, 'b) act) \<Rightarrow> ('g, 'b) act" where
  "bindA m f s = (case m s of (Ok x, s) \<Rightarrow> f x s | (Err e, s) \<Rightarrow> (Err e, s) | (Panic, s) \<Rightarrow> (Panic, s))"

text \<open>\<^verbatim>\<open>if err != nil { return fmt.Errorf("...: %w", err) }\<close>, and an error that is kept as a value.\<close>

definition wrapA :: "string \<Rightarrow> ('g, 'a) act \<Rightarrow> ('g, 'a) act" where
  "wrapA message m s = (case m s of (Err e, s) \<Rightarrow> (Err (Errorf message [e]), s) | r \<Rightarrow> r)"

definition tryA :: "('g, 'a) act \<Rightarrow> ('g, goerror option) act" where
  "tryA m s = (case m s of (Ok x, s) \<Rightarrow> (Ok None, s) | (Err e, s) \<Rightarrow> (Ok (Some e), s) | (Panic, s) \<Rightarrow> (Panic, s))"

lemma bindA_simps [simp]:
  "bindA (getsA f) k s = k (f (fst s)) s" "bindA (returnA x) k = k x" "bindA (failA e) k = failA e"
  by (simp_all add: bindA_def getsA_def returnA_def failA_def fun_eq_iff)

lemmas act_defs = returnA_def failA_def liftA_def getsA_def modifyA_def bindA_def wrapA_def tryA_def

section \<open>Calling the guest\<close>

definition resolveFunction :: "'g module \<Rightarrow> string \<Rightarrow> ('g, guestFunction) act" where
  "resolveFunction M name s =
     (case core_functions (fst s) name of
        Some function \<Rightarrow> (Ok function, s)
      | None \<Rightarrow>
          case m_exported M name of
            None \<Rightarrow> (Err (Errorf ''EasyTier guest does not export %s'' []), s)
          | Some (params, results) \<Rightarrow>
              if results \<noteq> 1 then (Err (Errorf ''%s returned %d values'' []), s)
              else
                let function = \<lparr>gf_call = name, gf_parameterCount = params\<rparr>
                in (Ok function, (fst s)\<lparr>core_functions := (core_functions (fst s))(name \<mapsto> function)\<rparr>, snd s))"

definition callGuestFunction :: "'g module \<Rightarrow> string \<Rightarrow> guestFunction \<Rightarrow> u64 list \<Rightarrow> ('g, u64) act" where
  "callGuestFunction M name function params s =
     (if length params \<noteq> gf_parameterCount function then (Err (Errorf ''%s expected %d params, but passed %d'' []), s)
      else
        case m_call M (gf_call function) params (snd s) of
          ((Some err, _), g) \<Rightarrow> (Err (Errorf ''%s: %w'' [err]), fst s, g)
        | ((None, result), g) \<Rightarrow> (Ok result, fst s, g))"

definition callOne :: "'g module \<Rightarrow> string \<Rightarrow> u64 list \<Rightarrow> ('g, u64) act" where
  "callOne M name params =
     bindA (resolveFunction M name) (\<lambda>function. callGuestFunction M name function params)"

definition callCached ::
  "'g module \<Rightarrow> string \<Rightarrow> (Core \<Rightarrow> guestFunction option) \<Rightarrow> (guestFunction option \<Rightarrow> Core \<Rightarrow> Core) \<Rightarrow> u64 list \<Rightarrow> ('g, u64) act" where
  "callCached M name cached store params =
     bindA (getsA cached) (\<lambda>function.
       case function of
         None \<Rightarrow>
           bindA (resolveFunction M name) (\<lambda>function.
           bindA (modifyA (store (Some function))) (\<lambda>_.
           callGuestFunction M name function params))
       | Some function \<Rightarrow> callGuestFunction M name function params)"

definition readMemory :: "'g module \<Rightarrow> u32 \<Rightarrow> u32 \<Rightarrow> string \<Rightarrow> ('g, bytes) act" where
  "readMemory M pointer len message s =
     (case m_read M (snd s) pointer len of None \<Rightarrow> (Err (Errorf message []), s) | Some wire \<Rightarrow> (Ok wire, s))"

definition writeMemory :: "'g module \<Rightarrow> u32 \<Rightarrow> bytes \<Rightarrow> string \<Rightarrow> ('g, unit) act" where
  "writeMemory M pointer wire message s =
     (case m_write M (snd s) pointer wire of None \<Rightarrow> (Err (Errorf message []), s) | Some g \<Rightarrow> (Ok (), fst s, g))"

section \<open>Guest buffers\<close>

definition allocate :: "'g module \<Rightarrow> u32 \<Rightarrow> ('g, u32) act" where
  "allocate M len =
     bindA (callOne M ''easytier_buffer_alloc'' [ucast len]) (\<lambda>result.
     if result = 0 then failA (Errorf ''allocate %d guest bytes'' []) else returnA (ucast result))"

definition free :: "'g module \<Rightarrow> u32 \<Rightarrow> ('g, unit) act" where
  "free M pointer =
     bindA (callOne M ''easytier_buffer_free'' [ucast pointer]) (\<lambda>result.
     if (ucast result :: u32) \<noteq> 0 then failA (Errorf ''free guest buffer: status=%d'' []) else returnA ())"

text \<open>\<^verbatim>\<open>defer core.cleanupBuffer(ctx, pointer, &err)\<close> around the rest of a function.\<close>

definition cleanupBuffer :: "'g module \<Rightarrow> u32 \<Rightarrow> ('g, 'a) act \<Rightarrow> ('g, 'a) act" where
  "cleanupBuffer M pointer body s =
     (case body s of (result, s) \<Rightarrow>
        case free M pointer s of
          (Err cleanupErr, s) \<Rightarrow> ((case result of Ok _ \<Rightarrow> Err cleanupErr | _ \<Rightarrow> result), s)
        | (_, s) \<Rightarrow> (result, s))"

text \<open>The three buffers that grow, \<^verbatim>\<open>ensurePacketBuffer\<close> and its copies: each with the fields it keeps.\<close>

definition ensureBuffer ::
  "'g module \<Rightarrow> (Core \<Rightarrow> u32 \<times> u32) \<Rightarrow> (u32 \<Rightarrow> u32 \<Rightarrow> Core \<Rightarrow> Core) \<Rightarrow> string \<Rightarrow> u32 \<Rightarrow> ('g, u32) act" where
  "ensureBuffer M buffer store message len =
     bindA (getsA buffer) (\<lambda>(pointer, capacity).
     if len \<le> capacity then returnA pointer
     else
       bindA
         (if pointer \<noteq> 0
          then bindA (wrapA message (free M pointer)) (\<lambda>_. modifyA (store 0 0))
          else returnA ()) (\<lambda>_.
       bindA (allocate M len) (\<lambda>pointer.
       bindA (modifyA (store pointer len)) (\<lambda>_.
       returnA pointer))))"

definition ensurePacketBuffer :: "'g module \<Rightarrow> u32 \<Rightarrow> ('g, u32) act" where
  "ensurePacketBuffer M =
     ensureBuffer M (\<lambda>c. (core_packetBuffer c, core_packetBufferCapacity c))
       (\<lambda>p n c. c\<lparr>core_packetBuffer := p, core_packetBufferCapacity := n\<rparr>) ''grow EasyTier packet buffer: %w''"

definition ensureDataPlaneInput :: "'g module \<Rightarrow> u32 \<Rightarrow> ('g, u32) act" where
  "ensureDataPlaneInput M =
     ensureBuffer M (\<lambda>c. (core_dataPlaneInput c, core_dataPlaneInputSize c))
       (\<lambda>p n c. c\<lparr>core_dataPlaneInput := p, core_dataPlaneInputSize := n\<rparr>) ''grow EasyTier data plane input buffer: %w''"

definition ensureDataPlaneOutput :: "'g module \<Rightarrow> u32 \<Rightarrow> ('g, u32) act" where
  "ensureDataPlaneOutput M =
     ensureBuffer M (\<lambda>c. (core_dataPlaneOutput c, core_dataPlaneOutputSize c))
       (\<lambda>p n c. c\<lparr>core_dataPlaneOutput := p, core_dataPlaneOutputSize := n\<rparr>) ''grow EasyTier data plane output buffer: %w''"

definition ensureDataPlaneAddress :: "'g module \<Rightarrow> ('g, u32) act" where
  "ensureDataPlaneAddress M =
     bindA (getsA core_dataPlaneAddress) (\<lambda>address.
     if address \<noteq> 0 then returnA address
     else
       bindA (allocate M (of_nat socketAddressLength)) (\<lambda>pointer.
       bindA (modifyA (\<lambda>c. c\<lparr>core_dataPlaneAddress := pointer\<rparr>)) (\<lambda>_.
       returnA pointer)))"

section \<open>Errors of the guest\<close>

definition errorMessage :: "'g module \<Rightarrow> u64 \<Rightarrow> ('g, bytes) act" where
  "errorMessage M handle =
     bindA (callOne M ''easytier_instance_error_len'' [handle]) (\<lambda>len.
     if len = 0 then returnA (map (\<lambda>c. of_nat (of_char c)) ''<no core error>'')
     else
       bindA (allocate M (ucast len)) (\<lambda>pointer.
       cleanupBuffer M pointer
         (bindA (callOne M ''easytier_instance_error_copy'' [handle, ucast pointer, len]) (\<lambda>result.
          if sint (ucast result :: u32) < 0 then failA (Errorf ''copy EasyTier error: status=%d'' [])
          else readMemory M pointer (ucast len) ''read EasyTier error from guest memory''))))"

definition statusError :: "'g module \<Rightarrow> ('g, 'a) act" where
  "statusError M =
     bindA (getsA core_handle) (\<lambda>handle.
     bindA (wrapA ''%s: status=%d: %w'' (errorMessage M handle)) (\<lambda>message.
     failA (Errorf ''%s: status=%d: %s'' [])))"

definition callStatus :: "'g module \<Rightarrow> string \<Rightarrow> ('g, unit) act" where
  "callStatus M name =
     bindA (getsA (\<lambda>c. c)) (\<lambda>core.
     if core_dropped core \<or> core_handle core = 0 then failA (Errorf ''%s on unavailable EasyTier instance'' [])
     else
       bindA (callOne M name [core_handle core]) (\<lambda>result.
       if (ucast result :: u32) \<noteq> 0 then statusError M else returnA ()))"

section \<open>The life of an instance\<close>

definition Core_Create :: "'g module \<Rightarrow> bytes \<Rightarrow> u64 \<Rightarrow> u64 \<Rightarrow> ('g, unit) act" where
  "Core_Create M configEnvelope packetSink eventSink =
     bindA (getsA (\<lambda>c. core_handle c \<noteq> 0 \<or> core_dropped c)) (\<lambda>used.
     if used then failA (Errorf ''create EasyTier instance in used guest module'' [])
     else
       bindA (allocate M (of_nat (length configEnvelope))) (\<lambda>pointer.
       cleanupBuffer M pointer
         (bindA (writeMemory M pointer configEnvelope ''write EasyTier config to guest memory'') (\<lambda>_.
          bindA (callOne M ''easytier_instance_create''
                   [ucast pointer, of_nat (length configEnvelope), packetSink, eventSink]) (\<lambda>result.
          if result = 0 then
            bindA (wrapA ''create EasyTier instance: %w'' (errorMessage M 0)) (\<lambda>message.
            failA (Errorf ''create EasyTier instance: %s'' []))
          else modifyA (\<lambda>c. c\<lparr>core_handle := result\<rparr>))))))"

definition Core_Start :: "'g module \<Rightarrow> ('g, unit) act" where
  "Core_Start M = callStatus M ''easytier_instance_start''"

definition Core_Stop :: "'g module \<Rightarrow> ('g, unit) act" where
  "Core_Stop M = callStatus M ''easytier_instance_stop''"

definition Core_NotifyCompletions :: "'g module \<Rightarrow> ('g, unit) act" where
  "Core_NotifyCompletions M = callStatus M ''easytier_instance_notify_completions''"

text \<open>\<^verbatim>\<open>coreabi.State\<close> is an \<^verbatim>\<open>int32\<close>; a negative one is the status of an error.\<close>

definition StateCreated :: int where "StateCreated = 0"
definition StateStarting :: int where "StateStarting = 1"
definition StateRunning :: int where "StateRunning = 2"
definition StateStopping :: int where "StateStopping = 3"
definition StateStopped :: int where "StateStopped = 4"

lemmas coreStates = StateCreated_def StateStarting_def StateRunning_def StateStopping_def StateStopped_def

definition Core_Drive :: "'g module \<Rightarrow> ('g, int) act" where
  "Core_Drive M =
     bindA (getsA core_handle) (\<lambda>handle.
     bindA (callCached M ''easytier_instance_drive'' core_driveFunction (\<lambda>f c. c\<lparr>core_driveFunction := f\<rparr>) [handle]) (\<lambda>result.
     let state = sint (ucast result :: u32)
     in if state < 0 then statusError M else returnA state))"

definition Core_State :: "'g module \<Rightarrow> ('g, int) act" where
  "Core_State M =
     bindA (getsA core_handle) (\<lambda>handle.
     bindA (callOne M ''easytier_instance_state'' [handle]) (\<lambda>result.
     let state = sint (ucast result :: u32)
     in if state < 0 then statusError M else returnA state))"

definition Core_NextDeadline :: "'g module \<Rightarrow> ('g, int) act" where
  "Core_NextDeadline M =
     bindA (getsA core_handle) (\<lambda>handle.
     bindA (callCached M ''easytier_instance_next_deadline_millis'' core_deadlineFunction (\<lambda>f c. c\<lparr>core_deadlineFunction := f\<rparr>) [handle])
       (\<lambda>result.
     let deadline = sint result
     in if deadline < 0 then statusError M else returnA deadline))"

definition Core_SendPacket :: "'g module \<Rightarrow> bytes \<Rightarrow> ('g, unit) act" where
  "Core_SendPacket M packet =
     (if packet = [] then failA (Errorf ''send empty packet to EasyTier instance'' [])
      else
        bindA (ensurePacketBuffer M (of_nat (length packet))) (\<lambda>pointer.
        bindA (writeMemory M pointer packet ''write packet to guest memory'') (\<lambda>_.
        bindA (getsA core_handle) (\<lambda>handle.
        bindA (callOne M ''easytier_instance_send_packet'' [handle, ucast pointer, of_nat (length packet)]) (\<lambda>result.
        if (ucast result :: u32) \<noteq> 0 then statusError M else returnA ())))))"

text \<open>One block of \<^verbatim>\<open>Drop\<close>: free the buffer if there is one, forget it, and join the error.\<close>

definition releaseBuffer ::
  "'g module \<Rightarrow> (Core \<Rightarrow> u32) \<Rightarrow> (Core \<Rightarrow> Core) \<Rightarrow> string \<Rightarrow> goerror option \<Rightarrow> ('g, goerror option) act" where
  "releaseBuffer M buffer forget message releaseErr =
     bindA (getsA buffer) (\<lambda>pointer.
     if pointer \<noteq> 0 then
       bindA (tryA (free M pointer)) (\<lambda>err.
       bindA (modifyA forget) (\<lambda>_.
       returnA (case err of None \<Rightarrow> releaseErr | Some err \<Rightarrow> errors_Join [releaseErr, Some (Errorf message [err])])))
     else returnA releaseErr)"

definition Core_Drop :: "'g module \<Rightarrow> ('g, unit) act" where
  "Core_Drop M =
     bindA (getsA (\<lambda>c. core_dropped c \<or> core_handle c = 0)) (\<lambda>done.
     if done then returnA ()
     else
       bindA (callStatus M ''easytier_instance_drop'') (\<lambda>_.
       bindA (modifyA (\<lambda>c. c\<lparr>core_dropped := True, core_handle := 0\<rparr>)) (\<lambda>_.
       bindA (releaseBuffer M core_packetBuffer (\<lambda>c. c\<lparr>core_packetBuffer := 0, core_packetBufferCapacity := 0\<rparr>)
                ''release EasyTier packet buffer: %w'' None) (\<lambda>err.
       bindA (releaseBuffer M core_dataPlaneInput (\<lambda>c. c\<lparr>core_dataPlaneInput := 0, core_dataPlaneInputSize := 0\<rparr>)
                ''release EasyTier data plane input buffer: %w'' err) (\<lambda>err.
       bindA (releaseBuffer M core_dataPlaneAddress (\<lambda>c. c\<lparr>core_dataPlaneAddress := 0\<rparr>)
                ''release EasyTier data plane address buffer: %w'' err) (\<lambda>err.
       bindA (releaseBuffer M core_dataPlaneOutput (\<lambda>c. c\<lparr>core_dataPlaneOutput := 0, core_dataPlaneOutputSize := 0\<rparr>)
                ''release EasyTier data plane output buffer: %w'' err) (\<lambda>err.
       case err of None \<Rightarrow> returnA () | Some err \<Rightarrow> failA err)))))))"

end
