(* ===== verification/CoreData.thy ===== *)
theory CoreData
  imports CoreGuest
begin

text \<open>
  The data plane calls of the wrapper (internal/coreabi/dataplane.go): submitting operations to the guest, draining the
  completions it reports and taking the results, with the statuses of the guest turned into errors.
\<close>

definition DataPlaneABIVersion :: u64 where "DataPlaneABIVersion = 3"
definition DataPlaneCapability :: u64 where "DataPlaneCapability = 1"
definition DataPlaneTCPCapability :: u64 where "DataPlaneTCPCapability = 2"
definition DataPlaneUDPCapability :: u64 where "DataPlaneUDPCapability = 4"
definition DeadlineRead :: u32 where "DeadlineRead = 1"
definition DeadlineWrite :: u32 where "DeadlineWrite = 2"

definition requiredDataPlaneCapabilities :: u64 where
  "requiredDataPlaneCapabilities = DataPlaneCapability OR DataPlaneTCPCapability OR DataPlaneUDPCapability"

definition noAddress :: addr_port where "noAddress = AddrPort AddrInvalid 0"

record OperationResult =
  or_Kind :: OperationKind
  or_Resource :: ResourceID
  or_Local :: addr_port
  or_Peer :: addr_port
  or_Data :: bytes
  or_Length :: int
  or_EOF :: bool
  or_Truncated :: bool

definition emptyResult :: "OperationKind \<Rightarrow> OperationResult" where
  "emptyResult kind =
     \<lparr>or_Kind = kind, or_Resource = 0, or_Local = noAddress, or_Peer = noAddress, or_Data = [], or_Length = 0,
      or_EOF = False, or_Truncated = False\<rparr>"

definition validateDataPlaneABI :: "'g module \<Rightarrow> ('g, unit) act" where
  "validateDataPlaneABI M =
     bindA (callOne M ''easytier_data_plane_abi_version'' []) (\<lambda>version.
     if version \<noteq> DataPlaneABIVersion then failA (Errorf ''unsupported EasyTier data plane ABI version %d, want %d'' [])
     else
       bindA (callOne M ''easytier_data_plane_capabilities'' []) (\<lambda>capabilities.
       if requiredDataPlaneCapabilities AND NOT capabilities \<noteq> 0
       then failA (Errorf ''EasyTier data plane capabilities %#x are missing %#x'' [])
       else returnA ()))"

section \<open>Statuses\<close>

definition dataPlaneStatusError :: "'g module \<Rightarrow> int \<Rightarrow> ('g, 'a) act" where
  "dataPlaneStatusError M status =
     (if 0 \<le> status \<or> status < - uint ErrorBufferTooSmall then statusError M
      else
        bindA (getsA core_handle) (\<lambda>handle.
        \<lambda>s. case errorMessage M handle s of
          (Ok message, s) \<Rightarrow> failA (DataPlaneError (of_int (- status)) message) s
        | (Err err, s) \<Rightarrow>
            failA (JoinError [DataPlaneError (of_int (- status)) [], Errorf ''%s: %w'' [err]]) s
        | (Panic, s) \<Rightarrow> (Panic, s)))"

definition dataPlaneCallStatus :: "'g module \<Rightarrow> string \<Rightarrow> u64 list \<Rightarrow> ('g, unit) act" where
  "dataPlaneCallStatus M name params =
     bindA (getsA core_handle) (\<lambda>handle.
     bindA (callOne M name (handle # params)) (\<lambda>result.
     if (ucast result :: u32) \<noteq> 0 then dataPlaneStatusError M (sint (ucast result :: u32)) else returnA ()))"

definition core_CancelOperation :: "'g module \<Rightarrow> OperationID \<Rightarrow> ('g, unit) act" where
  "core_CancelOperation M operation = dataPlaneCallStatus M ''easytier_data_plane_operation_cancel'' [operation]"

definition core_FreeOperation :: "'g module \<Rightarrow> OperationID \<Rightarrow> ('g, unit) act" where
  "core_FreeOperation M operation = dataPlaneCallStatus M ''easytier_data_plane_operation_free'' [operation]"

definition core_CloseResource :: "'g module \<Rightarrow> ResourceID \<Rightarrow> ('g, unit) act" where
  "core_CloseResource M resource = dataPlaneCallStatus M ''easytier_data_plane_resource_close'' [resource]"

definition SetResourceDeadline :: "'g module \<Rightarrow> ResourceID \<Rightarrow> u32 \<Rightarrow> u64 \<Rightarrow> ('g, unit) act" where
  "SetResourceDeadline M resource direction timeoutMillis =
     bindA (getsA core_handle) (\<lambda>handle.
     bindA (callOne M ''easytier_data_plane_resource_deadline_set'' [handle, resource, ucast direction, timeoutMillis]) (\<lambda>result.
     if (ucast result :: u32) \<noteq> 0 then dataPlaneStatusError M (sint (ucast result :: u32)) else returnA ()))"

section \<open>Submitting\<close>

definition writeInput :: "'g module \<Rightarrow> bytes \<Rightarrow> ('g, u32) act" where
  "writeInput M data =
     (if length data = 0 then returnA 0
      else if length data > 2 ^ 32 - 1 then failA (Errorf ''guest input length %d exceeds wasm32'' [])
      else
        bindA (allocate M (of_nat (length data))) (\<lambda>pointer.
        \<lambda>s. case m_write M (snd s) pointer data of
          None \<Rightarrow>
            bindA (tryA (free M pointer)) (\<lambda>_. failA (Errorf ''write data plane input to guest memory'' [])) s
        | Some g \<Rightarrow> (Ok pointer, fst s, g)))"

definition submit :: "'g module \<Rightarrow> string \<Rightarrow> u64 list \<Rightarrow> ('g, OperationID) act" where
  "submit M name params =
     bindA (ensureDataPlaneOutput M (of_nat operationIDLength)) (\<lambda>pointer.
     bindA (getsA core_handle) (\<lambda>handle.
     bindA (callOne M name (handle # params @ [ucast pointer])) (\<lambda>result.
     if (ucast result :: u32) \<noteq> 0 then dataPlaneStatusError M (sint (ucast result :: u32))
     else
       bindA (readMemory M pointer (of_nat operationIDLength) ''read operation ID from guest memory'') (\<lambda>wire.
       bindA (liftA (Uint64 wire)) (\<lambda>operation.
       if operation = 0 then failA (Errorf ''%s returned zero operation ID'' []) else returnA operation)))))"

definition submitWithInput :: "'g module \<Rightarrow> string \<Rightarrow> bytes \<Rightarrow> u64 list \<Rightarrow> ('g, OperationID) act" where
  "submitWithInput M name input params =
     bindA (writeInput M input) (\<lambda>pointer.
     cleanupBuffer M pointer (submit M name (ucast pointer # params)))"

definition SubmitTCPConnect :: "'g module \<Rightarrow> addr_port \<Rightarrow> u64 \<Rightarrow> ('g, OperationID) act" where
  "SubmitTCPConnect M peer timeoutMillis =
     bindA (liftA (encodeSocketAddress_core peer)) (\<lambda>wire.
     submitWithInput M ''easytier_data_plane_tcp_connect_submit'' wire [timeoutMillis])"

definition SubmitTCPBind :: "'g module \<Rightarrow> u16 \<Rightarrow> u64 \<Rightarrow> ('g, OperationID) act" where
  "SubmitTCPBind M port timeoutMillis = submit M ''easytier_data_plane_tcp_bind_submit'' [ucast port, timeoutMillis]"

definition SubmitTCPAccept :: "'g module \<Rightarrow> ResourceID \<Rightarrow> u64 \<Rightarrow> ('g, OperationID) act" where
  "SubmitTCPAccept M listener timeoutMillis = submit M ''easytier_data_plane_tcp_accept_submit'' [listener, timeoutMillis]"

definition SubmitTCPRead :: "'g module \<Rightarrow> ResourceID \<Rightarrow> u32 \<Rightarrow> ('g, OperationID) act" where
  "SubmitTCPRead M stream maximum = submit M ''easytier_data_plane_tcp_read_submit'' [stream, ucast maximum]"

definition SubmitTCPWrite :: "'g module \<Rightarrow> ResourceID \<Rightarrow> bytes \<Rightarrow> ('g, OperationID) act" where
  "SubmitTCPWrite M stream data =
     (if length data > maxDataPlaneTransferBytes then failA (Errorf ''TCP write length %d exceeds data plane limit %d'' [])
      else
        bindA (writeInput M data) (\<lambda>pointer.
        let body = submit M ''easytier_data_plane_tcp_write_submit'' [stream, ucast pointer, of_nat (length data)]
        in if pointer \<noteq> 0 then cleanupBuffer M pointer body else body))"

definition SubmitUDPBind :: "'g module \<Rightarrow> u16 \<Rightarrow> u64 \<Rightarrow> ('g, OperationID) act" where
  "SubmitUDPBind M port timeoutMillis = submit M ''easytier_data_plane_udp_bind_submit'' [ucast port, timeoutMillis]"

definition SubmitUDPReceive :: "'g module \<Rightarrow> ResourceID \<Rightarrow> u32 \<Rightarrow> ('g, OperationID) act" where
  "SubmitUDPReceive M socket maximum = submit M ''easytier_data_plane_udp_receive_submit'' [socket, ucast maximum]"

definition SubmitUDPSend :: "'g module \<Rightarrow> ResourceID \<Rightarrow> addr_port \<Rightarrow> bytes \<Rightarrow> ('g, OperationID) act" where
  "SubmitUDPSend M socket peer data =
     (if length data > maxDataPlaneTransferBytes then failA (Errorf ''UDP send length %d exceeds data plane limit %d'' [])
      else
        bindA (liftA (encodeSocketAddress_core peer)) (\<lambda>address.
        bindA (ensureDataPlaneAddress M) (\<lambda>addressPointer.
        bindA (writeMemory M addressPointer address ''write UDP peer address to guest memory'') (\<lambda>_.
        bindA
          (if length data \<noteq> 0 then
             bindA (ensureDataPlaneInput M (of_nat (length data))) (\<lambda>dataPointer.
             bindA (writeMemory M dataPointer data ''write UDP payload to guest memory'') (\<lambda>_.
             returnA dataPointer))
           else returnA 0) (\<lambda>dataPointer.
        submit M ''easytier_data_plane_udp_send_submit''
          [socket, ucast addressPointer, ucast dataPointer, of_nat (length data)])))))"

section \<open>Draining completions\<close>

definition DrainCompletions :: "'g module \<Rightarrow> u32 \<Rightarrow> ('g, Completion list) act" where
  "DrainCompletions M maximum =
     (if maximum = 0 then returnA []
      else if uint maximum * int completionLength > 2 ^ 32 - 1
      then failA (Errorf ''completion batch %d exceeds guest address space'' [])
      else
        let len = maximum * of_nat completionLength in
        bindA (ensureDataPlaneOutput M len) (\<lambda>pointer.
        bindA (getsA core_handle) (\<lambda>handle.
        bindA (callCached M ''easytier_data_plane_completion_drain'' core_completionFunction
                 (\<lambda>f c. c\<lparr>core_completionFunction := f\<rparr>) [handle, ucast pointer, ucast maximum]) (\<lambda>result.
        let count = ucast result :: u32 in
        if sint count < 0 then dataPlaneStatusError M (sint count)
        else if maximum < count then failA (Errorf ''data plane drained %d completions into capacity %d'' [])
        else
          bindA (readMemory M pointer (count * of_nat completionLength) ''read data plane completions from guest memory'') (\<lambda>wire.
          liftA (decodeCompletions wire))))))"

section \<open>Taking results\<close>

definition takeFixedResult :: "'g module \<Rightarrow> Completion \<Rightarrow> string \<Rightarrow> u32 \<Rightarrow> ('g, bytes) act" where
  "takeFixedResult M completion name len =
     bindA (ensureDataPlaneOutput M len) (\<lambda>pointer.
     bindA (getsA core_handle) (\<lambda>handle.
     bindA (callOne M name [handle, cp_Operation completion, ucast pointer]) (\<lambda>result.
     if (ucast result :: u32) \<noteq> 0 then dataPlaneStatusError M (sint (ucast result :: u32))
     else readMemory M pointer len ''read %s from guest memory'')))"

definition takeStreamResult :: "'g module \<Rightarrow> Completion \<Rightarrow> ('g, ResourceID \<times> addr_port \<times> addr_port) act" where
  "takeStreamResult M completion =
     (let name = (if cp_Kind completion = OperationTCPAccept then ''easytier_data_plane_tcp_accept_result_take''
                  else ''easytier_data_plane_tcp_connect_result_take'')
      in bindA (takeFixedResult M completion name (of_nat streamResultLength)) (\<lambda>wire.
         liftA (decodeStreamResult wire)))"

definition takeBindResult :: "'g module \<Rightarrow> Completion \<Rightarrow> ('g, ResourceID \<times> addr_port) act" where
  "takeBindResult M completion =
     (let name = (if cp_Kind completion = OperationUDPBind then ''easytier_data_plane_udp_bind_result_take''
                  else ''easytier_data_plane_tcp_bind_result_take'')
      in bindA (takeFixedResult M completion name (of_nat bindResultLength)) (\<lambda>wire.
         liftA (decodeBindResult wire)))"

definition takeVariableResult :: "'g module \<Rightarrow> Completion \<Rightarrow> string \<Rightarrow> u32 \<Rightarrow> ('g, bytes \<times> bytes) act" where
  "takeVariableResult M completion name metadataLength =
     (let capacity = (if cp_Kind completion = OperationUDPReceive then 65535 else of_nat maxDataPlaneTransferBytes) :: u32 in
      bindA (ensureDataPlaneInput M capacity) (\<lambda>dataPointer.
      bindA (ensureDataPlaneOutput M metadataLength) (\<lambda>metadataPointer.
      bindA (getsA core_handle) (\<lambda>handle.
      bindA (callOne M name [handle, cp_Operation completion, ucast dataPointer, ucast capacity, ucast metadataPointer]) (\<lambda>result.
      let len = ucast result :: u32 in
      if sint len < 0 then dataPlaneStatusError M (sint len)
      else if capacity < len then failA (Errorf ''%s returned length %d into capacity %d'' [])
      else
        bindA (if len \<noteq> 0 then readMemory M dataPointer len ''read %s payload from guest memory'' else returnA []) (\<lambda>data.
        bindA (readMemory M metadataPointer metadataLength ''read %s metadata from guest memory'') (\<lambda>metadata.
        returnA (data, metadata))))))))"

definition takeTCPReadResult :: "'g module \<Rightarrow> Completion \<Rightarrow> ('g, bytes \<times> bool) act" where
  "takeTCPReadResult M completion =
     bindA (takeVariableResult M completion ''easytier_data_plane_tcp_read_result_take'' (of_nat tcpReadMetadataLength))
       (\<lambda>(data, metadata).
     bindA (liftA (index metadata 0)) (\<lambda>flag.
     if 1 < flag then failA (Errorf ''data plane returned invalid TCP EOF flag %d'' []) else returnA (data, flag = 1)))"

definition takeUDPReceiveResult :: "'g module \<Rightarrow> Completion \<Rightarrow> ('g, bytes \<times> addr_port \<times> bool) act" where
  "takeUDPReceiveResult M completion =
     bindA (takeVariableResult M completion ''easytier_data_plane_udp_receive_result_take'' (of_nat udpReceiveMetadataLength))
       (\<lambda>(data, metadata).
     bindA (liftA (obind (slice metadata 0 (int socketAddressLength)) decodeSocketAddress_core)) (\<lambda>peer.
     bindA (liftA (index metadata (int socketAddressLength))) (\<lambda>flag.
     if 1 < flag then failA (Errorf ''data plane returned invalid UDP truncation flag %d'' [])
     else returnA (data, peer, flag = 1))))"

definition takeLengthResult :: "'g module \<Rightarrow> Completion \<Rightarrow> string \<Rightarrow> ('g, int) act" where
  "takeLengthResult M completion name =
     bindA (getsA core_handle) (\<lambda>handle.
     bindA (callOne M name [handle, cp_Operation completion]) (\<lambda>result.
     let len = sint (ucast result :: u32)
     in if len < 0 then dataPlaneStatusError M len else returnA len))"

definition TakeResult :: "'g module \<Rightarrow> Completion \<Rightarrow> ('g, OperationResult) act" where
  "TakeResult M completion =
     (let kind = cp_Kind completion; result = emptyResult kind in
      if kind = OperationTCPConnect \<or> kind = OperationTCPAccept then
        bindA (takeStreamResult M completion) (\<lambda>(resource, local, peer).
        returnA (result\<lparr>or_Resource := resource, or_Local := local, or_Peer := peer\<rparr>))
      else if kind = OperationTCPBind \<or> kind = OperationUDPBind then
        bindA (takeBindResult M completion) (\<lambda>(resource, local).
        returnA (result\<lparr>or_Resource := resource, or_Local := local\<rparr>))
      else if kind = OperationTCPRead then
        bindA (takeTCPReadResult M completion) (\<lambda>(data, eof). returnA (result\<lparr>or_Data := data, or_EOF := eof\<rparr>))
      else if kind = OperationTCPWrite then
        bindA (takeLengthResult M completion ''easytier_data_plane_tcp_write_result_take'') (\<lambda>len.
        returnA (result\<lparr>or_Length := len\<rparr>))
      else if kind = OperationUDPReceive then
        bindA (takeUDPReceiveResult M completion) (\<lambda>(data, peer, truncated).
        returnA (result\<lparr>or_Data := data, or_Peer := peer, or_Truncated := truncated\<rparr>))
      else if kind = OperationUDPSend then
        bindA (takeLengthResult M completion ''easytier_data_plane_udp_send_result_take'') (\<lambda>len.
        returnA (result\<lparr>or_Length := len\<rparr>))
      else failA (Errorf ''take unknown data plane operation kind %d'' []))"

end
