(* ===== verification/CoreRpc.thy ===== *)
theory CoreRpc
  imports CoreData
begin

text \<open>
  The RPC calls of the wrapper (internal/coreabi/rpc.go), making a wrapper with its version checks (\<^verbatim>\<open>New\<close> of core.go), and
  the wrapper of the web client (internal/coreabi/web\_client.go).
\<close>

definition RPCABIVersion :: u64 where "RPCABIVersion = 2"
definition rpcStatusPending :: int where "rpcStatusPending = - 6"
definition maxRPCMessageBytes :: nat where "maxRPCMessageBytes = 16 * 1024 * 1024"
definition rpcOperationIDBytes :: nat where "rpcOperationIDBytes = 8"

type_synonym RPCOperationID = u64

definition validateRPCABI :: "'g module \<Rightarrow> ('g, unit) act" where
  "validateRPCABI M =
     bindA (callOne M ''easytier_rpc_abi_version'' []) (\<lambda>version.
     if version \<noteq> RPCABIVersion then failA (Errorf ''unsupported EasyTier RPC ABI version %d, want %d'' [])
     else returnA ())"

text \<open>\<^verbatim>\<open>New\<close> checks the versions with the wrapper it makes, from then on with its cache of functions.\<close>

definition Core_New :: "'g module \<Rightarrow> 'g \<Rightarrow> unit outcome \<times> Core \<times> 'g" where
  "Core_New M g =
     bindA (wrapA ''validate EasyTier data plane ABI: %w'' (validateDataPlaneABI M)) (\<lambda>_.
     wrapA ''validate EasyTier RPC ABI: %w'' (validateRPCABI M)) (emptyCore, g)"

definition SubmitRPC :: "'g module \<Rightarrow> bytes \<Rightarrow> ('g, RPCOperationID) act" where
  "SubmitRPC M encodedRequest =
     (if length encodedRequest = 0 then failA (Errorf ''submit empty RPC request'' [])
      else if length encodedRequest > maxRPCMessageBytes then failA (Errorf ''RPC request length %d exceeds limit %d'' [])
      else
        bindA (allocate M (of_nat (length encodedRequest))) (\<lambda>requestPointer.
        cleanupBuffer M requestPointer
          (bindA (writeMemory M requestPointer encodedRequest ''write RPC request to guest memory'') (\<lambda>_.
           bindA (allocate M (of_nat rpcOperationIDBytes)) (\<lambda>operationPointer.
           cleanupBuffer M operationPointer
             (bindA (getsA core_handle) (\<lambda>handle.
              bindA (callOne M ''easytier_rpc_request_submit''
                       [handle, ucast requestPointer, of_nat (length encodedRequest), ucast operationPointer]) (\<lambda>result.
              if (ucast result :: u32) \<noteq> 0 then statusError M
              else
                bindA (readMemory M operationPointer (of_nat rpcOperationIDBytes) ''read RPC operation ID from guest memory'') (\<lambda>wire.
                bindA (liftA (Uint64 wire)) (\<lambda>operation.
                if operation = 0 then failA (Errorf ''EasyTier RPC submit returned zero operation ID'' [])
                else returnA operation))))))))))"

text \<open>\<^verbatim>\<open>None\<close> stands for an answer that is not ready.\<close>

definition TakeRPCResponse :: "'g module \<Rightarrow> RPCOperationID \<Rightarrow> ('g, bytes option) act" where
  "TakeRPCResponse M operation =
     bindA (getsA core_handle) (\<lambda>handle.
     bindA (callOne M ''easytier_rpc_response_take'' [handle, operation, 0, 0]) (\<lambda>result.
     let required = ucast result :: u32 in
     if sint required = rpcStatusPending then returnA None
     else if sint required < 0 then statusError M
     else if sint required > int maxRPCMessageBytes then failA (Errorf ''RPC response length %d exceeds limit %d'' [])
     else
       let capacity = (if required = 0 then 1 else required) in
       bindA (allocate M capacity) (\<lambda>outputPointer.
       cleanupBuffer M outputPointer
         (bindA (callOne M ''easytier_rpc_response_take'' [handle, operation, ucast outputPointer, ucast capacity]) (\<lambda>result.
          let len = ucast result :: u32 in
          if sint len = rpcStatusPending then returnA None
          else if sint len < 0 then statusError M
          else if capacity < len then failA (Errorf ''RPC response grew from %d to %d bytes'' [])
          else if len = 0 then returnA (Some [])
          else
            bindA (readMemory M outputPointer len ''read RPC response from guest memory'') (\<lambda>wire.
            returnA (Some wire)))))))"

definition FreeRPCOperation :: "'g module \<Rightarrow> RPCOperationID \<Rightarrow> ('g, unit) act" where
  "FreeRPCOperation M operation =
     bindA (getsA core_handle) (\<lambda>handle.
     bindA (callOne M ''easytier_rpc_operation_free'' [handle, operation]) (\<lambda>result.
     if (ucast result :: u32) \<noteq> 0 then statusError M else returnA ()))"

section \<open>web\_client.go\<close>

text \<open>
  The web client holds a wrapper of its own, whose caches of the three functions it calls often are fields of its own; they
  are kept in the fields of the wrapper that the web client does not use. \<open>wc_created\<close> and \<open>wc_dropped\<close> are its two flags.
\<close>

record WebClientFlags =
  wc_created :: bool
  wc_dropped :: bool

type_synonym ('g, 'a) web_act = "WebClientFlags \<Rightarrow> Core \<times> 'g \<Rightarrow> 'a outcome \<times> WebClientFlags \<times> Core \<times> 'g"

definition web_statusError :: "'g module \<Rightarrow> ('g, 'a) act" where
  "web_statusError M =
     bindA (wrapA ''%s: status=%d: %w'' (errorMessage M 0)) (\<lambda>message.
     failA (Errorf ''%s: status=%d: %s'' []))"

definition WebClient_New :: "'g module \<Rightarrow> 'g \<Rightarrow> unit outcome \<times> WebClientFlags \<times> Core \<times> 'g" where
  "WebClient_New M g = (case Core_New M g of (r, s) \<Rightarrow> (r, \<lparr>wc_created = False, wc_dropped = False\<rparr>, s))"

text \<open>The flag is set before the deferred free runs, and stays set when that fails.\<close>

definition WebClient_Create :: "'g module \<Rightarrow> bytes \<Rightarrow> ('g, unit) web_act" where
  "WebClient_Create M envelope flags s =
     (if wc_created flags \<or> wc_dropped flags then (Err (Errorf ''create used EasyTier WebClient'' []), flags, s)
      else
        let body = (\<lambda>pointer.
              bindA (writeMemory M pointer envelope ''write EasyTier WebClient config to guest memory'') (\<lambda>_.
              bindA (callOne M ''easytier_web_client_create'' [ucast pointer, of_nat (length envelope)]) (\<lambda>result.
              if (ucast result :: u32) \<noteq> 0 then web_statusError M else returnA ())))
        in case allocate M (of_nat (length envelope)) s of
             (Ok pointer, s) \<Rightarrow>
               let created = (case body pointer s of (Ok _, _) \<Rightarrow> True | _ \<Rightarrow> False);
                   (r, s) = cleanupBuffer M pointer (body pointer) s
               in (r, flags\<lparr>wc_created := created\<rparr>, s)
           | (Err e, s) \<Rightarrow> (Err e, flags, s)
           | (Panic, s) \<Rightarrow> (Panic, flags, s))"

definition WebClient_Drive :: "'g module \<Rightarrow> ('g, unit) act" where
  "WebClient_Drive M =
     bindA (callCached M ''easytier_web_client_drive'' core_driveFunction (\<lambda>f c. c\<lparr>core_driveFunction := f\<rparr>) []) (\<lambda>result.
     if (ucast result :: u32) \<noteq> 0 then web_statusError M else returnA ())"

definition WebClient_NotifyCompletions :: "'g module \<Rightarrow> ('g, unit) act" where
  "WebClient_NotifyCompletions M =
     bindA (callCached M ''easytier_web_client_notify_completions'' core_completionFunction
              (\<lambda>f c. c\<lparr>core_completionFunction := f\<rparr>) []) (\<lambda>result.
     if (ucast result :: u32) \<noteq> 0 then web_statusError M else returnA ())"

definition WebClient_NextDeadline :: "'g module \<Rightarrow> ('g, int) act" where
  "WebClient_NextDeadline M =
     bindA (callCached M ''easytier_web_client_next_deadline_millis'' core_deadlineFunction
              (\<lambda>f c. c\<lparr>core_deadlineFunction := f\<rparr>) []) (\<lambda>result.
     let deadline = sint result
     in if deadline < 0 then web_statusError M else returnA deadline)"

definition WebClient_IsConnected :: "'g module \<Rightarrow> ('g, bool) act" where
  "WebClient_IsConnected M =
     bindA (callOne M ''easytier_web_client_is_connected'' []) (\<lambda>result.
     let status = sint (ucast result :: u32)
     in if status < 0 then web_statusError M else returnA (status \<noteq> 0))"

definition WebClient_Drop :: "'g module \<Rightarrow> ('g, unit) web_act" where
  "WebClient_Drop M flags s =
     (if \<not> wc_created flags \<or> wc_dropped flags then (Ok (), flags, s)
      else
        case bindA (callOne M ''easytier_web_client_drop'' []) (\<lambda>result.
               if (ucast result :: u32) \<noteq> 0 then web_statusError M else returnA ()) s of
          (Ok _, s) \<Rightarrow> (Ok (), flags\<lparr>wc_dropped := True\<rparr>, s)
        | (Err e, s) \<Rightarrow> (Err e, flags, s)
        | (Panic, s) \<Rightarrow> (Panic, flags, s))"

end
