(* ===== verification/CoreBuffers.thy ===== *)
theory CoreBuffers
  imports CoreRpc
begin

text \<open>
  The guest memory the wrapper uses: every buffer is allocated by the guest and has to be given back to it. The contract of
  the guest's allocator is a locale; the wrapper's calls are shown, inside it, to free every buffer exactly once, to write
  only into live buffers that are large enough, and to leave no buffer behind when the instance is dropped.
\<close>

section \<open>The contract of the guest's allocator\<close>

text \<open>
  \<open>live\<close> gives the sizes of the buffers that are allocated. A write inside a live buffer does not change it; nothing is
  said of other writes, nor of freeing what is not live.
\<close>

locale guest_allocator =
  fixes M :: "'g module" and live :: "'g \<Rightarrow> u32 \<Rightarrow> u32 option"
  assumes exported_free: "m_exported M ''easytier_buffer_free'' = Some (1, 1)"
    and alloc_new: "m_call M ''easytier_buffer_alloc'' [ucast n] g = ((None, p), g') \<Longrightarrow> p \<noteq> 0 \<Longrightarrow>
      p < 2 ^ 32 \<and> live g (ucast p) = None \<and> live g' = (live g)(ucast p \<mapsto> n)"
    and alloc_fails: "m_call M ''easytier_buffer_alloc'' [ucast n] g = ((err, p), g') \<Longrightarrow> err \<noteq> None \<or> p = 0 \<Longrightarrow> live g' = live g"
    and free_live: "live g q \<noteq> None \<Longrightarrow>
      \<exists>g'. m_call M ''easytier_buffer_free'' [ucast q] g = ((None, 0), g') \<and> live g' = (live g)(q := None)"
    and other_call: "name \<noteq> ''easytier_buffer_alloc'' \<Longrightarrow> name \<noteq> ''easytier_buffer_free'' \<Longrightarrow>
      live (snd (m_call M name params g)) = live g"
    and write_live: "m_write M g q xs = Some g' \<Longrightarrow> live g q = Some n \<Longrightarrow> length xs \<le> unat n \<Longrightarrow> live g' = live g"

section \<open>What a wrapper owns\<close>

definition ownedList :: "Core \<Rightarrow> (u32 \<times> u32) list" where
  "ownedList c =
     filter (\<lambda>(p, n). p \<noteq> 0)
       [(core_packetBuffer c, core_packetBufferCapacity c), (core_dataPlaneAddress c, of_nat socketAddressLength),
        (core_dataPlaneInput c, core_dataPlaneInputSize c), (core_dataPlaneOutput c, core_dataPlaneOutputSize c)]"

definition owned :: "Core \<Rightarrow> u32 \<Rightarrow> u32 option" where
  "owned c = map_of (ownedList c)"

definition ownedOk :: "Core \<Rightarrow> bool" where
  "ownedOk c \<longleftrightarrow> distinct (map fst (ownedList c)) \<and>
     (core_packetBuffer c = 0 \<longrightarrow> core_packetBufferCapacity c = 0) \<and>
     (core_dataPlaneInput c = 0 \<longrightarrow> core_dataPlaneInputSize c = 0) \<and>
     (core_dataPlaneOutput c = 0 \<longrightarrow> core_dataPlaneOutputSize c = 0)"

text \<open>The cache of functions agrees with the exports, and the three cached functions are not the allocator's.\<close>

definition cacheOk :: "'g module \<Rightarrow> Core \<Rightarrow> bool" where
  "cacheOk M c \<longleftrightarrow>
     (\<forall>name f. core_functions c name = Some f \<longrightarrow> gf_call f = name \<and> m_exported M name = Some (gf_parameterCount f, 1)) \<and>
     (\<forall>f \<in> {core_driveFunction c, core_deadlineFunction c, core_completionFunction c}.
        \<forall>f'. f = Some f' \<longrightarrow> gf_call f' \<noteq> ''easytier_buffer_alloc'' \<and> gf_call f' \<noteq> ''easytier_buffer_free'')"

definition buffersInv :: "'g module \<Rightarrow> ('g \<Rightarrow> u32 \<Rightarrow> u32 option) \<Rightarrow> (u32 \<Rightarrow> u32 option) \<Rightarrow> Core \<times> 'g \<Rightarrow> bool" where
  "buffersInv M live F s \<longleftrightarrow>
     cacheOk M (fst s) \<and> ownedOk (fst s) \<and> live (snd s) = F ++ owned (fst s) \<and> dom F \<inter> dom (owned (fst s)) = {}"

lemma ownedOk_sizes: "ownedOk c \<Longrightarrow> core_packetBuffer c = 0 \<Longrightarrow> core_packetBufferCapacity c = 0"
  "ownedOk c \<Longrightarrow> core_dataPlaneInput c = 0 \<Longrightarrow> core_dataPlaneInputSize c = 0"
  "ownedOk c \<Longrightarrow> core_dataPlaneOutput c = 0 \<Longrightarrow> core_dataPlaneOutputSize c = 0"
  by (simp_all add: ownedOk_def)

text \<open>
  The wrapper keeps its buffers in four slots. A slot is described by what it holds, how it is stored and the sizes that may be
  stored: emptying it takes its buffer away, and storing a new buffer in the empty slot adds it.
\<close>

definition slotOk :: "'g module \<Rightarrow> u32 set \<Rightarrow> (Core \<Rightarrow> u32 \<times> u32) \<Rightarrow> (u32 \<Rightarrow> u32 \<Rightarrow> Core \<Rightarrow> Core) \<Rightarrow> bool" where
  "slotOk M sizes buffer store \<longleftrightarrow>
     (\<forall>c. ownedOk c \<longrightarrow>
        (fst (buffer c) = 0 \<longrightarrow> snd (buffer c) = 0) \<and>
        (fst (buffer c) \<noteq> 0 \<longrightarrow>
           owned c (fst (buffer c)) = Some (snd (buffer c)) \<and>
           ownedOk (store 0 0 c) \<and> owned (store 0 0 c) = (owned c)(fst (buffer c) := None)) \<and>
        (\<forall>p n. fst (buffer c) = 0 \<longrightarrow> p \<noteq> 0 \<longrightarrow> n \<in> sizes \<longrightarrow> owned c p = None \<longrightarrow>
           ownedOk (store p n c) \<and> owned (store p n c) = (owned c)(p \<mapsto> n))) \<and>
     (\<forall>c p n. cacheOk M (store p n c) = cacheOk M c) \<and>
     (\<forall>c. fst (buffer (store 0 0 c)) = 0) \<and>
     (\<forall>c fs. buffer (c\<lparr>core_functions := fs\<rparr>) = buffer c)"

lemma slotOk_store:
  "slotOk M sizes buffer store \<Longrightarrow> ownedOk c \<Longrightarrow> fst (buffer c) = 0 \<Longrightarrow> p \<noteq> 0 \<Longrightarrow> n \<in> sizes \<Longrightarrow> owned c p = None \<Longrightarrow>
     ownedOk (store p n c) \<and> owned (store p n c) = (owned c)(p \<mapsto> n)"
  unfolding slotOk_def by blast

lemma slotOk_cache: "slotOk M sizes buffer store \<Longrightarrow> cacheOk M (store p n c) \<longleftrightarrow> cacheOk M c"
  unfolding slotOk_def by blast

lemma slot_packet:
  "slotOk M UNIV (\<lambda>c. (core_packetBuffer c, core_packetBufferCapacity c))
     (\<lambda>p n c. c\<lparr>core_packetBuffer := p, core_packetBufferCapacity := n\<rparr>)"
  by (auto simp: slotOk_def ownedOk_def owned_def ownedList_def cacheOk_def split: if_splits)

lemma slot_input:
  "slotOk M UNIV (\<lambda>c. (core_dataPlaneInput c, core_dataPlaneInputSize c))
     (\<lambda>p n c. c\<lparr>core_dataPlaneInput := p, core_dataPlaneInputSize := n\<rparr>)"
  by (auto simp: slotOk_def ownedOk_def owned_def ownedList_def cacheOk_def split: if_splits)

lemma slot_output:
  "slotOk M UNIV (\<lambda>c. (core_dataPlaneOutput c, core_dataPlaneOutputSize c))
     (\<lambda>p n c. c\<lparr>core_dataPlaneOutput := p, core_dataPlaneOutputSize := n\<rparr>)"
  by (auto simp: slotOk_def ownedOk_def owned_def ownedList_def cacheOk_def split: if_splits)

lemma slot_address:
  "slotOk M {of_nat socketAddressLength}
     (\<lambda>c. (core_dataPlaneAddress c, if core_dataPlaneAddress c = 0 then 0 else of_nat socketAddressLength))
     (\<lambda>p n c. c\<lparr>core_dataPlaneAddress := p\<rparr>)"
  by (auto simp: slotOk_def ownedOk_def owned_def ownedList_def cacheOk_def split: if_splits)

section \<open>Actions that keep the invariant\<close>

definition keeps :: "'g module \<Rightarrow> ('g \<Rightarrow> u32 \<Rightarrow> u32 option) \<Rightarrow> (u32 \<Rightarrow> u32 option) \<Rightarrow> ('g, 'a) act \<Rightarrow> bool" where
  "keeps M live F m \<longleftrightarrow> (\<forall>s. buffersInv M live F s \<longrightarrow> buffersInv M live F (snd (m s)))"

text \<open>An action that gives a pointer to a live buffer of at least the given size.\<close>

definition ensures :: "'g module \<Rightarrow> ('g \<Rightarrow> u32 \<Rightarrow> u32 option) \<Rightarrow> (u32 \<Rightarrow> u32 option) \<Rightarrow> u32 \<Rightarrow> ('g, u32) act \<Rightarrow> bool" where
  "ensures M live F len m \<longleftrightarrow>
     (\<forall>s r s'. buffersInv M live F s \<longrightarrow> m s = (r, s') \<longrightarrow>
        buffersInv M live F s' \<and> (\<forall>p. r = Ok p \<longrightarrow> 0 < len \<longrightarrow> (\<exists>n. live (snd s') p = Some n \<and> len \<le> n)))"

named_theorems keeps_rules

lemma keepsD: "keeps M live F m \<Longrightarrow> buffersInv M live F s \<Longrightarrow> m s = (r, s') \<Longrightarrow> buffersInv M live F s'"
  by (metis keeps_def snd_conv)

lemma keeps_snd: "keeps M live F m \<Longrightarrow> buffersInv M live F s \<Longrightarrow> buffersInv M live F (snd (m s))"
  by (cases s) (simp add: keeps_def)

lemma keeps_simple [keeps_rules]:
  "keeps M live F (returnA x)" "keeps M live F (failA e)" "keeps M live F (liftA y)" "keeps M live F (getsA f)"
  "keeps M live F (readMemory M p n message)"
  by (simp_all add: keeps_def returnA_def failA_def liftA_def getsA_def readMemory_def split: option.splits)

lemma keeps_bind [keeps_rules]:
  assumes "keeps M live F m" "\<And>x. keeps M live F (f x)"
  shows "keeps M live F (bindA m f)"
  unfolding keeps_def
proof (intro allI impI)
  fix s assume i: "buffersInv M live F s"
  obtain r s' where m: "m s = (r, s')" by (cases "m s")
  have "buffersInv M live F s'" using keepsD [OF assms(1) i m] .
  then show "buffersInv M live F (snd (bindA m f s))"
    using assms(2) unfolding keeps_def by (cases s'; cases r) (simp_all add: bindA_def m)
qed

lemma keeps_lift_bind:
  assumes "\<And>x. y = Ok x \<Longrightarrow> keeps M live F (f x)"
  shows "keeps M live F (bindA (liftA y) f)"
  using assms by (cases y) (simp_all add: keeps_def bindA_def liftA_def)

lemma snd_wrap [simp]: "snd (wrapA message m s) = snd (m s)"
  by (simp add: wrapA_def split: outcome.splits prod.splits)

lemma snd_try [simp]: "snd (tryA m s) = snd (m s)"
  by (simp add: tryA_def split: outcome.splits prod.splits)

lemma keeps_wrap [keeps_rules]: "keeps M live F m \<Longrightarrow> keeps M live F (wrapA message m)"
  by (simp add: keeps_def)

lemma keeps_try [keeps_rules]: "keeps M live F m \<Longrightarrow> keeps M live F (tryA m)"
  by (simp add: keeps_def)

lemma keeps_branch [keeps_rules]:
  "(b \<Longrightarrow> keeps M live F m1) \<Longrightarrow> (\<not> b \<Longrightarrow> keeps M live F m2) \<Longrightarrow> keeps M live F (if b then m1 else m2)"
  "(\<And>x y. keeps M live F (g x y)) \<Longrightarrow> keeps M live F (case z of (x, y) \<Rightarrow> g x y)"
  "keeps M live F m3 \<Longrightarrow> (\<And>v. keeps M live F (h v)) \<Longrightarrow> keeps M live F (case w of None \<Rightarrow> m3 | Some v \<Rightarrow> h v)"
  by (simp_all split: prod.splits option.splits)

lemma keeps_modify:
  assumes "\<And>c. ownedList (f c) = ownedList c" "\<And>c. ownedOk (f c) = ownedOk c" "\<And>c. cacheOk M c \<Longrightarrow> cacheOk M (f c)"
  shows "keeps M live F (modifyA f)"
  using assms by (simp add: keeps_def modifyA_def buffersInv_def owned_def)

lemma keeps_modify_fields [keeps_rules]:
  "keeps M live F (modifyA (\<lambda>c. c\<lparr>core_handle := h\<rparr>))"
  "keeps M live F (modifyA (\<lambda>c. c\<lparr>core_dropped := True, core_handle := 0\<rparr>))"
  by (rule keeps_modify; simp add: ownedList_def ownedOk_def cacheOk_def)+

lemma keeps_ensures_bind:
  assumes "ensures M live F len m" "\<And>p. keeps M live F (f p)"
  shows "keeps M live F (bindA m f)"
proof (rule keeps_bind)
  show "keeps M live F m" using assms(1) unfolding keeps_def ensures_def by (metis prod.collapse)
qed (rule assms(2))

text \<open>The wrapper with another cache of functions is the same to the invariant.\<close>

lemma owned_cache [simp]:
  "ownedList (c\<lparr>core_functions := fs\<rparr>) = ownedList c" "owned (c\<lparr>core_functions := fs\<rparr>) = owned c"
  "ownedOk (c\<lparr>core_functions := fs\<rparr>) = ownedOk c"
  by (simp_all add: ownedList_def owned_def ownedOk_def)

lemma resolveFunction_cases:
  assumes "cacheOk M c" "resolveFunction M name (c, g) = (r, s')"
  shows "\<exists>fs. s' = (c\<lparr>core_functions := fs\<rparr>, g) \<and> cacheOk M (c\<lparr>core_functions := fs\<rparr>) \<and>
    (\<forall>f. r = Ok f \<longrightarrow> gf_call f = name \<and> m_exported M name = Some (gf_parameterCount f, 1)) \<and>
    (m_exported M name = Some (n, 1) \<longrightarrow> r = Ok \<lparr>gf_call = name, gf_parameterCount = n\<rparr>)"
proof (cases "core_functions c name")
  case (Some f)
  have "s' = (c\<lparr>core_functions := core_functions c\<rparr>, g)" "r = Ok f"
    using assms(2) Some by (simp_all add: resolveFunction_def)
  moreover have "gf_call f = name" "m_exported M name = Some (gf_parameterCount f, 1)" using assms(1) Some by (auto simp: cacheOk_def)
  ultimately show ?thesis using assms(1) by (intro exI [of _ "core_functions c"]) (cases f, auto)
next
  case None
  show ?thesis
  proof (cases "\<exists>k. m_exported M name = Some (k, 1)")
    case True
    then obtain k where k: "m_exported M name = Some (k, 1)" by blast
    let ?f = "\<lparr>gf_call = name, gf_parameterCount = k\<rparr>"
    have "s' = (c\<lparr>core_functions := (core_functions c)(name \<mapsto> ?f)\<rparr>, g)" "r = Ok ?f"
      using assms(2) None k by (simp_all add: resolveFunction_def Let_def)
    then show ?thesis using assms(1) k by (intro exI [of _ "(core_functions c)(name \<mapsto> ?f)"]) (auto simp: cacheOk_def)
  next
    case False
    then have "s' = (c\<lparr>core_functions := core_functions c\<rparr>, g)" "\<forall>f. r \<noteq> Ok f"
      using assms(2) None by (auto simp: resolveFunction_def Let_def split: option.splits if_splits)
    then show ?thesis using assms(1) False by (intro exI [of _ "core_functions c"]) auto
  qed
qed

section \<open>The wrapper under the contract\<close>

lemma owned_update:
  "dom F \<inter> dom (owned c) = {} \<Longrightarrow> owned c p = None \<Longrightarrow> (F ++ owned c)(p \<mapsto> n) = F(p \<mapsto> n) ++ owned c"
  "owned c p = None \<Longrightarrow> (F ++ owned c)(p := None) = F(p := None) ++ owned c"
  "F p = None \<Longrightarrow> (F ++ owned c)(p \<mapsto> n) = F ++ (owned c)(p \<mapsto> n)"
  "F p = None \<Longrightarrow> (F ++ owned c)(p := None) = F ++ (owned c)(p := None)"
  by (auto simp: fun_eq_iff map_add_def split: option.splits)

lemma ucast_pointer: "p < 2 ^ 32 \<Longrightarrow> p \<noteq> (0 :: u64) \<Longrightarrow> (ucast p :: u32) \<noteq> 0"
proof
  assume a: "p < 2 ^ 32" "p \<noteq> 0" "(ucast p :: u32) = 0"
  have "uint (ucast p :: u32) = take_bit 32 (uint p)" by (simp add: unsigned_ucast_eq)
  moreover have "uint p < 2 ^ 32" using a(1) by (simp add: word_less_def)
  ultimately have "uint p = 0" using a(3) by (simp add: take_bit_int_eq_self)
  then show False using a(2) by (simp add: word_uint_eq_iff)
qed

context guest_allocator
begin

lemma callOne_call:
  assumes "cacheOk M c" "callOne M name params (c, g) = (r, s')"
  shows "\<exists>fs. cacheOk M (c\<lparr>core_functions := fs\<rparr>) \<and>
    (s' = (c\<lparr>core_functions := fs\<rparr>, g) \<and> (\<forall>x. r \<noteq> Ok x) \<or>
     (\<exists>err p g'. m_call M name params g = ((err, p), g') \<and> s' = (c\<lparr>core_functions := fs\<rparr>, g') \<and>
        r = (case err of None \<Rightarrow> Ok p | Some e \<Rightarrow> Err (Errorf ''%s: %w'' [e]))))"
proof -
  obtain rf s1 where f: "resolveFunction M name (c, g) = (rf, s1)" by (metis surj_pair)
  obtain fs where fs: "s1 = (c\<lparr>core_functions := fs\<rparr>, g)" "cacheOk M (c\<lparr>core_functions := fs\<rparr>)" "\<forall>f. rf = Ok f \<longrightarrow> gf_call f = name"
    using resolveFunction_cases [OF assms(1) f] by blast
  then show ?thesis
    using assms(2) f by (intro exI [of _ fs])
      (auto simp: callOne_def bindA_def callGuestFunction_def split: outcome.splits if_splits prod.splits option.splits)
qed

lemma callOne_other:
  assumes "cacheOk M c" "callOne M name params (c, g) = (r, s')" "name \<noteq> ''easytier_buffer_alloc''" "name \<noteq> ''easytier_buffer_free''"
  shows "\<exists>fs g'. s' = (c\<lparr>core_functions := fs\<rparr>, g') \<and> cacheOk M (c\<lparr>core_functions := fs\<rparr>) \<and> live g' = live g"
  using callOne_call [OF assms(1,2)] other_call [OF assms(3,4), of params g] by auto

lemma keeps_callOne [keeps_rules]:
  assumes "name \<noteq> ''easytier_buffer_alloc''" "name \<noteq> ''easytier_buffer_free''"
  shows "keeps M live F (callOne M name params)"
  unfolding keeps_def
proof (intro allI impI)
  fix s assume i: "buffersInv M live F s"
  obtain c g where s: "s = (c, g)" by (metis surj_pair)
  obtain r s' where e: "callOne M name params (c, g) = (r, s')" by (metis surj_pair)
  show "buffersInv M live F (snd (callOne M name params s))"
    using callOne_other [OF _ e assms] i by (auto simp: s e buffersInv_def)
qed

lemma allocate_live:
  assumes "cacheOk M c" "allocate M n (c, g) = (r, s')"
  shows "\<exists>fs g'. s' = (c\<lparr>core_functions := fs\<rparr>, g') \<and> cacheOk M (c\<lparr>core_functions := fs\<rparr>) \<and>
    (case r of Ok p \<Rightarrow> p \<noteq> 0 \<and> live g p = None \<and> live g' = (live g)(p \<mapsto> n) | _ \<Rightarrow> live g' = live g)"
proof -
  obtain rc s1 where c: "callOne M ''easytier_buffer_alloc'' [ucast n] (c, g) = (rc, s1)" by (metis surj_pair)
  obtain fs where fs: "cacheOk M (c\<lparr>core_functions := fs\<rparr>)" and
    h: "s1 = (c\<lparr>core_functions := fs\<rparr>, g) \<and> (\<forall>x. rc \<noteq> Ok x) \<or>
     (\<exists>err p g'. m_call M ''easytier_buffer_alloc'' [ucast n] g = ((err, p), g') \<and> s1 = (c\<lparr>core_functions := fs\<rparr>, g') \<and>
        rc = (case err of None \<Rightarrow> Ok p | Some e \<Rightarrow> Err (Errorf ''%s: %w'' [e])))"
    using callOne_call [OF assms(1) c] by blast
  from h show ?thesis
  proof (elim disjE exE conjE)
    fix err p g'
    assume m: "m_call M ''easytier_buffer_alloc'' [ucast n] g = ((err, p), g')" and s1: "s1 = (c\<lparr>core_functions := fs\<rparr>, g')"
      and rc: "rc = (case err of None \<Rightarrow> Ok p | Some e \<Rightarrow> Err (Errorf ''%s: %w'' [e]))"
    show ?thesis
    proof (cases "err = None \<and> p \<noteq> 0")
      case True
      then have "p < 2 ^ 32 \<and> live g (ucast p) = None \<and> live g' = (live g)(ucast p \<mapsto> n)" using alloc_new m by blast
      then show ?thesis
        using assms(2) True fs ucast_pointer [of p]
        by (auto simp: allocate_def bindA_def c rc s1 returnA_def intro!: exI [of _ fs])
    next
      case False
      then have "live g' = live g" using alloc_fails m by blast
      then show ?thesis
        using assms(2) False fs
        by (auto simp: allocate_def bindA_def c rc s1 failA_def intro!: exI [of _ fs] split: option.splits)
    qed
  qed (use assms(2) fs in \<open>cases rc; auto simp: allocate_def bindA_def c intro!: exI [of _ fs]\<close>)
qed

lemma free_owned:
  assumes "cacheOk M c" "live g p \<noteq> None"
  shows "\<exists>fs g'. free M p (c, g) = (Ok (), c\<lparr>core_functions := fs\<rparr>, g') \<and> cacheOk M (c\<lparr>core_functions := fs\<rparr>) \<and>
    live g' = (live g)(p := None)"
proof -
  obtain rf s1 where f: "resolveFunction M ''easytier_buffer_free'' (c, g) = (rf, s1)" by (metis surj_pair)
  obtain fs where fs: "s1 = (c\<lparr>core_functions := fs\<rparr>, g)" "cacheOk M (c\<lparr>core_functions := fs\<rparr>)"
    "rf = Ok \<lparr>gf_call = ''easytier_buffer_free'', gf_parameterCount = 1\<rparr>"
    using resolveFunction_cases [OF assms(1) f, of 1] exported_free by blast
  obtain g' where "m_call M ''easytier_buffer_free'' [ucast p] g = ((None, 0), g')" "live g' = (live g)(p := None)"
    using free_live [OF assms(2)] by blast
  then show ?thesis
    using fs by (intro exI [of _ fs] exI [of _ g']) (simp add: free_def callOne_def bindA_def f callGuestFunction_def returnA_def)
qed

text \<open>A buffer that is only borrowed: the frame has it from its allocation to its release.\<close>

lemma allocate_frame:
  assumes "buffersInv M live F s" "allocate M len s = (r, s')"
  shows "case r of Ok p \<Rightarrow> p \<noteq> 0 \<and> F p = None \<and> buffersInv M live (F(p \<mapsto> len)) s' | _ \<Rightarrow> buffersInv M live F s'"
proof -
  obtain c g where s: "s = (c, g)" by (metis surj_pair)
  have i: "cacheOk M c" "ownedOk c" "live g = F ++ owned c" "dom F \<inter> dom (owned c) = {}" using assms(1) by (simp_all add: buffersInv_def s)
  obtain fs g' where s': "s' = (c\<lparr>core_functions := fs\<rparr>, g')" "cacheOk M (c\<lparr>core_functions := fs\<rparr>)" and
    l: "case r of Ok p \<Rightarrow> p \<noteq> 0 \<and> live g p = None \<and> live g' = (live g)(p \<mapsto> len) | _ \<Rightarrow> live g' = live g"
    using allocate_live [OF i(1)] assms(2) s by blast
  show ?thesis
  proof (cases r)
    case (Ok p)
    then have "F p = None" "owned c p = None" using l i(3) by (auto simp: map_add_def split: option.splits)
    then show ?thesis using l Ok s' i owned_update(1) by (auto simp: buffersInv_def)
  qed (use l i s' in \<open>auto simp: buffersInv_def\<close>)
qed

lemma free_frame:
  assumes "buffersInv M live (F(p \<mapsto> n)) s" "F p = None"
  shows "\<exists>s'. free M p s = (Ok (), s') \<and> buffersInv M live F s'"
proof -
  obtain c g where s: "s = (c, g)" by (metis surj_pair)
  have i: "cacheOk M c" "ownedOk c" "live g = F(p \<mapsto> n) ++ owned c" "dom F \<inter> dom (owned c) = {}" "owned c p = None"
    using assms(1) by (auto simp: buffersInv_def s)
  then have "live g p \<noteq> None" by (simp add: map_add_def)
  then obtain fs g' where f: "free M p (c, g) = (Ok (), c\<lparr>core_functions := fs\<rparr>, g')" "cacheOk M (c\<lparr>core_functions := fs\<rparr>)"
    "live g' = (live g)(p := None)"
    using free_owned [OF i(1)] by blast
  have "live g' = F ++ owned c" using f(3) i(3,5) owned_update(2) [of c p "F(p \<mapsto> n)"] assms(2) by (simp add: fun_upd_idem)
  then show ?thesis using f i by (intro exI [of _ "(c\<lparr>core_functions := fs\<rparr>, g')"]) (simp add: s buffersInv_def)
qed

lemma cleanup_frame:
  assumes "buffersInv M live (F(p \<mapsto> n)) s" "F p = None" "keeps M live (F(p \<mapsto> n)) body"
  shows "buffersInv M live F (snd (cleanupBuffer M p body s))"
proof -
  obtain r s1 where b: "body s = (r, s1)" by (metis surj_pair)
  have "buffersInv M live (F(p \<mapsto> n)) s1" using keepsD [OF assms(3,1) b] .
  then obtain s2 where "free M p s1 = (Ok (), s2)" "buffersInv M live F s2" using free_frame assms(2) by blast
  then show ?thesis by (simp add: cleanupBuffer_def b)
qed

lemma keeps_buffer:
  assumes "\<And>p F'. F' p = Some len \<Longrightarrow> keeps M live F' (body p)"
  shows "keeps M live F (bindA (allocate M len) (\<lambda>p. cleanupBuffer M p (body p)))"
  unfolding keeps_def
proof (intro allI impI)
  fix s assume i: "buffersInv M live F s"
  obtain r s1 where a: "allocate M len s = (r, s1)" by (metis surj_pair)
  show "buffersInv M live F (snd (bindA (allocate M len) (\<lambda>p. cleanupBuffer M p (body p)) s))"
  proof (cases r)
    case (Ok p)
    then have "F p = None" "buffersInv M live (F(p \<mapsto> len)) s1" using allocate_frame [OF i a] by simp_all
    then show ?thesis using cleanup_frame assms [of "F(p \<mapsto> len)" p] by (cases s1) (simp add: bindA_def a Ok)
  qed (use allocate_frame [OF i a] in \<open>simp_all add: bindA_def a\<close>)
qed

lemma keeps_writeMemory:
  assumes "F p = Some n" "length data \<le> unat n"
  shows "keeps M live F (writeMemory M p data message)"
  unfolding keeps_def
proof (intro allI impI)
  fix s assume i: "buffersInv M live F s"
  have "live (snd s) p = Some n" using i assms(1) by (auto simp: buffersInv_def map_add_def split: option.splits)
  then show "buffersInv M live F (snd (writeMemory M p data message s))"
    using i write_live assms(2) by (auto simp: writeMemory_def buffersInv_def split: option.splits)
qed

lemma keeps_callCached [keeps_rules]:
  assumes "name \<noteq> ''easytier_buffer_alloc''" "name \<noteq> ''easytier_buffer_free''"
    and cached: "\<And>c. cached c \<in> {core_driveFunction c, core_deadlineFunction c, core_completionFunction c}"
    and store: "\<And>c f. ownedList (store f c) = ownedList c" "\<And>c f. ownedOk (store f c) = ownedOk c"
      "\<And>c f. cacheOk M c \<Longrightarrow> gf_call f \<noteq> ''easytier_buffer_alloc'' \<Longrightarrow> gf_call f \<noteq> ''easytier_buffer_free'' \<Longrightarrow>
        cacheOk M (store (Some f) c)"
  shows "keeps M live F (callCached M name cached store params)"
  unfolding keeps_def
proof (intro allI impI)
  fix s assume i: "buffersInv M live F s"
  obtain c g where s: "s = (c, g)" by (metis surj_pair)
  have call: "buffersInv M live F (snd (callGuestFunction M name f params (c', g)))"
    if "buffersInv M live F (c', g)" "gf_call f \<noteq> ''easytier_buffer_alloc''" "gf_call f \<noteq> ''easytier_buffer_free''" for f c'
    using that other_call [OF that(2,3), of params g]
    by (auto simp: callGuestFunction_def buffersInv_def split: if_splits prod.splits option.splits)
  show "buffersInv M live F (snd (callCached M name cached store params s))"
  proof (cases "cached c")
    case (Some f)
    then have "gf_call f \<noteq> ''easytier_buffer_alloc''" "gf_call f \<noteq> ''easytier_buffer_free''"
      using i cached [of c] by (auto simp: buffersInv_def s cacheOk_def)
    then show ?thesis using call i by (simp add: s callCached_def bindA_def getsA_def Some)
  next
    case None
    obtain rf s1 where f: "resolveFunction M name (c, g) = (rf, s1)" by (metis surj_pair)
    have c: "cacheOk M c" using i by (simp add: buffersInv_def s)
    obtain fs where fs: "s1 = (c\<lparr>core_functions := fs\<rparr>, g)" "cacheOk M (c\<lparr>core_functions := fs\<rparr>)" "\<forall>f. rf = Ok f \<longrightarrow> gf_call f = name"
      using resolveFunction_cases [OF c f] by blast
    have i1: "buffersInv M live F s1" using i fs by (auto simp: buffersInv_def s)
    show ?thesis
    proof (cases rf)
      case (Ok f')
      let ?c = "store (Some f') (c\<lparr>core_functions := fs\<rparr>)"
      have "gf_call f' = name" using fs(3) Ok by blast
      moreover have "buffersInv M live F (?c, g)"
        using i1 fs store(3) [OF fs(2), of f'] assms(1,2) \<open>gf_call f' = name\<close> by (auto simp: buffersInv_def owned_def store)
      ultimately show ?thesis
        using call [of ?c f'] assms(1,2) by (simp add: s callCached_def bindA_def getsA_def None f Ok fs(1) modifyA_def)
    qed (use i1 in \<open>simp_all add: s callCached_def bindA_def getsA_def None f\<close>)
  qed
qed

lemma ensures_ensureBuffer:
  assumes slot: "slotOk M sizes buffer store" and "len \<in> sizes"
  shows "ensures M live F len (ensureBuffer M buffer store message len)"
  unfolding ensures_def
proof (intro allI impI)
  fix s r s' assume i: "buffersInv M live F s" and e: "ensureBuffer M buffer store message len s = (r, s')"
  obtain c g where s: "s = (c, g)" by (metis surj_pair)
  obtain p0 n0 where b: "buffer c = (p0, n0)" by (metis surj_pair)
  have ok: "ownedOk c" "cacheOk M c" "live g = F ++ owned c" "dom F \<inter> dom (owned c) = {}" using i by (simp_all add: buffersInv_def s)
  show "buffersInv M live F s' \<and> (\<forall>p. r = Ok p \<longrightarrow> 0 < len \<longrightarrow> (\<exists>n. live (snd s') p = Some n \<and> len \<le> n))"
  proof (cases "len \<le> n0")
    case True
    have "p0 \<noteq> 0 \<Longrightarrow> live g p0 = Some n0" "p0 = 0 \<Longrightarrow> n0 = 0"
      using slot ok(1,3) b unfolding slotOk_def by (auto simp: map_add_def)
    moreover have "s' = (c, g)" "r = Ok p0"
      using e True by (simp_all add: ensureBuffer_def s bindA_def getsA_def b returnA_def)
    ultimately show ?thesis using i True s by (cases "p0 = 0") (auto dest: leD)
  next
    case False
    obtain r1 c1 g1 where prep: "(if p0 \<noteq> 0 then bindA (wrapA message (free M p0)) (\<lambda>_. modifyA (store 0 0)) else returnA ()) (c, g) = (r1, c1, g1)"
      by (metis surj_pair)
    have one: "buffersInv M live F (c1, g1) \<and> r1 = Ok () \<and> fst (buffer c1) = 0"
    proof (cases "p0 = 0")
      case True
      then show ?thesis using prep i b by (auto simp: returnA_def s)
    next
      case ne: False
      have o: "owned c p0 = Some n0" using slot ok(1) b ne unfolding slotOk_def by auto
      then have "live g p0 \<noteq> None" using ok(3) by (simp add: map_add_def)
      then obtain fs g2 where f: "free M p0 (c, g) = (Ok (), c\<lparr>core_functions := fs\<rparr>, g2)"
        "cacheOk M (c\<lparr>core_functions := fs\<rparr>)" "live g2 = (live g)(p0 := None)"
        using free_owned [OF ok(2)] by blast
      let ?c = "c\<lparr>core_functions := fs\<rparr>"
      have bc: "buffer ?c = (p0, n0)" using slot b by (simp add: slotOk_def)
      have st: "c1 = store 0 0 ?c" "g1 = g2" "r1 = Ok ()"
        using prep ne f(1) by (simp_all add: bindA_def wrapA_def modifyA_def)
      have "ownedOk (store 0 0 ?c)" "owned (store 0 0 ?c) = (owned c)(p0 := None)" "cacheOk M (store 0 0 ?c)" "fst (buffer (store 0 0 ?c)) = 0"
        using slot ok(1) f(2) bc ne unfolding slotOk_def by (metis fst_conv owned_cache(2,3))+
      moreover have "F p0 = None" using o ok(4) by blast
      ultimately show ?thesis using st f(3) ok(3,4) owned_update(4) [of F p0 c] by (auto simp: buffersInv_def)
    qed
    obtain r2 s2 where a: "allocate M len (c1, g1) = (r2, s2)" by (metis surj_pair)
    obtain fs g2 where s2: "s2 = (c1\<lparr>core_functions := fs\<rparr>, g2)" "cacheOk M (c1\<lparr>core_functions := fs\<rparr>)" and
      l: "case r2 of Ok p \<Rightarrow> p \<noteq> 0 \<and> live g1 p = None \<and> live g2 = (live g1)(p \<mapsto> len) | _ \<Rightarrow> live g2 = live g1"
      using allocate_live [OF _ a] one by (auto simp: buffersInv_def)
    have st: "ensureBuffer M buffer store message len s =
        bindA (allocate M len) (\<lambda>pointer. bindA (modifyA (store pointer len)) (\<lambda>_. returnA pointer)) (c1, g1)"
      using False prep one by (simp add: ensureBuffer_def s bindA_def getsA_def b)
    show ?thesis
    proof (cases r2)
      case (Ok p)
      let ?c = "c1\<lparr>core_functions := fs\<rparr>"
      have i1: "live g1 = F ++ owned c1" "ownedOk c1" "dom F \<inter> dom (owned c1) = {}" using one by (simp_all add: buffersInv_def)
      have p: "p \<noteq> 0" "F p = None" "owned c1 p = None" "live g2 = (live g1)(p \<mapsto> len)"
        using l Ok i1(1) by (auto simp: map_add_def split: option.splits)
      have "fst (buffer ?c) = 0" using slot one by (simp add: slotOk_def)
      then have "ownedOk (store p len ?c) \<and> owned (store p len ?c) = (owned ?c)(p \<mapsto> len)"
        using p(1,3) i1(2) assms(2) by (intro slotOk_store [OF slot]) simp_all
      then have "ownedOk (store p len ?c)" "owned (store p len ?c) = (owned c1)(p \<mapsto> len)" by simp_all
      moreover have "cacheOk M (store p len ?c)" using slotOk_cache [OF slot] s2(2) by blast
      moreover have "live g2 = F ++ (owned c1)(p \<mapsto> len)" unfolding p(4) i1(1) by (rule owned_update(3) [of F p c1 len, OF p(2)])
      moreover have "s' = (store p len ?c, g2)" "r = Ok p"
        using e st by (simp_all add: bindA_def a Ok s2(1) modifyA_def returnA_def)
      ultimately show ?thesis using p(2,4) i1(3) by (auto simp: buffersInv_def)
    qed (use e st l one s2 in \<open>auto simp: bindA_def a buffersInv_def\<close>)
  qed
qed

lemma ensures_packet: "ensures M live F len (ensurePacketBuffer M len)"
  unfolding ensurePacketBuffer_def by (rule ensures_ensureBuffer [OF slot_packet]) simp

lemma ensures_input: "ensures M live F len (ensureDataPlaneInput M len)"
  unfolding ensureDataPlaneInput_def by (rule ensures_ensureBuffer [OF slot_input]) simp

lemma ensures_output: "ensures M live F len (ensureDataPlaneOutput M len)"
  unfolding ensureDataPlaneOutput_def by (rule ensures_ensureBuffer [OF slot_output]) simp

text \<open>The address slot is the generic one with a fixed size.\<close>

lemma ensureDataPlaneAddress_eq:
  "ensureDataPlaneAddress M =
     ensureBuffer M (\<lambda>c. (core_dataPlaneAddress c, if core_dataPlaneAddress c = 0 then 0 else of_nat socketAddressLength))
       (\<lambda>p n c. c\<lparr>core_dataPlaneAddress := p\<rparr>) [] (of_nat socketAddressLength)"
proof (rule ext)
  fix s
  let ?buffer = "\<lambda>c. (core_dataPlaneAddress c, if core_dataPlaneAddress c = 0 then 0 else of_nat socketAddressLength)"
  have n: "\<not> of_nat socketAddressLength \<le> (0 :: u32)" by (simp add: socketAddressLength_def)
  show "ensureDataPlaneAddress M s =
    ensureBuffer M ?buffer (\<lambda>p n c. c\<lparr>core_dataPlaneAddress := p\<rparr>) [] (of_nat socketAddressLength) s"
  proof (cases "core_dataPlaneAddress (fst s) = 0")
    case True
    then show ?thesis
      unfolding ensureDataPlaneAddress_def ensureBuffer_def bindA_simps(1) prod.case using n by (simp only: bindA_simps simp_thms if_True if_False)
  next
    case False
    then show ?thesis
      unfolding ensureDataPlaneAddress_def ensureBuffer_def bindA_simps(1) prod.case by (simp only: bindA_simps simp_thms if_True if_False order_refl)
  qed
qed

lemma ensures_address: "ensures M live F (of_nat socketAddressLength) (ensureDataPlaneAddress M)"
  unfolding ensureDataPlaneAddress_eq by (rule ensures_ensureBuffer [OF slot_address]) simp

lemma keeps_ensures_write:
  assumes "ensures M live F len m" "data \<noteq> []" "length data \<le> unat len" "\<And>p. keeps M live F (f p)"
  shows "keeps M live F (bindA m (\<lambda>p. bindA (writeMemory M p data message) (\<lambda>_. f p)))"
  unfolding keeps_def
proof (intro allI impI)
  fix s assume i: "buffersInv M live F s"
  obtain r s1 where m: "m s = (r, s1)" by (metis surj_pair)
  have len: "0 < len" using assms(2,3) by (cases data) (auto simp: word_neq_0_conv [symmetric] intro: gr0I)
  have e: "buffersInv M live F s1" "\<forall>p. r = Ok p \<longrightarrow> (\<exists>n. live (snd s1) p = Some n \<and> len \<le> n)"
    using assms(1) i m len unfolding ensures_def by blast+
  show "buffersInv M live F (snd (bindA m (\<lambda>p. bindA (writeMemory M p data message) (\<lambda>_. f p)) s))"
  proof (cases r)
    case (Ok p)
    then obtain n where n: "live (snd s1) p = Some n" "len \<le> n" using e(2) by blast
    show ?thesis
    proof (cases "m_write M (snd s1) p data")
      case (Some g)
      have "length data \<le> unat n" using assms(3) n(2) by (simp add: word_le_nat_alt)
      then have "live g = live (snd s1)" using write_live [OF Some n(1)] by simp
      then have "buffersInv M live F (fst s1, g)" using e(1) by (simp add: buffersInv_def)
      then show ?thesis using assms(4) [of p] Some by (auto simp: keeps_def bindA_def m Ok writeMemory_def)
    qed (use e(1) in \<open>simp add: bindA_def m Ok writeMemory_def\<close>)
  qed (use e(1) in \<open>simp_all add: bindA_def m\<close>)
qed

text \<open>\<^verbatim>\<open>writeInput\<close> with the deferred free of its caller.\<close>

lemma keeps_writeInput:
  assumes "data \<noteq> []" "\<And>p F'. keeps M live F' (body p)" "\<And>p. p \<noteq> 0 \<Longrightarrow> f p = cleanupBuffer M p (body p)"
  shows "keeps M live F (bindA (writeInput M data) f)"
  unfolding keeps_def
proof (intro allI impI)
  fix s assume i: "buffersInv M live F s"
  let ?len = "of_nat (length data) :: u32" and ?m = "bindA (writeInput M data) f"
  show "buffersInv M live F (snd (?m s))"
  proof (cases "length data > 2 ^ 32 - 1")
    case True
    then show ?thesis using assms(1) i by (cases s) (simp add: writeInput_def bindA_def failA_def)
  next
    case False
    then have len: "unat ?len = length data" by (simp add: unsigned_of_nat take_bit_nat_eq_self)
    obtain r s1 where a: "allocate M ?len s = (r, s1)" by (metis surj_pair)
    show ?thesis
    proof (cases r)
      case (Ok p)
      then have p: "F p = None" "buffersInv M live (F(p \<mapsto> ?len)) s1" "f p = cleanupBuffer M p (body p)"
        using allocate_frame [OF i a] assms(3) by simp_all
      show ?thesis
      proof (cases "m_write M (snd s1) p data")
        case None
        obtain s2 where "free M p s1 = (Ok (), s2)" "buffersInv M live F s2" using free_frame p by blast
        then show ?thesis
          using False assms(1) None by (cases s1; cases s2) (simp add: writeInput_def bindA_def a Ok tryA_def failA_def)
      next
        case (Some g)
        have "live (snd s1) p = Some ?len" using p(2) by (auto simp: buffersInv_def map_add_def split: option.splits)
        then have "live g = live (snd s1)" using write_live [OF Some] len by simp
        then have "buffersInv M live (F(p \<mapsto> ?len)) (fst s1, g)" using p(2) by (simp add: buffersInv_def)
        then show ?thesis
          using False assms(1) Some p(3) cleanup_frame [of F p ?len "(fst s1, g)" "body p", OF _ p(1) assms(2)] by (simp add: writeInput_def bindA_def a Ok)
      qed
    qed (use allocate_frame [OF i a] False assms(1) in \<open>simp_all add: writeInput_def bindA_def a\<close>)
  qed
qed

lemma keeps_errorMessage [keeps_rules]: "keeps M live F (errorMessage M h)"
  unfolding errorMessage_def by (intro keeps_rules keeps_buffer) simp_all

lemma keeps_statusError [keeps_rules]: "keeps M live F (statusError M)"
  unfolding statusError_def by (intro keeps_rules)

lemma keeps_callStatus [keeps_rules]:
  "name \<noteq> ''easytier_buffer_alloc'' \<Longrightarrow> name \<noteq> ''easytier_buffer_free'' \<Longrightarrow> keeps M live F (callStatus M name)"
  unfolding callStatus_def by (intro keeps_rules)

lemma keeps_dataPlaneStatusError [keeps_rules]: "keeps M live F (dataPlaneStatusError M status)"
proof -
  have "keeps M live F (\<lambda>s. case errorMessage M h s of
          (Ok message, s) \<Rightarrow> failA (DataPlaneError (of_int (- status)) message) s
        | (Err err, s) \<Rightarrow> failA (JoinError [DataPlaneError (of_int (- status)) [], Errorf ''%s: %w'' [err]]) s
        | (Panic, s) \<Rightarrow> (Panic, s))" for h
  proof -
    have "snd (case errorMessage M h s of
          (Ok message, s) \<Rightarrow> failA (DataPlaneError (of_int (- status)) message) s
        | (Err err, s) \<Rightarrow> failA (JoinError [DataPlaneError (of_int (- status)) [], Errorf ''%s: %w'' [err]]) s
        | (Panic, s) \<Rightarrow> (Panic, s)) = snd (errorMessage M h s)" for s
      by (simp add: failA_def split: prod.splits outcome.splits)
    with keeps_errorMessage [of F h] show ?thesis unfolding keeps_def by metis
  qed
  then show ?thesis unfolding dataPlaneStatusError_def by (intro keeps_rules)
qed

lemma keeps_life [keeps_rules]:
  "keeps M live F (Core_Start M)" "keeps M live F (Core_Stop M)" "keeps M live F (Core_NotifyCompletions M)"
  unfolding Core_Start_def Core_Stop_def Core_NotifyCompletions_def by (intro keeps_callStatus; simp)+

lemma keeps_queries [keeps_rules]:
  "keeps M live F (Core_Drive M)" "keeps M live F (Core_State M)" "keeps M live F (Core_NextDeadline M)"
  unfolding Core_Drive_def Core_State_def Core_NextDeadline_def Let_def
  by (intro keeps_rules; simp add: ownedList_def ownedOk_def cacheOk_def)+

lemma keeps_Create:
  assumes "length envelope < 2 ^ 32" shows "keeps M live F (Core_Create M envelope packetSink eventSink)"
proof -
  have len: "unat (of_nat (length envelope) :: u32) = length envelope" using assms by (simp add: unsigned_of_nat take_bit_nat_eq_self)
  show ?thesis
    unfolding Core_Create_def by (rule keeps_buffer keeps_writeMemory keeps_rules | assumption | simp add: len)+
qed

lemma keeps_SendPacket:
  assumes "length packet < 2 ^ 32" shows "keeps M live F (Core_SendPacket M packet)"
proof -
  have len: "unat (of_nat (length packet) :: u32) = length packet" using assms by (simp add: unsigned_of_nat take_bit_nat_eq_self)
  show ?thesis
    unfolding Core_SendPacket_def by (rule keeps_ensures_write [OF ensures_packet] keeps_rules | assumption | simp add: len)+
qed

lemma keeps_submit [keeps_rules]:
  "name \<noteq> ''easytier_buffer_alloc'' \<Longrightarrow> name \<noteq> ''easytier_buffer_free'' \<Longrightarrow> keeps M live F (submit M name params)"
  unfolding submit_def by (intro keeps_ensures_bind [OF ensures_output] keeps_rules)

lemma keeps_simple_submits [keeps_rules]:
  "keeps M live F (SubmitTCPBind M port t)" "keeps M live F (SubmitTCPAccept M listener t)" "keeps M live F (SubmitTCPRead M r n)"
  "keeps M live F (SubmitUDPBind M port t)" "keeps M live F (SubmitUDPReceive M r n)"
  unfolding SubmitTCPBind_def SubmitTCPAccept_def SubmitTCPRead_def SubmitUDPBind_def SubmitUDPReceive_def
  by (intro keeps_rules; simp)+

lemma keeps_statuses [keeps_rules]:
  "keeps M live F (core_CancelOperation M op)" "keeps M live F (core_FreeOperation M op)" "keeps M live F (core_CloseResource M r)"
  "keeps M live F (SetResourceDeadline M r d t)"
  unfolding core_CancelOperation_def core_FreeOperation_def core_CloseResource_def SetResourceDeadline_def dataPlaneCallStatus_def
  by (intro keeps_rules; simp)+

lemma encodeSocketAddress_core_length: "encodeSocketAddress_core a = Ok wire \<Longrightarrow> length wire = socketAddressLength"
  using length_socketAddressWire by (auto simp: encodeSocketAddress_core_wire split: if_splits)

lemma keeps_SubmitTCPConnect [keeps_rules]: "keeps M live F (SubmitTCPConnect M peer t)"
  unfolding SubmitTCPConnect_def submitWithInput_def
proof (rule keeps_lift_bind)
  fix wire assume "encodeSocketAddress_core peer = Ok wire"
  from encodeSocketAddress_core_length [OF this] have ne: "wire \<noteq> []" by (auto simp: socketAddressLength_def)
  show "keeps M live F (bindA (writeInput M wire)
      (\<lambda>p. cleanupBuffer M p (submit M ''easytier_data_plane_tcp_connect_submit'' (ucast p # [t]))))"
    by (rule keeps_writeInput [OF ne _ refl]) (rule keeps_rules | simp)+
qed

lemma keeps_SubmitTCPWrite [keeps_rules]: "keeps M live F (SubmitTCPWrite M r data)"
proof (cases "data = []")
  case True
  have "keeps M live F (submit M ''easytier_data_plane_tcp_write_submit'' [r, 0, 0])" by (intro keeps_rules; simp)
  then show ?thesis using True by (simp add: SubmitTCPWrite_def writeInput_def maxDataPlaneTransferBytes_def)
next
  case False
  show ?thesis unfolding SubmitTCPWrite_def Let_def
    by (rule keeps_writeInput [OF False, where body = "\<lambda>p. submit M ''easytier_data_plane_tcp_write_submit'' [r, ucast p, of_nat (length data)]"]
        keeps_rules | simp)+
qed

lemma keeps_SubmitUDPSend [keeps_rules]: "keeps M live F (SubmitUDPSend M r peer data)"
proof -
  have len: "unat (of_nat (length data) :: u32) = length data" if "length data \<le> maxDataPlaneTransferBytes"
    using that by (simp add: unsigned_of_nat take_bit_nat_eq_self maxDataPlaneTransferBytes_def)
  have a: "keeps M live F (bindA (ensureDataPlaneInput M (of_nat (length data))) (\<lambda>p.
      bindA (writeMemory M p data ''write UDP payload to guest memory'') (\<lambda>_. returnA p)))"
    if "length data \<le> maxDataPlaneTransferBytes" "length data \<noteq> 0"
    using that len by (intro keeps_ensures_write [OF ensures_input] keeps_rules) auto
  have b: "address \<noteq> []" "length address \<le> unat (of_nat socketAddressLength :: u32)"
    if "encodeSocketAddress_core peer = Ok address" for address
    using encodeSocketAddress_core_length [OF that] by (auto simp: socketAddressLength_def)
  show ?thesis unfolding SubmitUDPSend_def
    by (rule keeps_lift_bind keeps_ensures_write [OF ensures_address] a keeps_rules | erule b | simp)+
qed

lemma keeps_takes [keeps_rules]:
  "keeps M live F (takeFixedResult M completion name len)"
  "keeps M live F (takeLengthResult M completion name)"
  "keeps M live F (takeVariableResult M completion name n)"
  if "name \<noteq> ''easytier_buffer_alloc''" "name \<noteq> ''easytier_buffer_free''"
  unfolding takeFixedResult_def takeLengthResult_def takeVariableResult_def Let_def
  by (rule that keeps_ensures_bind [OF ensures_output] keeps_ensures_bind [OF ensures_input] keeps_rules | assumption)+

lemma keeps_TakeResult [keeps_rules]: "keeps M live F (TakeResult M completion)"
  unfolding TakeResult_def takeStreamResult_def takeBindResult_def takeTCPReadResult_def takeUDPReceiveResult_def Let_def
  by (rule keeps_rules | simp)+

lemma keeps_DrainCompletions [keeps_rules]: "keeps M live F (DrainCompletions M maximum)"
  unfolding DrainCompletions_def Let_def
  by (rule keeps_ensures_bind [OF ensures_output] keeps_rules | simp add: ownedList_def ownedOk_def cacheOk_def)+

lemma keeps_rpc:
  "keeps M live F (SubmitRPC M request)" "keeps M live F (TakeRPCResponse M operation)" "keeps M live F (FreeRPCOperation M operation)"
proof -
  have len: "length request \<le> maxRPCMessageBytes \<Longrightarrow> unat (of_nat (length request) :: u32) = length request"
    by (simp add: unsigned_of_nat take_bit_nat_eq_self maxRPCMessageBytes_def)
  show "keeps M live F (SubmitRPC M request)"
    unfolding SubmitRPC_def by (rule keeps_buffer keeps_writeMemory keeps_rules | assumption | simp add: len)+
  show "keeps M live F (TakeRPCResponse M operation)"
    unfolding TakeRPCResponse_def Let_def by (rule keeps_buffer keeps_rules | simp)+
  show "keeps M live F (FreeRPCOperation M operation)"
    unfolding FreeRPCOperation_def by (rule keeps_rules | simp)+
qed

text \<open>Dropping the instance gives every slot back.\<close>

lemma releaseBuffer_slot:
  assumes slot: "slotOk M sizes buffer store" and i: "buffersInv M live F s"
  shows "\<exists>s'. releaseBuffer M (\<lambda>c. fst (buffer c)) (store 0 0) message err s = (Ok err, s') \<and> buffersInv M live F s' \<and>
    (\<exists>fs. fst s' = store 0 0 ((fst s)\<lparr>core_functions := fs\<rparr>) \<or> fst s' = fst s \<and> fst (buffer (fst s)) = 0)"
proof -
  obtain c g where s: "s = (c, g)" by (metis surj_pair)
  obtain p n where b: "buffer c = (p, n)" by (metis surj_pair)
  have ok: "ownedOk c" "cacheOk M c" "live g = F ++ owned c" "dom F \<inter> dom (owned c) = {}" using i by (simp_all add: buffersInv_def s)
  show ?thesis
  proof (cases "p = 0")
    case True
    then show ?thesis using i b by (simp add: releaseBuffer_def s returnA_def)
  next
    case False
    have o: "owned c p = Some n" using slot ok(1) b False unfolding slotOk_def by auto
    then have "live g p \<noteq> None" using ok(3) by (simp add: map_add_def)
    then obtain fs g' where f: "free M p (c, g) = (Ok (), c\<lparr>core_functions := fs\<rparr>, g')"
      "cacheOk M (c\<lparr>core_functions := fs\<rparr>)" "live g' = (live g)(p := None)"
      using free_owned [OF ok(2)] by blast
    let ?c = "c\<lparr>core_functions := fs\<rparr>"
    have bc: "buffer ?c = (p, n)" using slot b by (simp add: slotOk_def)
    have "ownedOk (store 0 0 ?c)" "owned (store 0 0 ?c) = (owned c)(p := None)" "cacheOk M (store 0 0 ?c)"
      using slot ok(1) f(2) bc False unfolding slotOk_def by (metis fst_conv owned_cache(2,3))+
    moreover have "F p = None" using o ok(4) by blast
    ultimately have "buffersInv M live F (store 0 0 ?c, g')"
      using f(3) ok(3,4) owned_update(4) [of F p c] by (auto simp: buffersInv_def)
    moreover have "releaseBuffer M (\<lambda>c. fst (buffer c)) (store 0 0) message err s = (Ok err, store 0 0 ?c, g')"
      using f(1) False b by (simp add: releaseBuffer_def s bindA_def getsA_def tryA_def modifyA_def returnA_def)
    ultimately show ?thesis by (auto simp: s)
  qed
qed

lemma Drop_releases:
  assumes i: "buffersInv M live F s"
  shows "buffersInv M live F (snd (Core_Drop M s)) \<and>
    (fst (Core_Drop M s) = Ok () \<longrightarrow> \<not> core_dropped (fst s) \<longrightarrow> core_handle (fst s) \<noteq> 0 \<longrightarrow> live (snd (snd (Core_Drop M s))) = F)"
proof (cases "core_dropped (fst s) \<or> core_handle (fst s) = 0")
  case True
  then show ?thesis using i by (auto simp: Core_Drop_def returnA_def)
next
  case False
  obtain r s1 where c: "callStatus M ''easytier_instance_drop'' s = (r, s1)" by (metis surj_pair)
  have i1: "buffersInv M live F s1" by (rule keepsD [OF keeps_callStatus i c]) simp_all
  show ?thesis
  proof (cases r)
    case (Ok u)
    obtain c2 g2 where s1: "s1 = (c2, g2)" by (metis surj_pair)
    let ?s2 = "((fst s1)\<lparr>core_dropped := True, core_handle := 0\<rparr>, snd s1)"
    have "buffersInv M live F ?s2"
      using keepsD [OF keeps_modify_fields(2) i1, of "Ok ()" ?s2] by (simp add: modifyA_def)
    from releaseBuffer_slot [OF slot_packet this, of "''release EasyTier packet buffer: %w''" None]
    obtain s3 where r3: "releaseBuffer M core_packetBuffer (\<lambda>c. c\<lparr>core_packetBuffer := 0, core_packetBufferCapacity := 0\<rparr>)
        ''release EasyTier packet buffer: %w'' None ?s2 = (Ok None, s3)" and i3: "buffersInv M live F s3" and z3: "core_packetBuffer (fst s3) = 0"
      by auto
    from releaseBuffer_slot [OF slot_input i3, of "''release EasyTier data plane input buffer: %w''" None]
    obtain s4 where r4: "releaseBuffer M core_dataPlaneInput (\<lambda>c. c\<lparr>core_dataPlaneInput := 0, core_dataPlaneInputSize := 0\<rparr>)
        ''release EasyTier data plane input buffer: %w'' None s3 = (Ok None, s4)" and i4: "buffersInv M live F s4"
      and z4: "core_packetBuffer (fst s4) = 0" "core_dataPlaneInput (fst s4) = 0"
      using z3 by auto
    from releaseBuffer_slot [OF slot_address i4, of "''release EasyTier data plane address buffer: %w''" None]
    obtain s5 where r5: "releaseBuffer M core_dataPlaneAddress (\<lambda>c. c\<lparr>core_dataPlaneAddress := 0\<rparr>)
        ''release EasyTier data plane address buffer: %w'' None s4 = (Ok None, s5)" and i5: "buffersInv M live F s5"
      and z5: "core_packetBuffer (fst s5) = 0" "core_dataPlaneInput (fst s5) = 0" "core_dataPlaneAddress (fst s5) = 0"
      using z4 by auto
    from releaseBuffer_slot [OF slot_output i5, of "''release EasyTier data plane output buffer: %w''" None]
    obtain s6 where r6: "releaseBuffer M core_dataPlaneOutput (\<lambda>c. c\<lparr>core_dataPlaneOutput := 0, core_dataPlaneOutputSize := 0\<rparr>)
        ''release EasyTier data plane output buffer: %w'' None s5 = (Ok None, s6)" and i6: "buffersInv M live F s6"
      and z6: "core_packetBuffer (fst s6) = 0" "core_dataPlaneInput (fst s6) = 0" "core_dataPlaneAddress (fst s6) = 0" "core_dataPlaneOutput (fst s6) = 0"
      using z5 by auto
    have "Core_Drop M s = (Ok (), s6)"
      using False c Ok r3 r4 r5 r6
      by (cases s3; cases s4; cases s5; cases s6) (simp add: Core_Drop_def bindA_def [of "callStatus M name" for name]
          bindA_def [of "modifyA f" for f] bindA_def [of "releaseBuffer M b f m e" for b f m e] s1 modifyA_def returnA_def)
    moreover have "owned (fst s6) = Map.empty" using z6 by (simp add: owned_def ownedList_def)
    ultimately show ?thesis using i6 by (simp add: buffersInv_def)
  qed (use False c i1 in \<open>simp_all add: Core_Drop_def bindA_def [of "callStatus M name" for name]\<close>)
qed

lemma keeps_Drop: "keeps M live F (Core_Drop M)"
  using Drop_releases by (simp add: keeps_def)

end

end
