(* ===== verification/CoreSafety.thy ===== *)
theory CoreSafety
  imports CoreBuffers
begin

text \<open>
  Every use the engine can make of a wrapper, as a step relation; a guest that keeps the allocator's contract; and the
  properties: no buffer of the guest is leaked or freed twice, and dropping an instance gives all of them back.
\<close>

section \<open>Every use of a wrapper\<close>

text \<open>
  The calls the engine makes on a wrapper, in any order and any number. Configurations and packets are shorter than
  4 GiB, so that their length fits the 32-bit length the guest is told.
\<close>

inductive coreCall :: "'g module \<Rightarrow> Core \<times> 'g \<Rightarrow> Core \<times> 'g \<Rightarrow> bool" for M s where
  coreCall_Create: "length envelope < 2 ^ 32 \<Longrightarrow> coreCall M s (snd (Core_Create M envelope packetSink eventSink s))"
| coreCall_Start: "coreCall M s (snd (Core_Start M s))"
| coreCall_Stop: "coreCall M s (snd (Core_Stop M s))"
| coreCall_Drive: "coreCall M s (snd (Core_Drive M s))"
| coreCall_NotifyCompletions: "coreCall M s (snd (Core_NotifyCompletions M s))"
| coreCall_State: "coreCall M s (snd (Core_State M s))"
| coreCall_NextDeadline: "coreCall M s (snd (Core_NextDeadline M s))"
| coreCall_SendPacket: "length packet < 2 ^ 32 \<Longrightarrow> coreCall M s (snd (Core_SendPacket M packet s))"
| coreCall_Drop: "coreCall M s (snd (Core_Drop M s))"
| coreCall_TCPConnect: "coreCall M s (snd (SubmitTCPConnect M peer timeout s))"
| coreCall_TCPBind: "coreCall M s (snd (SubmitTCPBind M port timeout s))"
| coreCall_TCPAccept: "coreCall M s (snd (SubmitTCPAccept M resource timeout s))"
| coreCall_TCPRead: "coreCall M s (snd (SubmitTCPRead M resource maximum s))"
| coreCall_TCPWrite: "coreCall M s (snd (SubmitTCPWrite M resource data s))"
| coreCall_UDPBind: "coreCall M s (snd (SubmitUDPBind M port timeout s))"
| coreCall_UDPReceive: "coreCall M s (snd (SubmitUDPReceive M resource maximum s))"
| coreCall_UDPSend: "coreCall M s (snd (SubmitUDPSend M resource peer data s))"
| coreCall_Deadline: "coreCall M s (snd (SetResourceDeadline M resource direction timeout s))"
| coreCall_Drain: "coreCall M s (snd (DrainCompletions M maximum s))"
| coreCall_TakeResult: "coreCall M s (snd (TakeResult M completion s))"
| coreCall_Cancel: "coreCall M s (snd (core_CancelOperation M operation s))"
| coreCall_Free: "coreCall M s (snd (core_FreeOperation M operation s))"
| coreCall_Close: "coreCall M s (snd (core_CloseResource M resource s))"
| coreCall_SubmitRPC: "coreCall M s (snd (SubmitRPC M request s))"
| coreCall_TakeRPC: "coreCall M s (snd (TakeRPCResponse M operation s))"
| coreCall_FreeRPC: "coreCall M s (snd (FreeRPCOperation M operation s))"

context guest_allocator
begin

lemma coreCall_keeps: "coreCall M s s' \<Longrightarrow> buffersInv M live F s \<Longrightarrow> buffersInv M live F s'"
  by (induction rule: coreCall.induct)
    (erule keeps_snd [rotated], rule keeps_Create keeps_SendPacket keeps_rpc keeps_Drop keeps_life keeps_queries keeps_SubmitTCPConnect
      keeps_simple_submits keeps_SubmitTCPWrite keeps_SubmitUDPSend keeps_statuses keeps_DrainCompletions keeps_TakeResult, assumption?)+

lemma coreCalls_keep: "rtranclp (coreCall M) s s' \<Longrightarrow> buffersInv M live F s \<Longrightarrow> buffersInv M live F s'"
  by (induction rule: rtranclp_induct) (auto intro: coreCall_keeps)

lemma New_buffers: "Core_New M g = (r, s) \<Longrightarrow> buffersInv M live (live g) s"
proof -
  assume n: "Core_New M g = (r, s)"
  have k: "keeps M live (live g) (bindA (wrapA m1 (validateDataPlaneABI M)) (\<lambda>_. wrapA m2 (validateRPCABI M)))" for m1 m2
    unfolding validateDataPlaneABI_def validateRPCABI_def by (rule keeps_rules | simp)+
  have "owned emptyCore = Map.empty" by (simp add: owned_def ownedList_def emptyCore_def)
  then have "buffersInv M live (live g) (emptyCore, g)"
    by (simp add: buffersInv_def) (simp add: cacheOk_def ownedOk_def ownedList_def emptyCore_def)
  from keepsD [OF k this n [unfolded Core_New_def]] show ?thesis .
qed

end

section \<open>A guest that keeps the contract\<close>

text \<open>
  A guest whose allocator never gives the same buffer twice: its state is the next buffer and the table of the live ones. It
  answers the version checks as the wrapper wants, makes an instance with handle 1 and accepts everything else.
\<close>

type_synonym demoGuest = "u32 \<times> (u32 \<Rightarrow> u32 option)"

definition demoAnswers :: "(string \<times> nat \<times> u64) list" where
  "demoAnswers =
     [(''easytier_data_plane_abi_version'', 0, 3), (''easytier_data_plane_capabilities'', 0, 7),
      (''easytier_rpc_abi_version'', 0, 2), (''easytier_instance_create'', 4, 1),
      (''easytier_instance_send_packet'', 3, 0), (''easytier_instance_drop'', 1, 0)]"

definition demoCall :: "string \<Rightarrow> u64 list \<Rightarrow> demoGuest \<Rightarrow> (goerror option \<times> u64) \<times> demoGuest" where
  "demoCall name params g =
     (if name = ''easytier_buffer_alloc'' then
        if fst g = 0 \<or> snd g (fst g) \<noteq> None then ((None, 0), g)
        else ((None, ucast (fst g)), (fst g + 1, (snd g)(fst g \<mapsto> ucast (hd params))))
      else if name = ''easytier_buffer_free'' then
        if snd g (ucast (hd params)) = None then ((None, 1), g)
        else ((None, 0), (fst g, (snd g)(ucast (hd params) := None)))
      else ((None, case map_of demoAnswers name of Some (_, answer) \<Rightarrow> answer | None \<Rightarrow> 0), g))"

definition demoModule :: "demoGuest module" where
  "demoModule =
     \<lparr>m_exported = (\<lambda>name. if name = ''easytier_buffer_alloc'' \<or> name = ''easytier_buffer_free'' then Some (1, 1)
                    else map_option (\<lambda>(params, _). (params, 1)) (map_of demoAnswers name)),
      m_call = demoCall, m_read = (\<lambda>g p n. Some (replicate (unat n) 0)), m_write = (\<lambda>g p xs. Some g)\<rparr>"

lemma ucast_ucast_32: "ucast (ucast (n :: u32) :: u64) = n"
  by (rule bit_word_eqI) (simp add: bit_simps)

lemma ucast_32_less: "(ucast (n :: u32) :: u64) < 2 ^ 32"
proof -
  have "uint n < 2 ^ 32" using uint_lt2p [of n] by simp
  then have "uint (ucast n :: u64) = uint n" by (simp add: unsigned_ucast_eq take_bit_int_eq_self)
  with \<open>uint n < 2 ^ 32\<close> show ?thesis by (simp add: word_less_def)
qed

lemma ucast_32_zero: "(ucast (n :: u32) :: u64) = 0 \<longleftrightarrow> n = 0"
  by (metis ucast_ucast_32 unsigned_0)

interpretation demo: guest_allocator demoModule snd
  by unfold_locales
    (use ucast_32_less in \<open>auto simp: demoModule_def demoCall_def ucast_ucast_32 ucast_32_zero split: if_splits\<close>)

section \<open>The properties\<close>

text \<open>
  C28: whatever the engine calls on a wrapper, the live buffers of the guest are those that were live before the wrapper was
  made and the (at most four) buffers the wrapper holds: none is leaked, and none the guest may give to others is used.
\<close>

theorem buffers_are_accounted:
  assumes "guest_allocator M live" "Core_New M g = (Ok (), s)" "rtranclp (coreCall M) s s'"
  shows "live (snd s') = live g ++ owned (fst s') \<and> dom (live g) \<inter> dom (owned (fst s')) = {} \<and>
    distinct (map fst (ownedList (fst s')))"
  using guest_allocator.coreCalls_keep [OF assms(1,3) guest_allocator.New_buffers [OF assms(1,2)]]
  by (simp add: buffersInv_def ownedOk_def)

text \<open>
  C29: when the drop of a running instance succeeds, exactly the buffers that were live before the wrapper was made are left.
\<close>

theorem drop_frees_every_buffer:
  assumes "guest_allocator M live" "Core_New M g = (Ok (), s)" "rtranclp (coreCall M) s s'"
    and "core_handle (fst s') \<noteq> 0" "\<not> core_dropped (fst s')" "Core_Drop M s' = (Ok (), s'')"
  shows "live (snd s'') = live g"
  using guest_allocator.Drop_releases [OF assms(1) guest_allocator.coreCalls_keep [OF assms(1,3) guest_allocator.New_buffers [OF assms(1,2)]]]
    assms(4-6) by simp

text \<open>A run of it: the wrapper is made, creates the instance, sends a packet and drops the instance.\<close>

lemma callOne_Ok:
  assumes "cacheOk M c" "m_exported M name = Some (length params, 1)" "m_call M name params g = ((None, r), g')"
  shows "\<exists>fs. callOne M name params (c, g) = (Ok r, c\<lparr>core_functions := fs\<rparr>, g') \<and> cacheOk M (c\<lparr>core_functions := fs\<rparr>)"
proof -
  obtain rf s1 where f: "resolveFunction M name (c, g) = (rf, s1)" by (metis surj_pair)
  obtain fs where "s1 = (c\<lparr>core_functions := fs\<rparr>, g)" "cacheOk M (c\<lparr>core_functions := fs\<rparr>)"
    "rf = Ok \<lparr>gf_call = name, gf_parameterCount = length params\<rparr>"
    using resolveFunction_cases [OF assms(1) f, of "length params"] assms(2) by blast
  then show ?thesis using assms(3) by (intro exI [of _ fs]) (simp add: callOne_def bindA_def f callGuestFunction_def)
qed

lemma demo_exported:
  "m_exported demoModule ''easytier_buffer_alloc'' = Some (1, 1)" "m_exported demoModule ''easytier_buffer_free'' = Some (1, 1)"
  "m_exported demoModule ''easytier_data_plane_abi_version'' = Some (0, 1)"
  "m_exported demoModule ''easytier_data_plane_capabilities'' = Some (0, 1)"
  "m_exported demoModule ''easytier_rpc_abi_version'' = Some (0, 1)"
  "m_exported demoModule ''easytier_instance_create'' = Some (4, 1)"
  "m_exported demoModule ''easytier_instance_send_packet'' = Some (3, 1)"
  "m_exported demoModule ''easytier_instance_drop'' = Some (1, 1)"
  by (simp_all add: demoModule_def demoAnswers_def)

lemma demo_answers:
  "m_call demoModule ''easytier_data_plane_abi_version'' params g = ((None, 3), g)"
  "m_call demoModule ''easytier_data_plane_capabilities'' params g = ((None, 7), g)"
  "m_call demoModule ''easytier_rpc_abi_version'' params g = ((None, 2), g)"
  "m_call demoModule ''easytier_instance_create'' params g = ((None, 1), g)"
  "m_call demoModule ''easytier_instance_send_packet'' params g = ((None, 0), g)"
  "m_call demoModule ''easytier_instance_drop'' params g = ((None, 0), g)"
  by (simp_all add: demoModule_def demoCall_def demoAnswers_def)

lemma demo_Core_New:
  "\<exists>fs. Core_New demoModule g = (Ok (), emptyCore\<lparr>core_functions := fs\<rparr>, g) \<and> cacheOk demoModule (emptyCore\<lparr>core_functions := fs\<rparr>)"
proof -
  have "cacheOk demoModule emptyCore" by (simp add: cacheOk_def emptyCore_def)
  from callOne_Ok [OF this, of "''easytier_data_plane_abi_version''" "[]" g] demo_exported demo_answers
  obtain f1 where c1: "callOne demoModule ''easytier_data_plane_abi_version'' [] (emptyCore, g) = (Ok 3, emptyCore\<lparr>core_functions := f1\<rparr>, g)"
    and k1: "cacheOk demoModule (emptyCore\<lparr>core_functions := f1\<rparr>)" by auto
  from callOne_Ok [OF k1, of "''easytier_data_plane_capabilities''" "[]" g] demo_exported demo_answers
  obtain f2 where c2: "callOne demoModule ''easytier_data_plane_capabilities'' [] (emptyCore\<lparr>core_functions := f1\<rparr>, g) = (Ok 7, emptyCore\<lparr>core_functions := f2\<rparr>, g)"
    and k2: "cacheOk demoModule (emptyCore\<lparr>core_functions := f2\<rparr>)" by auto
  from callOne_Ok [OF k2, of "''easytier_rpc_abi_version''" "[]" g] demo_exported demo_answers
  obtain f3 where c3: "callOne demoModule ''easytier_rpc_abi_version'' [] (emptyCore\<lparr>core_functions := f2\<rparr>, g) = (Ok 2, emptyCore\<lparr>core_functions := f3\<rparr>, g)"
    and k3: "cacheOk demoModule (emptyCore\<lparr>core_functions := f3\<rparr>)" by auto
  have "validateDataPlaneABI demoModule (emptyCore, g) = (Ok (), emptyCore\<lparr>core_functions := f2\<rparr>, g)"
    by (simp add: validateDataPlaneABI_def bindA_def c1 c2 DataPlaneABIVersion_def requiredDataPlaneCapabilities_def
        DataPlaneCapability_def DataPlaneTCPCapability_def DataPlaneUDPCapability_def returnA_def)
  moreover have "validateRPCABI demoModule (emptyCore\<lparr>core_functions := f2\<rparr>, g) = (Ok (), emptyCore\<lparr>core_functions := f3\<rparr>, g)"
    by (simp add: validateRPCABI_def bindA_def c3 RPCABIVersion_def returnA_def)
  ultimately show ?thesis using k3 by (intro exI [of _ f3]) (simp add: Core_New_def bindA_def wrapA_def)
qed

lemma demo_allocate:
  assumes "cacheOk demoModule c" "p \<noteq> 0" "L p = None"
  shows "\<exists>fs. allocate demoModule n (c, p, L) = (Ok p, c\<lparr>core_functions := fs\<rparr>, p + 1, L(p \<mapsto> n)) \<and> cacheOk demoModule (c\<lparr>core_functions := fs\<rparr>)"
proof -
  have "m_call demoModule ''easytier_buffer_alloc'' [ucast n] (p, L) = ((None, ucast p), (p + 1, L(p \<mapsto> n)))"
    using assms(2,3) by (simp add: demoModule_def demoCall_def ucast_ucast_32)
  from callOne_Ok [OF assms(1) _ this] demo_exported(1) show ?thesis
    using assms(2) by (auto simp: allocate_def bindA_def returnA_def ucast_ucast_32 ucast_32_zero)
qed

lemma demo_Create:
  assumes "cacheOk demoModule c" "core_handle c = 0" "\<not> core_dropped c" "p \<noteq> 0" "L p = None"
  shows "\<exists>fs. Core_Create demoModule [1] 1 2 (c, p, L) = (Ok (), c\<lparr>core_functions := fs, core_handle := 1\<rparr>, p + 1, L) \<and>
    cacheOk demoModule (c\<lparr>core_functions := fs\<rparr>)"
proof -
  obtain f1 where a: "allocate demoModule 1 (c, p, L) = (Ok p, c\<lparr>core_functions := f1\<rparr>, p + 1, L(p \<mapsto> 1))" "cacheOk demoModule (c\<lparr>core_functions := f1\<rparr>)"
    using demo_allocate [of c p L 1, OF assms(1,4,5)] by blast
  from callOne_Ok [OF a(2), of "''easytier_instance_create''" "[ucast p, 1, 1, 2]" "(p + 1, L(p \<mapsto> 1))"] demo_exported demo_answers
  obtain f2 where c2: "callOne demoModule ''easytier_instance_create'' [ucast p, 1, 1, 2] (c\<lparr>core_functions := f1\<rparr>, p + 1, L(p \<mapsto> 1)) =
      (Ok 1, c\<lparr>core_functions := f2\<rparr>, p + 1, L(p \<mapsto> 1))" and k2: "cacheOk demoModule (c\<lparr>core_functions := f2\<rparr>)" by auto
  have k3: "cacheOk demoModule (c\<lparr>core_functions := f2, core_handle := 1\<rparr>)" using k2 by (simp add: cacheOk_def)
  have "m_call demoModule ''easytier_buffer_free'' [ucast p] (p + 1, L(p \<mapsto> 1)) = ((None, 0), (p + 1, L))"
    using assms(5) by (auto simp: demoModule_def demoCall_def ucast_ucast_32)
  moreover have swap: "c\<lparr>core_handle := 1, core_functions := f\<rparr> = c\<lparr>core_functions := f, core_handle := 1\<rparr>" for f by (cases c) simp
  ultimately obtain f3 where c3: "callOne demoModule ''easytier_buffer_free'' [ucast p] (c\<lparr>core_functions := f2, core_handle := 1\<rparr>, p + 1, L(p \<mapsto> 1)) =
      (Ok 0, c\<lparr>core_functions := f3, core_handle := 1\<rparr>, p + 1, L)" and k3: "cacheOk demoModule (c\<lparr>core_functions := f3, core_handle := 1\<rparr>)"
    using callOne_Ok [OF k3, of "''easytier_buffer_free''" "[ucast p]" "(p + 1, L(p \<mapsto> 1))" 0 "(p + 1, L)"] demo_exported(2)
    by (auto simp: swap)
  have "m_write demoModule g q xs = Some g" for g q xs by (simp add: demoModule_def)
  then show ?thesis
    using assms(2,3) a(1) c2 c3 k3
    by (intro exI [of _ f3]) (simp add: Core_Create_def bindA_def getsA_def writeMemory_def modifyA_def cleanupBuffer_def free_def returnA_def cacheOk_def)
qed

lemma demo_SendPacket:
  assumes "cacheOk demoModule c" "core_packetBuffer c = 0" "core_packetBufferCapacity c = 0" "p \<noteq> 0" "L p = None"
  shows "\<exists>fs. Core_SendPacket demoModule [1, 2] (c, p, L) =
    (Ok (), c\<lparr>core_functions := fs, core_packetBuffer := p, core_packetBufferCapacity := 2\<rparr>, p + 1, L(p \<mapsto> 2))"
proof -
  obtain f1 where a: "allocate demoModule 2 (c, p, L) = (Ok p, c\<lparr>core_functions := f1\<rparr>, p + 1, L(p \<mapsto> 2))" "cacheOk demoModule (c\<lparr>core_functions := f1\<rparr>)"
    using demo_allocate [of c p L 2, OF assms(1,4,5)] by blast
  let ?c = "c\<lparr>core_functions := f1, core_packetBuffer := p, core_packetBufferCapacity := 2\<rparr>"
  have k: "cacheOk demoModule ?c" using a(2) by (simp add: cacheOk_def)
  from callOne_Ok [OF k, of "''easytier_instance_send_packet''" "[core_handle c, ucast p, 2]" "(p + 1, L(p \<mapsto> 2))"] demo_exported demo_answers
  obtain f2 where c2: "callOne demoModule ''easytier_instance_send_packet'' [core_handle c, ucast p, 2] (?c, p + 1, L(p \<mapsto> 2)) =
      (Ok 0, ?c\<lparr>core_functions := f2\<rparr>, p + 1, L(p \<mapsto> 2))" by auto
  have "m_write demoModule g q xs = Some g" for g q xs by (simp add: demoModule_def)
  then show ?thesis
    using assms(2,3) a(1) c2
    by (intro exI [of _ f2]) (simp add: Core_SendPacket_def ensurePacketBuffer_def ensureBuffer_def bindA_def getsA_def writeMemory_def modifyA_def returnA_def)
qed

text \<open>The demo guest has a buffer of another instance, of 7 bytes at 3.\<close>

theorem buffers_are_accounted_witness:
  "\<exists>s s'. Core_New demoModule (5, [3 \<mapsto> 7]) = (Ok (), s) \<and> rtranclp (coreCall demoModule) s s' \<and>
     snd (snd s') = [3 \<mapsto> 7] ++ owned (fst s') \<and> owned (fst s') = [6 \<mapsto> 2]"
proof -
  obtain f0 where n: "Core_New demoModule (5, [3 \<mapsto> 7]) = (Ok (), emptyCore\<lparr>core_functions := f0\<rparr>, (5, [3 \<mapsto> 7]))"
    and k0: "cacheOk demoModule (emptyCore\<lparr>core_functions := f0\<rparr>)" using demo_Core_New by blast
  let ?c0 = "emptyCore\<lparr>core_functions := f0\<rparr>"
  obtain f1 where c: "Core_Create demoModule [1] 1 2 (?c0, 5, [3 \<mapsto> 7]) = (Ok (), ?c0\<lparr>core_functions := f1, core_handle := 1\<rparr>, 6, [3 \<mapsto> 7])"
    and k1: "cacheOk demoModule (?c0\<lparr>core_functions := f1\<rparr>)"
    using demo_Create [OF k0, of 5 "[3 \<mapsto> 7]"] by (auto simp: emptyCore_def)
  let ?c1 = "?c0\<lparr>core_functions := f1, core_handle := 1\<rparr>"
  have "cacheOk demoModule ?c1" using k1 by (simp add: cacheOk_def)
  then obtain f2 where p: "Core_SendPacket demoModule [1, 2] (?c1, 6, [3 \<mapsto> 7]) =
      (Ok (), ?c1\<lparr>core_functions := f2, core_packetBuffer := 6, core_packetBufferCapacity := 2\<rparr>, 7, [3 \<mapsto> 7, 6 \<mapsto> 2])"
    using demo_SendPacket [of ?c1 6 "[3 \<mapsto> 7]"] by (auto simp: emptyCore_def)
  let ?s = "(?c0, (5, [3 \<mapsto> 7])) :: Core \<times> demoGuest"
  have "coreCall demoModule ?s (snd (Core_Create demoModule [1] 1 2 ?s))" by (rule coreCall_Create) simp
  moreover have "coreCall demoModule (?c1, 6, [3 \<mapsto> 7]) (snd (Core_SendPacket demoModule [1, 2] (?c1, 6, [3 \<mapsto> 7])))"
    by (rule coreCall_SendPacket) simp
  ultimately have r: "rtranclp (coreCall demoModule) ?s
      (?c1\<lparr>core_functions := f2, core_packetBuffer := 6, core_packetBufferCapacity := 2\<rparr>, 7, [3 \<mapsto> 7, 6 \<mapsto> 2])"
    using c p by (metis (no_types, lifting) r_into_rtranclp rtranclp.rtrancl_into_rtrancl snd_conv)
  have "owned (?c1\<lparr>core_functions := f2, core_packetBuffer := 6, core_packetBufferCapacity := 2\<rparr>) = [6 \<mapsto> 2]"
    by (simp add: owned_def ownedList_def emptyCore_def)
  then show ?thesis
    using n r buffers_are_accounted [OF demo.guest_allocator_axioms n r] by (metis fst_conv snd_conv)
qed

theorem drop_frees_every_buffer_witness:
  "\<exists>s s' s''. Core_New demoModule (5, [3 \<mapsto> 7]) = (Ok (), s) \<and> rtranclp (coreCall demoModule) s s' \<and> core_handle (fst s') = 1 \<and>
     Core_Drop demoModule s' = (Ok (), s'') \<and> snd (snd s'') = [3 \<mapsto> 7]"
proof -
  obtain f0 where n: "Core_New demoModule (5, [3 \<mapsto> 7]) = (Ok (), emptyCore\<lparr>core_functions := f0\<rparr>, (5, [3 \<mapsto> 7]))"
    and k0: "cacheOk demoModule (emptyCore\<lparr>core_functions := f0\<rparr>)" using demo_Core_New by blast
  let ?c0 = "emptyCore\<lparr>core_functions := f0\<rparr>"
  obtain f1 where c: "Core_Create demoModule [1] 1 2 (?c0, 5, [3 \<mapsto> 7]) = (Ok (), ?c0\<lparr>core_functions := f1, core_handle := 1\<rparr>, 6, [3 \<mapsto> 7])"
    and k1: "cacheOk demoModule (?c0\<lparr>core_functions := f1\<rparr>)"
    using demo_Create [OF k0, of 5 "[3 \<mapsto> 7]"] by (auto simp: emptyCore_def)
  let ?c1 = "?c0\<lparr>core_functions := f1, core_handle := 1\<rparr>"
  let ?s = "(?c0, (5, [3 \<mapsto> 7])) :: Core \<times> demoGuest"
  have "coreCall demoModule ?s (snd (Core_Create demoModule [1] 1 2 ?s))" by (rule coreCall_Create) simp
  with c have r: "rtranclp (coreCall demoModule) ?s (?c1, 6, [3 \<mapsto> 7])" by auto
  have k: "cacheOk demoModule ?c1" using k1 by (simp add: cacheOk_def)
  from callOne_Ok [OF k, of "''easytier_instance_drop''" "[1]" "(6, [3 \<mapsto> 7])"] demo_exported demo_answers
  obtain f2 where d: "callOne demoModule ''easytier_instance_drop'' [1] (?c1, 6, [3 \<mapsto> 7]) = (Ok 0, ?c1\<lparr>core_functions := f2\<rparr>, 6, [3 \<mapsto> 7])" by auto
  then obtain s'' where e: "Core_Drop demoModule (?c1, 6, [3 \<mapsto> 7]) = (Ok (), s'')"
    by (simp add: Core_Drop_def callStatus_def bindA_def getsA_def emptyCore_def modifyA_def releaseBuffer_def returnA_def)
  have h: "core_handle (fst (?c1, (6 :: u32, [3 :: u32 \<mapsto> 7 :: u32]))) \<noteq> 0" "\<not> core_dropped (fst (?c1, (6 :: u32, [3 :: u32 \<mapsto> 7 :: u32])))"
    by (simp_all add: emptyCore_def)
  have "snd (snd s'') = [3 \<mapsto> 7]" using drop_frees_every_buffer [OF demo.guest_allocator_axioms n r h e] by simp
  then show ?thesis using n r e by (intro exI [of _ ?s] exI [of _ "(?c1, 6, [3 \<mapsto> 7])"] exI [of _ s'']) (simp add: emptyCore_def)
qed

end
