(* ===== verification/CoreSpec.thy ===== *)
theory CoreSpec
  imports CoreSafety
begin

text \<open>
  What the wrapper hands to the engine is well-formed whatever the guest does: completions and results have the kinds, sizes
  and addresses their types promise, RPC answers are bounded, and a status of the data plane always becomes its error.
\<close>

text \<open>\<^verbatim>\<open>Memory().Read\<close> gives as many bytes as it was asked for.\<close>

definition readExact :: "'g module \<Rightarrow> bool" where
  "readExact M \<longleftrightarrow> (\<forall>g p n xs. m_read M g p n = Some xs \<longrightarrow> length xs = unat n)"

lemma bindA_Ok:
  "bindA m f s = (Ok y, s') \<longleftrightarrow> (\<exists>x s1. m s = (Ok x, s1) \<and> f x s1 = (Ok y, s'))"
  by (auto simp: bindA_def split: prod.splits outcome.splits)

lemma act_Ok [simp]:
  "returnA x s = (Ok y, s') \<longleftrightarrow> y = x \<and> s' = s" "\<not> failA e s = (Ok y, s')"
  "liftA m s = (Ok y, s') \<longleftrightarrow> m = Ok y \<and> s' = s" "getsA f s = (Ok z, s') \<longleftrightarrow> z = f (fst s) \<and> s' = s"
  by (auto simp: returnA_def failA_def liftA_def getsA_def)

lemma readMemory_Ok: "readExact M \<Longrightarrow> readMemory M p n message s = (Ok xs, s') \<Longrightarrow> length xs = unat n"
  by (auto simp: readMemory_def readExact_def split: option.splits)

lemma statusErrors_not_Ok [simp]:
  "\<not> statusError M s = (Ok y, s')" "\<not> dataPlaneStatusError M status s = (Ok y, s')"
  by (auto simp: statusError_def dataPlaneStatusError_def bindA_Ok failA_def split: prod.splits outcome.splits)

section \<open>Completions and results\<close>

text \<open>What the type of a result promises, by the kind of the operation.\<close>

definition resultOk :: "OperationResult \<Rightarrow> bool" where
  "resultOk r \<longleftrightarrow> operationKind_valid (or_Kind r) \<and>
     (or_Kind r \<in> {OperationTCPConnect, OperationTCPAccept} \<longrightarrow> or_Resource r \<noteq> 0 \<and> isIPv4 (or_Local r) \<and> isIPv4 (or_Peer r)) \<and>
     (or_Kind r \<in> {OperationTCPBind, OperationUDPBind} \<longrightarrow> or_Resource r \<noteq> 0 \<and> isIPv4 (or_Local r)) \<and>
     (or_Kind r = OperationTCPRead \<longrightarrow> length (or_Data r) \<le> maxDataPlaneTransferBytes) \<and>
     (or_Kind r = OperationUDPReceive \<longrightarrow> length (or_Data r) \<le> 65535 \<and> isIPv4 (or_Peer r)) \<and>
     (or_Kind r \<in> {OperationTCPWrite, OperationUDPSend} \<longrightarrow> 0 \<le> or_Length r \<and> or_Length r < 2 ^ 31)"

lemma takeStreamResult_Ok: "takeStreamResult M c s = (Ok (resource, local, peer), s') \<Longrightarrow> resource \<noteq> 0 \<and> isIPv4 local \<and> isIPv4 peer"
  using streamResult.dec_sound by (fastforce simp: takeStreamResult_def bindA_Ok streamResultOk_def)

lemma takeBindResult_Ok: "takeBindResult M c s = (Ok (resource, local), s') \<Longrightarrow> resource \<noteq> 0 \<and> isIPv4 local"
  using bindResult.dec_sound by (fastforce simp: takeBindResult_def bindA_Ok bindResultOk_def)

lemma takeVariableResult_Ok:
  assumes "readExact M" "takeVariableResult M c name n s = (Ok (data, metadata), s')"
  shows "length data \<le> (if cp_Kind c = OperationUDPReceive then 65535 else maxDataPlaneTransferBytes)"
  using assms(2)
  by (auto simp: takeVariableResult_def bindA_Ok Let_def not_less word_le_nat_alt maxDataPlaneTransferBytes_def split: if_splits
      dest!: readMemory_Ok [OF assms(1)])

lemma takeLengthResult_Ok: "takeLengthResult M c name s = (Ok n, s') \<Longrightarrow> 0 \<le> n \<and> n < 2 ^ 31"
proof -
  assume "takeLengthResult M c name s = (Ok n, s')"
  then obtain len :: u32 where "n = sint len" "\<not> sint len < 0"
    by (auto simp: takeLengthResult_def bindA_Ok Let_def split: if_splits)
  then show ?thesis using sint_lt [of len] by simp
qed

lemma takeUDPReceiveResult_Ok:
  assumes "readExact M" "takeUDPReceiveResult M c s = (Ok (data, peer, truncated), s')" "cp_Kind c = OperationUDPReceive"
  shows "length data \<le> 65535 \<and> isIPv4 peer"
proof -
  obtain metadata name n s1 where "takeVariableResult M c name n s = (Ok (data, metadata), s1)"
    "obind (slice metadata 0 (int socketAddressLength)) decodeSocketAddress_core = Ok peer"
    using assms(2) by (auto simp: takeUDPReceiveResult_def bindA_Ok split: if_splits)
  then show ?thesis using takeVariableResult_Ok [OF assms(1)] assms(3) decodeSocketAddress_core_sound by fastforce
qed

lemma takeTCPReadResult_Ok:
  assumes "readExact M" "takeTCPReadResult M c s = (Ok (data, eof), s')" "cp_Kind c = OperationTCPRead"
  shows "length data \<le> maxDataPlaneTransferBytes"
proof -
  obtain metadata name n s1 where "takeVariableResult M c name n s = (Ok (data, metadata), s1)"
    using assms(2) by (auto simp: takeTCPReadResult_def bindA_Ok split: if_splits)
  from takeVariableResult_Ok [OF assms(1) this] assms(3) show ?thesis by (simp add: OperationKinds)
qed

lemma TakeResult_typed:
  assumes "readExact M" "TakeResult M c s = (Ok r, s')"
  shows "or_Kind r = cp_Kind c \<and> resultOk r"
proof -
  let ?k = "cp_Kind c"
  have kinds: "?k \<in> {1, 2, 3, 4, 5, 6, 7, 8}"
    using assms(2) by (auto simp: TakeResult_def Let_def OperationKinds split: if_splits)
  show ?thesis
  proof (cases "?k = 1 \<or> ?k = 3")
    case True
    then show ?thesis using assms(2)
      by (auto simp: TakeResult_def Let_def bindA_Ok OperationKinds resultOk_def operationKind_valid_def emptyResult_def dest!: takeStreamResult_Ok)
  next
    case False
    with kinds consider "?k = 2 \<or> ?k = 6" | "?k = 4" | "?k = 5 \<or> ?k = 8" | "?k = 7" by blast
    then show ?thesis
    proof cases
      case 1
      then show ?thesis using assms(2)
        by (auto simp: TakeResult_def Let_def bindA_Ok OperationKinds resultOk_def operationKind_valid_def emptyResult_def dest!: takeBindResult_Ok)
    next
      case 2
      then show ?thesis using assms(2)
        by (auto simp: TakeResult_def Let_def bindA_Ok OperationKinds resultOk_def operationKind_valid_def emptyResult_def
            dest!: takeTCPReadResult_Ok [OF assms(1)])
    next
      case 3
      then show ?thesis using assms(2)
        by (auto simp: TakeResult_def Let_def bindA_Ok OperationKinds resultOk_def operationKind_valid_def emptyResult_def dest!: takeLengthResult_Ok)
    next
      case 4
      then show ?thesis using assms(2)
        by (auto simp: TakeResult_def Let_def bindA_Ok OperationKinds resultOk_def operationKind_valid_def emptyResult_def
            dest!: takeUDPReceiveResult_Ok [OF assms(1)])
    qed
  qed
qed

lemma DrainCompletions_typed:
  assumes "readExact M" "DrainCompletions M maximum s = (Ok cs, s')"
  shows "length cs \<le> unat maximum \<and> list_all completionOk cs"
proof (cases "maximum = 0")
  case True
  then show ?thesis using assms(2) by (simp add: DrainCompletions_def)
next
  case False
  have "\<exists>count p message s1 wire. \<not> maximum < count \<and> uint maximum * 12 \<le> 2 ^ 32 - 1 \<and>
      readMemory M p (count * of_nat completionLength) message s1 = (Ok wire, s') \<and> decodeCompletions wire = Ok cs"
    using assms(2) False unfolding DrainCompletions_def bindA_Ok Let_def
    by (auto simp: bindA_Ok Let_def completionLength_def not_less split: if_splits) blast
  then obtain count p message s1 wire where c: "\<not> maximum < count" "uint maximum * 12 \<le> 2 ^ 32 - 1"
    and w: "readMemory M p (count * of_nat completionLength) message s1 = (Ok wire, s')" "decodeCompletions wire = Ok cs" by blast
  have cs: "list_all completionOk cs" "wire = completionsWire cs" using completions.dec_sound [OF w(2)] by simp_all
  have "uint count \<le> uint maximum" using c(1) by (simp add: not_less word_le_def)
  then have "uint (count * 12) = uint count * 12" using c(2) by (simp add: uint_word_arith_bintrs take_bit_int_eq_self)
  moreover have "int (length wire) = uint (count * 12)" using readMemory_Ok [OF assms(1) w(1)] by (simp add: completionLength_def)
  ultimately have "int (12 * length cs) = uint count * 12" using cs(2) by (simp add: length_completionsWire)
  then have "int (length cs) \<le> uint maximum" using \<open>uint count \<le> uint maximum\<close> by simp
  then show ?thesis using cs(1) by (simp add: nat_uint_eq [symmetric] le_nat_iff del: nat_uint_eq)
qed

text \<open>
  C30: what the guest writes reaches the engine only well-formed: a result has the kind of its completion and resources,
  addresses and sizes as that kind promises, and a batch has at most the completions that were asked for, each with a
  non-zero operation, a known kind and a known status.
\<close>

theorem guest_results_well_typed:
  assumes "readExact M" "TakeResult M completion s = (Ok result, s')" "DrainCompletions M maximum t = (Ok completions, t')"
  shows "or_Kind result = cp_Kind completion \<and> resultOk result \<and>
    length completions \<le> unat maximum \<and> list_all completionOk completions"
  using TakeResult_typed [OF assms(1,2)] DrainCompletions_typed [OF assms(1,3)] by blast

text \<open>A guest that answers 5 to every call: 5 bytes written, and 5 completions.\<close>

definition fiveCompletion :: Completion where
  "fiveCompletion = \<lparr>cp_Operation = 9, cp_Kind = OperationTCPWrite, cp_Status = ErrorNone\<rparr>"

definition fiveModule :: "unit module" where
  "fiveModule =
     \<lparr>m_exported = (\<lambda>name. if name = ''easytier_data_plane_completion_drain'' then Some (3, 1)
                    else if name = ''easytier_buffer_alloc'' then Some (1, 1) else Some (2, 1)),
      m_call = (\<lambda>name params g. ((None, 5), g)),
      m_read = (\<lambda>g p n. Some (if n = 60 then completionsWire (replicate 5 fiveCompletion) else replicate (unat n) 0)),
      m_write = (\<lambda>g p xs. Some g)\<rparr>"

lemma readExact_five: "readExact fiveModule"
  by (auto simp: readExact_def fiveModule_def length_completionsWire)

theorem guest_results_well_typed_witness:
  "\<exists>s' t' result. TakeResult fiveModule fiveCompletion (emptyCore, ()) = (Ok result, s') \<and> or_Length result = 5 \<and>
     DrainCompletions fiveModule 8 (emptyCore, ()) = (Ok (replicate 5 fiveCompletion), t') \<and>
     or_Kind result = OperationTCPWrite \<and> resultOk result"
proof -
  have k: "cacheOk fiveModule emptyCore" by (simp add: cacheOk_def emptyCore_def)
  from callOne_Ok [OF k, of "''easytier_data_plane_tcp_write_result_take''" "[0, 9]" "()" 5 "()"]
  obtain f1 where "callOne fiveModule ''easytier_data_plane_tcp_write_result_take'' [0, 9] (emptyCore, ()) = (Ok 5, emptyCore\<lparr>core_functions := f1\<rparr>, ())"
    by (auto simp: fiveModule_def)
  then obtain s' where a: "TakeResult fiveModule fiveCompletion (emptyCore, ()) = (Ok ((emptyResult OperationTCPWrite)\<lparr>or_Length := 5\<rparr>), s')"
    by (simp add: TakeResult_def fiveCompletion_def OperationKinds takeLengthResult_def bindA_def getsA_def emptyCore_def Let_def returnA_def)
  have "list_all completionOk (replicate 5 fiveCompletion)"
    by (simp add: list_all_iff completionOk_def fiveCompletion_def OperationKinds operationKind_valid_def validCompletionStatus_def ErrorKinds)
  then have d: "decodeCompletions (completionsWire (replicate 5 fiveCompletion)) = Ok (replicate 5 fiveCompletion)"
    by (rule completions.dec_enc)
  obtain t' where b: "DrainCompletions fiveModule 8 (emptyCore, ()) = (Ok (replicate 5 fiveCompletion), t')"
  proof -
    from callOne_Ok [OF k, of "''easytier_buffer_alloc''" "[96]" "()" 5 "()"]
    obtain f1 where f1: "callOne fiveModule ''easytier_buffer_alloc'' [96] (emptyCore, ()) = (Ok 5, emptyCore\<lparr>core_functions := f1\<rparr>, ())"
      "cacheOk fiveModule (emptyCore\<lparr>core_functions := f1\<rparr>)"
      by (auto simp: fiveModule_def)
    let ?c = "emptyCore\<lparr>core_functions := f1, core_dataPlaneOutput := 5, core_dataPlaneOutputSize := 96\<rparr>"
    have o: "ensureDataPlaneOutput fiveModule 96 (emptyCore, ()) = (Ok 5, ?c, ())"
      using f1 by (simp add: ensureDataPlaneOutput_def ensureBuffer_def allocate_def bindA_def getsA_def returnA_def modifyA_def emptyCore_def)
    have "cacheOk fiveModule ?c" using f1(2) by (simp add: cacheOk_def)
    moreover obtain rf s1 where r: "resolveFunction fiveModule ''easytier_data_plane_completion_drain'' (?c, ()) = (rf, s1)" by (metis surj_pair)
    ultimately obtain f2 where "s1 = (?c\<lparr>core_functions := f2\<rparr>, ())"
      "rf = Ok \<lparr>gf_call = ''easytier_data_plane_completion_drain'', gf_parameterCount = 3\<rparr>"
      using resolveFunction_cases [of fiveModule ?c "''easytier_data_plane_completion_drain''" "()" rf s1 3] by (auto simp: fiveModule_def)
    then have "\<exists>t. callCached fiveModule ''easytier_data_plane_completion_drain'' core_completionFunction
        (\<lambda>f c. c\<lparr>core_completionFunction := f\<rparr>) [0, 5, 8] (?c, ()) = (Ok 5, t)"
      using r by (simp add: callCached_def bindA_def getsA_def modifyA_def emptyCore_def callGuestFunction_def) (simp add: fiveModule_def)
    then obtain t where "callCached fiveModule ''easytier_data_plane_completion_drain'' core_completionFunction
        (\<lambda>f c. c\<lparr>core_completionFunction := f\<rparr>) [0, 5, 8] (?c, ()) = (Ok 5, t)" by blast
    then show thesis
      using that o d by (simp add: DrainCompletions_def completionLength_def Let_def bindA_def getsA_def liftA_def readMemory_def emptyCore_def)
        (simp add: fiveModule_def)
  qed
  show ?thesis using guest_results_well_typed [OF readExact_five a b] a b
    by (intro exI [of _ s'] exI [of _ t'] exI [of _ "(emptyResult OperationTCPWrite)\<lparr>or_Length := 5\<rparr>"])
      (simp add: fiveCompletion_def)
qed

section \<open>Statuses and answers\<close>

definition noPanic :: "('g, 'a) act \<Rightarrow> bool" where
  "noPanic m \<longleftrightarrow> (\<forall>s. fst (m s) \<noteq> Panic)"

lemma noPanic_bind: "noPanic m \<Longrightarrow> (\<And>x. noPanic (f x)) \<Longrightarrow> noPanic (bindA m f)"
  unfolding noPanic_def bindA_def by (auto split: prod.splits outcome.splits) (metis fst_conv)+

lemma noPanic_simple: "noPanic (returnA x)" "noPanic (failA e)" "noPanic (getsA f)" "noPanic (readMemory M p n message)"
  "noPanic m1 \<Longrightarrow> noPanic m2 \<Longrightarrow> noPanic (if b then m1 else m2)"
  by (auto simp: noPanic_def returnA_def failA_def getsA_def readMemory_def split: option.splits)

lemma noPanic_callOne: "noPanic (callOne M name params)"
proof -
  have "noPanic (resolveFunction M name)" "noPanic (callGuestFunction M name f params)" for f
    by (auto simp: noPanic_def resolveFunction_def callGuestFunction_def Let_def split: option.splits prod.splits)
  then show ?thesis unfolding callOne_def by (rule noPanic_bind)
qed

lemma noPanic_cleanup: "noPanic body \<Longrightarrow> noPanic (cleanupBuffer M p body)"
  unfolding noPanic_def cleanupBuffer_def by (auto split: prod.splits outcome.splits) (metis fst_conv)+

lemma errorMessage_no_panic: "fst (errorMessage M h s) \<noteq> Panic"
proof -
  have "noPanic (errorMessage M h)"
    unfolding errorMessage_def allocate_def by (rule noPanic_bind noPanic_simple noPanic_callOne noPanic_cleanup)+
  then show ?thesis unfolding noPanic_def by blast
qed

text \<open>
  C31: a status of the data plane, -1 to -13, always becomes the data plane error of that kind, whether or not its message can
  be fetched from the guest; so the engine maps it to the right system error in any case.
\<close>

theorem data_plane_status_keeps_kind:
  assumes "status \<in> {-13..-1}"
  shows "\<exists>e message. fst (dataPlaneStatusError M status s) = Err e \<and> errors_As_dataplane e = Some (of_int (- status), message)"
  using assms errorMessage_no_panic [of M "core_handle (fst s)" s]
  by (auto simp: dataPlaneStatusError_def ErrorKinds failA_def split: prod.splits outcome.splits)

theorem data_plane_status_keeps_kind_witness:
  "\<exists>e message. fst (dataPlaneStatusError demoModule (- 2) (emptyCore, (1, Map.empty))) = Err e \<and>
     errors_As_dataplane e = Some (ErrorDeadlineExceeded, message)"
  using data_plane_status_keeps_kind [of "- 2" demoModule "(emptyCore, (1, Map.empty))"] by (simp add: ErrorKinds)

text \<open>
  C32: an answer to an RPC that is handed out has at most 16 MiB, though its buffer is as large as the guest says.
\<close>

theorem rpc_answers_bounded:
  assumes "readExact M" "TakeRPCResponse M operation s = (Ok (Some response), s')"
  shows "length response \<le> maxRPCMessageBytes"
proof -
  have c: "\<exists>s2. body s1 = (Ok y, s2)" if "cleanupBuffer M p body s1 = (Ok y, s2)" for p body s1 s2 and y :: "bytes option"
    using that by (auto simp: cleanupBuffer_def split: prod.splits outcome.splits)
  have small: "unat n \<le> maxRPCMessageBytes" if "\<not> sint (w :: u32) < 0" "\<not> int maxRPCMessageBytes < sint w" "\<not> w < n" for n w
  proof -
    have "uint w = sint w"
      using that(1) sint_lt [of w] by (simp add: uint_sint take_bit_int_eq_self)
    then have "uint n \<le> int maxRPCMessageBytes" using that(2,3) by (simp add: not_less word_le_def)
    then show ?thesis by (simp add: nat_uint_eq [symmetric] nat_le_iff del: nat_uint_eq)
  qed
  have one: "unat n \<le> maxRPCMessageBytes" if "\<not> 1 < (n :: u32)" for n
    using that by (simp add: not_less word_le_nat_alt maxRPCMessageBytes_def)
  show ?thesis
    using assms(2) unfolding TakeRPCResponse_def bindA_Ok Let_def
    by (auto simp: bindA_Ok Let_def split: if_splits dest!: c readMemory_Ok [OF assms(1)])
      (rule one, assumption, erule (2) small)
qed

definition answerModule :: "unit module" where
  "answerModule =
     \<lparr>m_exported = (\<lambda>name. if name = ''easytier_rpc_response_take'' then Some (4, 1) else Some (1, 1)),
      m_call = (\<lambda>name params g. ((None, if name = ''easytier_buffer_free'' then 0 else 5), g)),
      m_read = (\<lambda>g p n. Some (replicate (unat n) 7)), m_write = (\<lambda>g p xs. Some g)\<rparr>"

theorem rpc_answers_bounded_witness:
  "\<exists>s'. TakeRPCResponse answerModule 1 (emptyCore, ()) = (Ok (Some (replicate 5 7)), s') \<and>
     length (replicate 5 (7 :: byte)) \<le> maxRPCMessageBytes"
proof -
  have k: "cacheOk answerModule emptyCore" by (simp add: cacheOk_def emptyCore_def)
  from callOne_Ok [OF k, of "''easytier_rpc_response_take''" "[0, 1, 0, 0]" "()" 5 "()"]
  obtain f1 where c1: "callOne answerModule ''easytier_rpc_response_take'' [0, 1, 0, 0] (emptyCore, ()) = (Ok 5, emptyCore\<lparr>core_functions := f1\<rparr>, ())"
    and k1: "cacheOk answerModule (emptyCore\<lparr>core_functions := f1\<rparr>)" by (auto simp: answerModule_def)
  from callOne_Ok [OF k1, of "''easytier_buffer_alloc''" "[5]" "()" 5 "()"]
  obtain f2 where c2: "callOne answerModule ''easytier_buffer_alloc'' [5] (emptyCore\<lparr>core_functions := f1\<rparr>, ()) = (Ok 5, emptyCore\<lparr>core_functions := f2\<rparr>, ())"
    and k2: "cacheOk answerModule (emptyCore\<lparr>core_functions := f2\<rparr>)" by (auto simp: answerModule_def)
  from callOne_Ok [OF k2, of "''easytier_rpc_response_take''" "[0, 1, 5, 5]" "()" 5 "()"]
  obtain f3 where c3: "callOne answerModule ''easytier_rpc_response_take'' [0, 1, 5, 5] (emptyCore\<lparr>core_functions := f2\<rparr>, ()) = (Ok 5, emptyCore\<lparr>core_functions := f3\<rparr>, ())"
    and k3: "cacheOk answerModule (emptyCore\<lparr>core_functions := f3\<rparr>)" by (auto simp: answerModule_def)
  from callOne_Ok [OF k3, of "''easytier_buffer_free''" "[5]" "()" 0 "()"]
  obtain f4 where c4: "callOne answerModule ''easytier_buffer_free'' [5] (emptyCore\<lparr>core_functions := f3\<rparr>, ()) = (Ok 0, emptyCore\<lparr>core_functions := f4\<rparr>, ())"
    by (auto simp: answerModule_def)
  have "m_read answerModule () 5 5 = Some (replicate 5 7)" by (simp add: answerModule_def)
  then obtain s' where t: "TakeRPCResponse answerModule 1 (emptyCore, ()) = (Ok (Some (replicate 5 7)), s')"
    using c1 c2 c3 c4
    by (simp add: TakeRPCResponse_def bindA_def getsA_def emptyCore_def Let_def rpcStatusPending_def maxRPCMessageBytes_def allocate_def
        returnA_def cleanupBuffer_def readMemory_def free_def)
  moreover have "readExact answerModule" by (simp add: readExact_def answerModule_def)
  ultimately show ?thesis using rpc_answers_bounded by blast
qed

end
