(* ===== verification/EngineState.thy ===== *)
theory EngineState
  imports CoreSpec Reactor "HOL-Library.AList"
begin

text \<open>
  The state of one EasyTier instance in the engine (internal/engine/instance.go, dataplane.go, rpc.go): the driver goroutine
  owns the guest's wrapper and two tables of operations the guest works on; callers reach it through channels of commands and
  wait on channels of answers. Also here: what the engine makes of deadlines and of the data plane's errors, and the journal
  of events.
\<close>

section \<open>Commands and answers\<close>

text \<open>A channel an answer is sent on is a reference; every command brings its own.\<close>

datatype commandKind = commandStart | commandStop | commandSendPacket | commandOther "8 word"

record command =
  cm_kind :: commandKind
  cm_packet :: bytes
  cm_response :: ref

text \<open>A point in time: the zero time, or what \<^verbatim>\<open>time.Until\<close> gives for it, in nanoseconds.\<close>

datatype time = ZeroTime | Remaining int

record operationTicket =
  ot_id :: OperationID
  ot_result :: ref

text \<open>An outcome is the result or the error of an operation.\<close>

type_synonym operationOutcome = "OperationResult outcome"

record pendingOperation =
  po_kind :: OperationKind
  po_result :: ref

text \<open>The command carries the submission as a function of the wrapper, as in the code.\<close>

datatype 'g dataPlaneCommand =
    dataPlaneSubmit OperationKind "('g, OperationID) act" ref
  | dataPlaneCancel OperationID ref
  | dataPlaneCloseResource ResourceID ref
  | dataPlaneSetDeadline ResourceID u32 time ref
  | dataPlaneOther "8 word" ref

record dataPlaneCommandResponse =
  dr_ticket :: "operationTicket option"
  dr_outcome :: "operationOutcome option"
  dr_err :: "goerror option"

record rpcTicket =
  rt_id :: RPCOperationID
  rt_result :: ref

datatype rpcCommand = rpcSubmit bytes ref | rpcFree RPCOperationID ref | rpcOther "8 word" ref

record rpcCommandResponse =
  rr_ticket :: "rpcTicket option"
  rr_outcome :: "bytes outcome option"
  rr_err :: "goerror option"

fun dp_response :: "'g dataPlaneCommand \<Rightarrow> ref" where
  "dp_response (dataPlaneSubmit _ _ r) = r"
| "dp_response (dataPlaneCancel _ r) = r"
| "dp_response (dataPlaneCloseResource _ r) = r"
| "dp_response (dataPlaneSetDeadline _ _ _ r) = r"
| "dp_response (dataPlaneOther _ r) = r"

fun rpc_response :: "rpcCommand \<Rightarrow> ref" where
  "rpc_response (rpcSubmit _ r) = r"
| "rpc_response (rpcFree _ r) = r"
| "rpc_response (rpcOther _ r) = r"

section \<open>The instance\<close>

text \<open>
  A channel of answers is the list of what was sent on it; all of them are made with room for one. The channels \<^verbatim>\<open>running\<close>,
  \<^verbatim>\<open>stopped\<close>, \<^verbatim>\<open>closeRequested\<close> and \<^verbatim>\<open>done\<close> are only ever closed, so each is a flag.
\<close>

record 'g instance_state =
  in_core :: "Core \<times> 'g"
  in_commands :: "command list"
  in_pendingOperations :: "(OperationID \<times> pendingOperation) list"
  in_pendingRPCs :: "(RPCOperationID \<times> ref) list"
  in_outcomes :: "ref \<Rightarrow> operationOutcome list"
  in_rpcOutcomes :: "ref \<Rightarrow> bytes outcome list"
  in_answers :: "ref \<Rightarrow> goerror option list"
  in_dataPlaneAnswers :: "ref \<Rightarrow> dataPlaneCommandResponse list"
  in_rpcAnswers :: "ref \<Rightarrow> rpcCommandResponse list"
  in_nextRef :: ref
  in_state :: int
  in_running :: bool
  in_stopped :: bool
  in_closeRequested :: bool
  in_done :: bool
  in_terminalErr :: "goerror option"
  in_packetSink :: u64
  in_eventSink :: u64

definition sendOn :: "ref \<Rightarrow> 'a \<Rightarrow> (ref \<Rightarrow> 'a list) \<Rightarrow> ref \<Rightarrow> 'a list" where
  "sendOn c x ch = ch(c := ch c @ [x])"

definition sendAnswer :: "ref \<Rightarrow> goerror option \<Rightarrow> 'g instance_state \<Rightarrow> 'g instance_state" where
  "sendAnswer c e I = I\<lparr>in_answers := sendOn c e (in_answers I)\<rparr>"

definition sendOutcome :: "ref \<Rightarrow> operationOutcome \<Rightarrow> 'g instance_state \<Rightarrow> 'g instance_state" where
  "sendOutcome c x I = I\<lparr>in_outcomes := sendOn c x (in_outcomes I)\<rparr>"

definition sendRPCOutcome :: "ref \<Rightarrow> bytes outcome \<Rightarrow> 'g instance_state \<Rightarrow> 'g instance_state" where
  "sendRPCOutcome c x I = I\<lparr>in_rpcOutcomes := sendOn c x (in_rpcOutcomes I)\<rparr>"

text \<open>Running a call of the wrapper on the instance, under the host's guest lock.\<close>

definition guest :: "('g, 'a) act \<Rightarrow> 'g instance_state \<Rightarrow> 'a outcome \<times> 'g instance_state" where
  "guest m I = (case m (in_core I) of (r, s) \<Rightarrow> (r, I\<lparr>in_core := s\<rparr>))"

section \<open>Deadlines\<close>

text \<open>\<^verbatim>\<open>time.Duration\<close> counts nanoseconds; its division and remainder truncate, and the code only uses them on positive ones.\<close>

definition Millisecond :: int where "Millisecond = 1000000"
definition MaxInt64 :: int where "MaxInt64 = 2 ^ 63 - 1"
definition MaxUint64 :: int where "MaxUint64 = 2 ^ 64 - 1"

definition ceilMillis :: "int \<Rightarrow> int" where
  "ceilMillis remaining =
     (let millis = remaining div Millisecond in if remaining mod Millisecond \<noteq> 0 then millis + 1 else millis)"

definition timeoutFromDeadline :: "time \<Rightarrow> goerror + int" where
  "timeoutFromDeadline deadline =
     (case deadline of
        ZeroTime \<Rightarrow> Inr MaxUint64
      | Remaining remaining \<Rightarrow> if remaining \<le> 0 then Inl OsErrDeadlineExceeded else Inr (ceilMillis remaining))"

definition resourceDeadlineTimeoutMillis :: "time \<Rightarrow> int" where
  "resourceDeadlineTimeoutMillis deadline =
     (case deadline of
        ZeroTime \<Rightarrow> MaxUint64
      | Remaining remaining \<Rightarrow> if remaining \<le> 0 then 0 else ceilMillis remaining)"

text \<open>A context: its error, and its deadline if it has one.\<close>

definition contextTimeoutMillis :: "goerror option \<Rightarrow> time option \<Rightarrow> goerror + int" where
  "contextTimeoutMillis ctxErr deadline =
     (case ctxErr of
        Some err \<Rightarrow> Inl err
      | None \<Rightarrow> (case deadline of None \<Rightarrow> Inr MaxUint64 | Some deadline \<Rightarrow> timeoutFromDeadline deadline))"

text \<open>What the driver's timer is set to, in nanoseconds; \<^verbatim>\<open>None\<close> is the nil channel, which never fires.\<close>

definition deadlineTimer :: "int \<Rightarrow> int option" where
  "deadlineTimer deadline =
     (if deadline = MaxInt64 then None
      else if deadline > MaxInt64 div Millisecond then Some MaxInt64
      else Some (deadline * Millisecond))"

section \<open>Errors of the data plane\<close>

text \<open>The error numbers of package syscall differ between systems and are a parameter.\<close>

record sysErrnos =
  ENETUNREACH :: int
  EAFNOSUPPORT :: int
  EADDRINUSE :: int
  ECONNREFUSED :: int
  ENETRESET :: int
  ENOBUFS :: int
  EMSGSIZE :: int

definition linuxErrnos :: sysErrnos where
  "linuxErrnos =
     \<lparr>ENETUNREACH = 101, EAFNOSUPPORT = 97, EADDRINUSE = 98, ECONNREFUSED = 111, ENETRESET = 102, ENOBUFS = 105, EMSGSIZE = 90\<rparr>"

definition mapDataPlaneError :: "sysErrnos \<Rightarrow> goerror option \<Rightarrow> goerror option" where
  "mapDataPlaneError S err =
     (case err of
        None \<Rightarrow> None
      | Some e \<Rightarrow>
          case errors_As_dataplane e of
            None \<Rightarrow> Some e
          | Some (kind, _) \<Rightarrow>
              if kind = ErrorCancelled then Some ContextCanceled
              else if kind = ErrorDeadlineExceeded then Some OsErrDeadlineExceeded
              else if kind = ErrorInstanceStopped \<or> kind = ErrorHandleClosed then Some NetErrClosed
              else if kind = ErrorNoOverlayRoute \<or> kind = ErrorPathNotReady then Some (Errno (ENETUNREACH S))
              else if kind = ErrorAddressFamilyUnsupported then Some (Errno (EAFNOSUPPORT S))
              else if kind = ErrorAddressInUse then Some (Errno (EADDRINUSE S))
              else if kind = ErrorConnectionRefused then Some (Errno (ECONNREFUSED S))
              else if kind = ErrorNetworkChanged then Some (Errno (ENETRESET S))
              else if kind = ErrorResourceLimit then Some (Errno (ENOBUFS S))
              else if kind = ErrorBufferTooSmall then Some (Errno (EMSGSIZE S))
              else Some e)"

definition validateCompletionResult :: "Completion \<Rightarrow> goerror option \<Rightarrow> goerror option" where
  "validateCompletionResult cp resultErr =
     (if cp_Status cp = ErrorNone then
        (case resultErr of
           None \<Rightarrow> None
         | Some e \<Rightarrow> Some (Errorf ''take successful data plane operation %d: %w'' [e]))
      else
        case Option.bind resultErr errors_As_dataplane of
          None \<Rightarrow> Some (Errorf ''take failed data plane operation %d with status %d: %w'' (case resultErr of None \<Rightarrow> [] | Some e \<Rightarrow> [e]))
        | Some (kind, _) \<Rightarrow>
            if kind \<noteq> cp_Status cp then Some (Errorf ''data plane operation %d status %d disagrees with result %d'' [])
            else None)"

section \<open>The journal of events\<close>

definition instanceEventQueueCapacity :: nat where "instanceEventQueueCapacity = 256"

definition journal_add :: "bytes \<Rightarrow> bytes \<Rightarrow> bytes list \<Rightarrow> bytes list" where
  "journal_add kind message events =
     (let message = (if message = [] then kind else message);
          events = (if length events = instanceEventQueueCapacity then take (length events - 1) (tl events @ [last events]) else events)
      in events @ [message])"

definition journal_snapshot :: "bytes list \<Rightarrow> bytes list" where
  "journal_snapshot events = events"

text \<open>
  The event sink of an instance: every event is added to the journal and goes to the stream of events when that has room; the
  result says whether it had.
\<close>

definition deliverEvent :: "bytes \<Rightarrow> bytes \<Rightarrow> bytes list \<times> (bytes \<times> bytes) list \<Rightarrow> bool \<times> bytes list \<times> (bytes \<times> bytes) list" where
  "deliverEvent kind message =
     (\<lambda>(journal, events).
        let journal = journal_add kind message journal
        in if length events < instanceEventQueueCapacity then (True, journal, events @ [(kind, message)])
           else (False, journal, events))"

end
