(* ===== verification/EngineDriver.thy ===== *)
theory EngineDriver
  imports EngineState
begin

text \<open>
  The driver goroutine of an instance (internal/engine/instance.go, dataplane.go, rpc.go): one case of its select statement
  after the other, each handling a command or a wake-up and then driving the guest.
\<close>

section \<open>Completed operations\<close>

text \<open>The body of the loop over a batch of completions.\<close>

definition deliverCompletion :: "'g module \<Rightarrow> Completion \<Rightarrow> 'g instance_state \<Rightarrow> unit outcome \<times> 'g instance_state" where
  "deliverCompletion M cp I =
     (case map_of (in_pendingOperations I) (cp_Operation cp) of
        None \<Rightarrow> (Err (Errorf ''EasyTier completed unknown data plane operation %d'' []), I)
      | Some pending \<Rightarrow>
          if po_kind pending \<noteq> cp_Kind cp
          then (Err (Errorf ''EasyTier completed operation %d as kind %d, want %d'' []), I)
          else
            let (result, I) = guest (TakeResult M cp) I
            in case result of
                 Panic \<Rightarrow> (Panic, I)
               | _ \<Rightarrow>
                   let resultErr = (case result of Err e \<Rightarrow> Some e | _ \<Rightarrow> None)
                   in case validateCompletionResult cp resultErr of
                        Some err \<Rightarrow> (Err err, I)
                      | None \<Rightarrow>
                          (Ok (), sendOutcome (po_result pending) result
                             (I\<lparr>in_pendingOperations := AList.delete (cp_Operation cp) (in_pendingOperations I)\<rparr>)))"

fun deliverCompletions :: "'g module \<Rightarrow> Completion list \<Rightarrow> 'g instance_state \<Rightarrow> unit outcome \<times> 'g instance_state" where
  "deliverCompletions M [] I = (Ok (), I)"
| "deliverCompletions M (cp # cps) I =
     (case deliverCompletion M cp I of (Ok _, I) \<Rightarrow> deliverCompletions M cps I | r \<Rightarrow> r)"

definition dataPlaneCompletionBatch :: u32 where "dataPlaneCompletionBatch = 64"

definition drainDataPlaneCompletions :: "'g module \<Rightarrow> 'g instance_state \<Rightarrow> bool outcome \<times> 'g instance_state" where
  "drainDataPlaneCompletions M I =
     (if in_pendingOperations I = [] then (Ok False, I)
      else
        case guest (DrainCompletions M dataPlaneCompletionBatch) I of
          (Err e, I) \<Rightarrow> (Err e, I)
        | (Panic, I) \<Rightarrow> (Panic, I)
        | (Ok cps, I) \<Rightarrow>
            case deliverCompletions M cps I of
              (Ok _, I) \<Rightarrow> (Ok (length cps = unat dataPlaneCompletionBatch), I)
            | (Err e, I) \<Rightarrow> (Err e, I)
            | (Panic, I) \<Rightarrow> (Panic, I))"

section \<open>RPC answers\<close>

text \<open>Ranging over the table of pending RPCs has no order; the order of one range is a parameter.\<close>

fun takeRPCResponsesLoop ::
  "'g module \<Rightarrow> RPCOperationID list \<Rightarrow> 'g instance_state \<Rightarrow> unit outcome \<times> 'g instance_state" where
  "takeRPCResponsesLoop M [] I = (Ok (), I)"
| "takeRPCResponsesLoop M (operation # order) I =
     (case map_of (in_pendingRPCs I) operation of
        None \<Rightarrow> takeRPCResponsesLoop M order I
      | Some pending \<Rightarrow>
          case guest (TakeRPCResponse M operation) I of
            (Err e, I) \<Rightarrow> (Err e, I)
          | (Panic, I) \<Rightarrow> (Panic, I)
          | (Ok None, I) \<Rightarrow> takeRPCResponsesLoop M order I
          | (Ok (Some response), I) \<Rightarrow>
              takeRPCResponsesLoop M order
                (sendRPCOutcome pending (Ok response)
                   (I\<lparr>in_pendingRPCs := AList.delete operation (in_pendingRPCs I)\<rparr>)))"

definition takeRPCResponses :: "'g module \<Rightarrow> RPCOperationID list \<Rightarrow> 'g instance_state \<Rightarrow> unit outcome \<times> 'g instance_state" where
  "takeRPCResponses M order I = (if in_pendingRPCs I = [] then (Ok (), I) else takeRPCResponsesLoop M order I)"

section \<open>Driving the guest\<close>

definition andThen ::
  "'a outcome \<times> 'g instance_state \<Rightarrow> ('a \<Rightarrow> 'g instance_state \<Rightarrow> 'b outcome \<times> 'g instance_state) \<Rightarrow> 'b outcome \<times> 'g instance_state" where
  "andThen m f = (case m of (Ok x, I) \<Rightarrow> f x I | (Err e, I) \<Rightarrow> (Err e, I) | (Panic, I) \<Rightarrow> (Panic, I))"

lemma drain_andThen:
  "drainDataPlaneCompletions M I =
     (if in_pendingOperations I = [] then (Ok False, I)
      else andThen (guest (DrainCompletions M dataPlaneCompletionBatch) I) (\<lambda>cps I.
        andThen (deliverCompletions M cps I) (\<lambda>_ I. (Ok (length cps = unat dataPlaneCompletionBatch), I))))"
  by (simp add: drainDataPlaneCompletions_def andThen_def split: prod.splits outcome.splits)

definition drive :: "'g module \<Rightarrow> RPCOperationID list \<Rightarrow> bool \<Rightarrow> 'g instance_state \<Rightarrow> int outcome \<times> 'g instance_state" where
  "drive M order notify I =
     andThen (if notify then guest (Core_NotifyCompletions M) I else (Ok (), I)) (\<lambda>_ I.
     andThen (guest (Core_Drive M) I) (\<lambda>state I.
     let I = I\<lparr>in_state := state, in_running := in_running I \<or> state = StateRunning,
               in_stopped := in_stopped I \<or> state = StateStopped\<rparr>
     in
     andThen (drainDataPlaneCompletions M I) (\<lambda>moreDataPlaneCompletions I.
     andThen (takeRPCResponses M order I) (\<lambda>_ I.
     andThen (guest (Core_NextDeadline M) I) (\<lambda>deadline I.
     (Ok (if moreDataPlaneCompletions then 0 else deadline), I))))))"

section \<open>Commands\<close>

definition errOf :: "'a outcome \<Rightarrow> goerror option" where
  "errOf r = (case r of Err e \<Rightarrow> Some e | _ \<Rightarrow> None)"

definition handleCommand :: "'g module \<Rightarrow> command \<Rightarrow> 'g instance_state \<Rightarrow> unit outcome \<times> 'g instance_state" where
  "handleCommand M request I =
     (case cm_kind request of
        commandStart \<Rightarrow> guest (Core_Start M) I
      | commandStop \<Rightarrow> guest (Core_Stop M) I
      | commandSendPacket \<Rightarrow> guest (Core_SendPacket M (cm_packet request)) I
      | commandOther _ \<Rightarrow> (Err (Errorf ''unknown EasyTier command %d'' []), I))"

definition maximumPacketIngressBatch :: nat where "maximumPacketIngressBatch = 32"

text \<open>
  The loop that takes more packets from the channel of commands, at most \<open>room\<close> of them and without waiting: the packets, the
  command that ended the batch if there was one, and what is left in the channel.
\<close>

fun drainPackets :: "nat \<Rightarrow> command list \<Rightarrow> command list \<times> command option \<times> command list" where
  "drainPackets 0 commands = ([], None, commands)"
| "drainPackets (Suc room) [] = ([], None, [])"
| "drainPackets (Suc room) (request # commands) =
     (if cm_kind request \<noteq> commandSendPacket then ([], Some request, commands)
      else let (batch, following, rest) = drainPackets room commands in (request # batch, following, rest))"

text \<open>The errors of sending the packets of the batch, one after the other.\<close>

fun sendBatch :: "'g module \<Rightarrow> command list \<Rightarrow> 'g instance_state \<Rightarrow> goerror option list \<times> 'g instance_state" where
  "sendBatch M [] I = ([], I)"
| "sendBatch M (request # batch) I =
     (let (r, I) = handleCommand M request I; (errs, I) = sendBatch M batch I in (errOf r # errs, I))"

fun answerBatch :: "command list \<Rightarrow> goerror option list \<Rightarrow> goerror option \<Rightarrow> 'g instance_state \<Rightarrow> 'g instance_state" where
  "answerBatch (request # batch) (sendErr # errs) driveErr I =
     answerBatch batch errs driveErr
       (sendAnswer (cm_response request) (case sendErr of Some e \<Rightarrow> Some e | None \<Rightarrow> driveErr) I)"
| "answerBatch _ _ _ I = I"

text \<open>The command that ended the batch; here and below the result is the new deadline and the error that ends the driver.\<close>

definition handleFollowing ::
  "'g module \<Rightarrow> RPCOperationID list \<Rightarrow> command option \<Rightarrow> int \<Rightarrow> 'g instance_state \<Rightarrow> (int \<times> goerror option) \<times> 'g instance_state" where
  "handleFollowing M order following deadline I =
     (case following of
        None \<Rightarrow> ((deadline, None), I)
      | Some request \<Rightarrow>
          let (r, I) = handleCommand M request I
          in case errOf r of
               Some e \<Rightarrow> ((deadline, None), sendAnswer (cm_response request) (Some e) I)
             | None \<Rightarrow>
                 let (driven, I) = drive M order False I
                 in ((case driven of Ok d \<Rightarrow> d | _ \<Rightarrow> 0, errOf driven), sendAnswer (cm_response request) (errOf driven) I))"

definition handlePacketBatch ::
  "'g module \<Rightarrow> RPCOperationID list \<Rightarrow> RPCOperationID list \<Rightarrow> command \<Rightarrow> int \<Rightarrow> 'g instance_state \<Rightarrow> (int \<times> goerror option) \<times> 'g instance_state" where
  "handlePacketBatch M order order' first deadline I =
     (let (more, following, rest) = drainPackets (maximumPacketIngressBatch - 1) (in_commands I);
          I = I\<lparr>in_commands := rest\<rparr>;
          batch = first # more;
          (sendErrors, I) = sendBatch M batch I;
          (driven, I) = (if \<exists>e \<in> set sendErrors. e = None then drive M order False I else (Ok deadline, I));
          driveErr = errOf driven;
          deadline = (case driven of Ok d \<Rightarrow> d | _ \<Rightarrow> 0);
          I = answerBatch batch sendErrors driveErr I
      in if driveErr \<noteq> None then ((deadline, driveErr), I)
         else
           handleFollowing M order' following deadline I)"

text \<open>The first case of the driver's select.\<close>

definition commandCase ::
  "'g module \<Rightarrow> RPCOperationID list \<Rightarrow> RPCOperationID list \<Rightarrow> command \<Rightarrow> int \<Rightarrow> 'g instance_state \<Rightarrow> (int \<times> goerror option) \<times> 'g instance_state" where
  "commandCase M order order' request deadline I =
     (if cm_kind request = commandSendPacket then handlePacketBatch M order order' request deadline I
      else
        let (r, I) = handleCommand M request I
        in case errOf r of
             Some e \<Rightarrow> ((deadline, None), sendAnswer (cm_response request) (Some e) I)
           | None \<Rightarrow>
               let (driven, I) = drive M order False I
               in ((case driven of Ok d \<Rightarrow> d | _ \<Rightarrow> deadline, errOf driven), sendAnswer (cm_response request) (errOf driven) I))"

section \<open>Data plane commands\<close>

definition noTicket :: "goerror option \<Rightarrow> dataPlaneCommandResponse" where
  "noTicket err = \<lparr>dr_ticket = None, dr_outcome = None, dr_err = err\<rparr>"

definition handleDataPlaneCommand :: "'g module \<Rightarrow> 'g dataPlaneCommand \<Rightarrow> 'g instance_state \<Rightarrow> dataPlaneCommandResponse \<times> 'g instance_state" where
  "handleDataPlaneCommand M request I =
     (case request of
        dataPlaneSubmit opKind submission _ \<Rightarrow>
          (case guest submission I of
             (Ok operation, I) \<Rightarrow>
               let result = in_nextRef I;
                   I = I\<lparr>in_nextRef := Suc result,
                         in_pendingOperations :=
                           AList.update operation \<lparr>po_kind = opKind, po_result = result\<rparr> (in_pendingOperations I)\<rparr>
               in (\<lparr>dr_ticket = Some \<lparr>ot_id = operation, ot_result = result\<rparr>, dr_outcome = None, dr_err = None\<rparr>, I)
           | (r, I) \<Rightarrow> (noTicket (errOf r), I))
      | dataPlaneCancel operation _ \<Rightarrow>
          if map_of (in_pendingOperations I) operation = None then (noTicket None, I)
          else let (r, I) = guest (core_CancelOperation M operation) I in (noTicket (errOf r), I)
      | dataPlaneCloseResource res _ \<Rightarrow>
          let (r, I) = guest (core_CloseResource M res) I in (noTicket (errOf r), I)
      | dataPlaneSetDeadline res direction deadline _ \<Rightarrow>
          let (r, I) = guest (SetResourceDeadline M res direction (of_int (resourceDeadlineTimeoutMillis deadline))) I
          in (noTicket (errOf r), I)
      | dataPlaneOther _ _ \<Rightarrow> (noTicket (Some (Errorf ''unknown data plane command %d'' [])), I))"

text \<open>Receiving from the ticket's channel without waiting: the driver is the only sender, so the channel has what it has.\<close>

definition takeOutcome :: "operationTicket option \<Rightarrow> 'g instance_state \<Rightarrow> operationOutcome option" where
  "takeOutcome ticket I =
     (case ticket of None \<Rightarrow> None | Some t \<Rightarrow> (case in_outcomes I (ot_result t) of [] \<Rightarrow> None | x # _ \<Rightarrow> Some x))"

definition sendDataPlaneAnswer :: "ref \<Rightarrow> dataPlaneCommandResponse \<Rightarrow> 'g instance_state \<Rightarrow> 'g instance_state" where
  "sendDataPlaneAnswer c x I = I\<lparr>in_dataPlaneAnswers := sendOn c x (in_dataPlaneAnswers I)\<rparr>"

definition dataPlaneCase ::
  "'g module \<Rightarrow> RPCOperationID list \<Rightarrow> 'g dataPlaneCommand \<Rightarrow> int \<Rightarrow> 'g instance_state \<Rightarrow> (int \<times> goerror option) \<times> 'g instance_state" where
  "dataPlaneCase M order request deadline I =
     (let (response, I) = handleDataPlaneCommand M request I in
      if dr_err response \<noteq> None then ((deadline, None), sendDataPlaneAnswer (dp_response request) response I)
      else
        let (driven, I) = drive M order False I;
            driveErr = errOf driven;
            response = (if driveErr \<noteq> None then response\<lparr>dr_err := driveErr\<rparr>
                        else response\<lparr>dr_outcome := takeOutcome (dr_ticket response) I\<rparr>)
        in ((case driven of Ok d \<Rightarrow> d | _ \<Rightarrow> deadline, driveErr), sendDataPlaneAnswer (dp_response request) response I))"

section \<open>RPC commands\<close>

definition noRPCTicket :: "goerror option \<Rightarrow> rpcCommandResponse" where
  "noRPCTicket err = \<lparr>rr_ticket = None, rr_outcome = None, rr_err = err\<rparr>"

definition handleRPCCommand :: "'g module \<Rightarrow> rpcCommand \<Rightarrow> 'g instance_state \<Rightarrow> rpcCommandResponse \<times> 'g instance_state" where
  "handleRPCCommand M request I =
     (case request of
        rpcSubmit encodedRequest _ \<Rightarrow>
          (case guest (SubmitRPC M encodedRequest) I of
             (Ok operation, I) \<Rightarrow>
               let result = in_nextRef I;
                   I = I\<lparr>in_nextRef := Suc result, in_pendingRPCs := AList.update operation result (in_pendingRPCs I)\<rparr>
               in (\<lparr>rr_ticket = Some \<lparr>rt_id = operation, rt_result = result\<rparr>, rr_outcome = None, rr_err = None\<rparr>, I)
           | (r, I) \<Rightarrow> (noRPCTicket (errOf r), I))
      | rpcFree operation _ \<Rightarrow>
          if map_of (in_pendingRPCs I) operation = None then (noRPCTicket None, I)
          else
            (case guest (FreeRPCOperation M operation) I of
               (Ok _, I) \<Rightarrow> (noRPCTicket None, I\<lparr>in_pendingRPCs := AList.delete operation (in_pendingRPCs I)\<rparr>)
             | (r, I) \<Rightarrow> (noRPCTicket (errOf r), I))
      | rpcOther _ _ \<Rightarrow> (noRPCTicket (Some (Errorf ''unknown RPC command %d'' [])), I))"

definition takeRPCOutcome :: "rpcTicket option \<Rightarrow> 'g instance_state \<Rightarrow> bytes outcome option" where
  "takeRPCOutcome ticket I =
     (case ticket of None \<Rightarrow> None | Some t \<Rightarrow> (case in_rpcOutcomes I (rt_result t) of [] \<Rightarrow> None | x # _ \<Rightarrow> Some x))"

definition sendRPCAnswer :: "ref \<Rightarrow> rpcCommandResponse \<Rightarrow> 'g instance_state \<Rightarrow> 'g instance_state" where
  "sendRPCAnswer c x I = I\<lparr>in_rpcAnswers := sendOn c x (in_rpcAnswers I)\<rparr>"

definition rpcCase ::
  "'g module \<Rightarrow> RPCOperationID list \<Rightarrow> rpcCommand \<Rightarrow> int \<Rightarrow> 'g instance_state \<Rightarrow> (int \<times> goerror option) \<times> 'g instance_state" where
  "rpcCase M order request deadline I =
     (let (response, I) = handleRPCCommand M request I in
      if rr_err response \<noteq> None then ((deadline, None), sendRPCAnswer (rpc_response request) response I)
      else
        let (driven, I) = drive M order False I;
            driveErr = errOf driven;
            response = (if driveErr \<noteq> None then response\<lparr>rr_err := driveErr\<rparr>
                        else response\<lparr>rr_outcome := takeRPCOutcome (rr_ticket response) I\<rparr>)
        in ((case driven of Ok d \<Rightarrow> d | _ \<Rightarrow> deadline, driveErr), sendRPCAnswer (rpc_response request) response I))"

text \<open>The two cases that only drive the guest: a completion signal (with a notification) and the timer.\<close>

definition wakeCase ::
  "'g module \<Rightarrow> RPCOperationID list \<Rightarrow> bool \<Rightarrow> int \<Rightarrow> 'g instance_state \<Rightarrow> (int \<times> goerror option) \<times> 'g instance_state" where
  "wakeCase M order notify deadline I =
     (let (driven, I) = drive M order notify I
      in ((case driven of Ok d \<Rightarrow> d | _ \<Rightarrow> deadline, errOf driven), I))"

section \<open>The end of the driver\<close>

text \<open>The order of the ranges does not matter here: every entry is answered and deleted.\<close>

definition failPendingOperations :: "goerror \<Rightarrow> 'g instance_state \<Rightarrow> 'g instance_state" where
  "failPendingOperations err I =
     (fold (\<lambda>(operation, pending) I. sendOutcome (po_result pending) (Err err) I) (in_pendingOperations I) I)
       \<lparr>in_pendingOperations := []\<rparr>"

definition failPendingRPCs :: "goerror \<Rightarrow> 'g instance_state \<Rightarrow> 'g instance_state" where
  "failPendingRPCs err I =
     (fold (\<lambda>(operation, pending) I. sendRPCOutcome pending (Err err) I) (in_pendingRPCs I) I)\<lparr>in_pendingRPCs := []\<rparr>"

definition instance_shutdown :: "'g module \<Rightarrow> 'g instance_state \<Rightarrow> reactor \<Rightarrow> (unit outcome \<times> 'g instance_state) \<times> reactor" where
  "instance_shutdown M I r =
     (guest (Core_Drop M) I, UnregisterEventSink (in_eventSink I) (UnregisterPacketSink (in_packetSink I) r))"

definition finishRun :: "'g module \<Rightarrow> goerror option \<Rightarrow> 'g instance_state \<Rightarrow> reactor \<Rightarrow> 'g instance_state \<times> reactor" where
  "finishRun M runErr I r =
     (let I = failPendingRPCs NetErrClosed (failPendingOperations NetErrClosed (I\<lparr>in_state := StateStopped\<rparr>));
          ((dropped, I), r) = instance_shutdown M I r
      in (I\<lparr>in_terminalErr := errors_Join [runErr, errOf dropped], in_done := True\<rparr>, r))"

end
