(* ===== verification/EngineCaller.thy ===== *)
theory EngineCaller
  imports EngineDriver
begin

text \<open>
  The callers of an instance (internal/engine/dataplane.go, rpc.go, instance.go): goroutines that send a command to the driver,
  wait for its answer and, when their context ends, withdraw the operation. Each function is a machine whose states are its
  select statements; a step takes one case of the select that is ready. Sending a command is a rendezvous with the driver,
  because the channels have no buffer.
\<close>

section \<open>Data plane operations\<close>

datatype 'g caller =
    PerformSend OperationKind "('g, OperationID) act"
  | PerformResponse ref
  | PerformResponseCancelled ref
  | PerformOutcome "operationTicket option"
  | CancelSend "operationTicket option"
  | CancelResponse ref "operationTicket option"
  | CancelOutcome "operationTicket option"
  | Finished operationOutcome

text \<open>The cases of a select: the answer to the command, the outcome of the operation, and the three ways to give up.\<close>

datatype selectCase = OnResponse | OnOutcome | OnDone | OnCloseRequested | OnContext

definition mapOutcome :: "sysErrnos \<Rightarrow> operationOutcome \<Rightarrow> operationOutcome" where
  "mapOutcome S outcome = (case outcome of Err e \<Rightarrow> Err (the (mapDataPlaneError S (Some e))) | x \<Rightarrow> x)"

definition cancelledOutcome :: "sysErrnos \<Rightarrow> goerror \<Rightarrow> operationOutcome \<Rightarrow> operationOutcome" where
  "cancelledOutcome S ctxErr outcome =
     (case outcome of
        Err e \<Rightarrow>
          (case errors_As_dataplane e of
             Some (kind, _) \<Rightarrow> if kind = ErrorCancelled then Err ctxErr else mapOutcome S outcome
           | None \<Rightarrow> mapOutcome S outcome)
      | _ \<Rightarrow> mapOutcome S outcome)"

text \<open>What a caller makes of the answer to its submission; \<open>k\<close> is how it goes on with a ticket.\<close>

definition onSubmitted :: "sysErrnos \<Rightarrow> dataPlaneCommandResponse \<Rightarrow> (operationTicket option \<Rightarrow> 'g caller) \<Rightarrow> 'g caller" where
  "onSubmitted S submitted k =
     (case dr_err submitted of
        Some e \<Rightarrow> Finished (Err (the (mapDataPlaneError S (Some e))))
      | None \<Rightarrow>
          case dr_outcome submitted of
            Some outcome \<Rightarrow> Finished (mapOutcome S outcome)
          | None \<Rightarrow> k (dr_ticket submitted))"

text \<open>The ticket's channel is nil in a response without ticket; receiving from it is never ready.\<close>

definition ticketOutcome :: "'g instance_state \<Rightarrow> operationTicket option \<Rightarrow> operationOutcome option" where
  "ticketOutcome I ticket = takeOutcome ticket I"

definition closedStep :: "selectCase \<Rightarrow> 'g instance_state \<Rightarrow> 'g caller option" where
  "closedStep select I =
     (if select = OnDone \<and> in_done I \<or> select = OnCloseRequested \<and> in_closeRequested I
      then Some (Finished (Err NetErrClosed)) else None)"

text \<open>
  \<^verbatim>\<open>performOperation\<close> from its first select to \<^verbatim>\<open>cancelAndWait\<close>; \<open>None\<close> when the case is not ready. \<open>ctxErr\<close> is the error of
  the caller's context, if it has ended.
\<close>

fun performOperation :: "sysErrnos \<Rightarrow> goerror option \<Rightarrow> selectCase \<Rightarrow> 'g instance_state \<Rightarrow> 'g caller \<Rightarrow> 'g caller option" where
  "performOperation S ctxErr select I (PerformSend opKind submission) =
     (case (select, ctxErr) of
        (OnContext, Some e) \<Rightarrow> Some (Finished (Err e))
      | _ \<Rightarrow> closedStep select I)"
| "performOperation S ctxErr select I (PerformResponse c) =
     (case (select, in_dataPlaneAnswers I c, ctxErr) of
        (OnResponse, submitted # _, _) \<Rightarrow> Some (onSubmitted S submitted PerformOutcome)
      | (OnContext, _, Some e) \<Rightarrow> Some (PerformResponseCancelled c)
      | _ \<Rightarrow> closedStep select I)"
| "performOperation S ctxErr select I (PerformResponseCancelled c) =
     (case (select, in_dataPlaneAnswers I c) of
        (OnResponse, submitted # _) \<Rightarrow> Some (onSubmitted S submitted CancelSend)
      | _ \<Rightarrow> closedStep select I)"
| "performOperation S ctxErr select I (PerformOutcome ticket) =
     (case (select, ticketOutcome I ticket, ctxErr) of
        (OnOutcome, Some outcome, _) \<Rightarrow> Some (Finished (mapOutcome S outcome))
      | (OnContext, _, Some e) \<Rightarrow> Some (CancelSend ticket)
      | _ \<Rightarrow> closedStep select I)"
| "performOperation S ctxErr select I (CancelSend ticket) =
     (case (select, ticketOutcome I ticket) of
        (OnOutcome, Some outcome) \<Rightarrow> Some (Finished (mapOutcome S outcome))
      | _ \<Rightarrow> closedStep select I)"
| "performOperation S ctxErr select I (CancelResponse c ticket) =
     (case (select, in_dataPlaneAnswers I c, ticketOutcome I ticket, ctxErr) of
        (OnResponse, result # _, _, _) \<Rightarrow>
          Some (case dr_err result of
                  Some e \<Rightarrow> Finished (Err (the (mapDataPlaneError S (Some e))))
                | None \<Rightarrow> CancelOutcome ticket)
      | (OnOutcome, _, Some outcome, Some e) \<Rightarrow> Some (Finished (cancelledOutcome S e outcome))
      | _ \<Rightarrow> closedStep select I)"
| "performOperation S ctxErr select I (CancelOutcome ticket) =
     (case (select, ticketOutcome I ticket, ctxErr) of
        (OnOutcome, Some outcome, Some e) \<Rightarrow> Some (Finished (cancelledOutcome S e outcome))
      | _ \<Rightarrow> closedStep select I)"
| "performOperation S ctxErr select I (Finished outcome) = None"

section \<open>Resources\<close>

text \<open>\<^verbatim>\<open>closeDataPlaneResource\<close> and \<^verbatim>\<open>setDataPlaneResourceDeadline\<close>, which have no context.\<close>

datatype resourceCaller =
    CloseSend ResourceID
  | DeadlineSend ResourceID u32 time
  | ResourceResponse ref
  | ResourceFinished "goerror option"

fun resourceRequest :: "resourceCaller \<Rightarrow> ref \<Rightarrow> 'g dataPlaneCommand option" where
  "resourceRequest (CloseSend res) c = Some (dataPlaneCloseResource res c)"
| "resourceRequest (DeadlineSend res direction deadline) c = Some (dataPlaneSetDeadline res direction deadline c)"
| "resourceRequest _ c = None"

fun callResource :: "sysErrnos \<Rightarrow> selectCase \<Rightarrow> 'g instance_state \<Rightarrow> resourceCaller \<Rightarrow> resourceCaller option" where
  "callResource S select I (ResourceFinished e) = None"
| "callResource S select I (ResourceResponse c) =
     (case (select, in_dataPlaneAnswers I c) of
        (OnResponse, result # _) \<Rightarrow> Some (ResourceFinished (mapDataPlaneError S (dr_err result)))
      | _ \<Rightarrow>
          if select = OnDone \<and> in_done I \<or> select = OnCloseRequested \<and> in_closeRequested I
          then Some (ResourceFinished (Some NetErrClosed)) else None)"
| "callResource S select I _ =
     (if select = OnDone \<and> in_done I \<or> select = OnCloseRequested \<and> in_closeRequested I
      then Some (ResourceFinished (Some NetErrClosed)) else None)"

section \<open>Remote procedure calls\<close>

datatype rpcCaller =
    RPCSend bytes
  | RPCResponse ref
  | RPCResponseCancelled ref
  | RPCOutcome "rpcTicket option"
  | FreeSend "rpcTicket option"
  | FreeResponse ref "rpcTicket option"
  | FreeOutcome "rpcTicket option"
  | RPCFinished "bytes outcome"

definition onRPCSubmitted :: "rpcCommandResponse \<Rightarrow> (rpcTicket option \<Rightarrow> rpcCaller) \<Rightarrow> rpcCaller" where
  "onRPCSubmitted submitted k =
     (case rr_err submitted of
        Some e \<Rightarrow> RPCFinished (Err e)
      | None \<Rightarrow>
          case rr_outcome submitted of
            Some outcome \<Rightarrow> RPCFinished outcome
          | None \<Rightarrow> k (rr_ticket submitted))"

definition rpcClosedStep :: "selectCase \<Rightarrow> 'g instance_state \<Rightarrow> rpcCaller option" where
  "rpcClosedStep select I =
     (if select = OnDone \<and> in_done I \<or> select = OnCloseRequested \<and> in_closeRequested I
      then Some (RPCFinished (Err NetErrClosed)) else None)"

text \<open>
  \<^verbatim>\<open>RPC\<close> and \<^verbatim>\<open>freeRPCAndWait\<close>. Two differences to the data plane: after the context has ended, the caller waits for the answer
  even when the instance is asked to close, and once the operation is freed it does not wait for an outcome.
\<close>

fun callRPC :: "goerror option \<Rightarrow> selectCase \<Rightarrow> 'g instance_state \<Rightarrow> rpcCaller \<Rightarrow> rpcCaller option" where
  "callRPC ctxErr select I (RPCSend request) =
     (case (select, ctxErr) of
        (OnContext, Some e) \<Rightarrow> Some (RPCFinished (Err e))
      | _ \<Rightarrow> rpcClosedStep select I)"
| "callRPC ctxErr select I (RPCResponse c) =
     (case (select, in_rpcAnswers I c, ctxErr) of
        (OnResponse, submitted # _, _) \<Rightarrow> Some (onRPCSubmitted submitted RPCOutcome)
      | (OnDone, _, _) \<Rightarrow> rpcClosedStep select I
      | (OnContext, _, Some e) \<Rightarrow> Some (RPCResponseCancelled c)
      | _ \<Rightarrow> None)"
| "callRPC ctxErr select I (RPCResponseCancelled c) =
     (case (select, in_rpcAnswers I c) of
        (OnResponse, submitted # _) \<Rightarrow> Some (onRPCSubmitted submitted FreeSend)
      | (OnDone, _) \<Rightarrow> rpcClosedStep select I
      | _ \<Rightarrow> None)"
| "callRPC ctxErr select I (RPCOutcome ticket) =
     (case (select, takeRPCOutcome ticket I, ctxErr) of
        (OnOutcome, Some outcome, _) \<Rightarrow> Some (RPCFinished outcome)
      | (OnContext, _, Some e) \<Rightarrow> Some (FreeSend ticket)
      | _ \<Rightarrow> rpcClosedStep select I)"
| "callRPC ctxErr select I (FreeSend ticket) =
     (case (select, takeRPCOutcome ticket I) of
        (OnOutcome, Some outcome) \<Rightarrow> Some (RPCFinished outcome)
      | _ \<Rightarrow> rpcClosedStep select I)"
| "callRPC ctxErr select I (FreeResponse c ticket) =
     (case (select, in_rpcAnswers I c, takeRPCOutcome ticket I) of
        (OnResponse, result # _, _) \<Rightarrow>
          Some (case rr_err result of Some e \<Rightarrow> RPCFinished (Err e) | None \<Rightarrow> FreeOutcome ticket)
      | (OnOutcome, _, Some outcome) \<Rightarrow> Some (RPCFinished outcome)
      | _ \<Rightarrow> rpcClosedStep select I)"
| "callRPC ctxErr select I (FreeOutcome ticket) =
     (case (takeRPCOutcome ticket I, ctxErr) of
        (Some outcome, _) \<Rightarrow> Some (RPCFinished outcome)
      | (None, Some e) \<Rightarrow> Some (RPCFinished (Err e))
      | _ \<Rightarrow> None)"
| "callRPC ctxErr select I (RPCFinished outcome) = None"

section \<open>Commands to the driver\<close>

text \<open>
  \<^verbatim>\<open>execute\<close>: the channel of commands has room for 32, and sending waits for room.
  The answer to a packet is waited for whatever happens to the caller's context, because the guest may still use the packet.
\<close>

datatype executor =
    ExecuteSend command
  | ExecuteResponse commandKind ref
  | ExecuteFinished "unit outcome"

definition finishedError :: "goerror option \<Rightarrow> goerror" where
  "finishedError terminalErr =
     (case terminalErr of Some e \<Rightarrow> Errorf ''%s: %w'' [e] | None \<Rightarrow> Errorf ''%s: instance is closed'' [])"

definition answerOutcome :: "goerror option \<Rightarrow> unit outcome" where
  "answerOutcome e = (case e of None \<Rightarrow> Ok () | Some e \<Rightarrow> Err e)"

fun execute :: "goerror option \<Rightarrow> selectCase \<Rightarrow> 'g instance_state \<Rightarrow> executor \<Rightarrow> executor option" where
  "execute ctxErr select I (ExecuteSend request) =
     (case (select, ctxErr) of
        (OnDone, _) \<Rightarrow> if in_done I then Some (ExecuteFinished (Err (finishedError (in_terminalErr I)))) else None
      | (OnCloseRequested, _) \<Rightarrow>
          if in_closeRequested I then Some (ExecuteFinished (Err (Errorf ''execute EasyTier command on closing instance'' []))) else None
      | (OnContext, Some e) \<Rightarrow> Some (ExecuteFinished (Err e))
      | _ \<Rightarrow> None)"
| "execute ctxErr select I (ExecuteResponse opKind c) =
     (case (select, in_answers I c, ctxErr) of
        (OnResponse, e # _, _) \<Rightarrow> Some (ExecuteFinished (answerOutcome e))
      | (OnDone, _, _) \<Rightarrow> if in_done I then Some (ExecuteFinished (Err (finishedError (in_terminalErr I)))) else None
      | (OnCloseRequested, _, _) \<Rightarrow>
          if in_closeRequested I \<and> opKind \<noteq> commandSendPacket
          then Some (ExecuteFinished (Err (Errorf ''execute EasyTier command on closing instance'' []))) else None
      | (OnContext, _, Some e) \<Rightarrow> if opKind \<noteq> commandSendPacket then Some (ExecuteFinished (Err e)) else None
      | _ \<Rightarrow> None)"
| "execute ctxErr select I (ExecuteFinished r) = None"

section \<open>The system\<close>

text \<open>
  What the driver is doing: waiting in its select with a deadline, serving a command, finishing with an error or nil, or gone.
\<close>

datatype 'g driverState =
    DriverIdle int
  | DriverServing "'g dataPlaneCommand" int
  | DriverServingRPC rpcCommand int
  | DriverFinishing "goerror option"
  | DriverGone

record 'g system =
  sy_instance :: "'g instance_state"
  sy_driver :: "'g driverState"
  sy_callers :: "nat \<Rightarrow> 'g caller option"
  sy_resources :: "nat \<Rightarrow> resourceCaller option"
  sy_rpcCallers :: "nat \<Rightarrow> rpcCaller option"
  sy_executors :: "nat \<Rightarrow> executor option"
  sy_reactor :: reactor

definition continueDriver :: "int \<times> goerror option \<Rightarrow> 'g driverState" where
  "continueDriver r = (case snd r of None \<Rightarrow> DriverIdle (fst r) | Some e \<Rightarrow> DriverFinishing (Some e))"

text \<open>
  The guest does not give an operation an identifier that is still in use. Where it does, dataplane.go overwrites the pending
  entry (and rpc.go likewise) and the caller that waited on it is lost; \<open>engineStep\<close> has no transition for such a submission, so
  what is proved of its reachable states is an assumption on the guest that the code does not check.
\<close>

definition freshOperation :: "'g dataPlaneCommand \<Rightarrow> 'g instance_state \<Rightarrow> bool" where
  "freshOperation request I =
     (case request of
        dataPlaneSubmit _ submission _ \<Rightarrow>
          (case submission (in_core I) of (Ok operation, _) \<Rightarrow> map_of (in_pendingOperations I) operation = None | _ \<Rightarrow> True)
      | _ \<Rightarrow> True)"

definition freshRPC :: "'g module \<Rightarrow> rpcCommand \<Rightarrow> 'g instance_state \<Rightarrow> bool" where
  "freshRPC M request I =
     (case request of
        rpcSubmit encoded _ \<Rightarrow>
          (case SubmitRPC M encoded (in_core I) of (Ok operation, _) \<Rightarrow> map_of (in_pendingRPCs I) operation = None | _ \<Rightarrow> True)
      | _ \<Rightarrow> True)"

text \<open>
  What the engine submits: the calls of \<^verbatim>\<open>performOperation\<close> in conn.go, listener.go and packet_conn.go, each with the kind it
  expects the completion to have.
\<close>

inductive engineSubmission :: "'g module \<Rightarrow> OperationKind \<Rightarrow> ('g, OperationID) act \<Rightarrow> bool" for M where
  submits_Dial: "engineSubmission M OperationTCPConnect (SubmitTCPConnect M peer timeout)"
| submits_Listen: "engineSubmission M OperationTCPBind (SubmitTCPBind M port timeout)"
| submits_Accept: "engineSubmission M OperationTCPAccept (SubmitTCPAccept M listener timeout)"
| submits_Read: "engineSubmission M OperationTCPRead (SubmitTCPRead M stream maximum)"
| submits_Write: "engineSubmission M OperationTCPWrite (SubmitTCPWrite M stream chunk)"
| submits_ListenPacket: "engineSubmission M OperationUDPBind (SubmitUDPBind M port timeout)"
| submits_ReadFrom: "engineSubmission M OperationUDPReceive (SubmitUDPReceive M socket maximum)"
| submits_WriteTo: "engineSubmission M OperationUDPSend (SubmitUDPSend M socket peer buffer)"

inductive engineStep :: "'g module \<Rightarrow> sysErrnos \<Rightarrow> 'g system \<Rightarrow> 'g system \<Rightarrow> bool" for M S where
  step_call: "sy_callers s i = None \<Longrightarrow> engineSubmission M opKind submission \<Longrightarrow>
    engineStep M S s (s\<lparr>sy_callers := (sy_callers s)(i \<mapsto> PerformSend opKind submission)\<rparr>)"
| step_submit: "sy_callers s i = Some (PerformSend opKind submission) \<Longrightarrow> sy_driver s = DriverIdle deadline \<Longrightarrow>
    c = in_nextRef (sy_instance s) \<Longrightarrow>
    engineStep M S s (s\<lparr>sy_callers := (sy_callers s)(i \<mapsto> PerformResponse c),
      sy_driver := DriverServing (dataPlaneSubmit opKind submission c) deadline,
      sy_instance := (sy_instance s)\<lparr>in_nextRef := Suc c\<rparr>\<rparr>)"
| step_cancel: "sy_callers s i = Some (CancelSend (Some ticket)) \<Longrightarrow> sy_driver s = DriverIdle deadline \<Longrightarrow>
    c = in_nextRef (sy_instance s) \<Longrightarrow>
    engineStep M S s (s\<lparr>sy_callers := (sy_callers s)(i \<mapsto> CancelResponse c (Some ticket)),
      sy_driver := DriverServing (dataPlaneCancel (ot_id ticket) c) deadline,
      sy_instance := (sy_instance s)\<lparr>in_nextRef := Suc c\<rparr>\<rparr>)"
| step_resourceCall: "sy_resources s i = None \<Longrightarrow> rescaller \<in> {CloseSend res, DeadlineSend res direction time} \<Longrightarrow>
    engineStep M S s (s\<lparr>sy_resources := (sy_resources s)(i \<mapsto> rescaller)\<rparr>)"
| step_resource: "sy_resources s i = Some rescaller \<Longrightarrow> sy_driver s = DriverIdle deadline \<Longrightarrow>
    c = in_nextRef (sy_instance s) \<Longrightarrow> resourceRequest rescaller c = Some request \<Longrightarrow>
    engineStep M S s (s\<lparr>sy_resources := (sy_resources s)(i \<mapsto> ResourceResponse c),
      sy_driver := DriverServing request deadline, sy_instance := (sy_instance s)\<lparr>in_nextRef := Suc c\<rparr>\<rparr>)"
| step_resourceCaller: "sy_resources s i = Some rescaller \<Longrightarrow> callResource S select (sy_instance s) rescaller = Some rescaller' \<Longrightarrow>
    engineStep M S s (s\<lparr>sy_resources := (sy_resources s)(i \<mapsto> rescaller')\<rparr>)"
| step_caller: "sy_callers s i = Some caller \<Longrightarrow> performOperation S ctxErr select (sy_instance s) caller = Some caller' \<Longrightarrow>
    engineStep M S s (s\<lparr>sy_callers := (sy_callers s)(i \<mapsto> caller')\<rparr>)"
| step_serve: "sy_driver s = DriverServing request deadline \<Longrightarrow> freshOperation request (sy_instance s) \<Longrightarrow>
    dataPlaneCase M order request deadline (sy_instance s) = (r, I) \<Longrightarrow>
    engineStep M S s (s\<lparr>sy_driver := continueDriver r, sy_instance := I\<rparr>)"
| step_rpcCall: "sy_rpcCallers s i = None \<Longrightarrow>
    engineStep M S s (s\<lparr>sy_rpcCallers := (sy_rpcCallers s)(i \<mapsto> RPCSend request)\<rparr>)"
| step_rpcSubmit: "sy_rpcCallers s i = Some (RPCSend request) \<Longrightarrow> sy_driver s = DriverIdle deadline \<Longrightarrow>
    c = in_nextRef (sy_instance s) \<Longrightarrow>
    engineStep M S s (s\<lparr>sy_rpcCallers := (sy_rpcCallers s)(i \<mapsto> RPCResponse c),
      sy_driver := DriverServingRPC (rpcSubmit request c) deadline,
      sy_instance := (sy_instance s)\<lparr>in_nextRef := Suc c\<rparr>\<rparr>)"
| step_rpcFree: "sy_rpcCallers s i = Some (FreeSend (Some rpcticket)) \<Longrightarrow> sy_driver s = DriverIdle deadline \<Longrightarrow>
    c = in_nextRef (sy_instance s) \<Longrightarrow>
    engineStep M S s (s\<lparr>sy_rpcCallers := (sy_rpcCallers s)(i \<mapsto> FreeResponse c (Some rpcticket)),
      sy_driver := DriverServingRPC (rpcFree (rt_id rpcticket) c) deadline,
      sy_instance := (sy_instance s)\<lparr>in_nextRef := Suc c\<rparr>\<rparr>)"
| step_rpcCaller: "sy_rpcCallers s i = Some rpccaller \<Longrightarrow> callRPC ctxErr select (sy_instance s) rpccaller = Some rpccaller' \<Longrightarrow>
    engineStep M S s (s\<lparr>sy_rpcCallers := (sy_rpcCallers s)(i \<mapsto> rpccaller')\<rparr>)"
| step_rpcServe: "sy_driver s = DriverServingRPC rpcrequest deadline \<Longrightarrow> freshRPC M rpcrequest (sy_instance s) \<Longrightarrow>
    rpcCase M order rpcrequest deadline (sy_instance s) = (r, I) \<Longrightarrow>
    engineStep M S s (s\<lparr>sy_driver := continueDriver r, sy_instance := I\<rparr>)"
| step_execute: "sy_executors s i = None \<Longrightarrow> \<not> in_closeRequested (sy_instance s) \<Longrightarrow> c = in_nextRef (sy_instance s) \<Longrightarrow>
    engineStep M S s (s\<lparr>sy_executors := (sy_executors s)(i \<mapsto> ExecuteSend \<lparr>cm_kind = k, cm_packet = packet, cm_response = c\<rparr>),
      sy_instance := (sy_instance s)\<lparr>in_nextRef := Suc c\<rparr>\<rparr>)"
| step_enqueue: "sy_executors s i = Some (ExecuteSend cmd) \<Longrightarrow>
    length (in_commands (sy_instance s)) < maximumPacketIngressBatch \<Longrightarrow>
    engineStep M S s (s\<lparr>sy_executors := (sy_executors s)(i \<mapsto> ExecuteResponse (cm_kind cmd) (cm_response cmd)),
      sy_instance := (sy_instance s)\<lparr>in_commands := in_commands (sy_instance s) @ [cmd]\<rparr>\<rparr>)"
| step_executor: "sy_executors s i = Some executor \<Longrightarrow> execute ctxErr select (sy_instance s) executor = Some executor' \<Longrightarrow>
    engineStep M S s (s\<lparr>sy_executors := (sy_executors s)(i \<mapsto> executor')\<rparr>)"
| step_command: "sy_driver s = DriverIdle deadline \<Longrightarrow> in_commands (sy_instance s) = cmd # rest \<Longrightarrow>
    commandCase M order order' cmd deadline ((sy_instance s)\<lparr>in_commands := rest\<rparr>) = (r, I) \<Longrightarrow>
    engineStep M S s (s\<lparr>sy_driver := continueDriver r, sy_instance := I\<rparr>)"
| step_wake: "sy_driver s = DriverIdle deadline \<Longrightarrow> wakeCase M order notify deadline (sy_instance s) = (r, I) \<Longrightarrow>
    engineStep M S s (s\<lparr>sy_driver := continueDriver r, sy_instance := I\<rparr>)"
| step_close: "engineStep M S s (s\<lparr>sy_instance := (sy_instance s)\<lparr>in_closeRequested := True\<rparr>\<rparr>)"
| step_end: "sy_driver s = DriverIdle deadline \<Longrightarrow> e = None \<and> in_closeRequested (sy_instance s) \<or> e = Some ctxError \<Longrightarrow>
    engineStep M S s (s\<lparr>sy_driver := DriverFinishing e\<rparr>)"
| step_finish: "sy_driver s = DriverFinishing e \<Longrightarrow> finishRun M e (sy_instance s) (sy_reactor s) = (I, r) \<Longrightarrow>
    engineStep M S s (s\<lparr>sy_driver := DriverGone, sy_instance := I, sy_reactor := r\<rparr>)"
| step_others: "engineStep M S s (s\<lparr>sy_instance := (sy_instance s)\<lparr>in_core := (fst (in_core (sy_instance s)), g)\<rparr>, sy_reactor := r\<rparr>)"

definition newInstance :: "Core \<times> 'g \<Rightarrow> u64 \<Rightarrow> u64 \<Rightarrow> 'g instance_state" where
  "newInstance core packetSinkHandle eventSinkHandle =
     \<lparr>in_core = core, in_commands = [], in_pendingOperations = [], in_pendingRPCs = [], in_outcomes = (\<lambda>_. []),
      in_rpcOutcomes = (\<lambda>_. []), in_answers = (\<lambda>_. []), in_dataPlaneAnswers = (\<lambda>_. []), in_rpcAnswers = (\<lambda>_. []),
      in_nextRef = 0, in_state = StateCreated, in_running = False, in_stopped = False, in_closeRequested = False,
      in_done = False, in_terminalErr = None, in_packetSink = packetSinkHandle, in_eventSink = eventSinkHandle\<rparr>"

definition newSystem :: "Core \<times> 'g \<Rightarrow> u64 \<Rightarrow> u64 \<Rightarrow> reactor \<Rightarrow> 'g system" where
  "newSystem core packetSinkHandle eventSinkHandle r =
     \<lparr>sy_instance = newInstance core packetSinkHandle eventSinkHandle, sy_driver = DriverIdle MaxInt64,
      sy_callers = Map.empty, sy_resources = Map.empty, sy_rpcCallers = Map.empty, sy_executors = Map.empty, sy_reactor = r\<rparr>"

definition engineReachable :: "'g module \<Rightarrow> sysErrnos \<Rightarrow> 'g system \<Rightarrow> bool" where
  "engineReachable M S s \<longleftrightarrow> (\<exists>core p e r. rtranclp (engineStep M S) (newSystem core p e r) s)"

end
