(* ===== verification/EngineInv.thy ===== *)
theory EngineInv
  imports EngineCaller
begin

text \<open>
  What the driver does to the tables of pending operations and to the channels of outcomes: an outcome is sent at most once,
  so that the driver never blocks on a channel of outcomes, and nothing it does makes a ticket lead nowhere. The lemmas on
  tables come first, for any kind of pending operation; data plane operations and remote procedure calls both use them.
\<close>

section \<open>Tables of pending operations\<close>

text \<open>Identifiers and channels are not shared by two pending operations; a pending operation has no outcome, and no channel two.\<close>

definition tableInv :: "('p \<Rightarrow> ref) \<Rightarrow> ('id \<times> 'p) list \<Rightarrow> (ref \<Rightarrow> 'o list) \<Rightarrow> ref \<Rightarrow> bool" where
  "tableInv chan ps outs n \<longleftrightarrow>
     distinct (map fst ps) \<and> distinct (map (chan \<circ> snd) ps) \<and> (\<forall>q \<in> set ps. chan (snd q) < n \<and> outs (chan (snd q)) = []) \<and>
     (\<forall>c. length (outs c) \<le> 1) \<and> (\<forall>c \<ge> n. outs c = [])"

text \<open>A ticket leads to an outcome: it is there, or the operation is pending and its outcome goes to the ticket's channel.\<close>

definition leadsTo :: "('p \<Rightarrow> ref) \<Rightarrow> ('id \<times> 'p) list \<Rightarrow> (ref \<Rightarrow> 'o list) \<Rightarrow> ref \<Rightarrow> 'id \<Rightarrow> ref \<Rightarrow> bool" where
  "leadsTo chan ps outs n i c \<longleftrightarrow> c < n \<and> (outs c \<noteq> [] \<or> (\<exists>p. map_of ps i = Some p \<and> chan p = c))"

lemma tableInvD:
  assumes "tableInv chan ps outs n"
  shows "distinct (map fst ps)" "distinct (map (chan \<circ> snd) ps)" "q \<in> set ps \<Longrightarrow> chan (snd q) < n"
    "q \<in> set ps \<Longrightarrow> outs (chan (snd q)) = []" "length (outs c) \<le> 1" "n \<le> c \<Longrightarrow> outs c = []"
  using assms by (auto simp: tableInv_def)

lemma tableInv_mono: "tableInv chan ps outs n \<Longrightarrow> n \<le> n' \<Longrightarrow> tableInv chan ps outs n'"
  by (fastforce simp: tableInv_def)

lemma leadsTo_mono: "leadsTo chan ps outs n i c \<Longrightarrow> n \<le> n' \<Longrightarrow> leadsTo chan ps outs n' i c"
  by (auto simp: leadsTo_def)

lemma AList_delete_filter: "AList.delete k ps = filter (\<lambda>q. fst q \<noteq> k) ps"
  by (auto simp: AList.delete_eq intro!: filter_cong)

lemma tableInv_delete: "tableInv chan ps outs n \<Longrightarrow> tableInv chan (AList.delete k ps) outs n"
  by (auto simp: tableInv_def AList_delete_filter distinct_map_filter)

lemma tableInv_deliver:
  assumes "tableInv chan ps outs n" "map_of ps k = Some p"
  shows "tableInv chan (AList.delete k ps) (sendOn (chan p) x outs) n"
proof -
  note i = tableInvD [OF assms(1)]
  have mem: "(k, p) \<in> set ps" using assms(2) by (rule map_of_SomeD)
  have other: "fst q = k" if "q \<in> set ps" "chan (snd q) = chan p" for q
  proof -
    have "inj_on (chan \<circ> snd) (set ps)" using i(2) by (simp add: distinct_map)
    then have "q = (k, p)" using that mem by (rule_tac inj_onD [of "chan \<circ> snd" "set ps"]) simp_all
    then show ?thesis by simp
  qed
  have p: "chan p < n" "outs (chan p) = []" using i(3) [OF mem] i(4) [OF mem] by simp_all
  show ?thesis
    using tableInv_delete [OF assms(1), of k] p other
    by (auto simp: tableInv_def AList_delete_filter sendOn_def)
qed

lemma leadsTo_deliver:
  assumes "leadsTo chan ps outs n i c" "map_of ps k = Some p"
  shows "leadsTo chan (AList.delete k ps) (sendOn (chan p) x outs) n i c"
  using assms by (auto simp: leadsTo_def sendOn_def delete_conv')

lemma tableInv_add:
  assumes "tableInv chan ps outs n" "map_of ps k = None" "chan p = n"
  shows "tableInv chan (AList.update k p ps) outs (Suc n)"
proof -
  have u: "AList.update k p ps = ps @ [(k, p)]"
    using assms(2) by (induction ps) (auto split: if_splits)
  have "n \<notin> (\<lambda>q. chan (snd q)) ` set ps" using tableInvD(3) [OF assms(1)] by fastforce
  moreover have "k \<notin> fst ` set ps" using assms(2) by (simp add: map_of_eq_None_iff)
  ultimately show ?thesis
    using tableInv_mono [OF assms(1), of "Suc n"] tableInvD(6) [OF assms(1), of n] assms(3) by (simp add: u tableInv_def)
qed

lemma leadsTo_add:
  assumes "map_of ps k = None" "chan p = n"
  shows "leadsTo chan ps outs n i c \<Longrightarrow> leadsTo chan (AList.update k p ps) outs (Suc n) i c"
    "leadsTo chan (AList.update k p ps) outs (Suc n) k n"
  using assms by (auto simp: leadsTo_def update_conv')

text \<open>Failing every pending operation at the end of the driver.\<close>

lemma tableInv_fail:
  assumes "tableInv chan ps outs n" and fail: "\<And>c. outs' c = outs c @ map (\<lambda>_. x) (filter (\<lambda>q. chan (snd q) = c) ps)"
  shows "tableInv chan [] outs' n"
proof -
  note i = tableInvD [OF assms(1)]
  have "length (outs' c) \<le> 1" for c
  proof (cases "filter (\<lambda>q. chan (snd q) = c) ps")
    case (Cons q qs)
    then have q: "q \<in> set ps" "chan (snd q) = c" by (auto simp: filter_eq_Cons_iff)
    have "distinct (map (chan \<circ> snd) (filter (\<lambda>q. chan (snd q) = c) ps))" using i(2) by (simp add: distinct_map_filter)
    moreover have "chan (snd r) = c" if "r \<in> set qs" for r
    proof -
      have "r \<in> set (filter (\<lambda>q. chan (snd q) = c) ps)" unfolding Cons using that by simp
      then show ?thesis by simp
    qed
    ultimately have "qs = []" using Cons q(2) by (cases qs) auto
    then show ?thesis using i(4) [OF q(1)] q(2) Cons by (simp add: fail)
  qed (use i(5) in \<open>simp add: fail\<close>)
  moreover have "outs' c = []" if "n \<le> c" for c
    using that i(3,6) by (force simp: fail filter_empty_conv)
  ultimately show ?thesis by (simp add: tableInv_def)
qed

lemma leadsTo_fail:
  assumes "leadsTo chan ps outs n i c" "\<And>c. outs' c = outs c @ map (\<lambda>_. x) (filter (\<lambda>q. chan (snd q) = c) ps)"
  shows "leadsTo chan [] outs' n i c"
  using assms by (auto simp: leadsTo_def filter_empty_conv dest!: map_of_SomeD) force

section \<open>The tables of an instance\<close>

definition operationsInv :: "'g instance_state \<Rightarrow> bool" where
  "operationsInv I \<longleftrightarrow> tableInv po_result (in_pendingOperations I) (in_outcomes I) (in_nextRef I)"

definition rpcsInv :: "'g instance_state \<Rightarrow> bool" where
  "rpcsInv I \<longleftrightarrow> tableInv id (in_pendingRPCs I) (in_rpcOutcomes I) (in_nextRef I)"

definition ticketOk :: "'g instance_state \<Rightarrow> operationTicket \<Rightarrow> bool" where
  "ticketOk I t \<longleftrightarrow> leadsTo po_result (in_pendingOperations I) (in_outcomes I) (in_nextRef I) (ot_id t) (ot_result t)"

text \<open>What every part of the driver does to the tables.\<close>

definition serves :: "'g instance_state \<Rightarrow> 'g instance_state \<Rightarrow> bool" where
  "serves I I' \<longleftrightarrow>
     (operationsInv I \<longrightarrow> operationsInv I') \<and> (rpcsInv I \<longrightarrow> rpcsInv I') \<and> (\<forall>t. ticketOk I t \<longrightarrow> ticketOk I' t) \<and>
     in_dataPlaneAnswers I' = in_dataPlaneAnswers I \<and> in_nextRef I \<le> in_nextRef I'"

lemma serves_refl [simp]: "serves I I"
  by (simp add: serves_def)

lemma serves_trans: "serves I1 I2 \<Longrightarrow> serves I2 I3 \<Longrightarrow> serves I1 I3"
  unfolding serves_def by auto

text \<open>The tables as one value: most of the driver leaves them alone.\<close>

definition tables where
  "tables I = (in_pendingOperations I, in_outcomes I, in_pendingRPCs I, in_rpcOutcomes I, in_nextRef I, in_dataPlaneAnswers I)"

lemma serves_tables: "tables I' = tables I \<Longrightarrow> serves I I'"
  by (simp add: tables_def serves_def operationsInv_def rpcsInv_def ticketOk_def)

lemma tables_simps [simp]:
  "tables (snd (guest m I)) = tables I" "tables (sendAnswer c e I) = tables I" "tables (sendRPCAnswer c z I) = tables I"
  "tables (I\<lparr>in_core := s\<rparr>) = tables I" "tables (I\<lparr>in_commands := cs\<rparr>) = tables I" "tables (I\<lparr>in_closeRequested := b\<rparr>) = tables I"
  "tables (I\<lparr>in_state := st, in_running := b1, in_stopped := b2\<rparr>) = tables I" "tables (I\<lparr>in_state := st\<rparr>) = tables I"
  by (simp_all add: tables_def guest_def sendAnswer_def sendRPCAnswer_def split: prod.splits)

lemma guest_tables: "guest m I = (r, I') \<Longrightarrow> tables I' = tables I"
  by (metis tables_simps(1) snd_conv)

lemma serves_guest: "serves I (snd (guest m I))"
  by (rule serves_tables) simp

lemma guest_serves: "guest m I = (r, I') \<Longrightarrow> serves I I'"
  using serves_guest [of I m] by simp

lemma serves_sendAnswer: "serves I I' \<Longrightarrow> serves I (sendAnswer c e I')"
  by (rule serves_trans [OF _ serves_tables]) simp_all

lemma serves_deliverOutcome:
  assumes "map_of (in_pendingOperations I) k = Some p"
  shows "serves I (sendOutcome (po_result p) x (I\<lparr>in_pendingOperations := AList.delete k (in_pendingOperations I)\<rparr>))"
  unfolding serves_def operationsInv_def rpcsInv_def ticketOk_def
  using assms by (simp add: sendOutcome_def tableInv_deliver leadsTo_deliver)

lemma serves_deliverRPC:
  assumes "map_of (in_pendingRPCs I) k = Some c"
  shows "serves I (sendRPCOutcome c x (I\<lparr>in_pendingRPCs := AList.delete k (in_pendingRPCs I)\<rparr>))"
  unfolding serves_def operationsInv_def rpcsInv_def ticketOk_def
  using assms tableInv_deliver [of id "in_pendingRPCs I" "in_rpcOutcomes I" "in_nextRef I" k c x] by (simp add: sendRPCOutcome_def)

section \<open>Driving\<close>

lemma serves_andThen:
  assumes "serves I0 (snd m)" "\<And>x I. serves I (snd (f x I))"
  shows "serves I0 (snd (andThen m f))"
  using assms by (auto simp: andThen_def split: prod.splits outcome.splits intro: serves_trans)

lemma serves_deliverCompletion: "serves I (snd (deliverCompletion M cp I))"
proof (cases "map_of (in_pendingOperations I) (cp_Operation cp)")
  case (Some p)
  obtain r I1 where g: "guest (TakeResult M cp) I = (r, I1)" by (metis surj_pair)
  have v: "tables I1 = tables I" using guest_tables [OF g] .
  then have "map_of (in_pendingOperations I1) (cp_Operation cp) = Some p" using Some by (simp add: tables_def)
  from serves_trans [OF serves_tables [OF v] serves_deliverOutcome [OF this]] serves_tables [OF v]
  show ?thesis by (auto simp: deliverCompletion_def Some g Let_def split: outcome.splits option.splits)
qed (simp add: deliverCompletion_def)

lemma serves_deliverCompletions: "serves I (snd (deliverCompletions M cps I))"
proof (induction cps arbitrary: I)
  case (Cons cp cps)
  show ?case using serves_deliverCompletion [of I M cp] Cons.IH
    by (auto split: prod.splits outcome.splits intro: serves_trans)
qed simp

lemma serves_drain: "serves I (snd (drainDataPlaneCompletions M I))"
  unfolding drain_andThen by (auto intro!: serves_andThen serves_guest serves_deliverCompletions)

lemma serves_takeRPCResponsesLoop: "serves I (snd (takeRPCResponsesLoop M order I))"
proof (induction M order I rule: takeRPCResponsesLoop.induct)
  case (2 M operation order I)
  show ?case
  proof (cases "map_of (in_pendingRPCs I) operation")
    case (Some pending)
    obtain r I1 where g: "guest (TakeRPCResponse M operation) I = (r, I1)" by (metis surj_pair)
    have v: "tables I1 = tables I" using guest_tables [OF g] .
    then have p: "map_of (in_pendingRPCs I1) operation = Some pending" using Some by (simp add: tables_def)
    note s = serves_tables [OF v] serves_trans [OF serves_tables [OF v]]
    show ?thesis
    proof (cases r)
      case (Ok response)
      then show ?thesis
      proof (cases response)
        case None
        with Ok have "serves I1 (snd (takeRPCResponsesLoop M order I1))" using 2 Some g by auto
        then show ?thesis using None Ok Some g s(2) by simp
      next
        case (Some answer)
        let ?I = "sendRPCOutcome pending (Ok answer) (I1\<lparr>in_pendingRPCs := AList.delete operation (in_pendingRPCs I1)\<rparr>)"
        have "serves ?I (snd (takeRPCResponsesLoop M order ?I))"
          using 2(3) [OF \<open>map_of (in_pendingRPCs I) operation = Some pending\<close> g [symmetric] Ok Some] by simp
        then have "serves I1 (snd (takeRPCResponsesLoop M order ?I))" using serves_trans [OF serves_deliverRPC [OF p]] by blast
        then show ?thesis using \<open>map_of (in_pendingRPCs I) operation = Some pending\<close> Some Ok g s(2) by simp
      qed
    qed (use Some g s in auto)
  qed (use 2 in simp)
qed simp

lemma serves_drive: "serves I (snd (drive M order notify I))"
proof -
  have rpc: "serves I (snd (takeRPCResponses M order I))" for I :: "'a instance_state"
    by (simp add: takeRPCResponses_def serves_takeRPCResponsesLoop)
  show ?thesis
    unfolding drive_def Let_def
  proof (intro serves_andThen)
    fix x :: unit and I :: "'a instance_state" and state :: int
    show "serves I (snd (drainDataPlaneCompletions M (I\<lparr>in_state := state, in_running := in_running I \<or> state = StateRunning,
        in_stopped := in_stopped I \<or> state = StateStopped\<rparr>)))"
      by (rule serves_trans [OF serves_tables serves_drain]) simp
  qed (auto intro: serves_guest rpc)
qed

lemma serves_then_drive: "serves I I' \<Longrightarrow> drive M order notify I' = (r, I'') \<Longrightarrow> serves I I''"
  using serves_trans [OF _ serves_drive [of I' M order notify]] by simp

section \<open>Commands\<close>

lemma tables_handleCommand: "tables (snd (handleCommand M request I)) = tables I"
  by (simp add: handleCommand_def split: commandKind.splits)

lemma serves_handleCommand: "handleCommand M request I' = (r, I'') \<Longrightarrow> serves I I' \<Longrightarrow> serves I I''"
  using serves_trans [OF _ serves_tables [OF tables_handleCommand [of M request I']]] by simp

lemma tables_sendBatch: "tables (snd (sendBatch M batch I)) = tables I"
proof (induction batch arbitrary: I)
  case (Cons request batch)
  then show ?case
    using tables_handleCommand [of M request I] by (simp add: Let_def case_prod_beta)
qed simp

lemma tables_answerBatch: "tables (answerBatch batch errs driveErr I) = tables I"
  by (induction batch errs driveErr I rule: answerBatch.induct) simp_all

lemma serves_handleFollowing:
  assumes "serves I I1"
  shows "serves I (snd (handleFollowing M order following deadline I1))"
proof (cases following)
  case (Some request)
  obtain r I2 where h: "handleCommand M request I1 = (r, I2)" by (metis surj_pair)
  obtain driven I3 where dr: "drive M order False I2 = (driven, I3)" by (metis surj_pair)
  have s: "serves I I2" using serves_handleCommand [OF h assms] .
  show ?thesis using serves_sendAnswer [OF s] serves_sendAnswer [OF serves_then_drive [OF s dr]]
    by (simp add: handleFollowing_def Some h dr Let_def split: option.splits)
qed (use assms in \<open>simp add: handleFollowing_def\<close>)

lemma serves_packetBatch: "serves I (snd (handlePacketBatch M order order' first deadline I))"
proof -
  obtain packets following rest where d: "drainPackets (maximumPacketIngressBatch - 1) (in_commands I) = (packets, following, rest)"
    by (metis surj_pair)
  obtain sendErrors I1 where b: "sendBatch M (first # packets) (I\<lparr>in_commands := rest\<rparr>) = (sendErrors, I1)" by (metis surj_pair)
  have "tables I1 = tables I" using tables_sendBatch [of M "first # packets" "I\<lparr>in_commands := rest\<rparr>"] b by simp
  then have s1: "serves I I1" by (rule serves_tables)
  obtain driven I2 where dr: "(if \<exists>e \<in> set sendErrors. e = None then drive M order False I1 else (Ok deadline, I1)) = (driven, I2)"
    by (metis surj_pair)
  have s2: "serves I I2" using dr s1 serves_then_drive [OF s1] by (auto split: if_splits)
  have "serves I (answerBatch (first # packets) sendErrors (errOf driven) I2)"
    using serves_trans [OF s2 serves_tables [OF tables_answerBatch]] .
  then show ?thesis
    unfolding handlePacketBatch_def Let_def d prod.case b dr by (auto intro: serves_handleFollowing)
qed

lemma serves_commandCase: "serves I (snd (commandCase M order order' request deadline I))"
proof -
  obtain r I1 where h: "handleCommand M request I = (r, I1)" by (metis surj_pair)
  obtain driven I2 where dr: "drive M order False I1 = (driven, I2)" by (metis surj_pair)
  have s: "serves I I1" using serves_handleCommand [OF h] by simp
  show ?thesis
    using serves_sendAnswer [OF s] serves_sendAnswer [OF serves_then_drive [OF s dr]] serves_packetBatch
    by (auto simp: commandCase_def Let_def h dr split: option.splits)
qed

lemma serves_wakeCase: "serves I (snd (wakeCase M order notify deadline I))"
  using serves_drive by (simp add: wakeCase_def case_prod_beta Let_def)

section \<open>Submissions\<close>

lemma serves_handleDataPlane:
  assumes "freshOperation request I" "handleDataPlaneCommand M request I = (response, I')"
  shows "serves I I' \<and> dr_outcome response = None \<and>
    (\<forall>opKind submission c. request = dataPlaneSubmit opKind submission c \<longrightarrow> fst (submission (in_core I)) \<noteq> Panic \<longrightarrow>
      dr_err response = None \<longrightarrow> (\<exists>t. dr_ticket response = Some t \<and> ticketOk I' t))"
proof (cases request)
  case (dataPlaneSubmit opKind submission c)
  obtain r I1 where g: "guest submission I = (r, I1)" by (metis surj_pair)
  have v: "tables I1 = tables I" using guest_tables [OF g] .
  have r: "fst (submission (in_core I)) = r" using g by (auto simp: guest_def split: prod.splits)
  show ?thesis
  proof (cases r)
    case (Ok operation)
    let ?ps = "AList.update operation \<lparr>po_kind = opKind, po_result = in_nextRef I1\<rparr> (in_pendingOperations I1)"
    have fresh: "map_of (in_pendingOperations I1) operation = None"
      using assms(1) v g Ok by (auto simp: freshOperation_def dataPlaneSubmit guest_def tables_def split: prod.splits)
    have eq: "response = \<lparr>dr_ticket = Some \<lparr>ot_id = operation, ot_result = in_nextRef I1\<rparr>, dr_outcome = None, dr_err = None\<rparr>"
      "I' = I1\<lparr>in_nextRef := Suc (in_nextRef I1), in_pendingOperations := ?ps\<rparr>"
      using assms(2) by (simp_all add: handleDataPlaneCommand_def dataPlaneSubmit g Ok Let_def)
    have "serves I1 I'"
      unfolding serves_def operationsInv_def rpcsInv_def ticketOk_def
      using fresh by (simp add: eq tableInv_add leadsTo_add(1) tableInv_mono)
    moreover have "ticketOk I' \<lparr>ot_id = operation, ot_result = in_nextRef I1\<rparr>"
      using leadsTo_add(2) [OF fresh, of po_result "\<lparr>po_kind = opKind, po_result = in_nextRef I1\<rparr>" "in_nextRef I1"] by (simp add: ticketOk_def eq)
    ultimately show ?thesis using serves_trans [OF serves_tables [OF v]] by (simp add: eq)
  next
    case (Err e)
    then show ?thesis using assms(2) serves_tables [OF v]
      by (auto simp: handleDataPlaneCommand_def dataPlaneSubmit g noTicket_def errOf_def)
  next
    case Panic
    then show ?thesis using assms(2) serves_tables [OF v] r
      by (auto simp: handleDataPlaneCommand_def dataPlaneSubmit g noTicket_def errOf_def)
  qed
qed (use assms(2) in \<open>auto simp: handleDataPlaneCommand_def noTicket_def Let_def split: prod.splits if_splits dest: guest_serves\<close>)

text \<open>An answer the driver gives to a submission: an error, an outcome, or a ticket that leads to one.\<close>

definition answerOk :: "'g instance_state \<Rightarrow> dataPlaneCommandResponse \<Rightarrow> bool" where
  "answerOk I response \<longleftrightarrow>
     dr_err response \<noteq> None \<or> dr_outcome response \<noteq> None \<or> (\<exists>t. dr_ticket response = Some t \<and> ticketOk I t)"

lemma answerOk_serves: "serves I I' \<Longrightarrow> answerOk I response \<Longrightarrow> answerOk I' response"
  by (auto simp: serves_def answerOk_def)

lemma dataPlaneCase_cases:
  assumes "freshOperation request I" "dataPlaneCase M order request deadline I = (r, I')"
  obtains response I2 where "I' = sendDataPlaneAnswer (dp_response request) response I2" "serves I I2"
    "\<And>opKind submission c. request = dataPlaneSubmit opKind submission c \<Longrightarrow> fst (submission (in_core I)) \<noteq> Panic \<Longrightarrow> answerOk I2 response"
proof -
  obtain response I1 where h: "handleDataPlaneCommand M request I = (response, I1)" by (metis surj_pair)
  note s = serves_handleDataPlane [OF assms(1) h]
  obtain driven I2 where dr: "drive M order False I1 = (driven, I2)" by (metis surj_pair)
  have s2: "serves I1 I2" using serves_then_drive [OF serves_refl dr] .
  show thesis
  proof (cases "dr_err response = None")
    case False
    then show thesis using assms(2) s that [of response I1] by (auto simp: dataPlaneCase_def Let_def h answerOk_def)
  next
    case True
    let ?response = "if errOf driven \<noteq> None then response\<lparr>dr_err := errOf driven\<rparr>
        else response\<lparr>dr_outcome := takeOutcome (dr_ticket response) I2\<rparr>"
    have "I' = sendDataPlaneAnswer (dp_response request) ?response I2"
      using assms(2) True by (auto simp: dataPlaneCase_def Let_def h dr)
    moreover have "answerOk I2 ?response"
      if "request = dataPlaneSubmit opKind submission c" "fst (submission (in_core I)) \<noteq> Panic" for opKind submission c
      using s that True s2 by (auto simp: answerOk_def serves_def)
    ultimately show thesis using that s serves_trans [OF _ s2] by blast
  qed
qed

lemma serves_handleRPC:
  assumes "freshRPC M request I" "handleRPCCommand M request I = (response, I')"
  shows "serves I I'"
proof (cases request)
  case (rpcSubmit encoded c)
  obtain r I1 where g: "guest (SubmitRPC M encoded) I = (r, I1)" by (metis surj_pair)
  have v: "tables I1 = tables I" using guest_tables [OF g] .
  show ?thesis
  proof (cases r)
    case (Ok operation)
    let ?ps = "AList.update operation (in_nextRef I1) (in_pendingRPCs I1)"
    have fresh: "map_of (in_pendingRPCs I1) operation = None"
      using assms(1) v g Ok by (auto simp: freshRPC_def rpcSubmit guest_def tables_def split: prod.splits)
    have eq: "I' = I1\<lparr>in_nextRef := Suc (in_nextRef I1), in_pendingRPCs := ?ps\<rparr>"
      using assms(2) by (simp add: handleRPCCommand_def rpcSubmit g Ok Let_def)
    have "serves I1 I'"
      unfolding serves_def operationsInv_def rpcsInv_def ticketOk_def
      using tableInv_add [of id "in_pendingRPCs I1" "in_rpcOutcomes I1" "in_nextRef I1" operation "in_nextRef I1"] fresh
      by (auto simp: eq intro: tableInv_mono leadsTo_mono)
    then show ?thesis using serves_trans [OF serves_tables [OF v]] by blast
  qed (use assms(2) serves_tables [OF v] in \<open>auto simp: handleRPCCommand_def rpcSubmit g\<close>)
next
  case (rpcFree operation c)
  obtain r I1 where g: "guest (FreeRPCOperation M operation) I = (r, I1)" by (metis surj_pair)
  have v: "serves I I1" using serves_tables [OF guest_tables [OF g]] .
  have "serves I1 (I1\<lparr>in_pendingRPCs := AList.delete operation (in_pendingRPCs I1)\<rparr>)"
    unfolding serves_def operationsInv_def rpcsInv_def ticketOk_def by (simp add: tableInv_delete)
  from serves_trans [OF v this] v show ?thesis
    using assms(2) by (auto simp: handleRPCCommand_def rpcFree g split: if_splits outcome.splits)
qed (use assms(2) in \<open>simp add: handleRPCCommand_def\<close>)

lemma serves_rpcCase:
  assumes "freshRPC M request I"
  shows "serves I (snd (rpcCase M order request deadline I))"
proof -
  obtain response I1 where h: "handleRPCCommand M request I = (response, I1)" by (metis surj_pair)
  have s: "serves I I1" using serves_handleRPC [OF assms h] .
  obtain driven I2 where dr: "drive M order False I1 = (driven, I2)" by (metis surj_pair)
  have a: "serves I (sendRPCAnswer c y I')" if "serves I I'" for c y I'
    using serves_trans [OF that serves_tables] by simp
  show ?thesis using a [OF s] a [OF serves_then_drive [OF s dr]] by (simp add: rpcCase_def Let_def h dr)
qed

section \<open>The end of the driver\<close>

lemma failOperations_fold:
  "fold (\<lambda>(operation, pending) I. sendOutcome (po_result pending) x I) ps I =
     I\<lparr>in_outcomes := \<lambda>c. in_outcomes I c @ map (\<lambda>_. x) (filter (\<lambda>q. po_result (snd q) = c) ps)\<rparr>"
  by (induction ps arbitrary: I) (auto simp: sendOutcome_def sendOn_def fun_eq_iff)

lemma failRPCs_fold:
  "fold (\<lambda>(operation, pending) I. sendRPCOutcome pending x I) ps I =
     I\<lparr>in_rpcOutcomes := \<lambda>c. in_rpcOutcomes I c @ map (\<lambda>_. x) (filter (\<lambda>q. id (snd q) = c) ps)\<rparr>"
  by (induction ps arbitrary: I) (auto simp: sendRPCOutcome_def sendOn_def fun_eq_iff)

lemma serves_failPendingOperations: "serves I (failPendingOperations err I)"
  unfolding serves_def operationsInv_def rpcsInv_def ticketOk_def failPendingOperations_def failOperations_fold
  by (auto intro: tableInv_fail leadsTo_fail)

lemma serves_failPendingRPCs: "serves I (failPendingRPCs err I)"
  unfolding serves_def operationsInv_def rpcsInv_def ticketOk_def failPendingRPCs_def failRPCs_fold
  by (auto intro: tableInv_fail)

lemma serves_finishRun:
  assumes "finishRun M runErr I r = (I', r')"
  shows "serves I I' \<and> in_done I' \<and> in_pendingOperations I' = [] \<and> in_pendingRPCs I' = []"
proof -
  let ?I = "failPendingRPCs NetErrClosed (failPendingOperations NetErrClosed (I\<lparr>in_state := StateStopped\<rparr>))"
  have s0: "serves I ?I"
    by (rule serves_trans [OF serves_trans [OF serves_tables serves_failPendingOperations] serves_failPendingRPCs]) simp
  have e0: "in_pendingOperations ?I = []" "in_pendingRPCs ?I = []"
    by (simp_all add: failPendingRPCs_def failPendingOperations_def failRPCs_fold)
  obtain y I1 where g: "guest (Core_Drop M) ?I = (y, I1)" by (metis surj_pair)
  have e1: "in_pendingOperations I1 = []" "in_pendingRPCs I1 = []"
    using guest_tables [OF g] e0 by (simp_all add: tables_def)
  have I': "I' = I1\<lparr>in_terminalErr := errors_Join [runErr, errOf y], in_done := True\<rparr>"
    using assms g by (simp add: finishRun_def instance_shutdown_def Let_def)
  have "serves I1 I'" unfolding I' by (rule serves_tables) (simp add: tables_def)
  with serves_trans [OF s0 guest_serves [OF g]] have "serves I I'" by (rule serves_trans)
  then show ?thesis using e1 by (simp add: I')
qed

end
