(* ===== verification/EngineBatch.thy ===== *)
theory EngineBatch
  imports EngineCaller
begin

text \<open>
  Commands of an instance: how the driver takes packets in batches and answers each of them, and what a failed command does to
  the deadline. Also the bounds of timeouts and the journal of events.
\<close>

section \<open>Driving leaves commands and their answers alone\<close>

definition commandView where "commandView I = (in_commands I, in_answers I)"

lemma commandView_simps [simp]:
  "commandView (snd (guest m I)) = commandView I" "commandView (sendOutcome c x I) = commandView I"
  "commandView (sendRPCOutcome c y I) = commandView I" "commandView (I\<lparr>in_pendingOperations := ps\<rparr>) = commandView I"
  "commandView (I\<lparr>in_pendingRPCs := qs\<rparr>) = commandView I"
  "commandView (I\<lparr>in_state := st, in_running := b1, in_stopped := b2\<rparr>) = commandView I"
  by (simp_all add: commandView_def guest_def sendOutcome_def sendRPCOutcome_def split: prod.splits)

lemma guest_commandView: "guest m I = (r, I') \<Longrightarrow> commandView I' = commandView I"
  by (metis commandView_simps(1) snd_conv)

lemma andThen_commandView:
  "commandView (snd m) = v \<Longrightarrow> (\<And>x I. commandView I = v \<Longrightarrow> commandView (snd (f x I)) = v) \<Longrightarrow> commandView (snd (andThen m f)) = v"
  by (auto simp: andThen_def split: prod.splits outcome.splits)

lemma deliverCompletion_commandView: "commandView (snd (deliverCompletion M cp I)) = commandView I"
  by (auto simp: deliverCompletion_def Let_def split: option.splits prod.splits outcome.splits dest!: guest_commandView)

lemma deliverCompletions_commandView: "commandView (snd (deliverCompletions M cps I)) = commandView I"
proof (induction cps arbitrary: I)
  case (Cons cp cps)
  obtain r I1 where d: "deliverCompletion M cp I = (r, I1)" by (metis surj_pair)
  then have "commandView I1 = commandView I" using deliverCompletion_commandView [of M cp I] by simp
  then show ?case using Cons.IH [of I1] by (cases r) (simp_all add: d)
qed simp

lemma drain_commandView: "commandView (snd (drainDataPlaneCompletions M I)) = commandView I"
  unfolding drain_andThen by (auto intro!: andThen_commandView simp: deliverCompletions_commandView)

lemma takeRPCResponsesLoop_commandView: "commandView (snd (takeRPCResponsesLoop M order I)) = commandView I"
proof (induction M order I rule: takeRPCResponsesLoop.induct)
  case (2 M operation order I)
  show ?case
  proof (cases "map_of (in_pendingRPCs I) operation")
    case (Some pending)
    obtain r I1 where g: "guest (TakeRPCResponse M operation) I = (r, I1)" by (metis surj_pair)
    show ?thesis
    proof (cases r)
      case (Ok response)
      with 2 Some g guest_commandView [OF g] show ?thesis by (cases response) auto
    qed (use Some g guest_commandView [OF g] in auto)
  qed (use 2 in simp)
qed simp

lemma drive_commandView: "commandView (snd (drive M order notify I)) = commandView I"
  unfolding drive_def Let_def
  by (intro andThen_commandView)
    (auto simp: drain_commandView takeRPCResponses_def takeRPCResponsesLoop_commandView)

lemma drive_commands: "drive M order notify I = (r, I') \<Longrightarrow> in_commands I' = in_commands I \<and> in_answers I' = in_answers I"
  using drive_commandView [of M order notify I] by (simp add: commandView_def)

lemma handleCommand_commands:
  "handleCommand M request I = (r, I') \<Longrightarrow> in_commands I' = in_commands I \<and> in_answers I' = in_answers I"
  by (auto simp: handleCommand_def commandView_def split: commandKind.splits dest: guest_commandView)

lemma sendBatch_commands:
  "sendBatch M batch I = (errs, I') \<Longrightarrow> in_commands I' = in_commands I \<and> in_answers I' = in_answers I \<and> length errs = length batch"
proof (induction batch arbitrary: I I' errs)
  case (Cons request batch)
  obtain r I1 where h: "handleCommand M request I = (r, I1)" by (metis surj_pair)
  obtain errs' I2 where s: "sendBatch M batch I1 = (errs', I2)" by (metis surj_pair)
  show ?case using Cons.prems handleCommand_commands [OF h] Cons.IH [OF s] by (auto simp: h s Let_def)
qed simp

section \<open>Batches of packets\<close>

lemma drainPackets_split:
  "drainPackets room commands = (batch, following, rest) \<Longrightarrow>
    commands = batch @ (case following of None \<Rightarrow> [] | Some request \<Rightarrow> [request]) @ rest \<and> length batch \<le> room \<and>
    (\<forall>request \<in> set batch. cm_kind request = commandSendPacket) \<and>
    (\<forall>request. following = Some request \<longrightarrow> cm_kind request \<noteq> commandSendPacket)"
proof (induction room commands arbitrary: batch following rest rule: drainPackets.induct)
  case (3 room request commands)
  obtain batch' following' rest' where d: "drainPackets room commands = (batch', following', rest')" by (metis surj_pair)
  show ?case
  proof (cases "cm_kind request = commandSendPacket")
    case True
    then have "batch = request # batch'" "following = following'" "rest = rest'" using 3(2) d by simp_all
    then show ?thesis using 3(1) [OF _ d] True by auto
  next
    case False
    then show ?thesis using 3(2) by auto
  qed
qed auto

text \<open>What a batch of answers adds to the channels.\<close>

lemma answerBatch_answers:
  assumes "length errs = length batch"
  shows "in_answers (answerBatch batch errs driveErr I) c = in_answers I c @
      map (\<lambda>(request, e). case e of Some e \<Rightarrow> Some e | None \<Rightarrow> driveErr) (filter (\<lambda>(request, e). cm_response request = c) (zip batch errs))"
    "in_commands (answerBatch batch errs driveErr I) = in_commands I"
  using assms
proof (induction batch errs arbitrary: I rule: list_induct2')
  case (4 request batch e errs)
  { case 1 then show ?case using 4(1) by (simp add: sendAnswer_def sendOn_def) }
  { case 2 then show ?case using 4(2) by (simp add: sendAnswer_def) }
qed simp_all

lemma filter_distinct_channel:
  assumes "distinct (map cm_response batch)" "length errs = length batch" "n < length batch"
  shows "filter (\<lambda>(request, e). cm_response request = cm_response (batch ! n)) (zip batch errs) = [(batch ! n, errs ! n)]"
  using assms
proof (induction batch errs arbitrary: n rule: list_induct2')
  case (4 request batch e errs)
  have none: "filter (\<lambda>(request, e). cm_response request = c) (zip batch errs) = []" if "c \<notin> cm_response ` set batch" for c
    using that by (auto simp: filter_empty_conv dest: set_zip_leftD)
  show ?case
  proof (cases n)
    case 0
    then show ?thesis using 4 none [of "cm_response request"] by auto
  next
    case (Suc m)
    then have "cm_response request \<noteq> cm_response (batch ! m)" using 4 by auto
    then show ?thesis using 4 Suc by simp
  qed
qed simp_all

lemma handleFollowing_answers:
  assumes "handleFollowing M order following deadline I = (r, I')"
  shows "in_commands I' = in_commands I"
    "c \<notin> cm_response ` set_option following \<Longrightarrow> in_answers I' c = in_answers I c"
    "following = Some request \<Longrightarrow> length (in_answers I' (cm_response request)) = Suc (length (in_answers I (cm_response request)))"
proof -
  have "in_commands I' = in_commands I \<and> (c \<notin> cm_response ` set_option following \<longrightarrow> in_answers I' c = in_answers I c) \<and>
    (following = Some request \<longrightarrow> length (in_answers I' (cm_response request)) = Suc (length (in_answers I (cm_response request))))"
  proof (cases following)
    case (Some request)
    obtain r1 I1 where h: "handleCommand M request I = (r1, I1)" by (metis surj_pair)
    obtain r2 I2 where d: "drive M order False I1 = (r2, I2)" by (metis surj_pair)
    show ?thesis
      using assms handleCommand_commands [OF h] drive_commands [OF d]
      by (auto simp: handleFollowing_def Some h d sendAnswer_def sendOn_def split: option.splits)
  qed (use assms in \<open>simp add: handleFollowing_def\<close>)
  then show "in_commands I' = in_commands I"
    "c \<notin> cm_response ` set_option following \<Longrightarrow> in_answers I' c = in_answers I c"
    "following = Some request \<Longrightarrow> length (in_answers I' (cm_response request)) = Suc (length (in_answers I (cm_response request)))"
    by simp_all
qed

text \<open>
  The packets of a batch are handed to the guest one after the other: \<open>sentPackets\<close> is the guest after the first of them,
  \<open>sendResult\<close> what the guest says to the one with number \<open>n\<close>.
\<close>

definition sentPackets :: "'g module \<Rightarrow> command list \<Rightarrow> Core \<times> 'g \<Rightarrow> Core \<times> 'g" where
  "sentPackets M = fold (\<lambda>request s. snd (Core_SendPacket M (cm_packet request) s))"

definition sendResult :: "'g module \<Rightarrow> command list \<Rightarrow> Core \<times> 'g \<Rightarrow> nat \<Rightarrow> unit outcome" where
  "sendResult M batch s n = fst (Core_SendPacket M (cm_packet (batch ! n)) (sentPackets M (take n batch) s))"

lemma sendBatch_spec:
  assumes "\<forall>request \<in> set batch. cm_kind request = commandSendPacket"
  shows "sendBatch M batch I = (map (\<lambda>n. errOf (sendResult M batch (in_core I) n)) [0..<length batch],
    I\<lparr>in_core := sentPackets M batch (in_core I)\<rparr>)"
  using assms
proof (induction batch arbitrary: I)
  case (Cons request batch)
  obtain r s where g: "Core_SendPacket M (cm_packet request) (in_core I) = (r, s)" by (metis surj_pair)
  then have h: "handleCommand M request I = (r, I\<lparr>in_core := s\<rparr>)" using Cons.prems by (simp add: handleCommand_def guest_def)
  have n: "sendResult M (request # batch) (in_core I) (Suc n) = sendResult M batch s n" for n
    by (simp add: sendResult_def sentPackets_def g)
  show ?case using Cons.IH [of "I\<lparr>in_core := s\<rparr>"] Cons.prems
    by (simp add: h map_upt_Suc n sentPackets_def g del: upt_Suc) (simp add: sendResult_def sentPackets_def g)
qed (simp add: sentPackets_def)


text \<open>Two packets and a command to stop, behind them another packet.\<close>

definition demoCommand :: "commandKind \<Rightarrow> ref \<Rightarrow> command" where
  "demoCommand k c = \<lparr>cm_kind = k, cm_packet = [1], cm_response = c\<rparr>"


section \<open>Deadlines\<close>

text \<open>
  A finding: the deadline the guest gives is relative to the time of the answer, but the driver sets its timer to the whole of it
  again after a command that failed; so a series of failing commands keeps the guest from being driven in time.
\<close>

lemma failed_command_restarts_deadline:
  assumes "cm_kind request \<noteq> commandSendPacket" "handleCommand M request I = (Err e, I1)"
  shows "commandCase M order order' request deadline I = ((deadline, None), sendAnswer (cm_response request) (Some e) I1)"
  using assms by (simp add: commandCase_def errOf_def)

text \<open>Timeouts are rounded up to milliseconds, so an operation never ends before its deadline, and at most 1 ms after it.\<close>

lemma ceilMillis_bounds: "remaining \<le> ceilMillis remaining * Millisecond \<and> ceilMillis remaining * Millisecond < remaining + Millisecond"
proof -
  define q r where "q = remaining div Millisecond" and "r = remaining mod Millisecond"
  have "remaining = q * Millisecond + r" by (simp add: q_def r_def)
  moreover have "0 \<le> r" "r < Millisecond" by (simp_all add: r_def Millisecond_def)
  moreover have "ceilMillis remaining = (if r \<noteq> 0 then q + 1 else q)" by (simp add: ceilMillis_def Let_def q_def r_def)
  ultimately show ?thesis by (auto simp: distrib_right)
qed

lemma timeoutFromDeadline_bounds:
  assumes "timeoutFromDeadline (Remaining remaining) = Inr millis"
  shows "0 < remaining \<and> 0 < millis \<and> remaining \<le> millis * Millisecond \<and> millis * Millisecond < remaining + Millisecond"
proof -
  have "0 < remaining" "millis = ceilMillis remaining" using assms by (auto simp: timeoutFromDeadline_def split: if_splits)
  moreover have "0 < ceilMillis remaining * Millisecond" using ceilMillis_bounds [of remaining] \<open>0 < remaining\<close> by linarith
  ultimately show ?thesis using ceilMillis_bounds [of remaining] by (simp add: Millisecond_def zero_less_mult_iff)
qed

text \<open>The timer never overflows: what it is set to is the deadline, cut off at the largest duration.\<close>

lemma deadlineTimer_range: "0 \<le> deadline \<Longrightarrow> deadlineTimer deadline = Some d \<Longrightarrow> 0 \<le> d \<and> d \<le> MaxInt64 \<and> d \<le> deadline * Millisecond"
  by (auto simp: deadlineTimer_def MaxInt64_def Millisecond_def split: if_splits)

section \<open>The journal of events\<close>

text \<open>The journal holds the last 256 messages, in the order they came.\<close>

lemma journal_add_last:
  assumes "length events \<le> instanceEventQueueCapacity"
  shows "journal_add kind message events =
    (let all = events @ [if message = [] then kind else message] in drop (length all - instanceEventQueueCapacity) all)"
proof (cases "length events = instanceEventQueueCapacity")
  case True
  then obtain x xs where "events = x # xs" by (cases events) (auto simp: instanceEventQueueCapacity_def)
  then show ?thesis using True by (simp add: journal_add_def Let_def)
qed (use assms in \<open>simp add: journal_add_def Let_def\<close>)

lemma plus_minus_Suc: "Suc n - (n - k + k) + (n - k) = Suc n - (k :: nat)"
  by arith

lemma journal_last_256:
  "fold (\<lambda>(kind, message) events. journal_add kind message events) posted [] =
     (let all = map (\<lambda>(kind, message). if message = [] then kind else message) posted
      in drop (length all - instanceEventQueueCapacity) all)"
proof (induction posted rule: rev_induct)
  case (snoc event posted)
  let ?all = "map (\<lambda>(kind, message). if message = [] then kind else message) posted"
  obtain kind message where e: "event = (kind, message)" by (cases event)
  have "journal_add kind message (drop (length ?all - instanceEventQueueCapacity) ?all) =
      drop (Suc (length ?all) - instanceEventQueueCapacity) (?all @ [if message = [] then kind else message])"
    using plus_minus_Suc by (subst journal_add_last) (auto simp: Let_def)
  then show ?case using snoc by (simp add: e Let_def)
qed simp

end
