(* ===== verification/CoreTotal.thy ===== *)
theory CoreTotal
  imports CoreSpec
begin

text \<open>
  No call of the wrapper panics, whatever the guest answers: each is built of calls of the guest and of readers of its memory
  that have been checked to fit. The calculus has a rule for every way the calls are put together.
\<close>

section \<open>The calculus\<close>

lemma noPanicI: "(\<And>s. fst (m s) \<noteq> Panic) \<Longrightarrow> noPanic m"
  by (simp add: noPanic_def)

lemma noPanic_bind_Ok: "noPanic m \<Longrightarrow> (\<And>x s s'. m s = (Ok x, s') \<Longrightarrow> noPanic (f x)) \<Longrightarrow> noPanic (bindA m f)"
  unfolding noPanic_def bindA_def by (auto split: prod.splits outcome.splits) (metis fst_conv)+

lemma noPanic_read:
  assumes "readExact M" "\<And>wire. length wire = unat n \<Longrightarrow> noPanic (f wire)"
  shows "noPanic (bindA (readMemory M p n message) f)"
  by (rule noPanic_bind_Ok [OF noPanic_simple(4)]) (auto dest: readMemory_Ok [OF assms(1)] intro: assms(2))

lemma noPanic_lift: "x \<noteq> Panic \<Longrightarrow> noPanic (liftA x)"
  by (simp add: noPanic_def liftA_def)

lemma noPanic_wrap: "noPanic m \<Longrightarrow> noPanic (wrapA message m)"
  unfolding noPanic_def wrapA_def by (auto split: prod.splits outcome.splits) (metis fst_conv)+

lemma noPanic_try: "noPanic m \<Longrightarrow> noPanic (tryA m)"
  unfolding noPanic_def tryA_def by (auto split: prod.splits outcome.splits) (metis fst_conv)+

lemma noPanic_memory: "noPanic (modifyA f)" "noPanic (writeMemory M p xs message)"
  by (auto simp: noPanic_def modifyA_def writeMemory_def split: option.splits)

lemma noPanic_split: "(\<And>a b. x = (a, b) \<Longrightarrow> noPanic (f a b)) \<Longrightarrow> noPanic (case x of (a, b) \<Rightarrow> f a b)"
  by (cases x) simp

lemma noPanic_Let: "noPanic (f x) \<Longrightarrow> noPanic (Let x f)"
  by (simp add: Let_def)

lemma noPanic_option: "noPanic f \<Longrightarrow> (\<And>e. noPanic (g e)) \<Longrightarrow> noPanic (case x of None \<Rightarrow> f | Some e \<Rightarrow> g e)"
  by (cases x) simp_all

lemmas noPanic_rules = noPanic_simple(1-4) noPanic_callOne noPanic_cleanup noPanic_wrap noPanic_try noPanic_memory noPanic_split
  noPanic_Let noPanic_option noPanic_simple(5) noPanic_bind

lemma noPanic_callCached: "noPanic (callCached M name cached store params)"
proof -
  have "noPanic (resolveFunction M name)" "noPanic (callGuestFunction M name f params)" for f
    by (auto simp: noPanic_def resolveFunction_def callGuestFunction_def Let_def split: option.splits prod.splits)
  then show ?thesis unfolding callCached_def by (intro noPanic_rules) auto
qed

lemma noPanic_allocate: "noPanic (allocate M n)" "noPanic (free M p)"
  unfolding allocate_def free_def by (rule noPanic_rules)+

lemma noPanic_ensure:
  "noPanic (ensureBuffer M b st message n)" "noPanic (ensurePacketBuffer M n)" "noPanic (ensureDataPlaneInput M n)"
  "noPanic (ensureDataPlaneOutput M n)" "noPanic (ensureDataPlaneAddress M)"
proof -
  show b: "noPanic (ensureBuffer M b st message n)" for b st message
    unfolding ensureBuffer_def by (rule noPanic_rules noPanic_allocate)+
  show "noPanic (ensurePacketBuffer M n)" "noPanic (ensureDataPlaneInput M n)" "noPanic (ensureDataPlaneOutput M n)"
    unfolding ensurePacketBuffer_def ensureDataPlaneInput_def ensureDataPlaneOutput_def by (rule b)+
  show "noPanic (ensureDataPlaneAddress M)"
    unfolding ensureDataPlaneAddress_def by (rule noPanic_rules noPanic_allocate)+
qed

lemma noPanic_errorMessage: "noPanic (errorMessage M h)"
  using errorMessage_no_panic by (rule noPanicI)

lemma noPanic_statusError: "noPanic (statusError M)" "noPanic (web_statusError M)"
  unfolding statusError_def web_statusError_def by (rule noPanic_rules noPanic_errorMessage)+

lemma noPanic_dataPlaneStatusError: "noPanic (dataPlaneStatusError M status)"
proof (rule noPanicI)
  fix s show "fst (dataPlaneStatusError M status s) \<noteq> Panic"
    using noPanic_statusError(1) [of M, unfolded noPanic_def, rule_format, of s] errorMessage_no_panic [of M "core_handle (fst s)" s]
    by (auto simp: dataPlaneStatusError_def failA_def split: prod.splits outcome.splits)
qed

lemmas noPanic_errors = noPanic_statusError noPanic_dataPlaneStatusError

lemmas noPanic_calls = noPanic_callCached noPanic_allocate noPanic_ensure noPanic_errorMessage noPanic_errors

section \<open>The calls\<close>

lemma noPanic_statuses:
  "noPanic (callStatus M name)" "noPanic (dataPlaneCallStatus M name params)" "noPanic (SetResourceDeadline M resource direction timeout)"
  "noPanic (FreeRPCOperation M operation)"
  unfolding callStatus_def dataPlaneCallStatus_def SetResourceDeadline_def FreeRPCOperation_def
  by (rule noPanic_rules noPanic_calls)+

lemma noPanic_life:
  "noPanic (Core_Create M envelope packetSink eventSink)" "noPanic (Core_Start M)" "noPanic (Core_Stop M)" "noPanic (Core_Drive M)"
  "noPanic (Core_NotifyCompletions M)" "noPanic (Core_State M)" "noPanic (Core_NextDeadline M)" "noPanic (Core_SendPacket M packet)"
  unfolding Core_Create_def Core_Start_def Core_Stop_def Core_Drive_def Core_NotifyCompletions_def Core_State_def
    Core_NextDeadline_def Core_SendPacket_def
  by (rule noPanic_rules noPanic_calls noPanic_statuses)+

lemma noPanic_Drop: "noPanic (Core_Drop M)"
  unfolding Core_Drop_def releaseBuffer_def by (rule noPanic_rules noPanic_calls noPanic_statuses)+

lemma noPanic_writeInput: "noPanic (writeInput M data)"
proof -
  have "noPanic (\<lambda>s. case m_write M (snd s) p data of None \<Rightarrow> bindA (tryA (free M p)) (\<lambda>_. failA e) s | Some g \<Rightarrow> (Ok p, fst s, g))" for p e
  proof (rule noPanicI)
    fix s
    have "noPanic (bindA (tryA (free M p)) (\<lambda>_. failA e) :: ('a, u32) act)" by (rule noPanic_rules noPanic_calls)+
    then show "fst (case m_write M (snd s) p data of None \<Rightarrow> bindA (tryA (free M p)) (\<lambda>_. failA e) s | Some g \<Rightarrow> (Ok p, fst s, g)) \<noteq> Panic"
      by (cases "m_write M (snd s) p data") (simp_all add: noPanic_def del: split_paired_All)
  qed
  then show ?thesis unfolding writeInput_def by (intro noPanic_rules noPanic_calls)
qed

lemma Uint64_no_panic: "length wire = 8 \<Longrightarrow> Uint64 wire \<noteq> Panic"
  using Uint64_total [of wire] by fastforce

lemma noPanic_submit: "readExact M \<Longrightarrow> noPanic (submit M name params)"
  unfolding submit_def
  by ((rule noPanic_read, assumption) | (rule noPanic_lift, rule Uint64_no_panic, simp add: operationIDLength_def)
    | rule noPanic_rules noPanic_calls)+

lemma noPanic_submits:
  assumes "readExact M"
  shows "noPanic (SubmitTCPBind M port timeout)" "noPanic (SubmitTCPAccept M listener timeout)" "noPanic (SubmitTCPRead M stream maximum)"
    "noPanic (SubmitUDPBind M port timeout)" "noPanic (SubmitUDPReceive M socket maximum)"
  unfolding SubmitTCPBind_def SubmitTCPAccept_def SubmitTCPRead_def SubmitUDPBind_def SubmitUDPReceive_def
  by (rule noPanic_submit [OF assms])+

lemma encodeSocketAddress_no_panic: "encodeSocketAddress_core address \<noteq> Panic"
  by (auto simp: encodeSocketAddress_core_wire)

lemma noPanic_dataSubmits:
  assumes "readExact M"
  shows "noPanic (SubmitTCPConnect M peer timeout)" "noPanic (SubmitTCPWrite M stream chunk)" "noPanic (SubmitUDPSend M socket peer buffer)"
  unfolding SubmitTCPConnect_def submitWithInput_def SubmitTCPWrite_def SubmitUDPSend_def
  by (rule noPanic_lift encodeSocketAddress_no_panic noPanic_submit [OF assms] noPanic_writeInput noPanic_rules noPanic_calls)+

lemma noPanic_DrainCompletions: "noPanic (DrainCompletions M maximum)"
  unfolding DrainCompletions_def
  by (rule noPanic_lift decodeCompletions_no_panic noPanic_rules noPanic_calls)+

lemma noPanic_takeFixed:
  "noPanic (takeFixedResult M c name n)" "noPanic (takeStreamResult M c)" "noPanic (takeBindResult M c)" "noPanic (takeLengthResult M c name)"
  unfolding takeFixedResult_def takeStreamResult_def takeBindResult_def takeLengthResult_def
  by (rule noPanic_lift decodeStreamResult_no_panic decodeBindResult_no_panic noPanic_rules noPanic_calls)+

lemma noPanic_takeVariable: "noPanic (takeVariableResult M c name n)"
  unfolding takeVariableResult_def by (rule noPanic_rules noPanic_calls)+

lemma takeVariableResult_metadata:
  assumes "readExact M" "takeVariableResult M c name n s = (Ok (data, metadata), s')"
  shows "length metadata = unat n"
  using assms(2)
  by (auto simp: takeVariableResult_def bindA_Ok Let_def split: if_splits dest!: readMemory_Ok [OF assms(1)])

lemma noPanic_takeTCPRead: "readExact M \<Longrightarrow> noPanic (takeTCPReadResult M c)"
  unfolding takeTCPReadResult_def
  by (rule noPanic_bind_Ok [OF noPanic_takeVariable], rule noPanic_split, rule noPanic_bind [OF noPanic_lift])
    (auto simp: index_def tcpReadMetadataLength_def dest!: takeVariableResult_metadata intro!: noPanic_rules)

lemma noPanic_takeUDPReceive: "readExact M \<Longrightarrow> noPanic (takeUDPReceiveResult M c)"
  unfolding takeUDPReceiveResult_def
  by (rule noPanic_bind_Ok [OF noPanic_takeVariable], rule noPanic_split, rule noPanic_bind [OF noPanic_lift], (rule_tac [2] noPanic_bind [OF noPanic_lift])?)
    (auto simp: index_def slice_Ok udpReceiveMetadataLength_def socketAddressLength_def obind_Panic_iff decodeSocketAddress_core_no_panic
      dest!: takeVariableResult_metadata intro!: noPanic_rules)

lemma noPanic_TakeResult: "readExact M \<Longrightarrow> noPanic (TakeResult M c)"
  unfolding TakeResult_def
  by (rule noPanic_takeFixed noPanic_takeTCPRead noPanic_takeUDPReceive noPanic_rules noPanic_calls | assumption)+

lemma noPanic_SubmitRPC: "readExact M \<Longrightarrow> noPanic (SubmitRPC M request)"
  unfolding SubmitRPC_def
  by ((rule noPanic_read, assumption) | (rule noPanic_lift, rule Uint64_no_panic, simp add: rpcOperationIDBytes_def)
    | rule noPanic_rules noPanic_calls)+

lemma noPanic_TakeRPCResponse: "noPanic (TakeRPCResponse M operation)"
  unfolding TakeRPCResponse_def by (rule noPanic_rules noPanic_calls)+

lemma Core_New_no_panic: "fst (Core_New M g) \<noteq> Panic"
proof -
  have "noPanic (bindA (wrapA ''validate EasyTier data plane ABI: %w'' (validateDataPlaneABI M)) (\<lambda>_.
     wrapA ''validate EasyTier RPC ABI: %w'' (validateRPCABI M)))"
    unfolding validateDataPlaneABI_def validateRPCABI_def by (rule noPanic_rules)+
  then show ?thesis by (simp add: Core_New_def noPanic_def del: split_paired_All)
qed

lemma noPanic_web:
  "noPanic (WebClient_Drive M)" "noPanic (WebClient_NotifyCompletions M)" "noPanic (WebClient_NextDeadline M)"
  "noPanic (WebClient_IsConnected M)"
  unfolding WebClient_Drive_def WebClient_NotifyCompletions_def WebClient_NextDeadline_def WebClient_IsConnected_def
  by (rule noPanic_rules noPanic_calls)+

lemma noPanicD: "noPanic m \<Longrightarrow> m s \<noteq> (Panic, s')"
  unfolding noPanic_def by (metis fst_conv)

lemma WebClient_Create_no_panic: "fst (WebClient_Create M envelope flags s) \<noteq> Panic"
proof -
  have body: "noPanic (cleanupBuffer M pointer
      (bindA (writeMemory M pointer envelope ''write EasyTier WebClient config to guest memory'') (\<lambda>_.
       bindA (callOne M ''easytier_web_client_create'' [ucast pointer, of_nat (length envelope)]) (\<lambda>result.
       if (ucast result :: u32) \<noteq> 0 then web_statusError M else returnA ()))))" for pointer
    by (rule noPanic_rules noPanic_calls)+
  obtain p s1 where a: "allocate M (of_nat (length envelope)) s = (p, s1)" by (metis surj_pair)
  then have "p \<noteq> Panic" using noPanicD [OF noPanic_allocate(1)] by blast
  moreover have "fst (cleanupBuffer M pointer
      (bindA (writeMemory M pointer envelope ''write EasyTier WebClient config to guest memory'') (\<lambda>_.
       bindA (callOne M ''easytier_web_client_create'' [ucast pointer, of_nat (length envelope)]) (\<lambda>result.
       if (ucast result :: u32) \<noteq> 0 then web_statusError M else returnA ()))) s) \<noteq> Panic" for pointer s
    using body unfolding noPanic_def by blast
  ultimately show ?thesis by (cases p) (simp_all add: WebClient_Create_def Let_def case_prod_beta a)
qed

lemma WebClient_Drop_no_panic: "fst (WebClient_Drop M flags s) \<noteq> Panic"
proof -
  have "noPanic (bindA (callOne M ''easytier_web_client_drop'' []) (\<lambda>result.
      if (ucast result :: u32) \<noteq> 0 then web_statusError M else returnA ()))" by (rule noPanic_rules noPanic_calls)+
  from noPanicD [OF this, of s] show ?thesis by (auto simp: WebClient_Drop_def split: prod.splits outcome.splits)
qed

section \<open>The property\<close>

text \<open>
  C33: no answer of the guest panics the host: if the memory gives as many bytes as are asked for, every exported method of the
  wrapper of an instance and of the wrapper of the web client, and the two functions that make them, return a value or an
  error, whatever the guest returns and writes.
\<close>

theorem wrapper_never_panics:
  assumes "readExact M"
  shows "fst (Core_New M g) \<noteq> Panic \<and> noPanic (Core_State M) \<and> noPanic (Core_Create M envelope packetSink eventSink) \<and> noPanic (Core_Start M) \<and> noPanic (Core_Stop M) \<and>
    noPanic (Core_Drive M) \<and> noPanic (Core_NotifyCompletions M) \<and> noPanic (Core_NextDeadline M) \<and>
    noPanic (Core_SendPacket M packet) \<and> noPanic (Core_Drop M) \<and>
    noPanic (SubmitTCPConnect M peer timeout) \<and> noPanic (SubmitTCPBind M port timeout) \<and>
    noPanic (SubmitTCPAccept M listener timeout) \<and> noPanic (SubmitTCPRead M stream maximum) \<and>
    noPanic (SubmitTCPWrite M stream chunk) \<and> noPanic (SubmitUDPBind M port timeout) \<and>
    noPanic (SubmitUDPReceive M socket maximum) \<and> noPanic (SubmitUDPSend M socket peer buffer) \<and>
    noPanic (DrainCompletions M maximum) \<and> noPanic (TakeResult M completion) \<and> noPanic (core_CancelOperation M operation) \<and>
    noPanic (core_FreeOperation M operation) \<and>
    noPanic (core_CloseResource M resource) \<and> noPanic (SetResourceDeadline M resource direction timeout) \<and>
    noPanic (SubmitRPC M request) \<and> noPanic (TakeRPCResponse M operation) \<and> noPanic (FreeRPCOperation M operation) \<and>
    fst (WebClient_New M g) \<noteq> Panic \<and> fst (WebClient_Create M envelope flags s) \<noteq> Panic \<and> noPanic (WebClient_Drive M) \<and>
    noPanic (WebClient_NotifyCompletions M) \<and> noPanic (WebClient_NextDeadline M) \<and> noPanic (WebClient_IsConnected M) \<and>
    fst (WebClient_Drop M flags s) \<noteq> Panic"
  using noPanic_submits [OF assms] noPanic_dataSubmits [OF assms] noPanic_TakeResult [OF assms] noPanic_SubmitRPC [OF assms]
  by (simp add: noPanic_life noPanic_Drop noPanic_DrainCompletions noPanic_statuses noPanic_TakeRPCResponse
      core_CancelOperation_def core_CloseResource_def core_FreeOperation_def Core_New_no_panic noPanic_web WebClient_Create_no_panic
      WebClient_Drop_no_panic WebClient_New_def case_prod_beta)

theorem wrapper_never_panics_witness:
  "readExact fiveModule \<and> noPanic (TakeResult fiveModule fiveCompletion) \<and> fst (Core_Drive fiveModule (emptyCore, ())) \<noteq> Panic"
  using wrapper_never_panics [OF readExact_five] readExact_five by (simp add: noPanic_def)

end
