(* ===== verification/EngineSpec.thy ===== *)
theory EngineSpec
  imports EngineInv EngineBatch CoreTotal ReactorStep
begin

text \<open>
  The properties of an instance with its callers: outcomes are sent once, and nobody waits in vain, because whoever waits has an
  answer or an outcome, or the driver is serving the command, or the guest still works on the operation and the table of
  pending operations leads back to the waiter.
\<close>

section \<open>The invariant\<close>

lemma engineSubmission_no_panic: "engineSubmission M k submission \<Longrightarrow> readExact M \<Longrightarrow> noPanic submission"
  by (induction rule: engineSubmission.induct) (simp_all add: noPanic_submits noPanic_dataSubmits)

text \<open>A ticket a caller holds leads to an outcome.\<close>

definition ticketHeld :: "'g instance_state \<Rightarrow> operationTicket option \<Rightarrow> bool" where
  "ticketHeld I ticket \<longleftrightarrow> (\<exists>t. ticket = Some t \<and> ticketOk I t)"

text \<open>A caller that waits for an answer has it, or the driver serves its command.\<close>

definition submissionServed :: "'g instance_state \<Rightarrow> 'g driverState \<Rightarrow> ref \<Rightarrow> bool" where
  "submissionServed I d c \<longleftrightarrow>
     (case in_dataPlaneAnswers I c of
        [] \<Rightarrow> (\<exists>opKind submission deadline. d = DriverServing (dataPlaneSubmit opKind submission c) deadline)
      | response # _ \<Rightarrow> answerOk I response)"

definition served :: "'g instance_state \<Rightarrow> 'g driverState \<Rightarrow> ref \<Rightarrow> bool" where
  "served I d c \<longleftrightarrow>
     in_dataPlaneAnswers I c \<noteq> [] \<or> (\<exists>request deadline. d = DriverServing request deadline \<and> dp_response request = c)"

fun callerOk :: "'g module \<Rightarrow> 'g instance_state \<Rightarrow> 'g driverState \<Rightarrow> 'g caller \<Rightarrow> bool" where
  "callerOk M I d (PerformSend opKind submission) = engineSubmission M opKind submission"
| "callerOk M I d (PerformResponse c) = (c < in_nextRef I \<and> submissionServed I d c)"
| "callerOk M I d (PerformResponseCancelled c) = (c < in_nextRef I \<and> submissionServed I d c)"
| "callerOk M I d (PerformOutcome ticket) = ticketHeld I ticket"
| "callerOk M I d (CancelSend ticket) = ticketHeld I ticket"
| "callerOk M I d (CancelResponse c ticket) = (ticketHeld I ticket \<and> c < in_nextRef I \<and> served I d c)"
| "callerOk M I d (CancelOutcome ticket) = ticketHeld I ticket"
| "callerOk M I d (Finished outcome) = True"

fun resourceOk :: "'g instance_state \<Rightarrow> 'g driverState \<Rightarrow> resourceCaller \<Rightarrow> bool" where
  "resourceOk I d (ResourceResponse c) = (c < in_nextRef I \<and> served I d c)"
| "resourceOk I d _ = True"

text \<open>What the driver serves came from the engine and has not been answered.\<close>

definition driverOk :: "'g module \<Rightarrow> 'g instance_state \<Rightarrow> 'g driverState \<Rightarrow> bool" where
  "driverOk M I d \<longleftrightarrow>
     (\<forall>request deadline. d = DriverServing request deadline \<longrightarrow>
        dp_response request < in_nextRef I \<and> in_dataPlaneAnswers I (dp_response request) = [] \<and>
        (\<forall>opKind submission c. request = dataPlaneSubmit opKind submission c \<longrightarrow> engineSubmission M opKind submission)) \<and>
     (d = DriverGone \<longrightarrow> in_pendingOperations I = [] \<and> in_pendingRPCs I = [])"

definition answersInv :: "'g instance_state \<Rightarrow> bool" where
  "answersInv I \<longleftrightarrow> (\<forall>c. length (in_dataPlaneAnswers I c) \<le> 1) \<and> (\<forall>c \<ge> in_nextRef I. in_dataPlaneAnswers I c = [])"

definition systemInv :: "'g module \<Rightarrow> 'g system \<Rightarrow> bool" where
  "systemInv M s \<longleftrightarrow>
     operationsInv (sy_instance s) \<and> rpcsInv (sy_instance s) \<and> answersInv (sy_instance s) \<and>
     driverOk M (sy_instance s) (sy_driver s) \<and>
     (\<forall>i caller. sy_callers s i = Some caller \<longrightarrow> callerOk M (sy_instance s) (sy_driver s) caller) \<and>
     (\<forall>i caller. sy_resources s i = Some caller \<longrightarrow> resourceOk (sy_instance s) (sy_driver s) caller)"

lemma systemInvD:
  assumes "systemInv M s"
  shows "operationsInv (sy_instance s)" "rpcsInv (sy_instance s)" "answersInv (sy_instance s)"
    "driverOk M (sy_instance s) (sy_driver s)"
    "sy_callers s i = Some caller \<Longrightarrow> callerOk M (sy_instance s) (sy_driver s) caller"
    "sy_resources s i = Some rescaller \<Longrightarrow> resourceOk (sy_instance s) (sy_driver s) rescaller"
  using assms unfolding systemInv_def by blast+

section \<open>Preservation\<close>

definition servingNothing :: "'g driverState \<Rightarrow> bool" where
  "servingNothing d \<longleftrightarrow> (\<forall>request deadline. d \<noteq> DriverServing request deadline)"

lemma servingNothing_simps [simp]:
  "servingNothing (DriverIdle deadline)" "servingNothing (DriverServingRPC rpc deadline)" "servingNothing (DriverFinishing e)"
  "servingNothing DriverGone" "servingNothing (continueDriver r)" "\<not> servingNothing (DriverServing request deadline)"
  by (simp_all add: servingNothing_def continueDriver_def split: option.splits)

lemma serves_ticketHeld: "serves I I' \<Longrightarrow> ticketHeld I ticket \<Longrightarrow> ticketHeld I' ticket"
  by (auto simp: ticketHeld_def serves_def)

lemma served_serves: "served I d c \<Longrightarrow> serves I I' \<Longrightarrow> servingNothing d \<or> d' = d \<Longrightarrow> served I' d' c"
  by (auto simp: served_def serves_def servingNothing_def)

lemma resourceOk_serves: "resourceOk I d caller \<Longrightarrow> serves I I' \<Longrightarrow> servingNothing d \<or> d' = d \<Longrightarrow> resourceOk I' d' caller"
  using served_serves [of I d _ I' d'] by (cases caller) (auto simp: serves_def)

text \<open>Everything the driver does except answering, and everything others do to the instance, keeps a caller served.\<close>

lemma callerOk_serves:
  assumes "callerOk M I d caller" "serves I I'" "servingNothing d \<or> d' = d"
  shows "callerOk M I' d' caller"
proof -
  have a: "in_dataPlaneAnswers I' = in_dataPlaneAnswers I" "in_nextRef I \<le> in_nextRef I'" using assms(2) by (simp_all add: serves_def)
  have s: "submissionServed I' d' c" if "submissionServed I d c" for c
    using that assms(3) answerOk_serves [OF assms(2)]
    by (auto simp: submissionServed_def a servingNothing_def split: list.splits)
  have k: "served I' d' c" if "served I d c" for c
    using served_serves [OF that assms(2,3)] .
  show ?thesis
    using assms(1) a(2) s k serves_ticketHeld [OF assms(2)] by (cases caller) auto
qed

lemma answersInv_serves: "answersInv I \<Longrightarrow> serves I I' \<Longrightarrow> answersInv I'"
  by (simp add: answersInv_def serves_def)

lemma serves_nextRef: "serves I (I\<lparr>in_nextRef := Suc (in_nextRef I)\<rparr>)"
  unfolding serves_def operationsInv_def rpcsInv_def ticketOk_def by (auto intro: tableInv_mono leadsTo_mono)

text \<open>A step that changes only the instance, in a way that serves it, and the driver, who was serving nothing.\<close>

lemma systemInv_serves:
  assumes "systemInv M s" "serves (sy_instance s) I'" "servingNothing (sy_driver s)" "servingNothing d'"
    "d' = DriverGone \<Longrightarrow> in_pendingOperations I' = [] \<and> in_pendingRPCs I' = []"
    "sy_callers s' = sy_callers s" "sy_resources s' = sy_resources s" "sy_instance s' = I'" "sy_driver s' = d'"
  shows "systemInv M s'"
proof -
  have "driverOk M I' d'" using assms(4,5) by (auto simp: driverOk_def)
  moreover have "callerOk M I' d' caller" if "sy_callers s i = Some caller" for i caller
    using callerOk_serves [OF systemInvD(5) [OF assms(1) that] assms(2)] assms(3) by blast
  moreover have "resourceOk I' d' caller" if "sy_resources s i = Some caller" for i caller
    using resourceOk_serves [OF systemInvD(6) [OF assms(1) that] assms(2)] assms(3) by blast
  moreover have "answersInv I'" using assms(1,2) answersInv_serves by (auto simp: systemInv_def)
  ultimately show ?thesis using assms(1,2,6-9) by (simp add: systemInv_def serves_def)
qed

text \<open>A step that does not move the driver and touches the tables only by new references.\<close>

lemma systemInv_same_driver:
  assumes "systemInv M s" "serves (sy_instance s) I'" "sy_callers s' = sy_callers s"
    "\<And>i caller. sy_resources s' i = Some caller \<Longrightarrow> sy_resources s i = Some caller \<or> resourceOk I' (sy_driver s) caller"
    "sy_instance s' = I'" "sy_driver s' = sy_driver s" "in_pendingOperations I' = in_pendingOperations (sy_instance s)"
    "in_pendingRPCs I' = in_pendingRPCs (sy_instance s)"
  shows "systemInv M s'"
proof -
  have "driverOk M I' (sy_driver s)"
    using assms(1,2,7,8) unfolding systemInv_def driverOk_def serves_def by (metis order_less_le_trans)
  moreover have "callerOk M I' (sy_driver s) caller" if "sy_callers s i = Some caller" for i caller
    using callerOk_serves [OF systemInvD(5) [OF assms(1) that] assms(2)] by blast
  moreover have "resourceOk I' (sy_driver s) caller" if "sy_resources s' i = Some caller" for i caller
    using resourceOk_serves [OF systemInvD(6) [OF assms(1)] assms(2)] assms(4) [OF that] by blast
  moreover have "answersInv I'" using assms(1,2) answersInv_serves by (auto simp: systemInv_def)
  ultimately show ?thesis using assms(1-3,5,6) by (simp add: systemInv_def serves_def)
qed

text \<open>The driver, idle, takes a command with a new channel from a caller.\<close>

lemma systemInv_accept:
  assumes "systemInv M s" "servingNothing (sy_driver s)" "c = in_nextRef (sy_instance s)" "dp_response request = c"
    "\<And>opKind submission c. request = dataPlaneSubmit opKind submission c \<Longrightarrow> engineSubmission M opKind submission"
    "sy_callers s' = sy_callers s \<or> sy_callers s' = (sy_callers s)(i \<mapsto> caller') \<and>
       callerOk M ((sy_instance s)\<lparr>in_nextRef := Suc c\<rparr>) (DriverServing request deadline) caller'"
    "sy_resources s' = sy_resources s \<or> sy_resources s' = (sy_resources s)(i \<mapsto> ResourceResponse c)"
    "sy_driver s' = DriverServing request deadline" "sy_instance s' = (sy_instance s)\<lparr>in_nextRef := Suc c\<rparr>"
  shows "systemInv M s'"
proof -
  let ?I = "sy_instance s" and ?I' = "(sy_instance s)\<lparr>in_nextRef := Suc c\<rparr>"
  have v: "serves ?I ?I'" unfolding assms(3) by (rule serves_nextRef)
  note inv = systemInvD(1-3,5,6) [OF assms(1)]
  have "driverOk M ?I' (DriverServing request deadline)"
    using inv(3) assms(3,4,5) by (auto simp: driverOk_def answersInv_def)
  moreover have "callerOk M ?I' (DriverServing request deadline) caller" if "sy_callers s' j = Some caller" for j caller
    using that assms(6) callerOk_serves [OF inv(4) v] assms(2) by (auto split: if_splits)
  moreover have "resourceOk ?I' (DriverServing request deadline) caller" if "sy_resources s' j = Some caller" for j caller
    using that assms(4,7) resourceOk_serves [OF inv(5) v] assms(2) by (auto simp: served_def split: if_splits)
  moreover have "operationsInv ?I'" "rpcsInv ?I'" "answersInv ?I'"
    using v inv answersInv_serves [OF _ v] by (auto simp: serves_def)
  ultimately show ?thesis using assms(8,9) by (simp add: systemInv_def)
qed

text \<open>The answer to a command reaches the caller who waits for it.\<close>

lemma systemInv_answer:
  assumes "systemInv M s" "sy_driver s = DriverServing request deadline" "serves (sy_instance s) I2" "servingNothing d'"
    "d' \<noteq> DriverGone" "\<And>opKind submission c. request = dataPlaneSubmit opKind submission c \<Longrightarrow> answerOk I2 response"
  shows "systemInv M (s\<lparr>sy_driver := d', sy_instance := sendDataPlaneAnswer (dp_response request) response I2\<rparr>)"
proof -
  let ?c = "dp_response request" and ?I' = "sendDataPlaneAnswer (dp_response request) response I2"
  have a: "in_dataPlaneAnswers I2 = in_dataPlaneAnswers (sy_instance s)" "in_nextRef (sy_instance s) \<le> in_nextRef I2"
    using assms(3) by (simp_all add: serves_def)
  have d: "?c < in_nextRef (sy_instance s)" "in_dataPlaneAnswers (sy_instance s) ?c = []"
    using assms(1,2) by (auto simp: systemInv_def driverOk_def)
  have t: "ticketHeld ?I' = ticketHeld I2" "answerOk ?I' = answerOk I2" "in_nextRef ?I' = in_nextRef I2"
    "operationsInv ?I' = operationsInv I2" "rpcsInv ?I' = rpcsInv I2"
    by (simp_all add: fun_eq_iff ticketHeld_def answerOk_def ticketOk_def sendDataPlaneAnswer_def operationsInv_def rpcsInv_def)
  have answers: "in_dataPlaneAnswers ?I' c' = (if c' = ?c then [response] else in_dataPlaneAnswers (sy_instance s) c')" for c'
    using d(2) by (simp add: sendDataPlaneAnswer_def sendOn_def a)
  have s: "submissionServed ?I' d' c'" if "submissionServed (sy_instance s) (sy_driver s) c'" for c'
  proof (cases "c' = ?c")
    case True
    then have "answerOk I2 response" using that d(2) assms(2,6) by (auto simp: submissionServed_def)
    then show ?thesis using True by (simp add: submissionServed_def answers t)
  next
    case False
    then have "in_dataPlaneAnswers (sy_instance s) c' \<noteq> []" using that assms(2) by (auto simp: submissionServed_def split: list.splits)
    then show ?thesis using that False answerOk_serves [OF assms(3)] by (auto simp: submissionServed_def answers t split: list.splits)
  qed
  have k: "served ?I' d' c'" if "served (sy_instance s) (sy_driver s) c'" for c'
    using that assms(2) by (auto simp: served_def answers)
  have "callerOk M ?I' d' caller" if "callerOk M (sy_instance s) (sy_driver s) caller" for caller
    using that s k a(2) serves_ticketHeld [OF assms(3)] by (cases caller) (auto simp: t)
  moreover have "resourceOk ?I' d' caller" if "resourceOk (sy_instance s) (sy_driver s) caller" for caller
    using that k a(2) by (cases caller) (auto simp: t)
  moreover have "driverOk M ?I' d'" using assms(4,5) by (auto simp: driverOk_def)
  moreover have "answersInv ?I'" using assms(1) a(2) d(1) by (auto simp: systemInv_def answersInv_def answers t)
  ultimately show ?thesis using assms(1,3) by (auto simp: systemInv_def t serves_def)
qed

text \<open>A caller takes a ready case of its select.\<close>

lemma onSubmitted_ok:
  assumes "answerOk I response" "\<And>ticket. ticketHeld I ticket \<Longrightarrow> callerOk M I d (k ticket)"
  shows "callerOk M I d (onSubmitted S response k)"
  using assms by (auto simp: onSubmitted_def answerOk_def ticketHeld_def split: option.splits)

lemma closedStep_ok: "closedStep select I = Some caller' \<Longrightarrow> callerOk M I d caller'"
  by (auto simp: closedStep_def split: if_splits)

lemma performOperation_ok:
  assumes "performOperation S ctxErr select I caller = Some caller'" "callerOk M I d caller"
  shows "callerOk M I d caller'"
  using assms
  by (induction S ctxErr select I caller rule: performOperation.induct)
    (auto split: selectCase.splits option.splits list.splits simp: submissionServed_def intro: onSubmitted_ok closedStep_ok)

lemma systemInv_caller:
  assumes "systemInv M s" "callerOk M (sy_instance s) (sy_driver s) caller'"
  shows "systemInv M (s\<lparr>sy_callers := (sy_callers s)(i \<mapsto> caller')\<rparr>)"
  using assms by (simp add: systemInv_def)

lemma systemInv_view:
  assumes "systemInv M s" "sy_callers s' = sy_callers s" "sy_driver s' = sy_driver s" "tables (sy_instance s') = tables (sy_instance s)"
    "\<And>i caller. sy_resources s' i = Some caller \<Longrightarrow> sy_resources s i = Some caller \<or> resourceOk (sy_instance s') (sy_driver s) caller"
  shows "systemInv M s'"
  using systemInv_same_driver [OF assms(1) serves_tables [OF assms(4)] assms(2,5) refl assms(3)] assms(4) by (simp add: tables_def)

lemma engineStep_systemInv:
  assumes "engineStep M S s s'" "readExact M" "systemInv M s"
  shows "systemInv M s'"
  using assms
proof (induction rule: engineStep.cases)
  case (step_call t i opKind submission)
  then show ?case by (simp add: systemInv_caller)
next
  case (step_submit t i opKind submission deadline c)
  have e: "engineSubmission M opKind submission" using systemInvD(5) [OF step_submit(7), of i] step_submit by simp
  have no: "in_dataPlaneAnswers (sy_instance s) c = []" using step_submit by (simp add: systemInv_def answersInv_def)
  show ?case
    by (rule systemInv_accept [OF \<open>systemInv M s\<close>, where request = "dataPlaneSubmit opKind submission c" and i = i and
        caller' = "PerformResponse c" and deadline = deadline])
      (use step_submit e no in \<open>simp_all add: submissionServed_def\<close>)
next
  case (step_cancel t i ticket deadline c)
  have "ticketHeld (sy_instance s) (Some ticket)" using systemInvD(5) [OF step_cancel(7), of i] step_cancel by simp
  from serves_ticketHeld [OF serves_nextRef this] show ?case
    by (intro systemInv_accept [OF \<open>systemInv M s\<close>, where request = "dataPlaneCancel (ot_id ticket) c" and i = i and
        caller' = "CancelResponse c (Some ticket)" and deadline = deadline])
      (use step_cancel in \<open>simp_all add: served_def\<close>)
next
  case (step_resourceCall t i rescaller res direction time)
  then show ?case
    by (intro systemInv_view [OF \<open>systemInv M s\<close>]) (auto split: if_splits)
next
  case (step_resource t i rescaller deadline c request)
  then have "resourceRequest rescaller c = Some request" by simp
  then have r: "dp_response request = c" "request \<noteq> dataPlaneSubmit k sub c'" for k sub c'
    by (auto elim: resourceRequest.elims)
  show ?case
    by (rule systemInv_accept [OF \<open>systemInv M s\<close>, where request = request and i = i and deadline = deadline])
      (use step_resource r in simp_all)
next
  case (step_resourceCaller t i rescaller select rescaller')
  then have "resourceOk I d rescaller'" for I :: "'a instance_state" and d
    by (auto elim!: callResource.elims split: selectCase.splits list.splits if_splits)
  with step_resourceCaller show ?case
    by (intro systemInv_view [OF \<open>systemInv M s\<close>]) (auto split: if_splits)
next
  case (step_caller t i caller ctxErr select caller')
  then show ?case using performOperation_ok systemInvD(5) [OF step_caller(6), of i] by (auto intro!: systemInv_caller)
next
  case (step_serve t request deadline order r I)
  have sub: "engineSubmission M k submission" if "request = dataPlaneSubmit k submission c" for k submission c
    using that step_serve by (auto simp: systemInv_def driverOk_def)
  have case_s: "freshOperation request (sy_instance s)" "dataPlaneCase M order request deadline (sy_instance s) = (r, I)"
    using step_serve by simp_all
  obtain response I2 where I: "I = sendDataPlaneAnswer (dp_response request) response I2" "serves (sy_instance s) I2"
    and ok: "\<And>k submission c. request = dataPlaneSubmit k submission c \<Longrightarrow>
      fst (submission (in_core (sy_instance s))) \<noteq> Panic \<Longrightarrow> answerOk I2 response"
    using dataPlaneCase_cases [OF case_s, of thesis] by metis
  have "systemInv M (s\<lparr>sy_driver := continueDriver r, sy_instance := sendDataPlaneAnswer (dp_response request) response I2\<rparr>)"
  proof (rule systemInv_answer [OF \<open>systemInv M s\<close> _ I(2)])
    show "sy_driver s = DriverServing request deadline" using step_serve by simp
    show "continueDriver r \<noteq> DriverGone" by (simp add: continueDriver_def split: option.splits)
    show "answerOk I2 response" if "request = dataPlaneSubmit k submission c" for k submission c
      using ok [OF that] engineSubmission_no_panic [OF sub [OF that] assms(2), unfolded noPanic_def, rule_format] by simp
  qed simp
  then show ?case unfolding I(1) [symmetric] using step_serve by simp
next
  case (step_rpcSubmit t i request deadline c)
  show ?case
    by (rule systemInv_serves [OF \<open>systemInv M s\<close> serves_nextRef, where d' = "DriverServingRPC (rpcSubmit request c) deadline"])
      (use step_rpcSubmit in simp_all)
next
  case (step_rpcFree t i ticket deadline c)
  show ?case
    by (rule systemInv_serves [OF \<open>systemInv M s\<close> serves_nextRef, where d' = "DriverServingRPC (rpcFree (rt_id ticket) c) deadline"])
      (use step_rpcFree in simp_all)
next
  case (step_rpcServe t request deadline order r I)
  then have v: "serves (sy_instance s) I" using serves_rpcCase [of M request "sy_instance s" order deadline] by simp
  show ?case
    by (rule systemInv_serves [OF \<open>systemInv M s\<close> v, where d' = "continueDriver r"])
      (use step_rpcServe in \<open>simp_all add: continueDriver_def split: option.splits\<close>)
next
  case (step_execute t i c k packet)
  show ?case
    by (rule systemInv_same_driver [OF \<open>systemInv M s\<close> serves_nextRef]) (use step_execute in simp_all)
next
  case (step_command t deadline cmd rest order order' r I)
  have "serves (sy_instance s) (snd (commandCase M order order' cmd deadline ((sy_instance s)\<lparr>in_commands := rest\<rparr>)))"
    by (rule serves_trans [OF serves_tables serves_commandCase]) simp
  then have v: "serves (sy_instance s) I" using step_command by simp
  show ?case
    by (rule systemInv_serves [OF \<open>systemInv M s\<close> v, where d' = "continueDriver r"])
      (use step_command in \<open>simp_all add: continueDriver_def split: option.splits\<close>)
next
  case (step_wake t deadline order notify r I)
  then have v: "serves (sy_instance s) I" using serves_wakeCase [of "sy_instance s" M order notify deadline] by simp
  show ?case
    by (rule systemInv_serves [OF \<open>systemInv M s\<close> v, where d' = "continueDriver r"])
      (use step_wake in \<open>simp_all add: continueDriver_def split: option.splits\<close>)
next
  case (step_end t deadline e ctxError)
  show ?case
    by (rule systemInv_serves [OF \<open>systemInv M s\<close> serves_refl, where d' = "DriverFinishing e"]) (use step_end in simp_all)
next
  case (step_finish t e I r)
  then have v: "serves (sy_instance s) I" "in_pendingOperations I = [] \<and> in_pendingRPCs I = []"
    using serves_finishRun [of M e "sy_instance s" "sy_reactor s" I r] by simp_all
  show ?case
    by (rule systemInv_serves [OF \<open>systemInv M s\<close> v(1), where d' = DriverGone]) (use step_finish v(2) in simp_all)
qed (rule systemInv_view, assumption, simp, simp, simp, simp)+

lemma systemInv_new: "systemInv M (newSystem core p e r)"
  by (simp add: systemInv_def newSystem_def newInstance_def operationsInv_def rpcsInv_def tableInv_def answersInv_def driverOk_def)

lemma engineReachable_systemInv: "engineReachable M S s \<Longrightarrow> readExact M \<Longrightarrow> systemInv M s"
  unfolding engineReachable_def
proof (elim exE)
  fix core p e r assume "rtranclp (engineStep M S) (newSystem core p e r) s" "readExact M"
  then show "systemInv M s"
    by (induction rule: rtranclp_induct) (auto intro: systemInv_new engineStep_systemInv)
qed

section \<open>A run\<close>

text \<open>A guest that accepts every call, gives operations the identifier 1 and never completes one.\<close>

definition idleModule :: "unit module" where
  "idleModule =
     \<lparr>m_exported = (\<lambda>name. if name = ''easytier_data_plane_tcp_bind_submit'' then Some (4, 1)
                    else if name = ''easytier_data_plane_completion_drain'' then Some (3, 1) else Some (1, 1)),
      m_call = (\<lambda>name params g. ((None, if name = ''easytier_buffer_alloc'' then 5 else 0), g)),
      m_read = (\<lambda>g p n. Some (replicate (unat n) 1)),
      m_write = (\<lambda>g p xs. Some g)\<rparr>"

definition demoRequest :: "unit dataPlaneCommand" where
  "demoRequest = dataPlaneSubmit OperationTCPBind (SubmitTCPBind idleModule 80 0) 0"

definition demoInstance :: "unit instance_state" where
  "demoInstance = (newInstance (emptyCore\<lparr>core_handle := 9\<rparr>, ()) 1 2)\<lparr>in_nextRef := 1\<rparr>"

lemma demo_served:
  "in_dataPlaneAnswers (snd (dataPlaneCase idleModule [] demoRequest MaxInt64 demoInstance)) 0 =
     [\<lparr>dr_ticket = Some \<lparr>ot_id = 72340172838076673, ot_result = 1\<rparr>, dr_outcome = None, dr_err = None\<rparr>]"
  by code_simp

definition demoTicket :: operationTicket where
  "demoTicket = \<lparr>ot_id = 72340172838076673, ot_result = 1\<rparr>"

text \<open>A caller that binds a port gets its ticket and waits for the outcome.\<close>

lemma demo_reachable:
  "\<exists>s. engineReachable idleModule linuxErrnos s \<and> sy_callers s 0 = Some (PerformOutcome (Some demoTicket))"
proof -
  let ?s0 = "newSystem (emptyCore\<lparr>core_handle := 9\<rparr>, ()) 1 2 (emptyReactor demoOptions)"
  let ?sub = "SubmitTCPBind idleModule 80 0"
  let ?s1 = "?s0\<lparr>sy_callers := (sy_callers ?s0)(0 \<mapsto> PerformSend OperationTCPBind ?sub)\<rparr>"
  let ?s2 = "?s1\<lparr>sy_callers := (sy_callers ?s1)(0 \<mapsto> PerformResponse 0), sy_driver := DriverServing demoRequest MaxInt64,
    sy_instance := (sy_instance ?s1)\<lparr>in_nextRef := Suc 0\<rparr>\<rparr>"
  have I: "sy_instance ?s2 = demoInstance" by (simp add: newSystem_def demoInstance_def newInstance_def)
  obtain r I3 where serve: "dataPlaneCase idleModule [] demoRequest MaxInt64 demoInstance = (r, I3)" by (metis surj_pair)
  let ?s3 = "?s2\<lparr>sy_driver := continueDriver r, sy_instance := I3\<rparr>"
  let ?s4 = "?s3\<lparr>sy_callers := (sy_callers ?s3)(0 \<mapsto> PerformOutcome (Some demoTicket))\<rparr>"
  have "engineStep idleModule linuxErrnos ?s0 ?s1"
    by (rule step_call) (simp add: newSystem_def, rule submits_Listen)
  moreover have "engineStep idleModule linuxErrnos ?s1 ?s2"
    unfolding demoRequest_def by (rule step_submit) (simp_all add: newSystem_def newInstance_def)
  moreover have "engineStep idleModule linuxErrnos ?s2 ?s3"
  proof (rule step_serve)
    show "freshOperation demoRequest (sy_instance ?s2)"
      unfolding I by (simp add: freshOperation_def demoRequest_def demoInstance_def newInstance_def split: prod.splits outcome.splits)
    show "dataPlaneCase idleModule [] demoRequest MaxInt64 (sy_instance ?s2) = (r, I3)" unfolding I by (rule serve)
  qed simp
  moreover have "engineStep idleModule linuxErrnos ?s3 ?s4"
  proof (rule step_caller [where select = OnResponse and ctxErr = None])
    have "in_dataPlaneAnswers I3 0 = [\<lparr>dr_ticket = Some demoTicket, dr_outcome = None, dr_err = None\<rparr>]"
      using demo_served by (simp add: serve demoTicket_def)
    then show "performOperation linuxErrnos None OnResponse (sy_instance ?s3) (PerformResponse 0) = Some (PerformOutcome (Some demoTicket))"
      by (simp add: onSubmitted_def)
  qed simp
  ultimately have "rtranclp (engineStep idleModule linuxErrnos) ?s0 ?s4"
    by (meson rtranclp.rtrancl_into_rtrancl rtranclp.rtrancl_refl)
  then show ?thesis unfolding engineReachable_def by (intro exI [of _ ?s4]) auto
qed

lemma readExact_idle: "readExact idleModule"
  by (simp add: readExact_def idleModule_def)

section \<open>The properties\<close>

text \<open>
  C34: every channel on which the driver sends an outcome or an answer gets at most one; pending operations have different
  channels, and so have pending calls; and the channel of one that is pending is still empty. So no send of the driver
  blocks, and no caller gets a second outcome or that of another operation. The runs are those in which the guest names a
  new operation by an identifier that no pending one has.
\<close>

theorem outcomes_sent_once:
  assumes "engineReachable M S s" "readExact M"
  shows "length (in_outcomes (sy_instance s) c) \<le> 1 \<and> length (in_rpcOutcomes (sy_instance s) c) \<le> 1 \<and>
    length (in_dataPlaneAnswers (sy_instance s) c) \<le> 1 \<and>
    distinct (map (po_result \<circ> snd) (in_pendingOperations (sy_instance s))) \<and> distinct (map snd (in_pendingRPCs (sy_instance s))) \<and>
    (map_of (in_pendingOperations (sy_instance s)) operation = Some p \<longrightarrow> in_outcomes (sy_instance s) (po_result p) = []) \<and>
    (map_of (in_pendingRPCs (sy_instance s)) rpc = Some channel \<longrightarrow> in_rpcOutcomes (sy_instance s) channel = [])"
proof -
  note i = systemInvD [OF engineReachable_systemInv [OF assms]]
  note o = tableInvD [OF i(1) [unfolded operationsInv_def]] and r = tableInvD [OF i(2) [unfolded rpcsInv_def]]
  have "in_outcomes (sy_instance s) (po_result p) = []" if "map_of (in_pendingOperations (sy_instance s)) operation = Some p"
    using o(4) [OF map_of_SomeD [OF that]] by simp
  moreover have "in_rpcOutcomes (sy_instance s) channel = []" if "map_of (in_pendingRPCs (sy_instance s)) rpc = Some channel"
    using r(4) [OF map_of_SomeD [OF that]] by simp
  ultimately show ?thesis using o(2,5) r(2,5) i(3) by (simp add: answersInv_def)
qed

theorem outcomes_sent_once_witness:
  "\<exists>s. engineReachable idleModule linuxErrnos s \<and> sy_callers s 0 = Some (PerformOutcome (Some demoTicket)) \<and>
     length (in_outcomes (sy_instance s) 1) \<le> 1 \<and> distinct (map (po_result \<circ> snd) (in_pendingOperations (sy_instance s)))"
  using demo_reachable outcomes_sent_once [OF _ readExact_idle] by blast

text \<open>
  C35: a caller of the data plane never waits in vain. While it waits for the answer to a command, the answer is there or the
  driver is serving the command; while it waits for an outcome, the outcome is there, or the operation is still in the table
  of pending operations with the caller's channel, and then the driver has not ended. The runs are those in which the guest
  names a new operation by an identifier that no pending one has.
\<close>

theorem no_lost_waiter:
  assumes "engineReachable M S s" "readExact M"
  shows "(sy_callers s i \<in> Some ` {PerformResponse c, PerformResponseCancelled c, CancelResponse c ticket} \<or>
      sy_resources s i = Some (ResourceResponse c) \<longrightarrow>
        in_dataPlaneAnswers (sy_instance s) c \<noteq> [] \<or>
        (\<exists>request deadline. sy_driver s = DriverServing request deadline \<and> dp_response request = c)) \<and>
    (sy_callers s i \<in> Some ` {PerformOutcome ticket, CancelSend ticket, CancelResponse c ticket, CancelOutcome ticket} \<longrightarrow>
      (\<exists>t. ticket = Some t \<and> (in_outcomes (sy_instance s) (ot_result t) \<noteq> [] \<or>
        (\<exists>p. map_of (in_pendingOperations (sy_instance s)) (ot_id t) = Some p \<and> po_result p = ot_result t \<and> sy_driver s \<noteq> DriverGone))))"
proof (intro conjI impI)
  note i = systemInvD [OF engineReachable_systemInv [OF assms]]
  have sub: "served (sy_instance s) (sy_driver s) c" if "submissionServed (sy_instance s) (sy_driver s) c"
    using that by (fastforce simp: submissionServed_def served_def split: list.splits)
  assume "sy_callers s i \<in> Some ` {PerformResponse c, PerformResponseCancelled c, CancelResponse c ticket} \<or>
      sy_resources s i = Some (ResourceResponse c)"
  with i(5) [of i] i(6) [of i] sub have "served (sy_instance s) (sy_driver s) c" by fastforce
  then show "in_dataPlaneAnswers (sy_instance s) c \<noteq> [] \<or>
      (\<exists>request deadline. sy_driver s = DriverServing request deadline \<and> dp_response request = c)" by (simp add: served_def)
next
  note i = systemInvD [OF engineReachable_systemInv [OF assms]]
  have gone: "in_pendingOperations (sy_instance s) = []" if "sy_driver s = DriverGone" using i(4) that by (simp add: driverOk_def)
  assume "sy_callers s i \<in> Some ` {PerformOutcome ticket, CancelSend ticket, CancelResponse c ticket, CancelOutcome ticket}"
  with i(5) [of i] have "ticketHeld (sy_instance s) ticket" by fastforce
  then show "\<exists>t. ticket = Some t \<and> (in_outcomes (sy_instance s) (ot_result t) \<noteq> [] \<or>
      (\<exists>p. map_of (in_pendingOperations (sy_instance s)) (ot_id t) = Some p \<and> po_result p = ot_result t \<and> sy_driver s \<noteq> DriverGone))"
    using gone by (fastforce simp: ticketHeld_def ticketOk_def leadsTo_def)
qed

theorem no_lost_waiter_witness:
  "\<exists>s. engineReachable idleModule linuxErrnos s \<and>
     (in_outcomes (sy_instance s) 1 \<noteq> [] \<or>
      (\<exists>p. map_of (in_pendingOperations (sy_instance s)) 72340172838076673 = Some p \<and> po_result p = 1 \<and> sy_driver s \<noteq> DriverGone))"
proof -
  obtain s where s: "engineReachable idleModule linuxErrnos s" "sy_callers s 0 = Some (PerformOutcome (Some demoTicket))"
    using demo_reachable by blast
  from no_lost_waiter [OF s(1) readExact_idle, of 0 0 "Some demoTicket"] s show ?thesis
    by (auto simp: demoTicket_def)
qed

end
