(* ===== verification/EngineConn.thy ===== *)
theory EngineConn
  imports EngineCaller
begin

text \<open>
  The connections an instance hands out (internal/engine/conn.go, listener.go, packet_conn.go): streams, listeners and packet
  sockets over the overlay. Each holds a resource of the guest and works through three entry points of its instance, which are
  the machines of theory EngineCaller; here they are parameters, functions of the state around the connection.
\<close>

section \<open>Addresses of package net\<close>

text \<open>\<^verbatim>\<open>UDPAddr.AddrPort\<close> and \<^verbatim>\<open>UDPAddrFromAddrPort\<close>, which \<^verbatim>\<open>TCPAddrFromAddrPort\<close> equals.\<close>

definition AddrFromSlice :: "bytes \<Rightarrow> netip_addr" where
  "AddrFromSlice ip =
     (if length ip = 4 then (case Uint32 ip of Ok v \<Rightarrow> Addr4 v | _ \<Rightarrow> AddrInvalid)
      else if length ip = 16 then
        (case (Uint64 ip, Uint64 (drop 8 ip)) of (Ok hi, Ok lo) \<Rightarrow> Addr6 hi lo [] | _ \<Rightarrow> AddrInvalid)
      else AddrInvalid)"

fun WithZone :: "netip_addr \<Rightarrow> bytes \<Rightarrow> netip_addr" where
  "WithZone (Addr6 hi lo _) zone = Addr6 hi lo zone"
| "WithZone a zone = a"

definition sockaddr_AddrPort :: "sockaddr \<Rightarrow> addr_port" where
  "sockaddr_AddrPort a = AddrPort (WithZone (AddrFromSlice (IP a)) (Zone a)) (of_int (Port a))"

fun AsSlice :: "netip_addr \<Rightarrow> bytes" where
  "AsSlice (Addr4 v) = PutUint32 v"
| "AsSlice (Addr6 hi lo _) = PutUint64 hi @ PutUint64 lo"
| "AsSlice AddrInvalid = []"

fun addr_Zone :: "netip_addr \<Rightarrow> bytes" where
  "addr_Zone (Addr6 _ _ z) = z"
| "addr_Zone _ = []"

definition AddrFromAddrPort :: "addr_port \<Rightarrow> sockaddr" where
  "AddrFromAddrPort a = \<lparr>IP = AsSlice (ap_addr a), Port = uint (ap_port a), Zone = addr_Zone (ap_addr a)\<rparr>"

section \<open>The instance as a connection sees it\<close>

text \<open>
  \<^verbatim>\<open>performOperation\<close> on a background context, \<^verbatim>\<open>closeDataPlaneResource\<close> and \<^verbatim>\<open>setDataPlaneResourceDeadline\<close>. Theory
  \<open>EngineCaller\<close> has these as machines that run beside the driver; here a call is a function of a state, whatever it does to it
  and answers: nothing is assumed of the three, and what is proved of a connection holds for every behaviour of them.
\<close>

record ('g, 's) instanceOps =
  io_module :: "'g module"
  io_perform :: "OperationKind \<Rightarrow> ('g, OperationID) act \<Rightarrow> 's \<Rightarrow> (goerror + OperationResult) \<times> 's"
  io_close :: "ResourceID \<Rightarrow> 's \<Rightarrow> goerror option \<times> 's"
  io_setDeadline :: "ResourceID \<Rightarrow> u32 \<Rightarrow> time \<Rightarrow> 's \<Rightarrow> goerror option \<times> 's"

text \<open>What a stream, a listener and a packet socket have in common: the resource, its address, and whether it has been closed.\<close>

record connection =
  cn_resource :: ResourceID
  cn_local :: addr_port
  cn_closed :: bool
  cn_closeErr :: "goerror option"

record streamConn = connection +
  sc_peer :: addr_port

type_synonym streamListener = connection
type_synonym packetConn = connection

record datagramConn =
  dg_packet :: packetConn
  dg_peer :: addr_port

definition maxDataPlaneTransfer :: nat where "maxDataPlaneTransfer = 1024 * 1024"

definition normalizeDeadlineError :: "goerror \<Rightarrow> goerror" where
  "normalizeDeadlineError err = (if errors_Is err ContextDeadlineExceeded then OsErrDeadlineExceeded else err)"

section \<open>Closing and deadlines\<close>

text \<open>\<^verbatim>\<open>closeOnce\<close>: the first call closes the resource, all report what that gave.\<close>

definition connection_Close :: "('g, 's) instanceOps \<Rightarrow> 'a connection_scheme \<Rightarrow> 's \<Rightarrow> goerror option \<times> 'a connection_scheme \<times> 's" where
  "connection_Close N conn s =
     (if cn_closed conn then (cn_closeErr conn, conn, s)
      else let (err, s) = io_close N (cn_resource conn) s in (err, conn\<lparr>cn_closed := True, cn_closeErr := err\<rparr>, s))"

definition streamConn_Close :: "('g, 's) instanceOps \<Rightarrow> streamConn \<Rightarrow> 's \<Rightarrow> goerror option \<times> streamConn \<times> 's" where
  "streamConn_Close N = connection_Close N"

definition streamListener_Close :: "('g, 's) instanceOps \<Rightarrow> streamListener \<Rightarrow> 's \<Rightarrow> goerror option \<times> streamListener \<times> 's" where
  "streamListener_Close N = connection_Close N"

definition packetConn_Close :: "('g, 's) instanceOps \<Rightarrow> packetConn \<Rightarrow> 's \<Rightarrow> goerror option \<times> packetConn \<times> 's" where
  "packetConn_Close N = connection_Close N"

definition connection_setDeadline :: "('g, 's) instanceOps \<Rightarrow> u32 \<Rightarrow> 'a connection_scheme \<Rightarrow> time \<Rightarrow> 's \<Rightarrow> goerror option \<times> 's" where
  "connection_setDeadline N direction conn deadline s =
     (if cn_closed conn then (Some NetErrClosed, s) else io_setDeadline N (cn_resource conn) direction deadline s)"

definition streamConn_SetDeadline :: "('g, 's) instanceOps \<Rightarrow> streamConn \<Rightarrow> time \<Rightarrow> 's \<Rightarrow> goerror option \<times> 's" where
  "streamConn_SetDeadline N = connection_setDeadline N (DeadlineRead OR DeadlineWrite)"

definition streamConn_SetReadDeadline :: "('g, 's) instanceOps \<Rightarrow> streamConn \<Rightarrow> time \<Rightarrow> 's \<Rightarrow> goerror option \<times> 's" where
  "streamConn_SetReadDeadline N = connection_setDeadline N DeadlineRead"

definition streamConn_SetWriteDeadline :: "('g, 's) instanceOps \<Rightarrow> streamConn \<Rightarrow> time \<Rightarrow> 's \<Rightarrow> goerror option \<times> 's" where
  "streamConn_SetWriteDeadline N = connection_setDeadline N DeadlineWrite"

definition packetConn_SetDeadline :: "('g, 's) instanceOps \<Rightarrow> packetConn \<Rightarrow> time \<Rightarrow> 's \<Rightarrow> goerror option \<times> 's" where
  "packetConn_SetDeadline N = connection_setDeadline N (DeadlineRead OR DeadlineWrite)"

definition packetConn_SetReadDeadline :: "('g, 's) instanceOps \<Rightarrow> packetConn \<Rightarrow> time \<Rightarrow> 's \<Rightarrow> goerror option \<times> 's" where
  "packetConn_SetReadDeadline N = connection_setDeadline N DeadlineRead"

definition packetConn_SetWriteDeadline :: "('g, 's) instanceOps \<Rightarrow> packetConn \<Rightarrow> time \<Rightarrow> 's \<Rightarrow> goerror option \<times> 's" where
  "packetConn_SetWriteDeadline N = connection_setDeadline N DeadlineWrite"

definition datagramConn_Close :: "('g, 's) instanceOps \<Rightarrow> datagramConn \<Rightarrow> 's \<Rightarrow> goerror option \<times> datagramConn \<times> 's" where
  "datagramConn_Close N conn s =
     (case packetConn_Close N (dg_packet conn) s of (err, packet, s) \<Rightarrow> (err, conn\<lparr>dg_packet := packet\<rparr>, s))"

definition datagramConn_SetDeadline :: "('g, 's) instanceOps \<Rightarrow> datagramConn \<Rightarrow> time \<Rightarrow> 's \<Rightarrow> goerror option \<times> 's" where
  "datagramConn_SetDeadline N conn = packetConn_SetDeadline N (dg_packet conn)"

definition datagramConn_SetReadDeadline :: "('g, 's) instanceOps \<Rightarrow> datagramConn \<Rightarrow> time \<Rightarrow> 's \<Rightarrow> goerror option \<times> 's" where
  "datagramConn_SetReadDeadline N conn = packetConn_SetReadDeadline N (dg_packet conn)"

definition datagramConn_SetWriteDeadline :: "('g, 's) instanceOps \<Rightarrow> datagramConn \<Rightarrow> time \<Rightarrow> 's \<Rightarrow> goerror option \<times> 's" where
  "datagramConn_SetWriteDeadline N conn = packetConn_SetWriteDeadline N (dg_packet conn)"

section \<open>Addresses of connections\<close>

definition streamConn_LocalAddr :: "streamConn \<Rightarrow> net_addr" where
  "streamConn_LocalAddr conn = NetTCPAddr (AddrFromAddrPort (cn_local conn))"

definition streamConn_RemoteAddr :: "streamConn \<Rightarrow> net_addr" where
  "streamConn_RemoteAddr conn = NetTCPAddr (AddrFromAddrPort (sc_peer conn))"

definition streamListener_Addr :: "streamListener \<Rightarrow> net_addr" where
  "streamListener_Addr listener = NetTCPAddr (AddrFromAddrPort (cn_local listener))"

definition packetConn_LocalAddr :: "packetConn \<Rightarrow> net_addr" where
  "packetConn_LocalAddr conn = NetUDPAddr (AddrFromAddrPort (cn_local conn))"

definition datagramConn_LocalAddr :: "datagramConn \<Rightarrow> net_addr" where
  "datagramConn_LocalAddr conn = packetConn_LocalAddr (dg_packet conn)"

definition datagramConn_RemoteAddr :: "datagramConn \<Rightarrow> net_addr" where
  "datagramConn_RemoteAddr conn = NetUDPAddr (AddrFromAddrPort (dg_peer conn))"

section \<open>Streams\<close>

definition newStreamConn :: "OperationResult \<Rightarrow> streamConn" where
  "newStreamConn result =
     \<lparr>cn_resource = or_Resource result, cn_local = or_Local result, cn_closed = False, cn_closeErr = None, sc_peer = or_Peer result\<rparr>"

text \<open>A buffer to read into is its length, and what a read gives is the bytes it puts there.\<close>

definition streamConn_Read :: "('g, 's) instanceOps \<Rightarrow> streamConn \<Rightarrow> nat \<Rightarrow> 's \<Rightarrow> (bytes \<times> goerror option) \<times> 's" where
  "streamConn_Read N conn len s =
     (if len = 0 then (([], None), s)
      else if cn_closed conn then (([], Some NetErrClosed), s)
      else
        let maximum = min len maxDataPlaneTransfer
        in case io_perform N OperationTCPRead (SubmitTCPRead (io_module N) (cn_resource conn) (of_nat maximum)) s of
             (Inl err, s) \<Rightarrow> (([], Some (normalizeDeadlineError err)), s)
           | (Inr result, s) \<Rightarrow>
               let data = take len (or_Data result)
               in ((data, if data = [] \<and> or_EOF result then Some IoEOF else None), s))"

text \<open>The loop of \<^verbatim>\<open>Write\<close>: how much has been written, and the error.\<close>

function writeChunks :: "('g, 's) instanceOps \<Rightarrow> streamConn \<Rightarrow> bytes \<Rightarrow> nat \<Rightarrow> 's \<Rightarrow> (nat \<times> goerror option) \<times> 's" where
  "writeChunks N conn buffer written s =
     (if written < length buffer then
        let chunk = take maxDataPlaneTransfer (drop written buffer)
        in case io_perform N OperationTCPWrite (SubmitTCPWrite (io_module N) (cn_resource conn) chunk) s of
             (Inl err, s) \<Rightarrow> ((written, Some (normalizeDeadlineError err)), s)
           | (Inr result, s) \<Rightarrow>
               if or_Length result \<le> 0 \<or> or_Length result > int (length chunk) then ((written, Some IoErrShortWrite), s)
               else writeChunks N conn buffer (written + nat (or_Length result)) s
      else ((written, None), s))"
  by pat_completeness auto

termination by (relation "measure (\<lambda>(N, conn, buffer, written, s). length buffer - written)") auto

declare writeChunks.simps [simp del]

definition streamConn_Write :: "('g, 's) instanceOps \<Rightarrow> streamConn \<Rightarrow> bytes \<Rightarrow> 's \<Rightarrow> (nat \<times> goerror option) \<times> 's" where
  "streamConn_Write N conn buffer s =
     (if length buffer = 0 then ((0, None), s)
      else if cn_closed conn then ((0, Some NetErrClosed), s)
      else writeChunks N conn buffer 0 s)"

text \<open>
  \<^verbatim>\<open>Dial\<close> with a context that has the error \<open>ctxErr\<close> or the deadline \<open>deadline\<close>. \<^verbatim>\<open>^uint64(0)\<close>, the timeout of
  operations without one, is \<open>- 1\<close>.
\<close>

definition Instance_Dial ::
  "('g, 's) instanceOps \<Rightarrow> goerror option \<Rightarrow> time option \<Rightarrow> addr_port \<Rightarrow> 's \<Rightarrow> (goerror + streamConn) \<times> 's" where
  "Instance_Dial N ctxErr deadline peer s =
     (case contextTimeoutMillis ctxErr deadline of
        Inr timeout \<Rightarrow>
          (case io_perform N OperationTCPConnect (SubmitTCPConnect (io_module N) peer (of_int timeout)) s of
             (Inl err, s) \<Rightarrow> (Inl (normalizeDeadlineError err), s)
           | (Inr result, s) \<Rightarrow> (Inr (newStreamConn result), s))
      | Inl err \<Rightarrow> (Inl (normalizeDeadlineError err), s))"

section \<open>Listeners\<close>

definition Instance_Listen :: "('g, 's) instanceOps \<Rightarrow> u16 \<Rightarrow> 's \<Rightarrow> (goerror + streamListener) \<times> 's" where
  "Instance_Listen N port s =
     (case io_perform N OperationTCPBind (SubmitTCPBind (io_module N) port (- 1)) s of
        (Inl err, s) \<Rightarrow> (Inl err, s)
      | (Inr result, s) \<Rightarrow>
          (Inr \<lparr>cn_resource = or_Resource result, cn_local = or_Local result, cn_closed = False, cn_closeErr = None\<rparr>, s))"

definition streamListener_Accept :: "('g, 's) instanceOps \<Rightarrow> streamListener \<Rightarrow> 's \<Rightarrow> (goerror + streamConn) \<times> 's" where
  "streamListener_Accept N listener s =
     (if cn_closed listener then (Inl NetErrClosed, s)
      else
        case io_perform N OperationTCPAccept (SubmitTCPAccept (io_module N) (cn_resource listener) (- 1)) s of
          (Inl err, s) \<Rightarrow> (Inl err, s)
        | (Inr result, s) \<Rightarrow> (Inr (newStreamConn result), s))"

section \<open>Packet sockets\<close>

definition newPacketConn :: "OperationResult \<Rightarrow> packetConn" where
  "newPacketConn result = \<lparr>cn_resource = or_Resource result, cn_local = or_Local result, cn_closed = False, cn_closeErr = None\<rparr>"

definition udpAddrPort :: "net_addr option \<Rightarrow> goerror + addr_port" where
  "udpAddrPort address =
     (case address of
        None \<Rightarrow> Inl (Errorf ''address is nil'' [])
      | Some (NetUDPAddr udp) \<Rightarrow>
          let peer = sockaddr_AddrPort udp;
              peer = (if addrport_IsValid peer then AddrPort (Unmap (ap_addr peer)) (ap_port peer) else peer)
          in if \<not> addrport_IsValid peer \<or> \<not> Is4 (ap_addr peer)
             then Inl (Errorf ''EasyTier data plane requires an IPv4 address'' [])
             else Inr peer
      | Some _ \<Rightarrow> Inl (Errorf ''address is not UDP'' []))"

definition packetConn_ReadFrom ::
  "('g, 's) instanceOps \<Rightarrow> packetConn \<Rightarrow> nat \<Rightarrow> 's \<Rightarrow> (bytes \<times> net_addr option \<times> goerror option) \<times> 's" where
  "packetConn_ReadFrom N conn len s =
     (if cn_closed conn then (([], None, Some NetErrClosed), s)
      else
        let maximum = min len maxDataPlaneTransfer
        in case io_perform N OperationUDPReceive (SubmitUDPReceive (io_module N) (cn_resource conn) (of_nat maximum)) s of
             (Inl err, s) \<Rightarrow> (([], None, Some (normalizeDeadlineError err)), s)
           | (Inr result, s) \<Rightarrow>
               ((take len (or_Data result), Some (NetUDPAddr (AddrFromAddrPort (or_Peer result))),
                 if or_Truncated result then Some IoErrShortBuffer else None), s))"

definition packetConn_WriteTo :: "('g, 's) instanceOps \<Rightarrow> packetConn \<Rightarrow> bytes \<Rightarrow> net_addr option \<Rightarrow> sysErrnos \<Rightarrow> 's \<Rightarrow> (int \<times> goerror option) \<times> 's" where
  "packetConn_WriteTo N conn buffer address S s =
     (if cn_closed conn then ((0, Some NetErrClosed), s)
      else if length buffer > maxDataPlaneTransfer then ((0, Some (Errno (EMSGSIZE S))), s)
      else
        case udpAddrPort address of
          Inr peer \<Rightarrow>
            (case io_perform N OperationUDPSend (SubmitUDPSend (io_module N) (cn_resource conn) peer buffer) s of
               (Inl err, s) \<Rightarrow> ((0, Some (normalizeDeadlineError err)), s)
             | (Inr result, s) \<Rightarrow>
                 ((or_Length result, if or_Length result \<noteq> int (length buffer) then Some IoErrShortWrite else None), s))
        | Inl err \<Rightarrow> ((0, Some err), s))"

definition Instance_ListenPacket :: "('g, 's) instanceOps \<Rightarrow> u16 \<Rightarrow> 's \<Rightarrow> (goerror + packetConn) \<times> 's" where
  "Instance_ListenPacket N port s =
     (case io_perform N OperationUDPBind (SubmitUDPBind (io_module N) port (- 1)) s of
        (Inl err, s) \<Rightarrow> (Inl err, s)
      | (Inr result, s) \<Rightarrow> (Inr (newPacketConn result), s))"

definition Instance_DialUDP ::
  "('g, 's) instanceOps \<Rightarrow> goerror option \<Rightarrow> time option \<Rightarrow> addr_port \<Rightarrow> 's \<Rightarrow> (goerror + datagramConn) \<times> 's" where
  "Instance_DialUDP N ctxErr deadline peer s =
     (case contextTimeoutMillis ctxErr deadline of
        Inr timeout \<Rightarrow>
          (case io_perform N OperationUDPBind (SubmitUDPBind (io_module N) 0 (of_int timeout)) s of
             (Inl err, s) \<Rightarrow> (Inl (normalizeDeadlineError err), s)
           | (Inr result, s) \<Rightarrow> (Inr \<lparr>dg_packet = newPacketConn result, dg_peer = peer\<rparr>, s))
      | Inl err \<Rightarrow> (Inl (normalizeDeadlineError err), s))"

text \<open>The loop of \<^verbatim>\<open>datagramConn.Read\<close> ends only when a datagram of the peer or an error comes; \<open>None\<close> is not returning.\<close>

partial_function (option) readDatagram ::
  "('g, 's) instanceOps \<Rightarrow> datagramConn \<Rightarrow> nat \<Rightarrow> 's \<Rightarrow> ((bytes \<times> goerror option) \<times> 's) option" where
  "readDatagram N conn len s =
     (case packetConn_ReadFrom N (dg_packet conn) len s of
        ((data, source, err), s) \<Rightarrow>
          (case source of
             None \<Rightarrow> Some ((data, err), s)
           | Some address \<Rightarrow>
               (case udpAddrPort (Some address) of
                  Inr sourcePeer \<Rightarrow> if sourcePeer \<noteq> dg_peer conn then readDatagram N conn len s else Some ((data, err), s)
                | Inl addressErr \<Rightarrow> Some (([], Some addressErr), s))))"

definition datagramConn_Read :: "('g, 's) instanceOps \<Rightarrow> datagramConn \<Rightarrow> nat \<Rightarrow> 's \<Rightarrow> ((bytes \<times> goerror option) \<times> 's) option" where
  "datagramConn_Read N conn len s = (if len = 0 then Some (([], None), s) else readDatagram N conn len s)"

definition datagramConn_Write :: "('g, 's) instanceOps \<Rightarrow> datagramConn \<Rightarrow> bytes \<Rightarrow> sysErrnos \<Rightarrow> 's \<Rightarrow> (int \<times> goerror option) \<times> 's" where
  "datagramConn_Write N conn buffer S s =
     packetConn_WriteTo N (dg_packet conn) buffer (Some (NetUDPAddr (AddrFromAddrPort (dg_peer conn)))) S s"

section \<open>What a stream writes\<close>

text \<open>
  An instance that keeps a record of the operations performed through it, in order, each with the call that submits it and
  what came of it; otherwise it does what the instance \<open>N\<close> does.
\<close>

type_synonym 'g performed = "OperationKind \<times> ('g, OperationID) act \<times> (goerror + OperationResult)"

definition recorded :: "('g, 's) instanceOps \<Rightarrow> ('g, 's \<times> 'g performed list) instanceOps" where
  "recorded N =
     \<lparr>io_module = io_module N,
      io_perform = (\<lambda>kind submission (s, log). case io_perform N kind submission s of (r, s) \<Rightarrow> (r, s, log @ [(kind, submission, r)])),
      io_close = (\<lambda>res (s, log). case io_close N res s of (err, s) \<Rightarrow> (err, s, log)),
      io_setDeadline = (\<lambda>res direction t (s, log). case io_setDeadline N res direction t s of (err, s) \<Rightarrow> (err, s, log))\<rparr>"

text \<open>How many bytes a record of operations acknowledges; and what follows in the buffer, up to 1 MiB.\<close>

definition acknowledged :: "'g performed list \<Rightarrow> nat" where
  "acknowledged log = (\<Sum>(kind, submission, r) \<leftarrow> log. case r of Inr result \<Rightarrow> nat (or_Length result) | Inl _ \<Rightarrow> 0)"

definition chunkAt :: "bytes \<Rightarrow> nat \<Rightarrow> bytes" where
  "chunkAt buffer n = take maxDataPlaneTransfer (drop n buffer)"

text \<open>The guest acknowledged part of the chunk, at least a byte, or all of it.\<close>

definition progress :: "bytes \<Rightarrow> goerror + OperationResult \<Rightarrow> bool" where
  "progress chunk r \<longleftrightarrow> (\<exists>result. r = Inr result \<and> 0 < or_Length result \<and> or_Length result \<le> int (length chunk))"

text \<open>
  The record of a call that had written \<open>m\<close> bytes before: every chunk starts behind the bytes acknowledged so far; all replies
  but the last make progress; and the result is the count of these bytes, with the reason why the last did not.
\<close>

definition writeTrace :: "('g, 's) instanceOps \<Rightarrow> ResourceID \<Rightarrow> bytes \<Rightarrow> nat \<Rightarrow> 'g performed list \<Rightarrow> nat \<Rightarrow> goerror option \<Rightarrow> bool" where
  "writeTrace N res buffer m log n err \<longleftrightarrow>
     (\<forall>i < length log. \<exists>r. log ! i =
        (OperationTCPWrite, SubmitTCPWrite (io_module N) res (chunkAt buffer (m + acknowledged (take i log))), r)) \<and>
     (\<forall>i < length log. progress (chunkAt buffer (m + acknowledged (take i log))) (snd (snd (log ! i))) \<longleftrightarrow> Suc i < length log \<or> err = None) \<and>
     (case err of
        None \<Rightarrow> n = m + acknowledged log
      | Some e \<Rightarrow> log \<noteq> [] \<and> n = m + acknowledged (butlast log) \<and>
          (case snd (snd (last log)) of Inl e' \<Rightarrow> e = normalizeDeadlineError e' | Inr _ \<Rightarrow> e = IoErrShortWrite))"

lemma acknowledged_simps [simp]:
  "acknowledged [] = 0"
  "acknowledged ((kind, submission, r) # log) = (case r of Inr result \<Rightarrow> nat (or_Length result) | Inl _ \<Rightarrow> 0) + acknowledged log"
  by (simp_all add: acknowledged_def)

lemma writeTrace_stop:
  assumes "\<not> progress (chunkAt buffer m) r"
  shows "writeTrace N res buffer m [(OperationTCPWrite, SubmitTCPWrite (io_module N) res (chunkAt buffer m), r)] m
    (Some (case r of Inl e \<Rightarrow> normalizeDeadlineError e | Inr _ \<Rightarrow> IoErrShortWrite))"
  using assms by (cases r) (simp_all add: writeTrace_def)

lemma writeTrace_continue:
  assumes "progress (chunkAt buffer m) (Inr result)" "writeTrace N res buffer (m + nat (or_Length result)) log n err"
    "err = None \<or> log \<noteq> []"
  shows "writeTrace N res buffer m
    ((OperationTCPWrite, SubmitTCPWrite (io_module N) res (chunkAt buffer m), Inr result) # log) n err"
proof -
  let ?entry = "(OperationTCPWrite, SubmitTCPWrite (io_module N) res (chunkAt buffer m), Inr result)"
  let ?k = "nat (or_Length result)"
  note parts = assms(2) [unfolded writeTrace_def, THEN conjunct1] assms(2) [unfolded writeTrace_def, THEN conjunct2, THEN conjunct1]
    assms(2) [unfolded writeTrace_def, THEN conjunct2, THEN conjunct2]
  have ack: "acknowledged (?entry # xs) = ?k + acknowledged xs" for xs by simp
  have "\<forall>i < length (?entry # log). \<exists>r. (?entry # log) ! i =
      (OperationTCPWrite, SubmitTCPWrite (io_module N) res (chunkAt buffer (m + acknowledged (take i (?entry # log)))), r)"
    using parts(1) by (simp add: All_less_Suc2 add.assoc)
  moreover have "\<forall>i < length (?entry # log). progress (chunkAt buffer (m + acknowledged (take i (?entry # log))))
      (snd (snd ((?entry # log) ! i))) \<longleftrightarrow> Suc i < length (?entry # log) \<or> err = None"
    using parts(2) assms(1,3) by (auto simp: All_less_Suc2 add.assoc)
  moreover have "case err of None \<Rightarrow> n = m + acknowledged (?entry # log)
      | Some e \<Rightarrow> ?entry # log \<noteq> [] \<and> n = m + acknowledged (butlast (?entry # log)) \<and>
          (case snd (snd (last (?entry # log))) of Inl e' \<Rightarrow> e = normalizeDeadlineError e' | Inr _ \<Rightarrow> e = IoErrShortWrite)"
    using parts(3) by (cases err) (simp_all add: add.assoc)
  ultimately show ?thesis unfolding writeTrace_def by blast
qed

lemma recorded_perform:
  "io_perform N kind submission s = (r, s1) \<Longrightarrow>
    io_perform (recorded N) kind submission (s, log) = (r, s1, log @ [(kind, submission, r)])"
  "io_module (recorded N) = io_module N"
  by (simp_all add: recorded_def)

lemma writeChunks_trace:
  assumes "m \<le> length buffer" "writeChunks (recorded N) conn buffer m (s, log0) = ((n, err), s', log1)"
  shows "writeChunks N conn buffer m s = ((n, err), s') \<and> n \<le> length buffer \<and> (err = None \<longleftrightarrow> n = length buffer) \<and>
    (\<exists>log. log1 = log0 @ log \<and> writeTrace N (cn_resource conn) buffer m log n err)"
  using assms
proof (induction "length buffer - m" arbitrary: m s log0 rule: less_induct)
  case less
  show ?case
  proof (cases "m < length buffer")
    case True
    let ?act = "SubmitTCPWrite (io_module N) (cn_resource conn) (chunkAt buffer m)"
    obtain r s1 where p: "io_perform N OperationTCPWrite ?act s = (r, s1)" by (metis surj_pair)
    have plain: "writeChunks N conn buffer m s =
      (case r of
         Inl e \<Rightarrow> ((m, Some (normalizeDeadlineError e)), s1)
       | Inr result \<Rightarrow>
           if or_Length result \<le> 0 \<or> or_Length result > int (length (chunkAt buffer m)) then ((m, Some IoErrShortWrite), s1)
           else writeChunks N conn buffer (m + nat (or_Length result)) s1)"
      by (subst writeChunks.simps) (simp only: True p if_True Let_def chunkAt_def [symmetric] prod.case split: sum.split)
    have rec: "writeChunks (recorded N) conn buffer m (s, log0) =
      (case r of
         Inl e \<Rightarrow> ((m, Some (normalizeDeadlineError e)), s1, log0 @ [(OperationTCPWrite, ?act, r)])
       | Inr result \<Rightarrow>
           if or_Length result \<le> 0 \<or> or_Length result > int (length (chunkAt buffer m))
           then ((m, Some IoErrShortWrite), s1, log0 @ [(OperationTCPWrite, ?act, r)])
           else writeChunks (recorded N) conn buffer (m + nat (or_Length result)) (s1, log0 @ [(OperationTCPWrite, ?act, r)]))"
      by (subst writeChunks.simps)
        (simp only: True recorded_perform(1) [OF p] recorded_perform(2) if_True Let_def chunkAt_def [symmetric] prod.case split: sum.split)
    show ?thesis
    proof (cases "progress (chunkAt buffer m) r")
      case False
      have "((n, err), s', log1) = ((m, Some (case r of Inl e \<Rightarrow> normalizeDeadlineError e | Inr _ \<Rightarrow> IoErrShortWrite)),
          s1, log0 @ [(OperationTCPWrite, ?act, r)])"
        "writeChunks N conn buffer m s = ((m, Some (case r of Inl e \<Rightarrow> normalizeDeadlineError e | Inr _ \<Rightarrow> IoErrShortWrite)), s1)"
        using less.prems(2) False unfolding rec plain by (cases r; auto simp: progress_def split: if_splits)+
      then show ?thesis using True writeTrace_stop [OF False, of N "cn_resource conn"] by auto
    next
      case prog: True
      then obtain result where r: "r = Inr result" "0 < or_Length result" "or_Length result \<le> int (length (chunkAt buffer m))"
        by (auto simp: progress_def)
      let ?k = "nat (or_Length result)"
      have k: "0 < ?k" "m + ?k \<le> length buffer" using r by (auto simp: chunkAt_def)
      have w: "writeChunks N conn buffer m s = writeChunks N conn buffer (m + ?k) s1"
        "writeChunks (recorded N) conn buffer (m + ?k) (s1, log0 @ [(OperationTCPWrite, ?act, r)]) = ((n, err), s', log1)"
        using less.prems(2) r unfolding rec plain by simp_all
      have "length buffer - (m + ?k) < length buffer - m" using k True by linarith
      from less.hyps [OF this k(2) w(2)] obtain log where
        "writeChunks N conn buffer (m + ?k) s1 = ((n, err), s')" "n \<le> length buffer" "err = None \<longleftrightarrow> n = length buffer"
        "log1 = (log0 @ [(OperationTCPWrite, ?act, r)]) @ log" "writeTrace N (cn_resource conn) buffer (m + ?k) log n err" by auto
      moreover have "err = None \<or> log \<noteq> []" using calculation(5) by (auto simp: writeTrace_def split: option.splits)
      ultimately show ?thesis
        using writeTrace_continue [of buffer m result N "cn_resource conn" log n err] prog w(1) r(1) by auto
    qed
  next
    case False
    have "writeChunks N conn buffer m s = ((m, None), s)" "writeChunks (recorded N) conn buffer m (s, log0) = ((m, None), s, log0)"
      by (subst writeChunks.simps, simp add: False)+
    then have "writeChunks N conn buffer m s = ((m, None), s)" "((n, err), s', log1) = ((m, None), s, log0)"
      using less.prems(2) by simp_all
    then show ?thesis using False less.prems(1) by (simp add: writeTrace_def)
  qed
qed

text \<open>C37: Write reports exactly what the instance acknowledged, whatever the instance does. It submits chunks of at most 1 MiB, each
  starting at the first byte that has not been acknowledged, one after the other and each only when the one before was
  acknowledged at least in part; the count it returns is the number of bytes acknowledged; there is no error exactly when that
  is all of the buffer; otherwise the error is that of the last chunk, or the short write error when the length reported for
  it was outside the chunk. A closed connection or an empty buffer submits nothing.\<close>

theorem write_reports_what_was_accepted:
  assumes "streamConn_Write (recorded N) conn buffer (s, []) = ((n, err), s', log)"
  shows "streamConn_Write N conn buffer s = ((n, err), s') \<and> n \<le> length buffer \<and> (err = None \<longleftrightarrow> n = length buffer) \<and>
    (if cn_closed conn \<or> buffer = [] then log = [] \<and> n = 0 \<and> err \<in> {None, Some NetErrClosed}
     else writeTrace N (cn_resource conn) buffer 0 log n err)"
proof (cases "buffer = [] \<or> cn_closed conn")
  case True
  then show ?thesis using assms by (cases "buffer = []") (auto simp: streamConn_Write_def)
next
  case False
  then have "writeChunks (recorded N) conn buffer 0 (s, []) = ((n, err), s', log)" using assms by (simp add: streamConn_Write_def)
  from writeChunks_trace [OF _ this] False show ?thesis by (simp add: streamConn_Write_def)
qed

section \<open>An instance to write through\<close>

text \<open>A guest whose memory only grows, and an instance that completes each operation with the number of bytes it wrote there.\<close>

definition scribeModule :: "bytes module" where
  "scribeModule =
     \<lparr>m_exported = (\<lambda>name. if name = ''easytier_data_plane_tcp_write_submit'' then Some (5, 1) else Some (1, 1)),
      m_call = (\<lambda>name params g. ((None, if name = ''easytier_buffer_alloc'' then 5 else 0), g)),
      m_read = (\<lambda>g p n. Some (replicate (unat n) 1)),
      m_write = (\<lambda>g p xs. Some (g @ xs))\<rparr>"

definition scribe :: "(bytes, bytes) instanceOps" where
  "scribe =
     \<lparr>io_module = scribeModule,
      io_perform = (\<lambda>kind act g.
        case act (emptyCore, g) of
          (Ok _, _, g') \<Rightarrow> (Inr ((emptyResult kind)\<lparr>or_Length := int (length g') - int (length g)\<rparr>), g')
        | _ \<Rightarrow> (Inl NetErrClosed, g)),
      io_close = (\<lambda>r g. (None, g)), io_setDeadline = (\<lambda>r d t g. (None, g))\<rparr>"

definition demoStream :: streamConn where
  "demoStream = \<lparr>cn_resource = 3, cn_local = noAddress, cn_closed = False, cn_closeErr = None, sc_peer = noAddress\<rparr>"

lemma scribe_performs:
  "io_perform scribe kind (SubmitTCPWrite (io_module scribe) 3 [1, 2, 3]) [7] =
     (Inr ((emptyResult kind)\<lparr>or_Length := 3\<rparr>), [7, 1, 2, 3])"
proof -
  let ?core = "emptyCore\<lparr>core_functions := [''easytier_buffer_alloc'' \<mapsto> \<lparr>gf_call = ''easytier_buffer_alloc'', gf_parameterCount = 1\<rparr>]\<rparr>"
  let ?body = "cleanupBuffer scribeModule 5 (submit scribeModule ''easytier_data_plane_tcp_write_submit'' [3, 5, 3])"
  have w: "writeInput scribeModule [1, 2, 3] (emptyCore, [7]) = (Ok 5, ?core, [7, 1, 2, 3])"
    by (simp add: writeInput_def allocate_def callOne_def resolveFunction_def callGuestFunction_def bindA_def returnA_def
        scribeModule_def emptyCore_def Let_def)
  have "case ?body (?core, [7, 1, 2, 3]) of (Ok _, _, g) \<Rightarrow> g = [7, 1, 2, 3] | _ \<Rightarrow> False" by code_simp
  moreover have "SubmitTCPWrite scribeModule 3 [1, 2, 3] (emptyCore, [7]) = ?body (?core, [7, 1, 2, 3])"
    by (simp add: SubmitTCPWrite_def maxDataPlaneTransferBytes_def bindA_def w)
  ultimately show ?thesis by (auto simp: scribe_def split: prod.splits outcome.splits)
qed

theorem write_reports_what_was_accepted_witness:
  "\<exists>log. streamConn_Write (recorded scribe) demoStream [1, 2, 3] ([7], []) = ((3, None), [7, 1, 2, 3], log) \<and>
     writeTrace scribe 3 [1, 2, 3] 0 log 3 None \<and> acknowledged log = 3"
proof -
  let ?log = "[(OperationTCPWrite, SubmitTCPWrite (io_module scribe) 3 [1, 2, 3], Inr ((emptyResult OperationTCPWrite)\<lparr>or_Length := 3\<rparr>))]"
  have w: "streamConn_Write (recorded scribe) demoStream [1, 2, 3] ([7], []) = ((3, None), [7, 1, 2, 3], ?log)"
    by (simp add: streamConn_Write_def demoStream_def writeChunks.simps maxDataPlaneTransfer_def recorded_perform
        recorded_perform(1) [OF scribe_performs] Let_def)
  have "writeTrace scribe 3 [1, 2, 3] 0 ?log 3 None" using write_reports_what_was_accepted [OF w] by (simp add: demoStream_def)
  with w show ?thesis by (intro exI [of _ ?log]) simp
qed

end
