(* ===== verification/HostConfig.thy ===== *)
theory HostConfig
  imports CoreWire
begin

text \<open>
  Configurations of instances (internal/host/instance_config.go, instance_config_toml.go): the builder, its validation, and the
  TOML text that is handed to the guest. A Go string is its bytes. The grammars of URLs and of textual addresses, the X25519
  group and base64 are those of Go's standard library and are collected in one record of parameters.
\<close>

section \<open>Text\<close>

definition lit :: "string \<Rightarrow> bytes" where
  "lit s = map (\<lambda>c. of_nat (of_char c)) s"

fun decimal :: "nat \<Rightarrow> string" where
  "decimal n = (if n < 10 then [char_of (48 + n)] else decimal (n div 10) @ [char_of (48 + n mod 10)])"

declare decimal.simps [simp del]

text \<open>The code points of a string, \<^verbatim>\<open>for _, character := range s\<close>; an invalid byte counts as U+FFFD.\<close>

definition rune2 :: "byte \<Rightarrow> byte \<Rightarrow> nat" where
  "rune2 b c = unat b mod 32 * 64 + unat c mod 64"

definition rune3 :: "byte \<Rightarrow> byte \<Rightarrow> byte \<Rightarrow> nat" where
  "rune3 b c d = (unat b mod 16 * 64 + unat c mod 64) * 64 + unat d mod 64"

definition rune4 :: "byte \<Rightarrow> byte \<Rightarrow> byte \<Rightarrow> byte \<Rightarrow> nat" where
  "rune4 b c d e = ((unat b mod 8 * 64 + unat c mod 64) * 64 + unat d mod 64) * 64 + unat e mod 64"

text \<open>\<^verbatim>\<open>utf8.DecodeRuneInString\<close>: the first code point and how many bytes it takes, or none when they are not UTF-8.\<close>

definition decodeRune :: "bytes \<Rightarrow> (nat \<times> nat) option" where
  "decodeRune s =
     (case s of
        [] \<Rightarrow> None
      | b # bs \<Rightarrow>
          if b < 0x80 then Some (unat b, 1)
          else if 0xc2 \<le> b \<and> b \<le> 0xdf then
            (case bs of c # _ \<Rightarrow> if utf8_cont c then Some (rune2 b c, 2) else None | _ \<Rightarrow> None)
          else if 0xe0 \<le> b \<and> b \<le> 0xef then
            (case bs of c # d # _ \<Rightarrow>
                if (if b = 0xe0 then 0xa0 \<le> c \<and> c \<le> 0xbf
                    else if b = 0xed then 0x80 \<le> c \<and> c \<le> 0x9f else utf8_cont c) \<and> utf8_cont d
                then Some (rune3 b c d, 3) else None
             | _ \<Rightarrow> None)
          else if 0xf0 \<le> b \<and> b \<le> 0xf4 then
            (case bs of c # d # e # _ \<Rightarrow>
                if (if b = 0xf0 then 0x90 \<le> c \<and> c \<le> 0xbf
                    else if b = 0xf4 then 0x80 \<le> c \<and> c \<le> 0x8f else utf8_cont c) \<and> utf8_cont d \<and> utf8_cont e
                then Some (rune4 b c d e, 4) else None
             | _ \<Rightarrow> None)
          else None)"

lemma decodeRune_size: "decodeRune s = Some (r, n) \<Longrightarrow> 1 \<le> n \<and> n \<le> length s"
  by (auto simp: decodeRune_def split: list.splits if_splits)

function runes :: "bytes \<Rightarrow> nat list" where
  "runes s =
     (case s of
        [] \<Rightarrow> []
      | _ # bs \<Rightarrow> (case decodeRune s of None \<Rightarrow> 0xfffd # runes bs | Some (r, n) \<Rightarrow> r # runes (drop n s)))"
  by pat_completeness auto

termination by (relation "measure length") (auto dest: decodeRune_size)

declare runes.simps [simp del]

definition IsControl :: "nat \<Rightarrow> bool" where
  "IsControl r \<longleftrightarrow> r < 0x20 \<or> 0x7f \<le> r \<and> r < 0xa0"

definition IsSpace :: "nat \<Rightarrow> bool" where
  "IsSpace r \<longleftrightarrow>
     9 \<le> r \<and> r \<le> 13 \<or> r \<in> {0x20, 0x85, 0xa0, 0x1680, 0x2028, 0x2029, 0x202f, 0x205f, 0x3000} \<or> 0x2000 \<le> r \<and> r \<le> 0x200a"

text \<open>\<^verbatim>\<open>strings.TrimSpace(value) != value\<close> for a value that is not empty.\<close>

definition surroundedBySpace :: "bytes \<Rightarrow> bool" where
  "surroundedBySpace value \<longleftrightarrow> runes value \<noteq> [] \<and> (IsSpace (hd (runes value)) \<or> IsSpace (last (runes value)))"

text \<open>\<^verbatim>\<open>strconv.ParseUint(s, 10, 16)\<close>.\<close>

definition ParseUint16 :: "bytes \<Rightarrow> nat option" where
  "ParseUint16 s =
     (if s = [] \<or> (\<exists>b \<in> set s. b < 0x30 \<or> 0x39 < b) then None
      else
        let v = foldl (\<lambda>acc b. acc * 10 + (unat b - 48)) 0 s
        in if v < 2 ^ 16 then Some v else None)"

definition ToLower :: "bytes \<Rightarrow> bytes" where
  "ToLower s = map (\<lambda>b. if 0x41 \<le> b \<and> b \<le> 0x5a then b + 32 else b) s"

section \<open>URLs\<close>

record URL =
  Scheme :: bytes
  Host :: bytes
  User :: bool
  Opaque :: bytes
  Path :: bytes
  RawPath :: bytes
  RawQuery :: bytes
  ForceQuery :: bool
  Fragment :: bytes

definition validOptionalPort :: "bytes \<Rightarrow> bool" where
  "validOptionalPort port =
     (case port of [] \<Rightarrow> True | c # digits \<Rightarrow> c = 0x3a \<and> list_all (\<lambda>b. 0x30 \<le> b \<and> b \<le> 0x39) digits)"

text \<open>What precedes the last colon, and what follows it, when it begins an optional port.\<close>

definition splitURLHostPort :: "bytes \<Rightarrow> bytes \<times> bytes" where
  "splitURLHostPort hostPort =
     (let tail = takeWhile (\<lambda>b. b \<noteq> 0x3a) (rev hostPort);
          colon = length hostPort - length tail - 1;
          (host, port) =
            (if 0x3a \<in> set hostPort \<and> validOptionalPort (drop colon hostPort)
             then (take colon hostPort, drop (colon + 1) hostPort) else (hostPort, []));
          host = (if host \<noteq> [] \<and> hd host = 0x5b \<and> last host = 0x5d then butlast (tl host) else host)
      in (host, port))"

definition Hostname :: "URL \<Rightarrow> bytes" where
  "Hostname u = fst (splitURLHostPort (Host u))"

definition URL_Port :: "URL \<Rightarrow> bytes" where
  "URL_Port u = snd (splitURLHostPort (Host u))"

record prefix =
  pf_Addr :: netip_addr
  pf_Bits :: int

definition prefix_IsValid :: "prefix \<Rightarrow> bool" where
  "prefix_IsValid p \<longleftrightarrow> 0 \<le> pf_Bits p"

record stdlib =
  st_ParseRequestURI :: "bytes \<Rightarrow> URL option"
  st_UrlParse :: "bytes \<Rightarrow> URL option"
  st_UrlString :: "URL \<Rightarrow> bytes"
  st_ParseAddr :: "bytes \<Rightarrow> netip_addr option"
  st_ParseAddrPort :: "bytes \<Rightarrow> addr_port option"
  st_PrefixString :: "prefix \<Rightarrow> bytes"
  st_AddrPortString :: "addr_port \<Rightarrow> bytes"
  st_PublicKey :: "bytes \<Rightarrow> bytes option"
  st_GenerateKey :: "goerror + bytes"
  st_Base64 :: "bytes \<Rightarrow> bytes"

section \<open>The configuration\<close>

record P2PPolicy =
  p2p_Disable :: bool
  p2p_Need :: bool
  p2p_Lazy :: bool

record HolePunchingPolicy =
  hp_TCP :: bool
  hp_UDP :: bool
  hp_SymmetricUDP :: bool

record PortForwardConfig =
  fw_Protocol :: bytes
  fw_Bind :: addr_port
  fw_Destination :: addr_port

definition PortForwardTCP :: bytes where "PortForwardTCP = lit ''tcp''"
definition PortForwardUDP :: bytes where "PortForwardUDP = lit ''udp''"

datatype secureMode = secureModeDisabled | secureModeAutomatic | secureModeManual

record instanceConfigDocument =
  cd_networkName :: bytes
  cd_networkSecret :: bytes
  cd_hostname :: "bytes option"
  cd_ipv4 :: "prefix option"
  cd_peers :: "bytes list"
  cd_listeners :: "bytes list"
  cd_portForwards :: "PortForwardConfig list"
  cd_stunServers :: "bytes list"
  cd_stunServersSet :: bool
  cd_stunServersV6 :: "bytes list"
  cd_stunServersV6Set :: bool
  cd_p2p :: "P2PPolicy option"
  cd_holePunching :: "HolePunchingPolicy option"
  cd_encryption :: "bool option"
  cd_secureMode :: secureMode
  cd_securePrivateKey :: bytes

record InstanceConfigBuilder =
  bd_document :: instanceConfigDocument
  bd_networkSecretSet :: bool

type_synonym InstanceConfig = "instanceConfigDocument option"

definition NewInstanceConfigBuilder :: "bytes \<Rightarrow> InstanceConfigBuilder" where
  "NewInstanceConfigBuilder networkName =
     \<lparr>bd_document =
        \<lparr>cd_networkName = networkName, cd_networkSecret = [], cd_hostname = None, cd_ipv4 = None, cd_peers = [], cd_listeners = [],
         cd_portForwards = [], cd_stunServers = [], cd_stunServersSet = False, cd_stunServersV6 = [], cd_stunServersV6Set = False,
         cd_p2p = None, cd_holePunching = None, cd_encryption = None, cd_secureMode = secureModeDisabled, cd_securePrivateKey = []\<rparr>,
      bd_networkSecretSet = False\<rparr>"

definition onDocument :: "(instanceConfigDocument \<Rightarrow> instanceConfigDocument) \<Rightarrow> InstanceConfigBuilder \<Rightarrow> InstanceConfigBuilder" where
  "onDocument f builder = builder\<lparr>bd_document := f (bd_document builder)\<rparr>"

definition builder_NetworkSecret :: "bytes \<Rightarrow> InstanceConfigBuilder \<Rightarrow> InstanceConfigBuilder" where
  "builder_NetworkSecret secret builder = (onDocument (\<lambda>d. d\<lparr>cd_networkSecret := secret\<rparr>) builder)\<lparr>bd_networkSecretSet := True\<rparr>"

definition builder_Hostname :: "bytes \<Rightarrow> InstanceConfigBuilder \<Rightarrow> InstanceConfigBuilder" where
  "builder_Hostname hostname = onDocument (\<lambda>d. d\<lparr>cd_hostname := Some hostname\<rparr>)"

definition builder_IPv4 :: "prefix \<Rightarrow> InstanceConfigBuilder \<Rightarrow> InstanceConfigBuilder" where
  "builder_IPv4 p = onDocument (\<lambda>d. d\<lparr>cd_ipv4 := Some p\<rparr>)"

definition builder_AddPeers :: "bytes list \<Rightarrow> InstanceConfigBuilder \<Rightarrow> InstanceConfigBuilder" where
  "builder_AddPeers uris = onDocument (\<lambda>d. d\<lparr>cd_peers := cd_peers d @ uris\<rparr>)"

definition builder_AddListeners :: "bytes list \<Rightarrow> InstanceConfigBuilder \<Rightarrow> InstanceConfigBuilder" where
  "builder_AddListeners uris = onDocument (\<lambda>d. d\<lparr>cd_listeners := cd_listeners d @ uris\<rparr>)"

definition builder_AddPortForwards :: "PortForwardConfig list \<Rightarrow> InstanceConfigBuilder \<Rightarrow> InstanceConfigBuilder" where
  "builder_AddPortForwards forwards = onDocument (\<lambda>d. d\<lparr>cd_portForwards := cd_portForwards d @ forwards\<rparr>)"

definition builder_STUNServers :: "bytes list \<Rightarrow> InstanceConfigBuilder \<Rightarrow> InstanceConfigBuilder" where
  "builder_STUNServers servers = onDocument (\<lambda>d. d\<lparr>cd_stunServers := servers, cd_stunServersSet := True\<rparr>)"

definition builder_STUNServersV6 :: "bytes list \<Rightarrow> InstanceConfigBuilder \<Rightarrow> InstanceConfigBuilder" where
  "builder_STUNServersV6 servers = onDocument (\<lambda>d. d\<lparr>cd_stunServersV6 := servers, cd_stunServersV6Set := True\<rparr>)"

definition builder_P2P :: "P2PPolicy \<Rightarrow> InstanceConfigBuilder \<Rightarrow> InstanceConfigBuilder" where
  "builder_P2P policy = onDocument (\<lambda>d. d\<lparr>cd_p2p := Some policy\<rparr>)"

definition builder_HolePunching :: "HolePunchingPolicy \<Rightarrow> InstanceConfigBuilder \<Rightarrow> InstanceConfigBuilder" where
  "builder_HolePunching policy = onDocument (\<lambda>d. d\<lparr>cd_holePunching := Some policy\<rparr>)"

definition builder_Encryption :: "bool \<Rightarrow> InstanceConfigBuilder \<Rightarrow> InstanceConfigBuilder" where
  "builder_Encryption enabled = onDocument (\<lambda>d. d\<lparr>cd_encryption := Some enabled\<rparr>)"

definition builder_SecureMode :: "InstanceConfigBuilder \<Rightarrow> InstanceConfigBuilder" where
  "builder_SecureMode = onDocument (\<lambda>d. d\<lparr>cd_secureMode := secureModeAutomatic, cd_securePrivateKey := []\<rparr>)"

definition builder_SecureModeWithPrivateKey :: "bytes \<Rightarrow> InstanceConfigBuilder \<Rightarrow> InstanceConfigBuilder" where
  "builder_SecureModeWithPrivateKey privateKey =
     onDocument (\<lambda>d. d\<lparr>cd_secureMode := secureModeManual, cd_securePrivateKey := privateKey\<rparr>)"

section \<open>Validation\<close>

definition invalidInstanceConfig :: "string \<Rightarrow> string \<Rightarrow> goerror" where
  "invalidInstanceConfig field message =
     (if field = '''' then Errorf (''invalid EasyTier instance config: '' @ message) []
      else Errorf (''invalid EasyTier instance config '' @ field @ '': '' @ message) [])"

definition indexed :: "string \<Rightarrow> nat \<Rightarrow> string" where
  "indexed field k = field @ ''['' @ decimal k @ '']''"

definition validateIdentity :: "InstanceConfigBuilder \<Rightarrow> goerror option" where
  "validateIdentity builder =
     (let d = bd_document builder in
      if \<not> utf8_valid (cd_networkName d) then Some (invalidInstanceConfig ''network.name'' ''must be valid UTF-8'')
      else if cd_networkName d = [] then Some (invalidInstanceConfig ''network.name'' ''must not be empty'')
      else if \<not> bd_networkSecretSet builder then Some (invalidInstanceConfig ''network.secret'' ''must be explicitly set'')
      else if \<not> utf8_valid (cd_networkSecret d) then Some (invalidInstanceConfig ''network.secret'' ''must be valid UTF-8'')
      else None)"

text \<open>The key, and the builder, which keeps the key it generated.\<close>

definition secureModePrivateKey :: "stdlib \<Rightarrow> InstanceConfigBuilder \<Rightarrow> (goerror + bytes) \<times> InstanceConfigBuilder" where
  "secureModePrivateKey L builder =
     (let d = bd_document builder in
      case cd_secureMode d of
        secureModeAutomatic \<Rightarrow>
          if cd_securePrivateKey d = [] then
            (case st_GenerateKey L of
               Inl err \<Rightarrow> (Inl (Errorf ''generate secure mode X25519 key: %w'' [err]), builder)
             | Inr key \<Rightarrow> (Inr key, onDocument (\<lambda>d. d\<lparr>cd_securePrivateKey := key\<rparr>) builder))
          else (Inr (cd_securePrivateKey d), builder)
      | secureModeManual \<Rightarrow>
          if length (cd_securePrivateKey d) \<noteq> 32
          then (Inl (invalidInstanceConfig ''secure_mode.private_key'' ''must contain exactly 32 bytes''), builder)
          else if st_PublicKey L (cd_securePrivateKey d) = None
          then (Inl (invalidInstanceConfig ''secure_mode.private_key'' ''is not a valid X25519 private key''), builder)
          else (Inr (cd_securePrivateKey d), builder)
      | secureModeDisabled \<Rightarrow> (Inl (invalidInstanceConfig ''secure_mode'' ''has an invalid mode''), builder))"

definition validateHostname :: "bytes option \<Rightarrow> goerror option" where
  "validateHostname hostname =
     (case hostname of
        None \<Rightarrow> None
      | Some name \<Rightarrow>
          if \<not> utf8_valid name then Some (invalidInstanceConfig ''hostname'' ''must be valid UTF-8'')
          else if name = [] then Some (invalidInstanceConfig ''hostname'' ''must not be empty'')
          else if length (runes name) > 32 then Some (invalidInstanceConfig ''hostname'' ''must not exceed 32 characters'')
          else if \<exists>r \<in> set (runes name). IsControl r
          then Some (invalidInstanceConfig ''hostname'' ''must not contain control characters'')
          else None)"

definition validateIPv4 :: "prefix option \<Rightarrow> goerror option" where
  "validateIPv4 ipv4 =
     (case ipv4 of
        None \<Rightarrow> None
      | Some p \<Rightarrow>
          if \<not> prefix_IsValid p \<or> \<not> Is4 (pf_Addr p) then Some (invalidInstanceConfig ''ipv4'' ''must be a valid IPv4 prefix'')
          else if pf_Bits p = 32 then Some (invalidInstanceConfig ''ipv4'' ''must include a network prefix shorter than /32'')
          else None)"

text \<open>The loop over the port forwards from number \<open>k\<close> on; \<open>seen\<close> are those before.\<close>

fun validatePortForwardsLoop :: "PortForwardConfig list \<Rightarrow> nat \<Rightarrow> PortForwardConfig list \<Rightarrow> goerror option" where
  "validatePortForwardsLoop seen k [] = None"
| "validatePortForwardsLoop seen k (forward # forwards) =
     (let field = indexed ''port_forwards'' k in
      if fw_Protocol forward \<noteq> PortForwardTCP \<and> fw_Protocol forward \<noteq> PortForwardUDP
      then Some (invalidInstanceConfig (field @ ''.protocol'') ''must be TCP or UDP'')
      else if \<not> addrport_IsValid (fw_Bind forward) \<or> \<not> Is4 (ap_addr (fw_Bind forward))
      then Some (invalidInstanceConfig (field @ ''.bind'') ''must be a valid IPv4 socket address'')
      else if \<not> addrport_IsValid (fw_Destination forward) \<or> \<not> Is4 (ap_addr (fw_Destination forward))
      then Some (invalidInstanceConfig (field @ ''.destination'') ''must be a valid IPv4 socket address'')
      else if ap_port (fw_Destination forward) = 0
      then Some (invalidInstanceConfig (field @ ''.destination'') ''port must not be zero'')
      else if forward \<in> set seen then Some (invalidInstanceConfig field ''duplicates another port forward'')
      else validatePortForwardsLoop (forward # seen) (Suc k) forwards)"

definition validatePortForwards :: "PortForwardConfig list \<Rightarrow> goerror option" where
  "validatePortForwards forwards = validatePortForwardsLoop [] 0 forwards"

text \<open>The errors of one endpoint are texts.\<close>

definition normalizeEndpoint :: "stdlib \<Rightarrow> bytes \<Rightarrow> bool \<Rightarrow> string + bytes" where
  "normalizeEndpoint L value listener =
     (if \<not> utf8_valid value then Inl ''must be valid UTF-8''
      else if value = [] \<or> surroundedBySpace value then Inl ''must be a non-empty URI without surrounding whitespace''
      else
        case st_ParseRequestURI L value of
          None \<Rightarrow> Inl ''must be an absolute TCP or UDP URI''
        | Some parsed \<Rightarrow>
            if Scheme parsed = [] \<or> Host parsed = [] then Inl ''must be an absolute TCP or UDP URI''
            else
              let parsed = parsed\<lparr>Scheme := ToLower (Scheme parsed)\<rparr>;
                  host = Hostname parsed;
                  port = URL_Port parsed
              in if Scheme parsed \<noteq> lit ''tcp'' \<and> Scheme parsed \<noteq> lit ''udp'' then Inl ''must use the TCP or UDP scheme''
                 else if User parsed \<or> Opaque parsed \<noteq> [] \<or> Path parsed \<noteq> [] \<or> RawPath parsed \<noteq> [] \<or> RawQuery parsed \<noteq> [] \<or>
                   ForceQuery parsed \<or> Fragment parsed \<noteq> []
                 then Inl ''must not contain credentials, a path, query, or fragment''
                 else if host = [] then Inl ''must include a host''
                 else if port \<noteq> [] \<and> (case ParseUint16 port of None \<Rightarrow> True | Some v \<Rightarrow> \<not> listener \<and> v = 0)
                 then Inl ''has an invalid port''
                 else if listener \<and> st_ParseAddr L host = None then Inl ''listener host must be an IP address''
                 else Inr (st_UrlString L parsed))"

fun normalizeEndpointsLoop :: "stdlib \<Rightarrow> bool \<Rightarrow> string \<Rightarrow> bytes list \<Rightarrow> nat \<Rightarrow> bytes list \<Rightarrow> goerror + bytes list" where
  "normalizeEndpointsLoop L listener field seen k [] = Inr []"
| "normalizeEndpointsLoop L listener field seen k (value # vals) =
     (case normalizeEndpoint L value listener of
        Inl message \<Rightarrow> Inl (invalidInstanceConfig (indexed field k) message)
      | Inr normalized \<Rightarrow>
          if normalized \<in> set seen then Inl (invalidInstanceConfig (indexed field k) ''duplicates another endpoint'')
          else map_sum id (Cons normalized) (normalizeEndpointsLoop L listener field (normalized # seen) (Suc k) vals))"

definition normalizeEndpoints :: "stdlib \<Rightarrow> bytes list \<Rightarrow> bool \<Rightarrow> string \<Rightarrow> goerror + bytes list" where
  "normalizeEndpoints L vals listener field = normalizeEndpointsLoop L listener field [] 0 vals"

definition validSTUNHostname :: "bytes \<Rightarrow> bool" where
  "validSTUNHostname value \<longleftrightarrow>
     value \<noteq> [] \<and> set value \<inter> set (lit '' '' @ [9, 13, 10] @ lit ''/?#@[]:'') = {} \<and> (\<forall>r \<in> set (runes value). \<not> IsControl r)"

definition validateSTUNAddressFamily :: "netip_addr \<Rightarrow> bool \<Rightarrow> string option" where
  "validateSTUNAddressFamily address ipv6 =
     (if ipv6 then
        if Is6 address \<and> \<not> Is4In6 address then None else Some ''literal address must be IPv6''
      else if Is4 address then None
      else Some ''literal address must be IPv4'')"

definition validateSTUNServer :: "stdlib \<Rightarrow> bytes \<Rightarrow> bool \<Rightarrow> string option" where
  "validateSTUNServer L value ipv6 =
     (if \<not> utf8_valid value then Some ''must be valid UTF-8''
      else if value = [] \<or> surroundedBySpace value then Some ''must be non-empty without surrounding whitespace''
      else if take 4 value = lit ''txt:'' then
        (if \<not> validSTUNHostname (drop 4 value) then Some ''has an invalid TXT lookup name'' else None)
      else
        case (st_ParseAddr L value, st_ParseAddrPort L value) of
          (Some address, _) \<Rightarrow> validateSTUNAddressFamily address ipv6
        | (None, Some address) \<Rightarrow>
            if ap_port address = 0 then Some ''port must not be zero'' else validateSTUNAddressFamily (ap_addr address) ipv6
        | (None, None) \<Rightarrow>
            case st_UrlParse L (lit ''stun://'' @ value) of
              None \<Rightarrow> Some ''must be a host, IP address, socket address, or txt: name''
            | Some parsed \<Rightarrow>
                let host = Hostname parsed;
                    port = URL_Port parsed
                in if Host parsed = [] \<or> User parsed \<or> Path parsed \<noteq> [] \<or> RawQuery parsed \<noteq> [] \<or> Fragment parsed \<noteq> []
                   then Some ''must be a host, IP address, socket address, or txt: name''
                   else if \<not> validSTUNHostname host then Some ''has an invalid host''
                   else if last (Host parsed) = 0x3a then Some ''has an invalid port''
                   else if port \<noteq> [] \<and> (case ParseUint16 port of None \<Rightarrow> True | Some v \<Rightarrow> v = 0) then Some ''has an invalid port''
                   else case st_ParseAddr L host of Some address \<Rightarrow> validateSTUNAddressFamily address ipv6 | None \<Rightarrow> None)"

fun validateSTUNServersLoop :: "stdlib \<Rightarrow> bool \<Rightarrow> string \<Rightarrow> bytes list \<Rightarrow> nat \<Rightarrow> bytes list \<Rightarrow> goerror option" where
  "validateSTUNServersLoop L ipv6 field seen k [] = None"
| "validateSTUNServersLoop L ipv6 field seen k (value # vals) =
     (case validateSTUNServer L value ipv6 of
        Some message \<Rightarrow> Some (invalidInstanceConfig (indexed field k) message)
      | None \<Rightarrow>
          if value \<in> set seen then Some (invalidInstanceConfig (indexed field k) ''duplicates another STUN server'')
          else validateSTUNServersLoop L ipv6 field (value # seen) (Suc k) vals)"

definition validateSTUNServers :: "stdlib \<Rightarrow> bytes list \<Rightarrow> bool \<Rightarrow> string \<Rightarrow> goerror option" where
  "validateSTUNServers L vals ipv6 field = validateSTUNServersLoop L ipv6 field [] 0 vals"

section \<open>Build\<close>

text \<open>Cloning the document is the identity on values. The checks run in order and the first error is returned.\<close>

definition orElse :: "goerror option \<Rightarrow> goerror + 'a \<Rightarrow> goerror + 'a" where
  "orElse err r = (case err of Some e \<Rightarrow> Inl e | None \<Rightarrow> r)"

definition validateDocument :: "stdlib \<Rightarrow> instanceConfigDocument \<Rightarrow> goerror + instanceConfigDocument" where
  "validateDocument L document =
     orElse (validateHostname (cd_hostname document))
     (orElse (validateIPv4 (cd_ipv4 document))
     (case normalizeEndpoints L (cd_peers document) False ''peers'' of
        Inl e \<Rightarrow> Inl e
      | Inr peers \<Rightarrow>
          case normalizeEndpoints L (cd_listeners document) True ''listeners'' of
            Inl e \<Rightarrow> Inl e
          | Inr listeners \<Rightarrow>
              orElse (validatePortForwards (cd_portForwards document))
              (orElse (if cd_stunServersSet document then validateSTUNServers L (cd_stunServers document) False ''stun_servers'' else None)
              (orElse (if cd_stunServersV6Set document then validateSTUNServers L (cd_stunServersV6 document) True ''stun_servers_v6'' else None)
              (case cd_holePunching document of
                 Some policy \<Rightarrow>
                   if hp_SymmetricUDP policy \<and> \<not> hp_UDP policy
                   then Inl (invalidInstanceConfig ''hole_punching.symmetric_udp'' ''requires UDP hole punching'')
                   else Inr (document\<lparr>cd_peers := peers, cd_listeners := listeners\<rparr>)
               | None \<Rightarrow> Inr (document\<lparr>cd_peers := peers, cd_listeners := listeners\<rparr>))))))"

definition Build :: "stdlib \<Rightarrow> InstanceConfigBuilder option \<Rightarrow> (goerror + InstanceConfig) \<times> InstanceConfigBuilder option" where
  "Build L builder =
     (case builder of
        None \<Rightarrow> (Inl (invalidInstanceConfig '''' ''builder is nil''), None)
      | Some b \<Rightarrow>
          case orElse (validateIdentity b) (validateDocument L (bd_document b)) of
            Inl e \<Rightarrow> (Inl e, Some b)
          | Inr document \<Rightarrow>
              if cd_secureMode document = secureModeDisabled then (Inr (Some document), Some b)
              else if cd_networkSecret document = []
              then (Inl (invalidInstanceConfig ''secure_mode'' ''requires a non-empty network secret''), Some b)
              else
                case secureModePrivateKey L b of
                  (Inl e, b) \<Rightarrow> (Inl e, Some b)
                | (Inr privateKey, b) \<Rightarrow> (Inr (Some (document\<lparr>cd_securePrivateKey := privateKey\<rparr>)), Some b))"

section \<open>TOML\<close>

text \<open>
  \<^verbatim>\<open>quoteTOMLString\<close> is \<^verbatim>\<open>json.Marshal\<close> of a string, as Go 1.20, which go.mod asks for, has it: later versions write the
  same code points for U+0008 and U+000C as two-character escapes.
\<close>

definition hexDigit :: "nat \<Rightarrow> byte" where
  "hexDigit n = (if n < 10 then of_nat (48 + n) else of_nat (87 + n))"

definition jsonSafe :: "byte \<Rightarrow> bool" where
  "jsonSafe b \<longleftrightarrow> 0x20 \<le> b \<and> b < 0x80 \<and> b \<notin> set (lit ''\"&<>'') \<and> b \<noteq> 0x5c"

definition escapeByte :: "byte \<Rightarrow> bytes" where
  "escapeByte b =
     (if b = 0x5c \<or> b = 0x22 then [0x5c, b]
      else if b = 10 then [0x5c, 0x6e]
      else if b = 13 then [0x5c, 0x72]
      else if b = 9 then [0x5c, 0x74]
      else [0x5c, 0x75, 0x30, 0x30, hexDigit (unat b div 16), hexDigit (unat b mod 16)])"

function jsonString :: "bytes \<Rightarrow> bytes" where
  "jsonString s =
     (case s of
        [] \<Rightarrow> []
      | b # bs \<Rightarrow>
          if b < 0x80 then (if jsonSafe b then b # jsonString bs else escapeByte b @ jsonString bs)
          else
            case decodeRune s of
              None \<Rightarrow> [0x5c, 0x75] @ lit ''fffd'' @ jsonString bs
            | Some (r, n) \<Rightarrow>
                if r = 0x2028 \<or> r = 0x2029 then [0x5c, 0x75] @ lit ''202'' @ [hexDigit (r mod 16)] @ jsonString (drop n s)
                else take n s @ jsonString (drop n s))"
  by pat_completeness auto

termination by (relation "measure length") (auto dest: decodeRune_size)

declare jsonString.simps [simp del]

definition quoteTOMLString :: "bytes \<Rightarrow> bytes" where
  "quoteTOMLString value = 0x22 # jsonString value @ [0x22]"

definition writeTOMLStringField :: "string \<Rightarrow> bytes \<Rightarrow> bytes" where
  "writeTOMLStringField name value = lit name @ lit '' = '' @ quoteTOMLString value @ [10]"

definition writeTOMLBoolField :: "string \<Rightarrow> bool \<Rightarrow> bytes" where
  "writeTOMLBoolField name value = lit name @ lit '' = '' @ (if value then lit ''true'' else lit ''false'') @ [10]"

fun joinTOMLStrings :: "bytes list \<Rightarrow> bytes" where
  "joinTOMLStrings [] = []"
| "joinTOMLStrings [value] = quoteTOMLString value"
| "joinTOMLStrings (value # vals) = quoteTOMLString value @ lit '', '' @ joinTOMLStrings vals"

definition writeTOMLStringArrayField :: "string \<Rightarrow> bytes list \<Rightarrow> bytes" where
  "writeTOMLStringArrayField name vals = lit name @ lit '' = ['' @ joinTOMLStrings vals @ lit '']'' @ [10]"

definition encodeHead :: "stdlib \<Rightarrow> instanceConfigDocument \<Rightarrow> bytes" where
  "encodeHead L document =
     (case cd_hostname document of Some name \<Rightarrow> writeTOMLStringField ''hostname'' name | None \<Rightarrow> []) @
     (case cd_ipv4 document of Some p \<Rightarrow> writeTOMLStringField ''ipv4'' (st_PrefixString L p) | None \<Rightarrow> []) @
     (if cd_listeners document \<noteq> [] then writeTOMLStringArrayField ''listeners'' (cd_listeners document) else []) @
     (if cd_stunServersSet document then writeTOMLStringArrayField ''stun_servers'' (cd_stunServers document) else []) @
     (if cd_stunServersV6Set document then writeTOMLStringArrayField ''stun_servers_v6'' (cd_stunServersV6 document) else [])"

definition encodeFlags :: "instanceConfigDocument \<Rightarrow> bytes" where
  "encodeFlags document =
     (if cd_encryption document \<noteq> None \<or> cd_p2p document \<noteq> None \<or> cd_holePunching document \<noteq> None then
        [10] @ lit ''[flags]'' @ [10] @
        (case cd_encryption document of Some enabled \<Rightarrow> writeTOMLBoolField ''enable_encryption'' enabled | None \<Rightarrow> []) @
        (case cd_p2p document of
           Some policy \<Rightarrow>
             writeTOMLBoolField ''disable_p2p'' (p2p_Disable policy) @ writeTOMLBoolField ''need_p2p'' (p2p_Need policy) @
             writeTOMLBoolField ''lazy_p2p'' (p2p_Lazy policy)
         | None \<Rightarrow> []) @
        (case cd_holePunching document of
           Some policy \<Rightarrow>
             writeTOMLBoolField ''disable_tcp_hole_punching'' (\<not> hp_TCP policy) @
             writeTOMLBoolField ''disable_udp_hole_punching'' (\<not> hp_UDP policy) @
             writeTOMLBoolField ''disable_sym_hole_punching'' (\<not> hp_SymmetricUDP policy)
         | None \<Rightarrow> [])
      else [])"

definition encodePeer :: "bytes \<Rightarrow> bytes" where
  "encodePeer peer = [10] @ lit ''[[peer]]'' @ [10] @ writeTOMLStringField ''uri'' peer"

definition encodeForward :: "stdlib \<Rightarrow> PortForwardConfig \<Rightarrow> bytes" where
  "encodeForward L forward =
     [10] @ lit ''[[port_forward]]'' @ [10] @ writeTOMLStringField ''bind_addr'' (st_AddrPortString L (fw_Bind forward)) @
     writeTOMLStringField ''dst_addr'' (st_AddrPortString L (fw_Destination forward)) @ writeTOMLStringField ''proto'' (fw_Protocol forward)"

definition encodeInstanceConfig :: "stdlib \<Rightarrow> InstanceConfig \<Rightarrow> goerror + bytes" where
  "encodeInstanceConfig L config =
     (case config of
        None \<Rightarrow> Inl (invalidInstanceConfig '''' ''configuration was not built'')
      | Some document \<Rightarrow>
          let head = encodeHead L document;
              encoded =
                head @ (if head \<noteq> [] then [10] else []) @
                lit ''[network_identity]'' @ [10] @ writeTOMLStringField ''network_name'' (cd_networkName document) @
                writeTOMLStringField ''network_secret'' (cd_networkSecret document) @
                concat (map encodePeer (cd_peers document)) @
                concat (map (encodeForward L) (cd_portForwards document)) @
                encodeFlags document
          in if cd_secureMode document = secureModeDisabled then Inr encoded
             else
               case st_PublicKey L (cd_securePrivateKey document) of
                 None \<Rightarrow> Inl (invalidInstanceConfig ''secure_mode.private_key'' ''is not a valid X25519 private key'')
               | Some publicKey \<Rightarrow>
                   Inr (encoded @ [10] @ lit ''[secure_mode]'' @ [10] @ writeTOMLBoolField ''enabled'' True @
                     writeTOMLStringField ''local_private_key'' (st_Base64 L (cd_securePrivateKey document)) @
                     writeTOMLStringField ''local_public_key'' (st_Base64 L publicKey)))"

end
