(* ===== verification/EngineHost.thy ===== *)
theory EngineHost
  imports EngineCaller HostConfig
begin

text \<open>
  The engine's host (internal/engine/host.go, web_client.go, config.go, and the callers of instance.go that start, stop and close):
  one guest module and one reactor shared by instances and a web client. Also here: the envelope a guest is created from.
\<close>

section \<open>The environment of a host\<close>

record preferredIPv6Source =
  pr_IP :: netip_addr
  pr_IfIndex :: u32

record environmentSnapshot =
  es_PublicIPv4 :: "netip_addr option"
  es_InterfaceIPv4s :: "netip_addr list"
  es_PublicIPv6 :: "netip_addr option"
  es_InterfaceIPv6s :: "netip_addr list"
  es_MappedListeners :: "bytes list"
  es_LocalIPs :: "netip_addr list"
  es_ProtectedTCPPorts :: "u16 list"
  es_PreferredIPv6Sources :: "preferredIPv6Source list"

definition isIPv6 :: "netip_addr \<Rightarrow> bool" where
  "isIPv6 address \<longleftrightarrow> Is6 address \<and> \<not> Is4In6 address"

text \<open>The text of an address is package netip's and is a parameter, \<open>addrString\<close>.\<close>

definition encodeOptionalIP :: "(netip_addr \<Rightarrow> bytes) \<Rightarrow> netip_addr option \<Rightarrow> bool \<Rightarrow> goerror + bytes option" where
  "encodeOptionalIP addrString address ipv4 =
     (case address of
        None \<Rightarrow> Inr None
      | Some a \<Rightarrow>
          if \<not> (if ipv4 then Is4 a else isIPv6 a) then Inl (Errorf ''%s has wrong address family: %s'' [])
          else Inr (Some (addrString a)))"

text \<open>One loop of \<^verbatim>\<open>encodeEnvironmentSnapshot\<close>: every element has to pass the check.\<close>

fun encodeAll :: "('a \<Rightarrow> bool) \<Rightarrow> goerror \<Rightarrow> ('a \<Rightarrow> 'b) \<Rightarrow> 'a list \<Rightarrow> goerror + 'b list" where
  "encodeAll ok err encode [] = Inr []"
| "encodeAll ok err encode (x # xs) = (if \<not> ok x then Inl err else map_sum id (Cons (encode x)) (encodeAll ok err encode xs))"

record encodedEnvironment =
  ee_PublicIPv4 :: "bytes option"
  ee_InterfaceIPv4s :: "bytes list"
  ee_PublicIPv6 :: "bytes option"
  ee_InterfaceIPv6s :: "bytes list"
  ee_MappedListeners :: "bytes list"
  ee_LocalIPs :: "bytes list"
  ee_ProtectedTCPPorts :: "u16 list"
  ee_PreferredIPv6Sources :: "(bytes \<times> u32) list"

definition bindSum :: "goerror + 'a \<Rightarrow> ('a \<Rightarrow> goerror + 'b) \<Rightarrow> goerror + 'b" where
  "bindSum r f = (case r of Inl e \<Rightarrow> Inl e | Inr x \<Rightarrow> f x)"

definition encodeEnvironmentSnapshot :: "stdlib \<Rightarrow> (netip_addr \<Rightarrow> bytes) \<Rightarrow> environmentSnapshot \<Rightarrow> goerror + encodedEnvironment" where
  "encodeEnvironmentSnapshot L addrString snapshot =
     bindSum (encodeOptionalIP addrString (es_PublicIPv4 snapshot) True) (\<lambda>publicIPv4.
     bindSum (encodeOptionalIP addrString (es_PublicIPv6 snapshot) False) (\<lambda>publicIPv6.
     bindSum (encodeAll Is4 (Errorf ''interface IPv4 %d is not IPv4: %s'' []) addrString (es_InterfaceIPv4s snapshot)) (\<lambda>interfaceIPv4s.
     bindSum (encodeAll isIPv6 (Errorf ''interface IPv6 %d is not IPv6: %s'' []) addrString (es_InterfaceIPv6s snapshot)) (\<lambda>interfaceIPv6s.
     bindSum
       (encodeAll (\<lambda>l. case st_ParseRequestURI L l of None \<Rightarrow> False | Some parsed \<Rightarrow> Scheme parsed \<noteq> [])
         (Errorf ''mapped listener %d is not an absolute URL: %q'' []) id (es_MappedListeners snapshot)) (\<lambda>mappedListeners.
     bindSum (encodeAll addr_IsValid (Errorf ''local IP %d is invalid'' []) addrString (es_LocalIPs snapshot)) (\<lambda>localIPs.
     bindSum
       (encodeAll (isIPv6 \<circ> pr_IP) (Errorf ''preferred IPv6 source %d is not IPv6: %s'' [])
         (\<lambda>source. (addrString (pr_IP source), pr_IfIndex source)) (es_PreferredIPv6Sources snapshot)) (\<lambda>preferredIPv6Sources.
     Inr \<lparr>ee_PublicIPv4 = publicIPv4, ee_InterfaceIPv4s = interfaceIPv4s, ee_PublicIPv6 = publicIPv6,
          ee_InterfaceIPv6s = interfaceIPv6s, ee_MappedListeners = mappedListeners, ee_LocalIPs = localIPs,
          ee_ProtectedTCPPorts = es_ProtectedTCPPorts snapshot, ee_PreferredIPv6Sources = preferredIPv6Sources\<rparr>)))))))"

section \<open>Envelopes\<close>

text \<open>What \<^verbatim>\<open>json.Marshal\<close> writes of the values the envelopes have; a string is quoted as in theory HostConfig.\<close>

datatype json =
    JNull
  | JString bytes
  | JNumber nat
  | JBool bool
  | JArray "json list"
  | JObject "(string \<times> json) list"

fun joinWith :: "bytes \<Rightarrow> bytes list \<Rightarrow> bytes" where
  "joinWith sep [] = []"
| "joinWith sep [x] = x"
| "joinWith sep (x # xs) = x @ sep @ joinWith sep xs"

fun json_Marshal :: "json \<Rightarrow> bytes" where
  "json_Marshal JNull = lit ''null''"
| "json_Marshal (JString s) = quoteTOMLString s"
| "json_Marshal (JNumber n) = lit (decimal n)"
| "json_Marshal (JBool b) = (if b then lit ''true'' else lit ''false'')"
| "json_Marshal (JArray xs) = lit ''['' @ joinWith (lit '','') (map json_Marshal xs) @ lit '']''"
| "json_Marshal (JObject members) =
     [0x7b] @ joinWith (lit '','') (map (\<lambda>(name, v). quoteTOMLString (lit name) @ lit '':'' @ json_Marshal v) members) @ [0x7d]"

definition createConfigVersion :: nat where "createConfigVersion = 14"
definition webClientConfigVersion :: nat where "webClientConfigVersion = 1"

definition jsonOptional :: "bytes option \<Rightarrow> json" where
  "jsonOptional s = (case s of None \<Rightarrow> JNull | Some s \<Rightarrow> JString s)"

definition environmentJson :: "encodedEnvironment \<Rightarrow> json" where
  "environmentJson e =
     JObject
       [(''public_ipv4'', jsonOptional (ee_PublicIPv4 e)),
        (''interface_ipv4s'', JArray (map JString (ee_InterfaceIPv4s e))),
        (''public_ipv6'', jsonOptional (ee_PublicIPv6 e)),
        (''interface_ipv6s'', JArray (map JString (ee_InterfaceIPv6s e))),
        (''mapped_listeners'', JArray (map JString (ee_MappedListeners e))),
        (''local_ips'', JArray (map JString (ee_LocalIPs e))),
        (''protected_tcp_ports'', JArray (map (JNumber \<circ> unat) (ee_ProtectedTCPPorts e))),
        (''preferred_ipv6_sources'',
           JArray (map (\<lambda>(ip, ifindex). JObject [(''ip'', JString ip), (''ifindex'', JNumber (unat ifindex))]) (ee_PreferredIPv6Sources e)))]"

definition encodeCreateEnvelope :: "stdlib \<Rightarrow> (netip_addr \<Rightarrow> bytes) \<Rightarrow> bytes \<Rightarrow> environmentSnapshot \<Rightarrow> goerror + bytes" where
  "encodeCreateEnvelope L addrString configTOML snapshot =
     (if configTOML = [] then Inl (Errorf ''EasyTier TOML configuration is empty'' [])
      else
        map_sum id (\<lambda>environment.
            json_Marshal (JObject
              [(''version'', JNumber createConfigVersion), (''config'', JString configTOML), (''environment'', environmentJson environment)]))
          (encodeEnvironmentSnapshot L addrString snapshot))"

record WebClientOptions =
  wo_Endpoint :: bytes
  wo_MachineID :: bytes
  wo_Hostname :: bytes
  wo_SecureMode :: bool
  wo_OSType :: bytes

definition encodeWebClientEnvelope :: "stdlib \<Rightarrow> (netip_addr \<Rightarrow> bytes) \<Rightarrow> WebClientOptions \<Rightarrow> environmentSnapshot \<Rightarrow> goerror + bytes" where
  "encodeWebClientEnvelope L addrString options snapshot =
     (if wo_Endpoint options = [] then Inl (Errorf ''EasyTier WebClient endpoint is empty'' [])
      else if wo_MachineID options = [] then Inl (Errorf ''EasyTier WebClient machine ID is empty'' [])
      else if wo_Hostname options = [] then Inl (Errorf ''EasyTier WebClient hostname is empty'' [])
      else
        map_sum id (\<lambda>environment.
            json_Marshal (JObject
              [(''version'', JNumber webClientConfigVersion), (''endpoint'', JString (wo_Endpoint options)),
               (''machine_id'', JString (wo_MachineID options)), (''hostname'', JString (wo_Hostname options)),
               (''secure_mode'', JBool (wo_SecureMode options)), (''os_type'', JString (wo_OSType options)),
               (''environment'', environmentJson environment)]))
          (encodeEnvironmentSnapshot L addrString snapshot))"

section \<open>The host\<close>

text \<open>Instances are references; each, and the web client, has a channel of completions with room for one.\<close>

record 'g engineState =
  eh_guest :: 'g
  eh_reactor :: reactor
  eh_packetQueueCapacity :: int
  eh_snapshot :: environmentSnapshot
  eh_closed :: bool
  eh_instances :: "nat list"
  eh_completions :: "nat \<Rightarrow> bool"
  eh_webClient :: bool
  eh_webCompletion :: bool
  eh_nextRef :: nat

definition defaultPacketQueueCapacity :: int where "defaultPacketQueueCapacity = 64"

text \<open>The options of \<^verbatim>\<open>NewHost\<close>; the capacity of the packet queues it goes on with.\<close>

definition packetQueueCapacity :: "int \<Rightarrow> goerror + int" where
  "packetQueueCapacity configured =
     (let capacity = (if configured = 0 then defaultPacketQueueCapacity else configured)
      in if capacity < 0 then Inl (Errorf ''packet queue capacity must be positive'' []) else Inr capacity)"

text \<open>
  \<^verbatim>\<open>CreateInstance\<close>: what is registered is unregistered again when the guest refuses. The delivery function of the instance is
  known to the reactor by the instance's reference.
\<close>

definition createCore :: "'g module \<Rightarrow> bytes \<Rightarrow> u64 \<Rightarrow> u64 \<Rightarrow> 'g \<Rightarrow> unit outcome \<times> Core \<times> 'g" where
  "createCore M envelope packetSinkHandle eventSinkHandle g =
     (case Core_New M g of
        (Ok _, s) \<Rightarrow> Core_Create M envelope packetSinkHandle eventSinkHandle s
      | (r, s) \<Rightarrow> (r, s))"

definition engine_CreateInstance ::
  "'g module \<Rightarrow> stdlib \<Rightarrow> (netip_addr \<Rightarrow> bytes) \<Rightarrow> bytes \<Rightarrow> 'g engineState \<Rightarrow> (nat \<times> 'g instance_state) outcome \<times> 'g engineState" where
  "engine_CreateInstance M L addrString configTOML h =
     (case encodeCreateEnvelope L addrString configTOML (eh_snapshot h) of
        Inl err \<Rightarrow> (Err err, h)
      | Inr envelope \<Rightarrow>
          if eh_closed h then (Err (Errorf ''create instance with closed EasyTier engine host'' []), h)
          else
            case RegisterPacketSink (eh_packetQueueCapacity h) (eh_reactor h) of
              (Err err, r) \<Rightarrow> (Err (Errorf ''register EasyTier packet sink: %w'' [err]), h\<lparr>eh_reactor := r\<rparr>)
            | (Panic, r) \<Rightarrow> (Panic, h\<lparr>eh_reactor := r\<rparr>)
            | (Ok packetSinkHandle, r) \<Rightarrow>
                case RegisterEventSink (Some (eh_nextRef h)) r of
                  (Err err, r) \<Rightarrow>
                    (Err (Errorf ''register EasyTier event sink: %w'' [err]), h\<lparr>eh_reactor := UnregisterPacketSink packetSinkHandle r\<rparr>)
                | (Panic, r) \<Rightarrow> (Panic, h\<lparr>eh_reactor := r\<rparr>)
                | (Ok eventSinkHandle, r) \<Rightarrow>
                    case createCore M envelope packetSinkHandle eventSinkHandle (eh_guest h) of
                      (Err err, _, g) \<Rightarrow>
                        (Err err,
                         h\<lparr>eh_guest := g, eh_reactor := UnregisterEventSink eventSinkHandle (UnregisterPacketSink packetSinkHandle r)\<rparr>)
                    | (Panic, _, g) \<Rightarrow> (Panic, h\<lparr>eh_guest := g, eh_reactor := r\<rparr>)
                    | (Ok _, core, g) \<Rightarrow>
                        (Ok (eh_nextRef h, newInstance (core, g) packetSinkHandle eventSinkHandle),
                         h\<lparr>eh_guest := g, eh_reactor := r, eh_instances := eh_instances h @ [eh_nextRef h], eh_nextRef := Suc (eh_nextRef h)\<rparr>))"

text \<open>One round of \<^verbatim>\<open>broadcastCompletions\<close>, when the reactor has signalled.\<close>

definition broadcastCompletions :: "'g engineState \<Rightarrow> 'g engineState" where
  "broadcastCompletions h =
     (if \<not> completion (eh_reactor h) then h
      else h\<lparr>eh_reactor := takeCompletion (eh_reactor h),
             eh_webCompletion := eh_webCompletion h \<or> eh_webClient h,
             eh_completions := (\<lambda>i. eh_completions h i \<or> i \<in> set (eh_instances h))\<rparr>)"

definition removeWebClient :: "'g engineState \<Rightarrow> 'g engineState" where
  "removeWebClient h = h\<lparr>eh_webClient := False\<rparr>"

definition removeInstance :: "nat \<Rightarrow> 'g engineState \<Rightarrow> 'g engineState" where
  "removeInstance i h = h\<lparr>eh_instances := removeAll i (eh_instances h)\<rparr>"

text \<open>The first close of a host: it is closed from then on, and these are the parts its shutdown closes.\<close>

definition engine_Close :: "'g engineState \<Rightarrow> (bool \<times> nat list) \<times> 'g engineState" where
  "engine_Close h = ((eh_webClient h, eh_instances h), h\<lparr>eh_closed := True\<rparr>)"

text \<open>The error of \<^verbatim>\<open>shutdown\<close>: what closing the web client, the instances, the module and the runtime gave.\<close>

definition engine_shutdownError :: "goerror option \<Rightarrow> goerror option list \<Rightarrow> goerror option \<Rightarrow> goerror option \<Rightarrow> goerror option" where
  "engine_shutdownError webClientErr instanceErrs moduleErr runtimeErr = errors_Join (webClientErr # instanceErrs @ [moduleErr, runtimeErr])"

section \<open>The web client\<close>

record 'g webClient_state =
  wc_flags :: WebClientFlags
  wc_core :: "Core \<times> 'g"
  wc_connected :: bool
  wc_done :: bool
  wc_terminalErr :: "goerror option"

definition engine_CreateWebClient ::
  "'g module \<Rightarrow> stdlib \<Rightarrow> (netip_addr \<Rightarrow> bytes) \<Rightarrow> WebClientOptions \<Rightarrow> 'g engineState \<Rightarrow> 'g webClient_state outcome \<times> 'g engineState" where
  "engine_CreateWebClient M L addrString options h =
     (case encodeWebClientEnvelope L addrString options (eh_snapshot h) of
        Inl err \<Rightarrow> (Err err, h)
      | Inr envelope \<Rightarrow>
          if eh_closed h then (Err (Errorf ''create WebClient with closed EasyTier engine host'' []), h)
          else if eh_webClient h then (Err (Errorf ''EasyTier WebClient is already running'' []), h)
          else
            case WebClient_New M (eh_guest h) of
              (Err err, _, _, g) \<Rightarrow> (Err err, h\<lparr>eh_guest := g\<rparr>)
            | (Panic, _, _, g) \<Rightarrow> (Panic, h\<lparr>eh_guest := g\<rparr>)
            | (Ok _, flags, s) \<Rightarrow>
                case WebClient_Create M envelope flags s of
                  (Err err, _, _, g) \<Rightarrow> (Err err, h\<lparr>eh_guest := g\<rparr>)
                | (Panic, _, _, g) \<Rightarrow> (Panic, h\<lparr>eh_guest := g\<rparr>)
                | (Ok _, flags, core, g) \<Rightarrow>
                    (Ok \<lparr>wc_flags = flags, wc_core = (core, g), wc_connected = False, wc_done = False, wc_terminalErr = None\<rparr>,
                     h\<lparr>eh_guest := g, eh_webClient := True, eh_webCompletion := False\<rparr>))"

definition onWebGuest :: "('g, 'a) act \<Rightarrow> 'g webClient_state \<Rightarrow> ('a \<Rightarrow> 'g webClient_state \<Rightarrow> 'b outcome \<times> 'g webClient_state) \<Rightarrow> 'b outcome \<times> 'g webClient_state" where
  "onWebGuest m c f =
     (case m (wc_core c) of
        (Ok x, s) \<Rightarrow> f x (c\<lparr>wc_core := s\<rparr>)
      | (Err e, s) \<Rightarrow> (Err e, c\<lparr>wc_core := s\<rparr>)
      | (Panic, s) \<Rightarrow> (Panic, c\<lparr>wc_core := s\<rparr>))"

definition webClient_drive :: "'g module \<Rightarrow> bool \<Rightarrow> 'g webClient_state \<Rightarrow> int outcome \<times> 'g webClient_state" where
  "webClient_drive M notify c =
     onWebGuest (if notify then WebClient_NotifyCompletions M else returnA ()) c (\<lambda>_ c.
     onWebGuest (WebClient_Drive M) c (\<lambda>_ c.
     onWebGuest (WebClient_IsConnected M) c (\<lambda>connected c.
     onWebGuest (WebClient_NextDeadline M) (c\<lparr>wc_connected := connected\<rparr>) (\<lambda>deadline c.
     (Ok deadline, c)))))"

text \<open>The end of the client: \<open>runErr\<close> is what its loop ended with.\<close>

definition webClient_finish :: "'g module \<Rightarrow> goerror option \<Rightarrow> 'g webClient_state \<Rightarrow> 'g webClient_state" where
  "webClient_finish M runErr c =
     (case WebClient_Drop M (wc_flags c) (wc_core c) of
        (r, flags, s) \<Rightarrow>
          c\<lparr>wc_flags := flags, wc_core := s, wc_connected := False, wc_done := True,
            wc_terminalErr := errors_Join [runErr, case r of Err e \<Rightarrow> Some e | _ \<Rightarrow> None]\<rparr>)"

text \<open>One case of the select of the client's loop: the deadline it goes on with, or the error or nil it ends with.\<close>

datatype webCase = WebCompletion | WebTimer | WebCloseRequested | WebContext goerror

definition webClient_loop :: "'g module \<Rightarrow> webCase \<Rightarrow> 'g webClient_state \<Rightarrow> (goerror option + int) \<times> 'g webClient_state" where
  "webClient_loop M select c =
     (case select of
        WebCloseRequested \<Rightarrow> (Inl None, c)
      | WebContext e \<Rightarrow> (Inl (Some e), c)
      | _ \<Rightarrow>
          case webClient_drive M (select = WebCompletion) c of
            (Ok deadline, c) \<Rightarrow> (Inr deadline, c)
          | (r, c) \<Rightarrow> (Inl (errOf r), c))"

section \<open>Starting, stopping and closing an instance\<close>

text \<open>
  \<^verbatim>\<open>Start\<close> and \<^verbatim>\<open>Stop\<close> execute a command and then wait for the state; \<^verbatim>\<open>Wait\<close> only waits, and so does \<^verbatim>\<open>Close\<close>, for the end of the
  driver, after it has asked for it.
\<close>

datatype lifecycle =
    StartExecuting executor
  | StartWaiting
  | StopExecuting executor
  | StopWaiting
  | WaitWaiting
  | CloseWaiting
  | LifecycleFinished "goerror option"

definition awaitFlag :: "bool \<Rightarrow> goerror option \<Rightarrow> selectCase \<Rightarrow> 'g instance_state \<Rightarrow> lifecycle option" where
  "awaitFlag flag ctxErr select I =
     (case (select, ctxErr) of
        (OnOutcome, _) \<Rightarrow> if flag then Some (LifecycleFinished None) else None
      | (OnDone, _) \<Rightarrow> if in_done I then Some (LifecycleFinished (Some (finishedError (in_terminalErr I)))) else None
      | (OnContext, Some e) \<Rightarrow> Some (LifecycleFinished (Some e))
      | _ \<Rightarrow> None)"

definition executing :: "goerror option \<Rightarrow> selectCase \<Rightarrow> 'g instance_state \<Rightarrow> (executor \<Rightarrow> lifecycle) \<Rightarrow> lifecycle \<Rightarrow> executor \<Rightarrow> lifecycle option" where
  "executing ctxErr select I again waiting ex =
     (case ex of
        ExecuteFinished r \<Rightarrow> Some (case errOf r of None \<Rightarrow> waiting | Some e \<Rightarrow> LifecycleFinished (Some e))
      | _ \<Rightarrow> map_option again (execute ctxErr select I ex))"

fun lifecycleStep :: "goerror option \<Rightarrow> selectCase \<Rightarrow> 'g instance_state \<Rightarrow> lifecycle \<Rightarrow> lifecycle option" where
  "lifecycleStep ctxErr select I (StartExecuting ex) = executing ctxErr select I StartExecuting StartWaiting ex"
| "lifecycleStep ctxErr select I (StopExecuting ex) = executing ctxErr select I StopExecuting StopWaiting ex"
| "lifecycleStep ctxErr select I StartWaiting = awaitFlag (in_running I) ctxErr select I"
| "lifecycleStep ctxErr select I StopWaiting = awaitFlag (in_stopped I) ctxErr select I"
| "lifecycleStep ctxErr select I WaitWaiting = awaitFlag (in_stopped I) ctxErr select I"
| "lifecycleStep ctxErr select I CloseWaiting =
     (case (select, ctxErr) of
        (OnDone, _) \<Rightarrow> if in_done I then Some (LifecycleFinished (in_terminalErr I)) else None
      | (OnContext, Some e) \<Rightarrow> Some (LifecycleFinished (Some e))
      | _ \<Rightarrow> None)"
| "lifecycleStep ctxErr select I (LifecycleFinished e) = None"

definition Instance_Close :: "'g instance_state \<Rightarrow> 'g instance_state" where
  "Instance_Close I = I\<lparr>in_closeRequested := True\<rparr>"

definition Instance_SendPacket :: "bytes \<Rightarrow> ref \<Rightarrow> goerror + executor" where
  "Instance_SendPacket packet c =
     (if packet = [] then Inl (Errorf ''send empty packet'' [])
      else Inr (ExecuteSend \<lparr>cm_kind = commandSendPacket, cm_packet = packet, cm_response = c\<rparr>))"

section \<open>A host that refuses leaves nothing behind\<close>

text \<open>When the guest refuses an instance, the sinks that were registered for it are gone and the host has no new instance.\<close>

lemma refused_instance_unregistered:
  assumes "engine_CreateInstance M L addrString configTOML h = (Err err, h')"
    "packetSinks (eh_reactor h) (nextHandle (eh_reactor h) + 1) = None"
    "eventSinks (eh_reactor h) (nextHandle (eh_reactor h) + 2) = None"
  shows "eh_instances h' = eh_instances h \<and> packetSinks (eh_reactor h') = packetSinks (eh_reactor h) \<and>
    eventSinks (eh_reactor h') = eventSinks (eh_reactor h)"
proof -
  obtain pr r1 where p: "RegisterPacketSink (eh_packetQueueCapacity h) (eh_reactor h) = (pr, r1)" by (metis surj_pair)
  obtain er r2 where e: "RegisterEventSink (Some (eh_nextRef h)) r1 = (er, r2)" by (metis surj_pair)
  have p1: "case pr of Ok handle \<Rightarrow> handle = nextHandle (eh_reactor h) + 1 \<and> nextHandle r1 = handle \<and>
      eventSinks r1 = eventSinks (eh_reactor h) \<and> (\<exists>k. packetSinks r1 = (packetSinks (eh_reactor h))(handle \<mapsto> k))
    | _ \<Rightarrow> packetSinks r1 = packetSinks (eh_reactor h) \<and> eventSinks r1 = eventSinks (eh_reactor h)"
    using p by (auto simp: RegisterPacketSink_def allocateHandleLocked_def Let_def split: if_splits)
  have e1: "case er of Ok handle \<Rightarrow> handle = nextHandle r1 + 1 \<and> packetSinks r2 = packetSinks r1 \<and>
      (\<exists>k. eventSinks r2 = (eventSinks r1)(handle \<mapsto> k))
    | _ \<Rightarrow> packetSinks r2 = packetSinks r1 \<and> eventSinks r2 = eventSinks r1"
    using e by (auto simp: RegisterEventSink_def allocateHandleLocked_def Let_def split: if_splits)
  show ?thesis
    using assms p1 e1 assms(3) [unfolded add.commute [of _ 2]]
    by (auto simp: engine_CreateInstance_def p e UnregisterPacketSink_def UnregisterEventSink_def updSink_def Let_def fun_upd_idem
        split: sum.splits if_splits outcome.splits prod.splits option.splits)
qed

end
