(* ===== verification/HostNet.thy ===== *)
theory HostNet
  imports EngineConn HostConfig
begin

text \<open>
  The networks an instance offers its application (internal/host/host.go): which names of networks and which addresses are
  accepted, and what is dialled or bound for them.
\<close>

section \<open>Addresses\<close>

fun indexOf :: "byte \<Rightarrow> bytes \<Rightarrow> nat option" where
  "indexOf b [] = None"
| "indexOf b (x # xs) = (if x = b then Some 0 else map_option Suc (indexOf b xs))"

definition lastIndexOf :: "byte \<Rightarrow> bytes \<Rightarrow> nat option" where
  "lastIndexOf b s = map_option (\<lambda>i. length s - 1 - i) (indexOf b (rev s))"

text \<open>\<^verbatim>\<open>net.SplitHostPort\<close>.\<close>

definition SplitHostPort :: "bytes \<Rightarrow> goerror + bytes \<times> bytes" where
  "SplitHostPort hostport =
     (case lastIndexOf 0x3a hostport of
        None \<Rightarrow> Inl (Errorf ''missing port in address'' [])
      | Some i \<Rightarrow>
          let finish = (\<lambda>host j k.
                if 0x5b \<in> set (drop j hostport) then Inl (Errorf ''unexpected '[' in address'' [])
                else if 0x5d \<in> set (drop k hostport) then Inl (Errorf ''unexpected ']' in address'' [])
                else Inr (host, drop (i + 1) hostport))
          in if hd hostport = 0x5b then
               (case indexOf 0x5d hostport of
                  None \<Rightarrow> Inl (Errorf ''missing ']' in address'' [])
                | Some e \<Rightarrow>
                    if e + 1 = length hostport then Inl (Errorf ''missing port in address'' [])
                    else if e + 1 = i then finish (take (e - 1) (drop 1 hostport)) 1 (e + 1)
                    else if hostport ! (e + 1) = 0x3a then Inl (Errorf ''too many colons in address'' [])
                    else Inl (Errorf ''missing port in address'' []))
             else if 0x3a \<in> set (take i hostport) then Inl (Errorf ''too many colons in address'' [])
             else finish (take i hostport) 0 0)"

definition splitAddress :: "bytes \<Rightarrow> goerror + bytes \<times> u16" where
  "splitAddress address =
     (case SplitHostPort address of
        Inl err \<Rightarrow> Inl err
      | Inr (host, service) \<Rightarrow>
          case ParseUint16 service of
            None \<Rightarrow> Inl (Errorf ''port must be a decimal number from 0 to 65535'' [])
          | Some port \<Rightarrow> Inr (host, of_nat port))"

definition parseDialAddress :: "stdlib \<Rightarrow> bytes \<Rightarrow> goerror + addr_port" where
  "parseDialAddress L address =
     (case splitAddress address of
        Inl err \<Rightarrow> Inl err
      | Inr (host, port) \<Rightarrow>
          case st_ParseAddr L host of
            Some ip \<Rightarrow> if Is4 ip then Inr (AddrPort ip port) else Inl (Errorf ''EasyTier data plane requires an IPv4 literal'' [])
          | None \<Rightarrow> Inl (Errorf ''EasyTier data plane requires an IPv4 literal'' []))"

definition parseBindPort :: "stdlib \<Rightarrow> bytes \<Rightarrow> goerror + u16" where
  "parseBindPort L address =
     (case splitAddress address of
        Inl err \<Rightarrow> Inl err
      | Inr (host, port) \<Rightarrow>
          if host \<noteq> [] \<and> (case st_ParseAddr L host of None \<Rightarrow> True | Some ip \<Rightarrow> ip \<noteq> Addr4 0)
          then Inl (Errorf ''EasyTier listeners bind all overlay IPv4 addresses'' [])
          else Inr port)"

definition UnknownNetworkError :: goerror where
  "UnknownNetworkError = Errorf ''unknown network %s'' []"

definition requireNetwork :: "bytes \<Rightarrow> bytes \<Rightarrow> goerror option" where
  "requireNetwork network protocol =
     (if network = protocol \<or> network = protocol @ [0x34] then None else Some UnknownNetworkError)"

section \<open>Dialling and binding\<close>

datatype netConn = StreamConn streamConn | DatagramConn datagramConn

text \<open>A \<^verbatim>\<open>net.OpError\<close> wraps the error of the operation.\<close>

definition OpError :: "string \<Rightarrow> goerror \<Rightarrow> goerror" where
  "OpError op err = Errorf op [err]"

definition host_Dial ::
  "stdlib \<Rightarrow> ('g, 's) instanceOps option \<Rightarrow> goerror option \<Rightarrow> time option \<Rightarrow> bytes \<Rightarrow> bytes \<Rightarrow> 's \<Rightarrow> (goerror + netConn) \<times> 's" where
  "host_Dial L inst ctxErr deadline network address s =
     (case inst of
        None \<Rightarrow> (Inl (Errorf ''dial through nil EasyTier instance'' []), s)
      | Some N \<Rightarrow>
          let tcp = network \<in> {lit ''tcp'', lit ''tcp4''}
          in if \<not> tcp \<and> network \<notin> {lit ''udp'', lit ''udp4''} then (Inl UnknownNetworkError, s)
             else
               case parseDialAddress L address of
                 Inl err \<Rightarrow> (Inl err, s)
               | Inr peer \<Rightarrow>
                   case (if tcp then map_prod (map_sum id StreamConn) id (Instance_Dial N ctxErr deadline peer s)
                         else map_prod (map_sum id DatagramConn) id (Instance_DialUDP N ctxErr deadline peer s)) of
                     (Inl err, s) \<Rightarrow> (Inl (OpError ''dial'' err), s)
                   | (Inr conn, s) \<Rightarrow> (Inr conn, s))"

definition host_Listen ::
  "stdlib \<Rightarrow> ('g, 's) instanceOps option \<Rightarrow> bytes \<Rightarrow> bytes \<Rightarrow> 's \<Rightarrow> (goerror + streamListener) \<times> 's" where
  "host_Listen L inst network address s =
     (case inst of
        None \<Rightarrow> (Inl (Errorf ''listen through nil EasyTier instance'' []), s)
      | Some N \<Rightarrow>
          case requireNetwork network (lit ''tcp'') of
            Some err \<Rightarrow> (Inl err, s)
          | None \<Rightarrow>
              case parseBindPort L address of
                Inl err \<Rightarrow> (Inl err, s)
              | Inr port \<Rightarrow>
                  case Instance_Listen N port s of
                    (Inl err, s) \<Rightarrow> (Inl (OpError ''listen'' err), s)
                  | (Inr listener, s) \<Rightarrow> (Inr listener, s))"

definition host_ListenPacket ::
  "stdlib \<Rightarrow> ('g, 's) instanceOps option \<Rightarrow> bytes \<Rightarrow> bytes \<Rightarrow> 's \<Rightarrow> (goerror + packetConn) \<times> 's" where
  "host_ListenPacket L inst network address s =
     (case inst of
        None \<Rightarrow> (Inl (Errorf ''listen for packets through nil EasyTier instance'' []), s)
      | Some N \<Rightarrow>
          case requireNetwork network (lit ''udp'') of
            Some err \<Rightarrow> (Inl err, s)
          | None \<Rightarrow>
              case parseBindPort L address of
                Inl err \<Rightarrow> (Inl err, s)
              | Inr port \<Rightarrow>
                  case Instance_ListenPacket N port s of
                    (Inl err, s) \<Rightarrow> (Inl (OpError ''listen'' err), s)
                  | (Inr conn, s) \<Rightarrow> (Inr conn, s))"

section \<open>Services\<close>

text \<open>The services of a host: what the application configures replaces the standard ones, except for the snapshot.\<close>

record ('s, 'd, 'e, 'n) Services =
  sv_Sockets :: "'s option"
  sv_DNS :: "'d option"
  sv_Environment :: "'e option"
  sv_Snapshot :: 'n

definition mergeServices :: "('s, 'd, 'e, 'n) Services \<Rightarrow> ('s, 'd, 'e, 'n) Services \<Rightarrow> ('s, 'd, 'e, 'n) Services" where
  "mergeServices standard configured =
     (let services = standard;
          services = (if sv_Sockets configured \<noteq> None then services\<lparr>sv_Sockets := sv_Sockets configured\<rparr> else services);
          services = (if sv_DNS configured \<noteq> None then services\<lparr>sv_DNS := sv_DNS configured\<rparr> else services);
          services = (if sv_Environment configured \<noteq> None then services\<lparr>sv_Environment := sv_Environment configured\<rparr> else services)
      in services\<lparr>sv_Snapshot := sv_Snapshot configured\<rparr>)"

section \<open>What is dialled\<close>

lemma indexOf_Some: "indexOf b s = Some i \<Longrightarrow> i < length s \<and> s ! i = b \<and> b \<notin> set (take i s)"
  by (induction s arbitrary: i) (auto split: if_splits)

lemma indexOf_None: "indexOf b s = None \<longleftrightarrow> b \<notin> set s"
  by (induction s) auto

text \<open>Whatever is dialled is an IPv4 address, over TCP or UDP, and the state is untouched when the address is refused.\<close>

lemma dial_address_is_ipv4:
  assumes "parseDialAddress L address = Inr peer"
  shows "Is4 (ap_addr peer) \<and> 0x3a \<in> set address"
proof -
  obtain host port where s: "splitAddress address = Inr (host, port)" using assms by (auto simp: parseDialAddress_def split: sum.splits)
  have "0x3a \<in> set address"
  proof (rule ccontr)
    assume "0x3a \<notin> set address"
    then have "lastIndexOf 0x3a address = None" by (simp add: lastIndexOf_def indexOf_None)
    then show False using s by (simp add: splitAddress_def SplitHostPort_def)
  qed
  then show ?thesis using assms s by (auto simp: parseDialAddress_def split: option.splits if_splits)
qed

lemma dial_submits_ipv4:
  assumes "host_Dial L (Some N) ctxErr deadline network address s = (r, s')" "s' \<noteq> s"
  shows "\<exists>peer. parseDialAddress L address = Inr peer \<and> Is4 (ap_addr peer) \<and>
    network \<in> {lit ''tcp'', lit ''tcp4'', lit ''udp'', lit ''udp4''}"
  using assms dial_address_is_ipv4 by (auto simp: host_Dial_def Let_def split: if_splits sum.splits)

end
