(* ===== verification/HostManager.thy ===== *)
theory HostManager
  imports HostConfig EngineDriver "HOL-Library.List_Lexorder"
begin

text \<open>
  The host of a process (internal/host/management.go, host.go, rpc.go): its table of instances, the requests of the web
  management that arrive from the guest, and what an application does with its own instances. The engine's host is a record of
  the calls the code makes on it, as functions of a state of their own; a message of the protocol buffers is a record of the
  fields the code looks at, the rest of it is opaque. A request runs to its end before the next one: the code serialises the
  requests that change instances.
\<close>

section \<open>Identifiers\<close>

record UUID =
  Part1 :: u32
  Part2 :: u32
  Part3 :: u32
  Part4 :: u32

definition hexBytes :: "bytes \<Rightarrow> bytes" where
  "hexBytes xs = concat (map (\<lambda>b. [hexDigit (unat b div 16), hexDigit (unat b mod 16)]) xs)"

definition uuidString :: "UUID \<Rightarrow> bytes" where
  "uuidString uuid =
     (let value = PutUint32 (Part1 uuid) @ PutUint32 (Part2 uuid) @ PutUint32 (Part3 uuid) @ PutUint32 (Part4 uuid)
      in hexBytes (take 4 value) @ [0x2d] @ hexBytes (take 2 (drop 4 value)) @ [0x2d] @ hexBytes (take 2 (drop 6 value)) @ [0x2d] @
         hexBytes (take 2 (drop 8 value)) @ [0x2d] @ hexBytes (drop 10 value))"

definition cloneUUID :: "UUID option \<Rightarrow> UUID option" where
  "cloneUUID uuid =
     (case uuid of None \<Rightarrow> None | Some u \<Rightarrow> Some \<lparr>Part1 = Part1 u, Part2 = Part2 u, Part3 = Part3 u, Part4 = Part4 u\<rparr>)"

text \<open>\<open>value\<close> is what the random source gave.\<close>

definition newInstanceUUID :: "goerror + bytes \<Rightarrow> goerror + UUID \<times> bytes" where
  "newInstanceUUID random =
     (case random of
        Inl err \<Rightarrow> Inl (Errorf ''generate EasyTier instance ID: %w'' [err])
      | Inr value \<Rightarrow>
          let value = value[6 := value ! 6 AND 0x0f OR 0x40];
              value = value[8 := value ! 8 AND 0x3f OR 0x80];
              part = (\<lambda>k. case Uint32 (drop k value) of Ok v \<Rightarrow> v | _ \<Rightarrow> 0);
              uuid = \<lparr>Part1 = part 0, Part2 = part 4, Part3 = part 8, Part4 = part 12\<rparr>
          in Inr (uuid, uuidString uuid))"

text \<open>A set of texts is a list; the code only asks it for membership and whether it is empty.\<close>

definition uuidSet :: "UUID option list \<Rightarrow> bytes list" where
  "uuidSet ids = map uuidString (List.map_filter id ids)"

definition bindInstanceIdentity :: "bytes \<Rightarrow> bytes \<Rightarrow> bytes \<Rightarrow> bytes" where
  "bindInstanceIdentity config uuid name =
     writeTOMLStringField ''instance_id'' uuid @ writeTOMLStringField ''instance_name'' name @ [10] @ config"

section \<open>Messages\<close>

record 'm networkConfig =
  nc_InstanceId :: "bytes option"
  nc_NetworkName :: "bytes option"
  nc_DevName :: "bytes option"
  nc_PortForwards :: "'m list"
  nc_Acl :: "'m option"
  nc_ProxyCidrs :: "bytes list"
  nc_DisableRelayData :: "bool option"
  nc_rest :: 'm

definition GetNetworkName :: "'m networkConfig option \<Rightarrow> bytes" where
  "GetNetworkName config = (case config of None \<Rightarrow> [] | Some c \<Rightarrow> case nc_NetworkName c of None \<Rightarrow> [] | Some name \<Rightarrow> name)"

record 'm configPatch =
  cp_PortForwards :: "'m list"
  cp_Acl :: "'m option"
  cp_ProxyNetworks :: "'m list"
  cp_DisableRelayData :: "bool option"
  cp_rest :: "'m option"

text \<open>The enumeration of \<^verbatim>\<open>ConfigSource\<close>; its numbers 0 and 1 have names here.\<close>

type_synonym configSource = int

definition ConfigSourceUnspecified :: configSource where "ConfigSourceUnspecified = 0"
definition ConfigSourceUser :: configSource where "ConfigSourceUser = 1"

record 'm runRequest =
  rn_Config :: "'m networkConfig option"
  rn_Overwrite :: bool
  rn_Source :: configSource

record 'm patchRequest =
  pa_Instance :: "UUID option"
  pa_Patch :: "'m configPatch option"

record networkMeta =
  me_InstId :: UUID
  me_NetworkName :: bytes
  me_ConfigPermission :: u32
  me_InstanceName :: bytes
  me_Source :: configSource

record 'm ipv4Inet =
  in_Addr :: u32
  in_rest :: 'm

record 'm peerInfo =
  pe_PeerId :: u32
  pe_rest :: 'm

record 'm route =
  ro_PeerId :: u32
  ro_Ipv4Addr :: "'m ipv4Inet option"
  ro_IsPublicServer :: bool
  ro_rest :: 'm

record 'm nodeInfo =
  no_PeerId :: u32
  no_Listeners :: "bytes list"
  no_rest :: 'm

record 'm myNodeInfo =
  my_VirtualIpv4 :: "'m ipv4Inet option"
  my_Listeners :: "bytes list"
  my_PeerId :: u32
  my_rest :: "'m option"

record 'm runningInfo =
  ri_Running :: bool
  ri_Events :: "bytes list"
  ri_ErrorMsg :: "goerror option"
  ri_DevName :: bytes
  ri_MyNodeInfo :: "'m myNodeInfo option"
  ri_Routes :: "'m route list"
  ri_Peers :: "'m peerInfo list"
  ri_PeerRoutePairs :: "('m route \<times> 'm peerInfo) list"
  ri_ForeignNetworkSummary :: "'m option"

datatype 'm managementResponse =
    RunResponse "UUID option"
  | RemainResponse "UUID list"
  | CollectResponse "(bytes \<times> 'm runningInfo) list"
  | ListResponse "UUID list"
  | NetworkConfigResponse "'m networkConfig option" configSource
  | MetaResponse "networkMeta list"
  | PatchResponse 'm
  | ConfigResponse "'m networkConfig option"

section \<open>The engine\<close>

text \<open>
  The contexts the code works with: that of the request, the request's without its cancellation, and the ten seconds of a
  restoration and of reading a configuration back.
\<close>

datatype requestContext = RequestContext | DetachedContext | RestoreContext | SnapshotContext

text \<open>
  What the host calls: the engine, where instances are references; the protocol buffers, one function for each message it
  encodes or decodes; and \<^verbatim>\<open>sort.Slice\<close>, which orders equal elements as it likes. \<open>ho_Until\<close> is the time to a context's deadline.
\<close>

record ('m, 'w) engineHost =
  ho_CreateInstance :: "requestContext \<Rightarrow> bytes \<Rightarrow> 'w \<Rightarrow> (goerror + nat) \<times> 'w"
  ho_Start :: "requestContext \<Rightarrow> nat \<Rightarrow> 'w \<Rightarrow> goerror option \<times> 'w"
  ho_Close :: "requestContext \<Rightarrow> nat \<Rightarrow> 'w \<Rightarrow> goerror option \<times> 'w"
  ho_RPC :: "requestContext \<Rightarrow> nat \<Rightarrow> bytes \<Rightarrow> 'w \<Rightarrow> (goerror + bytes) \<times> 'w"
  ho_TerminalError :: "nat \<Rightarrow> 'w \<Rightarrow> goerror option"
  ho_State :: "nat \<Rightarrow> 'w \<Rightarrow> int"
  ho_ManagementEvents :: "nat \<Rightarrow> 'w \<Rightarrow> bytes list"
  ho_ctxErr :: "requestContext \<Rightarrow> 'w \<Rightarrow> goerror option"
  ho_Until :: "requestContext \<Rightarrow> 'w \<Rightarrow> int option"
  pb_DirectRpcRequest :: "bytes \<Rightarrow> bytes \<Rightarrow> int option \<Rightarrow> goerror + bytes"
  pb_RpcResponse :: "bytes \<Rightarrow> goerror + bool \<times> bytes"
  pb_PatchConfigRequest :: "'m patchRequest \<Rightarrow> goerror + bytes"
  pb_PatchConfigResponse :: "bytes \<Rightarrow> goerror + 'm"
  pb_GetConfigRequest :: "UUID option \<Rightarrow> goerror + bytes"
  pb_GetConfigResponse :: "bytes \<Rightarrow> goerror + 'm networkConfig option \<times> bytes"
  pb_ListPeerResponse :: "bytes \<Rightarrow> goerror + 'm peerInfo list"
  pb_ListRouteResponse :: "bytes \<Rightarrow> goerror + 'm route list"
  pb_ShowNodeInfoResponse :: "bytes \<Rightarrow> goerror + 'm nodeInfo option"
  pb_ForeignNetworkSummary :: "bytes \<Rightarrow> goerror + 'm option"
  sort_Slice :: "('m route \<times> 'm peerInfo \<Rightarrow> 'm route \<times> 'm peerInfo \<Rightarrow> bool) \<Rightarrow> ('m route \<times> 'm peerInfo) list \<Rightarrow>
    ('m route \<times> 'm peerInfo) list"

section \<open>Calls into an instance\<close>

text \<open>
  \<^verbatim>\<open>callRPCRequest\<close>: \<open>request\<close> is the marshalled request, if there is one, and \<open>decode\<close> unmarshals the response.
\<close>

definition callRPCRequest ::
  "('m, 'w) engineHost \<Rightarrow> requestContext \<Rightarrow> nat \<Rightarrow> string \<Rightarrow> (goerror + bytes) option \<Rightarrow> (bytes \<Rightarrow> goerror + 'a) \<Rightarrow> 'w \<Rightarrow>
    (goerror + 'a) \<times> 'w" where
  "callRPCRequest E ctx engine fullMethodName request decode w =
     (case ho_ctxErr E ctx w of
        Some err \<Rightarrow> (Inl err, w)
      | None \<Rightarrow>
          let remaining = ho_Until E ctx w;
              expired = (case remaining of Some r \<Rightarrow> r \<le> 0 | None \<Rightarrow> False);
              timeoutMillis = map_option ceilMillis remaining
          in if expired then (Inl ContextDeadlineExceeded, w)
             else
               case (case request of None \<Rightarrow> Inr [] | Some payload \<Rightarrow> payload) of
                 Inl err \<Rightarrow> (Inl (Errorf ''encode EasyTier RPC %s request: %w'' [err]), w)
               | Inr payload \<Rightarrow>
                   case pb_DirectRpcRequest E (lit fullMethodName) payload timeoutMillis of
                     Inl err \<Rightarrow> (Inl (Errorf ''encode EasyTier RPC envelope: %w'' [err]), w)
                   | Inr encodedRequest \<Rightarrow>
                       case ho_RPC E ctx engine encodedRequest w of
                         (encodedResponse, w) \<Rightarrow>
                           (case (ho_ctxErr E ctx w, encodedResponse) of
                              (Some contextErr, _) \<Rightarrow> Inl contextErr
                            | (None, Inl err) \<Rightarrow> Inl err
                            | (None, Inr encoded) \<Rightarrow>
                                case pb_RpcResponse E encoded of
                                  Inl err \<Rightarrow> Inl (Errorf ''decode EasyTier RPC %s response: %w'' [err])
                                | Inr (True, _) \<Rightarrow> Inl (Errorf ''EasyTier RPC %s failed: %s'' [])
                                | Inr (False, payload) \<Rightarrow>
                                    case decode payload of
                                      Inl err \<Rightarrow> Inl (Errorf ''decode EasyTier RPC %s payload: %w'' [err])
                                    | Inr response \<Rightarrow> Inr response, w))"

definition host_callRPC ::
  "('m, 'w) engineHost \<Rightarrow> requestContext \<Rightarrow> nat \<Rightarrow> string \<Rightarrow> (bytes \<Rightarrow> goerror + 'a) \<Rightarrow> 'w \<Rightarrow> (goerror + 'a) \<times> 'w" where
  "host_callRPC E ctx engine fullMethodName decode w = callRPCRequest E ctx engine fullMethodName None decode w"

definition listPeerResponse :: "('m, 'w) engineHost \<Rightarrow> requestContext \<Rightarrow> nat \<Rightarrow> 'w \<Rightarrow> (goerror + 'm peerInfo list) \<times> 'w" where
  "listPeerResponse E ctx engine = host_callRPC E ctx engine ''api.instance.PeerManageRpc.ListPeer'' (pb_ListPeerResponse E)"

definition listRouteResponse :: "('m, 'w) engineHost \<Rightarrow> requestContext \<Rightarrow> nat \<Rightarrow> 'w \<Rightarrow> (goerror + 'm route list) \<times> 'w" where
  "listRouteResponse E ctx engine = host_callRPC E ctx engine ''api.instance.PeerManageRpc.ListRoute'' (pb_ListRouteResponse E)"

definition showNodeInfo :: "('m, 'w) engineHost \<Rightarrow> requestContext \<Rightarrow> nat \<Rightarrow> 'w \<Rightarrow> (goerror + 'm nodeInfo option) \<times> 'w" where
  "showNodeInfo E ctx engine = host_callRPC E ctx engine ''api.instance.PeerManageRpc.ShowNodeInfo'' (pb_ShowNodeInfoResponse E)"

definition foreignNetworkSummary :: "('m, 'w) engineHost \<Rightarrow> requestContext \<Rightarrow> nat \<Rightarrow> 'w \<Rightarrow> (goerror + 'm option) \<times> 'w" where
  "foreignNetworkSummary E ctx engine =
     host_callRPC E ctx engine ''api.instance.PeerManageRpc.GetForeignNetworkSummary'' (pb_ForeignNetworkSummary E)"

section \<open>The table of instances\<close>

datatype instanceOwner = instanceOwnerApplication | instanceOwnerWeb

record hostInstance =
  hi_engine :: nat
  hi_id :: bytes

record 'm managedInstance =
  mi_id :: UUID
  mi_instance :: hostInstance
  mi_owner :: instanceOwner
  mi_config :: "'m networkConfig option"
  mi_configTOML :: bytes
  mi_source :: configSource
  mi_name :: bytes

record ('m, 'w) instanceManager =
  im_instances :: "(bytes \<times> 'm managedInstance) list"
  im_engine :: 'w

definition manager_register :: "'m managedInstance \<Rightarrow> ('m, 'w) instanceManager \<Rightarrow> goerror option \<times> ('m, 'w) instanceManager" where
  "manager_register entry m =
     (let uuid = uuidString (mi_id entry) in
      if map_of (im_instances m) uuid \<noteq> None then (Some (Errorf ''EasyTier instance %s already exists'' []), m)
      else (None, m\<lparr>im_instances := AList.update uuid entry (im_instances m)\<rparr>))"

definition manager_remove :: "hostInstance \<Rightarrow> ('m, 'w) instanceManager \<Rightarrow> ('m, 'w) instanceManager" where
  "manager_remove inst m =
     (case map_of (im_instances m) (hi_id inst) of
        Some entry \<Rightarrow> if mi_instance entry = inst then m\<lparr>im_instances := AList.delete (hi_id inst) (im_instances m)\<rparr> else m
      | None \<Rightarrow> m)"

definition manager_clear :: "('m, 'w) instanceManager \<Rightarrow> ('m, 'w) instanceManager" where
  "manager_clear m = m\<lparr>im_instances := []\<rparr>"

definition manager_snapshot :: "('m, 'w) instanceManager \<Rightarrow> 'm managedInstance list" where
  "manager_snapshot m = sort_key (\<lambda>entry. uuidString (mi_id entry)) (map snd (im_instances m))"

text \<open>A call on the engine from the manager.\<close>

definition onEngine :: "('w \<Rightarrow> 'a \<times> 'w) \<Rightarrow> ('m, 'w) instanceManager \<Rightarrow> 'a \<times> ('m, 'w) instanceManager" where
  "onEngine f m = (case f (im_engine m) of (x, w) \<Rightarrow> (x, m\<lparr>im_engine := w\<rparr>))"

section \<open>Instances\<close>

text \<open>\<^verbatim>\<open>Instance.Close\<close> of the host.\<close>

definition closeInstance ::
  "('m, 'w) engineHost \<Rightarrow> requestContext \<Rightarrow> hostInstance \<Rightarrow> ('m, 'w) instanceManager \<Rightarrow> goerror option \<times> ('m, 'w) instanceManager" where
  "closeInstance E ctx inst m =
     (let (err, m) = onEngine (ho_Close E ctx (hi_engine inst)) m
      in (err, if ho_ctxErr E ctx (im_engine m) = None then manager_remove inst m else m))"

definition closeManagedInstance ::
  "('m, 'w) engineHost \<Rightarrow> requestContext \<Rightarrow> hostInstance \<Rightarrow> ('m, 'w) instanceManager \<Rightarrow> goerror option \<times> ('m, 'w) instanceManager" where
  "closeManagedInstance E ctx inst m =
     (let alreadyFailed = ho_TerminalError E (hi_engine inst) (im_engine m) \<noteq> None;
          (err, m) = closeInstance E ctx inst m
      in (if alreadyFailed \<and> ho_ctxErr E ctx (im_engine m) = None then None else err, m))"

text \<open>\<^verbatim>\<open>Host.CreateInstance\<close>; \<open>random\<close> is what the random source gives.\<close>

definition Host_CreateInstance ::
  "stdlib \<Rightarrow> ('m, 'w) engineHost \<Rightarrow> goerror + bytes \<Rightarrow> InstanceConfig \<Rightarrow> ('m, 'w) instanceManager \<Rightarrow>
    (goerror + hostInstance) \<times> ('m, 'w) instanceManager" where
  "Host_CreateInstance L E random config m =
     (case encodeInstanceConfig L config of
        Inl err \<Rightarrow> (Inl err, m)
      | Inr configTOML \<Rightarrow>
          case newInstanceUUID random of
            Inl err \<Rightarrow> (Inl err, m)
          | Inr (uuid, idString) \<Rightarrow>
              let name = (case config of Some document \<Rightarrow> cd_networkName document | None \<Rightarrow> [])
              in case onEngine (ho_CreateInstance E RequestContext (bindInstanceIdentity configTOML idString name)) m of
                   (Inl err, m) \<Rightarrow> (Inl err, m)
                 | (Inr runtime, m) \<Rightarrow>
                     let inst = \<lparr>hi_engine = runtime, hi_id = idString\<rparr>
                     in case manager_register
                               \<lparr>mi_id = uuid, mi_instance = inst, mi_owner = instanceOwnerApplication, mi_config = None,
                                mi_configTOML = [], mi_source = ConfigSourceUser, mi_name = name\<rparr> m of
                          (Some err, m) \<Rightarrow> (Inl err, snd (onEngine (ho_Close E DetachedContext runtime) m))
                        | (None, m) \<Rightarrow> (Inr inst, m))"

definition Host_Instances :: "('m, 'w) instanceManager \<Rightarrow> hostInstance list" where
  "Host_Instances m = map mi_instance (manager_snapshot m)"

text \<open>\<^verbatim>\<open>Host.Close\<close>; \<open>closeEngine\<close> is the close of the engine's host.\<close>

definition Host_Close ::
  "('m, 'w) engineHost \<Rightarrow> ('w \<Rightarrow> goerror option \<times> 'w) \<Rightarrow> ('m, 'w) instanceManager \<Rightarrow> goerror option \<times> ('m, 'w) instanceManager" where
  "Host_Close E closeEngine m =
     (let (err, m) = onEngine closeEngine m
      in (err, if ho_ctxErr E RequestContext (im_engine m) = None then manager_clear m else m))"

section \<open>Running an instance\<close>

definition createWebInstance ::
  "('m, 'w) engineHost \<Rightarrow> requestContext \<Rightarrow> UUID \<Rightarrow> 'm networkConfig option \<Rightarrow> configSource \<Rightarrow> bytes \<Rightarrow>
    ('m, 'w) instanceManager \<Rightarrow> (goerror + 'm managedInstance) \<times> ('m, 'w) instanceManager" where
  "createWebInstance E ctx uuid config source configTOML m =
     (case onEngine (ho_CreateInstance E ctx configTOML) m of
        (Inl err, m) \<Rightarrow> (Inl err, m)
      | (Inr runtime, m) \<Rightarrow>
          case onEngine (ho_Start E ctx runtime) m of
            (Some err, m) \<Rightarrow> (Inl err, snd (onEngine (ho_Close E DetachedContext runtime) m))
          | (None, m) \<Rightarrow>
              let entry = \<lparr>mi_id = uuid, mi_instance = \<lparr>hi_engine = runtime, hi_id = uuidString uuid\<rparr>, mi_owner = instanceOwnerWeb,
                           mi_config = config, mi_configTOML = configTOML,
                           mi_source = (if source = ConfigSourceUnspecified then ConfigSourceUser else source),
                           mi_name = GetNetworkName config\<rparr>
              in case manager_register entry m of
                   (Some err, m) \<Rightarrow> (Inl err, snd (onEngine (ho_Close E DetachedContext runtime) m))
                 | (None, m) \<Rightarrow> (Inr entry, m))"

text \<open>The part of \<^verbatim>\<open>runNetworkInstance\<close> after the previous instance, if any, has been closed.\<close>

definition startReplacement ::
  "('m, 'w) engineHost \<Rightarrow> 'm managedInstance option \<Rightarrow> UUID \<Rightarrow> 'm networkConfig \<Rightarrow> configSource \<Rightarrow> bytes \<Rightarrow>
    ('m, 'w) instanceManager \<Rightarrow> (goerror + UUID option) \<times> ('m, 'w) instanceManager" where
  "startReplacement E previous uuid config source preparedConfig m =
     (let source = (case previous of Some p \<Rightarrow> if source = ConfigSourceUnspecified then mi_source p else source | None \<Rightarrow> source)
      in case createWebInstance E RequestContext uuid (Some config) source preparedConfig m of
           (Inr entry, m) \<Rightarrow> (Inr (Some (mi_id entry)), m)
         | (Inl err, m) \<Rightarrow>
             (case previous of
                None \<Rightarrow> (Inl err, m)
              | Some p \<Rightarrow>
                  let (restored, m) = createWebInstance E RestoreContext (mi_id p) (mi_config p) (mi_source p) (mi_configTOML p) m;
                      restoreErr = (case restored of Inl e \<Rightarrow> Some e | Inr _ \<Rightarrow> None)
                  in (Inl (the (errors_Join [Some err, restoreErr])), m)))"

definition runNetworkInstance ::
  "('m, 'w) engineHost \<Rightarrow> 'm runRequest \<Rightarrow> bytes \<Rightarrow> UUID option \<Rightarrow> ('m, 'w) instanceManager \<Rightarrow>
    (goerror + UUID option) \<times> ('m, 'w) instanceManager" where
  "runNetworkInstance E request preparedConfig preparedInstanceID m =
     (case rn_Config request of
        None \<Rightarrow> (Inl (Errorf ''config is required'' []), m)
      | Some config \<Rightarrow>
          if preparedConfig = [] then (Inl (Errorf ''prepared EasyTier config is required'' []), m)
          else
            case preparedInstanceID of
              None \<Rightarrow> (Inl (Errorf ''prepared EasyTier instance ID is required'' []), m)
            | Some uuid \<Rightarrow>
                let config = config\<lparr>nc_InstanceId := Some (uuidString uuid)\<rparr>;
                    previous = map_of (im_instances m) (uuidString uuid)
                in case previous of
                     None \<Rightarrow> startReplacement E None uuid config (rn_Source request) preparedConfig m
                   | Some p \<Rightarrow>
                       if mi_owner p \<noteq> instanceOwnerWeb then (Inl (Errorf ''configuration for instance %s is read-only'' []), m)
                       else if \<not> rn_Overwrite request \<and> ho_TerminalError E (hi_engine (mi_instance p)) (im_engine m) = None
                       then (Inr (Some uuid), m)
                       else
                         case closeManagedInstance E RequestContext (mi_instance p) m of
                           (Some err, m) \<Rightarrow> (Inl (Errorf ''replace EasyTier instance %s: %w'' [err]), m)
                         | (None, m) \<Rightarrow> startReplacement E (Some p) uuid config (rn_Source request) preparedConfig m)"

section \<open>Retaining and deleting\<close>

definition instanceIDs :: "('m, 'w) instanceManager \<Rightarrow> UUID list" where
  "instanceIDs m = map mi_id (manager_snapshot m)"

text \<open>The loop over a snapshot.\<close>

fun closeWebLoop ::
  "('m, 'w) engineHost \<Rightarrow> (bytes \<Rightarrow> bool) \<Rightarrow> 'm managedInstance list \<Rightarrow> ('m, 'w) instanceManager \<Rightarrow>
    goerror option \<times> ('m, 'w) instanceManager" where
  "closeWebLoop E shouldClose [] m = (None, m)"
| "closeWebLoop E shouldClose (entry # entries) m =
     (if mi_owner entry \<noteq> instanceOwnerWeb \<or> \<not> shouldClose (uuidString (mi_id entry)) then closeWebLoop E shouldClose entries m
      else
        case closeManagedInstance E RequestContext (mi_instance entry) m of
          (Some err, m) \<Rightarrow> (Some err, m)
        | (None, m) \<Rightarrow> closeWebLoop E shouldClose entries m)"

definition closeWebInstances ::
  "('m, 'w) engineHost \<Rightarrow> (bytes \<Rightarrow> bool) \<Rightarrow> ('m, 'w) instanceManager \<Rightarrow> goerror option \<times> ('m, 'w) instanceManager" where
  "closeWebInstances E shouldClose m = closeWebLoop E shouldClose (manager_snapshot m) m"

definition retainNetworkInstances ::
  "('m, 'w) engineHost \<Rightarrow> UUID option list \<Rightarrow> ('m, 'w) instanceManager \<Rightarrow> (goerror + UUID list) \<times> ('m, 'w) instanceManager" where
  "retainNetworkInstances E ids m =
     (case closeWebInstances E (\<lambda>uuid. uuid \<notin> set (uuidSet ids)) m of
        (Some err, m) \<Rightarrow> (Inl err, m)
      | (None, m) \<Rightarrow> (Inr (instanceIDs m), m))"

definition deleteNetworkInstances ::
  "('m, 'w) engineHost \<Rightarrow> UUID option list \<Rightarrow> ('m, 'w) instanceManager \<Rightarrow> (goerror + UUID list) \<times> ('m, 'w) instanceManager" where
  "deleteNetworkInstances E ids m =
     (case closeWebInstances E (\<lambda>uuid. uuid \<in> set (uuidSet ids)) m of
        (Some err, m) \<Rightarrow> (Inl err, m)
      | (None, m) \<Rightarrow> (Inr (instanceIDs m), m))"

section \<open>Configurations\<close>

definition getNetworkInstanceConfig ::
  "UUID option \<Rightarrow> ('m, 'w) instanceManager \<Rightarrow> goerror + 'm networkConfig option \<times> configSource" where
  "getNetworkInstanceConfig instId m =
     (case instId of
        None \<Rightarrow> Inl (Errorf ''instance ID is required'' [])
      | Some uuid \<Rightarrow>
          case map_of (im_instances m) (uuidString uuid) of
            None \<Rightarrow> Inl (Errorf ''EasyTier instance %s not found'' [])
          | Some entry \<Rightarrow>
              if mi_owner entry \<noteq> instanceOwnerWeb then Inl (Errorf ''configuration for instance %s is read-only'' [])
              else Inr (mi_config entry, mi_source entry))"

text \<open>\<^verbatim>\<open>identifier.GetId()\<close> is the argument.\<close>

definition selectedInstanceID :: "UUID option \<Rightarrow> goerror + UUID" where
  "selectedInstanceID identifier =
     (case identifier of None \<Rightarrow> Inl (Errorf ''instance ID is required'' []) | Some uuid \<Rightarrow> Inr uuid)"

definition manager_getConfig :: "UUID option \<Rightarrow> ('m, 'w) instanceManager \<Rightarrow> goerror + 'm networkConfig option" where
  "manager_getConfig identifier m =
     (case selectedInstanceID identifier of
        Inl err \<Rightarrow> Inl err
      | Inr uuid \<Rightarrow> map_sum id fst (getNetworkInstanceConfig (Some uuid) m))"

definition hostedConfigPatch :: "'m configPatch \<Rightarrow> 'm configPatch" where
  "hostedConfigPatch patch =
     \<lparr>cp_PortForwards = cp_PortForwards patch, cp_Acl = cp_Acl patch, cp_ProxyNetworks = cp_ProxyNetworks patch,
      cp_DisableRelayData = cp_DisableRelayData patch, cp_rest = None\<rparr>"

definition mergeHostedConfigPatch :: "'m networkConfig \<Rightarrow> 'm networkConfig \<Rightarrow> 'm configPatch \<Rightarrow> 'm networkConfig" where
  "mergeHostedConfigPatch desired effective patch =
     (let merged = desired;
          merged = (if length (cp_PortForwards patch) \<noteq> 0 then merged\<lparr>nc_PortForwards := nc_PortForwards effective\<rparr> else merged);
          merged = (if cp_Acl patch \<noteq> None then merged\<lparr>nc_Acl := nc_Acl effective\<rparr> else merged);
          merged = (if length (cp_ProxyNetworks patch) \<noteq> 0 then merged\<lparr>nc_ProxyCidrs := nc_ProxyCidrs effective\<rparr> else merged)
      in if cp_DisableRelayData patch \<noteq> None then merged\<lparr>nc_DisableRelayData := nc_DisableRelayData effective\<rparr> else merged)"

text \<open>
  The end of \<^verbatim>\<open>patchConfig\<close>, under the table's lock: an application may have closed the instance while it was patched.
  Entries are compared by their instances, one of which is made for each. An entry of the web always has a configuration (theory
  HostManagerSpec).
\<close>

definition finishPatch ::
  "'m configPatch \<Rightarrow> bytes \<Rightarrow> 'm managedInstance \<Rightarrow> goerror + 'm \<Rightarrow> 'm networkConfig \<Rightarrow> bytes \<Rightarrow> ('m, 'w) instanceManager \<Rightarrow>
    (goerror + 'm) \<times> ('m, 'w) instanceManager" where
  "finishPatch patch key entry patched effective effectiveTOML m =
     (let patchErr = (case patched of Inl e \<Rightarrow> Some e | Inr _ \<Rightarrow> None) in
      if map_option mi_instance (map_of (im_instances m) key) \<noteq> Some (mi_instance entry)
      then (Inl (the (errors_Join [patchErr, Some (Errorf ''EasyTier instance %s is no longer running'' [])])), m)
      else
        (patched,
         m\<lparr>im_instances :=
             AList.update key
               (entry\<lparr>mi_config := map_option (\<lambda>desired. mergeHostedConfigPatch desired effective patch) (mi_config entry),
                      mi_configTOML := effectiveTOML\<rparr>)
               (im_instances m)\<rparr>))"

text \<open>The part of \<^verbatim>\<open>patchConfig\<close> from the call on.\<close>

definition applyPatch ::
  "('m, 'w) engineHost \<Rightarrow> 'm patchRequest \<Rightarrow> 'm configPatch \<Rightarrow> bytes \<Rightarrow> 'm managedInstance \<Rightarrow> ('m, 'w) instanceManager \<Rightarrow>
    (goerror + 'm) \<times> ('m, 'w) instanceManager" where
  "applyPatch E request patch key entry m =
     (let engine = hi_engine (mi_instance entry);
          (patched, m) =
            onEngine (callRPCRequest E RequestContext engine ''api.config.ConfigRpc.PatchConfig''
              (Some (pb_PatchConfigRequest E (request\<lparr>pa_Patch := Some (hostedConfigPatch patch)\<rparr>))) (pb_PatchConfigResponse E)) m;
          patchErr = (case patched of Inl e \<Rightarrow> Some e | Inr _ \<Rightarrow> None);
          (snapshot, m) =
            onEngine (callRPCRequest E SnapshotContext engine ''api.config.ConfigRpc.GetConfig''
              (Some (pb_GetConfigRequest E (pa_Instance request))) (pb_GetConfigResponse E)) m
      in case snapshot of
           Inl err \<Rightarrow> (Inl (the (errors_Join [patchErr, Some (Errorf ''read effective EasyTier configuration: %w'' [err])])), m)
         | Inr (effective, effectiveTOML) \<Rightarrow>
             (case effective of
                Some effectiveConfig \<Rightarrow>
                  if effectiveTOML \<noteq> [] then finishPatch patch key entry patched effectiveConfig effectiveTOML m
                  else
                    (Inl (the (errors_Join
                       [patchErr, Some (Errorf ''EasyTier instance %s returned an incomplete config snapshot'' [])])), m)
              | None \<Rightarrow>
                  (Inl (the (errors_Join
                     [patchErr, Some (Errorf ''EasyTier instance %s returned an incomplete config snapshot'' [])])), m)))"

text \<open>\<open>emptyPatchResponse\<close> is a new \<^verbatim>\<open>PatchConfigResponse\<close>.\<close>

definition patchConfig ::
  "'m \<Rightarrow> ('m, 'w) engineHost \<Rightarrow> 'm patchRequest \<Rightarrow> ('m, 'w) instanceManager \<Rightarrow> (goerror + 'm) \<times> ('m, 'w) instanceManager" where
  "patchConfig emptyPatchResponse E request m =
     (case selectedInstanceID (pa_Instance request) of
        Inl err \<Rightarrow> (Inl err, m)
      | Inr uuid \<Rightarrow>
          case map_of (im_instances m) (uuidString uuid) of
            None \<Rightarrow> (Inl (Errorf ''EasyTier instance %s not found'' []), m)
          | Some entry \<Rightarrow>
              if mi_owner entry \<noteq> instanceOwnerWeb then (Inl (Errorf ''configuration for instance %s is read-only'' []), m)
              else
                case pa_Patch request of
                  None \<Rightarrow> (Inr emptyPatchResponse, m)
                | Some patch \<Rightarrow> applyPatch E request patch (uuidString uuid) entry m)"

section \<open>Queries\<close>

definition listNetworkInstanceMeta :: "UUID option list \<Rightarrow> ('m, 'w) instanceManager \<Rightarrow> networkMeta list" where
  "listNetworkInstanceMeta ids m =
     map (\<lambda>entry.
           \<lparr>me_InstId = mi_id entry,
            me_NetworkName = (if mi_config entry \<noteq> None then GetNetworkName (mi_config entry) else mi_name entry),
            me_ConfigPermission = (if mi_owner entry = instanceOwnerApplication then 3 else 0),
            me_InstanceName = mi_name entry, me_Source = mi_source entry\<rparr>)
       (filter (\<lambda>entry. uuidString (mi_id entry) \<in> set (uuidSet ids)) (manager_snapshot m))"

text \<open>The state of an instance as the application sees it.\<close>

datatype hostState = HostCreated | HostStarting | HostRunning | HostStopping | HostStopped

definition mapState :: "int \<Rightarrow> hostState" where
  "mapState state =
     (if state = StateCreated then HostCreated
      else if state = StateStarting then HostStarting
      else if state = StateRunning then HostRunning
      else if state = StateStopping then HostStopping
      else HostStopped)"

definition routeAddr :: "'m route \<Rightarrow> u32" where
  "routeAddr r = (case ro_Ipv4Addr r of None \<Rightarrow> 0 | Some inet \<Rightarrow> in_Addr inet)"

definition peerRoutePairs :: "('m, 'w) engineHost \<Rightarrow> 'm peerInfo list \<Rightarrow> 'm route list \<Rightarrow> ('m route \<times> 'm peerInfo) list" where
  "peerRoutePairs E peers routes =
     (let byID = map_of (rev (map (\<lambda>peer. (pe_PeerId peer, peer)) peers));
          pairs = List.map_filter (\<lambda>r. map_option (Pair r) (byID (ro_PeerId r))) routes
      in sort_Slice E (\<lambda>(left, _) (right, _).
           if ro_IsPublicServer left \<noteq> ro_IsPublicServer right then ro_IsPublicServer left else routeAddr left < routeAddr right) pairs)"

definition entryInfo :: "('m, 'w) engineHost \<Rightarrow> 'm managedInstance \<Rightarrow> 'w \<Rightarrow> (goerror + 'm runningInfo) \<times> 'w" where
  "entryInfo E entry w =
     (let engine = hi_engine (mi_instance entry);
          state = mapState (ho_State E engine w);
          info = \<lparr>ri_Running = state \<noteq> HostCreated \<and> state \<noteq> HostStopped, ri_Events = ho_ManagementEvents E engine w,
                  ri_ErrorMsg = ho_TerminalError E engine w, ri_DevName = [], ri_MyNodeInfo = None, ri_Routes = [], ri_Peers = [],
                  ri_PeerRoutePairs = [], ri_ForeignNetworkSummary = None\<rparr>
      in if state \<noteq> HostRunning then (Inr info, w)
         else
           case listPeerResponse E RequestContext engine w of
             (Inl err, w) \<Rightarrow> (Inl err, w)
           | (Inr peers, w) \<Rightarrow>
               case listRouteResponse E RequestContext engine w of
                 (Inl err, w) \<Rightarrow> (Inl err, w)
               | (Inr routes, w) \<Rightarrow>
                   case showNodeInfo E RequestContext engine w of
                     (Inl err, w) \<Rightarrow> (Inl err, w)
                   | (Inr node, w) \<Rightarrow>
                       case foreignNetworkSummary E RequestContext engine w of
                         (Inl err, w) \<Rightarrow> (Inl err, w)
                       | (Inr foreign, w) \<Rightarrow>
                           let peerId = (case node of None \<Rightarrow> 0 | Some n \<Rightarrow> no_PeerId n);
                               virtualIPv4 = Option.bind (find (\<lambda>r. ro_PeerId r = peerId) routes) ro_Ipv4Addr;
                               devName = Option.bind (mi_config entry) nc_DevName
                           in (Inr (info\<lparr>
                                 ri_DevName := (case devName of None \<Rightarrow> [] | Some name \<Rightarrow> name),
                                 ri_MyNodeInfo := Some
                                   \<lparr>my_VirtualIpv4 = virtualIPv4, my_Listeners = (case node of None \<Rightarrow> [] | Some n \<Rightarrow> no_Listeners n),
                                    my_PeerId = peerId, my_rest = map_option no_rest node\<rparr>,
                                 ri_Routes := routes, ri_Peers := peers, ri_PeerRoutePairs := peerRoutePairs E peers routes,
                                 ri_ForeignNetworkSummary := foreign\<rparr>), w))"

fun collectLoop ::
  "('m, 'w) engineHost \<Rightarrow> bytes list \<Rightarrow> 'm managedInstance list \<Rightarrow> 'w \<Rightarrow> (goerror + (bytes \<times> 'm runningInfo) list) \<times> 'w" where
  "collectLoop E included [] w = (Inr [], w)"
| "collectLoop E included (entry # entries) w =
     (let uuid = uuidString (mi_id entry) in
      if included \<noteq> [] \<and> uuid \<notin> set included then collectLoop E included entries w
      else
        case entryInfo E entry w of
          (Inl err, w) \<Rightarrow> (Inl err, w)
        | (Inr info, w) \<Rightarrow>
            (case collectLoop E included entries w of
               (Inl err, w) \<Rightarrow> (Inl err, w)
             | (Inr infos, w) \<Rightarrow> (Inr ((uuid, info) # infos), w)))"

definition collectNetworkInfo ::
  "('m, 'w) engineHost \<Rightarrow> UUID option list \<Rightarrow> ('m, 'w) instanceManager \<Rightarrow> (goerror + (bytes \<times> 'm runningInfo) list) \<times> ('m, 'w) instanceManager" where
  "collectNetworkInfo E ids m = onEngine (collectLoop E (uuidSet ids) (manager_snapshot m)) m"

section \<open>Dispatch\<close>

text \<open>The requests, decoded; the code decodes each by its method's name, and the protocol buffers decode its bytes.\<close>

datatype 'm managementRequest =
    RunNetworkInstance "'m runRequest"
  | RetainNetworkInstance "UUID option list"
  | CollectNetworkInfo "UUID option list"
  | ListNetworkInstance
  | DeleteNetworkInstance "UUID option list"
  | GetNetworkInstanceConfig "UUID option"
  | ListNetworkInstanceMeta "UUID option list"
  | PatchConfig "'m patchRequest"
  | GetConfig "UUID option"

definition managementMethods :: "(bytes \<times> string) list" where
  "managementMethods =
     map (\<lambda>(service, method). (lit (service @ method), method))
       (map (Pair ''api.manage.WebClientService.'')
          [''RunNetworkInstance'', ''RetainNetworkInstance'', ''CollectNetworkInfo'', ''ListNetworkInstance'',
           ''DeleteNetworkInstance'', ''GetNetworkInstanceConfig'', ''ListNetworkInstanceMeta''] @
        map (Pair ''api.config.ConfigRpc.'') [''PatchConfig'', ''GetConfig''])"

definition onFirst :: "('a \<Rightarrow> 'b) \<Rightarrow> (goerror + 'a) \<times> 's \<Rightarrow> (goerror + 'b) \<times> 's" where
  "onFirst f r = (map_sum id f (fst r), snd r)"

fun handleRequest ::
  "'m \<Rightarrow> ('m, 'w) engineHost \<Rightarrow> 'm managementRequest \<Rightarrow> bytes \<Rightarrow> UUID option \<Rightarrow> ('m, 'w) instanceManager \<Rightarrow>
    (goerror + 'm managementResponse) \<times> ('m, 'w) instanceManager" where
  "handleRequest p E (RunNetworkInstance request) preparedConfig preparedInstanceID m =
     onFirst RunResponse (runNetworkInstance E request preparedConfig preparedInstanceID m)"
| "handleRequest p E (RetainNetworkInstance ids) _ _ m = onFirst RemainResponse (retainNetworkInstances E ids m)"
| "handleRequest p E (CollectNetworkInfo ids) _ _ m = onFirst CollectResponse (collectNetworkInfo E ids m)"
| "handleRequest p E ListNetworkInstance _ _ m = (Inr (ListResponse (instanceIDs m)), m)"
| "handleRequest p E (DeleteNetworkInstance ids) _ _ m = onFirst RemainResponse (deleteNetworkInstances E ids m)"
| "handleRequest p E (GetNetworkInstanceConfig instId) _ _ m =
     (map_sum id (\<lambda>(config, source). NetworkConfigResponse config source) (getNetworkInstanceConfig instId m), m)"
| "handleRequest p E (ListNetworkInstanceMeta ids) _ _ m = (Inr (MetaResponse (listNetworkInstanceMeta ids m)), m)"
| "handleRequest p E (PatchConfig request) _ _ m = onFirst PatchResponse (patchConfig p E request m)"
| "handleRequest p E (GetConfig instId) _ _ m = (map_sum id ConfigResponse (manager_getConfig instId m), m)"

text \<open>\<open>unmarshal\<close> decodes the bytes of the request of a method.\<close>

definition dispatch ::
  "'m \<Rightarrow> (string \<Rightarrow> bytes \<Rightarrow> goerror + 'm managementRequest) \<Rightarrow> ('m, 'w) engineHost \<Rightarrow> bytes \<Rightarrow> bytes \<Rightarrow> bytes \<Rightarrow> UUID option \<Rightarrow>
    ('m, 'w) instanceManager \<Rightarrow> (goerror + 'm managementResponse) \<times> ('m, 'w) instanceManager" where
  "dispatch p unmarshal E method encoded preparedConfig preparedInstanceID m =
     (case map_of managementMethods method of
        None \<Rightarrow> (Inl (Errorf ''unsupported host management method %q'' []), m)
      | Some name \<Rightarrow>
          case unmarshal name encoded of
            Inl err \<Rightarrow> (Inl err, m)
          | Inr request \<Rightarrow> handleRequest p E request preparedConfig preparedInstanceID m)"

section \<open>The envelope\<close>

record rpcResponse =
  re_Response :: bytes
  re_Error :: "goerror option"
  re_RuntimeUs :: int

text \<open>\<open>elapsed\<close> is how long the request took, in microseconds; \<open>marshal\<close> and \<open>marshalEnvelope\<close> are those of the protocol buffers.\<close>

definition encodeManagementResponse ::
  "('m managementResponse \<Rightarrow> goerror + bytes) \<Rightarrow> (rpcResponse \<Rightarrow> goerror + bytes) \<Rightarrow> goerror + 'm managementResponse \<Rightarrow> int \<Rightarrow> bytes outcome" where
  "encodeManagementResponse marshal marshalEnvelope response elapsed =
     (let runtimeUs = (if elapsed = 0 then 1 else elapsed);
          envelope =
            (case (case response of Inl err \<Rightarrow> Inl err | Inr r \<Rightarrow> marshal r) of
               Inl err \<Rightarrow> \<lparr>re_Response = [], re_Error = Some err, re_RuntimeUs = runtimeUs\<rparr>
             | Inr encoded \<Rightarrow> \<lparr>re_Response = encoded, re_Error = None, re_RuntimeUs = runtimeUs\<rparr>)
      in case marshalEnvelope envelope of Inl _ \<Rightarrow> Panic | Inr encoded \<Rightarrow> Ok encoded)"

record managementEnvelope =
  en_Rpc :: "(bytes \<times> bytes) option"
  en_PreparedConfig :: bytes
  en_PreparedInstanceID :: "UUID option"

definition manager_handle ::
  "'m \<Rightarrow> (bytes \<Rightarrow> goerror + managementEnvelope) \<Rightarrow> (string \<Rightarrow> bytes \<Rightarrow> goerror + 'm managementRequest) \<Rightarrow> ('m, 'w) engineHost \<Rightarrow>
    bytes \<Rightarrow> ('m, 'w) instanceManager \<Rightarrow> (goerror + 'm managementResponse) \<times> ('m, 'w) instanceManager" where
  "manager_handle p unmarshalEnvelope unmarshal E encoded m =
     (case unmarshalEnvelope encoded of
        Inl err \<Rightarrow> (Inl err, m)
      | Inr envelope \<Rightarrow>
          case en_Rpc envelope of
            None \<Rightarrow> (Inl (Errorf ''host management RPC is required'' []), m)
          | Some (method, request) \<Rightarrow>
              dispatch p unmarshal E method request (en_PreparedConfig envelope) (en_PreparedInstanceID envelope) m)"

end
