(* ===== verification/HostManagerCalls.thy ===== *)
theory HostManagerCalls
  imports HostManager
begin

text \<open>
  Which calls on the engine the requests of the web make: an engine that records its calls, the calls a request may make when
  some instances are the web's, and a lemma for every operation that it makes no other.
\<close>

section \<open>An engine with a record of its calls\<close>

text \<open>The calls that reach an instance, and the making of one; the calls that only read are not recorded.\<close>

datatype engineCall = CallCreate "goerror + nat" | CallStart nat | CallClose nat | CallRPC nat bytes

definition logged :: "('m, 'w) engineHost \<Rightarrow> ('m, 'w \<times> engineCall list) engineHost" where
  "logged E =
     \<lparr>ho_CreateInstance = (\<lambda>ctx toml (w, log). case ho_CreateInstance E ctx toml w of (r, w) \<Rightarrow> (r, w, log @ [CallCreate r])),
      ho_Start = (\<lambda>ctx i (w, log). case ho_Start E ctx i w of (err, w) \<Rightarrow> (err, w, log @ [CallStart i])),
      ho_Close = (\<lambda>ctx i (w, log). case ho_Close E ctx i w of (err, w) \<Rightarrow> (err, w, log @ [CallClose i])),
      ho_RPC = (\<lambda>ctx i request (w, log). case ho_RPC E ctx i request w of (r, w) \<Rightarrow> (r, w, log @ [CallRPC i request])),
      ho_TerminalError = (\<lambda>i (w, log). ho_TerminalError E i w), ho_State = (\<lambda>i (w, log). ho_State E i w),
      ho_ManagementEvents = (\<lambda>i (w, log). ho_ManagementEvents E i w), ho_ctxErr = (\<lambda>ctx (w, log). ho_ctxErr E ctx w),
      ho_Until = (\<lambda>ctx (w, log). ho_Until E ctx w),
      pb_DirectRpcRequest = pb_DirectRpcRequest E, pb_RpcResponse = pb_RpcResponse E,
      pb_PatchConfigRequest = pb_PatchConfigRequest E, pb_PatchConfigResponse = pb_PatchConfigResponse E,
      pb_GetConfigRequest = pb_GetConfigRequest E, pb_GetConfigResponse = pb_GetConfigResponse E,
      pb_ListPeerResponse = pb_ListPeerResponse E, pb_ListRouteResponse = pb_ListRouteResponse E,
      pb_ShowNodeInfoResponse = pb_ShowNodeInfoResponse E, pb_ForeignNetworkSummary = pb_ForeignNetworkSummary E,
      sort_Slice = sort_Slice E\<rparr>"

text \<open>The four questions that may be asked of any instance; they carry no payload.\<close>

definition queryMethods :: "string list" where
  "queryMethods =
     [''api.instance.PeerManageRpc.ListPeer'', ''api.instance.PeerManageRpc.ListRoute'', ''api.instance.PeerManageRpc.ShowNodeInfo'',
      ''api.instance.PeerManageRpc.GetForeignNetworkSummary'']"

definition isQuery :: "('m, 'w) engineHost \<Rightarrow> bytes \<Rightarrow> bool" where
  "isQuery E request \<longleftrightarrow> (\<exists>method \<in> set queryMethods. \<exists>timeout. pb_DirectRpcRequest E (lit method) [] timeout = Inr request)"

text \<open>Only the instances in \<open>W\<close>, and those made on the way, are started, closed or told anything.\<close>

fun permitted :: "('m, 'w) engineHost \<Rightarrow> nat set \<Rightarrow> engineCall list \<Rightarrow> bool" where
  "permitted E W [] = True"
| "permitted E W (CallCreate r # calls) = permitted E (case r of Inr i \<Rightarrow> insert i W | Inl _ \<Rightarrow> W) calls"
| "permitted E W (CallStart i # calls) = (i \<in> W \<and> permitted E W calls)"
| "permitted E W (CallClose i # calls) = (i \<in> W \<and> permitted E W calls)"
| "permitted E W (CallRPC i request # calls) = ((i \<in> W \<or> isQuery E request) \<and> permitted E W calls)"

text \<open>The instances of the web that a host has.\<close>

definition webEngines :: "('m, 'w) instanceManager \<Rightarrow> nat set" where
  "webEngines m =
     set (map (\<lambda>(key, entry). hi_engine (mi_instance entry)) (filter (\<lambda>(key, entry). mi_owner entry = instanceOwnerWeb) (im_instances m)))"

lemma permitted_mono: "permitted E W calls \<Longrightarrow> W \<subseteq> W' \<Longrightarrow> permitted E W' calls"
proof (induction E W calls arbitrary: W' rule: permitted.induct)
  case (2 E W r calls)
  then show ?case by (cases r) (simp_all, blast)
qed auto

lemma permitted_append: "permitted E W xs \<Longrightarrow> permitted E W ys \<Longrightarrow> permitted E W (xs @ ys)"
proof (induction E W xs rule: permitted.induct)
  case (2 E W r calls)
  then show ?case by (cases r) (auto intro: permitted_mono)
qed auto

section \<open>Runs that make permitted calls\<close>

definition allows :: "('m, 'w) engineHost \<Rightarrow> nat set \<Rightarrow> 'w \<times> engineCall list \<Rightarrow> 'w \<times> engineCall list \<Rightarrow> bool" where
  "allows E W w w' \<longleftrightarrow> (\<exists>calls. snd w' = snd w @ calls \<and> permitted E W calls)"

lemma allows_refl [simp]: "allows E W w w"
  by (simp add: allows_def)

lemma allows_trans: "allows E W w w1 \<Longrightarrow> allows E W w1 w2 \<Longrightarrow> allows E W w w2"
  unfolding allows_def by (metis append.assoc permitted_append)

lemma onEngine_run: "onEngine f m = (x, m') \<Longrightarrow> f (im_engine m) = (x, im_engine m') \<and> im_instances m' = im_instances m"
  by (auto simp: onEngine_def split: prod.splits)

lemma logged_calls:
  "ho_CreateInstance (logged E) ctx toml w = (r, w') \<Longrightarrow> snd w' = snd w @ [CallCreate r]"
  "ho_Start (logged E) ctx i w = (err, w') \<Longrightarrow> snd w' = snd w @ [CallStart i]"
  "ho_Close (logged E) ctx i w = (err, w') \<Longrightarrow> snd w' = snd w @ [CallClose i]"
  "ho_RPC (logged E) ctx i request w = (answer, w') \<Longrightarrow> snd w' = snd w @ [CallRPC i request]"
  "pb_DirectRpcRequest (logged E) = pb_DirectRpcRequest E"
  by (cases w; auto simp: logged_def split: prod.splits)+

lemma callRPC_allows:
  assumes "callRPCRequest (logged E) ctx i method request decode w = (r, w')"
    "i \<in> W \<or> request = None \<and> method \<in> set queryMethods"
  shows "allows E W w w'"
proof -
  consider "w' = w"
    | payload timeout encoded answer where "(case request of None \<Rightarrow> Inr [] | Some payload \<Rightarrow> payload) = Inr payload"
      "pb_DirectRpcRequest E (lit method) payload timeout = Inr encoded" "ho_RPC (logged E) ctx i encoded w = (answer, w')"
    using assms(1) by (auto simp: callRPCRequest_def logged_calls(5) Let_def split: option.splits sum.splits if_splits prod.splits)
  then show ?thesis
  proof cases
    case 2
    have "permitted E W [CallRPC i encoded]" using assms(2) 2(1,2) by (auto simp: isQuery_def)
    then show ?thesis using logged_calls(4) [OF 2(3)] by (auto simp: allows_def)
  qed simp
qed

lemma query_allows:
  "listPeerResponse (logged E) ctx i w = (peers, w') \<Longrightarrow> allows E W w w'"
  "listRouteResponse (logged E) ctx i w = (routes, w') \<Longrightarrow> allows E W w w'"
  "showNodeInfo (logged E) ctx i w = (node, w') \<Longrightarrow> allows E W w w'"
  "foreignNetworkSummary (logged E) ctx i w = (summary, w') \<Longrightarrow> allows E W w w'"
  unfolding listPeerResponse_def listRouteResponse_def showNodeInfo_def foreignNetworkSummary_def host_callRPC_def
  by (erule callRPC_allows, simp add: queryMethods_def)+

section \<open>Every operation\<close>

lemma close_allows:
  assumes "closeManagedInstance (logged E) ctx inst m = (err, m')" "hi_engine inst \<in> W"
  shows "allows E W (im_engine m) (im_engine m')"
proof -
  obtain x m1 where c: "onEngine (ho_Close (logged E) ctx (hi_engine inst)) m = (x, m1)" by (metis surj_pair)
  have "im_engine m' = im_engine m1"
    using assms(1) c by (auto simp: closeManagedInstance_def closeInstance_def manager_remove_def Let_def split: option.splits if_splits)
  moreover have "snd (im_engine m1) = snd (im_engine m) @ [CallClose (hi_engine inst)]"
    using logged_calls(3) onEngine_run [OF c] by blast
  ultimately show ?thesis using assms(2) by (simp add: allows_def)
qed

lemma createWeb_allows:
  assumes "createWebInstance (logged E) ctx uuid config source toml m = (r, m')"
  shows "allows E W (im_engine m) (im_engine m')"
proof -
  obtain x m1 where c: "onEngine (ho_CreateInstance (logged E) ctx toml) m = (x, m1)" by (metis surj_pair)
  have log1: "snd (im_engine m1) = snd (im_engine m) @ [CallCreate x]" using logged_calls(1) onEngine_run [OF c] by blast
  show ?thesis
  proof (cases x)
    case (Inl e)
    then show ?thesis using assms c log1 by (auto simp: createWebInstance_def allows_def)
  next
    case (Inr i)
    obtain y m2 where s: "onEngine (ho_Start (logged E) ctx i) m1 = (y, m2)" by (metis surj_pair)
    have log2: "snd (im_engine m2) = snd (im_engine m) @ [CallCreate (Inr i), CallStart i]"
      using logged_calls(2) onEngine_run [OF s] log1 Inr by fastforce
    have closing: "allows E W (im_engine m) (im_engine (snd (onEngine (ho_Close (logged E) DetachedContext i) k)))"
      if "im_engine k = im_engine m2" for k :: "('a, 'b \<times> engineCall list) instanceManager"
    proof -
      obtain z k' where k: "onEngine (ho_Close (logged E) DetachedContext i) k = (z, k')" by (metis surj_pair)
      have "snd (im_engine k') = snd (im_engine m) @ [CallCreate (Inr i), CallStart i, CallClose i]"
        using logged_calls(3) onEngine_run [OF k] log2 that by fastforce
      then show ?thesis using k by (auto simp: allows_def)
    qed
    have started: "allows E W (im_engine m) (im_engine k)" if "im_engine k = im_engine m2" for k :: "('a, 'b \<times> engineCall list) instanceManager"
      using log2 that by (auto simp: allows_def)
    have "im_engine (snd (manager_register entry m2)) = im_engine m2" for entry by (simp add: manager_register_def Let_def)
    then show ?thesis
      using assms c Inr s closing started
      by (auto simp: createWebInstance_def Let_def split: option.splits prod.splits) (metis snd_conv)+
  qed
qed

lemma startReplacement_allows:
  assumes "startReplacement (logged E) previous uuid config source toml m = (r, m')"
  shows "allows E W (im_engine m) (im_engine m')"
  using assms unfolding startReplacement_def Let_def
  by (auto split: prod.splits sum.splits option.splits intro: createWeb_allows allows_trans)

lemma webEngines_lookup:
  "map_of (im_instances m) key = Some entry \<Longrightarrow> mi_owner entry = instanceOwnerWeb \<Longrightarrow> hi_engine (mi_instance entry) \<in> webEngines m"
  using map_of_SomeD [of "im_instances m" key entry] by (force simp: webEngines_def)

lemma run_allows:
  assumes "runNetworkInstance (logged E) request preparedConfig prepared m = (r, m')"
  shows "allows E (webEngines m) (im_engine m) (im_engine m')"
  using assms unfolding runNetworkInstance_def Let_def
  by (auto split: option.splits if_splits prod.splits
      intro: startReplacement_allows close_allows allows_trans webEngines_lookup)

lemma closeWebLoop_allows:
  assumes "closeWebLoop (logged E) shouldClose entries m = (err, m')"
    "\<And>entry. entry \<in> set entries \<Longrightarrow> mi_owner entry = instanceOwnerWeb \<Longrightarrow> hi_engine (mi_instance entry) \<in> W"
  shows "allows E W (im_engine m) (im_engine m')"
  using assms
proof (induction entries arbitrary: m)
  case (Cons entry entries)
  show ?case
  proof (cases "mi_owner entry \<noteq> instanceOwnerWeb \<or> \<not> shouldClose (uuidString (mi_id entry))")
    case True
    then show ?thesis using Cons by simp
  next
    case False
    obtain x m1 where c: "closeManagedInstance (logged E) RequestContext (mi_instance entry) m = (x, m1)" by (metis surj_pair)
    have "allows E W (im_engine m) (im_engine m1)" by (rule close_allows [OF c]) (use Cons.prems(2) False in auto)
    then show ?thesis using Cons False c by (cases x) (auto intro: allows_trans)
  qed
qed simp

lemma closeWeb_allows:
  assumes "closeWebInstances (logged E) shouldClose m = (err, m')"
  shows "allows E (webEngines m) (im_engine m) (im_engine m')"
  by (rule closeWebLoop_allows [OF assms [unfolded closeWebInstances_def]]) (force simp: manager_snapshot_def webEngines_def)

lemma patch_allows:
  assumes "patchConfig p (logged E) request m = (r, m')"
  shows "allows E (webEngines m) (im_engine m) (im_engine m')"
proof -
  consider "m' = m" | patch uuid entry where "applyPatch (logged E) request patch (uuidString uuid) entry m = (r, m')"
      "map_of (im_instances m) (uuidString uuid) = Some entry" "mi_owner entry = instanceOwnerWeb"
    using assms unfolding patchConfig_def by (auto split: sum.splits option.splits if_splits)
  then show ?thesis
  proof cases
    case 2
    let ?i = "hi_engine (mi_instance entry)"
    have i: "?i \<in> webEngines m" by (rule webEngines_lookup [OF 2(2,3)])
    let ?patch = "callRPCRequest (logged E) RequestContext ?i ''api.config.ConfigRpc.PatchConfig''
      (Some (pb_PatchConfigRequest (logged E) (request\<lparr>pa_Patch := Some (hostedConfigPatch patch)\<rparr>))) (pb_PatchConfigResponse (logged E))"
    let ?get = "callRPCRequest (logged E) SnapshotContext ?i ''api.config.ConfigRpc.GetConfig''
      (Some (pb_GetConfigRequest (logged E) (pa_Instance request))) (pb_GetConfigResponse (logged E))"
    obtain patched m1 where p: "onEngine ?patch m = (patched, m1)" by (metis surj_pair)
    obtain snapshot m2 where g: "onEngine ?get m1 = (snapshot, m2)" by (metis surj_pair)
    have "im_engine m' = im_engine m2"
      using 2(1) [unfolded applyPatch_def Let_def p g prod.case, symmetric]
      by (auto simp: finishPatch_def Let_def split: sum.splits prod.splits option.splits if_splits)
    moreover have "allows E (webEngines m) (im_engine m) (im_engine m1)"
      by (rule callRPC_allows [of E _ ?i]) (use onEngine_run [OF p] i in auto)
    moreover have "allows E (webEngines m) (im_engine m1) (im_engine m2)"
      by (rule callRPC_allows [of E _ ?i]) (use onEngine_run [OF g] i in auto)
    ultimately show ?thesis by (auto intro: allows_trans)
  qed simp
qed

lemma entryInfo_allows:
  assumes "entryInfo (logged E) entry w = (r, w')"
  shows "allows E W w w'"
proof -
  let ?i = "hi_engine (mi_instance entry)"
  obtain peers w1 where p: "listPeerResponse (logged E) RequestContext ?i w = (peers, w1)" by (metis surj_pair)
  obtain routes w2 where q: "listRouteResponse (logged E) RequestContext ?i w1 = (routes, w2)" by (metis surj_pair)
  obtain node w3 where n: "showNodeInfo (logged E) RequestContext ?i w2 = (node, w3)" by (metis surj_pair)
  obtain summary w4 where f: "foreignNetworkSummary (logged E) RequestContext ?i w3 = (summary, w4)" by (metis surj_pair)
  have "w' = w \<or> w' = w1 \<or> w' = w2 \<or> w' = w3 \<or> w' = w4"
    using assms unfolding entryInfo_def Let_def p prod.case
    by (cases peers; cases routes; cases node; cases summary) (simp_all add: q n f split: if_splits)
  then show ?thesis
    using query_allows(1) [OF p] query_allows(2) [OF q] query_allows(3) [OF n] query_allows(4) [OF f]
    by (blast intro: allows_trans allows_refl)
qed

lemma collectLoop_allows:
  "collectLoop (logged E) included entries w = (r, w') \<Longrightarrow> allows E W w w'"
proof (induction entries arbitrary: r w)
  case (Cons entry entries)
  then show ?case
    by (auto simp: Let_def split: if_splits prod.splits sum.splits intro: entryInfo_allows allows_trans)
qed simp

lemma onFirst_eq: "onFirst f x = (r, m') \<Longrightarrow> \<exists>r0. x = (r0, m')"
  by (cases x) (simp add: onFirst_def)

lemma handleRequest_allows:
  assumes "handleRequest p (logged E) request preparedConfig prepared m = (r, m')"
  shows "allows E (webEngines m) (im_engine m) (im_engine m')"
proof (cases request)
  case (RunNetworkInstance x)
  then show ?thesis using onFirst_eq run_allows assms by (metis handleRequest.simps(1))
next
  case (RetainNetworkInstance x)
  then obtain r0 where "retainNetworkInstances (logged E) x m = (r0, m')" using onFirst_eq assms by (metis handleRequest.simps(2))
  then show ?thesis by (auto simp: retainNetworkInstances_def split: prod.splits option.splits intro: closeWeb_allows)
next
  case (CollectNetworkInfo x)
  then obtain r0 where "collectNetworkInfo (logged E) x m = (r0, m')" using onFirst_eq assms by (metis handleRequest.simps(3))
  then show ?thesis unfolding collectNetworkInfo_def by (auto dest!: onEngine_run intro: collectLoop_allows)
next
  case (DeleteNetworkInstance x)
  then obtain r0 where "deleteNetworkInstances (logged E) x m = (r0, m')" using onFirst_eq assms by (metis handleRequest.simps(5))
  then show ?thesis by (auto simp: deleteNetworkInstances_def split: prod.splits option.splits intro: closeWeb_allows)
next
  case (PatchConfig x)
  then show ?thesis using onFirst_eq patch_allows assms by (metis handleRequest.simps(8))
qed (use assms in auto)

lemma handle_allows:
  assumes "manager_handle p unmarshalEnvelope unmarshal (logged E) encoded m = (r, m')"
  shows "\<exists>calls. snd (im_engine m') = snd (im_engine m) @ calls \<and> permitted E (webEngines m) calls"
proof -
  consider "m' = m" | request c u where "handleRequest p (logged E) request c u m = (r, m')"
    using assms by (auto simp: manager_handle_def dispatch_def split: sum.splits option.splits)
  then show ?thesis
  proof cases
    case 2
    then show ?thesis using handleRequest_allows [OF 2] by (simp add: allows_def)
  qed simp
qed

end
