(* ===== verification/HostConfigSpec.thy ===== *)
theory HostConfigSpec
  imports HostConfig
begin

text \<open>
  What the configuration text says: a reader of TOML's basic strings as the TOML 1.0 specification defines them, what it makes of
  the strings that are written, and what a configuration that was built promises of them.
\<close>

section \<open>Reading a basic string\<close>

definition hexValue :: "byte \<Rightarrow> nat option" where
  "hexValue b =
     (if 0x30 \<le> b \<and> b \<le> 0x39 then Some (unat b - 48)
      else if 0x61 \<le> b \<and> b \<le> 0x66 then Some (unat b - 87)
      else if 0x41 \<le> b \<and> b \<le> 0x46 then Some (unat b - 55) else None)"

fun hexNumber :: "nat \<Rightarrow> bytes \<Rightarrow> nat option" where
  "hexNumber acc [] = Some acc"
| "hexNumber acc (b # bs) = (case hexValue b of None \<Rightarrow> None | Some v \<Rightarrow> hexNumber (acc * 16 + v) bs)"

text \<open>A Unicode scalar value in UTF-8.\<close>

definition encodeRune :: "nat \<Rightarrow> bytes option" where
  "encodeRune r =
     (if r < 0x80 then Some [of_nat r]
      else if r < 0x800 then Some [of_nat (0xc0 + r div 64), of_nat (0x80 + r mod 64)]
      else if 0xd800 \<le> r \<and> r \<le> 0xdfff then None
      else if r < 0x10000 then Some [of_nat (0xe0 + r div 4096), of_nat (0x80 + r div 64 mod 64), of_nat (0x80 + r mod 64)]
      else if r < 0x110000 then
        Some [of_nat (0xf0 + r div 262144), of_nat (0x80 + r div 4096 mod 64), of_nat (0x80 + r div 64 mod 64), of_nat (0x80 + r mod 64)]
      else None)"

definition unicodeEscape :: "nat \<Rightarrow> bytes \<Rightarrow> bytes option" where
  "unicodeEscape n s =
     (if length s < n then None else Option.bind (hexNumber 0 (take n s)) encodeRune)"

definition shortEscape :: "byte \<Rightarrow> byte option" where
  "shortEscape c =
     (if c = 0x62 then Some 8 else if c = 0x74 then Some 9 else if c = 0x6e then Some 10 else if c = 0x66 then Some 12
      else if c = 0x72 then Some 13 else if c = 0x22 then Some 0x22 else if c = 0x5c then Some 0x5c else None)"

text \<open>The rest of a basic string after its opening quotation mark, up to the closing one, which must end the text.\<close>

function tomlBody :: "bytes \<Rightarrow> bytes option" where
  "tomlBody s =
     (case s of
        [] \<Rightarrow> None
      | b # bs \<Rightarrow>
          if b = 0x22 then (if bs = [] then Some [] else None)
          else if b = 0x5c then
            (case bs of
               [] \<Rightarrow> None
             | c # cs \<Rightarrow>
                 if c = 0x75 then
                   (case unicodeEscape 4 cs of None \<Rightarrow> None | Some x \<Rightarrow> map_option ((@) x) (tomlBody (drop 4 cs)))
                 else if c = 0x55 then
                   (case unicodeEscape 8 cs of None \<Rightarrow> None | Some x \<Rightarrow> map_option ((@) x) (tomlBody (drop 8 cs)))
                 else (case shortEscape c of None \<Rightarrow> None | Some x \<Rightarrow> map_option (Cons x) (tomlBody cs)))
          else if b < 0x80 then
            (if b = 9 \<or> 0x20 \<le> b \<and> b \<noteq> 0x7f then map_option (Cons b) (tomlBody bs) else None)
          else
            case decodeRune s of
              None \<Rightarrow> None
            | Some (r, n) \<Rightarrow> map_option ((@) (take n s)) (tomlBody (drop n s)))"
  by pat_completeness auto

termination by (relation "measure length") (auto dest: decodeRune_size)

declare tomlBody.simps [simp del]

definition tomlString :: "bytes \<Rightarrow> bytes option" where
  "tomlString q = (case q of [] \<Rightarrow> None | b # s \<Rightarrow> if b = 0x22 then tomlBody s else None)"

section \<open>Code points\<close>

text \<open>The first code point of a valid string: one of the four forms, and what follows is valid.\<close>

lemma utf8_valid_cases:
  assumes "utf8_valid (b # bs)"
  obtains "b < 0x80" "utf8_valid bs"
  | c cs where "\<not> b < 0x80" "0xc2 \<le> b \<and> b \<le> 0xdf" "bs = c # cs" "utf8_cont c" "utf8_valid cs"
  | c d cs where "\<not> b < 0x80" "\<not> (0xc2 \<le> b \<and> b \<le> 0xdf)" "0xe0 \<le> b \<and> b \<le> 0xef" "bs = c # d # cs"
      "if b = 0xe0 then 0xa0 \<le> c \<and> c \<le> 0xbf else if b = 0xed then 0x80 \<le> c \<and> c \<le> 0x9f else utf8_cont c"
      "utf8_cont d" "utf8_valid cs"
  | c d e cs where "\<not> b < 0x80" "\<not> (0xc2 \<le> b \<and> b \<le> 0xdf)" "\<not> (0xe0 \<le> b \<and> b \<le> 0xef)" "0xf0 \<le> b \<and> b \<le> 0xf4"
      "bs = c # d # e # cs"
      "if b = 0xf0 then 0x90 \<le> c \<and> c \<le> 0xbf else if b = 0xf4 then 0x80 \<le> c \<and> c \<le> 0x8f else utf8_cont c"
      "utf8_cont d" "utf8_cont e" "utf8_valid cs"
proof (cases "b < 0x80")
  case True
  then show ?thesis using assms that(1) by simp
next
  case nb: False
  show ?thesis
  proof (cases "0xc2 \<le> b \<and> b \<le> 0xdf")
    case True
    then obtain c cs where "bs = c # cs" using assms nb by (cases bs) simp_all
    then show ?thesis using assms nb True that(2) by simp
  next
    case nc: False
    show ?thesis
    proof (cases "0xe0 \<le> b \<and> b \<le> 0xef")
      case True
      obtain c d cs where "bs = c # d # cs" using assms nb nc True
        by (cases bs; cases "tl bs") simp_all
      then show ?thesis
        using assms [unfolded utf8_valid.simps if_not_P [OF nb] if_not_P [OF nc] if_P [OF True]] that(3) [OF nb nc True] by simp
    next
      case ne: False
      have f: "0xf0 \<le> b \<and> b \<le> 0xf4" using assms nb nc ne by (simp only: utf8_valid.simps if_False split: if_splits)
      obtain c d e cs where "bs = c # d # e # cs" using assms nb nc ne f
        by (cases bs; cases "tl bs"; cases "tl (tl bs)") simp_all
      then show ?thesis
        using assms [unfolded utf8_valid.simps if_not_P [OF nb] if_not_P [OF nc] if_not_P [OF ne] if_P [OF f]] that(4) [OF nb nc ne f] by simp
    qed
  qed
qed

lemma decodeRune_simps:
  "b < 0x80 \<Longrightarrow> decodeRune (b # bs) = Some (unat b, 1)"
  "\<not> b < 0x80 \<Longrightarrow> 0xc2 \<le> b \<and> b \<le> 0xdf \<Longrightarrow> utf8_cont c \<Longrightarrow> decodeRune (b # c # cs) = Some (rune2 b c, 2)"
  "\<not> b < 0x80 \<Longrightarrow> \<not> (0xc2 \<le> b \<and> b \<le> 0xdf) \<Longrightarrow> 0xe0 \<le> b \<and> b \<le> 0xef \<Longrightarrow>
    (if b = 0xe0 then 0xa0 \<le> c \<and> c \<le> 0xbf else if b = 0xed then 0x80 \<le> c \<and> c \<le> 0x9f else utf8_cont c) \<Longrightarrow> utf8_cont d \<Longrightarrow>
    decodeRune (b # c # d # cs) = Some (rune3 b c d, 3)"
  "\<not> b < 0x80 \<Longrightarrow> \<not> (0xc2 \<le> b \<and> b \<le> 0xdf) \<Longrightarrow> \<not> (0xe0 \<le> b \<and> b \<le> 0xef) \<Longrightarrow> 0xf0 \<le> b \<and> b \<le> 0xf4 \<Longrightarrow>
    (if b = 0xf0 then 0x90 \<le> c \<and> c \<le> 0xbf else if b = 0xf4 then 0x80 \<le> c \<and> c \<le> 0x8f else utf8_cont c) \<Longrightarrow> utf8_cont d \<Longrightarrow>
    utf8_cont e \<Longrightarrow> decodeRune (b # c # d # e # cs) = Some (rune4 b c d e, 4)"
  by (simp_all only: decodeRune_def list.case if_True if_False simp_thms) (rule if_P, assumption)+

lemma cont_wide: "utf8_cont c \<Longrightarrow> \<not> c < 0x80"
  unfolding utf8_cont_def by (metis linorder_not_less)

lemma cont_ge: "utf8_cont c \<Longrightarrow> 128 \<le> unat c \<and> unat c < 192"
  by (simp add: utf8_cont_def word_le_nat_alt)

lemma separator_digits:
  assumes "(x * 64 + y) * 64 + z = 8232 \<or> (x * 64 + y) * 64 + z = 8233" "y < 64" "z < (64 :: nat)"
  shows "x = 2 \<and> y = 0"
proof -
  have "((x * 64 + y) * 64 + z) div 64 = x * 64 + y" using assms(3) by simp
  moreover have "((x * 64 + y) * 64 + z) div 64 = 128" using assms(1) by auto
  ultimately have 2: "x * 64 + y = 128" by simp
  have "x = (x * 64 + y) div 64" "y = (x * 64 + y) mod 64" using assms(2) by simp_all
  then show ?thesis unfolding 2 by simp
qed

lemma offset_mod:
  assumes "a \<le> n" "n < a + k" "k dvd a"
  shows "n mod k = n - (a :: nat)"
proof -
  obtain q where "a = k * q" using assms(3) by blast
  moreover obtain r where "n = a + r" using assms(1) le_Suc_ex by blast
  ultimately show ?thesis using assms(2) by simp
qed

lemma rune3_separator:
  assumes "0xe0 \<le> b \<and> b \<le> 0xef" "128 \<le> unat c \<and> unat c < 192" "128 \<le> unat d \<and> unat d < 192"
    "rune3 b c d = 0x2028 \<or> rune3 b c d = 0x2029"
  shows "[b, c, d] = [0xe2, 0x80, of_nat (0x80 + rune3 b c d mod 64)]"
proof -
  have b: "224 \<le> unat b" "unat b < 224 + 16" using assms(1) by (simp_all add: word_le_nat_alt)
  have m: "unat b mod 16 = unat b - 224" "unat c mod 64 = unat c - 128" "unat d mod 64 = unat d - 128"
    using offset_mod [OF b] assms(2,3) by (simp_all add: offset_mod [of 128])
  have "unat b - 224 = 2 \<and> unat c - 128 = 0"
    by (rule separator_digits [of _ _ "unat d - 128"]) (use assms(2-4) in \<open>simp add: rune3_def m\<close>, use assms(2,3) in linarith, use assms(3) in linarith)
  then have "unat b = unat (0xe2 :: byte)" "unat c = unat (0x80 :: byte)" using b assms(2) by auto
  moreover have "rune3 b c d mod 64 = unat d - 128" 
  proof -
    have "((unat b mod 16 * 64 + unat c mod 64) * 64 + unat d mod 64) mod 64 = unat d mod 64" by (simp only: mod_mult_self3 mod_mod_trivial)
    then show ?thesis unfolding rune3_def m(3) .
  qed
  then have "d = of_nat (0x80 + rune3 b c d mod 64)" using assms(3) by simp
  ultimately show ?thesis using word_unat_eq_iff [of b "0xe2"] word_unat_eq_iff [of c "0x80"] by simp
qed

lemma rune2_bound: "rune2 b c < 0x800"
  using mod_less_divisor [of 32 "unat b"] mod_less_divisor [of 64 "unat c"] by (simp add: rune2_def)

lemma rune4_bound:
  assumes "0xf0 \<le> b \<and> b \<le> 0xf4" "if b = 0xf0 then 0x90 \<le> c \<and> c \<le> 0xbf else if b = 0xf4 then 0x80 \<le> c \<and> c \<le> 0x8f else utf8_cont c"
  shows "0x10000 \<le> rune4 b c d e"
proof (cases "b = 0xf0")
  case True
  then have "144 \<le> unat c" "unat c < 128 + 64" using assms(2) by (simp_all add: word_le_nat_alt)
  then have "unat c mod 64 = unat c - 128" by (intro offset_mod) simp_all
  then show ?thesis using True \<open>144 \<le> unat c\<close> by (simp add: rune4_def)
next
  case False
  have "240 \<le> unat b" "unat b < 240 + 8" using assms(1) by (simp_all add: word_le_nat_alt)
  then have "unat b mod 8 = unat b - 240" by (intro offset_mod) simp_all
  moreover have "unat b \<noteq> 240" using False word_unat_eq_iff [of b "0xf0"] by simp
  ultimately show ?thesis using \<open>240 \<le> unat b\<close> by (simp add: rune4_def)
qed

lemma utf8_wide:
  assumes "utf8_valid (b # bs)" "\<not> b < 0x80"
  obtains r n where "decodeRune (b # bs) = Some (r, n)" "utf8_valid (drop n (b # bs))"
    "\<And>rest. decodeRune (take n (b # bs) @ rest) = Some (r, n)" "n \<noteq> 0"  "n \<le> length (b # bs)"
    "\<And>x. x \<in> set (take n (b # bs)) \<Longrightarrow> \<not> x < 0x80"
    "r = 0x2028 \<or> r = 0x2029 \<Longrightarrow> take n (b # bs) = [0xe2, 0x80, of_nat (0x80 + r mod 64)]"
  using assms(1)
proof (cases rule: utf8_valid_cases)
  case 1
  then show ?thesis using assms(2) by simp
next
  case (2 c cs)
  have d: "decodeRune (b # c # xs) = Some (rune2 b c, Suc (Suc 0))" for xs
    using decodeRune_simps(2) [OF 2(1,2,4)] by (simp only: numeral_2_eq_2)
  show ?thesis
  proof (rule that [of "rune2 b c" "Suc (Suc 0)"])
    show "\<not> x < 0x80" if "x \<in> set (take (Suc (Suc 0)) (b # bs))" for x
      using that assms(2) cont_wide [OF 2(4)] unfolding 2(3) by auto
  qed (use rune2_bound [of b c] 2(5) d in \<open>simp_all add: 2(3)\<close>)
next
  case (3 c d cs)
  have c: "utf8_cont c" using 3(5) by (auto simp: utf8_cont_def word_le_nat_alt split: if_splits)
  have d: "decodeRune (b # c # d # xs) = Some (rune3 b c d, Suc (Suc (Suc 0)))" for xs
    using decodeRune_simps(3) [OF 3(1,2,3,5,6)] by (simp only: numeral_3_eq_3)
  show ?thesis
  proof (rule that [of "rune3 b c d" "Suc (Suc (Suc 0))"])
    show "\<not> x < 0x80" if "x \<in> set (take (Suc (Suc (Suc 0))) (b # bs))" for x
      using that assms(2) cont_wide [OF c] cont_wide [OF 3(6)] unfolding 3(4) by auto
    show "take (Suc (Suc (Suc 0))) (b # bs) = [0xe2, 0x80, of_nat (0x80 + rune3 b c d mod 64)]"
      if "rune3 b c d = 0x2028 \<or> rune3 b c d = 0x2029"
      using rune3_separator [OF 3(3) cont_ge [OF c] cont_ge [OF 3(6)] that] unfolding 3(4) by (simp only: take_Suc_Cons take_0)
  qed (use 3(7) d in \<open>simp_all add: 3(4)\<close>)
next
  case (4 c d e cs)
  have c: "utf8_cont c" using 4(6) by (auto simp: utf8_cont_def word_le_nat_alt split: if_splits)
  have r: "decodeRune (b # c # d # e # xs) = Some (rune4 b c d e, Suc (Suc (Suc (Suc 0))))" for xs
    using decodeRune_simps(4) [OF 4(1,2,3,4,6,7,8)] by (simp only: eval_nat_numeral BitM.simps)
  show ?thesis
  proof (rule that [of "rune4 b c d e" "Suc (Suc (Suc (Suc 0)))"])
    show "\<not> x < 0x80" if "x \<in> set (take (Suc (Suc (Suc (Suc 0)))) (b # bs))" for x
      using that assms(2) cont_wide [OF c] cont_wide [OF 4(7)] cont_wide [OF 4(8)] unfolding 4(5) by auto
  qed (use rune4_bound [OF 4(4,6), of d e] 4(9) r in \<open>simp_all add: 4(5)\<close>)
qed

section \<open>Reading what was written\<close>

lemma hexValue_hexDigit: "n < 16 \<Longrightarrow> hexValue (hexDigit n) = Some n"
proof -
  assume "n < 16"
  then have "n \<in> set [0..<16]" by simp
  moreover have "\<forall>k \<in> set [0..<16]. hexValue (hexDigit k) = Some k" by code_simp
  ultimately show ?thesis by blast
qed

lemma hexValue_zero: "hexValue 0x30 = Some 0"
  by (simp add: hexValue_def)

lemma tomlBody_end: "tomlBody [0x22] = Some []"
  by (simp add: tomlBody.simps)

lemma tomlBody_plain:
  assumes "jsonSafe b"
  shows "tomlBody (b # rest) = (if b = 0x7f then None else map_option (Cons b) (tomlBody rest))"
proof -
  have "b < 0x80" "0x20 \<le> b" "b \<noteq> 0x22" "b \<noteq> 0x5c" using assms by (simp_all add: jsonSafe_def lit_def)
  then show ?thesis by (subst tomlBody.simps) simp
qed

lemma tomlBody_short:
  assumes "shortEscape c = Some x"
  shows "tomlBody (0x5c # c # rest) = map_option (Cons x) (tomlBody rest)"
proof -
  have "c \<noteq> 0x75" "c \<noteq> 0x55" using assms by (auto simp: shortEscape_def)
  then show ?thesis using assms by (subst tomlBody.simps) simp
qed

lemma tomlBody_unicode:
  assumes "unicodeEscape 4 [g, h, i, j] = Some x"
  shows "tomlBody (0x5c # 0x75 # g # h # i # j # rest) = map_option ((@) x) (tomlBody rest)"
proof -
  have "unicodeEscape 4 (g # h # i # j # rest) = Some x" using assms by (simp add: unicodeEscape_def)
  then show ?thesis by (subst tomlBody.simps) simp
qed

lemma tomlBody_escape:
  assumes "\<not> jsonSafe b" "b < 0x80"
  shows "tomlBody (escapeByte b @ rest) = map_option (Cons b) (tomlBody rest)"
proof (cases "b = 0x5c \<or> b = 0x22 \<or> b = 10 \<or> b = 13 \<or> b = 9")
  case True
  then show ?thesis
    by (elim disjE) (simp_all add: escapeByte_def tomlBody_short shortEscape_def)
next
  case False
  have n: "unat b < 128" using assms(2) by (simp add: word_less_nat_alt)
  then have d: "unat b div 16 < 16" "unat b mod 16 < 16" by simp_all
  have "hexNumber 0 [0x30, 0x30, hexDigit (unat b div 16), hexDigit (unat b mod 16)] = Some (unat b div 16 * 16 + unat b mod 16)"
    by (simp only: hexNumber.simps hexValue_hexDigit [OF d(1)] hexValue_hexDigit [OF d(2)] hexValue_zero option.case mult_0 add_0)
  then have "unicodeEscape 4 [0x30, 0x30, hexDigit (unat b div 16), hexDigit (unat b mod 16)] = Some [b]"
    using n by (simp add: unicodeEscape_def encodeRune_def del: hexNumber.simps)
  then show ?thesis
    using False by (simp add: escapeByte_def tomlBody_unicode append_Cons [abs_def] cong: option.map_cong)
qed

lemma tomlBody_wide:
  assumes "decodeRune (b # bs) = Some (r, n)" "\<And>rest. decodeRune (take n (b # bs) @ rest) = Some (r, n)"
    "\<not> b < 0x80" "n \<noteq> 0" "n \<le> length (b # bs)"
  shows "tomlBody (take n (b # bs) @ rest) = map_option ((@) (take n (b # bs))) (tomlBody rest)"
proof -
  obtain m where n: "n = Suc m" using assms(4) by (cases n) simp_all
  have b: "b \<noteq> 0x22" "b \<noteq> 0x5c" using assms(3) by auto
  have "length (take m bs) = m" using assms(5) n by simp
  then show ?thesis
    using assms(2) [of rest] assms(3) b unfolding n
    by (subst tomlBody.simps) (simp add: take_Suc_Cons)
qed

lemma tomlBody_separator:
  "tomlBody (0x5c # 0x75 # lit ''202'' @ hexDigit 8 # rest) = map_option ((@) [0xe2, 0x80, 0xa8]) (tomlBody rest)"
  "tomlBody (0x5c # 0x75 # lit ''202'' @ hexDigit 9 # rest) = map_option ((@) [0xe2, 0x80, 0xa9]) (tomlBody rest)"
  by (simp_all add: lit_def tomlBody_unicode unicodeEscape_def hexValue_def hexDigit_def encodeRune_def)

lemma tomlBody_jsonString:
  assumes "utf8_valid s"
  shows "tomlBody (jsonString s @ [0x22]) = (if 0x7f \<in> set s then None else Some s)"
  using assms
proof (induction s rule: jsonString.induct)
  case (1 s)
  show ?case
  proof (cases s)
    case Nil
    then show ?thesis by (simp add: jsonString.simps tomlBody_end)
  next
    case (Cons b bs)
    show ?thesis
    proof (cases "b < 0x80")
      case True
      have v: "utf8_valid bs" using 1(6) True Cons by simp
      show ?thesis
      proof (cases "jsonSafe b")
        case safe: True
        have "jsonString s = b # jsonString bs" using Cons True safe by (subst jsonString.simps) simp
        then show ?thesis using 1(1) [OF Cons True safe v] Cons by (simp add: tomlBody_plain [OF safe])
      next
        case False
        have "jsonString s = escapeByte b @ jsonString bs" using Cons True False by (subst jsonString.simps) simp
        moreover have "b \<noteq> 0x7f" using False by (auto simp: jsonSafe_def lit_def)
        ultimately show ?thesis using 1(2) [OF Cons True False v] Cons by (simp add: tomlBody_escape [OF False True])
      qed
    next
      case False
      obtain r n where r: "decodeRune (b # bs) = Some (r, n)" "utf8_valid (drop n (b # bs))"
        "\<And>rest. decodeRune (take n (b # bs) @ rest) = Some (r, n)" "n \<noteq> 0" "n \<le> length (b # bs)"
        "\<And>x. x \<in> set (take n (b # bs)) \<Longrightarrow> \<not> x < 0x80"
        "r = 0x2028 \<or> r = 0x2029 \<Longrightarrow> take n (b # bs) = [0xe2, 0x80, of_nat (0x80 + r mod 64)]"
        by (rule utf8_wide [OF 1(6) [unfolded Cons] False]) (rule that; assumption)
      have del: "(0x7f \<in> set s) = (0x7f \<in> set (drop n s))"
      proof -
        have "0x7f \<notin> set (take n s)" using r(6) Cons by fastforce
        then show ?thesis using set_append [of "take n s" "drop n s"] by auto
      qed
      have j: "jsonString s = (if r = 0x2028 \<or> r = 0x2029
          then [0x5c, 0x75] @ lit ''202'' @ [hexDigit (r mod 16)] @ jsonString (drop n s) else take n s @ jsonString (drop n s))"
        using Cons False r(1) by (subst jsonString.simps) simp
      have "tomlBody (jsonString s @ [0x22]) = map_option ((@) (take n s)) (tomlBody (jsonString (drop n s) @ [0x22]))"
      proof (cases "r = 0x2028 \<or> r = 0x2029")
        case True
        have t: "take n s = [0xe2, 0x80, of_nat (0x80 + r mod 64)]" unfolding Cons by (rule r(7) [OF True])
        show ?thesis unfolding j if_P [OF True] t using True by (elim disjE) (simp_all add: tomlBody_separator)
      next
        case False
        have w: "tomlBody (take n s @ rest) = map_option ((@) (take n s)) (tomlBody rest)" for rest
          unfolding Cons by (rule tomlBody_wide [OF r(1,3) \<open>\<not> b < 0x80\<close> r(4,5)])
        show ?thesis unfolding j if_not_P [OF False] append_assoc by (rule w)
      qed
      moreover have "tomlBody (jsonString (drop n s) @ [0x22]) = (if 0x7f \<in> set (drop n s) then None else Some (drop n s))"
      proof (cases "r = 0x2028 \<or> r = 0x2029")
        case True
        then show ?thesis using 1(4) [of b bs] r(1,2) Cons False True by simp
      next
        case neither: False
        then show ?thesis using 1(5) [of b bs] r(1,2) Cons False neither by simp
      qed
      ultimately show ?thesis unfolding del by simp
    qed
  qed
qed

lemma toml_reads_quoted:
  "utf8_valid v \<Longrightarrow> tomlString (quoteTOMLString v) = (if 0x7f \<in> set v then None else Some v)"
  by (simp add: tomlString_def quoteTOMLString_def tomlBody_jsonString)

lemma runes_of_ascii: "utf8_valid s \<Longrightarrow> x \<in> set s \<Longrightarrow> x < 0x80 \<Longrightarrow> unat x \<in> set (runes s)"
proof (induction s rule: runes.induct)
  case (1 s)
  obtain b bs where s: "s = b # bs" using 1(4) by (cases s) simp_all
  show ?case
  proof (cases "b < 0x80")
    case True
    have d: "decodeRune s = Some (unat b, 1)" using True s by (simp add: decodeRune_simps)
    have v: "utf8_valid (drop 1 s)" using 1(3) True s by simp
    have "runes s = unat b # runes (drop 1 s)" using d s by (subst runes.simps) simp
    then show ?thesis using 1(2) [OF s d refl v _ 1(5)] 1(4) s by auto
  next
    case False
    obtain r n where r: "decodeRune (b # bs) = Some (r, n)" "utf8_valid (drop n (b # bs))"
        "\<And>x. x \<in> set (take n (b # bs)) \<Longrightarrow> \<not> x < 0x80"
      by (rule utf8_wide [OF 1(3) [unfolded s] False]) (rule that; assumption)
    have "x \<in> set (drop n s)"
      using 1(4,5) r(3) [of x] set_append [of "take n s" "drop n s"] unfolding s by auto
    then have "unat x \<in> set (runes (drop n s))" using 1(2) [of b bs "(r, n)" r n] s r(1,2) 1(5) by simp
    moreover have "runes s = r # runes (drop n s)" using r(1) s by (subst runes.simps) simp
    ultimately show ?thesis by simp
  qed
qed

section \<open>Reading a whole text\<close>

text \<open>
  A reader of the lines: a line that begins with a bracket opens a table, any other that is not empty sets a key, which ends
  before the equals sign and the spaces around it. It gives each setting with the table it belongs to, by the table's line; the
  root table is the empty line. A value is left as it is written.
\<close>

fun splitLines :: "bytes \<Rightarrow> bytes list" where
  "splitLines [] = []"
| "splitLines (b # bs) =
     (if b = 10 then [] # splitLines bs else case splitLines bs of [] \<Rightarrow> [[b]] | line # lines \<Rightarrow> (b # line) # lines)"

definition keyByte :: "byte \<Rightarrow> bool" where
  "keyByte b \<longleftrightarrow> b \<noteq> 0x20 \<and> b \<noteq> 0x3d"

fun lineSettings :: "bytes \<Rightarrow> bytes list \<Rightarrow> (bytes \<times> bytes \<times> bytes) list" where
  "lineSettings table [] = []"
| "lineSettings table ([] # lines) = lineSettings table lines"
| "lineSettings table ((b # bs) # lines) =
     (if b = 0x5b then lineSettings (b # bs) lines
      else (table, takeWhile keyByte (b # bs), dropWhile (\<lambda>c. \<not> keyByte c) (dropWhile keyByte (b # bs))) # lineSettings table lines)"

definition settings :: "bytes \<Rightarrow> bytes \<Rightarrow> (bytes \<times> bytes \<times> bytes) list" where
  "settings table text = lineSettings table (splitLines text)"

text \<open>Every value that a text gives to a key of a table.\<close>

definition tomlGet :: "bytes \<Rightarrow> string \<Rightarrow> string \<Rightarrow> bytes list" where
  "tomlGet text table key = map (\<lambda>(_, _, v). v) (filter (\<lambda>(t, k, _). t = lit table \<and> k = lit key) (settings [] text))"

lemma splitLines_line: "10 \<notin> set line \<Longrightarrow> splitLines (line @ 10 # rest) = line # splitLines rest"
  by (induction line) auto

lemma lit_inject [simp]: "lit s = lit t \<longleftrightarrow> s = t"
proof -
  have "inj (\<lambda>c :: char. (of_nat (of_char c) :: byte))"
  proof (rule injI)
    fix c d :: char
    assume "(of_nat (of_char c) :: byte) = of_nat (of_char d)"
    then have "unat (of_nat (of_char c) :: byte) = unat (of_nat (of_char d) :: byte)" by simp
    moreover have "(of_char c :: nat) < 256" "(of_char d :: nat) < 256" by simp_all
    ultimately show "c = d" by (simp add: unat_of_nat)
  qed
  then show ?thesis unfolding lit_def by (simp add: inj_map_eq_map)
qed

lemma lit_empty [simp]: "lit s = [] \<longleftrightarrow> s = []" "[] = lit s \<longleftrightarrow> s = []"
  by (auto simp: lit_def)

text \<open>A name that may stand before the equals sign.\<close>

definition plainKey :: "string \<Rightarrow> bool" where
  "plainKey name \<longleftrightarrow> (case lit name of [] \<Rightarrow> False | b # bs \<Rightarrow> b \<noteq> 0x5b) \<and> (\<forall>b \<in> set (lit name). keyByte b \<and> b \<noteq> 10)"

lemma settings_blank: "settings table (10 # rest) = settings table rest"
  by (simp add: settings_def)

lemma settings_table:
  "10 \<notin> set (lit name) \<Longrightarrow> lit name = 0x5b # bs \<Longrightarrow> settings table (lit name @ 10 # rest) = settings (lit name) rest"
  by (simp add: settings_def splitLines_line del: append_Cons)

lemma settings_key:
  assumes "plainKey name" "10 \<notin> set value" "value = b # bs" "keyByte b"
  shows "settings table (lit name @ lit '' = '' @ value @ 10 # rest) = (table, lit name, value) # settings table rest"
proof -
  obtain c cs where n: "lit name = c # cs" "c \<noteq> 0x5b" using assms(1) by (cases "lit name") (auto simp: plainKey_def)
  have k: "\<forall>x \<in> set (lit name). keyByte x" "10 \<notin> set (lit name)" using assms(1) by (auto simp: plainKey_def)
  let ?line = "lit name @ lit '' = '' @ value"
  have e: "lit '' = '' = [0x20, 0x3d, 0x20]" by (simp add: lit_def)
  have "10 \<notin> set ?line" using k(2) assms(2) by (simp add: e)
  from splitLines_line [OF this, of rest]
  have "splitLines (lit name @ lit '' = '' @ value @ 10 # rest) = ?line # splitLines rest" by simp
  moreover have "takeWhile keyByte ?line = lit name"
    using k(1) by (simp add: e takeWhile_append2 keyByte_def)
  moreover have "dropWhile (\<lambda>c. \<not> keyByte c) (dropWhile keyByte ?line) = value"
    using k(1) assms(3,4) by (simp add: e dropWhile_append2) (simp add: keyByte_def)
  ultimately show ?thesis using n by (simp add: settings_def)
qed

lemma decodeRune_take_wide:
  assumes "decodeRune (b # bs) = Some (r, n)" "\<not> b < 0x80"
  shows "10 \<notin> set (take n (b # bs))"
  using assms by (auto simp: decodeRune_def utf8_cont_def split: if_splits list.splits)

lemma jsonString_no_newline: "10 \<notin> set (jsonString s)"
proof (induction s rule: jsonString.induct)
  case (1 s)
  have hex: "n < 16 \<Longrightarrow> hexDigit n \<noteq> 10" for n
  proof -
    assume "n < 16"
    then have "n \<in> set [0..<16]" by simp
    moreover have "\<forall>k \<in> set [0..<16]. hexDigit k \<noteq> 10" by code_simp
    ultimately show ?thesis by blast
  qed
  show ?case
  proof (cases s)
    case Nil
    then show ?thesis by (simp add: jsonString.simps)
  next
    case (Cons b bs)
    show ?thesis
    proof (cases "b < 0x80")
      case True
      have "unat b < 2 ^ LENGTH(8)" by (rule unsigned_less)
      then have n: "unat b div 16 < 16" "unat b mod 16 < 16" by simp_all
      have "10 \<notin> set (escapeByte b)" "jsonSafe b \<Longrightarrow> b \<noteq> 10"
        using hex [OF n(1)] hex [OF n(2)] by (auto simp: escapeByte_def jsonSafe_def)
      then show ?thesis using 1(1,2) [OF Cons True] Cons True by (subst jsonString.simps) auto
    next
      case False
      show ?thesis
      proof (cases "decodeRune s")
        case None
        then show ?thesis using 1(3) [OF Cons False] Cons False by (subst jsonString.simps) (simp add: lit_def)
      next
        case (Some rn)
        obtain r n where rn: "decodeRune (b # bs) = Some (r, n)" using Some Cons by (cases rn) auto
        have "r mod 16 < 16" by simp
        from hex [OF this] decodeRune_take_wide [OF rn False] show ?thesis
          using 1(4,5) [OF Cons False, of "(r, n)" r n] rn Cons False by (subst jsonString.simps) (auto simp: lit_def)
      qed
    qed
  qed
qed

lemma quote_no_newline: "10 \<notin> set (quoteTOMLString v)"
  by (simp add: quoteTOMLString_def jsonString_no_newline)

lemma join_no_newline: "10 \<notin> set (joinTOMLStrings vs)"
  by (induction vs rule: joinTOMLStrings.induct) (simp_all add: quote_no_newline lit_def)

lemma settings_string:
  "plainKey name \<Longrightarrow>
    settings table (writeTOMLStringField name v @ rest) = (table, lit name, quoteTOMLString v) # settings table rest"
  using settings_key [of name "quoteTOMLString v" "0x22" "jsonString v @ [0x22]" table rest] quote_no_newline [of v]
  by (simp add: writeTOMLStringField_def quoteTOMLString_def keyByte_def)

lemma settings_bool:
  "plainKey name \<Longrightarrow>
    settings table (writeTOMLBoolField name v @ rest) = (table, lit name, if v then lit ''true'' else lit ''false'') # settings table rest"
  using settings_key [of name "lit ''true''" _ _ table rest] settings_key [of name "lit ''false''" _ _ table rest]
  by (simp add: writeTOMLBoolField_def keyByte_def) (simp add: lit_def)

lemma settings_array:
  "plainKey name \<Longrightarrow>
    settings table (writeTOMLStringArrayField name vs @ rest) =
      (table, lit name, lit ''['' @ joinTOMLStrings vs @ lit '']'') # settings table rest"
proof -
  have e: "lit ''['' = [0x5b]" "lit '']'' = [0x5d]" by (simp_all add: lit_def)
  assume "plainKey name"
  from settings_key [OF this, of "lit ''['' @ joinTOMLStrings vs @ lit '']''" "0x5b" "joinTOMLStrings vs @ [0x5d]" table rest]
  have "settings table (lit name @ lit '' = '' @ (lit ''['' @ joinTOMLStrings vs @ lit '']'') @ 10 # rest) =
      (table, lit name, lit ''['' @ joinTOMLStrings vs @ lit '']'') # settings table rest"
    using join_no_newline [of vs] by (simp add: e keyByte_def)
  moreover have "writeTOMLStringArrayField name vs @ rest = lit name @ lit '' = '' @ (lit ''['' @ joinTOMLStrings vs @ lit '']'') @ 10 # rest"
    by (simp add: writeTOMLStringArrayField_def lit_def)
  ultimately show ?thesis by simp
qed

text \<open>The head of a configuration sets the hostname, if there is one, and then other keys of the root table.\<close>

lemma settings_head:
  "\<exists>others. settings [] (encodeHead L d @ rest) =
      (case cd_hostname d of Some h \<Rightarrow> [([], lit ''hostname'', quoteTOMLString h)] | None \<Rightarrow> []) @ others @ settings [] rest \<and>
    (\<forall>(t, k, v) \<in> set others. t = [] \<and> k \<noteq> lit ''hostname'')"
proof -
  have keys: "plainKey ''hostname''" "plainKey ''ipv4''" "plainKey ''listeners''" "plainKey ''stun_servers''" "plainKey ''stun_servers_v6''"
    by code_simp+
  let ?others = "(case cd_ipv4 d of Some p \<Rightarrow> [([], lit ''ipv4'', quoteTOMLString (st_PrefixString L p))] | None \<Rightarrow> []) @
    (if cd_listeners d \<noteq> [] then [([], lit ''listeners'', lit ''['' @ joinTOMLStrings (cd_listeners d) @ lit '']'')] else []) @
    (if cd_stunServersSet d then [([], lit ''stun_servers'', lit ''['' @ joinTOMLStrings (cd_stunServers d) @ lit '']'')] else []) @
    (if cd_stunServersV6Set d then [([], lit ''stun_servers_v6'', lit ''['' @ joinTOMLStrings (cd_stunServersV6 d) @ lit '']'')] else [])"
  have "settings [] (encodeHead L d @ rest) =
      (case cd_hostname d of Some h \<Rightarrow> [([], lit ''hostname'', quoteTOMLString h)] | None \<Rightarrow> []) @ ?others @ settings [] rest"
    by (simp add: encodeHead_def settings_string [OF keys(1)] settings_string [OF keys(2)] keys(3-5) [THEN settings_array] split: option.split)
  moreover have "\<forall>(t, k, v) \<in> set ?others. t = [] \<and> k \<noteq> lit ''hostname''" by (auto split: option.split)
  ultimately show ?thesis by blast
qed

text \<open>What follows the identity of the network belongs to other tables: whatever table is open, no setting goes to it or the root.\<close>

definition opensTable :: "bytes \<Rightarrow> bool" where
  "opensTable text \<longleftrightarrow> (\<forall>table. \<forall>x \<in> set (settings table text). fst x \<noteq> [] \<and> fst x \<noteq> lit ''[network_identity]'')"

lemma opensTable_empty: "opensTable []"
  by (simp add: opensTable_def settings_def)

lemma table_lines:
  "10 \<notin> set (lit ''[[peer]]'')" "lit ''[[peer]]'' = 0x5b # tl (lit ''[[peer]]'')"
  "10 \<notin> set (lit ''[[port_forward]]'')" "lit ''[[port_forward]]'' = 0x5b # tl (lit ''[[port_forward]]'')"
  "10 \<notin> set (lit ''[flags]'')" "lit ''[flags]'' = 0x5b # tl (lit ''[flags]'')"
  "10 \<notin> set (lit ''[secure_mode]'')" "lit ''[secure_mode]'' = 0x5b # tl (lit ''[secure_mode]'')"
  "10 \<notin> set (lit ''[network_identity]'')" "lit ''[network_identity]'' = 0x5b # tl (lit ''[network_identity]'')"
  by code_simp+

lemma key_names:
  "plainKey ''uri''" "plainKey ''bind_addr''" "plainKey ''dst_addr''" "plainKey ''proto''" "plainKey ''enable_encryption''"
  "plainKey ''disable_p2p''" "plainKey ''need_p2p''" "plainKey ''lazy_p2p''" "plainKey ''disable_tcp_hole_punching''"
  "plainKey ''disable_udp_hole_punching''" "plainKey ''disable_sym_hole_punching''" "plainKey ''enabled''"
  "plainKey ''local_private_key''" "plainKey ''local_public_key''" "plainKey ''network_name''" "plainKey ''network_secret''"
  by code_simp+

lemmas settings_tables =
  settings_table [OF table_lines(1,2)] settings_table [OF table_lines(3,4)] settings_table [OF table_lines(5,6)] settings_table [OF table_lines(7,8)]
  settings_table [OF table_lines(9,10)]

lemmas settings_keys = key_names [THEN settings_string] key_names [THEN settings_bool]

lemma opensTable_peer: "opensTable rest \<Longrightarrow> opensTable (encodePeer peer @ rest)"
  by (simp add: opensTable_def encodePeer_def settings_blank settings_tables settings_keys)

lemma opensTable_forward: "opensTable rest \<Longrightarrow> opensTable (encodeForward L forward @ rest)"
  by (simp add: opensTable_def encodeForward_def settings_blank settings_tables settings_keys)

lemma opensTable_flags: "opensTable rest \<Longrightarrow> opensTable (encodeFlags d @ rest)"
  by (simp add: opensTable_def encodeFlags_def settings_blank settings_tables settings_keys split: option.split)

lemma opensTable_concat: "(\<And>x rest. opensTable rest \<Longrightarrow> opensTable (f x @ rest)) \<Longrightarrow> opensTable rest \<Longrightarrow> opensTable (concat (map f xs) @ rest)"
  by (induction xs) simp_all

lemma opensTable_secure:
  "opensTable ([10] @ lit ''[secure_mode]'' @ [10] @ writeTOMLBoolField ''enabled'' True @ writeTOMLStringField ''local_private_key'' k @
     writeTOMLStringField ''local_public_key'' p)"
  using settings_keys(14) [of _ p "[]"] opensTable_empty
  by (simp add: opensTable_def settings_blank settings_tables settings_keys)

text \<open>The settings of a whole configuration.\<close>

lemma encode_settings:
  assumes "encodeInstanceConfig L (Some d) = Inr text"
  shows "\<exists>others tail. settings [] text =
      (case cd_hostname d of Some h \<Rightarrow> [([], lit ''hostname'', quoteTOMLString h)] | None \<Rightarrow> []) @ others @
      [(lit ''[network_identity]'', lit ''network_name'', quoteTOMLString (cd_networkName d)),
       (lit ''[network_identity]'', lit ''network_secret'', quoteTOMLString (cd_networkSecret d))] @ tail \<and>
    (\<forall>(t, k, v) \<in> set others. t = [] \<and> k \<noteq> lit ''hostname'') \<and>
    (\<forall>(t, k, v) \<in> set tail. t \<noteq> [] \<and> t \<noteq> lit ''[network_identity]'')"
proof -
  obtain secure where t: "text = encodeHead L d @ (if encodeHead L d \<noteq> [] then [10] else []) @ lit ''[network_identity]'' @ [10] @
      writeTOMLStringField ''network_name'' (cd_networkName d) @ writeTOMLStringField ''network_secret'' (cd_networkSecret d) @
      concat (map encodePeer (cd_peers d)) @ concat (map (encodeForward L) (cd_portForwards d)) @ encodeFlags d @ secure"
    and s: "opensTable secure"
    using assms opensTable_empty opensTable_secure unfolding encodeInstanceConfig_def Let_def
    by (auto split: if_splits option.splits)
  let ?tail = "settings (lit ''[network_identity]'') (concat (map encodePeer (cd_peers d)) @
    concat (map (encodeForward L) (cd_portForwards d)) @ encodeFlags d @ secure)"
  have "\<forall>(t, k, v) \<in> set ?tail. t \<noteq> [] \<and> t \<noteq> lit ''[network_identity]''"
  proof -
    have "opensTable (concat (map encodePeer (cd_peers d)) @ concat (map (encodeForward L) (cd_portForwards d)) @ encodeFlags d @ secure)"
      by (intro opensTable_concat opensTable_peer opensTable_forward opensTable_flags s)
    then show ?thesis unfolding opensTable_def by fastforce
  qed
  moreover obtain others where "settings [] text =
      (case cd_hostname d of Some h \<Rightarrow> [([], lit ''hostname'', quoteTOMLString h)] | None \<Rightarrow> []) @ others @
      settings [] ((if encodeHead L d \<noteq> [] then [10] else []) @ lit ''[network_identity]'' @ [10] @
        writeTOMLStringField ''network_name'' (cd_networkName d) @ writeTOMLStringField ''network_secret'' (cd_networkSecret d) @
        concat (map encodePeer (cd_peers d)) @ concat (map (encodeForward L) (cd_portForwards d)) @ encodeFlags d @ secure)"
    "\<forall>(t, k, v) \<in> set others. t = [] \<and> k \<noteq> lit ''hostname''"
    using settings_head unfolding t by blast
  ultimately show ?thesis by (auto simp: settings_blank settings_tables settings_keys)
qed

lemma tomlGet_configuration:
  assumes "encodeInstanceConfig L (Some d) = Inr text"
  shows "tomlGet text '''' ''hostname'' = (case cd_hostname d of Some h \<Rightarrow> [quoteTOMLString h] | None \<Rightarrow> [])"
    "tomlGet text ''[network_identity]'' ''network_name'' = [quoteTOMLString (cd_networkName d)]"
    "tomlGet text ''[network_identity]'' ''network_secret'' = [quoteTOMLString (cd_networkSecret d)]"
proof -
  obtain others tail where s: "settings [] text =
      (case cd_hostname d of Some h \<Rightarrow> [([], lit ''hostname'', quoteTOMLString h)] | None \<Rightarrow> []) @ others @
      [(lit ''[network_identity]'', lit ''network_name'', quoteTOMLString (cd_networkName d)),
       (lit ''[network_identity]'', lit ''network_secret'', quoteTOMLString (cd_networkSecret d))] @ tail"
    "\<forall>(t, k, v) \<in> set others. t = [] \<and> k \<noteq> lit ''hostname''" "\<forall>(t, k, v) \<in> set tail. t \<noteq> [] \<and> t \<noteq> lit ''[network_identity]''"
    using encode_settings [OF assms] by blast
  have o: "filter (\<lambda>(t, k, _). t = lit '''' \<and> k = lit ''hostname'') others = []"
    "filter (\<lambda>(t, k, _). t = lit ''[network_identity]'' \<and> k = lit key) others = []" for key
    using s(2) by (auto simp: filter_empty_conv)
  have t: "filter (\<lambda>(t, k, _). t = lit '''' \<and> k = lit ''hostname'') tail = []"
    "filter (\<lambda>(t, k, _). t = lit ''[network_identity]'' \<and> k = lit key) tail = []" for key
    using s(3) by (auto simp: filter_empty_conv)
  show "tomlGet text '''' ''hostname'' = (case cd_hostname d of Some h \<Rightarrow> [quoteTOMLString h] | None \<Rightarrow> [])"
    unfolding tomlGet_def s(1) filter_append o(1) t(1) by (simp split: option.split)
  show "tomlGet text ''[network_identity]'' ''network_name'' = [quoteTOMLString (cd_networkName d)]"
    "tomlGet text ''[network_identity]'' ''network_secret'' = [quoteTOMLString (cd_networkSecret d)]"
    unfolding tomlGet_def s(1) filter_append o(2) t(2) by (simp_all split: option.split)
qed

section \<open>What Build promises\<close>

lemma orElse_Inr: "orElse err r = Inr x \<longleftrightarrow> err = None \<and> r = Inr x"
  by (cases err) (simp_all add: orElse_def)

lemma validateDocument_keeps:
  assumes "validateDocument L document = Inr d"
  shows "cd_networkName d = cd_networkName document \<and> cd_networkSecret d = cd_networkSecret document \<and>
    cd_hostname d = cd_hostname document \<and> cd_secureMode d = cd_secureMode document \<and>
    validateHostname (cd_hostname d) = None \<and> validateIPv4 (cd_ipv4 d) = None \<and> validatePortForwards (cd_portForwards d) = None"
  using assms by (auto simp: validateDocument_def orElse_Inr split: sum.splits option.splits if_splits)

lemma Build_keeps:
  assumes "Build L (Some b) = (Inr (Some d), b')"
  shows "cd_networkName d = cd_networkName (bd_document b) \<and> cd_networkSecret d = cd_networkSecret (bd_document b) \<and>
    cd_hostname d = cd_hostname (bd_document b) \<and> validateIdentity b = None \<and> validateHostname (cd_hostname d) = None"
proof -
  obtain e where e: "orElse (validateIdentity b) (validateDocument L (bd_document b)) = Inr e"
    using assms by (cases "orElse (validateIdentity b) (validateDocument L (bd_document b))") (simp_all add: Build_def)
  have d: "cd_networkName d = cd_networkName e" "cd_networkSecret d = cd_networkSecret e" "cd_hostname d = cd_hostname e"
    using assms e by (auto simp: Build_def split: if_splits prod.splits sum.splits)
  show ?thesis using e validateDocument_keeps [of L "bd_document b" e] by (auto simp: orElse_Inr d)
qed

lemma hostname_ok:
  assumes "validateHostname (Some h) = None"
  shows "utf8_valid h \<and> h \<noteq> [] \<and> length (runes h) \<le> 32 \<and> 0x7f \<notin> set h"
proof -
  have h: "utf8_valid h" "h \<noteq> []" "length (runes h) \<le> 32" "\<forall>r \<in> set (runes h). \<not> IsControl r"
    using assms by (auto simp: validateHostname_def split: if_splits)
  then show ?thesis using runes_of_ascii [OF h(1), of "0x7f"] by (auto simp: IsControl_def)
qed

text \<open>C40: A configuration that Build accepts keeps the network name, secret and hostname it was given, the name is not empty, and
  the text that is made of it carries them: read line by line, it gives the hostname, if there is one, to the key
  \<^verbatim>\<open>hostname\<close> of the root table, and name and secret to their keys under \<^verbatim>\<open>[network_identity]\<close>, each exactly once; and
  the reader of TOML 1.0 basic strings reads back each value exactly as it was given. The one exception is a name or secret with
  the character U+007F, which TOML does not allow in a string and which is written unescaped: such a value cannot be read at all.
  A hostname is safe, because control characters are refused in it. Without secure mode there always is a text.\<close>

theorem built_strings_reach_the_guest:
  assumes "Build L (Some b) = (Inr (Some d), b')"
  shows "cd_networkName d = cd_networkName (bd_document b) \<and> cd_networkSecret d = cd_networkSecret (bd_document b) \<and>
    cd_hostname d = cd_hostname (bd_document b) \<and> cd_networkName d \<noteq> [] \<and>
    (cd_secureMode d = secureModeDisabled \<longrightarrow> (\<exists>text. encodeInstanceConfig L (Some d) = Inr text)) \<and>
    (\<forall>text. encodeInstanceConfig L (Some d) = Inr text \<longrightarrow>
       map tomlString (tomlGet text ''[network_identity]'' ''network_name'') =
         [if 0x7f \<in> set (cd_networkName d) then None else Some (cd_networkName d)] \<and>
       map tomlString (tomlGet text ''[network_identity]'' ''network_secret'') =
         [if 0x7f \<in> set (cd_networkSecret d) then None else Some (cd_networkSecret d)] \<and>
       map tomlString (tomlGet text '''' ''hostname'') = (case cd_hostname d of None \<Rightarrow> [] | Some h \<Rightarrow> [Some h]))"
proof -
  note k = Build_keeps [OF assms]
  have v: "utf8_valid (cd_networkName d)" "utf8_valid (cd_networkSecret d)" "cd_networkName d \<noteq> []"
    using k by (auto simp: validateIdentity_def Let_def split: if_splits)
  have h: "tomlString (quoteTOMLString h) = Some h" if "cd_hostname d = Some h" for h
  proof -
    have "validateHostname (Some h) = None" using k that by metis
    then show ?thesis using hostname_ok [of h] toml_reads_quoted [of h] by simp
  qed
  have "\<exists>text. encodeInstanceConfig L (Some d) = Inr text" if "cd_secureMode d = secureModeDisabled"
    using that by (simp add: encodeInstanceConfig_def Let_def)
  moreover have "map tomlString (tomlGet toml ''[network_identity]'' ''network_name'') =
        [if 0x7f \<in> set (cd_networkName d) then None else Some (cd_networkName d)] \<and>
      map tomlString (tomlGet toml ''[network_identity]'' ''network_secret'') =
        [if 0x7f \<in> set (cd_networkSecret d) then None else Some (cd_networkSecret d)] \<and>
      map tomlString (tomlGet toml '''' ''hostname'') = (case cd_hostname d of None \<Rightarrow> [] | Some h \<Rightarrow> [Some h])"
    if "encodeInstanceConfig L (Some d) = Inr toml" for toml
    using tomlGet_configuration [OF that] toml_reads_quoted v h by (simp split: option.split)
  ultimately show ?thesis using k v(3) by blast
qed

text \<open>A name that Build accepts and the guest cannot read, and a secret and a hostname that need escapes.\<close>

definition demoLib :: stdlib where
  "demoLib =
     \<lparr>st_ParseRequestURI = (\<lambda>_. None), st_UrlParse = (\<lambda>_. None), st_UrlString = Host, st_ParseAddr = (\<lambda>_. None),
      st_ParseAddrPort = (\<lambda>_. None), st_PrefixString = (\<lambda>_. []), st_AddrPortString = (\<lambda>_. []), st_PublicKey = (\<lambda>_. None),
      st_GenerateKey = Inr [], st_Base64 = id\<rparr>"

definition demoBuilder :: InstanceConfigBuilder where
  "demoBuilder = builder_Hostname [0x61, 0x22] (builder_NetworkSecret [0x5c, 10, 0xc3, 0xa9] (NewInstanceConfigBuilder [0x62, 0x7f]))"

lemma demoBuilder_runes: "runes [0x61, 0x22] = [0x61, 0x22]"
  by (simp add: runes.simps decodeRune_def)

lemma demoBuilder_builds: "Build demoLib (Some demoBuilder) = (Inr (Some (bd_document demoBuilder)), Some demoBuilder)"
  by (simp add: Build_def demoBuilder_def builder_Hostname_def builder_NetworkSecret_def onDocument_def NewInstanceConfigBuilder_def
      validateIdentity_def validateDocument_def orElse_def validateHostname_def validateIPv4_def normalizeEndpoints_def
      validatePortForwards_def demoBuilder_runes IsControl_def utf8_cont_def Let_def)

theorem built_strings_reach_the_guest_witness:
  "\<exists>text. Build demoLib (Some demoBuilder) = (Inr (Some (bd_document demoBuilder)), Some demoBuilder) \<and>
    encodeInstanceConfig demoLib (Some (bd_document demoBuilder)) = Inr text \<and>
    map tomlString (tomlGet text ''[network_identity]'' ''network_name'') = [None] \<and>
    map tomlString (tomlGet text ''[network_identity]'' ''network_secret'') = [Some [0x5c, 10, 0xc3, 0xa9]] \<and>
    map tomlString (tomlGet text '''' ''hostname'') = [Some [0x61, 0x22]]"
  using built_strings_reach_the_guest [OF demoBuilder_builds] demoBuilder_builds
  by (simp add: demoBuilder_def builder_Hostname_def builder_NetworkSecret_def onDocument_def NewInstanceConfigBuilder_def) blast

end
