(* ===== verification/HostManagerSpec.thy ===== *)
theory HostManagerSpec
  imports HostManagerCalls HostConfigSpec
begin

text \<open>
  What the host promises of its instances: every one is filed under its identifier, web management leaves the application's
  instances alone, and running an instance either succeeds or leaves what was there, restored or gone.
\<close>

section \<open>The table\<close>

definition entryOk :: "bytes \<times> 'm managedInstance \<Rightarrow> bool" where
  "entryOk ke \<longleftrightarrow>
     (case ke of (key, entry) \<Rightarrow> key = uuidString (mi_id entry) \<and> hi_id (mi_instance entry) = key \<and>
        (mi_owner entry = instanceOwnerWeb \<longleftrightarrow> mi_config entry \<noteq> None))"

definition managerInv :: "('m, 'w) instanceManager \<Rightarrow> bool" where
  "managerInv m \<longleftrightarrow> distinct (map fst (im_instances m)) \<and> (\<forall>ke \<in> set (im_instances m). entryOk ke)"

definition lookupInstance :: "('m, 'w) instanceManager \<Rightarrow> bytes \<Rightarrow> 'm managedInstance option" where
  "lookupInstance m = map_of (im_instances m)"

text \<open>The instances of the application, by identifier.\<close>

definition applicationInstances :: "('m, 'w) instanceManager \<Rightarrow> bytes \<Rightarrow> 'm managedInstance option" where
  "applicationInstances m key =
     (case lookupInstance m key of Some entry \<Rightarrow> if mi_owner entry = instanceOwnerApplication then Some entry else None | None \<Rightarrow> None)"

lemma managerInv_lookup:
  "managerInv m \<Longrightarrow> lookupInstance m key = Some entry \<Longrightarrow> entryOk (key, entry)"
  unfolding managerInv_def lookupInstance_def by (auto dest: map_of_SomeD)

lemma managerInv_engine [simp]:
  "managerInv (m\<lparr>im_engine := w\<rparr>) = managerInv m" "lookupInstance (m\<lparr>im_engine := w\<rparr>) = lookupInstance m"
  by (simp_all add: managerInv_def lookupInstance_def)

text \<open>What a call on the engine does to the table: nothing.\<close>

lemma onEngine_eq:
  assumes "onEngine f m = (x, m')"
  shows "lookupInstance m' = lookupInstance m \<and> (managerInv m' = managerInv m) \<and> im_instances m' = im_instances m"
  using assms by (auto simp: onEngine_def managerInv_def lookupInstance_def split: prod.splits)

lemma managerInv_lookups:
  "managerInv m \<longleftrightarrow> distinct (map fst (im_instances m)) \<and> (\<forall>key entry. lookupInstance m key = Some entry \<longrightarrow> entryOk (key, entry))"
  unfolding managerInv_def lookupInstance_def by (auto simp: map_of_eq_Some_iff)

lemma managerInv_update:
  assumes "managerInv m" "entryOk (key, entry)"
  shows "managerInv (m\<lparr>im_instances := AList.update key entry (im_instances m)\<rparr>)"
  using assms by (auto simp: managerInv_lookups lookupInstance_def distinct_update update_conv')

lemma managerInv_delete:
  assumes "managerInv m"
  shows "managerInv (m\<lparr>im_instances := AList.delete key (im_instances m)\<rparr>)"
  using assms by (auto simp: managerInv_lookups lookupInstance_def distinct_delete delete_conv' split: if_splits)

lemma register_ok:
  assumes "manager_register entry m = (err, m')" "managerInv m" "entryOk (uuidString (mi_id entry), entry)"
  shows "managerInv m' \<and>
    (case err of
       None \<Rightarrow> lookupInstance m (uuidString (mi_id entry)) = None \<and> lookupInstance m' = (lookupInstance m)(uuidString (mi_id entry) \<mapsto> entry)
     | Some _ \<Rightarrow> m' = m)"
  using assms managerInv_update [OF assms(2,3)]
  by (auto simp: manager_register_def Let_def lookupInstance_def update_conv' split: if_splits)

lemma remove_ok:
  assumes "managerInv m"
  shows "managerInv (manager_remove inst m) \<and>
    (lookupInstance (manager_remove inst m) = lookupInstance m \<or>
     lookupInstance (manager_remove inst m) = (lookupInstance m)(hi_id inst := None) \<and>
       (\<exists>entry. lookupInstance m (hi_id inst) = Some entry \<and> mi_instance entry = inst))"
  using assms managerInv_delete [OF assms]
  by (auto simp: manager_remove_def lookupInstance_def delete_conv' split: option.splits)

section \<open>Closing\<close>

lemma closeInstance_ok:
  assumes "closeInstance E ctx inst m = (err, m')" "managerInv m"
  shows "managerInv m' \<and>
    (lookupInstance m' = lookupInstance m \<or>
     lookupInstance m' = (lookupInstance m)(hi_id inst := None) \<and>
       (\<exists>entry. lookupInstance m (hi_id inst) = Some entry \<and> mi_instance entry = inst))"
proof -
  obtain x m1 where e: "onEngine (ho_Close E ctx (hi_engine inst)) m = (x, m1)" by (metis surj_pair)
  have i: "managerInv m1" "lookupInstance m1 = lookupInstance m" using onEngine_eq [OF e] assms(2) by auto
  show ?thesis using assms(1) e remove_ok [OF i(1), of inst] i by (auto simp: closeInstance_def split: if_splits)
qed

lemma closeManaged_ok:
  assumes "closeManagedInstance E ctx inst m = (err, m')" "managerInv m"
  shows "managerInv m' \<and>
    (lookupInstance m' = lookupInstance m \<or>
     lookupInstance m' = (lookupInstance m)(hi_id inst := None) \<and>
       (\<exists>entry. lookupInstance m (hi_id inst) = Some entry \<and> mi_instance entry = inst))"
proof -
  obtain x m1 where c: "closeInstance E ctx inst m = (x, m1)" by (metis surj_pair)
  have "m1 = m'" using assms(1) c by (auto simp: closeManagedInstance_def Let_def)
  then show ?thesis using closeInstance_ok [OF c assms(2)] by simp
qed

text \<open>Closing the web's instance that is filed under a key touches that key only.\<close>

lemma closeManaged_entry:
  assumes "closeManagedInstance E ctx (mi_instance entry) m = (err, m')" "managerInv m" "lookupInstance m key = Some entry"
  shows "managerInv m' \<and> (lookupInstance m' = lookupInstance m \<or> lookupInstance m' = (lookupInstance m)(key := None))"
  using closeManaged_ok [OF assms(1,2)] managerInv_lookup [OF assms(2,3)] by (auto simp: entryOk_def)

section \<open>Running\<close>

text \<open>\<^verbatim>\<open>createWebInstance\<close> files a new entry where there was none, or leaves the table alone.\<close>

lemma createWeb_ok:
  assumes "createWebInstance E ctx uuid config source configTOML m = (r, m')" "managerInv m" "config \<noteq> None"
  shows "managerInv m' \<and>
    (case r of
       Inl _ \<Rightarrow> lookupInstance m' = lookupInstance m
     | Inr entry \<Rightarrow>
         lookupInstance m (uuidString uuid) = None \<and> lookupInstance m' = (lookupInstance m)(uuidString uuid \<mapsto> entry) \<and>
         mi_id entry = uuid \<and> mi_owner entry = instanceOwnerWeb \<and> mi_config entry = config \<and> mi_configTOML entry = configTOML \<and>
         mi_source entry = (if source = ConfigSourceUnspecified then ConfigSourceUser else source) \<and> mi_name entry = GetNetworkName config)"
proof -
  obtain x m1 where c: "onEngine (ho_CreateInstance E ctx configTOML) m = (x, m1)" by (metis surj_pair)
  have i1: "managerInv m1" "lookupInstance m1 = lookupInstance m" using onEngine_eq [OF c] assms(2) by auto
  show ?thesis
  proof (cases x)
    case (Inl e)
    then show ?thesis using assms(1) c i1 by (auto simp: createWebInstance_def)
  next
    case (Inr runtime)
    obtain y m2 where s: "onEngine (ho_Start E ctx runtime) m1 = (y, m2)" by (metis surj_pair)
    have i2: "managerInv m2" "lookupInstance m2 = lookupInstance m" using onEngine_eq [OF s] i1 by auto
    have closing: "managerInv (snd (onEngine f m2)) \<and> lookupInstance (snd (onEngine f m2)) = lookupInstance m" for f :: "'b \<Rightarrow> 'z \<times> 'b"
      using onEngine_eq [of f m2] i2 by (metis prod.collapse)
    show ?thesis
    proof (cases y)
      case (Some e)
      then show ?thesis using assms(1) c Inr s closing by (auto simp: createWebInstance_def)
    next
      case None
      let ?entry = "\<lparr>mi_id = uuid, mi_instance = \<lparr>hi_engine = runtime, hi_id = uuidString uuid\<rparr>, mi_owner = instanceOwnerWeb,
        mi_config = config, mi_configTOML = configTOML,
        mi_source = (if source = ConfigSourceUnspecified then ConfigSourceUser else source), mi_name = GetNetworkName config\<rparr>"
      obtain z m3 where g: "manager_register ?entry m2 = (z, m3)" by (metis surj_pair)
      have ok: "entryOk (uuidString (mi_id ?entry), ?entry)" using assms(3) by (simp add: entryOk_def)
      note reg = register_ok [OF g i2(1) ok]
      show ?thesis
      proof (cases z)
        case (Some e)
        then have "m3 = m2" using reg by simp
        then show ?thesis using assms(1) c Inr s None g Some closing by (auto simp: createWebInstance_def Let_def)
      next
        case z: None
        then show ?thesis using assms(1) c Inr s None g reg i2 by (auto simp: createWebInstance_def Let_def)
      qed
    qed
  qed
qed

text \<open>What is filed under a key when running a replacement fails: nothing, or the previous configuration in a new instance.\<close>

definition restores :: "'m managedInstance option \<Rightarrow> 'm managedInstance \<Rightarrow> bool" where
  "restores previous entry \<longleftrightarrow>
     (case previous of
        None \<Rightarrow> False
      | Some p \<Rightarrow> mi_id entry = mi_id p \<and> mi_owner entry = instanceOwnerWeb \<and> mi_config entry = mi_config p \<and>
          mi_configTOML entry = mi_configTOML p)"

lemma startReplacement_ok:
  assumes "startReplacement E previous uuid config source preparedConfig m = (r, m')" "managerInv m"
    "\<And>p. previous = Some p \<Longrightarrow> uuidString (mi_id p) = uuidString uuid \<and> mi_config p \<noteq> None"
  shows "managerInv m' \<and> (\<forall>key. key \<noteq> uuidString uuid \<longrightarrow> lookupInstance m' key = lookupInstance m key) \<and>
    (case r of
       Inl _ \<Rightarrow> lookupInstance m' = lookupInstance m \<or>
         (lookupInstance m (uuidString uuid) = None \<and> (\<exists>entry. lookupInstance m' (uuidString uuid) = Some entry \<and> restores previous entry))
     | Inr out \<Rightarrow> out = Some uuid \<and> lookupInstance m (uuidString uuid) = None \<and>
         (\<exists>entry. lookupInstance m' (uuidString uuid) = Some entry \<and> mi_id entry = uuid \<and> mi_owner entry = instanceOwnerWeb \<and>
            mi_config entry = Some config \<and> mi_configTOML entry = preparedConfig))"
proof -
  define source' where "source' = (case previous of Some p \<Rightarrow> if source = ConfigSourceUnspecified then mi_source p else source | None \<Rightarrow> source)"
  obtain x m1 where c: "createWebInstance E RequestContext uuid (Some config) source' preparedConfig m = (x, m1)" by (metis surj_pair)
  have run: "(r, m') = (case x of
      Inr entry \<Rightarrow> (Inr (Some (mi_id entry)), m1)
    | Inl err \<Rightarrow>
        (case previous of
           None \<Rightarrow> (Inl err, m1)
         | Some p \<Rightarrow>
             (case createWebInstance E RestoreContext (mi_id p) (mi_config p) (mi_source p) (mi_configTOML p) m1 of
                (restored, m) \<Rightarrow> (Inl (the (errors_Join [Some err, case restored of Inl e \<Rightarrow> Some e | Inr _ \<Rightarrow> None])), m))))"
    unfolding assms(1) [symmetric] startReplacement_def Let_def source'_def [symmetric] c prod.case by (cases x) simp_all
  note ok = createWeb_ok [OF c assms(2) option.distinct(2)]
  show ?thesis
  proof (cases x)
    case (Inr entry)
    then show ?thesis using run ok by auto
  next
    case (Inl e)
    have i1: "managerInv m1" "lookupInstance m1 = lookupInstance m" using ok Inl by auto
    show ?thesis
    proof (cases previous)
      case None
      then show ?thesis using run Inl i1 by auto
    next
      case (Some p)
      have p: "uuidString (mi_id p) = uuidString uuid" "mi_config p \<noteq> None" using assms(3) [OF Some] by auto
      obtain y m2 where d: "createWebInstance E RestoreContext (mi_id p) (mi_config p) (mi_source p) (mi_configTOML p) m1 = (y, m2)"
        by (metis surj_pair)
      have r: "r = Inl (the (errors_Join [Some e, case y of Inl e \<Rightarrow> Some e | Inr _ \<Rightarrow> None]))" "m' = m2"
        using run Inl Some d by auto
      show ?thesis
        using createWeb_ok [OF d i1(1) p(2)] r i1 p(1) Some by (cases y) (auto simp: restores_def)
    qed
  qed
qed

lemma application_unchanged:
  assumes "\<And>k. k \<noteq> key \<Longrightarrow> lookupInstance m' k = lookupInstance m k"
    "\<And>entry. lookupInstance m key = Some entry \<Longrightarrow> mi_owner entry = instanceOwnerWeb"
    "\<And>entry. lookupInstance m' key = Some entry \<Longrightarrow> mi_owner entry = instanceOwnerWeb"
  shows "applicationInstances m' = applicationInstances m"
proof
  fix k
  show "applicationInstances m' k = applicationInstances m k"
    using assms(1) [of k] assms(2,3) by (cases "k = key") (auto simp: applicationInstances_def split: option.split)
qed

lemma application_same: "lookupInstance m' = lookupInstance m \<Longrightarrow> applicationInstances m' = applicationInstances m"
  by (simp add: applicationInstances_def fun_eq_iff)

lemma run_outcomes:
  assumes "runNetworkInstance E request preparedConfig (Some uuid) m = (r, m')" "managerInv m"
  shows "managerInv m' \<and> (\<forall>key. key \<noteq> uuidString uuid \<longrightarrow> lookupInstance m' key = lookupInstance m key) \<and>
    applicationInstances m' = applicationInstances m \<and>
    (case r of
       Inr out \<Rightarrow> out = Some uuid \<and>
         (\<exists>entry. lookupInstance m' (uuidString uuid) = Some entry \<and> mi_owner entry = instanceOwnerWeb \<and>
            (m' = m \<and> rn_Overwrite request = False \<and> ho_TerminalError E (hi_engine (mi_instance entry)) (im_engine m) = None \<or>
             mi_id entry = uuid \<and> mi_configTOML entry = preparedConfig \<and> preparedConfig \<noteq> [] \<and>
               mi_config entry = map_option (\<lambda>c. c\<lparr>nc_InstanceId := Some (uuidString uuid)\<rparr>) (rn_Config request)))
     | Inl _ \<Rightarrow> lookupInstance m' (uuidString uuid) \<in> {lookupInstance m (uuidString uuid), None} \<or>
         (\<exists>entry. lookupInstance m' (uuidString uuid) = Some entry \<and> restores (lookupInstance m (uuidString uuid)) entry))"
proof (cases "rn_Config request = None \<or> preparedConfig = []")
  case True
  then show ?thesis using assms by (cases "rn_Config request") (auto simp: runNetworkInstance_def)
next
  case False
  then obtain config where config: "rn_Config request = Some config" "preparedConfig \<noteq> []" by auto
  let ?key = "uuidString uuid" and ?config = "config\<lparr>nc_InstanceId := Some (uuidString uuid)\<rparr>"
  show ?thesis
  proof (cases "lookupInstance m ?key")
    case None
    have run: "startReplacement E None uuid ?config (rn_Source request) preparedConfig m = (r, m')"
      using assms(1) config None by (simp add: runNetworkInstance_def lookupInstance_def)
    note ok = startReplacement_ok [OF run assms(2)]
    have app: "applicationInstances m' = applicationInstances m"
      by (rule application_unchanged [of ?key]) (use ok None in \<open>auto simp: restores_def split: sum.splits\<close>)
    show ?thesis
    proof (cases r)
      case (Inl e)
      then show ?thesis using ok None app by (auto simp: restores_def)
    next
      case (Inr out)
      then show ?thesis using ok app config by auto
    qed
  next
    case (Some p)
    have p: "mi_id p = mi_id p" "uuidString (mi_id p) = ?key" "mi_owner p = instanceOwnerWeb \<longleftrightarrow> mi_config p \<noteq> None"
      using managerInv_lookup [OF assms(2) Some] by (auto simp: entryOk_def)
    have look: "map_of (im_instances m) ?key = Some p" using Some by (simp add: lookupInstance_def)
    show ?thesis
    proof (cases "mi_owner p \<noteq> instanceOwnerWeb \<or>
        \<not> rn_Overwrite request \<and> ho_TerminalError E (hi_engine (mi_instance p)) (im_engine m) = None")
      case True
      then show ?thesis
        using assms config Some by (auto simp: runNetworkInstance_def look split: if_splits)
    next
      case replace: False
      then have web: "mi_owner p = instanceOwnerWeb" by simp
      obtain x m1 where c: "closeManagedInstance E RequestContext (mi_instance p) m = (x, m1)" by (metis surj_pair)
      note closing = closeManaged_entry [OF c assms(2) Some]
      show ?thesis
      proof (cases x)
        case e: (Some e)
        then have "m' = m1" "\<exists>e. r = Inl e"
          using assms(1) config c replace by (auto simp: runNetworkInstance_def look split: if_splits)
        moreover have "applicationInstances m1 = applicationInstances m"
          by (rule application_unchanged [of ?key]) (use closing Some web in auto)
        ultimately show ?thesis using closing Some by auto
      next
        case None
        have run: "startReplacement E (Some p) uuid ?config (rn_Source request) preparedConfig m1 = (r, m')"
          using assms(1) config c replace None by (auto simp: runNetworkInstance_def look split: if_splits)
        have i1: "managerInv m1" "\<And>k. k \<noteq> ?key \<Longrightarrow> lookupInstance m1 k = lookupInstance m k"
          "lookupInstance m1 ?key \<in> {Some p, None}"
          using closing Some by auto
        have ok: "managerInv m' \<and> (\<forall>key. key \<noteq> ?key \<longrightarrow> lookupInstance m' key = lookupInstance m1 key) \<and>
          (case r of
             Inl _ \<Rightarrow> lookupInstance m' = lookupInstance m1 \<or>
               (lookupInstance m1 ?key = None \<and> (\<exists>entry. lookupInstance m' ?key = Some entry \<and> restores (Some p) entry))
           | Inr out \<Rightarrow> out = Some uuid \<and> lookupInstance m1 ?key = None \<and>
               (\<exists>entry. lookupInstance m' ?key = Some entry \<and> mi_id entry = uuid \<and> mi_owner entry = instanceOwnerWeb \<and>
                  mi_config entry = Some ?config \<and> mi_configTOML entry = preparedConfig))"
          by (rule startReplacement_ok [OF run i1(1)]) (use p web in auto)
        have app: "applicationInstances m' = applicationInstances m"
        proof (rule application_unchanged [of ?key])
          show "lookupInstance m' k = lookupInstance m k" if "k \<noteq> ?key" for k using that ok i1(2) by auto
          show "mi_owner entry = instanceOwnerWeb" if "lookupInstance m ?key = Some entry" for entry using that Some web by simp
          show "mi_owner entry = instanceOwnerWeb" if "lookupInstance m' ?key = Some entry" for entry
            using that ok i1(3) web by (auto simp: restores_def split: sum.splits)
        qed
        show ?thesis
        proof (cases r)
          case (Inl e)
          then show ?thesis using ok i1 app Some by auto
        next
          case (Inr out)
          then show ?thesis using ok i1 app config by auto
        qed
      qed
    qed
  qed
qed

text \<open>C39: Running an instance touches nothing but its own identifier. When it succeeds the answer names that identifier, and what is
  filed there is the web's: either the instance that was running already (not to be overwritten, and it had not failed), or a new
  one with the requested configuration, whose instance id is the prepared one, and the prepared text. When it fails, the instance
  that was there is still filed, or none is, or one that was made again from the previous configuration and text. An instance of
  the application is never replaced.\<close>

theorem run_network_instance_outcomes:
  assumes "runNetworkInstance E request preparedConfig (Some uuid) m = (r, m')" "managerInv m"
  shows "managerInv m' \<and> (\<forall>key. key \<noteq> uuidString uuid \<longrightarrow> lookupInstance m' key = lookupInstance m key) \<and>
    applicationInstances m' = applicationInstances m \<and>
    (case r of
       Inr out \<Rightarrow> out = Some uuid \<and>
         (\<exists>entry. lookupInstance m' (uuidString uuid) = Some entry \<and> mi_owner entry = instanceOwnerWeb \<and>
            (m' = m \<and> rn_Overwrite request = False \<and> ho_TerminalError E (hi_engine (mi_instance entry)) (im_engine m) = None \<or>
             mi_id entry = uuid \<and> mi_configTOML entry = preparedConfig \<and> preparedConfig \<noteq> [] \<and>
               mi_config entry = map_option (\<lambda>c. c\<lparr>nc_InstanceId := Some (uuidString uuid)\<rparr>) (rn_Config request)))
     | Inl _ \<Rightarrow> lookupInstance m' (uuidString uuid) \<in> {lookupInstance m (uuidString uuid), None} \<or>
         (\<exists>entry. lookupInstance m' (uuidString uuid) = Some entry \<and> restores (lookupInstance m (uuidString uuid)) entry))"
  by (rule run_outcomes [OF assms])

section \<open>The other requests\<close>

lemma map_le_Some: "f \<subseteq>\<^sub>m g \<Longrightarrow> f k = Some v \<Longrightarrow> g k = Some v"
  by (metis domI map_le_def)

lemma snapshot_lookup:
  assumes "managerInv m" "entry \<in> set (manager_snapshot m)"
  shows "lookupInstance m (uuidString (mi_id entry)) = Some entry"
proof -
  obtain key where "(key, entry) \<in> set (im_instances m)" using assms(2) by (auto simp: manager_snapshot_def)
  then show ?thesis using assms(1) by (auto simp: managerInv_def lookupInstance_def entryOk_def)
qed

text \<open>\<open>m0\<close> is the manager when the snapshot was taken; the table only shrinks since.\<close>

lemma closeWebLoop_ok:
  assumes "closeWebLoop E shouldClose entries m = (err, m')" "managerInv m" "managerInv m0"
    "\<And>entry. entry \<in> set entries \<Longrightarrow> lookupInstance m0 (uuidString (mi_id entry)) = Some entry"
    "lookupInstance m \<subseteq>\<^sub>m lookupInstance m0"
  shows "managerInv m' \<and> lookupInstance m' \<subseteq>\<^sub>m lookupInstance m \<and> applicationInstances m' = applicationInstances m"
  using assms
proof (induction entries arbitrary: m)
  case Nil
  then show ?case by simp
next
  case (Cons entry entries)
  let ?key = "uuidString (mi_id entry)"
  show ?case
  proof (cases "mi_owner entry \<noteq> instanceOwnerWeb \<or> \<not> shouldClose ?key")
    case True
    then have "closeWebLoop E shouldClose entries m = (err, m')" using Cons.prems(1) by simp
    then show ?thesis by (rule Cons.IH) (simp_all add: Cons.prems)
  next
    case False
    obtain x m1 where c: "closeManagedInstance E RequestContext (mi_instance entry) m = (x, m1)" by (metis surj_pair)
    have m0: "lookupInstance m0 ?key = Some entry" using Cons.prems(4) by simp
    have k: "hi_id (mi_instance entry) = ?key" using managerInv_lookup [OF Cons.prems(3) m0] by (simp add: entryOk_def)
    have held: "lookupInstance m ?key = Some e \<Longrightarrow> e = entry" for e using map_le_Some [OF Cons.prems(5), of ?key e] m0 by simp
    note ok = closeManaged_ok [OF c Cons.prems(2), unfolded k]
    have inv: "managerInv m1" using ok by simp
    have le: "lookupInstance m1 \<subseteq>\<^sub>m lookupInstance m" using ok by (elim conjE disjE) (simp_all add: map_le_def)
    have app: "applicationInstances m1 = applicationInstances m"
    proof (rule application_unchanged [of ?key])
      show "mi_owner e = instanceOwnerWeb" if "lookupInstance m ?key = Some e" for e using held [OF that] False by simp
      show "mi_owner e = instanceOwnerWeb" if "lookupInstance m1 ?key = Some e" for e
        using held [OF map_le_Some [OF le that]] False by simp
    qed (use ok in auto)
    show ?thesis
    proof (cases x)
      case (Some e)
      then have "m' = m1" using Cons.prems(1) False c by simp
      then show ?thesis using inv le app by simp
    next
      case None
      then have "closeWebLoop E shouldClose entries m1 = (err, m')" using Cons.prems(1) False c by simp
      from Cons.IH [OF this inv Cons.prems(3) _ map_le_trans [OF le Cons.prems(5)]] Cons.prems(4)
      have "managerInv m' \<and> lookupInstance m' \<subseteq>\<^sub>m lookupInstance m1 \<and> applicationInstances m' = applicationInstances m1" by simp
      then show ?thesis using map_le_trans [OF _ le] app by simp
    qed
  qed
qed

lemma closeWeb_ok:
  assumes "closeWebInstances E shouldClose m = (err, m')" "managerInv m"
  shows "managerInv m' \<and> lookupInstance m' \<subseteq>\<^sub>m lookupInstance m \<and> applicationInstances m' = applicationInstances m"
  by (rule closeWebLoop_ok [OF assms(1) [unfolded closeWebInstances_def] assms(2,2)])
    (simp_all add: snapshot_lookup [OF assms(2)])

lemma retain_ok:
  assumes "retainNetworkInstances E ids m = (r, m')" "managerInv m"
  shows "managerInv m' \<and> applicationInstances m' = applicationInstances m"
proof -
  obtain err m1 where c: "closeWebInstances E (\<lambda>uuid. uuid \<notin> set (uuidSet ids)) m = (err, m1)" by (metis surj_pair)
  have "m' = m1" using assms(1) c by (cases err) (simp_all add: retainNetworkInstances_def)
  then show ?thesis using closeWeb_ok [OF c assms(2)] by simp
qed

lemma delete_ok:
  assumes "deleteNetworkInstances E ids m = (r, m')" "managerInv m"
  shows "managerInv m' \<and> applicationInstances m' = applicationInstances m"
proof -
  obtain err m1 where c: "closeWebInstances E (\<lambda>uuid. uuid \<in> set (uuidSet ids)) m = (err, m1)" by (metis surj_pair)
  have "m' = m1" using assms(1) c by (cases err) (simp_all add: deleteNetworkInstances_def)
  then show ?thesis using closeWeb_ok [OF c assms(2)] by simp
qed

text \<open>Whatever the table has become meanwhile, an instance that is gone is not filed again, and what is filed stays well-formed.\<close>

lemma finishPatch_ok:
  assumes "finishPatch patch key entry patched effective toml m = (r, m')" "managerInv m" "entryOk (key, entry)"
    "mi_owner entry = instanceOwnerWeb"
  shows "managerInv m' \<and> (\<forall>k. k \<noteq> key \<longrightarrow> lookupInstance m' k = lookupInstance m k) \<and> im_engine m' = im_engine m \<and>
    (if map_option mi_instance (lookupInstance m key) = Some (mi_instance entry)
     then r = patched \<and> (\<exists>new. lookupInstance m' key = Some new \<and> mi_owner new = instanceOwnerWeb \<and> mi_instance new = mi_instance entry)
     else m' = m \<and> (\<exists>e. r = Inl e))"
proof (cases "map_option mi_instance (lookupInstance m key) = Some (mi_instance entry)")
  case True
  let ?new = "entry\<lparr>mi_config := map_option (\<lambda>desired. mergeHostedConfigPatch desired effective patch) (mi_config entry),
    mi_configTOML := toml\<rparr>"
  have m': "r = patched" "m' = m\<lparr>im_instances := AList.update key ?new (im_instances m)\<rparr>"
    using assms(1) True unfolding finishPatch_def lookupInstance_def by simp_all
  have "entryOk (key, ?new)" using assms(3) by (simp add: entryOk_def)
  from managerInv_update [OF assms(2) this] show ?thesis
    using True m' assms(4) by (simp add: lookupInstance_def update_conv')
next
  case False
  then show ?thesis using assms(1,2) unfolding finishPatch_def lookupInstance_def Let_def by auto
qed

lemma applyPatch_ok:
  assumes "applyPatch E request patch key entry m = (r, m')" "managerInv m" "lookupInstance m key = Some entry"
    "mi_owner entry = instanceOwnerWeb"
  shows "managerInv m' \<and> applicationInstances m' = applicationInstances m"
proof -
  let ?engine = "hi_engine (mi_instance entry)"
  let ?patch = "callRPCRequest E RequestContext ?engine ''api.config.ConfigRpc.PatchConfig''
    (Some (pb_PatchConfigRequest E (request\<lparr>pa_Patch := Some (hostedConfigPatch patch)\<rparr>))) (pb_PatchConfigResponse E)"
  let ?get = "callRPCRequest E SnapshotContext ?engine ''api.config.ConfigRpc.GetConfig''
    (Some (pb_GetConfigRequest E (pa_Instance request))) (pb_GetConfigResponse E)"
  obtain patched m1 where p: "onEngine ?patch m = (patched, m1)" by (metis surj_pair)
  obtain snapshot m2 where g: "onEngine ?get m1 = (snapshot, m2)" by (metis surj_pair)
  have i2: "managerInv m2" "lookupInstance m2 = lookupInstance m" using onEngine_eq [OF p] onEngine_eq [OF g] assms(2) by auto
  note run = assms(1) [unfolded applyPatch_def Let_def p g prod.case, symmetric]
  have "m' = m2 \<or> (\<exists>c toml. finishPatch patch key entry patched c toml m2 = (r, m'))"
    using run by (auto split: sum.splits prod.splits option.splits if_splits)
  then show ?thesis
  proof (elim disjE exE)
    assume "m' = m2"
    then show ?thesis using i2 application_same [of m2 m] by simp
  next
    fix c toml
    assume f: "finishPatch patch key entry patched c toml m2 = (r, m')"
    note ok = finishPatch_ok [OF f i2(1) managerInv_lookup [OF assms(2,3)] assms(4), unfolded i2(2) assms(3), simplified]
    have "applicationInstances m' = applicationInstances m"
      by (rule application_unchanged [of key]) (use ok assms(3,4) in auto)
    then show ?thesis using ok by simp
  qed
qed

lemma patch_ok:
  assumes "patchConfig p E request m = (r, m')" "managerInv m"
  shows "managerInv m' \<and> applicationInstances m' = applicationInstances m"
proof -
  consider "m' = m" | patch uuid entry where "applyPatch E request patch (uuidString uuid) entry m = (r, m')"
      "lookupInstance m (uuidString uuid) = Some entry" "mi_owner entry = instanceOwnerWeb"
    using assms(1) unfolding patchConfig_def lookupInstance_def
    by (auto split: sum.splits option.splits if_splits)
  then show ?thesis
  proof cases
    case 1
    then show ?thesis using assms(2) by simp
  next
    case 2
    then show ?thesis using applyPatch_ok [OF 2(1) assms(2) 2(2,3)] by simp
  qed
qed

lemma run_ok:
  assumes "runNetworkInstance E request preparedConfig prepared m = (r, m')" "managerInv m"
  shows "managerInv m' \<and> applicationInstances m' = applicationInstances m"
proof (cases prepared)
  case None
  then have "m' = m" using assms(1) by (auto simp: runNetworkInstance_def split: option.splits if_splits)
  then show ?thesis using assms(2) by simp
next
  case (Some uuid)
  then show ?thesis using run_outcomes [of E request preparedConfig uuid m r m'] assms by simp
qed

lemma handleRequest_ok:
  assumes "handleRequest p E request preparedConfig prepared m = (r, m')" "managerInv m"
  shows "managerInv m' \<and> applicationInstances m' = applicationInstances m"
proof (cases request)
  case (RunNetworkInstance x)
  then show ?thesis using onFirst_eq run_ok assms by (metis handleRequest.simps(1))
next
  case (RetainNetworkInstance x)
  then show ?thesis using onFirst_eq retain_ok assms by (metis handleRequest.simps(2))
next
  case (CollectNetworkInfo x)
  obtain r0 where "collectNetworkInfo E x m = (r0, m')" using onFirst_eq assms(1) CollectNetworkInfo by (metis handleRequest.simps(3))
  then show ?thesis
    using onEngine_eq [of "collectLoop E (uuidSet x) (manager_snapshot m)" m r0 m'] assms(2) application_same [of m' m]
    by (simp add: collectNetworkInfo_def)
next
  case (DeleteNetworkInstance x)
  then show ?thesis using onFirst_eq delete_ok assms by (metis handleRequest.simps(5))
next
  case (PatchConfig x)
  then show ?thesis using onFirst_eq patch_ok assms by (metis handleRequest.simps(8))
qed (use assms in auto)

section \<open>Everything that happens to a host\<close>

lemma handle_ok:
  assumes "manager_handle p unmarshalEnvelope unmarshal E encoded m = (r, m')" "managerInv m"
  shows "managerInv m' \<and> applicationInstances m' = applicationInstances m"
proof -
  consider "m' = m" | request c u where "handleRequest p E request c u m = (r, m')"
    using assms(1) by (auto simp: manager_handle_def dispatch_def split: sum.splits option.splits)
  then show ?thesis
  proof cases
    case 1
    then show ?thesis using assms(2) by simp
  next
    case 2
    then show ?thesis using handleRequest_ok [OF 2 assms(2)] by simp
  qed
qed

lemma create_ok:
  assumes "Host_CreateInstance L E random config m = (r, m')" "managerInv m"
  shows "managerInv m'"
proof (cases "encodeInstanceConfig L config")
  case (Inl e)
  then show ?thesis using assms by (simp add: Host_CreateInstance_def)
next
  case (Inr toml)
  show ?thesis
  proof (cases "newInstanceUUID random")
    case (Inl e)
    then show ?thesis using assms Inr by (simp add: Host_CreateInstance_def)
  next
    case u: (Inr u)
    obtain uuid idString where ui: "u = (uuid, idString)" by (cases u)
    have ids: "idString = uuidString uuid" using u ui by (auto simp: newInstanceUUID_def Let_def split: sum.splits)
    define name where "name = (case config of Some document \<Rightarrow> cd_networkName document | None \<Rightarrow> [])"
    obtain x m1 where c: "onEngine (ho_CreateInstance E RequestContext (bindInstanceIdentity toml idString name)) m = (x, m1)"
      by (metis surj_pair)
    have i1: "managerInv m1" using onEngine_eq [OF c] assms(2) by simp
    note run = assms(1) [unfolded Host_CreateInstance_def Inr u ui sum.case prod.case name_def [symmetric] Let_def c]
    show ?thesis
    proof (cases x)
      case (Inl e)
      then show ?thesis using run i1 by simp
    next
      case x: (Inr runtime)
      let ?entry = "\<lparr>mi_id = uuid, mi_instance = \<lparr>hi_engine = runtime, hi_id = idString\<rparr>, mi_owner = instanceOwnerApplication,
        mi_config = None, mi_configTOML = [], mi_source = ConfigSourceUser, mi_name = name\<rparr>"
      obtain z m2 where g: "manager_register ?entry m1 = (z, m2)" by (metis surj_pair)
      have ok: "entryOk (uuidString (mi_id ?entry), ?entry)" by (simp add: entryOk_def ids)
      note reg = register_ok [OF g i1 ok]
      have i3: "managerInv (snd (onEngine f m2))" for f :: "'b \<Rightarrow> 'z \<times> 'b" using onEngine_eq [of f m2] reg by (metis prod.collapse)
      show ?thesis
      proof (cases z)
        case (Some e)
        then have "m' = snd (onEngine (ho_Close E DetachedContext runtime) m2)" using run x g by simp
        then show ?thesis using i3 by simp
      next
        case None
        then show ?thesis using run x g reg by simp
      qed
    qed
  qed
qed

text \<open>
  The steps of a host: a request of the web, what the application does, and the engine going on by itself. The parameters are
  those of the definitions: the empty answer to a patch, the decoders, and the engine.
\<close>

inductive managerStep ::
  "'m \<Rightarrow> (bytes \<Rightarrow> goerror + managementEnvelope) \<Rightarrow> (string \<Rightarrow> bytes \<Rightarrow> goerror + 'm managementRequest) \<Rightarrow> stdlib \<Rightarrow>
    ('m, 'w) engineHost \<Rightarrow> ('m, 'w) instanceManager \<Rightarrow> ('m, 'w) instanceManager \<Rightarrow> bool"
  for p unmarshalEnvelope unmarshal L E where
  step_web: "manager_handle p unmarshalEnvelope unmarshal E encoded m = (r, m') \<Longrightarrow> managerStep p unmarshalEnvelope unmarshal L E m m'"
| step_create: "Host_CreateInstance L E random config m = (created, m') \<Longrightarrow> managerStep p unmarshalEnvelope unmarshal L E m m'"
| step_closeInstance: "closeInstance E ctx inst m = (err, m') \<Longrightarrow> managerStep p unmarshalEnvelope unmarshal L E m m'"
| step_closeHost: "Host_Close E closeEngine m = (err, m') \<Longrightarrow> managerStep p unmarshalEnvelope unmarshal L E m m'"
| step_engineGoesOn: "managerStep p unmarshalEnvelope unmarshal L E m (m\<lparr>im_engine := w\<rparr>)"

definition newInstanceManager :: "'w \<Rightarrow> ('m, 'w) instanceManager" where
  "newInstanceManager w = \<lparr>im_instances = [], im_engine = w\<rparr>"

definition managerReachable ::
  "'m \<Rightarrow> (bytes \<Rightarrow> goerror + managementEnvelope) \<Rightarrow> (string \<Rightarrow> bytes \<Rightarrow> goerror + 'm managementRequest) \<Rightarrow> stdlib \<Rightarrow>
    ('m, 'w) engineHost \<Rightarrow> ('m, 'w) instanceManager \<Rightarrow> bool" where
  "managerReachable p unmarshalEnvelope unmarshal L E m \<longleftrightarrow>
     (\<exists>w. rtranclp (managerStep p unmarshalEnvelope unmarshal L E) (newInstanceManager w) m)"

lemma clear_ok: "managerInv (manager_clear m)"
  by (simp add: managerInv_def manager_clear_def)

lemma hostClose_ok:
  assumes "Host_Close E closeEngine m = (err, m')" "managerInv m"
  shows "managerInv m'"
proof -
  obtain x m1 where c: "onEngine closeEngine m = (x, m1)" by (metis surj_pair)
  show ?thesis using assms onEngine_eq [OF c] by (auto simp: Host_Close_def c clear_ok split: if_splits)
qed

lemma managerStep_inv: "managerStep p unmarshalEnvelope unmarshal L E m m' \<Longrightarrow> managerInv m \<Longrightarrow> managerInv m'"
proof (induction rule: managerStep.induct)
  case (step_web encoded m r m')
  then show ?case using handle_ok [of p unmarshalEnvelope unmarshal E encoded m r m'] by simp
next
  case (step_create random config m created m')
  then show ?case by (rule create_ok)
next
  case (step_closeInstance ctx inst m err m')
  then show ?case using closeInstance_ok [of E ctx inst m err m'] by simp
next
  case (step_closeHost closeEngine m err m')
  then show ?case by (rule hostClose_ok)
qed simp

lemma managerReachable_inv:
  assumes "managerReachable p unmarshalEnvelope unmarshal L E m"
  shows "managerInv m"
proof -
  obtain w where "rtranclp (managerStep p unmarshalEnvelope unmarshal L E) (newInstanceManager w) m"
    using assms by (auto simp: managerReachable_def)
  then show ?thesis
  proof (induction rule: rtranclp_induct)
    case base
    show ?case by (simp add: managerInv_def newInstanceManager_def)
  next
    case (step y z)
    then show ?case by (blast intro: managerStep_inv)
  qed
qed

lemma instanceIDs_ascending:
  assumes "managerInv m"
  shows "sorted_wrt (<) (map uuidString (instanceIDs m))"
proof -
  let ?text = "\<lambda>entry. uuidString (mi_id entry)"
  have keys: "map ?text (map snd (im_instances m)) = map fst (im_instances m)"
    using assms by (auto simp: managerInv_def entryOk_def)
  have "map uuidString (instanceIDs m) = map ?text (sort_key ?text (map snd (im_instances m)))"
    by (simp add: instanceIDs_def manager_snapshot_def)
  moreover have "distinct (map ?text (sort_key ?text (map snd (im_instances m))))"
    using assms [unfolded managerInv_def, THEN conjunct1] unfolding keys [symmetric] by (simp add: distinct_map) (meson comp_inj_on_iff inj_on_imageI inj_on_imageI2)
  ultimately show ?thesis by (simp add: strict_sorted_iff)
qed

text \<open>C38: Whatever the web management asks, in every state that the application and the web can bring a host to, it spares the
  application's instances. Of the calls it makes on the engine, in order, each that starts, closes or configures an instance goes to
  one that is filed as the web's when the request comes, or that was made in the course of the request; all that may reach any
  other instance is one of the four questions of the status report. The application's entries stay exactly as they were; every
  instance stays filed under the text of its identifier, the web's with a configuration and the application's without; and the
  identifiers that are listed are strictly ascending, so none is listed twice.\<close>

theorem web_management_spares_applications:
  assumes "managerReachable p unmarshalEnvelope unmarshal L (logged E) m"
    "manager_handle p unmarshalEnvelope unmarshal (logged E) encoded m = (r, m')"
  shows "(\<exists>calls. snd (im_engine m') = snd (im_engine m) @ calls \<and> permitted E (webEngines m) calls) \<and>
    applicationInstances m' = applicationInstances m \<and> managerInv m' \<and> sorted_wrt (<) (map uuidString (instanceIDs m'))"
  using handle_allows [OF assms(2)] handle_ok [OF assms(2) managerReachable_inv [OF assms(1)]] instanceIDs_ascending by auto

section \<open>A host at work\<close>

text \<open>An engine that starts whatever it is given; its state is the number of instances it has made.\<close>

definition demoEngine :: "(unit, nat) engineHost" where
  "demoEngine =
     \<lparr>ho_CreateInstance = (\<lambda>ctx toml w. (Inr w, Suc w)), ho_Start = (\<lambda>ctx i w. (None, w)), ho_Close = (\<lambda>ctx i w. (None, w)),
      ho_RPC = (\<lambda>ctx i request w. (Inr [], w)), ho_TerminalError = (\<lambda>i w. None), ho_State = (\<lambda>i w. 2),
      ho_ManagementEvents = (\<lambda>i w. []), ho_ctxErr = (\<lambda>ctx w. None), ho_Until = (\<lambda>ctx w. None),
      pb_DirectRpcRequest = (\<lambda>method payload timeout. Inr payload), pb_RpcResponse = (\<lambda>encoded. Inr (False, encoded)),
      pb_PatchConfigRequest = (\<lambda>request. Inr []), pb_PatchConfigResponse = (\<lambda>encoded. Inr ()),
      pb_GetConfigRequest = (\<lambda>instId. Inr []), pb_GetConfigResponse = (\<lambda>encoded. Inr (None, [])),
      pb_ListPeerResponse = (\<lambda>encoded. Inr []), pb_ListRouteResponse = (\<lambda>encoded. Inr []),
      pb_ShowNodeInfoResponse = (\<lambda>encoded. Inr None), pb_ForeignNetworkSummary = (\<lambda>encoded. Inr None),
      sort_Slice = (\<lambda>less pairs. pairs)\<rparr>"

definition demoUUID :: UUID where
  "demoUUID = \<lparr>Part1 = 1, Part2 = 2, Part3 = 3, Part4 = 4\<rparr>"

definition demoNetworkConfig :: "unit networkConfig" where
  "demoNetworkConfig =
     \<lparr>nc_InstanceId = None, nc_NetworkName = Some [0x61], nc_DevName = None, nc_PortForwards = [], nc_Acl = None, nc_ProxyCidrs = [],
      nc_DisableRelayData = None, nc_rest = ()\<rparr>"

definition demoRunRequest :: "unit runRequest" where
  "demoRunRequest = \<lparr>rn_Config = Some demoNetworkConfig, rn_Overwrite = False, rn_Source = 0\<rparr>"

text \<open>Run on a host that has nothing.\<close>

lemma demo_run:
  "\<exists>m'. runNetworkInstance demoEngine demoRunRequest [1] (Some demoUUID) (newInstanceManager 0) = (Inr (Some demoUUID), m')"
proof
  have "fst (runNetworkInstance demoEngine demoRunRequest [1] (Some demoUUID) (newInstanceManager 0)) = Inr (Some demoUUID)" by code_simp
  then show "runNetworkInstance demoEngine demoRunRequest [1] (Some demoUUID) (newInstanceManager 0) =
      (Inr (Some demoUUID), snd (runNetworkInstance demoEngine demoRunRequest [1] (Some demoUUID) (newInstanceManager 0)))"
    by (simp add: prod_eq_iff)
qed

theorem run_network_instance_outcomes_witness:
  "\<exists>m' entry. runNetworkInstance demoEngine demoRunRequest [1] (Some demoUUID) (newInstanceManager 0) = (Inr (Some demoUUID), m') \<and>
     lookupInstance m' (uuidString demoUUID) = Some entry \<and> mi_owner entry = instanceOwnerWeb"
proof -
  obtain m' where run: "runNetworkInstance demoEngine demoRunRequest [1] (Some demoUUID) (newInstanceManager 0) = (Inr (Some demoUUID), m')"
    using demo_run by blast
  have "managerInv (newInstanceManager 0 :: (unit, nat) instanceManager)" by (simp add: managerInv_def newInstanceManager_def)
  from run_network_instance_outcomes [OF run this] show ?thesis using run by auto
qed

text \<open>An application's instance, then one of the web, and a request of the web to keep nothing.\<close>

definition demoRandom :: bytes where
  "demoRandom = [1, 2, 3, 4, 5, 6, 7, 8, 9, 10, 11, 12, 13, 14, 15, 16]"

text \<open>A request is one byte: 1 to run an instance, anything else to keep none.\<close>

definition demoEnvelope :: "bytes \<Rightarrow> goerror + managementEnvelope" where
  "demoEnvelope encoded =
     Inr \<lparr>en_Rpc = Some (lit ''api.manage.WebClientService.RunNetworkInstance'', encoded), en_PreparedConfig = [1],
          en_PreparedInstanceID = Some demoUUID\<rparr>"

definition demoUnmarshal :: "string \<Rightarrow> bytes \<Rightarrow> goerror + unit managementRequest" where
  "demoUnmarshal method encoded = Inr (if encoded = [1] then RunNetworkInstance demoRunRequest else RetainNetworkInstance [])"

definition demoManager1 :: "(unit, nat \<times> engineCall list) instanceManager" where
  "demoManager1 =
     snd (Host_CreateInstance demoLib (logged demoEngine) (Inr demoRandom) (Some (bd_document demoBuilder)) (newInstanceManager (0, [])))"

definition demoManager :: "(unit, nat \<times> engineCall list) instanceManager" where
  "demoManager = snd (manager_handle () demoEnvelope demoUnmarshal (logged demoEngine) [1] demoManager1)"

lemma demoManager_reachable: "managerReachable () demoEnvelope demoUnmarshal demoLib (logged demoEngine) demoManager"
  unfolding managerReachable_def
proof
  let ?step = "managerStep () demoEnvelope demoUnmarshal demoLib (logged demoEngine)"
  have "?step (newInstanceManager (0, [])) demoManager1"
    unfolding demoManager1_def by (rule step_create [OF prod.collapse [symmetric]])
  moreover have "?step demoManager1 demoManager"
    unfolding demoManager_def by (rule step_web [OF prod.collapse [symmetric]])
  ultimately show "rtranclp ?step (newInstanceManager (0, [])) demoManager" by (meson rtranclp.simps)
qed

lemma demoManager_entries:
  "map (\<lambda>(key, entry). (mi_owner entry, hi_engine (mi_instance entry))) (im_instances demoManager) =
     [(instanceOwnerApplication, 0), (instanceOwnerWeb, 1)]"
  by code_simp

lemma demoManager_retain:
  "snd (im_engine (snd (manager_handle () demoEnvelope demoUnmarshal (logged demoEngine) [] demoManager))) =
     snd (im_engine demoManager) @ [CallClose 1]"
  by code_simp

theorem web_management_spares_applications_witness:
  "\<exists>r m' calls. managerReachable () demoEnvelope demoUnmarshal demoLib (logged demoEngine) demoManager \<and>
     manager_handle () demoEnvelope demoUnmarshal (logged demoEngine) [] demoManager = (r, m') \<and> webEngines demoManager = {1} \<and>
     snd (im_engine m') = snd (im_engine demoManager) @ calls \<and> calls = [CallClose 1] \<and> permitted demoEngine {1} calls \<and>
     applicationInstances m' = applicationInstances demoManager"
proof -
  obtain r m' where h: "manager_handle () demoEnvelope demoUnmarshal (logged demoEngine) [] demoManager = (r, m')" by (metis surj_pair)
  obtain k1 e1 k2 e2 where e: "im_instances demoManager = [(k1, e1), (k2, e2)]" "mi_owner e1 = instanceOwnerApplication"
    "mi_owner e2 = instanceOwnerWeb" "hi_engine (mi_instance e2) = 1"
    using demoManager_entries by (auto simp: map_eq_Cons_conv)
  have web: "webEngines demoManager = {1}" by (simp add: webEngines_def e)
  have log: "snd (im_engine m') = snd (im_engine demoManager) @ [CallClose 1]" using demoManager_retain h by simp
  from web_management_spares_applications [OF demoManager_reachable h] log web demoManager_reachable h show ?thesis by auto
qed

end
