(* ===== verification/Spec2Isabelle.thy ===== *)
theory Spec2Isabelle
  imports HostWireSafe ReactorStreamInv ReactorUdpInv HostAbiSpec EngineSpec EngineConn EngineHost HostNet HostManagerSpec
begin

text \<open>
  \<^bold>\<open>A verification development for easytier-go.\<close>
  The library runs EasyTier, a mesh VPN compiled to WebAssembly, inside a Go process. The guest cannot open sockets, resolve
  names or wait: it asks the host and is called again when something is complete. The program is what lies between an
  application and the guest, and it has these parts, from the guest upwards.

  \<^item> The \<^emph>\<open>host ABI\<close> (internal/hostabi) is the set of functions the guest imports. Each decodes its arguments from the
    guest's memory, calls the reactor and writes a status or a result back.
  \<^item> The \<^emph>\<open>reactor\<close> (internal/reactor) owns sockets, operations and handles. Blocking calls run in its goroutines; the
    guest starts an operation under an identifier, is told when it is ready, and takes the result.
  \<^item> The \<^emph>\<open>core ABI\<close> (internal/coreabi) wraps the functions the guest exports: it allocates buffers in the guest, submits
    operations of the data plane, drains completions and takes their results.
  \<^item> The \<^emph>\<open>engine\<close> (internal/engine) has one driver goroutine per instance, which alone calls the guest, and callers that
    reach it through channels; on top of them the net.Conn, net.Listener and net.PacketConn of an instance, and a host that
    creates instances and a web client.
  \<^item> The \<^emph>\<open>host\<close> (internal/host, which the package at the root of the repository re-exports) has the table of instances,
    the requests of a remote configuration server, the builder of configurations and the networks an application dials.

  \<^bold>\<open>Conventions.\<close> \<open>Prelude\<close> has Go's outcomes: \<open>goerror + 'a\<close> for a call that returns an error, and
  \<open>'a outcome\<close> (a value, an error, or \<open>Panic\<close>) where an index or a conversion can panic. Integers whose width matters are words
  (\<open>u8\<close> to \<open>u64\<close>), durations and the lengths the code keeps as \<^verbatim>\<open>int\<close> are \<open>int\<close> or \<open>nat\<close> with their bounds
  stated, byte slices and strings are byte lists. \<open>GoNet\<close> has what is used of net and net/netip, \<open>Platform\<close> the
  option records of platform/socket.go and dns.go and the policy checks of platform/netstd/netstd.go. Objects that several
  goroutines reach through pointers live in stores indexed by references, in records of the state.
  Where a name of the source clashes with another it has its package or type as a prefix
  (\<open>streamConn_Write\<close>, \<open>host_Dial\<close>, \<open>builder_IPv4\<close>).

  \<^bold>\<open>The reactor.\<close> \<open>ReactorState\<close> holds the record of reactor.go (tables of operations by kind, tables of handles,
  claims, waiters), the objects behind it and the helpers; \<open>ReactorStream\<close>, \<open>ReactorUdp\<close>, \<open>ReactorListener\<close>,
  \<open>ReactorPacket\<close> (packet.go and event.go), \<open>ReactorFactory\<close> and \<open>ReactorQuery\<close> (dns.go, environment.go, management.go)
  one file each, an operation or a locked section of a goroutine per definition; \<open>Reactor\<close> cancellation and closing, where
  closing a handle is in parts, because connections and channels are closed after the lock has been released.
  \<open>ReactorStep\<close> is the state machine: a transition is a call of the interface, or what a goroutine does after its
  blocking call returned with any result, in any order. \<open>ReactorFrame\<close> shows what each operation leaves alone. The
  invariants follow: tables of operations are exact (\<open>ReactorTables\<close>), handles name one object and a closed reactor is
  empty (\<open>ReactorHandles\<close>), pending reads and writes of streams are served in order and by one goroutine each
  (\<open>ReactorStreamInv\<close>), waiters are recorded where they wait (\<open>ReactorWaiters\<close>), and datagram queues are bounded
  by 64 and their waiters are woken (\<open>ReactorUdpInv\<close>). The loop that writes a request terminates because each round
  either ends it or writes a byte.

  \<^bold>\<open>The host ABI.\<close> \<open>HostWire\<close> is udp_wire.go, socket_wire.go and dns_wire.go; \<open>HostWireSpec\<close> states the grammars and
  that the decoders accept exactly them, \<open>HostWireSafe\<close> that they do not panic where \<^verbatim>\<open>int\<close> has 64 bits.
  \<open>HostCrypto\<close> is crypto.go with the status codes, \<open>HostCryptoSpec\<close> refines its cache of ciphers to a queue of at
  most 64 keys. \<open>HostAbi\<close> has every imported function; \<open>HostAbiTotal\<close> shows that none panics where \<^verbatim>\<open>int\<close> has 64 bits, \<open>HostAbiSpec\<close>
  that whatever the guest passes, each makes at most one call of the reactor's interface and closes the handle it made if it
  cannot hand it over, so that the invariants of the reactor hold against every guest.

  \<^bold>\<open>The core ABI.\<close> \<open>CoreWire\<close> is dataplane_wire.go with the exactness of its decoders, \<open>CoreGuest\<close> core.go, \<open>CoreData\<close>
  dataplane.go, \<open>CoreRpc\<close> rpc.go and web_client.go. \<open>CoreBuffers\<close> and \<open>CoreSafety\<close> show that every buffer allocated in the
  guest is freed once, \<open>CoreSpec\<close> that what is taken from the guest is well-formed, \<open>CoreTotal\<close> that no call panics,
  whatever the guest answers, in the wrapper of an instance and in that of a web client. The bounds are the code's: 64 completions in a batch, 16 MiB for an answer.

  \<^bold>\<open>The engine.\<close> \<open>EngineState\<close> is the state of an instance, with the arithmetic of deadlines and the journal of at most 256
  events; \<open>EngineDriver\<close> the cases of the driver's select statement (instance.go, dataplane.go, rpc.go), each followed by
  the drive step that delivers completions and answers of remote calls; \<open>EngineCaller\<close> the callers as machines whose
  states are their select statements, and the system of a driver and its callers as a step relation. \<open>EngineInv\<close>
  and \<open>EngineSpec\<close> show that an outcome is sent at most once on a channel and that whoever waits for an operation or a resource has somebody who
  will answer, as long as the guest gives no operation an identifier that is still in use (\<open>freshOperation\<close>; the code would
  overwrite the pending entry); \<open>EngineBatch\<close> that packets are taken in batches of at most 32, sent in order, and each is
  answered with its own error. \<open>EngineConn\<close> has the connections
  (conn.go, listener.go, packet_conn.go) over the three entry points of an instance; \<open>writeTrace\<close> says
  what a call of \<^verbatim>\<open>Write\<close> submits and how its result follows from the answers; writing in chunks of at most 1 MiB
  terminates because each round sends at least a byte or ends, reading a datagram may retry for ever and is a partial function.
  \<open>EngineHost\<close> is host.go, web_client.go and config.go: creating and closing instances, the driver of the web client, the
  JSON a guest is created from, and starting, stopping and closing an instance as machines.

  \<^bold>\<open>The host.\<close> \<open>HostConfig\<close> is the builder, its validation and the TOML text (instance_config.go,
  instance_config_toml.go); \<open>HostConfigSpec\<close> reads the text back, the lines by table and key and the
  strings as TOML defines them. \<open>HostManager\<close> is the table of
  instances with every request of the web management (management.go, rpc.go and the parts of host.go that create, list and
  close). \<open>HostManagerCalls\<close> follows the calls that reach the engine through one that records them, \<open>HostManagerSpec\<close> shows
  that management neither changes an entry of the application nor starts, closes or configures its instances, and what
  running an instance can end in. \<open>HostNet\<close> is the names of networks and the addresses host.go accepts, and what is dialled or bound.

  \<^bold>\<open>Interfaces.\<close> The locale \<open>codec\<close>, with \<open>fixed_codec\<close> for encodings of one length, is the contract of a wire format:
  well-formed values decode to themselves and nothing else decodes. It is interpreted on the formats of both ABIs.
  \<open>guest_memory\<close> is what the imports rely on of the guest's memory, interpreted on linear memory; \<open>guest_allocator\<close> what the
  wrapper relies on of the guest's allocator, interpreted on a guest that keeps it. The laws of the last two concern
  code outside the repository: properties that rest on them have them as hypotheses.

  \<^bold>\<open>Parameters.\<close> The guest module, the operating system's answers (results of socket calls, names, interface table, error
  numbers), AES-GCM, and, for configurations and management, the grammars of URLs and addresses, X25519, base64, the
  protocol buffers and the order of \<^verbatim>\<open>sort.Slice\<close> are arguments of the definitions that use them. The engine's host is a
  record of calls in \<open>HostManager\<close>, an instance a record of three calls in \<open>EngineConn\<close>, and nothing is assumed of either; so their
  clients' properties hold for every behaviour of them.

  \<^bold>\<open>Not modelled.\<close> Starting and stopping the WebAssembly runtime and the registration of the imported functions by name;
  the socket calls of platform/netstd; generated code, commands, examples and the embedded binary; the stand-ins for newer
  functions of package context (a context is the error it has ended with); redacted printing; methods that only check
  for a nil receiver and forward. The wire formats are modelled for an \<^verbatim>\<open>int\<close> of 32 and of 64 bits, the reactor for 64 bits only. A driver step ignores a panic of the wrapper, which \<open>CoreTotal\<close> shows never to happen. That
  a caller of a remote procedure does not wait in vain is not proved, as it is for data plane operations and commands. The
  locks that serialise calls of one direction of a connection, and the one that serialises the management's changes, are
  taken as given: a call or request runs to its end before the next, also where the code would let an application's own call
  run beside a request; \<open>finishPatch\<close>, which the code runs on a table that may have changed, is stated for every table. The copy a builder makes of its document is the
  identity, since values are not shared.
\<close>

end
